(* ===== verification/Prelude.thy ===== *)
theory Prelude
  imports
    Main
    "HOL-Library.Char_ord"
    "HOL-Library.List_Lexorder"
    "HOL-Library.Product_Lexorder"
    "HOL-Library.Multiset"
begin

text \<open>
  Shared vocabulary of the development: the types that stand for Go's basic types, the
  fragment of Go's standard library the modelled packages use (string functions, decimal
  printing, 64-bit wrap-around, UTF-8 decoding), SQL tables as lists of rows, and the generic
  lemmas and locales the component theories rest on.

  A Go string or byte slice is a \<^typ>\<open>string\<close> (one \<^typ>\<open>char\<close> per byte); the order on
  strings is the byte-wise lexicographic one of the library's \<open>List_Lexorder\<close>, which is Go's
  \<^verbatim>\<open><\<close> on strings and SQLite's BINARY collation. A \<^verbatim>\<open>time.Time\<close> is an \<^typ>\<open>int\<close>, the
  nanoseconds since the Unix epoch; a column holding Unix seconds is an \<^typ>\<open>int\<close> as well.
\<close>

section \<open>Collections of rewrite rules\<close>

named_theorems go_simps \<open>evaluation rules for the modelled fragment of Go's standard library\<close>
named_theorems store_simps \<open>unfolding rules of the store's operations\<close>

section \<open>Basic types\<close>

type_synonym gotime = int
type_synonym ('e, 'a) result = "'e + 'a"

text \<open>\<^verbatim>\<open>t.Unix()\<close> and \<^verbatim>\<open>time.Unix(s, 0)\<close>.\<close>

definition unix_of :: "gotime \<Rightarrow> int" where
  "unix_of t = t div 1000000000"

definition time_unix :: "int \<Rightarrow> gotime" where
  "time_unix s = s * 1000000000"

lemma unix_of_time_unix [simp]: "unix_of (time_unix s) = s"
  by (simp add: unix_of_def time_unix_def)

lemma unix_of_mono: "a \<le> b \<Longrightarrow> unix_of a \<le> unix_of b"
  by (simp add: unix_of_def zdiv_mono1)

lemma unix_of_add_seconds [simp]: "unix_of (t + s * 1000000000) = unix_of t + s"
  by (simp add: unix_of_def)

text \<open>Signed 64-bit wrap-around: the value Go's \<^verbatim>\<open>int64\<close> arithmetic leaves.\<close>

definition wrap64 :: "int \<Rightarrow> int" where
  "wrap64 x = (x + 2 ^ 63) mod 2 ^ 64 - 2 ^ 63"

lemma wrap64_bounds: "- (2 ^ 63) \<le> wrap64 x \<and> wrap64 x < 2 ^ 63"
proof -
  have "0 \<le> (x + 2 ^ 63) mod (2 ^ 64 :: int)" "(x + 2 ^ 63) mod (2 ^ 64 :: int) < 2 ^ 64"
    by simp_all
  then show ?thesis by (simp add: wrap64_def)
qed

lemma wrap64_id: "- (2 ^ 63) \<le> x \<Longrightarrow> x < 2 ^ 63 \<Longrightarrow> wrap64 x = x"
  by (simp add: wrap64_def)

section \<open>Strings\<close>

definition has_prefix :: "string \<Rightarrow> string \<Rightarrow> bool" where
  "has_prefix p s \<longleftrightarrow> take (length p) s = p"

definition has_suffix :: "string \<Rightarrow> string \<Rightarrow> bool" where
  "has_suffix p s \<longleftrightarrow> length p \<le> length s \<and> drop (length s - length p) s = p"

lemma has_prefix_iff: "has_prefix p s \<longleftrightarrow> (\<exists>r. s = p @ r)"
  by (metis append_eq_conv_conj append_take_drop_id has_prefix_def)

lemma has_prefix_append [simp]: "has_prefix p (p @ r)"
  by (simp add: has_prefix_def)

text \<open>\<^verbatim>\<open>strings.Index\<close>: the first offset of a substring; \<^term>\<open>None\<close> is Go's \<open>-1\<close>.\<close>

fun index_of :: "string \<Rightarrow> string \<Rightarrow> nat option" where
  "index_of pat [] = (if pat = [] then Some 0 else None)"
| "index_of pat (c # cs) =
     (if has_prefix pat (c # cs) then Some 0 else map_option Suc (index_of pat cs))"

definition contains :: "string \<Rightarrow> string \<Rightarrow> bool" where
  "contains s pat \<longleftrightarrow> index_of pat s \<noteq> None"

text \<open>A byte that the pattern does not hold separates the places where it can occur.\<close>

lemma has_prefix_Cons: "has_prefix (a # p) s \<longleftrightarrow> (\<exists>t. s = a # t \<and> has_prefix p t)"
  by (cases s) (auto simp: has_prefix_def)

lemma has_prefix_before: "c \<notin> set p \<Longrightarrow> has_prefix p (s @ c # t) = has_prefix p s"
proof (induction p arbitrary: s)
  case (Cons a p)
  then show ?case by (cases s) (auto simp: has_prefix_Cons)
qed (simp add: has_prefix_def)

lemma index_of_before:
  "c \<notin> set p \<Longrightarrow> p \<noteq> [] \<Longrightarrow> index_of p (s @ c # t) =
     (case index_of p s of Some i \<Rightarrow> Some i | None \<Rightarrow> map_option (\<lambda>k. length s + 1 + k) (index_of p t))"
proof (induction s)
  case Nil
  then have "\<not> has_prefix p (c # t)" by (cases p) (auto simp: has_prefix_def)
  then show ?case using Nil by (cases "index_of p t") simp_all
next
  case (Cons a s)
  then show ?case using has_prefix_before [of c p "a # s" t]
    by (cases "index_of p s"; cases "index_of p t") auto
qed

lemma index_of_hd: "p \<noteq> [] \<Longrightarrow> hd p \<notin> set s \<Longrightarrow> index_of p s = None"
  by (induction s) (cases p; auto simp: has_prefix_def)+

lemma index_of_head [simp]: "index_of p (p @ s) = Some 0"
  using has_prefix_append [of p s] by (cases "p @ s") simp_all

text \<open>\<^verbatim>\<open>strings.Split\<close> and \<^verbatim>\<open>strings.SplitN\<close> on a one-byte separator. \<open>split_n k\<close> makes at
  most \<open>k + 1\<close> fields, so \<^verbatim>\<open>SplitN(s, sep, 3)\<close> is \<open>split_n 2\<close>.\<close>

fun split_char :: "char \<Rightarrow> string \<Rightarrow> string list" where
  "split_char d [] = [[]]"
| "split_char d (c # cs) =
     (if c = d then [] # split_char d cs
      else case split_char d cs of [] \<Rightarrow> [[c]] | f # fs \<Rightarrow> (c # f) # fs)"

fun split_n :: "nat \<Rightarrow> char \<Rightarrow> string \<Rightarrow> string list" where
  "split_n 0 d s = [s]"
| "split_n (Suc k) d [] = [[]]"
| "split_n (Suc k) d (c # cs) =
     (if c = d then [] # split_n k d cs
      else case split_n (Suc k) d cs of [] \<Rightarrow> [[c]] | f # fs \<Rightarrow> (c # f) # fs)"

fun join_with :: "string \<Rightarrow> string list \<Rightarrow> string" where
  "join_with sep [] = []"
| "join_with sep [s] = s"
| "join_with sep (s # t # ss) = s @ sep @ join_with sep (t # ss)"

lemma split_char_nonempty [simp]: "split_char d s \<noteq> []"
  by (induction s) (auto split: list.splits)

lemma split_n_nonempty [simp]: "split_n k d s \<noteq> []"
  by (induction k d s rule: split_n.induct) (auto split: list.splits)

lemma split_char_no_sep: "d \<notin> set s \<Longrightarrow> split_char d s = [s]"
  by (induction s) auto

lemma split_char_field:
  "d \<notin> set f \<Longrightarrow> split_char d (f @ d # s) = f # split_char d s"
  by (induction f) auto

lemma split_char_join: "join_with [d] (split_char d s) = s"
proof (induction s)
  case (Cons c cs)
  obtain f fs where fs: "split_char d cs = f # fs"
    using split_char_nonempty by (meson neq_Nil_conv)
  with Cons show ?case by (cases fs) auto
qed simp

lemma split_char_join_with:
  "list_all (\<lambda>s. d \<notin> set s) ss \<Longrightarrow> ss \<noteq> [] \<Longrightarrow> split_char d (join_with [d] ss) = ss"
  by (induction "[d]" ss rule: join_with.induct) (auto simp: split_char_no_sep split_char_field)

lemma split_char_snoc: "split_char d (s @ [d]) = split_char d s @ [[]]"
proof (induction s)
  case (Cons c s)
  obtain f fs where "split_char d s = f # fs" using split_char_nonempty by (meson neq_Nil_conv)
  with Cons show ?case by simp
qed simp

lemma split_char_no_sep_in: "f \<in> set (split_char d s) \<Longrightarrow> d \<notin> set f"
proof (induction s arbitrary: f)
  case (Cons c s)
  obtain g gs where "split_char d s = g # gs" using split_char_nonempty by (meson neq_Nil_conv)
  with Cons show ?case by (auto split: if_splits)
qed simp

lemma split_n_field:
  "d \<notin> set f \<Longrightarrow> split_n (Suc k) d (f @ d # s) = f # split_n k d s"
  by (induction f) auto

lemma split_n_no_sep: "d \<notin> set s \<Longrightarrow> split_n k d s = [s]"
proof (induction s)
  case Nil
  then show ?case by (cases k) auto
next
  case (Cons c cs)
  then show ?case by (cases k) auto
qed

lemma split_n_join: "join_with [d] (split_n k d s) = s"
proof (induction k d s rule: split_n.induct)
  case (3 k d c cs)
  obtain f fs where fs: "split_n (Suc k) d cs = f # fs"
    using split_n_nonempty by (meson neq_Nil_conv)
  obtain g gs where gs: "split_n k d cs = g # gs"
    using split_n_nonempty by (meson neq_Nil_conv)
  from 3 fs gs show ?case by (cases fs) auto
qed auto

text \<open>\<^verbatim>\<open>strings.ToLower\<close> on ASCII text.\<close>

definition lower_char :: "char \<Rightarrow> char" where
  "lower_char c = (let n = of_char c :: nat in if 65 \<le> n \<and> n \<le> 90 then char_of (n + 32) else c)"

definition to_lower :: "string \<Rightarrow> string" where
  "to_lower s = map lower_char s"

text \<open>Decimal printing (\<^verbatim>\<open>%d\<close>).\<close>

definition digit_char :: "nat \<Rightarrow> char" where
  "digit_char n = char_of (48 + n)"

fun dec_nat :: "nat \<Rightarrow> string" where
  "dec_nat n = (if n < 10 then [digit_char n] else dec_nat (n div 10) @ [digit_char (n mod 10)])"

declare dec_nat.simps [simp del]

definition dec_int :: "int \<Rightarrow> string" where
  "dec_int z = (if z < 0 then CHR ''-'' # dec_nat (nat (- z)) else dec_nat (nat z))"

definition is_digit :: "char \<Rightarrow> bool" where
  "is_digit c \<longleftrightarrow> (let n = of_char c :: nat in 48 \<le> n \<and> n \<le> 57)"

definition digit_val :: "char \<Rightarrow> nat" where
  "digit_val c = of_char c - 48"

definition dec_value :: "string \<Rightarrow> nat" where
  "dec_value s = foldl (\<lambda>a c. 10 * a + digit_val c) 0 s"

lemma digit_char_props: "n < 10 \<Longrightarrow> is_digit (digit_char n) \<and> digit_val (digit_char n) = n"
  by (simp add: is_digit_def digit_val_def digit_char_def Let_def)

lemma dec_nat_nonempty: "dec_nat n \<noteq> []"
  by (subst dec_nat.simps) simp

lemma dec_nat_digits: "\<forall>c \<in> set (dec_nat n). is_digit c"
proof (induction n rule: dec_nat.induct)
  case (1 n)
  then show ?case
    by (subst dec_nat.simps) (auto simp: digit_char_props)
qed

lemma dec_value_dec_nat: "dec_value (dec_nat n) = n"
proof (induction n rule: dec_nat.induct)
  case (1 n)
  then show ?case
    by (subst dec_nat.simps) (auto simp: dec_value_def digit_char_props)
qed

lemma dec_nat_inject: "dec_nat m = dec_nat n \<Longrightarrow> m = n"
  by (metis dec_value_dec_nat)

text \<open>Lower-case hexadecimal printing of bytes (\<^verbatim>\<open>%x\<close>).\<close>

definition hex_digit :: "nat \<Rightarrow> char" where
  "hex_digit n = ''0123456789abcdef'' ! n"

definition hex_byte :: "char \<Rightarrow> string" where
  "hex_byte c = (let n = of_char c :: nat in [hex_digit (n div 16), hex_digit (n mod 16)])"

definition hex_encode :: "string \<Rightarrow> string" where
  "hex_encode b = concat (map hex_byte b)"

lemma hex_digit_inject: "m < 16 \<Longrightarrow> n < 16 \<Longrightarrow> hex_digit m = hex_digit n \<Longrightarrow> m = n"
proof -
  have d: "distinct ''0123456789abcdef''" by simp
  show "m < 16 \<Longrightarrow> n < 16 \<Longrightarrow> hex_digit m = hex_digit n \<Longrightarrow> m = n"
    using nth_eq_iff_index_eq [OF d, of m n] by (simp add: hex_digit_def)
qed

lemma hex_byte_inject:
  assumes "hex_byte c = hex_byte d"
  shows "c = d"
proof -
  have b: "(of_char x :: nat) div 16 < 16" for x :: char
    using nat_of_char_less_256 [of x] by linarith
  have "(of_char c :: nat) div 16 = of_char d div 16" "(of_char c :: nat) mod 16 = of_char d mod 16"
    using assms hex_digit_inject b by (auto simp: hex_byte_def Let_def)
  then have "(of_char c :: nat) = of_char d" by (metis div_mult_mod_eq)
  then show ?thesis by simp
qed

lemma length_hex_byte [simp]: "length (hex_byte c) = 2"
  by (simp add: hex_byte_def Let_def)

lemma length_hex_encode: "length (hex_encode b) = 2 * length b"
  by (induction b) (simp_all add: hex_encode_def)

lemma hex_encode_inject: "hex_encode a = hex_encode b \<Longrightarrow> a = b"
proof (induction a arbitrary: b)
  case Nil
  then have "length (hex_encode b) = 0" by (simp add: hex_encode_def)
  then show ?case by (simp add: length_hex_encode)
next
  case (Cons c a)
  have "length (hex_encode b) = length (hex_encode (c # a))" using Cons.prems by simp
  then obtain d b' where b: "b = d # b'" by (cases b) (simp_all add: length_hex_encode)
  with Cons.prems have "hex_byte c = hex_byte d \<and> hex_encode a = hex_encode b'"
    by (simp add: hex_encode_def)
  with Cons.IH b show ?case using hex_byte_inject by blast
qed

section \<open>UTF-8\<close>

text \<open>\<^verbatim>\<open>for _, r := range s\<close>: the runes of a string, each with the bytes it was decoded
  from; an invalid byte decodes to U+FFFD with width 1, as \<^verbatim>\<open>utf8.DecodeRune\<close> does.\<close>

definition cont_byte :: "nat \<Rightarrow> bool" where
  "cont_byte n \<longleftrightarrow> 128 \<le> n \<and> n \<le> 191"

fun decode_rune :: "nat list \<Rightarrow> nat \<times> nat" where
  "decode_rune [] = (65533, 0)"
| "decode_rune (b # bs) =
     (if b < 128 then (b, 1)
      else case bs of
        [] \<Rightarrow> (65533, 1)
      | c # cs \<Rightarrow>
          if 194 \<le> b \<and> b \<le> 223 \<and> cont_byte c then ((b - 192) * 64 + (c - 128), 2)
          else (case cs of
            [] \<Rightarrow> (65533, 1)
          | d # ds \<Rightarrow>
              if 224 \<le> b \<and> b \<le> 239 \<and> cont_byte c \<and> cont_byte d
                 \<and> (b = 224 \<longrightarrow> 160 \<le> c) \<and> (b = 237 \<longrightarrow> c \<le> 159)
              then ((b - 224) * 4096 + (c - 128) * 64 + (d - 128), 3)
              else (case ds of
                [] \<Rightarrow> (65533, 1)
              | e # es \<Rightarrow>
                  if 240 \<le> b \<and> b \<le> 244 \<and> cont_byte c \<and> cont_byte d \<and> cont_byte e
                     \<and> (b = 240 \<longrightarrow> 144 \<le> c) \<and> (b = 244 \<longrightarrow> c \<le> 143)
                  then ((b - 240) * 262144 + (c - 128) * 4096 + (d - 128) * 64 + (e - 128), 4)
                  else (65533, 1))))"

lemma decode_rune_width: "bs \<noteq> [] \<Longrightarrow> 0 < snd (decode_rune bs)"
  by (cases bs) (auto split: list.splits)

function runes :: "string \<Rightarrow> (nat \<times> string) list" where
  "runes s =
     (if s = [] then []
      else let (r, w) = decode_rune (map of_char (take 4 s))
           in (r, take w s) # runes (drop w s))"
  by pat_completeness auto
termination
proof (relation "measure length", goal_cases)
  case 1
  then show ?case by simp
next
  case (2 s x r w)
  have "map of_char (take 4 s) \<noteq> ([] :: nat list)" using 2(1) by (cases s) auto
  then have "0 < w" using decode_rune_width 2(2,3) by (metis snd_conv)
  with 2(1) show ?case by (cases s) auto
qed

declare runes.simps [simp del]

lemma runes_Nil [simp]: "runes [] = []"
  by (subst runes.simps) simp

lemma runes_ascii:
  "of_char c < (128::nat) \<Longrightarrow> runes (c # s) = (of_char c, [c]) # runes s"
  by (subst runes.simps) simp

lemma runes_all_ascii:
  "\<forall>c \<in> set s. of_char c < (128::nat) \<Longrightarrow> map fst (runes s) = map of_char s"
  by (induction s) (auto simp: runes_ascii)

text \<open>\<^verbatim>\<open>strings.EqualFold\<close>, with the Unicode folds of the ASCII letters (the long s and the Kelvin sign
  fold to \<open>s\<close> and \<open>k\<close>): exact when one side is ASCII, as the code's constants and allowlists are.\<close>

definition fold_rune :: "nat \<Rightarrow> nat" where
  "fold_rune r = (if 65 \<le> r \<and> r \<le> 90 then r + 32 else if r = 383 then 115 else if r = 8490 then 107 else r)"

definition fold_text :: "string \<Rightarrow> nat list" where
  "fold_text s = map (\<lambda>p. fold_rune (fst p)) (runes s)"

definition equal_fold :: "string \<Rightarrow> string \<Rightarrow> bool" where
  "equal_fold a b \<longleftrightarrow> fold_text a = fold_text b"

lemma fold_text_Nil [simp]: "fold_text [] = []"
  by (simp add: fold_text_def)

lemma fold_text_Cons: "of_char c < (128::nat) \<Longrightarrow> fold_text (c # s) = fold_rune (of_char c) # fold_text s"
  by (simp add: fold_text_def runes_ascii)

lemma fold_text_lower: "\<forall>c \<in> set s. of_char c < (128::nat) \<Longrightarrow> fold_text (to_lower s) = fold_text s"
proof (induction s)
  case (Cons c s)
  have "of_char (lower_char c) < (128::nat) \<and> fold_rune (of_char (lower_char c)) = fold_rune (of_char c)"
    using Cons.prems by (auto simp: lower_char_def Let_def fold_rune_def)
  with Cons show ?case by (simp add: to_lower_def fold_text_Cons)
qed (simp add: to_lower_def)

text \<open>An ASCII byte of a string is always a rune of its own.\<close>

lemma decode_rune_rest:
  assumes "decode_rune (b # bs) = (r, w)"
  shows "(b < 128 \<longrightarrow> r = b \<and> w = 1) \<and> (\<forall>x \<in> set (take (w - 1) bs). 128 \<le> x)"
  using assms
  by (auto split: if_splits list.splits simp: cont_byte_def take_Cons' less_Suc_eq)

lemma ascii_byte_rune:
  "c \<in> set s \<Longrightarrow> of_char c < (128 :: nat) \<Longrightarrow> of_char c \<in> fst ` set (runes s)"
proof (induction s rule: runes.induct)
  case (1 s)
  then obtain b t where s: "s = b # t" by (cases s) auto
  obtain r w where rw: "decode_rune (map of_char (take 4 s)) = (r, w)" by fastforce
  have rw': "decode_rune (of_char b # map of_char (take 3 t)) = (r, w)" using rw s by simp
  note dr = decode_rune_rest [OF rw']
  have rs: "runes s = (r, take w s) # runes (drop w s)"
    using rw s by (subst runes.simps) simp
  have "0 < w" using decode_rune_width [of "map of_char (take 4 s)"] rw s by simp
  then have split: "set s = insert b (set (take (w - 1) t) \<union> set (drop w s))"
    using s by (cases w) (auto simp flip: set_append)
  have w4: "w \<le> 4" using rw' by (auto split: if_splits list.splits)
  consider "c = b" | "c \<in> set (take (w - 1) t)" | "c \<in> set (drop w s)" using 1(2) split by blast
  then show ?case
  proof cases
    case 1
    then show ?thesis using dr \<open>of_char c < 128\<close> rs by auto
  next
    case 2
    then have "c \<in> set (take (w - 1) (take 3 t))" using w4 by (auto simp: min_def split: if_splits)
    then have "(of_char c :: nat) \<in> set (take (w - 1) (map of_char (take 3 t)))"
      by (simp add: take_map)
    then show ?thesis using dr \<open>of_char c < 128\<close> by fastforce
  next
    case 3
    then show ?thesis using 1(1) [OF _ rw [symmetric] refl] s \<open>of_char c < 128\<close> rs by auto
  qed
qed

text \<open>\<^verbatim>\<open>unicode.IsSpace\<close>.\<close>

definition is_space :: "nat \<Rightarrow> bool" where
  "is_space r \<longleftrightarrow> r \<in> {9, 10, 11, 12, 13, 32, 133, 160, 5760, 8232, 8233, 8239, 8287, 12288}
     \<or> 8192 \<le> r \<and> r \<le> 8202"

text \<open>\<^verbatim>\<open>strings.TrimSpace\<close> and \<^verbatim>\<open>strings.Fields\<close>, over the decoded runes.\<close>

definition trim_space :: "string \<Rightarrow> string" where
  "trim_space s =
     (let sp = (\<lambda>p. is_space (fst p)); l = dropWhile sp (runes s)
      in concat (map snd (rev (dropWhile sp (rev l)))))"

lemma trim_space_clean:
  assumes "\<forall>c \<in> set s. (32::nat) < of_char c \<and> (of_char c :: nat) < 127"
  shows "trim_space s = s"
proof -
  have r: "runes s = map (\<lambda>c. (of_char c, [c])) s"
    using assms by (induction s) (auto simp: runes_ascii)
  have sp: "\<not> is_space (of_char c)" if "c \<in> set s" for c
    using assms that by (auto simp: is_space_def)
  have dw: "dropWhile (\<lambda>p. is_space (fst p)) (map (\<lambda>c. (of_char c, [c])) t) = map (\<lambda>c. (of_char c, [c])) t"
    if "set t \<subseteq> set s" for t
    using that sp by (cases t) auto
  have "concat (map (\<lambda>c. [c]) s) = s" by (induction s) auto
  moreover have "dropWhile (\<lambda>p. is_space (fst p)) (rev (map (\<lambda>c. (of_char c, [c])) s))
      = rev (map (\<lambda>c. (of_char c, [c])) s)"
    using dw [of "rev s"] by (simp add: rev_map)
  ultimately show ?thesis using dw [of s] by (simp add: trim_space_def r comp_def)
qed

fun fields_go :: "(nat \<times> string) list \<Rightarrow> string list \<times> string" where
  "fields_go [] = ([], [])"
| "fields_go ((r, b) # rs) =
     (let (fs, w) = fields_go rs
      in if is_space r then (if w = [] then fs else w # fs, []) else (fs, b @ w))"

definition fields :: "string \<Rightarrow> string list" where
  "fields s = (let (fs, w) = fields_go (runes s) in if w = [] then fs else w # fs)"

section \<open>SQL tables\<close>

text \<open>
  A table is the list of its rows in insertion order. \<^term>\<open>row_get\<close> is a lookup by a key
  column, \<^term>\<open>row_update\<close> is \<^verbatim>\<open>UPDATE ... SET f WHERE P\<close> and \<^term>\<open>row_delete\<close> is
  \<^verbatim>\<open>DELETE ... WHERE P\<close>; \<^term>\<open>rows_affected\<close> counts the rows a \<^verbatim>\<open>WHERE\<close> clause selects.
\<close>

definition row_get :: "('r \<Rightarrow> 'k) \<Rightarrow> 'k \<Rightarrow> 'r list \<Rightarrow> 'r option" where
  "row_get key k rows = find (\<lambda>r. key r = k) rows"

definition row_update :: "('r \<Rightarrow> bool) \<Rightarrow> ('r \<Rightarrow> 'r) \<Rightarrow> 'r list \<Rightarrow> 'r list" where
  "row_update P f rows = map (\<lambda>r. if P r then f r else r) rows"

definition row_delete :: "('r \<Rightarrow> bool) \<Rightarrow> 'r list \<Rightarrow> 'r list" where
  "row_delete P rows = filter (\<lambda>r. \<not> P r) rows"

definition rows_affected :: "('r \<Rightarrow> bool) \<Rightarrow> 'r list \<Rightarrow> nat" where
  "rows_affected P rows = length (filter P rows)"

lemma row_get_Nil [simp]: "row_get key k [] = None"
  by (simp add: row_get_def)

lemma row_get_Cons [simp]:
  "row_get key k (r # rows) = (if key r = k then Some r else row_get key k rows)"
  by (simp add: row_get_def)

lemma row_get_None_iff: "row_get key k rows = None \<longleftrightarrow> k \<notin> key ` set rows"
  by (auto simp: row_get_def find_None_iff)

lemma row_get_SomeD: "row_get key k rows = Some r \<Longrightarrow> r \<in> set rows \<and> key r = k"
  by (auto simp: row_get_def find_Some_iff)

lemma row_get_append:
  "row_get key k (rows @ rows') =
     (case row_get key k rows of Some r \<Rightarrow> Some r | None \<Rightarrow> row_get key k rows')"
  by (induction rows) auto

lemma row_get_distinct:
  "distinct (map key rows) \<Longrightarrow> r \<in> set rows \<Longrightarrow> row_get key (key r) rows = Some r"
  by (induction rows) (auto simp: image_iff)

lemma row_get_unique:
  "distinct (map key rows) \<Longrightarrow> row_get key k rows = Some r \<Longrightarrow> x \<in> set rows \<Longrightarrow> key x = k \<Longrightarrow> x = r"
  using row_get_distinct by fastforce

lemma row_get_delete_other:
  "\<not> P r \<Longrightarrow> distinct (map key rows) \<Longrightarrow> row_get key k rows = Some r \<Longrightarrow>
   row_get key k (row_delete P rows) = Some r"
  by (induction rows) (auto simp: row_delete_def split: if_splits)

lemma distinct_row_delete:
  "distinct (map key rows) \<Longrightarrow> distinct (map key (row_delete P rows))"
  by (simp add: row_delete_def distinct_map_filter)

lemma rows_affected_0_iff: "rows_affected P rows = 0 \<longleftrightarrow> (\<forall>r \<in> set rows. \<not> P r)"
  by (auto simp: rows_affected_def filter_empty_conv)

text \<open>What an \<^verbatim>\<open>UPDATE\<close> that leaves the key column alone promises to the lookups.\<close>

locale key_preserving =
  fixes key :: "'r \<Rightarrow> 'k" and touch :: "'r \<Rightarrow> 'r"
  assumes touch_key: "key (touch r) = key r"
begin

lemma keys_update [simp]: "map key (row_update P touch rows) = map key rows"
  by (simp add: row_update_def touch_key)

lemma get_update:
  "row_get key k (row_update P touch rows) =
     map_option (\<lambda>r. if P r then touch r else r) (row_get key k rows)"
  by (induction rows) (auto simp: row_update_def touch_key)

lemma distinct_update [simp]:
  "distinct (map key (row_update P touch rows)) = distinct (map key rows)"
  by (simp only: keys_update)

end

section \<open>Transition systems\<close>

text \<open>The contract of an inductive invariant, and what it gives for every reachable state.\<close>

locale invariant_system =
  fixes init :: "'s \<Rightarrow> bool" and step :: "'s \<Rightarrow> 's \<Rightarrow> bool" and inv :: "'s \<Rightarrow> bool"
  assumes inv_init: "init s \<Longrightarrow> inv s"
    and inv_step: "inv s \<Longrightarrow> step s t \<Longrightarrow> inv t"
begin

lemma inv_steps: "step\<^sup>*\<^sup>* s t \<Longrightarrow> inv s \<Longrightarrow> inv t"
  by (induction rule: rtranclp_induct) (auto intro: inv_step)

lemma inv_reachable: "init s \<Longrightarrow> step\<^sup>*\<^sup>* s t \<Longrightarrow> inv t"
  using inv_steps inv_init by blast

end

text \<open>The contract of a two-state property (a preorder every step obeys while the invariant
  holds), and what it gives between any state and a later one.\<close>

locale monotone_system = invariant_system init step inv
  for init :: "'s \<Rightarrow> bool" and step :: "'s \<Rightarrow> 's \<Rightarrow> bool" and inv :: "'s \<Rightarrow> bool" +
  fixes rel :: "'s \<Rightarrow> 's \<Rightarrow> bool"
  assumes rel_refl: "rel s s"
    and rel_trans: "rel s t \<Longrightarrow> rel t u \<Longrightarrow> rel s u"
    and rel_step: "inv s \<Longrightarrow> step s t \<Longrightarrow> rel s t"
begin

lemma rel_steps: "step\<^sup>*\<^sup>* s t \<Longrightarrow> inv s \<Longrightarrow> rel s t"
proof (induction rule: rtranclp_induct)
  case (step t u)
  then show ?case using inv_steps rel_step rel_trans by blast
qed (rule rel_refl)

lemma rel_reachable: "init s \<Longrightarrow> step\<^sup>*\<^sup>* s t \<Longrightarrow> step\<^sup>*\<^sup>* t u \<Longrightarrow> rel t u"
  using inv_reachable rel_steps by blast

end

end
