(* ===== verification/Tokens.thy ===== *)
theory Tokens
  imports Prelude
begin

text \<open>
  The package \<^verbatim>\<open>internal/token\<close>: the token format \<open>uct_<kind>_<id>_<secret>\<close>, its parser and
  printer, and the argon2id hashing of secrets. Base32 (\<^verbatim>\<open>encoding/base32\<close>, standard alphabet,
  no padding) is modelled after the standard library, including that \<^verbatim>\<open>DecodeString\<close> drops
  carriage returns and newlines first. Random bytes are arguments (\<^term>\<open>None\<close> is a failing
  \<^verbatim>\<open>rand.Read\<close>), and \<^verbatim>\<open>argon2.IDKey\<close>, a third-party function, is the parameter \<open>idkey\<close>
  (\<^term>\<open>None\<close> is its documented panic on a zero time or thread count).
\<close>

section \<open>Base32\<close>

definition b32_alphabet :: string where
  "b32_alphabet = ''ABCDEFGHIJKLMNOPQRSTUVWXYZ234567''"

fun byte_bits :: "char \<Rightarrow> bool list" where
  "byte_bits (Char b0 b1 b2 b3 b4 b5 b6 b7) = [b7, b6, b5, b4, b3, b2, b1, b0]"

fun bits_bytes :: "bool list \<Rightarrow> string" where
  "bits_bytes (b7 # b6 # b5 # b4 # b3 # b2 # b1 # b0 # bs) =
     Char b0 b1 b2 b3 b4 b5 b6 b7 # bits_bytes bs"
| "bits_bytes bs = []"

definition bits_val :: "bool list \<Rightarrow> nat" where
  "bits_val bs = foldl (\<lambda>a b. 2 * a + of_bool b) 0 bs"

fun chunk5 :: "bool list \<Rightarrow> bool list list" where
  "chunk5 [] = []"
| "chunk5 (a # b # c # d # e # r) = [a, b, c, d, e] # chunk5 r"
| "chunk5 r = [take 5 (r @ [False, False, False, False])]"

definition enc_bits :: "bool list \<Rightarrow> string" where
  "enc_bits bs = map (\<lambda>q. b32_alphabet ! bits_val q) (chunk5 bs)"

fun b32_encode :: "string \<Rightarrow> string" where
  "b32_encode (a # b # c # d # e # r) =
     enc_bits (concat (map byte_bits [a, b, c, d, e])) @ b32_encode r"
| "b32_encode s = enc_bits (concat (map byte_bits s))"

definition nat_bits5 :: "nat \<Rightarrow> bool list" where
  "nat_bits5 n = [odd (n div 16), odd (n div 8), odd (n div 4), odd (n div 2), odd n]"

definition b32_value :: "char \<Rightarrow> bool list option" where
  "b32_value c =
     (let n = of_char c :: nat
      in if 65 \<le> n \<and> n \<le> 90 then Some (nat_bits5 (n - 65))
         else if 50 \<le> n \<and> n \<le> 55 then Some (nat_bits5 (n - 24))
         else None)"

text \<open>The inner loop of \<^verbatim>\<open>base32.decode\<close>: one quantum of at most eight characters. With
  \<^verbatim>\<open>NoPadding\<close> the padding byte is \<open>0xFF\<close>, and its branch of the loop is still live.\<close>

fun b32_quantum :: "nat \<Rightarrow> bool list \<Rightarrow> string \<Rightarrow> (nat \<times> bool list \<times> string \<times> bool) option" where
  "b32_quantum j acc [] = Some (j, acc, [], j < 8)"
| "b32_quantum j acc (c # cs) =
     (if 8 \<le> j then Some (j, acc, c # cs, False)
      else if c = CHR 0xFF \<and> 2 \<le> j \<and> length cs < 8 then
        (if length cs + j < 7 \<or> (\<exists>x \<in> set (take (7 - j) cs). x \<noteq> CHR 0xFF)
            \<or> j = 3 \<or> j = 6
         then None else Some (j, acc, cs, True))
      else case b32_value c of
        None \<Rightarrow> None
      | Some v \<Rightarrow> b32_quantum (Suc j) (acc @ v) cs)"

text \<open>How many bytes a quantum of \<open>dlen\<close> characters yields (the \<^verbatim>\<open>switch dlen\<close>).\<close>

definition quantum_bytes :: "nat \<Rightarrow> nat" where
  "quantum_bytes dlen =
     (if dlen = 8 then 5 else if dlen = 7 then 4 else if dlen = 5 then 3
      else if dlen = 4 then 2 else if dlen = 2 then 1 else 0)"

lemma b32_quantum_rest:
  "b32_quantum j acc src = Some (d, bs, rest, e) \<Longrightarrow> length rest \<le> length src"
  by (induction j acc src rule: b32_quantum.induct) (auto split: if_splits option.splits)

lemma b32_quantum_shrinks:
  "b32_quantum 0 acc (c # cs) = Some (d, bs, rest, e) \<Longrightarrow> length rest \<le> length cs"
  by (auto split: if_splits option.splits dest: b32_quantum_rest)

function b32_decode_src :: "string \<Rightarrow> string option" where
  "b32_decode_src [] = Some []"
| "b32_decode_src (c # cs) =
     (case b32_quantum 0 [] (c # cs) of
        None \<Rightarrow> None
      | Some (dlen, bits, rest, end) \<Rightarrow>
          let out = bits_bytes (take (8 * quantum_bytes dlen) bits)
          in if end then Some out else map_option (\<lambda>r. out @ r) (b32_decode_src rest))"
  by pat_completeness auto
termination
  by (relation "measure length") (auto dest!: b32_quantum_shrinks simp del: b32_quantum.simps)

declare b32_decode_src.simps(2) [simp del]

definition b32_decode :: "string \<Rightarrow> string option" where
  "b32_decode s = b32_decode_src (filter (\<lambda>c. c \<noteq> CHR 10 \<and> c \<noteq> CHR 13) s)"

section \<open>Tokens\<close>

definition KindJoin :: string where "KindJoin = ''join''"
definition KindAgent :: string where "KindAgent = ''agent''"
definition KindCLI :: string where "KindCLI = ''cli''"
definition KindCaller :: string where "KindCaller = ''caller''"

definition idLen :: nat where "idLen = 16"
definition secretLen :: nat where "secretLen = 52"

lemmas kind_defs = KindJoin_def KindAgent_def KindCLI_def KindCaller_def

record token =
  t_kind :: string
  t_id :: string
  t_secret :: string

datatype token_error =
    MissingPrefix
  | WrongSegmentCount
  | UnknownKind string
  | IdLength nat
  | SecretLength nat
  | IdNotBase32
  | SecretNotBase32
  | InvalidKind string
  | RandFailed
  | HashMalformed
  | HashParams
  | HashSalt
  | HashKey
  | Argon2Panic

definition validKind :: "string \<Rightarrow> bool" where
  "validKind k \<longleftrightarrow> k = KindJoin \<or> k = KindAgent \<or> k = KindCLI \<or> k = KindCaller"

definition token_string :: "token \<Rightarrow> string" where
  "token_string t = ''uct_'' @ t_kind t @ ''_'' @ t_id t @ ''_'' @ t_secret t"

text \<open>\<open>randBase32\<close> on the bytes \<^verbatim>\<open>rand.Read\<close> delivered.\<close>

definition randBase32 :: "string option \<Rightarrow> (token_error, string) result" where
  "randBase32 buf = (case buf of None \<Rightarrow> Inl RandFailed | Some b \<Rightarrow> Inr (b32_encode b))"

definition Generate :: "string option \<Rightarrow> string option \<Rightarrow> string \<Rightarrow> (token_error, token) result" where
  "Generate idBytes secBytes kind =
     (if \<not> validKind kind then Inl (InvalidKind kind)
      else case randBase32 idBytes of
        Inl e \<Rightarrow> Inl e
      | Inr i \<Rightarrow>
          (case randBase32 secBytes of
             Inl e \<Rightarrow> Inl e
           | Inr sec \<Rightarrow> Inr \<lparr>t_kind = kind, t_id = i, t_secret = sec\<rparr>))"

definition Parse :: "string \<Rightarrow> (token_error, token) result" where
  "Parse s =
     (if \<not> has_prefix ''uct_'' s then Inl MissingPrefix
      else case split_n 2 (CHR ''_'') (drop 4 s) of
        [kind, i, sec] \<Rightarrow>
          if \<not> validKind kind then Inl (UnknownKind kind)
          else if length i \<noteq> idLen then Inl (IdLength (length i))
          else if length sec \<noteq> secretLen then Inl (SecretLength (length sec))
          else if b32_decode i = None then Inl IdNotBase32
          else if b32_decode sec = None then Inl SecretNotBase32
          else Inr \<lparr>t_kind = kind, t_id = i, t_secret = sec\<rparr>
      | _ \<Rightarrow> Inl WrongSegmentCount)"

section \<open>Hashing of secrets\<close>

type_synonym idkey = "string \<Rightarrow> string \<Rightarrow> int \<Rightarrow> int \<Rightarrow> int \<Rightarrow> int \<Rightarrow> string option"

definition HashSecret :: "idkey \<Rightarrow> string option \<Rightarrow> string \<Rightarrow> (token_error, string) result" where
  "HashSecret idkey salt secret =
     (case salt of
        None \<Rightarrow> Inl RandFailed
      | Some sl \<Rightarrow>
          (case idkey secret sl 3 65536 2 32 of
             None \<Rightarrow> Inl Argon2Panic
           | Some key \<Rightarrow>
               Inr (''$argon2id$v=19$m='' @ dec_int 65536 @ '',t='' @ dec_int 3 @ '',p='' @ dec_int 2
                    @ ''$'' @ b32_encode sl @ ''$'' @ b32_encode key)))"

text \<open>\<^verbatim>\<open>fmt.Sscanf(s, "m=%d,t=%d,p=%d")\<close> over the runes of the input: literal runes must match,
  \<^verbatim>\<open>%d\<close> skips spaces (a newline is an error) and reads an optional sign and at least one digit
  within the range of \<^verbatim>\<open>int\<close>; what follows the last verb is ignored.\<close>

fun scan_lit :: "string \<Rightarrow> nat list \<Rightarrow> nat list option" where
  "scan_lit [] rs = Some rs"
| "scan_lit (c # cs) (r # rs) = (if r = of_char c then scan_lit cs rs else None)"
| "scan_lit (c # cs) [] = None"

definition scan_sign :: "nat list \<Rightarrow> int \<times> nat list" where
  "scan_sign rs =
     (case rs of
        [] \<Rightarrow> (1, [])
      | r # rest \<Rightarrow> if r = 45 then (- 1, rest) else if r = 43 then (1, rest) else (1, rs))"

definition scan_int :: "nat list \<Rightarrow> (int \<times> nat list) option" where
  "scan_int rs =
     (let rs1 = dropWhile (\<lambda>r. is_space r \<and> r \<noteq> 10) rs;
          (sg, rs2) = scan_sign rs1;
          ds = takeWhile (\<lambda>r. 48 \<le> r \<and> r \<le> 57) rs2;
          v = sg * int (foldl (\<lambda>a r. 10 * a + (r - 48)) 0 ds)
      in if ds = [] \<or> v < - (2 ^ 63) \<or> 2 ^ 63 \<le> v then None
         else Some (v, dropWhile (\<lambda>r. 48 \<le> r \<and> r \<le> 57) rs2))"

definition scan_params :: "string \<Rightarrow> (int \<times> int \<times> int) option" where
  "scan_params s =
     Option.bind (scan_lit ''m='' (map fst (runes s))) (\<lambda>r1.
     Option.bind (scan_int r1) (\<lambda>(m, r2).
     Option.bind (scan_lit '',t='' r2) (\<lambda>r3.
     Option.bind (scan_int r3) (\<lambda>(t, r4).
     Option.bind (scan_lit '',p='' r4) (\<lambda>r5.
     Option.bind (scan_int r5) (\<lambda>(p, r6). Some (m, t, p)))))))"

definition VerifySecret :: "idkey \<Rightarrow> string \<Rightarrow> string \<Rightarrow> (token_error, bool) result" where
  "VerifySecret idkey secret stored =
     (case split_char (CHR ''$'') stored of
        [p0, p1, p2, p3, p4, p5] \<Rightarrow>
          if p0 \<noteq> [] \<or> p1 \<noteq> ''argon2id'' \<or> p2 \<noteq> ''v=19'' then Inl HashMalformed
          else (case scan_params p3 of
            None \<Rightarrow> Inl HashParams
          | Some (m, t, p) \<Rightarrow>
              (case b32_decode p4 of
                 None \<Rightarrow> Inl HashSalt
               | Some salt \<Rightarrow>
                   (case b32_decode p5 of
                      None \<Rightarrow> Inl HashKey
                    | Some want \<Rightarrow>
                        (case idkey secret salt (t mod 2 ^ 32) (m mod 2 ^ 32) (p mod 2 ^ 8)
                                (int (length want) mod 2 ^ 32) of
                           None \<Rightarrow> Inl Argon2Panic
                         | Some got \<Rightarrow> Inr (got = want)))))
      | _ \<Rightarrow> Inl HashMalformed)"

text \<open>\<open>NewRequestID\<close> on the sixteen bytes read; a failing \<^verbatim>\<open>rand.Read\<close> panics (\<^term>\<open>None\<close>).\<close>

definition NewRequestID :: "string option \<Rightarrow> string option" where
  "NewRequestID buf = map_option hex_encode buf"

section \<open>Base32 round trip\<close>

lemma length_byte_bits [simp]: "length (byte_bits c) = 8"
  by (cases c) simp

lemma bits_bytes_byte_bits: "bits_bytes (concat (map byte_bits s)) = s"
proof (induction s)
  case (Cons c cs)
  then show ?case by (cases c) simp
qed simp

lemma length_concat_byte_bits: "length (concat (map byte_bits s)) = 8 * length s"
  by (induction s) simp_all

lemma chunk5_lengths: "q \<in> set (chunk5 bs) \<Longrightarrow> length q = 5"
  by (induction bs rule: chunk5.induct) auto

lemma chunk5_concat: "\<exists>z. concat (chunk5 bs) = bs @ z"
  by (induction bs rule: chunk5.induct) auto

lemma length_chunk5: "length (chunk5 bs) = (length bs + 4) div 5"
  by (induction bs rule: chunk5.induct) simp_all

lemma b32_value_alphabet:
  assumes "length q = 5"
  shows "b32_value (b32_alphabet ! bits_val q) = Some q"
proof -
  obtain a b c d e where q: "q = [a, b, c, d, e]"
    using assms by (auto simp: length_Suc_conv numeral_eq_Suc)
  show ?thesis unfolding q
    by (cases a; cases b; cases c; cases d; cases e)
      (simp_all add: b32_alphabet_def bits_val_def b32_value_def nat_bits5_def)
qed

lemma bits_val_bound: "length q = 5 \<Longrightarrow> bits_val q < 32"
  by (auto simp: length_Suc_conv numeral_eq_Suc bits_val_def of_bool_def)

lemma b32_value_FF: "b32_value c = Some v \<Longrightarrow> c \<noteq> CHR 0xFF"
  by (auto simp: b32_value_def)

lemma b32_quantum_values:
  assumes "list_all2 (\<lambda>c v. b32_value c = Some v) cs vs" "j + length cs \<le> 8"
    "j + length cs = 8 \<or> rest = []"
  shows "b32_quantum j acc (cs @ rest) =
     Some (j + length cs, acc @ concat vs, rest, j + length cs < 8)"
  using assms
proof (induction cs vs arbitrary: j acc rule: list_all2_induct)
  case Nil
  then show ?case by (cases rest) auto
next
  case (Cons c cs v vs)
  then show ?case using b32_value_FF [of c v] by simp
qed

lemma enc_bits_values:
  "list_all2 (\<lambda>c v. b32_value c = Some v) (enc_bits bs) (chunk5 bs)"
  by (auto simp: enc_bits_def list_all2_conv_all_nth
      intro!: b32_value_alphabet chunk5_lengths nth_mem)

lemma length_enc_bits: "length (enc_bits bs) = (length bs + 4) div 5"
  by (simp add: enc_bits_def length_chunk5)

lemma b32_decode_block:
  assumes "length s = 5"
  shows "b32_decode_src (enc_bits (concat (map byte_bits s)) @ rest) =
     map_option (\<lambda>r. s @ r) (b32_decode_src rest)"
proof -
  let ?b = "concat (map byte_bits s)"
  have len: "length (enc_bits ?b) = 8"
    using assms by (simp add: length_enc_bits length_concat_byte_bits)
  obtain z where z: "concat (chunk5 ?b) = ?b @ z" using chunk5_concat by blast
  have q: "b32_quantum 0 [] (enc_bits ?b @ rest) = Some (8, ?b @ z, rest, False)"
    using b32_quantum_values [OF enc_bits_values, of 0 ?b rest "[]"] len z by simp
  obtain c cs where cs: "enc_bits ?b @ rest = c # cs" using len by (cases "enc_bits ?b") auto
  have "take 40 (?b @ z) = ?b" using assms by (simp add: length_concat_byte_bits)
  with q show ?thesis unfolding cs
    by (simp add: b32_decode_src.simps(2) quantum_bytes_def bits_bytes_byte_bits)
qed

lemma b32_decode_last:
  assumes "length s < 5"
  shows "b32_decode_src (enc_bits (concat (map byte_bits s))) = Some s"
proof (cases "s = []")
  case True
  then show ?thesis by (simp add: enc_bits_def)
next
  case False
  let ?b = "concat (map byte_bits s)"
  have "length s \<noteq> 0" using False by simp
  with assms have "length s = 1 \<or> length s = 2 \<or> length s = 3 \<or> length s = 4" by linarith
  then have n: "length s \<in> {1, 2, 3, 4}" by simp
  have len: "length (enc_bits ?b) = (8 * length s + 4) div 5"
    by (simp add: length_enc_bits length_concat_byte_bits)
  obtain z where z: "concat (chunk5 ?b) = ?b @ z" using chunk5_concat by blast
  have small: "(8 * length s + 4) div 5 < 8" using n by auto
  have q: "b32_quantum 0 [] (enc_bits ?b) =
      Some ((8 * length s + 4) div 5, ?b @ z, [], True)"
    using b32_quantum_values [OF enc_bits_values, of 0 ?b "[]" "[]"] len z small by simp
  have bytes: "quantum_bytes ((8 * length s + 4) div 5) = length s"
    using n by (auto simp: quantum_bytes_def)
  obtain c cs where cs: "enc_bits ?b = c # cs" using len n by (cases "enc_bits ?b") auto
  have "take (8 * length s) (?b @ z) = ?b" by (simp add: length_concat_byte_bits)
  with q bytes show ?thesis unfolding cs
    by (simp add: b32_decode_src.simps(2) bits_bytes_byte_bits)
qed

lemma b32_decode_src_encode: "b32_decode_src (b32_encode s) = Some s"
proof (induction s rule: b32_encode.induct)
  case (1 a b c d e r)
  then show ?case using b32_decode_block [of "[a, b, c, d, e]" "b32_encode r"] by simp
qed (simp_all only: b32_encode.simps b32_decode_last list.size)

lemma enc_bits_alphabet: "set (enc_bits bs) \<subseteq> set b32_alphabet"
proof -
  have "b32_alphabet ! bits_val q \<in> set b32_alphabet" if "length q = 5" for q
    using bits_val_bound [OF that] by (intro nth_mem) (simp add: b32_alphabet_def)
  then show ?thesis by (auto simp: enc_bits_def chunk5_lengths)
qed

lemma b32_encode_alphabet: "set (b32_encode s) \<subseteq> set b32_alphabet"
proof (induction s rule: b32_encode.induct)
  case (1 a b c d e r)
  then show ?case
    using enc_bits_alphabet [of "concat (map byte_bits [a, b, c, d, e])"]
    unfolding b32_encode.simps set_append by blast
qed (simp only: b32_encode.simps; rule enc_bits_alphabet)+

lemma alphabet_clean: "CHR 10 \<notin> set b32_alphabet" "CHR 13 \<notin> set b32_alphabet"
  "CHR ''$'' \<notin> set b32_alphabet" "CHR ''_'' \<notin> set b32_alphabet"
  by (simp_all add: b32_alphabet_def)

lemma b32_decode_encode: "b32_decode (b32_encode s) = Some s"
proof -
  have "filter (\<lambda>c. c \<noteq> CHR 10 \<and> c \<noteq> CHR 13) (b32_encode s) = b32_encode s"
    using b32_encode_alphabet [of s] alphabet_clean by (auto intro!: filter_True)
  then show ?thesis by (simp add: b32_decode_def b32_decode_src_encode)
qed

lemma length_b32_encode: "length (b32_encode s) = (8 * length s + 4) div 5"
proof (induction s rule: b32_encode.induct)
  case (1 a b c d e r)
  have "length (enc_bits (concat (map byte_bits [a, b, c, d, e]))) = 8"
    by (simp add: length_enc_bits)
  with 1 show ?case by simp
qed (simp_all add: length_enc_bits)

section \<open>Parsing and printing tokens\<close>

lemma validKind_no_underscore: "validKind k \<Longrightarrow> CHR ''_'' \<notin> set k"
  by (auto simp: validKind_def kind_defs)

lemma split_n_encoded:
  assumes "CHR ''_'' \<notin> set k" "CHR ''_'' \<notin> set i" "CHR ''_'' \<notin> set sec"
  shows "split_n 2 (CHR ''_'') (k @ ''_'' @ i @ ''_'' @ sec) = [k, i, sec]"
  using assms by (simp add: split_n_field numeral_2_eq_2)

lemma Parse_encoded:
  assumes "validKind k" "length ib = 10" "length sb = 32"
  shows "Parse (''uct_'' @ k @ ''_'' @ b32_encode ib @ ''_'' @ b32_encode sb) =
     Inr \<lparr>t_kind = k, t_id = b32_encode ib, t_secret = b32_encode sb\<rparr>"
proof -
  have nu: "CHR ''_'' \<notin> set (b32_encode x)" for x
    using b32_encode_alphabet [of x] alphabet_clean by auto
  show ?thesis
    using assms split_n_encoded [OF validKind_no_underscore [OF assms(1)] nu nu, of ib sb]
    by (simp add: Parse_def has_prefix_def idLen_def secretLen_def length_b32_encode
        b32_decode_encode)
qed

lemma Parse_InrD:
  assumes "Parse s = Inr t"
  shows "s = token_string t \<and> validKind (t_kind t) \<and> length (t_id t) = 16
     \<and> length (t_secret t) = 52 \<and> b32_decode (t_id t) \<noteq> None \<and> b32_decode (t_secret t) \<noteq> None"
proof -
  from assms have pre: "has_prefix ''uct_'' s" by (auto simp: Parse_def split: if_splits)
  then have s: "s = ''uct_'' @ drop 4 s" by (auto simp: has_prefix_iff)
  from assms pre obtain k i sec where p: "split_n 2 (CHR ''_'') (drop 4 s) = [k, i, sec]"
    by (auto simp: Parse_def split: if_splits list.splits)
  have "drop 4 s = k @ ''_'' @ i @ ''_'' @ sec"
    using split_n_join [of "CHR ''_''" 2 "drop 4 s"] by (simp add: p)
  with s assms pre p show ?thesis
    by (auto simp: Parse_def token_string_def idLen_def secretLen_def split: if_splits)
qed

lemma Generate_InrD:
  "Generate ib sb k = Inr t \<Longrightarrow>
   \<exists>i s. ib = Some i \<and> sb = Some s \<and> validKind k
      \<and> t = \<lparr>t_kind = k, t_id = b32_encode i, t_secret = b32_encode s\<rparr>"
  by (auto simp: Generate_def randBase32_def split: if_splits option.splits)

text \<open>C11: Every token \<open>Generate\<close> produces from ten identifier bytes and thirty-two secret
  bytes is read back by \<open>Parse\<close> exactly as it was generated.\<close>

theorem Generate_Parse_roundtrip:
  assumes "Generate (Some ib) (Some sb) kind = Inr t" "length ib = 10" "length sb = 32"
  shows "Parse (token_string t) = Inr t"
  using Generate_InrD [OF assms(1)] Parse_encoded [OF _ assms(2,3), of kind]
  by (auto simp: token_string_def)

theorem Generate_Parse_roundtrip_witness:
  "Generate (Some ''0123456789'') (Some ''0123456789abcdef0123456789abcdef'') KindCaller =
     Inr \<lparr>t_kind = KindCaller, t_id = b32_encode ''0123456789'',
          t_secret = b32_encode ''0123456789abcdef0123456789abcdef''\<rparr>
   \<and> Parse (token_string \<lparr>t_kind = KindCaller, t_id = b32_encode ''0123456789'',
          t_secret = b32_encode ''0123456789abcdef0123456789abcdef''\<rparr>) =
     Inr \<lparr>t_kind = KindCaller, t_id = b32_encode ''0123456789'',
          t_secret = b32_encode ''0123456789abcdef0123456789abcdef''\<rparr>"
proof -
  have g: "Generate (Some ''0123456789'') (Some ''0123456789abcdef0123456789abcdef'') KindCaller =
     Inr \<lparr>t_kind = KindCaller, t_id = b32_encode ''0123456789'',
          t_secret = b32_encode ''0123456789abcdef0123456789abcdef''\<rparr>"
    by (simp add: Generate_def randBase32_def validKind_def del: b32_encode.simps)
  show ?thesis using g Generate_Parse_roundtrip [OF g] by simp
qed

text \<open>\<open>Parse\<close> accepts nothing but printed tokens: an accepted string is the printed form of
  its result, whose kind is one of the four known kinds and whose identifier and secret have
  sixteen and fifty-two characters.\<close>

theorem Parse_exact:
  assumes "Parse s = Inr t"
  shows "token_string t = s \<and> validKind (t_kind t)
     \<and> length (t_id t) = idLen \<and> length (t_secret t) = secretLen"
  using Parse_InrD [OF assms] by (auto simp: idLen_def secretLen_def)

theorem Parse_exact_witness:
  "\<exists>t. Parse (''uct_join_'' @ b32_encode ''0123456789'' @ ''_''
        @ b32_encode ''0123456789abcdef0123456789abcdef'') = Inr t
     \<and> token_string t = ''uct_join_'' @ b32_encode ''0123456789'' @ ''_''
        @ b32_encode ''0123456789abcdef0123456789abcdef''
     \<and> t_kind t = ''join''"
proof -
  let ?s = "''uct_join_'' @ b32_encode ''0123456789'' @ ''_''
        @ b32_encode ''0123456789abcdef0123456789abcdef''"
  have p: "Parse ?s = Inr \<lparr>t_kind = ''join'', t_id = b32_encode ''0123456789'',
       t_secret = b32_encode ''0123456789abcdef0123456789abcdef''\<rparr>"
    using Parse_encoded [of "''join''" "''0123456789''" "''0123456789abcdef0123456789abcdef''"]
    by (simp add: validKind_def kind_defs del: b32_encode.simps)
  show ?thesis using p Parse_exact [OF p] by simp
qed

section \<open>Hashing and verifying secrets\<close>

lemma scan_params_default: "scan_params ''m=65536,t=3,p=2'' = Some (65536, 3, 2)"
  by (simp add: scan_params_def scan_int_def scan_sign_def is_space_def runes_ascii)

lemma dec_params: "dec_int 65536 = ''65536''" "dec_int 3 = ''3''" "dec_int 2 = ''2''"
  by (simp_all add: dec_int_def dec_nat.simps digit_char_def char_of_eq_iff take_bit_eq_mod)

lemma split_hash:
  "split_char (CHR ''$'') (''$argon2id$v=19$m=65536,t=3,p=2$'' @ b32_encode a @ ''$'' @ b32_encode b)
     = [[], ''argon2id'', ''v=19'', ''m=65536,t=3,p=2'', b32_encode a, b32_encode b]"
proof -
  have nd: "CHR ''$'' \<notin> set (b32_encode x)" for x
    using b32_encode_alphabet [of x] alphabet_clean by auto
  show ?thesis by (simp add: split_char_field nd split_char_no_sep)
qed

lemma VerifySecret_HashSecret:
  assumes "idkey secret salt 3 65536 2 32 = Some key" "length key = 32"
    "HashSecret idkey (Some salt) secret = Inr h"
  shows "VerifySecret idkey secret' h =
     (case idkey secret' salt 3 65536 2 32 of None \<Rightarrow> Inl Argon2Panic | Some k \<Rightarrow> Inr (k = key))"
proof -
  have h: "h = ''$argon2id$v=19$m=65536,t=3,p=2$'' @ b32_encode salt @ ''$'' @ b32_encode key"
    using assms by (simp add: HashSecret_def dec_params)
  show ?thesis
    using assms(2) by (simp add: VerifySecret_def h split_hash scan_params_default b32_decode_encode
        del: append_Cons append.simps)
qed

text \<open>For a secret hashed with \<open>HashSecret\<close>, \<open>VerifySecret\<close> never fails and answers
  whether the presented secret derives the stored key, so the hashed secret itself is always
  accepted. What is assumed of argon2: with the fixed cost parameters it returns a key of the
  requested thirty-two bytes.\<close>

theorem VerifySecret_decides:
  assumes "HashSecret idkey (Some salt) secret = Inr h"
    and "\<And>pw. \<exists>k. idkey pw salt 3 65536 2 32 = Some k \<and> length k = 32"
  shows "VerifySecret idkey pw h =
           Inr (idkey pw salt 3 65536 2 32 = idkey secret salt 3 65536 2 32)
     \<and> VerifySecret idkey secret h = Inr True"
proof -
  obtain key where key: "idkey secret salt 3 65536 2 32 = Some key" "length key = 32"
    using assms(2) by blast
  obtain k where k: "idkey pw salt 3 65536 2 32 = Some k" using assms(2) by blast
  show ?thesis
    using VerifySecret_HashSecret [OF key assms(1), of pw]
      VerifySecret_HashSecret [OF key assms(1), of secret] by (simp add: key k)
qed

theorem VerifySecret_decides_witness:
  "\<exists>h. HashSecret (\<lambda>pw sl t m p n. Some (take 32 (pw @ replicate 32 (CHR ''x'')))) (Some ''salt'') ''a'' = Inr h
     \<and> VerifySecret (\<lambda>pw sl t m p n. Some (take 32 (pw @ replicate 32 (CHR ''x'')))) ''b'' h = Inr False
     \<and> VerifySecret (\<lambda>pw sl t m p n. Some (take 32 (pw @ replicate 32 (CHR ''x'')))) ''a'' h = Inr True"
proof -
  let ?k = "\<lambda>pw sl t m p n. Some (take 32 (pw @ replicate 32 (CHR ''x'')))"
  obtain h where h: "HashSecret ?k (Some ''salt'') ''a'' = Inr h" by (simp add: HashSecret_def)
  have "VerifySecret ?k ''b'' h =
      Inr (?k ''b'' ''salt'' 3 65536 2 32 = ?k ''a'' ''salt'' 3 65536 2 32)
    \<and> VerifySecret ?k ''a'' h = Inr True"
    by (rule VerifySecret_decides [OF h]) simp
  with h show ?thesis by simp
qed

section \<open>Newlines in tokens\<close>

lemma b32_decode_newline:
  "b32_decode (CHR 10 # s) = b32_decode s"
  by (simp add: b32_decode_def)

text \<open>\<open>Parse\<close> accepts a token whose sixteen-character identifier holds a newline, a
  character outside the base32 alphabet: the decoder it validates with drops newlines.\<close>

theorem Parse_accepts_newline:
  "\<exists>t. Parse (''uct_caller_'' @ (CHR 10 # CHR 10 # CHR 10 # b32_encode ''01234567'') @ ''_''
             @ b32_encode ''0123456789abcdef0123456789abcdef'') = Inr t
     \<and> CHR 10 \<in> set (t_id t) \<and> CHR 10 \<notin> set b32_alphabet"
proof -
  let ?i = "CHR 10 # CHR 10 # CHR 10 # b32_encode ''01234567''"
  let ?s = "b32_encode ''0123456789abcdef0123456789abcdef''"
  have nu: "CHR ''_'' \<notin> set (b32_encode x)" for x
    using b32_encode_alphabet [of x] alphabet_clean by auto
  have sp: "split_n 2 (CHR ''_'') (''caller'' @ ''_'' @ ?i @ ''_'' @ ?s) = [''caller'', ?i, ?s]"
    by (rule split_n_encoded) (simp_all add: nu del: b32_encode.simps)
  have "Parse (''uct_'' @ ''caller'' @ ''_'' @ ?i @ ''_'' @ ?s) =
      Inr \<lparr>t_kind = ''caller'', t_id = ?i, t_secret = ?s\<rparr>"
    using sp by (simp add: Parse_def has_prefix_def validKind_def kind_defs idLen_def secretLen_def
        length_b32_encode b32_decode_newline b32_decode_encode del: b32_encode.simps)
  then show ?thesis by (auto simp: alphabet_clean simp del: b32_encode.simps)
qed

end
