(* ===== verification/Policy_Hash.thy ===== *)
theory Policy_Hash
  imports Prelude
begin

text \<open>
  The package \<^verbatim>\<open>internal/policyhash\<close>: the canonical serialization of a set of grants and its
  hash, the value both sides of the policy version handshake compare. \<^verbatim>\<open>blake3.Sum256\<close> is
  third-party code and is the parameter \<open>sum256\<close>.
\<close>

section \<open>Grants\<close>

datatype grant = Grant (Username: string) (CallerTokenID: string)

text \<open>The comparison function \<open>Canonical\<close> hands to \<^verbatim>\<open>sort.Slice\<close>, as the type's order.\<close>

definition grant_less :: "grant \<Rightarrow> grant \<Rightarrow> bool" where
  "grant_less g h \<longleftrightarrow>
     (if Username g \<noteq> Username h then Username g < Username h
      else CallerTokenID g < CallerTokenID h)"

instantiation grant :: linorder
begin

definition less_grant_def: "g < h \<longleftrightarrow> grant_less g h"

definition less_eq_grant_def: "g \<le> h \<longleftrightarrow> g = h \<or> grant_less g h"

instance
proof
  fix x y z :: grant
  show "(x < y) = (x \<le> y \<and> \<not> y \<le> x)"
    by (cases x; cases y) (auto simp: less_grant_def less_eq_grant_def grant_less_def)
  show "x \<le> x" by (simp add: less_eq_grant_def)
  show "x \<le> y \<Longrightarrow> y \<le> z \<Longrightarrow> x \<le> z"
    by (cases x; cases y; cases z)
      (auto simp: less_eq_grant_def grant_less_def split: if_splits)
  show "x \<le> y \<Longrightarrow> y \<le> x \<Longrightarrow> x = y"
    by (cases x; cases y) (auto simp: less_eq_grant_def grant_less_def split: if_splits)
  show "x \<le> y \<or> y \<le> x"
    by (cases x; cases y) (auto simp: less_eq_grant_def grant_less_def)
qed

end

section \<open>Canonical form and hash\<close>

definition grant_line :: "grant \<Rightarrow> string" where
  "grant_line g = Username g @ '':'' @ CallerTokenID g @ [CHR 10]"

definition Canonical :: "grant list \<Rightarrow> string" where
  "Canonical grants = (if grants = [] then [] else concat (map grant_line (sort grants)))"

definition Hash :: "(string \<Rightarrow> string) \<Rightarrow> grant list \<Rightarrow> string" where
  "Hash sum256 grants =
     (let c = Canonical grants in if c = [] then [] else ''blake3:'' @ hex_encode (sum256 c))"

section \<open>Lemmas\<close>

lemma sort_mset_eq: "mset a = mset (b :: grant list) \<Longrightarrow> sort a = sort b"
  by (rule properties_for_sort) simp_all

lemma Canonical_mset: "mset a = mset b \<Longrightarrow> Canonical a = Canonical b"
  by (cases "a = []") (auto simp: Canonical_def dest: sort_mset_eq)

lemma Hash_mset: "mset a = mset b \<Longrightarrow> Hash sum256 a = Hash sum256 b"
  using Canonical_mset [of a b] by (simp add: Hash_def)

lemma grant_line_nonempty [simp]: "grant_line g \<noteq> []"
  by (simp add: grant_line_def)

lemma Canonical_Nil_iff [simp]: "Canonical gs = [] \<longleftrightarrow> gs = []"
proof (cases "sort gs")
  case Nil
  then have "gs = []" by (metis length_0_conv length_sort)
  then show ?thesis by (simp add: Canonical_def)
next
  case (Cons g hs)
  then show ?thesis by (auto simp: Canonical_def)
qed

lemma Hash_Nil_iff: "Hash sum256 gs = [] \<longleftrightarrow> gs = []"
  by (simp add: Hash_def Let_def)

text \<open>Grants whose fields keep to their places in a line: no newline in either field and no
  colon in the caller's identifier.\<close>

definition clean_grant :: "grant \<Rightarrow> bool" where
  "clean_grant g \<longleftrightarrow> CHR 10 \<notin> set (Username g) \<and> CHR 10 \<notin> set (CallerTokenID g)
     \<and> CHR '':'' \<notin> set (CallerTokenID g)"

lemma last_sep_inject:
  assumes "(d :: char) \<notin> set v" "d \<notin> set v'" "u @ d # v = u' @ d # v'"
  shows "u = u' \<and> v = v'"
proof -
  have "rev v @ d # rev u = rev v' @ d # rev u'"
    using arg_cong [OF assms(3), of rev] by simp
  then have "split_char d (rev v @ d # rev u) = split_char d (rev v' @ d # rev u')" by simp
  then have "rev v = rev v'" using assms(1,2) by (simp add: split_char_field)
  with assms(3) show ?thesis by simp
qed

lemma lines_inject:
  assumes "\<forall>l \<in> set ls. (d :: char) \<notin> set l" "\<forall>l \<in> set ms. d \<notin> set l"
    "concat (map (\<lambda>l. l @ [d]) ls) = concat (map (\<lambda>l. l @ [d]) ms)"
  shows "ls = ms"
  using assms
proof (induction ls arbitrary: ms)
  case Nil
  then show ?case by (cases ms) auto
next
  case (Cons l ls)
  then obtain m ms' where ms: "ms = m # ms'" by (cases ms) auto
  let ?r = "concat (map (\<lambda>l. l @ [d]) ls)" and ?r' = "concat (map (\<lambda>l. l @ [d]) ms')"
  have eq: "l @ d # ?r = m @ d # ?r'" using Cons.prems(3) ms by simp
  then have "split_char d (l @ d # ?r) = split_char d (m @ d # ?r')" by simp
  then have "l = m" using Cons.prems(1,2) ms by (simp add: split_char_field)
  with eq Cons.IH [of ms'] Cons.prems ms show ?case by simp
qed

lemma grant_lines_inject:
  assumes "\<forall>g \<in> set gs. clean_grant g" "\<forall>g \<in> set hs. clean_grant g"
    "concat (map grant_line gs) = concat (map grant_line hs)"
  shows "gs = hs"
proof -
  let ?f = "\<lambda>g. Username g @ '':'' @ CallerTokenID g"
  have line: "grant_line = (\<lambda>g. ?f g @ [CHR 10])" by (simp add: grant_line_def fun_eq_iff)
  have cl: "\<forall>l \<in> set (map ?f xs). CHR 10 \<notin> set l" if "\<forall>g \<in> set xs. clean_grant g" for xs
    using that by (auto simp: clean_grant_def)
  have "map ?f gs = map ?f hs"
    using lines_inject [OF cl [OF assms(1)] cl [OF assms(2)]] assms(3)
    by (simp add: line comp_def)
  moreover have "inj_on ?f (set gs \<union> set hs)"
  proof (rule inj_onI)
    fix x y assume "x \<in> set gs \<union> set hs" "y \<in> set gs \<union> set hs" "?f x = ?f y"
    then show "x = y"
      using assms(1,2) last_sep_inject [of "CHR '':''" "CallerTokenID x" "CallerTokenID y"
          "Username x" "Username y"]
      by (auto simp: clean_grant_def intro: grant.expand)
  qed
  ultimately show ?thesis by (rule map_inj_on)
qed

lemma Canonical_inject:
  assumes "\<forall>g \<in> set gs. clean_grant g" "\<forall>g \<in> set hs. clean_grant g" "Canonical gs = Canonical hs"
  shows "mset gs = mset hs"
proof (cases "gs = [] \<or> hs = []")
  case True
  then show ?thesis using assms(3) Canonical_Nil_iff by metis
next
  case False
  then have "concat (map grant_line (sort gs)) = concat (map grant_line (sort hs))"
    using assms(3) by (simp add: Canonical_def)
  then have "sort gs = sort hs" using grant_lines_inject assms(1,2) by simp
  then show ?thesis by (metis mset_sort)
qed

section \<open>Properties\<close>

text \<open>C12: Two lists of well-formed grants have the same policy hash exactly when they are
  the same grants in some order, provided blake3 has no collision on their two canonical
  forms: the order of the rows never changes the hash and a changed grant always does.\<close>

theorem Hash_eq_iff_same_grants:
  assumes "\<forall>g \<in> set gs. clean_grant g" "\<forall>g \<in> set hs. clean_grant g"
    and "sum256 (Canonical gs) = sum256 (Canonical hs) \<Longrightarrow> Canonical gs = Canonical hs"
  shows "Hash sum256 gs = Hash sum256 hs \<longleftrightarrow> mset gs = mset hs"
proof
  assume h: "Hash sum256 gs = Hash sum256 hs"
  have "Canonical gs = Canonical hs"
  proof (cases "gs = [] \<or> hs = []")
    case True
    then show ?thesis using h Hash_Nil_iff [of sum256] by metis
  next
    case False
    then show ?thesis using h assms(3) by (auto simp: Hash_def Let_def dest: hex_encode_inject)
  qed
  with assms(1,2) show "mset gs = mset hs" by (rule Canonical_inject)
qed (rule Hash_mset)

theorem Hash_eq_iff_same_grants_witness:
  "Hash (\<lambda>s. s) [Grant ''bob'' ''B'', Grant ''alice'' ''A''] =
     Hash (\<lambda>s. s) [Grant ''alice'' ''A'', Grant ''bob'' ''B'']
   \<and> Hash (\<lambda>s. s) [Grant ''bob'' ''B''] \<noteq> Hash (\<lambda>s. s) [Grant ''alice'' ''A'', Grant ''bob'' ''B'']"
  using Hash_eq_iff_same_grants [of "[Grant ''bob'' ''B'', Grant ''alice'' ''A'']"
      "[Grant ''alice'' ''A'', Grant ''bob'' ''B'']" "\<lambda>s. s"]
    Hash_eq_iff_same_grants [of "[Grant ''bob'' ''B'']"
      "[Grant ''alice'' ''A'', Grant ''bob'' ''B'']" "\<lambda>s. s"]
  by (simp add: clean_grant_def)

text \<open>Nothing in the format keeps a user name from holding a newline, and two different
  policies then have the same canonical form and hash: a grant whose user name spells a
  grant line stands for two grants.\<close>

theorem Hash_newline_collision:
  "Hash sum256 [Grant (''alice:A'' @ [CHR 10] @ ''bob'') ''B''] =
     Hash sum256 [Grant ''alice'' ''A'', Grant ''bob'' ''B'']"
proof -
  have s: "sort [Grant ''alice'' ''A'', Grant ''bob'' ''B''] = [Grant ''alice'' ''A'', Grant ''bob'' ''B'']"
    by (simp add: less_eq_grant_def grant_less_def)
  have s1: "sort [g] = [g]" for g :: grant by simp
  show ?thesis by (simp add: Hash_def Canonical_def s s1 grant_line_def del: sort_key_simps)
qed

end
