(* ===== verification/Store.thy ===== *)
theory Store
  imports Policy_Hash
begin

text \<open>
  The package \<^verbatim>\<open>internal/store\<close>: the control plane's SQLite store. A database state is the record
  \<open>db\<close> of its tables, each the list of its rows; every method is a function that takes the
  state and returns the next state with its result.

  A statement can fail (I/O error, cancelled context): every method takes an oracle
  \<open>flt :: string \<Rightarrow> bool\<close> that says, per labelled statement, whether it fails, and the theorems
  hold for every oracle. The schema's PRIMARY KEY, UNIQUE and FOREIGN KEY constraints are written
  out where a statement can violate them. A transaction that returns an error is rolled back,
  and so is one whose commit fails. Clock readings (\<open>now\<close>) and fresh UUIDs (\<open>u\<close>) are arguments.
  Wrapping an error with \<^verbatim>\<open>%w\<close> only adds text and is not represented: \<^verbatim>\<open>errors.Is\<close> sees the
  cause. Rows that tie under an \<^verbatim>\<open>ORDER BY\<close> keep their insertion order.
\<close>

section \<open>Types\<close>

datatype store_error =
    ErrNotFound
  | ErrAgentNameTaken
  | ErrTokenUsed
  | ErrTokenExpired
  | ErrTokenRevoked
  | SqlUnique string
  | SqlForeignKey
  | SqlUint64HighBit
  | SqlFault

type_synonym faults = "string \<Rightarrow> bool"

text \<open>The message of an error, as the driver words the constraint violations.\<close>

fun error_text :: "store_error \<Rightarrow> string" where
  "error_text ErrNotFound = ''store: not found''"
| "error_text ErrAgentNameTaken = ''store: agent name already in use''"
| "error_text ErrTokenUsed = ''store: token already used''"
| "error_text ErrTokenExpired = ''store: token expired''"
| "error_text ErrTokenRevoked = ''store: token revoked''"
| "error_text (SqlUnique col) = ''constraint failed: UNIQUE constraint failed: '' @ col"
| "error_text SqlForeignKey = ''constraint failed: FOREIGN KEY constraint failed (787)''"
| "error_text SqlUint64HighBit = ''uint64 values with high bit set are not supported''"
| "error_text SqlFault = ''disk I/O error''"

definition AgentOnline :: string where "AgentOnline = ''online''"
definition AgentOffline :: string where "AgentOffline = ''offline''"
definition AgentRevoked :: string where "AgentRevoked = ''revoked''"
definition TokenJoin :: string where "TokenJoin = ''join''"
definition TokenAgent :: string where "TokenAgent = ''agent''"
definition TokenCaller :: string where "TokenCaller = ''caller''"

lemmas status_defs = AgentOnline_def AgentOffline_def AgentRevoked_def
lemmas token_kind_defs = TokenJoin_def TokenAgent_def TokenCaller_def

text \<open>Rows, as the tables hold them (times in Unix seconds).\<close>

record token_row =
  tr_id :: string
  tr_kind :: string
  tr_agent_id :: "string option"
  tr_secret_hash :: string
  tr_label :: string
  tr_created_at :: int
  tr_expires_at :: "int option"
  tr_used_at :: "int option"
  tr_revoked_at :: "int option"

record agent_row =
  ar_id :: string
  ar_name :: string
  ar_created_at :: int
  ar_last_seen_at :: "int option"
  ar_status :: string
  ar_agent_version :: string
  ar_fail_closed_after :: "int option"

record endpoint_row =
  er_agent_id :: string
  er_subnet :: string
  er_address :: string

record acl_row =
  acl_id :: string
  acl_caller :: string
  acl_agent :: string
  acl_username :: string
  acl_created_at :: int
  acl_created_by :: "string option"

record event_row =
  ev_request_id :: string
  ev_ts :: int
  ev_caller :: string
  ev_agent :: "string option"
  ev_username :: "string option"
  ev_principal :: "string option"
  ev_pubkey_fp :: "string option"
  ev_ttl :: int
  ev_serial :: nat
  ev_key_id :: "string option"
  ev_outcome :: string
  ev_denial :: "string option"

record pstate_row =
  ps_agent_id :: string
  ps_desired_version :: int
  ps_applied_version :: int
  ps_applied_hash :: string
  ps_last_apply_status :: string
  ps_last_apply_error :: "string option"
  ps_last_apply_at :: int
  ps_updated_at :: int

record version_row =
  vr_agent_id :: string
  vr_version :: int
  vr_hash :: string

record update_row =
  ur_expected_version :: string
  ur_asset_url_template :: string
  ur_sha256_url_template :: string
  ur_force :: int
  ur_updated_at :: int

record db =
  db_tokens :: "token_row list"
  db_agents :: "agent_row list"
  db_endpoints :: "endpoint_row list"
  db_acl :: "acl_row list"
  db_events :: "event_row list"
  db_pstate :: "pstate_row list"
  db_versions :: "version_row list"
  db_update :: "update_row option"

text \<open>The structs the methods return and take.\<close>

record store_agent =
  sa_ID :: string
  sa_Name :: string
  sa_CreatedAt :: gotime
  sa_LastSeenAt :: "gotime option"
  sa_Status :: string
  sa_AgentVersion :: string
  sa_FailClosedAfter :: "int option"

record agent_endpoint =
  ae_Subnet :: string
  ae_Address :: string

record acl_entry =
  ace_ID :: string
  ace_CallerTokenID :: string
  ace_AgentID :: string
  ace_Username :: string
  ace_CreatedAt :: gotime
  ace_CreatedBy :: "string option"

record create_acl_params =
  cap_CallerTokenID :: string
  cap_AgentID :: string
  cap_Username :: string
  cap_CreatedBy :: "string option"

record list_acl_filter =
  laf_CallerTokenID :: string
  laf_AgentID :: string

record policy_principal =
  pp_Username :: string
  pp_CallerTokenIDs :: "string list"

record policy_snapshot =
  snap_AgentID :: string
  snap_Version :: int
  snap_Hash :: string
  snap_Principals :: "policy_principal list"

record agent_policy_state =
  aps_AgentID :: string
  aps_DesiredVersion :: "int option"
  aps_AppliedVersion :: int
  aps_AppliedHash :: string
  aps_LastApplyStatus :: string
  aps_LastApplyError :: "string option"
  aps_LastApplyAt :: gotime
  aps_UpdatedAt :: gotime

record upsert_policy_state_params =
  ups_AgentID :: string
  ups_DesiredVersion :: "int option"
  ups_AppliedVersion :: int
  ups_AppliedHash :: string
  ups_LastApplyStatus :: string
  ups_LastApplyError :: "string option"
  ups_LastApplyAt :: gotime

record store_token =
  st_ID :: string
  st_Kind :: string
  st_AgentID :: "string option"
  st_SecretHash :: string
  st_Label :: string
  st_CreatedAt :: gotime
  st_ExpiresAt :: "gotime option"
  st_UsedAt :: "gotime option"
  st_RevokedAt :: "gotime option"

record new_token_params =
  ntp_ID :: string
  ntp_Kind :: string
  ntp_AgentID :: "string option"
  ntp_SecretHash :: string
  ntp_Label :: string
  ntp_ExpiresAt :: "gotime option"

record new_agent_params =
  nap_Name :: string

record cert_event =
  ce_RequestID :: string
  ce_TS :: gotime
  ce_CallerTokenID :: string
  ce_TargetAgentID :: string
  ce_Username :: string
  ce_CertPrincipal :: string
  ce_PubkeyFP :: string
  ce_TTLSeconds :: int
  ce_Serial :: nat
  ce_KeyID :: string
  ce_Outcome :: string
  ce_DenialReason :: string

record cert_event_filter =
  cef_CallerTokenID :: string
  cef_AgentID :: string
  cef_Username :: string
  cef_Outcome :: string
  cef_Since :: "gotime option"
  cef_Limit :: int

record update_policy =
  up_ExpectedVersion :: string
  up_AssetURLTemplate :: string
  up_SHA256URLTemplate :: string
  up_Force :: bool
  up_UpdatedAt :: gotime

record set_update_policy_params =
  sup_ExpectedVersion :: string
  sup_AssetURLTemplate :: string
  sup_SHA256URLTemplate :: string
  sup_Force :: bool

section \<open>Helpers\<close>

text \<open>\<open>u[:8] + u[9:13] + u[14:18] + u[19:23] + u[24:]\<close>, then the first \<open>nchar\<close> bytes.\<close>

definition shortID :: "string \<Rightarrow> nat \<Rightarrow> string" where
  "shortID u nchar =
     (let v = take 8 u @ take 4 (drop 9 u) @ take 4 (drop 14 u) @ take 4 (drop 19 u) @ drop 24 u
      in take (min nchar (length v)) v)"

text \<open>The inner loop of \<open>containsAny\<close>: \<^verbatim>\<open>for i := 0; i+len(sub) <= len(s); i++\<close>.\<close>

function occurs_from :: "string \<Rightarrow> string \<Rightarrow> nat \<Rightarrow> bool" where
  "occurs_from s sub i =
     (if i + length sub \<le> length s
      then (take (length sub) (drop i s) = sub \<or> occurs_from s sub (Suc i))
      else False)"
  by pat_completeness auto
termination
  by (relation "measure (\<lambda>(s, sub, i). Suc (length s) - i)") auto

declare occurs_from.simps [simp del]

definition containsAny :: "string \<Rightarrow> string list \<Rightarrow> bool" where
  "containsAny s subs =
     list_ex (\<lambda>sub. 0 < length sub \<and> length sub \<le> length s \<and> occurs_from s sub 0) subs"

definition isUniqueViolation :: "store_error \<Rightarrow> bool" where
  "isUniqueViolation e =
     containsAny (error_text e) [''UNIQUE constraint failed'', ''constraint failed: UNIQUE'']"

text \<open>\<^verbatim>\<open>nullString\<close>: an empty Go string is SQL NULL.\<close>

definition nullString :: "string \<Rightarrow> string option" where
  "nullString s = (if s = [] then None else Some s)"

text \<open>\<^verbatim>\<open>BeginTx\<close> ... \<^verbatim>\<open>Commit\<close> with the deferred \<^verbatim>\<open>Rollback\<close>.\<close>

definition in_tx :: "faults \<Rightarrow> (db \<Rightarrow> db \<times> (store_error, 'a) result) \<Rightarrow> db \<Rightarrow>
    db \<times> (store_error, 'a) result" where
  "in_tx flt body d =
     (if flt ''begin'' then (d, Inl SqlFault)
      else case body d of
        (d', Inl e) \<Rightarrow> (d, Inl e)
      | (d', Inr r) \<Rightarrow> if flt ''commit'' then (d, Inl SqlFault) else (d', Inr r))"

section \<open>Tokens\<close>

definition scanToken :: "token_row \<Rightarrow> store_token" where
  "scanToken r =
     \<lparr>st_ID = tr_id r, st_Kind = tr_kind r, st_AgentID = tr_agent_id r,
      st_SecretHash = tr_secret_hash r, st_Label = tr_label r,
      st_CreatedAt = time_unix (tr_created_at r),
      st_ExpiresAt = map_option time_unix (tr_expires_at r),
      st_UsedAt = map_option time_unix (tr_used_at r),
      st_RevokedAt = map_option time_unix (tr_revoked_at r)\<rparr>"

definition GetTokenByID :: "faults \<Rightarrow> string \<Rightarrow> db \<Rightarrow> (store_error, store_token) result" where
  "GetTokenByID flt i d =
     (if flt ''tokens.select'' then Inl SqlFault
      else case row_get tr_id i (db_tokens d) of
        None \<Rightarrow> Inl ErrNotFound
      | Some r \<Rightarrow> Inr (scanToken r))"

definition agent_ref_ok :: "string option \<Rightarrow> db \<Rightarrow> bool" where
  "agent_ref_ok a d = (case a of None \<Rightarrow> True | Some i \<Rightarrow> row_get ar_id i (db_agents d) \<noteq> None)"

definition insert_token :: "faults \<Rightarrow> token_row \<Rightarrow> db \<Rightarrow> db \<times> (store_error, unit) result" where
  "insert_token flt r d =
     (if flt ''tokens.insert'' then (d, Inl SqlFault)
      else if row_get tr_id (tr_id r) (db_tokens d) \<noteq> None then (d, Inl (SqlUnique ''tokens.id''))
      else if \<not> agent_ref_ok (tr_agent_id r) d then (d, Inl SqlForeignKey)
      else (d\<lparr>db_tokens := db_tokens d @ [r]\<rparr>, Inr ()))"

definition CreateToken :: "faults \<Rightarrow> gotime \<Rightarrow> string \<Rightarrow> new_token_params \<Rightarrow> db \<Rightarrow>
    db \<times> (store_error, store_token) result" where
  "CreateToken flt now u p d =
     (let i = (if ntp_ID p = [] then shortID u 16 else ntp_ID p);
          row = \<lparr>tr_id = i, tr_kind = ntp_Kind p, tr_agent_id = ntp_AgentID p,
                 tr_secret_hash = ntp_SecretHash p, tr_label = ntp_Label p,
                 tr_created_at = unix_of now, tr_expires_at = map_option unix_of (ntp_ExpiresAt p),
                 tr_used_at = None, tr_revoked_at = None\<rparr>
      in case insert_token flt row d of
           (d', Inl e) \<Rightarrow> (d', Inl e)
         | (d', Inr _) \<Rightarrow> (d', GetTokenByID flt i d'))"

definition InsertTokenWithID :: "faults \<Rightarrow> gotime \<Rightarrow> string \<Rightarrow> string \<Rightarrow> string option \<Rightarrow> string \<Rightarrow>
    string \<Rightarrow> db \<Rightarrow> db \<times> (store_error, store_token) result" where
  "InsertTokenWithID flt now i kind agentID secretHash label d =
     (case insert_token flt
        \<lparr>tr_id = i, tr_kind = kind, tr_agent_id = agentID, tr_secret_hash = secretHash,
         tr_label = label, tr_created_at = unix_of now, tr_expires_at = None,
         tr_used_at = None, tr_revoked_at = None\<rparr> d of
        (d', Inl e) \<Rightarrow> (d', Inl e)
      | (d', Inr _) \<Rightarrow> (d', GetTokenByID flt i d'))"

definition ListTokens :: "faults \<Rightarrow> db \<Rightarrow> (store_error, store_token list) result" where
  "ListTokens flt d =
     (if flt ''tokens.list'' then Inl SqlFault
      else Inr (map scanToken (sort_key (\<lambda>r. - tr_created_at r) (db_tokens d))))"

definition set_revoked :: "int \<Rightarrow> token_row \<Rightarrow> token_row" where
  "set_revoked at r = r\<lparr>tr_revoked_at := Some at\<rparr>"

definition set_used :: "int \<Rightarrow> token_row \<Rightarrow> token_row" where
  "set_used at r = r\<lparr>tr_used_at := Some at\<rparr>"

definition RevokeToken :: "faults \<Rightarrow> string \<Rightarrow> gotime \<Rightarrow> db \<Rightarrow> db \<times> (store_error, unit) result" where
  "RevokeToken flt i at d =
     (let P = (\<lambda>r. tr_id r = i \<and> tr_revoked_at r = None)
      in if flt ''tokens.revoke'' then (d, Inl SqlFault)
         else (d\<lparr>db_tokens := row_update P (set_revoked (unix_of at)) (db_tokens d)\<rparr>,
               if rows_affected P (db_tokens d) = 0 then Inl ErrNotFound else Inr ()))"

definition MarkJoinTokenUsed :: "faults \<Rightarrow> string \<Rightarrow> gotime \<Rightarrow> db \<Rightarrow>
    db \<times> (store_error, unit) result" where
  "MarkJoinTokenUsed flt i at d =
     (let P = (\<lambda>r. tr_id r = i \<and> tr_kind r = ''join'' \<and> tr_used_at r = None \<and> tr_revoked_at r = None);
          d' = d\<lparr>db_tokens := row_update P (set_used (unix_of at)) (db_tokens d)\<rparr>
      in if flt ''tokens.mark_used'' then (d, Inl SqlFault)
         else if rows_affected P (db_tokens d) = 0 then
           (d', case GetTokenByID flt i d' of
                  Inl _ \<Rightarrow> Inl ErrNotFound
                | Inr t \<Rightarrow>
                    if st_UsedAt t \<noteq> None then Inl ErrTokenUsed
                    else if st_RevokedAt t \<noteq> None then Inl ErrTokenRevoked
                    else Inl ErrNotFound)
         else (d', Inr ()))"

section \<open>Agents\<close>

definition scanAgent :: "agent_row \<Rightarrow> store_agent" where
  "scanAgent r =
     \<lparr>sa_ID = ar_id r, sa_Name = ar_name r, sa_CreatedAt = time_unix (ar_created_at r),
      sa_LastSeenAt = map_option time_unix (ar_last_seen_at r), sa_Status = ar_status r,
      sa_AgentVersion = ar_agent_version r, sa_FailClosedAfter = ar_fail_closed_after r\<rparr>"

definition queryAgent :: "faults \<Rightarrow> (agent_row \<Rightarrow> string) \<Rightarrow> string \<Rightarrow> db \<Rightarrow>
    (store_error, store_agent) result" where
  "queryAgent flt col arg d =
     (if flt ''agents.select'' then Inl SqlFault
      else case row_get col arg (db_agents d) of
        None \<Rightarrow> Inl ErrNotFound
      | Some r \<Rightarrow> Inr (scanAgent r))"

definition GetAgent :: "faults \<Rightarrow> string \<Rightarrow> db \<Rightarrow> (store_error, store_agent) result" where
  "GetAgent flt i d = queryAgent flt ar_id i d"

definition GetAgentByName :: "faults \<Rightarrow> string \<Rightarrow> db \<Rightarrow> (store_error, store_agent) result" where
  "GetAgentByName flt name d = queryAgent flt ar_name name d"

definition insert_agent :: "faults \<Rightarrow> agent_row \<Rightarrow> db \<Rightarrow> db \<times> (store_error, unit) result" where
  "insert_agent flt r d =
     (if flt ''agents.insert'' then (d, Inl SqlFault)
      else if row_get ar_id (ar_id r) (db_agents d) \<noteq> None then (d, Inl (SqlUnique ''agents.id''))
      else if row_get ar_name (ar_name r) (db_agents d) \<noteq> None
        then (d, Inl (SqlUnique ''agents.name''))
      else (d\<lparr>db_agents := db_agents d @ [r]\<rparr>, Inr ()))"

definition CreateAgent :: "faults \<Rightarrow> gotime \<Rightarrow> string \<Rightarrow> new_agent_params \<Rightarrow> db \<Rightarrow>
    db \<times> (store_error, store_agent) result" where
  "CreateAgent flt now u p d =
     (let i = ''ag_'' @ shortID u 24;
          row = \<lparr>ar_id = i, ar_name = nap_Name p, ar_created_at = unix_of now,
                 ar_last_seen_at = None, ar_status = AgentOnline, ar_agent_version = [],
                 ar_fail_closed_after = None\<rparr>
      in case insert_agent flt row d of
           (d', Inl e) \<Rightarrow> (d', Inl (if isUniqueViolation e then ErrAgentNameTaken else e))
         | (d', Inr _) \<Rightarrow> (d', GetAgent flt i d'))"

definition ListAgents :: "faults \<Rightarrow> db \<Rightarrow> (store_error, store_agent list) result" where
  "ListAgents flt d =
     (if flt ''agents.list'' then Inl SqlFault
      else Inr (map scanAgent (sort_key (\<lambda>r. - ar_created_at r)
             (filter (\<lambda>r. ar_status r \<noteq> ''revoked'') (db_agents d)))))"

definition mark_revoked :: "string \<Rightarrow> agent_row \<Rightarrow> agent_row" where
  "mark_revoked name r = r\<lparr>ar_status := ''revoked'', ar_name := name\<rparr>"

definition RevokeAgent :: "faults \<Rightarrow> string \<Rightarrow> gotime \<Rightarrow> db \<Rightarrow> db \<times> (store_error, unit) result" where
  "RevokeAgent flt i at =
     in_tx flt (\<lambda>d.
       if flt ''agents.select_name'' then (d, Inl SqlFault)
       else case row_get ar_id i (db_agents d) of
         None \<Rightarrow> (d, Inl ErrNotFound)
       | Some a \<Rightarrow>
           let newName = ar_name a @ ''-revoked-'' @ dec_int (unix_of at)
           in if flt ''agents.revoke'' then (d, Inl SqlFault)
              else if list_ex (\<lambda>r. ar_id r \<noteq> i \<and> ar_name r = newName) (db_agents d)
                then (d, Inl (SqlUnique ''agents.name''))
              else
                let d1 = d\<lparr>db_agents :=
                       row_update (\<lambda>r. ar_id r = i) (mark_revoked newName) (db_agents d)\<rparr>
                in if flt ''tokens.revoke_agent'' then (d1, Inl SqlFault)
                   else (d1\<lparr>db_tokens :=
                       row_update (\<lambda>r. tr_agent_id r = Some i \<and> tr_kind r = ''agent''
                                       \<and> tr_revoked_at r = None)
                         (set_revoked (unix_of at)) (db_tokens d1)\<rparr>, Inr ()))"

definition set_fail_closed :: "int option \<Rightarrow> agent_row \<Rightarrow> agent_row" where
  "set_fail_closed v r = r\<lparr>ar_fail_closed_after := v\<rparr>"

definition SetAgentFailClosedAfter :: "faults \<Rightarrow> string \<Rightarrow> int option \<Rightarrow> db \<Rightarrow>
    db \<times> (store_error, unit) result" where
  "SetAgentFailClosedAfter flt i seconds d =
     (let P = (\<lambda>r. ar_id r = i \<and> ar_status r \<noteq> ''revoked'')
      in if flt ''agents.fail_closed'' then (d, Inl SqlFault)
         else (d\<lparr>db_agents := row_update P (set_fail_closed seconds) (db_agents d)\<rparr>,
               if rows_affected P (db_agents d) = 0 then Inl ErrNotFound else Inr ()))"

definition set_heartbeat :: "int \<Rightarrow> string \<Rightarrow> agent_row \<Rightarrow> agent_row" where
  "set_heartbeat at ver r =
     r\<lparr>ar_last_seen_at := Some at, ar_agent_version := ver, ar_status := AgentOnline\<rparr>"

definition UpdateAgentHeartbeat :: "faults \<Rightarrow> string \<Rightarrow> string \<Rightarrow> gotime \<Rightarrow> db \<Rightarrow>
    db \<times> (store_error, unit) result" where
  "UpdateAgentHeartbeat flt i agentVersion at d =
     (if flt ''agents.heartbeat'' then (d, Inl SqlFault)
      else (d\<lparr>db_agents := row_update (\<lambda>r. ar_id r = i) (set_heartbeat (unix_of at) agentVersion)
               (db_agents d)\<rparr>, Inr ()))"

section \<open>Policy state\<close>

definition UpsertAgentPolicyState :: "faults \<Rightarrow> gotime \<Rightarrow> upsert_policy_state_params \<Rightarrow> db \<Rightarrow>
    db \<times> (store_error, unit) result" where
  "UpsertAgentPolicyState flt now p d =
     (let row = \<lparr>ps_agent_id = ups_AgentID p,
                 ps_desired_version = (case ups_DesiredVersion p of None \<Rightarrow> 0 | Some v \<Rightarrow> v),
                 ps_applied_version = ups_AppliedVersion p, ps_applied_hash = ups_AppliedHash p,
                 ps_last_apply_status = ups_LastApplyStatus p,
                 ps_last_apply_error = ups_LastApplyError p,
                 ps_last_apply_at = unix_of (ups_LastApplyAt p), ps_updated_at = unix_of now\<rparr>
      in if flt ''pstate.upsert'' then (d, Inl SqlFault)
         else if row_get ps_agent_id (ups_AgentID p) (db_pstate d) \<noteq> None then
           (d\<lparr>db_pstate := row_update (\<lambda>r. ps_agent_id r = ups_AgentID p) (\<lambda>_. row) (db_pstate d)\<rparr>,
            Inr ())
         else if row_get ar_id (ups_AgentID p) (db_agents d) = None then (d, Inl SqlForeignKey)
         else (d\<lparr>db_pstate := db_pstate d @ [row]\<rparr>, Inr ()))"

definition GetAgentPolicyState :: "faults \<Rightarrow> string \<Rightarrow> db \<Rightarrow>
    (store_error, agent_policy_state) result" where
  "GetAgentPolicyState flt agentID d =
     (if flt ''pstate.select'' then Inl SqlFault
      else case row_get ps_agent_id agentID (db_pstate d) of
        None \<Rightarrow> Inl ErrNotFound
      | Some r \<Rightarrow> Inr
          \<lparr>aps_AgentID = ps_agent_id r,
           aps_DesiredVersion = (if ps_desired_version r \<noteq> 0 then Some (ps_desired_version r) else None),
           aps_AppliedVersion = ps_applied_version r, aps_AppliedHash = ps_applied_hash r,
           aps_LastApplyStatus = ps_last_apply_status r, aps_LastApplyError = ps_last_apply_error r,
           aps_LastApplyAt = time_unix (ps_last_apply_at r),
           aps_UpdatedAt = time_unix (ps_updated_at r)\<rparr>)"

section \<open>ACL and policy versions\<close>

definition scanACL :: "acl_row \<Rightarrow> acl_entry" where
  "scanACL r =
     \<lparr>ace_ID = acl_id r, ace_CallerTokenID = acl_caller r, ace_AgentID = acl_agent r,
      ace_Username = acl_username r, ace_CreatedAt = time_unix (acl_created_at r),
      ace_CreatedBy = acl_created_by r\<rparr>"

definition row_grant :: "acl_row \<Rightarrow> grant" where
  "row_grant r = Grant (acl_username r) (acl_caller r)"

text \<open>\<^verbatim>\<open>SELECT username, caller_token_id FROM acl WHERE agent_id = ? ORDER BY username,
  caller_token_id\<close>.\<close>

definition agent_rows :: "string \<Rightarrow> db \<Rightarrow> acl_row list" where
  "agent_rows agentID d = filter (\<lambda>r. acl_agent r = agentID) (db_acl d)"

definition select_grants :: "string \<Rightarrow> db \<Rightarrow> grant list" where
  "select_grants agentID d = sort (map row_grant (agent_rows agentID d))"

definition computePolicyHash :: "faults \<Rightarrow> (string \<Rightarrow> string) \<Rightarrow> string \<Rightarrow> db \<Rightarrow>
    (store_error, string) result" where
  "computePolicyHash flt sum256 agentID d =
     (if flt ''acl.select_hash'' then Inl SqlFault else Inr (Hash sum256 (select_grants agentID d)))"

definition bump_row :: "version_row \<Rightarrow> version_row" where
  "bump_row r = r\<lparr>vr_version := vr_version r + 1\<rparr>"

definition set_hash :: "string \<Rightarrow> version_row \<Rightarrow> version_row" where
  "set_hash h r = r\<lparr>vr_hash := h\<rparr>"

definition bumpPolicyVersionTx :: "faults \<Rightarrow> (string \<Rightarrow> string) \<Rightarrow> string \<Rightarrow> db \<Rightarrow>
    db \<times> (store_error, unit) result" where
  "bumpPolicyVersionTx flt sum256 agentID d =
     (if flt ''versions.upsert'' then (d, Inl SqlFault)
      else if row_get vr_agent_id agentID (db_versions d) = None
              \<and> row_get ar_id agentID (db_agents d) = None then (d, Inl SqlForeignKey)
      else
        let d1 = (if row_get vr_agent_id agentID (db_versions d) = None
                  then d\<lparr>db_versions := db_versions d @
                         [\<lparr>vr_agent_id = agentID, vr_version = 1, vr_hash = []\<rparr>]\<rparr>
                  else d\<lparr>db_versions :=
                         row_update (\<lambda>r. vr_agent_id r = agentID) bump_row (db_versions d)\<rparr>)
        in case computePolicyHash flt sum256 agentID d1 of
             Inl e \<Rightarrow> (d1, Inl e)
           | Inr h \<Rightarrow>
               if flt ''versions.set_hash'' then (d1, Inl SqlFault)
               else (d1\<lparr>db_versions :=
                       row_update (\<lambda>r. vr_agent_id r = agentID) (set_hash h) (db_versions d1)\<rparr>,
                     Inr ()))"

definition bumpPolicyVersion :: "faults \<Rightarrow> (string \<Rightarrow> string) \<Rightarrow> string \<Rightarrow> db \<Rightarrow>
    db \<times> (store_error, unit) result" where
  "bumpPolicyVersion flt sum256 agentID = in_tx flt (bumpPolicyVersionTx flt sum256 agentID)"

definition GetACL :: "faults \<Rightarrow> string \<Rightarrow> db \<Rightarrow> (store_error, acl_entry) result" where
  "GetACL flt i d =
     (if flt ''acl.select'' then Inl SqlFault
      else case row_get acl_id i (db_acl d) of
        None \<Rightarrow> Inl ErrNotFound
      | Some r \<Rightarrow> Inr (scanACL r))"

definition acl_triple :: "acl_row \<Rightarrow> string \<times> string \<times> string" where
  "acl_triple r = (acl_caller r, acl_agent r, acl_username r)"

definition getACLByTriple :: "faults \<Rightarrow> string \<Rightarrow> string \<Rightarrow> string \<Rightarrow> db \<Rightarrow>
    (store_error, acl_entry) result" where
  "getACLByTriple flt callerTokenID agentID username d =
     (if flt ''acl.select_triple'' then Inl SqlFault
      else case row_get acl_triple (callerTokenID, agentID, username) (db_acl d) of
        None \<Rightarrow> Inl ErrNotFound
      | Some r \<Rightarrow> Inr (scanACL r))"

definition insert_acl :: "faults \<Rightarrow> acl_row \<Rightarrow> db \<Rightarrow> db \<times> (store_error, unit) result" where
  "insert_acl flt r d =
     (if flt ''acl.insert'' then (d, Inl SqlFault)
      else if row_get acl_id (acl_id r) (db_acl d) \<noteq> None then (d, Inl (SqlUnique ''acl.id''))
      else if row_get acl_triple (acl_triple r) (db_acl d) \<noteq> None
        then (d, Inl (SqlUnique ''acl.caller_token_id, acl.agent_id, acl.username''))
      else if row_get ar_id (acl_agent r) (db_agents d) = None then (d, Inl SqlForeignKey)
      else (d\<lparr>db_acl := db_acl d @ [r]\<rparr>, Inr ()))"

definition CreateACL :: "faults \<Rightarrow> (string \<Rightarrow> string) \<Rightarrow> gotime \<Rightarrow> string \<Rightarrow> create_acl_params \<Rightarrow>
    db \<Rightarrow> db \<times> (store_error, acl_entry) result" where
  "CreateACL flt sum256 now u p d =
     (let i = ''acl_'' @ shortID u 24;
          row = \<lparr>acl_id = i, acl_caller = cap_CallerTokenID p, acl_agent = cap_AgentID p,
                 acl_username = cap_Username p, acl_created_at = unix_of now,
                 acl_created_by = cap_CreatedBy p\<rparr>
      in if flt ''begin'' then (d, Inl SqlFault)
         else case insert_acl flt row d of
           (d1, Inl e) \<Rightarrow>
             if isUniqueViolation e
             then (d, getACLByTriple flt (cap_CallerTokenID p) (cap_AgentID p) (cap_Username p) d)
             else (d, Inl e)
         | (d1, Inr _) \<Rightarrow>
             (case bumpPolicyVersionTx flt sum256 (cap_AgentID p) d1 of
                (d2, Inl e) \<Rightarrow> (d, Inl e)
              | (d2, Inr _) \<Rightarrow>
                  if flt ''commit'' then (d, Inl SqlFault) else (d2, GetACL flt i d2)))"

definition DeleteACL :: "faults \<Rightarrow> (string \<Rightarrow> string) \<Rightarrow> string \<Rightarrow> db \<Rightarrow>
    db \<times> (store_error, unit) result" where
  "DeleteACL flt sum256 i =
     in_tx flt (\<lambda>d.
       if flt ''acl.select_agent'' then (d, Inl SqlFault)
       else case row_get acl_id i (db_acl d) of
         None \<Rightarrow> (d, Inl ErrNotFound)
       | Some r \<Rightarrow>
           if flt ''acl.delete'' then (d, Inl SqlFault)
           else
             let d1 = d\<lparr>db_acl := row_delete (\<lambda>r. acl_id r = i) (db_acl d)\<rparr>
             in if rows_affected (\<lambda>r. acl_id r = i) (db_acl d) = 0 then (d1, Inl ErrNotFound)
                else bumpPolicyVersionTx flt sum256 (acl_agent r) d1)"

definition ListACL :: "faults \<Rightarrow> list_acl_filter \<Rightarrow> db \<Rightarrow> (store_error, acl_entry list) result" where
  "ListACL flt f d =
     (if flt ''acl.list'' then Inl SqlFault
      else Inr (map scanACL (sort_key acl_created_at
             (filter (\<lambda>r. (laf_CallerTokenID f \<noteq> [] \<longrightarrow> acl_caller r = laf_CallerTokenID f)
                        \<and> (laf_AgentID f \<noteq> [] \<longrightarrow> acl_agent r = laf_AgentID f)) (db_acl d)))))"

text \<open>The grouping loop of \<open>GetPolicySnapshot\<close>: \<open>byUser\<close> and \<open>order\<close>.\<close>

definition group_step :: "(string \<rightharpoonup> string list) \<times> string list \<Rightarrow> grant \<Rightarrow>
    (string \<rightharpoonup> string list) \<times> string list" where
  "group_step st g =
     (let (byUser, order) = st; u = Username g; c = CallerTokenID g;
          order' = (if byUser u = None then order @ [u] else order)
      in (byUser(u \<mapsto> (case byUser u of None \<Rightarrow> [] | Some cs \<Rightarrow> cs) @ [c]), order'))"

definition group_principals :: "grant list \<Rightarrow> policy_principal list" where
  "group_principals gs =
     (let (byUser, order) = foldl group_step (Map.empty, []) gs
      in map (\<lambda>u. \<lparr>pp_Username = u,
                   pp_CallerTokenIDs = (case byUser u of None \<Rightarrow> [] | Some cs \<Rightarrow> cs)\<rparr>) order)"

definition GetPolicySnapshot :: "faults \<Rightarrow> string \<Rightarrow> db \<Rightarrow> (store_error, policy_snapshot) result" where
  "GetPolicySnapshot flt agentID d =
     (if flt ''begin'' \<or> flt ''versions.select'' then Inl SqlFault
      else
        let (version, hash) = (case row_get vr_agent_id agentID (db_versions d) of
               None \<Rightarrow> (0, []) | Some r \<Rightarrow> (vr_version r, vr_hash r))
        in if flt ''acl.select_snapshot'' then Inl SqlFault
           else Inr \<lparr>snap_AgentID = agentID, snap_Version = version, snap_Hash = hash,
                     snap_Principals = group_principals (select_grants agentID d)\<rparr>)"

section \<open>Endpoints\<close>

definition endpoint_key :: "endpoint_row \<Rightarrow> string \<times> string" where
  "endpoint_key r = (er_agent_id r, er_subnet r)"

fun insert_endpoints :: "faults \<Rightarrow> string \<Rightarrow> agent_endpoint list \<Rightarrow> db \<Rightarrow>
    db \<times> (store_error, unit) result" where
  "insert_endpoints flt agentID [] d = (d, Inr ())"
| "insert_endpoints flt agentID (e # es) d =
     (if flt (''endpoints.insert '' @ ae_Subnet e) then (d, Inl SqlFault)
      else if row_get endpoint_key (agentID, ae_Subnet e) (db_endpoints d) \<noteq> None
        then (d, Inl (SqlUnique ''agent_endpoints.agent_id, agent_endpoints.subnet''))
      else if row_get ar_id agentID (db_agents d) = None then (d, Inl SqlForeignKey)
      else insert_endpoints flt agentID es
        (d\<lparr>db_endpoints := db_endpoints d @
            [\<lparr>er_agent_id = agentID, er_subnet = ae_Subnet e, er_address = ae_Address e\<rparr>]\<rparr>))"

definition UpsertAgentEndpoints :: "faults \<Rightarrow> string \<Rightarrow> agent_endpoint list \<Rightarrow> db \<Rightarrow>
    db \<times> (store_error, unit) result" where
  "UpsertAgentEndpoints flt agentID endpoints =
     in_tx flt (\<lambda>d.
       if flt ''endpoints.delete'' then (d, Inl SqlFault)
       else insert_endpoints flt agentID endpoints
         (d\<lparr>db_endpoints := row_delete (\<lambda>r. er_agent_id r = agentID) (db_endpoints d)\<rparr>))"

definition ListAgentEndpoints :: "faults \<Rightarrow> string \<Rightarrow> db \<Rightarrow>
    (store_error, agent_endpoint list) result" where
  "ListAgentEndpoints flt agentID d =
     (if flt ''endpoints.list'' then Inl SqlFault
      else Inr (map (\<lambda>r. \<lparr>ae_Subnet = er_subnet r, ae_Address = er_address r\<rparr>)
             (sort_key er_subnet (filter (\<lambda>r. er_agent_id r = agentID) (db_endpoints d)))))"

section \<open>Certificate events\<close>

text \<open>\<^verbatim>\<open>INSERT OR IGNORE\<close>: a duplicate \<^verbatim>\<open>request_id\<close> and a NULL \<^verbatim>\<open>caller_token_id\<close> skip the row
  without an error; the driver refuses a \<^verbatim>\<open>uint64\<close> whose high bit is set.\<close>

definition WriteCertEvent :: "faults \<Rightarrow> cert_event \<Rightarrow> db \<Rightarrow> db \<times> (store_error, unit) result" where
  "WriteCertEvent flt e d =
     (if flt ''events.insert'' then (d, Inl SqlFault)
      else if 2 ^ 63 \<le> ce_Serial e then (d, Inl SqlUint64HighBit)
      else if row_get ev_request_id (ce_RequestID e) (db_events d) \<noteq> None then (d, Inr ())
      else case nullString (ce_CallerTokenID e) of
        None \<Rightarrow> (d, Inr ())
      | Some caller \<Rightarrow>
          (d\<lparr>db_events := db_events d @
              [\<lparr>ev_request_id = ce_RequestID e, ev_ts = unix_of (ce_TS e), ev_caller = caller,
                ev_agent = nullString (ce_TargetAgentID e), ev_username = nullString (ce_Username e),
                ev_principal = nullString (ce_CertPrincipal e),
                ev_pubkey_fp = nullString (ce_PubkeyFP e), ev_ttl = ce_TTLSeconds e,
                ev_serial = ce_Serial e, ev_key_id = nullString (ce_KeyID e),
                ev_outcome = ce_Outcome e, ev_denial = nullString (ce_DenialReason e)\<rparr>]\<rparr>, Inr ()))"

definition null_to_empty :: "string option \<Rightarrow> string" where
  "null_to_empty v = (case v of None \<Rightarrow> [] | Some s \<Rightarrow> s)"

definition scan_event :: "event_row \<Rightarrow> cert_event" where
  "scan_event r =
     \<lparr>ce_RequestID = ev_request_id r, ce_TS = time_unix (ev_ts r), ce_CallerTokenID = ev_caller r,
      ce_TargetAgentID = null_to_empty (ev_agent r), ce_Username = null_to_empty (ev_username r),
      ce_CertPrincipal = null_to_empty (ev_principal r),
      ce_PubkeyFP = null_to_empty (ev_pubkey_fp r), ce_TTLSeconds = ev_ttl r,
      ce_Serial = ev_serial r, ce_KeyID = null_to_empty (ev_key_id r),
      ce_Outcome = ev_outcome r, ce_DenialReason = null_to_empty (ev_denial r)\<rparr>"

definition event_matches :: "cert_event_filter \<Rightarrow> event_row \<Rightarrow> bool" where
  "event_matches f r \<longleftrightarrow>
     (cef_CallerTokenID f \<noteq> [] \<longrightarrow> ev_caller r = cef_CallerTokenID f)
     \<and> (cef_AgentID f \<noteq> [] \<longrightarrow> ev_agent r = Some (cef_AgentID f))
     \<and> (cef_Username f \<noteq> [] \<longrightarrow> ev_username r = Some (cef_Username f))
     \<and> (cef_Outcome f \<noteq> [] \<longrightarrow> ev_outcome r = cef_Outcome f)
     \<and> (case cef_Since f of None \<Rightarrow> True | Some t \<Rightarrow> unix_of t \<le> ev_ts r)"

definition ListCertEvents :: "faults \<Rightarrow> cert_event_filter \<Rightarrow> db \<Rightarrow>
    (store_error, cert_event list) result" where
  "ListCertEvents flt f d =
     (let limit = (if cef_Limit f \<le> 0 \<or> cef_Limit f > 1000 then 100 else cef_Limit f)
      in if flt ''events.list'' then Inl SqlFault
         else Inr (map scan_event (take (nat limit)
                (sort_key (\<lambda>r. - ev_ts r) (filter (event_matches f) (db_events d))))))"

section \<open>Update policy\<close>

definition GetUpdatePolicy :: "faults \<Rightarrow> db \<Rightarrow> (store_error, update_policy) result" where
  "GetUpdatePolicy flt d =
     (if flt ''update.select'' then Inl SqlFault
      else case db_update d of
        None \<Rightarrow> Inl ErrNotFound
      | Some r \<Rightarrow> Inr \<lparr>up_ExpectedVersion = ur_expected_version r,
            up_AssetURLTemplate = ur_asset_url_template r,
            up_SHA256URLTemplate = ur_sha256_url_template r,
            up_Force = (ur_force r \<noteq> 0), up_UpdatedAt = time_unix (ur_updated_at r)\<rparr>)"

definition SetUpdatePolicy :: "faults \<Rightarrow> gotime \<Rightarrow> set_update_policy_params \<Rightarrow> db \<Rightarrow>
    db \<times> (store_error, unit) result" where
  "SetUpdatePolicy flt now p d =
     (if flt ''update.upsert'' then (d, Inl SqlFault)
      else (d\<lparr>db_update := Some \<lparr>ur_expected_version = sup_ExpectedVersion p,
              ur_asset_url_template = sup_AssetURLTemplate p,
              ur_sha256_url_template = sup_SHA256URLTemplate p,
              ur_force = (if sup_Force p then 1 else 0), ur_updated_at = unix_of now\<rparr>\<rparr>, Inr ()))"

end
