(* ===== verification/Store_Policy.thy ===== *)
theory Store_Policy
  imports Store
begin

text \<open>
  What the store promises. \<open>store_step\<close> is one method call, with any arguments and any pattern of
  failing statements; \<open>db_change\<close> is the abstract specification, the few ways in which the tables
  may change; every call refines a sequence of such changes, so an invariant is proved once per
  change and holds after any sequence of calls.
\<close>

section \<open>Definitions\<close>

inductive store_step :: "(string \<Rightarrow> string) \<Rightarrow> db \<Rightarrow> db \<Rightarrow> bool" for sum256 where
  st_create_token: "store_step sum256 d (fst (CreateToken flt now u ntp d))"
| st_insert_token: "store_step sum256 d (fst (InsertTokenWithID flt now i k a sh l d))"
| st_revoke_token: "store_step sum256 d (fst (RevokeToken flt i now d))"
| st_mark_used: "store_step sum256 d (fst (MarkJoinTokenUsed flt i now d))"
| st_create_agent: "store_step sum256 d (fst (CreateAgent flt now u nap d))"
| st_heartbeat: "store_step sum256 d (fst (UpdateAgentHeartbeat flt i v now d))"
| st_revoke_agent: "store_step sum256 d (fst (RevokeAgent flt i now d))"
| st_fail_closed: "store_step sum256 d (fst (SetAgentFailClosedAfter flt i s d))"
| st_pstate: "store_step sum256 d (fst (UpsertAgentPolicyState flt now ups d))"
| st_create_acl: "store_step sum256 d (fst (CreateACL flt sum256 now u cap d))"
| st_delete_acl: "store_step sum256 d (fst (DeleteACL flt sum256 i d))"
| st_bump: "store_step sum256 d (fst (bumpPolicyVersion flt sum256 i d))"
| st_endpoints: "store_step sum256 d (fst (UpsertAgentEndpoints flt i es d))"
| st_event: "store_step sum256 d (fst (WriteCertEvent flt ce d))"
| st_update: "store_step sum256 d (fst (SetUpdatePolicy flt now upd d))"

text \<open>The empty database a fresh installation starts from.\<close>

definition empty_db :: db where
  "empty_db = \<lparr>db_tokens = [], db_agents = [], db_endpoints = [], db_acl = [], db_events = [],
     db_pstate = [], db_versions = [], db_update = None\<rparr>"

definition policy_version :: "string \<Rightarrow> db \<Rightarrow> int" where
  "policy_version a d = (case row_get vr_agent_id a (db_versions d) of None \<Rightarrow> 0 | Some r \<Rightarrow> vr_version r)"

definition policy_hash :: "string \<Rightarrow> db \<Rightarrow> string" where
  "policy_hash a d = (case row_get vr_agent_id a (db_versions d) of None \<Rightarrow> [] | Some r \<Rightarrow> vr_hash r)"

definition agent_ids :: "db \<Rightarrow> string set" where
  "agent_ids d = ar_id ` set (db_agents d)"

definition keys_ok :: "db \<Rightarrow> bool" where
  "keys_ok d \<longleftrightarrow> distinct (map tr_id (db_tokens d)) \<and> distinct (map ar_id (db_agents d))
     \<and> distinct (map ar_name (db_agents d)) \<and> distinct (map acl_id (db_acl d))
     \<and> distinct (map acl_triple (db_acl d)) \<and> distinct (map vr_agent_id (db_versions d))
     \<and> distinct (map endpoint_key (db_endpoints d)) \<and> distinct (map ps_agent_id (db_pstate d))
     \<and> distinct (map ev_request_id (db_events d))
     \<and> list_all (has_prefix ''ag_'') (map ar_id (db_agents d))"

definition refs_ok :: "db \<Rightarrow> bool" where
  "refs_ok d \<longleftrightarrow> acl_agent ` set (db_acl d) \<subseteq> agent_ids d
     \<and> vr_agent_id ` set (db_versions d) \<subseteq> agent_ids d
     \<and> er_agent_id ` set (db_endpoints d) \<subseteq> agent_ids d
     \<and> ps_agent_id ` set (db_pstate d) \<subseteq> agent_ids d
     \<and> (\<forall>r \<in> set (db_tokens d). \<forall>a. tr_agent_id r = Some a \<longrightarrow> a \<in> agent_ids d)"

definition policy_ok :: "(string \<Rightarrow> string) \<Rightarrow> db \<Rightarrow> bool" where
  "policy_ok sum256 d \<longleftrightarrow>
     (\<forall>a. policy_hash a d = Hash sum256 (select_grants a d) \<and> 0 \<le> policy_version a d)"

definition db_wf :: "(string \<Rightarrow> string) \<Rightarrow> db \<Rightarrow> bool" where
  "db_wf sum256 d \<longleftrightarrow> keys_ok d \<and> refs_ok d \<and> policy_ok sum256 d"

definition bump_versions :: "string \<Rightarrow> string \<Rightarrow> version_row list \<Rightarrow> version_row list" where
  "bump_versions a h vs =
     (if row_get vr_agent_id a vs = None
      then vs @ [\<lparr>vr_agent_id = a, vr_version = 1, vr_hash = h\<rparr>]
      else row_update (\<lambda>r. vr_agent_id r = a) (\<lambda>r. set_hash h (bump_row r)) vs)"

definition rows_of :: "string \<Rightarrow> acl_row list \<Rightarrow> acl_row list" where
  "rows_of a rows = filter (\<lambda>r. acl_agent r = a) rows"

inductive db_change :: "(string \<Rightarrow> string) \<Rightarrow> db \<Rightarrow> db \<Rightarrow> bool" for sum256 where
  ch_add_token: "tr_id r \<notin> tr_id ` set (db_tokens d) \<Longrightarrow> agent_ref_ok (tr_agent_id r) d \<Longrightarrow>
     db_change sum256 d (d\<lparr>db_tokens := db_tokens d @ [r]\<rparr>)"
| ch_revoke: "(\<And>r. P r \<Longrightarrow> tr_revoked_at r = None) \<Longrightarrow>
     db_change sum256 d (d\<lparr>db_tokens := row_update P (set_revoked at) (db_tokens d)\<rparr>)"
| ch_use: "(\<And>r. P r \<Longrightarrow> tr_used_at r = None) \<Longrightarrow>
     db_change sum256 d (d\<lparr>db_tokens := row_update P (set_used at) (db_tokens d)\<rparr>)"
| ch_add_agent: "ar_id r \<notin> ar_id ` set (db_agents d) \<Longrightarrow> ar_name r \<notin> ar_name ` set (db_agents d) \<Longrightarrow>
     has_prefix ''ag_'' (ar_id r) \<Longrightarrow> db_change sum256 d (d\<lparr>db_agents := db_agents d @ [r]\<rparr>)"
| ch_agents: "map ar_id rows = map ar_id (db_agents d) \<Longrightarrow>
     (distinct (map ar_id (db_agents d)) \<Longrightarrow> distinct (map ar_name (db_agents d)) \<Longrightarrow>
        distinct (map ar_name rows)) \<Longrightarrow>
     db_change sum256 d (d\<lparr>db_agents := rows\<rparr>)"
| ch_acl: "a \<in> agent_ids d \<or> a \<in> vr_agent_id ` set (db_versions d) \<Longrightarrow>
     (keys_ok d \<Longrightarrow> distinct (map acl_id rows) \<and> distinct (map acl_triple rows)) \<Longrightarrow>
     acl_agent ` set rows \<subseteq> acl_agent ` set (db_acl d) \<union> agent_ids d \<Longrightarrow>
     (\<And>b. b \<noteq> a \<Longrightarrow> rows_of b rows = rows_of b (db_acl d)) \<Longrightarrow>
     db_change sum256 d (d\<lparr>db_acl := rows, db_versions :=
       bump_versions a (Hash sum256 (sort (map row_grant (rows_of a rows)))) (db_versions d)\<rparr>)"
| ch_endpoints: "distinct (map endpoint_key (db_endpoints d)) \<longrightarrow> distinct (map endpoint_key es) \<Longrightarrow>
     er_agent_id ` set es \<subseteq> er_agent_id ` set (db_endpoints d) \<union> agent_ids d \<Longrightarrow>
     db_change sum256 d (d\<lparr>db_endpoints := es\<rparr>)"
| ch_pstate: "distinct (map ps_agent_id (db_pstate d)) \<longrightarrow> distinct (map ps_agent_id ps) \<Longrightarrow>
     ps_agent_id ` set ps \<subseteq> ps_agent_id ` set (db_pstate d) \<union> agent_ids d \<Longrightarrow>
     db_change sum256 d (d\<lparr>db_pstate := ps\<rparr>)"
| ch_event: "ev_request_id r \<notin> ev_request_id ` set (db_events d) \<Longrightarrow>
     db_change sum256 d (d\<lparr>db_events := db_events d @ [r]\<rparr>)"
| ch_update: "db_change sum256 d (d\<lparr>db_update := p\<rparr>)"

text \<open>What a successful \<open>RevokeAgent\<close> leaves.\<close>

definition revoked_name :: "agent_row \<Rightarrow> gotime \<Rightarrow> string" where
  "revoked_name a at = ar_name a @ ''-revoked-'' @ dec_int (unix_of at)"

definition revoke_tables :: "string \<Rightarrow> string \<Rightarrow> gotime \<Rightarrow> db \<Rightarrow> db" where
  "revoke_tables i name at d =
     d\<lparr>db_agents := row_update (\<lambda>b. ar_id b = i) (mark_revoked name) (db_agents d),
       db_tokens := row_update (\<lambda>t. tr_agent_id t = Some i \<and> tr_kind t = ''agent''
         \<and> tr_revoked_at t = None) (set_revoked (unix_of at)) (db_tokens d)\<rparr>"

section \<open>Error texts\<close>

lemma occurs_from_iff:
  "occurs_from s sub i \<longleftrightarrow> (\<exists>j \<ge> i. j + length sub \<le> length s \<and> take (length sub) (drop j s) = sub)"
proof (induction s sub i rule: occurs_from.induct)
  case (1 s sub i)
  show ?case
  proof (cases "i + length sub \<le> length s")
    case True
    have "(\<exists>j\<ge>i. P j) \<longleftrightarrow> P i \<or> (\<exists>j\<ge>Suc i. P j)" for P :: "nat \<Rightarrow> bool"
      by (metis Suc_leD le_refl not_less_eq_eq order_antisym)
    with True 1 show ?thesis by (subst occurs_from.simps) auto
  next
    case False
    then show ?thesis by (subst occurs_from.simps) auto
  qed
qed

lemma unique_violation [simp]: "isUniqueViolation (SqlUnique col)"
proof -
  have "occurs_from (error_text (SqlUnique col)) ''UNIQUE constraint failed'' 0"
    unfolding occurs_from_iff by (intro exI [of _ 19]) simp
  then show ?thesis by (simp add: isUniqueViolation_def containsAny_def)
qed

lemma not_unique_violation [simp]:
  "\<not> isUniqueViolation SqlForeignKey" "\<not> isUniqueViolation SqlFault"
  by (simp_all add: isUniqueViolation_def containsAny_def occurs_from.simps)

section \<open>Row updates that keep the key\<close>

interpretation revoke_tok: key_preserving tr_id "set_revoked at" for at
  by unfold_locales (simp add: set_revoked_def)

interpretation use_tok: key_preserving tr_id "set_used at" for at
  by unfold_locales (simp add: set_used_def)

interpretation beat_agent: key_preserving ar_id "set_heartbeat at v" for at v
  by unfold_locales (simp add: set_heartbeat_def)

interpretation beat_agent_name: key_preserving ar_name "set_heartbeat at v" for at v
  by unfold_locales (simp add: set_heartbeat_def)

interpretation fail_agent: key_preserving ar_id "set_fail_closed s" for s
  by unfold_locales (simp add: set_fail_closed_def)

interpretation fail_agent_name: key_preserving ar_name "set_fail_closed s" for s
  by unfold_locales (simp add: set_fail_closed_def)

interpretation revoke_ag: key_preserving ar_id "mark_revoked n" for n
  by unfold_locales (simp add: mark_revoked_def)

interpretation bump_ver: key_preserving vr_agent_id "\<lambda>r. set_hash h (bump_row r)" for h
  by unfold_locales (simp add: set_hash_def bump_row_def)

interpretation hash_ver: key_preserving vr_agent_id "set_hash h" for h
  by unfold_locales (simp add: set_hash_def)

interpretation bump_only: key_preserving vr_agent_id bump_row
  by unfold_locales (simp add: bump_row_def)

lemma row_update_twice:
  "(\<And>r. P r \<Longrightarrow> P (f r)) \<Longrightarrow> row_update P g (row_update P f rows) = row_update P (\<lambda>r. g (f r)) rows"
  by (auto simp: row_update_def)

lemma row_update_append:
  "row_update P f (xs @ ys) = row_update P f xs @ row_update P f ys"
  by (simp add: row_update_def)

lemma row_update_none: "\<forall>r \<in> set rows. \<not> P r \<Longrightarrow> row_update P f rows = rows"
  by (auto simp: row_update_def intro: map_idI)

section \<open>Every call refines a sequence of changes\<close>

lemma change_refl: "d' = d \<Longrightarrow> (db_change sum256)\<^sup>*\<^sup>* d d'"
  by simp

lemma change_one: "db_change sum256 d d' \<Longrightarrow> (db_change sum256)\<^sup>*\<^sup>* d d'"
  by (rule r_into_rtranclp)

lemma in_tx_cases:
  "fst (in_tx flt body d) = d
   \<or> (\<exists>r. body d = (fst (in_tx flt body d), Inr r) \<and> snd (in_tx flt body d) = Inr r)"
  by (auto simp: in_tx_def split: prod.splits sum.splits)

lemma insert_token_change:
  "fst (insert_token flt r d) = d \<or> db_change sum256 d (fst (insert_token flt r d))"
  by (auto simp: insert_token_def row_get_None_iff intro: ch_add_token)

lemma fst_keep:
  "fst (case x of (d', Inl e) \<Rightarrow> (d', f d' e) | (d', Inr v) \<Rightarrow> (d', g d' v)) = fst x"
  by (auto split: prod.splits sum.splits)

lemma fst_CreateToken:
  "\<exists>r. fst (CreateToken flt now u p d) = fst (insert_token flt r d)
     \<and> tr_used_at r = None \<and> tr_revoked_at r = None"
  unfolding CreateToken_def Let_def fst_keep by (rule exI, rule conjI, rule refl) simp

lemma fst_InsertTokenWithID:
  "\<exists>r. fst (InsertTokenWithID flt now i k a sh l d) = fst (insert_token flt r d)"
  unfolding InsertTokenWithID_def fst_keep by (rule exI, rule refl)

lemma RevokeToken_change:
  "fst (RevokeToken flt i at d) = d \<or> db_change sum256 d (fst (RevokeToken flt i at d))"
  by (auto simp: RevokeToken_def Let_def intro: ch_revoke)

lemma MarkJoinTokenUsed_change:
  "fst (MarkJoinTokenUsed flt i at d) = d \<or> db_change sum256 d (fst (MarkJoinTokenUsed flt i at d))"
  by (auto simp: MarkJoinTokenUsed_def Let_def intro: ch_use)

lemma CreateAgent_change:
  "fst (CreateAgent flt now u p d) = d \<or> db_change sum256 d (fst (CreateAgent flt now u p d))"
  by (auto simp: CreateAgent_def insert_agent_def Let_def row_get_None_iff has_prefix_def intro: ch_add_agent
      split: prod.splits sum.splits if_splits)

lemma heartbeat_change:
  "fst (UpdateAgentHeartbeat flt i v at d) = d
   \<or> db_change sum256 d (fst (UpdateAgentHeartbeat flt i v at d))"
  by (auto simp: UpdateAgentHeartbeat_def intro!: ch_agents)

lemma fail_closed_change:
  "fst (SetAgentFailClosedAfter flt i s d) = d
   \<or> db_change sum256 d (fst (SetAgentFailClosedAfter flt i s d))"
  by (auto simp: SetAgentFailClosedAfter_def Let_def intro!: ch_agents)

lemma distinct_rename:
  assumes "distinct (map ar_id rows)" "distinct (map ar_name rows)"
    "\<forall>r \<in> set rows. ar_id r \<noteq> i \<longrightarrow> ar_name r \<noteq> n"
  shows "distinct (map ar_name (row_update (\<lambda>r. ar_id r = i) (mark_revoked n) rows))"
  using assms by (induction rows) (auto simp: row_update_def mark_revoked_def image_iff split: if_splits)

lemma RevokeAgent_InrD:
  assumes "RevokeAgent flt i at d = (d', Inr r)"
  shows "\<exists>a. row_get ar_id i (db_agents d) = Some a
     \<and> (\<forall>b \<in> set (db_agents d). ar_id b \<noteq> i \<longrightarrow> ar_name b \<noteq> revoked_name a at)
     \<and> d' = revoke_tables i (revoked_name a at) at d"
  using assms
  by (auto simp: RevokeAgent_def in_tx_def Let_def list_ex_iff revoked_name_def revoke_tables_def
      split: if_splits option.splits prod.splits sum.splits)

lemma RevokeAgent_rollback: "snd (RevokeAgent flt i at d) = Inl e \<Longrightarrow> fst (RevokeAgent flt i at d) = d"
  by (auto simp: RevokeAgent_def in_tx_def split: prod.splits sum.splits if_splits)

lemma RevokeAgent_change: "(db_change sum256)\<^sup>*\<^sup>* d (fst (RevokeAgent flt i at d))"
proof (cases "snd (RevokeAgent flt i at d)")
  case (Inl e)
  then show ?thesis by (simp add: RevokeAgent_rollback)
next
  case (Inr r)
  then obtain d' where eq: "RevokeAgent flt i at d = (d', Inr r)" by (metis prod.collapse)
  obtain a where n: "\<forall>b \<in> set (db_agents d). ar_id b \<noteq> i \<longrightarrow> ar_name b \<noteq> revoked_name a at"
    and d': "d' = revoke_tables i (revoked_name a at) at d"
    using RevokeAgent_InrD [OF eq] by auto
  let ?m = "d\<lparr>db_agents := row_update (\<lambda>b. ar_id b = i) (mark_revoked (revoked_name a at)) (db_agents d)\<rparr>"
  have "db_change sum256 d ?m" using n by (intro ch_agents distinct_rename) auto
  moreover have "db_change sum256 ?m d'"
    using ch_revoke [of "\<lambda>t. tr_agent_id t = Some i \<and> tr_kind t = ''agent'' \<and> tr_revoked_at t = None"
        sum256 ?m "unix_of at"] by (simp add: d' revoke_tables_def)
  ultimately show ?thesis using eq by (auto intro: rtranclp.rtrancl_into_rtrancl)
qed

lemma pstate_keys:
  "ps_agent_id row = a \<Longrightarrow>
   map ps_agent_id (row_update (\<lambda>r. ps_agent_id r = a) (\<lambda>_. row) rows) = map ps_agent_id rows"
  by (simp add: row_update_def)

lemma pstate_replace:
  assumes "ps_agent_id row = a"
  shows "db_change sum256 d (d\<lparr>db_pstate := row_update (\<lambda>r. ps_agent_id r = a) (\<lambda>_. row) (db_pstate d)\<rparr>)"
proof (rule ch_pstate)
  show "ps_agent_id ` set (row_update (\<lambda>r. ps_agent_id r = a) (\<lambda>_. row) (db_pstate d))
      \<subseteq> ps_agent_id ` set (db_pstate d) \<union> agent_ids d"
    using pstate_keys [OF assms, of "db_pstate d"] by (metis Un_upper1 set_map)
qed (simp add: pstate_keys [OF assms])

lemma pstate_add:
  "ps_agent_id row \<notin> ps_agent_id ` set (db_pstate d) \<Longrightarrow> ps_agent_id row \<in> agent_ids d \<Longrightarrow>
   db_change sum256 d (d\<lparr>db_pstate := db_pstate d @ [row]\<rparr>)"
  by (rule ch_pstate) auto

lemma pstate_change:
  "fst (UpsertAgentPolicyState flt now p d) = d
   \<or> db_change sum256 d (fst (UpsertAgentPolicyState flt now p d))"
  unfolding UpsertAgentPolicyState_def Let_def row_get_None_iff agent_ids_def [symmetric]
  by (simp add: pstate_replace pstate_add)

lemma event_change:
  "fst (WriteCertEvent flt e d) = d \<or> db_change sum256 d (fst (WriteCertEvent flt e d))"
  by (auto simp: WriteCertEvent_def row_get_None_iff split: option.splits intro!: ch_event)

lemma update_change:
  "fst (SetUpdatePolicy flt now p d) = d \<or> db_change sum256 d (fst (SetUpdatePolicy flt now p d))"
  by (auto simp: SetUpdatePolicy_def intro: ch_update)

subsection \<open>The policy of an agent\<close>

lemma select_grants_rows: "select_grants a d = sort (map row_grant (rows_of a (db_acl d)))"
  by (simp add: select_grants_def agent_rows_def rows_of_def)

lemma bump_append:
  assumes "a \<notin> vr_agent_id ` set vs"
  shows "row_update (\<lambda>r. vr_agent_id r = a) (set_hash h)
           (vs @ [\<lparr>vr_agent_id = a, vr_version = 1, vr_hash = []\<rparr>])
         = vs @ [\<lparr>vr_agent_id = a, vr_version = 1, vr_hash = h\<rparr>]"
proof -
  have "row_update (\<lambda>r. vr_agent_id r = a) (set_hash h) vs = vs"
    using assms by (intro row_update_none) auto
  then show ?thesis by (simp add: row_update_append) (simp add: row_update_def set_hash_def)
qed

lemma bump_update:
  "row_update (\<lambda>r. vr_agent_id r = a) (set_hash h)
     (row_update (\<lambda>r. vr_agent_id r = a) bump_row vs)
   = row_update (\<lambda>r. vr_agent_id r = a) (\<lambda>r. set_hash h (bump_row r)) vs"
  by (rule row_update_twice) (simp add: bump_row_def)

lemma select_grants_versions [simp]: "select_grants a (d\<lparr>db_versions := vs\<rparr>) = select_grants a d"
  by (simp add: select_grants_rows)

lemma bumpPolicyVersionTx_InrD:
  assumes "bumpPolicyVersionTx flt sum256 a d = (d', Inr r)"
  shows "d' = d\<lparr>db_versions := bump_versions a (Hash sum256 (select_grants a d)) (db_versions d)\<rparr>
     \<and> (a \<in> agent_ids d \<or> a \<in> vr_agent_id ` set (db_versions d))"
  using assms
  by (auto simp: bumpPolicyVersionTx_def computePolicyHash_def Let_def bump_versions_def bump_append
      bump_update row_get_None_iff agent_ids_def split: if_splits)

lemma insert_acl_InrD:
  assumes "insert_acl flt row d = (d', Inr r)"
  shows "acl_id row \<notin> acl_id ` set (db_acl d) \<and> acl_triple row \<notin> acl_triple ` set (db_acl d)
     \<and> acl_agent row \<in> agent_ids d \<and> d' = d\<lparr>db_acl := db_acl d @ [row]\<rparr>"
  using assms by (auto simp: insert_acl_def row_get_None_iff agent_ids_def split: if_splits)

definition with_acl :: "(string \<Rightarrow> string) \<Rightarrow> string \<Rightarrow> acl_row list \<Rightarrow> db \<Rightarrow> db" where
  "with_acl sum256 a rows d =
     d\<lparr>db_acl := rows, db_versions :=
       bump_versions a (Hash sum256 (sort (map row_grant (rows_of a rows)))) (db_versions d)\<rparr>"

definition new_acl_row :: "gotime \<Rightarrow> string \<Rightarrow> create_acl_params \<Rightarrow> acl_row" where
  "new_acl_row now u p =
     \<lparr>acl_id = ''acl_'' @ shortID u 24, acl_caller = cap_CallerTokenID p,
      acl_agent = cap_AgentID p, acl_username = cap_Username p, acl_created_at = unix_of now,
      acl_created_by = cap_CreatedBy p\<rparr>"

text \<open>\<open>CreateACL\<close> either leaves the database alone or adds the row and bumps the version.\<close>

lemma CreateACL_cases:
  "fst (CreateACL flt sum256 now u p d) = d
   \<or> (let row = new_acl_row now u p in
      acl_id row \<notin> acl_id ` set (db_acl d) \<and> acl_triple row \<notin> acl_triple ` set (db_acl d)
      \<and> acl_agent row \<in> agent_ids d
      \<and> fst (CreateACL flt sum256 now u p d) = with_acl sum256 (acl_agent row) (db_acl d @ [row]) d)"
proof (cases "insert_acl flt (new_acl_row now u p) d")
  case (Pair d1 r1)
  show ?thesis
  proof (cases r1)
    case (Inl e)
    with Pair show ?thesis by (simp add: CreateACL_def new_acl_row_def Let_def)
  next
    case (Inr v)
    have ins: "insert_acl flt (new_acl_row now u p) d = (d1, Inr v)" using Pair Inr by simp
    note row = insert_acl_InrD [OF ins]
    obtain d2 r2 where b: "bumpPolicyVersionTx flt sum256 (cap_AgentID p) d1 = (d2, r2)"
      by (cases "bumpPolicyVersionTx flt sum256 (cap_AgentID p) d1")
    show ?thesis
    proof (cases r2)
      case (Inl e)
      with ins b show ?thesis by (simp add: CreateACL_def new_acl_row_def Let_def)
    next
      case (Inr w)
      have d2: "d2 = with_acl sum256 (cap_AgentID p) (db_acl d @ [new_acl_row now u p]) d"
        using bumpPolicyVersionTx_InrD [of flt sum256 "cap_AgentID p" d1 d2 w] b Inr row
        by (simp add: with_acl_def select_grants_rows)
      have "fst (CreateACL flt sum256 now u p d) \<in> {d, d2}"
        using ins b Inr by (simp add: CreateACL_def new_acl_row_def Let_def)
      then show ?thesis using d2 row by (auto simp: new_acl_row_def)
    qed
  qed
qed

lemma DeleteACL_cases:
  "fst (DeleteACL flt sum256 i d) = d
   \<or> (\<exists>row. row_get acl_id i (db_acl d) = Some row
        \<and> (acl_agent row \<in> agent_ids d \<or> acl_agent row \<in> vr_agent_id ` set (db_versions d))
        \<and> fst (DeleteACL flt sum256 i d) =
            with_acl sum256 (acl_agent row) (row_delete (\<lambda>r. acl_id r = i) (db_acl d)) d)"
  using in_tx_cases [of flt "\<lambda>d.
       if flt ''acl.select_agent'' then (d, Inl SqlFault)
       else case row_get acl_id i (db_acl d) of
         None \<Rightarrow> (d, Inl ErrNotFound)
       | Some r \<Rightarrow>
           if flt ''acl.delete'' then (d, Inl SqlFault)
           else
             let d1 = d\<lparr>db_acl := row_delete (\<lambda>r. acl_id r = i) (db_acl d)\<rparr>
             in if rows_affected (\<lambda>r. acl_id r = i) (db_acl d) = 0 then (d1, Inl ErrNotFound)
                else bumpPolicyVersionTx flt sum256 (acl_agent r) d1" d]
  unfolding DeleteACL_def [symmetric]
  by (auto simp: Let_def with_acl_def select_grants_rows agent_ids_def
      dest!: bumpPolicyVersionTx_InrD split: if_splits option.splits)

lemma rows_of_append [simp]: "rows_of a (xs @ ys) = rows_of a xs @ rows_of a ys"
  by (simp add: rows_of_def)

lemma rows_of_delete_other:
  assumes "distinct (map acl_id rows)" "row_get acl_id i rows = Some row" "b \<noteq> acl_agent row"
  shows "rows_of b (row_delete (\<lambda>r. acl_id r = i) rows) = rows_of b rows"
  using assms by (induction rows) (auto simp: rows_of_def row_delete_def image_iff split: if_splits
      intro!: filter_cong)

lemma CreateACL_change:
  assumes "keys_ok d"
  shows "fst (CreateACL flt sum256 now u p d) = d \<or> db_change sum256 d (fst (CreateACL flt sum256 now u p d))"
proof -
  let ?row = "new_acl_row now u p"
  have "db_change sum256 d (with_acl sum256 (acl_agent ?row) (db_acl d @ [?row]) d)"
    if "acl_id ?row \<notin> acl_id ` set (db_acl d)" "acl_triple ?row \<notin> acl_triple ` set (db_acl d)"
      "acl_agent ?row \<in> agent_ids d"
    unfolding with_acl_def
    using that by (intro ch_acl) (auto simp: keys_ok_def rows_of_def)
  then show ?thesis
    using CreateACL_cases [of flt sum256 now u p d] unfolding Let_def by metis
qed

lemma DeleteACL_change:
  assumes "keys_ok d"
  shows "fst (DeleteACL flt sum256 i d) = d \<or> db_change sum256 d (fst (DeleteACL flt sum256 i d))"
proof -
  have "db_change sum256 d
      (with_acl sum256 (acl_agent row) (row_delete (\<lambda>r. acl_id r = i) (db_acl d)) d)"
    if "row_get acl_id i (db_acl d) = Some row"
      "acl_agent row \<in> agent_ids d \<or> acl_agent row \<in> vr_agent_id ` set (db_versions d)" for row
    unfolding with_acl_def
  proof (rule ch_acl)
    show "rows_of b (row_delete (\<lambda>r. acl_id r = i) (db_acl d)) = rows_of b (db_acl d)"
      if "b \<noteq> acl_agent row" for b
      using that \<open>row_get acl_id i (db_acl d) = Some row\<close> assms
      by (intro rows_of_delete_other) (auto simp: keys_ok_def)
    show "acl_agent ` set (row_delete (\<lambda>r. acl_id r = i) (db_acl d))
        \<subseteq> acl_agent ` set (db_acl d) \<union> agent_ids d"
      by (auto simp: row_delete_def)
  qed (use that in \<open>auto simp: keys_ok_def intro: distinct_row_delete\<close>)
  then show ?thesis using DeleteACL_cases [of flt sum256 i d] by metis
qed

lemma bump_change:
  "fst (bumpPolicyVersion flt sum256 a d) = d \<or> db_change sum256 d (fst (bumpPolicyVersion flt sum256 a d))"
proof -
  have "db_change sum256 d
      (d\<lparr>db_versions := bump_versions a (Hash sum256 (select_grants a d)) (db_versions d)\<rparr>)"
    if "a \<in> agent_ids d \<or> a \<in> vr_agent_id ` set (db_versions d)"
    using ch_acl [of a d "db_acl d" sum256] that by (simp add: keys_ok_def select_grants_rows)
  then show ?thesis
    using in_tx_cases [of flt "bumpPolicyVersionTx flt sum256 a" d] bumpPolicyVersionTx_InrD
    unfolding bumpPolicyVersion_def by metis
qed

definition mk_endpoint :: "string \<Rightarrow> agent_endpoint \<Rightarrow> endpoint_row" where
  "mk_endpoint a e = \<lparr>er_agent_id = a, er_subnet = ae_Subnet e, er_address = ae_Address e\<rparr>"

lemma mk_endpoint_simps [simp]:
  "er_agent_id (mk_endpoint a e) = a" "endpoint_key (mk_endpoint a e) = (a, ae_Subnet e)"
  "er_subnet (mk_endpoint a e) = ae_Subnet e" "er_address (mk_endpoint a e) = ae_Address e"
  by (simp_all add: mk_endpoint_def endpoint_key_def)

lemma insert_endpoints_InrD:
  assumes "insert_endpoints flt a es d = (d', Inr r)"
  shows "d' = d\<lparr>db_endpoints := db_endpoints d @ map (mk_endpoint a) es\<rparr>
     \<and> (es = [] \<or> a \<in> agent_ids d)
     \<and> (distinct (map endpoint_key (db_endpoints d)) \<longrightarrow>
         distinct (map endpoint_key (db_endpoints d @ map (mk_endpoint a) es)))"
  using assms
proof (induction flt a es d rule: insert_endpoints.induct)
  case (2 flt a e es d)
  let ?m = "d\<lparr>db_endpoints := db_endpoints d @ [mk_endpoint a e]\<rparr>"
  from 2(2) have ok: "\<not> flt (''endpoints.insert '' @ ae_Subnet e)"
    "row_get endpoint_key (a, ae_Subnet e) (db_endpoints d) = None"
    "row_get ar_id a (db_agents d) \<noteq> None" "insert_endpoints flt a es ?m = (d', Inr r)"
    by (auto simp: mk_endpoint_def simp del: append.simps split: if_splits)
  from 2(1) [OF ok(1), folded mk_endpoint_def] ok(2-4)
  have ih: "d' = ?m\<lparr>db_endpoints := db_endpoints ?m @ map (mk_endpoint a) es\<rparr>"
    "distinct (map endpoint_key (db_endpoints ?m)) \<longrightarrow>
       distinct (map endpoint_key (db_endpoints ?m @ map (mk_endpoint a) es))"
    by (simp_all del: append.simps)
  have "a \<in> agent_ids d" "(a, ae_Subnet e) \<notin> set (map endpoint_key (db_endpoints d))"
    using ok(2,3) by (auto simp: row_get_None_iff agent_ids_def)
  with ih show ?case by simp
qed simp

lemma endpoints_change:
  "fst (UpsertAgentEndpoints flt a es d) = d
   \<or> db_change sum256 d (fst (UpsertAgentEndpoints flt a es d))"
proof -
  let ?del = "row_delete (\<lambda>r. er_agent_id r = a) (db_endpoints d)"
  have "db_change sum256 d d'" if i: "insert_endpoints flt a es (d\<lparr>db_endpoints := ?del\<rparr>) = (d', Inr r)" for d' r
  proof -
    have "db_change sum256 d (d\<lparr>db_endpoints := ?del @ map (mk_endpoint a) es\<rparr>)"
    proof (rule ch_endpoints)
      show "er_agent_id ` set (?del @ map (mk_endpoint a) es)
          \<subseteq> er_agent_id ` set (db_endpoints d) \<union> agent_ids d"
        using insert_endpoints_InrD [OF i] by (auto simp: row_delete_def agent_ids_def)
      show "distinct (map endpoint_key (db_endpoints d)) \<longrightarrow>
          distinct (map endpoint_key (?del @ map (mk_endpoint a) es))"
        using insert_endpoints_InrD [OF i] distinct_row_delete [of endpoint_key "db_endpoints d"]
        by simp
    qed
    then show ?thesis using insert_endpoints_InrD [OF i] by simp
  qed
  then show ?thesis
    using in_tx_cases [of flt "\<lambda>d. if flt ''endpoints.delete'' then (d, Inl SqlFault)
       else insert_endpoints flt a es
         (d\<lparr>db_endpoints := row_delete (\<lambda>r. er_agent_id r = a) (db_endpoints d)\<rparr>)" d]
    unfolding UpsertAgentEndpoints_def [symmetric] by (auto split: if_splits)
qed

lemmas change_facts = insert_token_change RevokeToken_change MarkJoinTokenUsed_change
  CreateAgent_change heartbeat_change fail_closed_change pstate_change event_change update_change
  CreateACL_change DeleteACL_change bump_change endpoints_change

lemma change_or_same: "d' = d \<or> db_change sum256 d d' \<Longrightarrow> (db_change sum256)\<^sup>*\<^sup>* d d'"
  by auto

lemma store_step_refines:
  assumes "store_step sum256 d d'" "keys_ok d"
  shows "(db_change sum256)\<^sup>*\<^sup>* d d'"
  using assms
proof cases
  case (st_create_token flt now u ntp)
  then show ?thesis using fst_CreateToken [of flt now u ntp d] insert_token_change
    by (metis change_or_same)
next
  case (st_insert_token flt now i k a sh l)
  then show ?thesis using fst_InsertTokenWithID [of flt now i k a sh l d] insert_token_change
    by (metis change_or_same)
next
  case (st_revoke_agent flt i now)
  then show ?thesis by (simp add: RevokeAgent_change)
qed (use assms(2) in \<open>simp; intro change_or_same change_facts; assumption?\<close>)+

section \<open>Invariants\<close>

lemma bump_versions_keys:
  "set (map vr_agent_id (bump_versions a h vs)) = insert a (vr_agent_id ` set vs)"
proof (cases "row_get vr_agent_id a vs")
  case None
  then show ?thesis by (simp add: bump_versions_def)
next
  case (Some r)
  have "set (map vr_agent_id (row_update (\<lambda>r. vr_agent_id r = a) (\<lambda>r. set_hash h (bump_row r)) vs))
      = vr_agent_id ` set vs" by (simp only: bump_ver.keys_update set_map)
  with Some show ?thesis
    by (simp add: bump_versions_def) (metis image_eqI insert_absorb row_get_SomeD)
qed

lemma distinct_bump_versions:
  "distinct (map vr_agent_id vs) \<Longrightarrow> distinct (map vr_agent_id (bump_versions a h vs))"
  by (auto simp: bump_versions_def row_get_None_iff)

lemma get_bump_versions:
  "row_get vr_agent_id b (bump_versions a h vs) =
     (if b = a then Some \<lparr>vr_agent_id = a,
         vr_version = (case row_get vr_agent_id a vs of None \<Rightarrow> 1 | Some r \<Rightarrow> vr_version r + 1),
         vr_hash = h\<rparr>
      else row_get vr_agent_id b vs)"
proof (cases "row_get vr_agent_id a vs")
  case None
  then show ?thesis by (simp add: bump_versions_def row_get_append split: option.split)
next
  case (Some r)
  have "vr_agent_id r = a" using row_get_SomeD [OF Some] by simp
  moreover have "row_get vr_agent_id b (bump_versions a h vs) =
      map_option (\<lambda>r. if vr_agent_id r = a then set_hash h (bump_row r) else r)
        (row_get vr_agent_id b vs)"
    using Some by (simp add: bump_versions_def bump_ver.get_update)
  ultimately show ?thesis
    using Some by (cases "row_get vr_agent_id b vs")
      (auto simp: set_hash_def bump_row_def dest: row_get_SomeD)
qed

lemma policy_with_acl:
  "policy_version b (with_acl sum256 a rows d) = policy_version b d + of_bool (b = a)"
  "policy_hash a (with_acl sum256 a rows d) = Hash sum256 (sort (map row_grant (rows_of a rows)))"
  "b \<noteq> a \<Longrightarrow> policy_hash b (with_acl sum256 a rows d) = policy_hash b d"
  by (auto simp: policy_version_def policy_hash_def with_acl_def get_bump_versions
      split: option.splits)

lemma keys_ok_change: "db_change sum256 d d' \<Longrightarrow> keys_ok d \<Longrightarrow> keys_ok d'"
proof (induction rule: db_change.induct)
  case (ch_acl a d rows)
  then show ?case by (auto simp: keys_ok_def distinct_bump_versions)
next
  case (ch_agents rows d)
  then show ?case by (simp add: keys_ok_def)
qed (auto simp: keys_ok_def)

lemma agent_ids_change: "db_change sum256 d d' \<Longrightarrow> agent_ids d \<subseteq> agent_ids d'"
proof (induction rule: db_change.induct)
  case (ch_agents rows d)
  then show ?case by (simp add: agent_ids_def) (metis set_map subset_refl)
qed (auto simp: agent_ids_def)

lemma token_agents_update:
  "(\<And>r. tr_agent_id (f r) = tr_agent_id r) \<Longrightarrow>
   tr_agent_id ` set (row_update P f rows) = tr_agent_id ` set rows"
proof -
  assume "\<And>r. tr_agent_id (f r) = tr_agent_id r"
  then have "map tr_agent_id (row_update P f rows) = map tr_agent_id rows"
    by (simp add: row_update_def)
  then show ?thesis by (metis set_map)
qed

lemma refs_ok_alt:
  "refs_ok d \<longleftrightarrow> acl_agent ` set (db_acl d) \<subseteq> agent_ids d
     \<and> vr_agent_id ` set (db_versions d) \<subseteq> agent_ids d
     \<and> er_agent_id ` set (db_endpoints d) \<subseteq> agent_ids d
     \<and> ps_agent_id ` set (db_pstate d) \<subseteq> agent_ids d
     \<and> tr_agent_id ` set (db_tokens d) \<subseteq> insert None (Some ` agent_ids d)"
proof -
  have "(\<forall>r \<in> set (db_tokens d). \<forall>a. tr_agent_id r = Some a \<longrightarrow> a \<in> agent_ids d)
      \<longleftrightarrow> tr_agent_id ` set (db_tokens d) \<subseteq> insert None (Some ` agent_ids d)"
    by (auto simp: image_iff) (metis not_None_eq)
  then show ?thesis by (simp add: refs_ok_def)
qed

lemma refs_ok_change:
  assumes "db_change sum256 d d'" "refs_ok d"
  shows "refs_ok d'"
  using assms
proof (induction rule: db_change.induct)
  case (ch_add_token r d)
  then show ?case
    by (auto simp: refs_ok_def agent_ref_ok_def agent_ids_def row_get_None_iff split: option.splits)
next
  case (ch_revoke P d at)
  then show ?case by (simp add: refs_ok_alt agent_ids_def token_agents_update set_revoked_def)
next
  case (ch_use P d at)
  then show ?case by (simp add: refs_ok_alt agent_ids_def token_agents_update set_used_def)
next
  case (ch_agents rows d)
  then have "agent_ids (d\<lparr>db_agents := rows\<rparr>) = agent_ids d"
    by (simp add: agent_ids_def) (metis set_map)
  with ch_agents show ?case by (simp add: refs_ok_def)
next
  case (ch_acl a d rows)
  have "vr_agent_id ` set (bump_versions a h (db_versions d)) \<subseteq> agent_ids d" for h
    using ch_acl bump_versions_keys [of a h "db_versions d"] by (auto simp: refs_ok_def)
  moreover have "acl_agent ` set rows \<subseteq> agent_ids d"
    using ch_acl(3) ch_acl.prems by (auto simp: refs_ok_def)
  ultimately show ?case using ch_acl.prems by (simp add: refs_ok_def agent_ids_def)
next
  case (ch_endpoints d es)
  have "er_agent_id ` set es \<subseteq> agent_ids d"
    by (rule subset_trans [OF ch_endpoints(2)]) (use ch_endpoints.prems in \<open>simp add: refs_ok_def\<close>)
  with ch_endpoints.prems show ?case by (simp add: refs_ok_def agent_ids_def)
next
  case (ch_pstate d ps)
  have "ps_agent_id ` set ps \<subseteq> agent_ids d"
    by (rule subset_trans [OF ch_pstate(2)]) (use ch_pstate.prems in \<open>simp add: refs_ok_def\<close>)
  with ch_pstate.prems show ?case by (simp add: refs_ok_def agent_ids_def)
qed (auto simp: refs_ok_def agent_ids_def)

lemma policy_ok_change: "db_change sum256 d d' \<Longrightarrow> policy_ok sum256 d \<Longrightarrow> policy_ok sum256 d'"
proof (induction rule: db_change.induct)
  case (ch_acl a d rows)
  let ?d = "with_acl sum256 a rows d"
  have "policy_hash b ?d = Hash sum256 (select_grants b ?d) \<and> 0 \<le> policy_version b ?d" for b
  proof (cases "b = a")
    case True
    then show ?thesis
      using ch_acl.prems by (simp add: policy_with_acl policy_ok_def select_grants_rows)
        (simp add: with_acl_def)
  next
    case False
    have "select_grants b ?d = select_grants b d"
      using ch_acl(4) [OF False] by (simp add: select_grants_rows with_acl_def)
    then show ?thesis using False ch_acl.prems by (simp add: policy_with_acl policy_ok_def)
  qed
  then show ?case by (simp add: policy_ok_def with_acl_def)
qed (auto simp: policy_ok_def policy_hash_def policy_version_def select_grants_rows)

lemma db_wf_change: "db_change sum256 d d' \<Longrightarrow> db_wf sum256 d \<Longrightarrow> db_wf sum256 d'"
  by (auto simp: db_wf_def intro: keys_ok_change refs_ok_change policy_ok_change)

lemma db_wf_empty: "db_wf sum256 empty_db"
  by (auto simp: db_wf_def keys_ok_def refs_ok_def policy_ok_def policy_hash_def policy_version_def
      empty_db_def select_grants_rows rows_of_def Hash_def)

interpretation changes: invariant_system "\<lambda>d. d = empty_db" "db_change sum256" "db_wf sum256"
  for sum256
  by unfold_locales (simp_all add: db_wf_empty db_wf_change)

lemma db_wf_keys: "db_wf sum256 d \<Longrightarrow> keys_ok d"
  by (simp add: db_wf_def)

lemma db_wf_step: "db_wf sum256 d \<Longrightarrow> store_step sum256 d d' \<Longrightarrow> db_wf sum256 d'"
  using changes.inv_steps store_step_refines db_wf_keys by blast

interpretation calls: invariant_system "\<lambda>d. d = empty_db" "store_step sum256" "db_wf sum256"
  for sum256
  by unfold_locales (simp_all add: db_wf_empty db_wf_step)

section \<open>Monotonicity\<close>

text \<open>Between two states of an agent's policy: the version never goes down, and while it stays
  the same so does the agent's part of the ACL.\<close>

definition policy_mono :: "db \<Rightarrow> db \<Rightarrow> bool" where
  "policy_mono d d' \<longleftrightarrow> (\<forall>a. policy_version a d \<le> policy_version a d'
     \<and> (policy_version a d = policy_version a d' \<longrightarrow> rows_of a (db_acl d) = rows_of a (db_acl d')))"

definition token_mono :: "token_row \<Rightarrow> token_row \<Rightarrow> bool" where
  "token_mono r r' \<longleftrightarrow> tr_id r' = tr_id r \<and> tr_kind r' = tr_kind r \<and> tr_agent_id r' = tr_agent_id r
     \<and> tr_secret_hash r' = tr_secret_hash r \<and> tr_expires_at r' = tr_expires_at r
     \<and> (tr_used_at r \<noteq> None \<longrightarrow> tr_used_at r' = tr_used_at r)
     \<and> (tr_revoked_at r \<noteq> None \<longrightarrow> tr_revoked_at r' = tr_revoked_at r)"

definition tokens_mono :: "db \<Rightarrow> db \<Rightarrow> bool" where
  "tokens_mono d d' \<longleftrightarrow> (\<forall>i r. row_get tr_id i (db_tokens d) = Some r \<longrightarrow>
     (\<exists>r'. row_get tr_id i (db_tokens d') = Some r' \<and> token_mono r r'))"

lemma policy_mono_change:
  "db_change sum256 d d' \<Longrightarrow> policy_mono d d'"
proof (induction rule: db_change.induct)
  case (ch_acl a d rows)
  have "policy_mono d (with_acl sum256 a rows d)"
    using ch_acl(4) by (auto simp: policy_mono_def policy_with_acl) (auto simp: with_acl_def)
  then show ?case by (simp add: with_acl_def)
qed (auto simp: policy_mono_def policy_version_def)

lemma token_mono_refl: "token_mono r r"
  by (simp add: token_mono_def)

lemma tokens_mono_same: "db_tokens d' = db_tokens d \<Longrightarrow> tokens_mono d d'"
  by (auto simp: tokens_mono_def token_mono_refl)

lemma tokens_mono_change: "db_change sum256 d d' \<Longrightarrow> tokens_mono d d'"
proof (induction rule: db_change.induct)
  case (ch_add_token r d)
  then show ?case by (auto simp: tokens_mono_def row_get_append token_mono_refl)
next
  case (ch_revoke P d at)
  then show ?case
    by (auto simp: tokens_mono_def revoke_tok.get_update token_mono_def set_revoked_def)
next
  case (ch_use P d at)
  then show ?case by (auto simp: tokens_mono_def use_tok.get_update token_mono_def set_used_def)
qed (simp_all add: tokens_mono_same)

lemma policy_mono_refl: "policy_mono d d"
  by (simp add: policy_mono_def)

lemma policy_mono_trans: "policy_mono d d' \<Longrightarrow> policy_mono d' d'' \<Longrightarrow> policy_mono d d''"
  unfolding policy_mono_def by (metis order_antisym order_trans)

lemma tokens_mono_trans:
  assumes "tokens_mono d d'" "tokens_mono d' d''"
  shows "tokens_mono d d''"
proof -
  have "token_mono r r' \<Longrightarrow> token_mono r' r'' \<Longrightarrow> token_mono r r''" for r r' r''
    by (auto simp: token_mono_def)
  then show ?thesis using assms unfolding tokens_mono_def by meson
qed

interpretation policy_changes: monotone_system "\<lambda>d. d = empty_db" "db_change sum256"
  "db_wf sum256" policy_mono for sum256
  using policy_mono_trans by unfold_locales (auto simp: policy_mono_change policy_mono_refl)

interpretation token_changes: monotone_system "\<lambda>d. d = empty_db" "db_change sum256"
  "db_wf sum256" tokens_mono for sum256
  using tokens_mono_trans by unfold_locales (auto simp: tokens_mono_change tokens_mono_same)

lemma policy_mono_step: "db_wf sum256 d \<Longrightarrow> store_step sum256 d d' \<Longrightarrow> policy_mono d d'"
  using policy_changes.rel_steps store_step_refines db_wf_keys by blast

lemma tokens_mono_step: "db_wf sum256 d \<Longrightarrow> store_step sum256 d d' \<Longrightarrow> tokens_mono d d'"
  using token_changes.rel_steps store_step_refines db_wf_keys by blast

interpretation policy_calls: monotone_system "\<lambda>d. d = empty_db" "store_step sum256"
  "db_wf sum256" policy_mono for sum256
  using policy_mono_trans policy_mono_step by unfold_locales (auto simp: policy_mono_refl)

interpretation token_calls: monotone_system "\<lambda>d. d = empty_db" "store_step sum256"
  "db_wf sum256" tokens_mono for sum256
  using tokens_mono_trans tokens_mono_step by unfold_locales (auto simp: tokens_mono_same)

end
