(* ===== verification/Store_Theorems.thy ===== *)
theory Store_Theorems
  imports Store_Policy
begin

text \<open>
  The properties of the store: what a policy snapshot says, how versions identify policies, the
  atomicity of ACL changes, the single use of join tokens and the effect of a revocation.
\<close>

section \<open>Definitions\<close>

text \<open>The grants a snapshot's principals stand for.\<close>

definition principal_grants :: "policy_principal list \<Rightarrow> grant list" where
  "principal_grants ps =
     concat (map (\<lambda>p. map (Grant (pp_Username p)) (pp_CallerTokenIDs p)) ps)"

section \<open>Grouping\<close>

fun group_inv :: "grant list \<Rightarrow> (string \<rightharpoonup> string list) \<times> string list \<Rightarrow> bool" where
  "group_inv gs (byUser, order) \<longleftrightarrow> sorted_wrt (<) order \<and> set order = dom byUser
      \<and> set order = Username ` set gs
      \<and> concat (map (\<lambda>u. map (Grant u) (the (byUser u))) order) = gs
      \<and> (\<forall>u \<in> set order. byUser u \<noteq> Some [])"

lemma grant_le_Username: "g \<le> h \<Longrightarrow> Username g \<le> Username h"
  by (cases g; cases h) (auto simp: less_eq_grant_def grant_less_def split: if_splits)

lemma sorted_snoc_max:
  assumes "sorted_wrt (<) (xs :: string list)" "u \<in> set xs" "\<forall>x \<in> set xs. x \<le> u"
  shows "\<exists>ys. xs = ys @ [u] \<and> u \<notin> set ys"
proof -
  obtain ys l where xs: "xs = ys @ [l]" using assms(2) by (metis append_butlast_last_id empty_iff empty_set)
  with assms have "l = u" by (auto simp: sorted_wrt_append)
  with xs assms(1) show ?thesis by (auto simp: sorted_wrt_append)
qed

lemma group_inv_step:
  assumes inv: "group_inv gs st" and le: "\<forall>h \<in> set gs. h \<le> g"
  shows "group_inv (gs @ [g]) (group_step st g)"
proof -
  obtain byUser order where st: "st = (byUser, order)" by (cases st)
  let ?u = "Username g"
  have o: "sorted_wrt (<) order" "set order = dom byUser" "set order = Username ` set gs"
    "concat (map (\<lambda>u. map (Grant u) (the (byUser u))) order) = gs"
    "\<forall>u \<in> set order. byUser u \<noteq> Some []"
    using inv [unfolded st group_inv.simps] by - (elim conjE, assumption)+
  have max: "\<forall>x \<in> set order. x \<le> ?u" using o(3) le grant_le_Username by auto
  have keep: "map (\<lambda>u. map (Grant u) (the ((byUser(?u \<mapsto> x)) u))) os
      = map (\<lambda>u. map (Grant u) (the (byUser u))) os" if "?u \<notin> set os" for os x
    using that by auto
  show ?thesis
  proof (cases "byUser ?u")
    case None
    have step: "group_step st g = (byUser(?u \<mapsto> [CallerTokenID g]), order @ [?u])"
      by (simp add: group_step_def st None Let_def)
    have new: "?u \<notin> set order" using None o(2) by auto
    then have lt: "\<forall>x \<in> set order. x < ?u" using max by (metis order_le_less)
    have "concat (map (\<lambda>u. map (Grant u) (the ((byUser(?u \<mapsto> [CallerTokenID g])) u))) (order @ [?u]))
        = gs @ [g]"
      unfolding map_append concat_append keep [OF new] o(4) by simp
    with o(1-3,5) lt show ?thesis unfolding step group_inv.simps by (auto simp: sorted_wrt_append)
  next
    case (Some cs)
    have step: "group_step st g = (byUser(?u \<mapsto> cs @ [CallerTokenID g]), order)"
      by (simp add: group_step_def st Some Let_def)
    have "?u \<in> set order" using Some o(2) by auto
    then obtain os where os: "order = os @ [?u]" "?u \<notin> set os"
      using sorted_snoc_max [OF o(1) _ max] by blast
    have gs: "concat (map (\<lambda>u. map (Grant u) (the (byUser u))) os) @ map (Grant ?u) cs = gs"
      using o(4) Some os(1) by simp
    have "concat (map (\<lambda>u. map (Grant u) (the ((byUser(?u \<mapsto> cs @ [CallerTokenID g])) u))) order)
        = gs @ [g]"
      unfolding os(1) map_append concat_append keep [OF os(2)] by (simp add: flip: gs)
    with o(1-3,5) \<open>?u \<in> set order\<close> show ?thesis unfolding step group_inv.simps by auto
  qed
qed

lemma group_inv_foldl: "sorted gs \<Longrightarrow> group_inv gs (foldl group_step (Map.empty, []) gs)"
proof (induction gs rule: rev_induct)
  case Nil
  then show ?case by simp
next
  case (snoc g gs)
  then show ?case using group_inv_step [of gs _ g] by (simp add: sorted_append)
qed

lemma group_principals_sorted:
  assumes "sorted gs"
  shows "principal_grants (group_principals gs) = gs
     \<and> sorted_wrt (<) (map pp_Username (group_principals gs))
     \<and> (\<forall>p \<in> set (group_principals gs). pp_CallerTokenIDs p \<noteq> [])"
proof -
  obtain byUser order where st: "foldl group_step (Map.empty, []) gs = (byUser, order)" by fastforce
  then have inv: "group_inv gs (byUser, order)" using group_inv_foldl [OF assms] by (simp only:)
  let ?cs = "\<lambda>u. case byUser u of None \<Rightarrow> [] | Some cs \<Rightarrow> cs"
  have cs: "?cs u = the (byUser u)" "?cs u \<noteq> []" if "u \<in> set order" for u
    using inv that by (cases "byUser u"; auto)+
  have gp: "group_principals gs = map (\<lambda>u. \<lparr>pp_Username = u, pp_CallerTokenIDs = ?cs u\<rparr>) order"
    by (simp add: group_principals_def st)
  have "principal_grants (group_principals gs) = concat (map (\<lambda>u. map (Grant u) (?cs u)) order)"
    by (simp add: principal_grants_def gp comp_def)
  also have "\<dots> = concat (map (\<lambda>u. map (Grant u) (the (byUser u))) order)"
    using cs by (intro arg_cong [where f = concat] map_cong) auto
  also have "\<dots> = gs" using inv by (simp only: group_inv.simps)
  finally have "principal_grants (group_principals gs) = gs" .
  moreover have "\<forall>p \<in> set (group_principals gs). pp_CallerTokenIDs p \<noteq> []"
    unfolding gp using cs(2) by auto
  ultimately show ?thesis using inv by (simp add: gp comp_def)
qed

lemma GetPolicySnapshot_InrD:
  assumes "GetPolicySnapshot flt a d = Inr s"
  shows "snap_AgentID s = a \<and> snap_Version s = policy_version a d \<and> snap_Hash s = policy_hash a d
     \<and> snap_Principals s = group_principals (select_grants a d)"
  using assms by (auto simp: GetPolicySnapshot_def policy_version_def policy_hash_def
      split: if_splits option.splits)

lemma set_select_grants:
  "set (select_grants a d) = {Grant (acl_username r) (acl_caller r) | r. r \<in> set (db_acl d) \<and> acl_agent r = a}"
  by (auto simp: select_grants_rows rows_of_def row_grant_def)

lemma sorted_select_grants: "sorted (select_grants a d)"
  by (simp add: select_grants_rows)

section \<open>Snapshots\<close>

text \<open>C3: In every database the store can reach from an empty one, under any pattern of failing
  statements, a policy snapshot is consistent: its hash is the hash of exactly the grants its
  principals list, these grants are exactly the agent's ACL rows, and the principals have
  strictly increasing user names and are never empty.\<close>

theorem snapshot_consistent:
  assumes "(store_step sum256)\<^sup>*\<^sup>* empty_db d" "GetPolicySnapshot flt a d = Inr s"
  shows "snap_Hash s = Hash sum256 (principal_grants (snap_Principals s))
     \<and> set (principal_grants (snap_Principals s)) =
         {Grant (acl_username r) (acl_caller r) | r. r \<in> set (db_acl d) \<and> acl_agent r = a}
     \<and> sorted_wrt (<) (map pp_Username (snap_Principals s))
     \<and> (\<forall>p \<in> set (snap_Principals s). pp_CallerTokenIDs p \<noteq> [])"
proof -
  have "policy_ok sum256 d" using calls.inv_reachable assms(1) by (auto simp: db_wf_def)
  then show ?thesis
    using GetPolicySnapshot_InrD [OF assms(2)] group_principals_sorted [OF sorted_select_grants]
    by (simp add: policy_ok_def flip: set_select_grants)
qed

text \<open>C9: A policy version identifies a policy: along any sequence of calls the version of an
  agent's policy never decreases, and two snapshots with the same version list the same
  principals and carry the same hash.\<close>

theorem version_identifies_policy:
  assumes "(store_step sum256)\<^sup>*\<^sup>* empty_db d" "(store_step sum256)\<^sup>*\<^sup>* d d'"
    "GetPolicySnapshot flt a d = Inr s" "GetPolicySnapshot flt' a d' = Inr s'"
  shows "snap_Version s \<le> snap_Version s'
     \<and> (snap_Version s = snap_Version s' \<longrightarrow>
          snap_Principals s = snap_Principals s' \<and> snap_Hash s = snap_Hash s')"
proof -
  have m: "policy_mono d d'" using policy_calls.rel_reachable assms(1,2) by blast
  have "policy_ok sum256 d" "policy_ok sum256 d'"
    using calls.inv_reachable assms(1) rtranclp_trans [OF assms(1,2)] by (auto simp: db_wf_def)
  then have h: "policy_hash a d = Hash sum256 (select_grants a d)"
    "policy_hash a d' = Hash sum256 (select_grants a d')" by (auto simp: policy_ok_def)
  have "policy_version a d = policy_version a d' \<longrightarrow> select_grants a d = select_grants a d'"
    using m by (simp add: policy_mono_def select_grants_rows)
  then show ?thesis
    using m h GetPolicySnapshot_InrD [OF assms(3)] GetPolicySnapshot_InrD [OF assms(4)]
    by (simp add: policy_mono_def)
qed

section \<open>A reachable database\<close>

text \<open>One agent, one join token and one grant, entered through the store's methods.\<close>

definition demo_uuid :: string where
  "demo_uuid = ''11111111-2222-3333-4444-555555555555''"

definition demo_agent :: string where
  "demo_agent = ''ag_'' @ ''111111112222333344445555''"

definition no_fault :: faults where
  "no_fault = (\<lambda>_. False)"

definition demo_base :: db where
  "demo_base =
     fst (CreateToken no_fault 0 demo_uuid \<lparr>ntp_ID = ''J'', ntp_Kind = TokenJoin, ntp_AgentID = None,
        ntp_SecretHash = ''h'', ntp_Label = [], ntp_ExpiresAt = None\<rparr>
      (fst (CreateAgent no_fault 0 demo_uuid \<lparr>nap_Name = ''web''\<rparr> empty_db)))"

definition demo_acl :: create_acl_params where
  "demo_acl = \<lparr>cap_CallerTokenID = ''C1'', cap_AgentID = demo_agent, cap_Username = ''root'',
     cap_CreatedBy = None\<rparr>"

definition demo_db :: db where
  "demo_db = fst (CreateACL no_fault (\<lambda>s. s) 0 demo_uuid demo_acl demo_base)"

lemma demo_base_reachable: "(store_step sum256)\<^sup>*\<^sup>* empty_db demo_base"
  unfolding demo_base_def
  by (rule rtranclp.rtrancl_into_rtrancl [OF r_into_rtranclp]; rule store_step.intros)

lemma demo_db_step: "store_step (\<lambda>s. s) demo_base demo_db"
  unfolding demo_db_def by (rule st_create_acl)

lemma demo_db_steps: "(store_step (\<lambda>s. s))\<^sup>*\<^sup>* demo_base demo_db"
  using demo_db_step by (rule r_into_rtranclp)

lemma demo_db_reachable: "(store_step (\<lambda>s. s))\<^sup>*\<^sup>* empty_db demo_db"
  using demo_base_reachable demo_db_step by (rule rtranclp.rtrancl_into_rtrancl)

lemma demo_base_eval:
  "demo_base = empty_db\<lparr>
     db_tokens := [\<lparr>tr_id = ''J'', tr_kind = ''join'', tr_agent_id = None, tr_secret_hash = ''h'',
       tr_label = [], tr_created_at = 0, tr_expires_at = None, tr_used_at = None,
       tr_revoked_at = None\<rparr>],
     db_agents := [\<lparr>ar_id = demo_agent, ar_name = ''web'', ar_created_at = 0, ar_last_seen_at = None,
       ar_status = ''online'', ar_agent_version = [], ar_fail_closed_after = None\<rparr>]\<rparr>"
  by (simp add: demo_base_def CreateToken_def insert_token_def CreateAgent_def insert_agent_def
      no_fault_def empty_db_def shortID_def demo_uuid_def demo_agent_def TokenJoin_def
      AgentOnline_def agent_ref_ok_def unix_of_def Let_def)

lemma demo_db_eval:
  "demo_db = demo_base\<lparr>
     db_acl := [\<lparr>acl_id = ''acl_111111112222333344445555'', acl_caller = ''C1'',
       acl_agent = demo_agent, acl_username = ''root'', acl_created_at = 0, acl_created_by = None\<rparr>],
     db_versions := [\<lparr>vr_agent_id = demo_agent, vr_version = 1,
       vr_hash = Hash (\<lambda>s. s) [Grant ''root'' ''C1'']\<rparr>]\<rparr>"
  by (simp add: demo_db_def CreateACL_def insert_acl_def bumpPolicyVersionTx_def no_fault_def
      computePolicyHash_def select_grants_rows rows_of_def row_grant_def demo_acl_def demo_base_eval
      empty_db_def shortID_def demo_uuid_def unix_of_def row_update_def set_hash_def Let_def)

lemma demo_snapshot:
  "GetPolicySnapshot no_fault demo_agent demo_db =
     Inr \<lparr>snap_AgentID = demo_agent, snap_Version = 1, snap_Hash = Hash (\<lambda>s. s) [Grant ''root'' ''C1''],
          snap_Principals = [\<lparr>pp_Username = ''root'', pp_CallerTokenIDs = [''C1'']\<rparr>]\<rparr>"
  by (simp add: GetPolicySnapshot_def demo_db_eval no_fault_def select_grants_rows rows_of_def
      row_grant_def group_principals_def group_step_def Let_def)

lemma demo_snapshot_base:
  "GetPolicySnapshot no_fault demo_agent demo_base =
     Inr \<lparr>snap_AgentID = demo_agent, snap_Version = 0, snap_Hash = [], snap_Principals = []\<rparr>"
  by (simp add: GetPolicySnapshot_def demo_base_eval no_fault_def select_grants_rows rows_of_def
      group_principals_def empty_db_def)

theorem snapshot_consistent_witness:
  "\<exists>s. GetPolicySnapshot no_fault demo_agent demo_db = Inr s
     \<and> snap_Hash s = Hash (\<lambda>s. s) (principal_grants (snap_Principals s))
     \<and> principal_grants (snap_Principals s) = [Grant ''root'' ''C1'']"
  using snapshot_consistent [OF demo_db_reachable demo_snapshot] demo_snapshot
  by (simp add: principal_grants_def)

theorem version_identifies_policy_witness:
  "\<exists>s s'. GetPolicySnapshot no_fault demo_agent demo_base = Inr s
     \<and> GetPolicySnapshot no_fault demo_agent demo_db = Inr s' \<and> snap_Version s < snap_Version s'
     \<and> snap_Version s \<le> snap_Version s'"
  using version_identifies_policy [OF demo_base_reachable demo_db_steps
      demo_snapshot_base demo_snapshot] demo_snapshot_base demo_snapshot
  by simp

section \<open>ACL changes\<close>

lemma getACLByTriple_InrD:
  "getACLByTriple flt c a u d = Inr e \<Longrightarrow>
   \<exists>row \<in> set (db_acl d). scanACL row = e \<and> acl_caller row = c \<and> acl_agent row = a \<and> acl_username row = u"
  by (auto simp: getACLByTriple_def acl_triple_def split: if_splits option.splits dest!: row_get_SomeD)

lemma CreateACL_result:
  assumes "CreateACL flt sum256 now u p d = (d', Inr e)"
  shows "\<exists>row \<in> set (db_acl d'). scanACL row = e \<and> acl_caller row = cap_CallerTokenID p
     \<and> acl_agent row = cap_AgentID p \<and> acl_username row = cap_Username p"
proof (cases "insert_acl flt (new_acl_row now u p) d")
  case (Pair d1 r1)
  show ?thesis
  proof (cases r1)
    case (Inl x)
    with Pair assms have "d' = d"
      "getACLByTriple flt (cap_CallerTokenID p) (cap_AgentID p) (cap_Username p) d = Inr e"
      by (auto simp: CreateACL_def new_acl_row_def Let_def split: if_splits)
    then show ?thesis using getACLByTriple_InrD by blast
  next
    case (Inr v)
    have ins: "insert_acl flt (new_acl_row now u p) d = (d1, Inr v)" using Pair Inr by simp
    obtain d2 w where b: "bumpPolicyVersionTx flt sum256 (cap_AgentID p) d1 = (d2, Inr w)"
      and r: "d' = d2" "GetACL flt (acl_id (new_acl_row now u p)) d2 = Inr e"
      using ins assms
      by (cases "bumpPolicyVersionTx flt sum256 (cap_AgentID p) d1")
        (auto simp: CreateACL_def new_acl_row_def Let_def split: if_splits sum.splits)
    have "db_acl d2 = db_acl d @ [new_acl_row now u p]"
      using bumpPolicyVersionTx_InrD [OF b] insert_acl_InrD [OF ins] by simp
    moreover have "row_get acl_id (acl_id (new_acl_row now u p)) (db_acl d) = None"
      using insert_acl_InrD [OF ins] by (simp add: row_get_None_iff)
    ultimately have "e = scanACL (new_acl_row now u p)"
      using r(2) by (simp add: GetACL_def row_get_append split: if_splits)
    then show ?thesis
      using r(1) \<open>db_acl d2 = _\<close> by (auto simp: new_acl_row_def)
  qed
qed

lemma CreateACL_succeeds:
  assumes "\<And>s. \<not> flt s" "cap_AgentID p \<in> agent_ids d"
    "acl_id (new_acl_row now u p) \<notin> acl_id ` set (db_acl d)"
  shows "\<exists>e. snd (CreateACL flt sum256 now u p d) = Inr e"
proof (cases "row_get acl_triple (acl_triple (new_acl_row now u p)) (db_acl d)")
  case (Some row)
  have "insert_acl flt (new_acl_row now u p) d =
      (d, Inl (SqlUnique ''acl.caller_token_id, acl.agent_id, acl.username''))"
    using assms Some by (simp add: insert_acl_def) (simp add: row_get_None_iff)
  then show ?thesis using assms(1) Some
    by (simp add: CreateACL_def new_acl_row_def getACLByTriple_def acl_triple_def Let_def)
next
  case None
  have ag: "row_get ar_id (cap_AgentID p) (db_agents d) \<noteq> None"
    using assms(2) by (simp add: row_get_None_iff agent_ids_def)
  have id: "row_get acl_id (acl_id (new_acl_row now u p)) (db_acl d) = None"
    using assms(3) by (simp add: row_get_None_iff)
  have ins: "insert_acl flt (new_acl_row now u p) d = (d\<lparr>db_acl := db_acl d @ [new_acl_row now u p]\<rparr>, Inr ())"
    using assms(1) None id ag by (simp add: insert_acl_def) (simp add: new_acl_row_def)
  obtain d2 where b: "bumpPolicyVersionTx flt sum256 (cap_AgentID p)
      (d\<lparr>db_acl := db_acl d @ [new_acl_row now u p]\<rparr>) = (d2, Inr ())"
    using assms(1) ag by (simp add: bumpPolicyVersionTx_def computePolicyHash_def Let_def)
  have "db_acl d2 = db_acl d @ [new_acl_row now u p]" using bumpPolicyVersionTx_InrD [OF b] by simp
  then show ?thesis using assms(1) ins b id
    by (simp add: CreateACL_def Let_def GetACL_def row_get_append new_acl_row_def)
qed

text \<open>Granting is atomic and idempotent. Whatever statement fails, \<open>CreateACL\<close> either
  leaves the database untouched or adds exactly one row and moves that agent's policy one
  version up (no other agent's), with the hash of the new grants. A returned entry is a row of
  the resulting ACL for exactly the requested caller, agent and user name, and when no statement
  fails the call succeeds for every existing agent.\<close>

theorem CreateACL_atomic:
  assumes "db_wf sum256 d" "CreateACL flt sum256 now u p d = (d', r)"
  shows "(d' = d \<or>
      (db_acl d' = db_acl d @ [new_acl_row now u p]
       \<and> (\<forall>b. policy_version b d' = policy_version b d + of_bool (b = cap_AgentID p))
       \<and> policy_hash (cap_AgentID p) d' = Hash sum256 (select_grants (cap_AgentID p) d')))
   \<and> (\<forall>e. r = Inr e \<longrightarrow> (\<exists>row \<in> set (db_acl d'). scanACL row = e \<and> acl_caller row = cap_CallerTokenID p
         \<and> acl_agent row = cap_AgentID p \<and> acl_username row = cap_Username p))
   \<and> ((\<forall>s. \<not> flt s) \<and> cap_AgentID p \<in> agent_ids d
        \<and> acl_id (new_acl_row now u p) \<notin> acl_id ` set (db_acl d) \<longrightarrow> (\<exists>e. r = Inr e))"
proof (intro conjI)
  have d': "d' = fst (CreateACL flt sum256 now u p d)" using assms(2) by simp
  have ag: "acl_agent (new_acl_row now u p) = cap_AgentID p" by (simp add: new_acl_row_def)
  show "d' = d \<or> (db_acl d' = db_acl d @ [new_acl_row now u p]
       \<and> (\<forall>b. policy_version b d' = policy_version b d + of_bool (b = cap_AgentID p))
       \<and> policy_hash (cap_AgentID p) d' = Hash sum256 (select_grants (cap_AgentID p) d'))"
    using CreateACL_cases [of flt sum256 now u p d] unfolding d' [symmetric] Let_def ag
    by (auto simp: policy_with_acl) (auto simp: with_acl_def select_grants_rows)
  show "\<forall>e. r = Inr e \<longrightarrow> (\<exists>row \<in> set (db_acl d'). scanACL row = e \<and> acl_caller row = cap_CallerTokenID p
         \<and> acl_agent row = cap_AgentID p \<and> acl_username row = cap_Username p)"
    using CreateACL_result assms(2) by blast
  show "(\<forall>s. \<not> flt s) \<and> cap_AgentID p \<in> agent_ids d
        \<and> acl_id (new_acl_row now u p) \<notin> acl_id ` set (db_acl d) \<longrightarrow> (\<exists>e. r = Inr e)"
    using CreateACL_succeeds [of flt p d now u sum256] assms(2) by auto
qed

theorem CreateACL_atomic_witness:
  "\<exists>d' e. CreateACL no_fault (\<lambda>s. s) 0 demo_uuid demo_acl demo_base = (d', Inr e)
     \<and> (\<exists>row \<in> set (db_acl d'). scanACL row = e \<and> acl_username row = ''root'')"
proof -
  obtain d' r where c: "CreateACL no_fault (\<lambda>s. s) 0 demo_uuid demo_acl demo_base = (d', r)"
    by fastforce
  have wf: "db_wf (\<lambda>s. s) demo_base" using calls.inv_reachable demo_base_reachable by blast
  have "\<exists>e. r = Inr e"
    using CreateACL_atomic [OF wf c]
    by (simp add: no_fault_def demo_base_eval agent_ids_def demo_acl_def empty_db_def)
  with CreateACL_atomic [OF wf c] c show ?thesis by (auto simp: demo_acl_def)
qed

lemma DeleteACL_InlD: "DeleteACL flt sum256 i d = (d', Inl e) \<Longrightarrow> d' = d"
  by (auto simp: DeleteACL_def in_tx_def split: if_splits prod.splits sum.splits)

lemma DeleteACL_InrD:
  assumes "DeleteACL flt sum256 i d = (d', Inr x)"
  shows "\<exists>row. row_get acl_id i (db_acl d) = Some row
     \<and> d' = with_acl sum256 (acl_agent row) (row_delete (\<lambda>r. acl_id r = i) (db_acl d)) d"
  using assms
  by (auto simp: DeleteACL_def in_tx_def Let_def with_acl_def select_grants_rows
      dest!: bumpPolicyVersionTx_InrD split: if_splits option.splits prod.splits sum.splits)

text \<open>Revoking a grant is atomic: an error leaves the database untouched; success means
  the row existed, is gone, every other row is kept, and only that agent's policy moved, one
  version up, to the hash of the remaining grants.\<close>

theorem DeleteACL_atomic:
  assumes "db_wf sum256 d" "DeleteACL flt sum256 i d = (d', r)"
  shows "(\<forall>e. r = Inl e \<longrightarrow> d' = d)
   \<and> (r = Inr () \<longrightarrow> (\<exists>row \<in> set (db_acl d). acl_id row = i
        \<and> set (db_acl d') = set (db_acl d) - {row}
        \<and> (\<forall>b. policy_version b d' = policy_version b d + of_bool (b = acl_agent row))
        \<and> policy_hash (acl_agent row) d' = Hash sum256 (select_grants (acl_agent row) d')))"
proof (intro conjI allI impI)
  fix e assume "r = Inl e"
  with assms(2) show "d' = d" by (simp add: DeleteACL_InlD)
next
  assume "r = Inr ()"
  with assms(2) obtain row where row: "row_get acl_id i (db_acl d) = Some row"
    "d' = with_acl sum256 (acl_agent row) (row_delete (\<lambda>r. acl_id r = i) (db_acl d)) d"
    using DeleteACL_InrD by blast
  have "distinct (map acl_id (db_acl d))" using assms(1) by (simp add: db_wf_def keys_ok_def)
  then have "set (row_delete (\<lambda>r. acl_id r = i) (db_acl d)) = set (db_acl d) - {row}"
    using row_get_SomeD [OF row(1)] row_get_unique [of acl_id "db_acl d", OF _ row(1)]
    by (auto simp: row_delete_def)
  then have "set (db_acl d') = set (db_acl d) - {row}" by (simp add: row(2) with_acl_def)
  moreover have "policy_hash (acl_agent row) d' = Hash sum256 (select_grants (acl_agent row) d')"
    by (simp add: row(2) policy_with_acl select_grants_rows) (simp add: with_acl_def)
  moreover have "\<forall>b. policy_version b d' = policy_version b d + of_bool (b = acl_agent row)"
    by (simp add: row(2) policy_with_acl)
  ultimately show "\<exists>row \<in> set (db_acl d). acl_id row = i \<and> set (db_acl d') = set (db_acl d) - {row}
        \<and> (\<forall>b. policy_version b d' = policy_version b d + of_bool (b = acl_agent row))
        \<and> policy_hash (acl_agent row) d' = Hash sum256 (select_grants (acl_agent row) d')"
    using row_get_SomeD [OF row(1)] by (intro bexI [of _ row] conjI) simp_all
qed

theorem DeleteACL_atomic_witness:
  "\<exists>d'. DeleteACL no_fault (\<lambda>s. s) ''acl_111111112222333344445555'' demo_db = (d', Inr ())
     \<and> db_acl d' = [] \<and> policy_version demo_agent d' = 2"
proof -
  obtain d' r where c: "DeleteACL no_fault (\<lambda>s. s) ''acl_111111112222333344445555'' demo_db = (d', r)"
    by fastforce
  have ok: "r = Inr ()"
    using c by (auto simp: DeleteACL_def in_tx_def no_fault_def demo_db_eval demo_base_eval empty_db_def
        rows_affected_def row_delete_def bumpPolicyVersionTx_def computePolicyHash_def Let_def)
  have wf: "db_wf (\<lambda>s. s) demo_db" using calls.inv_reachable demo_db_reachable by blast
  from DeleteACL_atomic [OF wf c] ok obtain row where row: "row \<in> set (db_acl demo_db)"
    "set (db_acl d') = set (db_acl demo_db) - {row}"
    "\<forall>b. policy_version b d' = policy_version b demo_db + of_bool (b = acl_agent row)" by auto
  have "policy_version demo_agent demo_db = 1" by (simp add: policy_version_def demo_db_eval)
  with row c ok show ?thesis by (simp add: demo_db_eval)
qed

section \<open>Join tokens\<close>

lemma mark_used_rejects:
  assumes "distinct (map tr_id (db_tokens d))"
    "row_get tr_id i (db_tokens d) = Some r" "tr_used_at r \<noteq> None"
  shows "\<exists>e. MarkJoinTokenUsed flt i at d = (d, Inl e)"
proof -
  let ?P = "\<lambda>r. tr_id r = i \<and> tr_kind r = ''join'' \<and> tr_used_at r = None \<and> tr_revoked_at r = None"
  have no: "\<forall>x \<in> set (db_tokens d). \<not> ?P x"
  proof (intro ballI notI)
    fix x assume x: "x \<in> set (db_tokens d)" "?P x"
    then have "x = r" using row_get_unique [OF assms(1,2)] by simp
    with x(2) assms(3) show False by simp
  qed
  then have "rows_affected ?P (db_tokens d) = 0" by (simp add: rows_affected_0_iff)
  moreover have "d\<lparr>db_tokens := row_update ?P (set_used (unix_of at)) (db_tokens d)\<rparr> = d"
    using row_update_none [OF no] by simp
  ultimately show ?thesis
    by (auto simp: MarkJoinTokenUsed_def Let_def split: sum.splits)
qed

lemma mark_used_sets:
  assumes "MarkJoinTokenUsed flt i at d = (d', Inr x)" "distinct (map tr_id (db_tokens d))"
  shows "\<exists>r. row_get tr_id i (db_tokens d') = Some r \<and> tr_used_at r \<noteq> None"
proof -
  let ?P = "\<lambda>r. tr_id r = i \<and> tr_kind r = ''join'' \<and> tr_used_at r = None \<and> tr_revoked_at r = None"
  have d': "db_tokens d' = row_update ?P (set_used (unix_of at)) (db_tokens d)"
    "rows_affected ?P (db_tokens d) \<noteq> 0"
    using assms(1) by (auto simp: MarkJoinTokenUsed_def Let_def split: if_splits sum.splits)
  then obtain r where r: "r \<in> set (db_tokens d)" "?P r" unfolding rows_affected_0_iff by auto
  then have "row_get tr_id i (db_tokens d) = Some r" using row_get_distinct [OF assms(2)] by force
  then show ?thesis using r(2) by (simp add: d'(1) use_tok.get_update) (simp add: set_used_def)
qed

text \<open>A join token enrols at most once: after one successful \<open>MarkJoinTokenUsed\<close>, every
  later one for the same token is refused and changes nothing, whatever calls come in between
  and whatever fails.\<close>

theorem join_token_single_use:
  assumes "(store_step sum256)\<^sup>*\<^sup>* empty_db d" "MarkJoinTokenUsed flt i at d = (d', Inr x)"
    "(store_step sum256)\<^sup>*\<^sup>* d' d''"
  shows "\<exists>e. MarkJoinTokenUsed flt' i at' d'' = (d'', Inl e)"
proof -
  have wf: "db_wf sum256 d" using calls.inv_reachable assms(1) by blast
  have st: "store_step sum256 d d'" using st_mark_used [of sum256 d flt i at] assms(2) by simp
  have wf': "db_wf sum256 d'" "db_wf sum256 d''"
    using db_wf_step [OF wf st] calls.inv_steps [OF assms(3)] by blast+
  have dis: "distinct (map tr_id (db_tokens d))" "distinct (map tr_id (db_tokens d''))"
    using wf wf' by (auto simp: db_wf_def keys_ok_def)
  obtain r where "row_get tr_id i (db_tokens d') = Some r" "tr_used_at r \<noteq> None"
    using mark_used_sets [OF assms(2) dis(1)] by blast
  moreover have "tokens_mono d' d''" using token_calls.rel_steps assms(3) wf'(1) by blast
  ultimately obtain r' where "row_get tr_id i (db_tokens d'') = Some r'" "tr_used_at r' \<noteq> None"
    unfolding tokens_mono_def token_mono_def by metis
  then show ?thesis using mark_used_rejects dis(2) by blast
qed

theorem join_token_single_use_witness:
  "\<exists>d'. MarkJoinTokenUsed no_fault ''J'' 0 demo_base = (d', Inr ())
     \<and> (\<exists>e. MarkJoinTokenUsed no_fault ''J'' 5 d' = (d', Inl e))"
proof -
  obtain d' where c: "MarkJoinTokenUsed no_fault ''J'' 0 demo_base = (d', Inr ())"
    by (simp add: MarkJoinTokenUsed_def no_fault_def demo_base_eval rows_affected_def Let_def)
  show ?thesis
    using c join_token_single_use [OF demo_base_reachable c rtranclp.rtrancl_refl] by blast
qed

text \<open>Revocation of a token is permanent: once a token's row carries a revocation time, no
  sequence of calls clears or moves it, and a lookup that returns shows it.\<close>

theorem revoked_token_stays_revoked:
  assumes "(store_step sum256)\<^sup>*\<^sup>* empty_db d" "row_get tr_id i (db_tokens d) = Some r"
    "tr_revoked_at r = Some t" "(store_step sum256)\<^sup>*\<^sup>* d d'" "\<not> flt ''tokens.select''"
  shows "\<exists>tok. GetTokenByID flt i d' = Inr tok \<and> st_RevokedAt tok = Some (time_unix t)
     \<and> st_SecretHash tok = tr_secret_hash r"
proof -
  have "tokens_mono d d'" using token_calls.rel_reachable assms(1,4) by blast
  then obtain r' where "row_get tr_id i (db_tokens d') = Some r'" "token_mono r r'"
    using assms(2) unfolding tokens_mono_def by blast
  then show ?thesis using assms(3,5) by (simp add: GetTokenByID_def scanToken_def token_mono_def)
qed

theorem revoked_token_stays_revoked_witness:
  "\<exists>tok. GetTokenByID no_fault ''J'' (fst (RevokeToken no_fault ''J'' 7000000000 demo_base)) = Inr tok
     \<and> st_RevokedAt tok = Some (time_unix 7)"
proof -
  let ?d = "fst (RevokeToken no_fault ''J'' 7000000000 demo_base)"
  let ?r = "\<lparr>tr_id = ''J'', tr_kind = ''join'', tr_agent_id = None, tr_secret_hash = ''h'',
       tr_label = [], tr_created_at = 0, tr_expires_at = None, tr_used_at = None,
       tr_revoked_at = Some 7\<rparr>"
  have reach: "(store_step (\<lambda>s. s))\<^sup>*\<^sup>* empty_db ?d"
    using demo_base_reachable st_revoke_token by (rule rtranclp.rtrancl_into_rtrancl)
  have row: "row_get tr_id ''J'' (db_tokens ?d) = Some ?r"
    by (simp add: RevokeToken_def no_fault_def demo_base_eval row_update_def set_revoked_def
        unix_of_def Let_def)
  show ?thesis
    using revoked_token_stays_revoked [OF reach row _ rtranclp.rtrancl_refl, of 7 no_fault]
    by (auto simp: no_fault_def)
qed

section \<open>Revocation of an agent\<close>

lemma revoke_tables_agents:
  "row_get ar_id k (db_agents (revoke_tables i n at d)) =
     map_option (\<lambda>r. if ar_id r = i then mark_revoked n r else r) (row_get ar_id k (db_agents d))"
  by (simp add: revoke_tables_def revoke_ag.get_update)

lemma revoke_tables_tokens:
  assumes "t' \<in> set (db_tokens (revoke_tables i n at d))"
    "tr_agent_id t' = Some i" "tr_kind t' = ''agent''"
  shows "tr_revoked_at t' \<noteq> None"
  using assms by (auto simp: revoke_tables_def row_update_def set_revoked_def split: if_splits)

lemma revoked_name_differs: "revoked_name a at \<noteq> ar_name a"
  by (simp add: revoked_name_def)

text \<open>A successful \<open>RevokeAgent\<close> marks the agent revoked, frees its name for a new
  enrolment, leaves no valid agent token of that agent and touches no other agent's row or
  token; a failing one changes nothing.\<close>

theorem RevokeAgent_effect:
  assumes "db_wf sum256 d" "RevokeAgent flt i at d = (d', r)"
  shows "(\<forall>e. r = Inl e \<longrightarrow> d' = d)
   \<and> (r = Inr () \<longrightarrow>
       (\<exists>a a'. row_get ar_id i (db_agents d) = Some a \<and> row_get ar_id i (db_agents d') = Some a'
          \<and> ar_status a' = AgentRevoked \<and> row_get ar_name (ar_name a) (db_agents d') = None)
     \<and> (\<forall>t \<in> set (db_tokens d'). tr_agent_id t = Some i \<and> tr_kind t = TokenAgent \<longrightarrow> tr_revoked_at t \<noteq> None)
     \<and> (\<forall>k. k \<noteq> i \<longrightarrow> row_get ar_id k (db_agents d') = row_get ar_id k (db_agents d)))"
proof (intro conjI allI impI)
  fix e assume "r = Inl e"
  then show "d' = d" using RevokeAgent_rollback [of flt i at d e] assms(2) by simp
next
  assume "r = Inr ()"
  with assms(2) obtain a where a: "row_get ar_id i (db_agents d) = Some a"
    "d' = revoke_tables i (revoked_name a at) at d" using RevokeAgent_InrD [of flt i at d d' "()"] by auto
  have wf: "distinct (map ar_id (db_agents d))" "distinct (map ar_name (db_agents d))"
    using assms(1) by (auto simp: db_wf_def keys_ok_def)
  have "ar_name b \<noteq> ar_name a" if b: "b \<in> set (db_agents d')" for b
  proof -
    obtain c where c: "c \<in> set (db_agents d)"
      "b = (if ar_id c = i then mark_revoked (revoked_name a at) c else c)"
      using b by (auto simp: a(2) revoke_tables_def row_update_def)
    show ?thesis
    proof (cases "ar_id c = i")
      case True
      then show ?thesis using c(2) revoked_name_differs by (simp add: mark_revoked_def)
    next
      case False
      then have "c \<noteq> a" using row_get_SomeD [OF a(1)] by auto
      then have "ar_name c \<noteq> ar_name a"
        using wf(2) c(1) row_get_SomeD [OF a(1)] by (auto simp: distinct_map inj_on_def)
      with False c(2) show ?thesis by simp
    qed
  qed
  then have "row_get ar_name (ar_name a) (db_agents d') = None"
    unfolding row_get_None_iff by (metis imageE)
  moreover have "row_get ar_id i (db_agents d') = Some (mark_revoked (revoked_name a at) a)"
    using a row_get_SomeD [OF a(1)] by (simp add: revoke_tables_agents)
  ultimately show "\<exists>a a'. row_get ar_id i (db_agents d) = Some a \<and> row_get ar_id i (db_agents d') = Some a'
          \<and> ar_status a' = AgentRevoked \<and> row_get ar_name (ar_name a) (db_agents d') = None"
    using a(1) by (auto simp: mark_revoked_def AgentRevoked_def)
  show "\<forall>t \<in> set (db_tokens d'). tr_agent_id t = Some i \<and> tr_kind t = TokenAgent \<longrightarrow> tr_revoked_at t \<noteq> None"
    using revoke_tables_tokens by (auto simp: a(2) TokenAgent_def)
  show "row_get ar_id k (db_agents d') = row_get ar_id k (db_agents d)" if "k \<noteq> i" for k
    using that by (cases "row_get ar_id k (db_agents d)")
      (auto simp: a(2) revoke_tables_agents dest: row_get_SomeD)
qed

lemma demo_revoke: "RevokeAgent no_fault demo_agent 0 demo_base =
    (revoke_tables demo_agent (''web-revoked-'' @ dec_int 0) 0 demo_base, Inr ())"
  by (simp add: RevokeAgent_def in_tx_def no_fault_def demo_base_eval revoke_tables_def unix_of_def Let_def)

theorem RevokeAgent_effect_witness:
  "\<exists>d' a'. RevokeAgent no_fault demo_agent 0 demo_base = (d', Inr ())
     \<and> row_get ar_id demo_agent (db_agents d') = Some a' \<and> ar_status a' = AgentRevoked
     \<and> row_get ar_name ''web'' (db_agents d') = None"
proof -
  have wf: "db_wf (\<lambda>s. s) demo_base" using calls.inv_reachable demo_base_reachable by blast
  have "row_get ar_id demo_agent (db_agents demo_base) = Some a \<Longrightarrow> ar_name a = ''web''" for a
    by (auto simp: demo_base_eval)
  then show ?thesis using RevokeAgent_effect [OF wf demo_revoke] demo_revoke by auto
qed

text \<open>A heartbeat that was past its checks when the agent was revoked undoes the revoked
  status: \<open>UpdateAgentHeartbeat\<close> does not look at the status, so the agent is listed as online
  again, while every one of its tokens stays revoked.\<close>

theorem heartbeat_unrevokes_agent:
  assumes "RevokeAgent flt i at d = (d', Inr x)" "\<not> flt' ''agents.heartbeat''" "\<not> flt' ''agents.select''"
  shows "\<exists>a. GetAgent flt' i (fst (UpdateAgentHeartbeat flt' i ver at' d')) = Inr a
     \<and> sa_Status a = AgentOnline
     \<and> (\<forall>t \<in> set (db_tokens (fst (UpdateAgentHeartbeat flt' i ver at' d'))).
          tr_agent_id t = Some i \<and> tr_kind t = TokenAgent \<longrightarrow> tr_revoked_at t \<noteq> None)"
proof -
  obtain a where a: "row_get ar_id i (db_agents d) = Some a"
    "d' = revoke_tables i (revoked_name a at) at d" using RevokeAgent_InrD [OF assms(1)] by auto
  have "row_get ar_id i (db_agents d') = Some (mark_revoked (revoked_name a at) a)"
    using a row_get_SomeD [OF a(1)] by (simp add: revoke_tables_agents)
  moreover have "ar_id (mark_revoked (revoked_name a at) a) = i"
    using row_get_SomeD [OF a(1)] by (simp add: mark_revoked_def)
  ultimately show ?thesis
    using assms(2,3) revoke_tables_tokens [of _ i "revoked_name a at" at d]
    by (auto simp: UpdateAgentHeartbeat_def GetAgent_def queryAgent_def beat_agent.get_update
        scanAgent_def set_heartbeat_def a(2) TokenAgent_def)
qed

theorem heartbeat_unrevokes_agent_witness:
  "\<exists>a. GetAgent no_fault demo_agent (fst (UpdateAgentHeartbeat no_fault demo_agent ''v1'' 0
        (fst (RevokeAgent no_fault demo_agent 0 demo_base)))) = Inr a \<and> sa_Status a = AgentOnline"
  using heartbeat_unrevokes_agent [OF demo_revoke, of no_fault "''v1''" 0] demo_revoke
  by (auto simp: no_fault_def)

section \<open>Policy state, endpoints and audit events\<close>

lemma policy_state_upsert_get:
  assumes "UpsertAgentPolicyState flt now p d = (d', Inr x)" "\<not> flt' ''pstate.select''"
  shows "\<exists>s. GetAgentPolicyState flt' (ups_AgentID p) d' = Inr s
     \<and> aps_AppliedVersion s = ups_AppliedVersion p \<and> aps_AppliedHash s = ups_AppliedHash p
     \<and> aps_DesiredVersion s = (if ups_DesiredVersion p = Some 0 then None else ups_DesiredVersion p)"
proof -
  let ?row = "\<lparr>ps_agent_id = ups_AgentID p,
                 ps_desired_version = (case ups_DesiredVersion p of None \<Rightarrow> 0 | Some v \<Rightarrow> v),
                 ps_applied_version = ups_AppliedVersion p, ps_applied_hash = ups_AppliedHash p,
                 ps_last_apply_status = ups_LastApplyStatus p,
                 ps_last_apply_error = ups_LastApplyError p,
                 ps_last_apply_at = unix_of (ups_LastApplyAt p), ps_updated_at = unix_of now\<rparr>"
  have upd: "row_get ps_agent_id k (row_update (\<lambda>r. ps_agent_id r = k) (\<lambda>_. row) rows) = Some row"
    if "row_get ps_agent_id k rows \<noteq> None" "ps_agent_id row = k" for k row rows
    using that by (induction rows) (auto simp: row_update_def split: if_splits)
  have "row_get ps_agent_id (ups_AgentID p) (db_pstate d') = Some ?row"
    using assms(1) by (auto simp: UpsertAgentPolicyState_def Let_def row_get_append upd
        split: if_splits)
  then show ?thesis using assms(2) by (auto simp: GetAgentPolicyState_def split: option.splits)
qed

text \<open>An audit event is never lost or overwritten: a successful write of an event with a
  caller, a serial number below two to the sixty-third and a fresh request identifier is
  returned by every later unfiltered listing that has room for it, with every field as written
  and the time in whole seconds.\<close>

theorem cert_event_roundtrip:
  assumes "WriteCertEvent flt e d = (d', Inr x)" "ce_CallerTokenID e \<noteq> []"
    "row_get ev_request_id (ce_RequestID e) (db_events d) = None"
    "cef_CallerTokenID f = []" "cef_AgentID f = []" "cef_Username f = []" "cef_Outcome f = []"
    "cef_Since f = None" "length (db_events d) < nat (cef_Limit f)" "cef_Limit f \<le> 1000"
    "\<not> flt' ''events.list''"
  shows "\<exists>es. ListCertEvents flt' f d' = Inr es
     \<and> e\<lparr>ce_TS := time_unix (unix_of (ce_TS e))\<rparr> \<in> set es"
proof -
  obtain row where d': "d' = d\<lparr>db_events := db_events d @ [row]\<rparr>"
    and row: "scan_event row = e\<lparr>ce_TS := time_unix (unix_of (ce_TS e))\<rparr>"
    using assms(1-3) by (auto simp: WriteCertEvent_def nullString_def scan_event_def null_to_empty_def
        split: if_splits)
  have all: "filter (event_matches f) es = es" for es
    using assms(4-8) by (auto simp: event_matches_def intro!: filter_True)
  have "cef_Limit f > 0" using assms(9) by linarith
  moreover have "nat (cef_Limit f) \<ge> length (sort_key (\<lambda>r. - ev_ts r) (db_events d'))"
    using assms(9) by (simp add: d')
  moreover have "row \<in> set (sort_key (\<lambda>r. - ev_ts r) (db_events d'))" by (simp add: d')
  ultimately show ?thesis
    using assms(10,11) by (simp add: ListCertEvents_def all) (metis image_eqI row)
qed

definition demo_event :: cert_event where
  "demo_event = \<lparr>ce_RequestID = ''r1'', ce_TS = 3000000001, ce_CallerTokenID = ''C1'',
     ce_TargetAgentID = [], ce_Username = ''root'', ce_CertPrincipal = [], ce_PubkeyFP = [],
     ce_TTLSeconds = 300, ce_Serial = 0, ce_KeyID = [], ce_Outcome = ''denied'',
     ce_DenialReason = ''no_acl''\<rparr>"

theorem cert_event_roundtrip_witness:
  "\<exists>d' es. WriteCertEvent no_fault demo_event empty_db = (d', Inr ())
     \<and> ListCertEvents no_fault \<lparr>cef_CallerTokenID = [], cef_AgentID = [], cef_Username = [],
          cef_Outcome = [], cef_Since = None, cef_Limit = 10\<rparr> d' = Inr es
     \<and> demo_event\<lparr>ce_TS := 3000000000\<rparr> \<in> set es"
proof -
  obtain d' where c: "WriteCertEvent no_fault demo_event empty_db = (d', Inr ())"
    by (simp add: WriteCertEvent_def no_fault_def demo_event_def empty_db_def nullString_def)
  have t: "time_unix (unix_of (ce_TS demo_event)) = 3000000000"
    by (simp add: demo_event_def time_unix_def unix_of_def)
  show ?thesis
    using c cert_event_roundtrip [OF c, of "\<lparr>cef_CallerTokenID = [], cef_AgentID = [], cef_Username = [],
          cef_Outcome = [], cef_Since = None, cef_Limit = 10\<rparr>" no_fault]
    by (simp add: t) (simp add: demo_event_def empty_db_def no_fault_def)
qed

end
