(* ===== verification/Api_Types.thy ===== *)
theory Api_Types
  imports Prelude
begin

text \<open>
  The package \<^verbatim>\<open>internal/api\<close>: the wire structs both sides of the HTTP boundary share, and the
  canonical SSH paths. A nullable JSON field (a Go pointer) is an \<^typ>\<open>'a option\<close>. A request body
  that does not decode is represented by the handlers' callers as \<^term>\<open>None\<close>.
\<close>

section \<open>Wire structs\<close>

text \<open>\<^verbatim>\<open>map[string]any\<close>: the registration metadata, of which only strings are looked at.\<close>

datatype json = JString string | JOther

type_synonym metadata = "(string \<rightharpoonup> json) option"

record create_token_request =
  ctr_Kind :: string
  ctr_Label :: string
  ctr_ExpiresAt :: "int option"

record create_token_response =
  ctp_ID :: string
  ctp_Token :: string

record token_summary =
  ts_ID :: string
  ts_Kind :: string
  ts_Label :: string
  ts_CreatedAt :: int
  ts_ExpiresAt :: "int option"
  ts_UsedAt :: "int option"
  ts_RevokedAt :: "int option"

record agent_register_request =
  arr_JoinToken :: string
  arr_Name :: string
  arr_Metadata :: metadata

record expected_paths =
  xp_CAPubkey :: string
  xp_SSHDropIn :: string
  xp_PrincipalsDir :: string

record agent_register_response =
  arp_AgentID :: string
  arp_AgentToken :: string
  arp_CAPubkey :: string
  arp_ServerHTTPSPin :: string
  arp_ExpectedPaths :: expected_paths

record wire_endpoint =
  we_Subnet :: string
  we_Address :: string

record wire_policy_state =
  wps_DesiredVersion :: "int option"
  wps_AppliedVersion :: int
  wps_AppliedHash :: string
  wps_LastApplyStatus :: string
  wps_LastApplyError :: "string option"
  wps_LastApplyAt :: int

record health_check =
  hc_Component :: string
  hc_Check :: string
  hc_State :: string
  hc_ErrorCode :: "string option"
  hc_Message :: "string option"

record heartbeat_request =
  hbr_AgentID :: string
  hbr_AgentVersion :: string
  hbr_ObservedAt :: int
  hbr_Endpoints :: "wire_endpoint list"
  hbr_PolicyState :: wire_policy_state
  hbr_Health :: "health_check list"

record wire_principal =
  wp_Username :: string
  wp_CallerTokenIDs :: "string list"

record policy_payload =
  pl_Version :: int
  pl_Hash :: string
  pl_Principals :: "wire_principal list"

record check_update_command =
  cuc_Type :: string
  cuc_Version :: string

record heartbeat_response =
  hbp_AckTS :: int
  hbp_ServerTime :: int
  hbp_Policy :: "policy_payload option"
  hbp_Commands :: "check_update_command list"
  hbp_FailClosedAfter :: "int option"

record acl_entry_summary =
  aes_ID :: string
  aes_CallerTokenID :: string
  aes_AgentID :: string
  aes_Username :: string
  aes_CreatedAt :: int
  aes_CreatedBy :: "string option"

record create_acl_request =
  car_Caller :: string
  car_Agent :: string
  car_Username :: string

record agent_detail =
  ad_ID :: string
  ad_Name :: string
  ad_Status :: string
  ad_AgentVersion :: string
  ad_CreatedAt :: int
  ad_LastSeenAt :: "int option"
  ad_Endpoints :: "wire_endpoint list"
  ad_FailClosedAfter :: "int option"

record cert_request =
  crq_Agent :: string
  crq_Username :: string
  crq_Pubkey :: string
  crq_TTLSeconds :: int

record cert_response =
  crp_Certificate :: string
  crp_KeyID :: string
  crp_Principal :: string
  crp_Serial :: nat
  crp_ValidAfter :: int
  crp_ValidBefore :: int

record cert_event_summary =
  ces_RequestID :: string
  ces_TS :: int
  ces_CallerTokenID :: string
  ces_TargetAgentID :: string
  ces_Username :: string
  ces_CertPrincipal :: string
  ces_PubkeyFP :: string
  ces_TTLSeconds :: int
  ces_Serial :: nat
  ces_KeyID :: string
  ces_Outcome :: string
  ces_DenialReason :: string

record update_plan_response =
  upr_ExpectedVersion :: string
  upr_AssetURLTemplate :: string
  upr_SHA256URLTemplate :: string
  upr_Force :: bool

record set_update_policy_request =
  suq_ExpectedVersion :: string
  suq_AssetURLTemplate :: string
  suq_SHA256URLTemplate :: string
  suq_Force :: bool

definition TimePtr :: "gotime option \<Rightarrow> int option" where
  "TimePtr t = map_option unix_of t"

section \<open>Canonical paths\<close>

definition WindowsCAPubkeyPath :: string where
  "WindowsCAPubkeyPath = ''C:'' @ [CHR 92] @ ''ProgramData'' @ [CHR 92] @ ''ssh'' @ [CHR 92]
     @ ''uncluster_ca.pub''"

definition WindowsSSHDropInPath :: string where
  "WindowsSSHDropInPath = ''C:'' @ [CHR 92] @ ''ProgramData'' @ [CHR 92] @ ''ssh'' @ [CHR 92]
     @ ''sshd_config.d'' @ [CHR 92] @ ''uncluster.conf''"

definition WindowsPrincipalsDirPath :: string where
  "WindowsPrincipalsDirPath = ''C:'' @ [CHR 92] @ ''ProgramData'' @ [CHR 92] @ ''ssh'' @ [CHR 92]
     @ ''auth_principals''"

definition POSIXCAPubkeyPath :: string where "POSIXCAPubkeyPath = ''/etc/ssh/uncluster_ca.pub''"
definition POSIXSSHDropInPath :: string where "POSIXSSHDropInPath = ''/etc/ssh/sshd_config.d/uncluster.conf''"
definition POSIXPrincipalsDirPath :: string where "POSIXPrincipalsDirPath = ''/etc/ssh/auth_principals''"

definition ExpectedPathsFor :: "string \<Rightarrow> expected_paths" where
  "ExpectedPathsFor goos =
     (if goos = ''windows''
      then \<lparr>xp_CAPubkey = WindowsCAPubkeyPath, xp_SSHDropIn = WindowsSSHDropInPath,
            xp_PrincipalsDir = WindowsPrincipalsDirPath\<rparr>
      else \<lparr>xp_CAPubkey = POSIXCAPubkeyPath, xp_SSHDropIn = POSIXSSHDropInPath,
            xp_PrincipalsDir = POSIXPrincipalsDirPath\<rparr>)"

end
