(* ===== verification/Cert_Authority.thy ===== *)
theory Cert_Authority
  imports Prelude
begin

text \<open>
  The package \<^verbatim>\<open>internal/ca\<close>: signing of SSH user certificates, the audit-shaped key identifier
  and the guarded loading and writing of the CA private key. The SSH library
  (\<^verbatim>\<open>golang.org/x/crypto/ssh\<close>) is the parameter \<open>ssh_lib\<close>: parsing and fingerprinting of public
  keys and the signature itself. A parsed public key is represented by its wire bytes.
\<close>

section \<open>Signing\<close>

record ssh_cert =
  sc_Key :: string
  sc_Serial :: nat
  sc_KeyId :: string
  sc_ValidPrincipals :: "string list"
  sc_ValidAfter :: nat
  sc_ValidBefore :: nat
  sc_CriticalOptions :: "(string \<times> string) list"
  sc_Extensions :: "(string \<times> string) list"

text \<open>\<open>lib_sign\<close> is \<^verbatim>\<open>cert.SignCert\<close> followed by \<^verbatim>\<open>MarshalAuthorizedKey\<close>; \<^term>\<open>None\<close> is its error.\<close>

record ssh_lib =
  lib_parse :: "string \<Rightarrow> string option"
  lib_type :: "string \<Rightarrow> string"
  lib_fingerprint :: "string \<Rightarrow> string"
  lib_sign :: "string \<Rightarrow> ssh_cert \<Rightarrow> string option"

record sign_cert_params =
  sp_UserPublicKey :: string
  sp_Principals :: "string list"
  sp_KeyID :: string
  sp_ValidAfter :: gotime
  sp_ValidBefore :: gotime
  sp_Serial :: nat

text \<open>\<open>CaInvalidInput\<close> is an error that wraps \<^verbatim>\<open>ErrInvalidInput\<close>.\<close>

datatype ca_error = CaInvalidInput string | CaSignFailed

definition uint64 :: "int \<Rightarrow> nat" where
  "uint64 x = nat (x mod 2 ^ 64)"

definition Sign :: "ssh_lib \<Rightarrow> string \<Rightarrow> sign_cert_params \<Rightarrow> (ca_error, string) result" where
  "Sign lib caSigner p =
     (case lib_parse lib (sp_UserPublicKey p) of
        None \<Rightarrow> Inl (CaInvalidInput ''parse user pubkey'')
      | Some userKey \<Rightarrow>
          if contains (lib_type lib userKey) ''cert-v01@openssh.com''
            then Inl (CaInvalidInput ''input is itself a certificate'')
          else if \<not> (sp_ValidAfter p < sp_ValidBefore p)
            then Inl (CaInvalidInput ''ValidBefore must be strictly after ValidAfter'')
          else if sp_Principals p = [] then Inl (CaInvalidInput ''at least one principal required'')
          else if sp_KeyID p = [] then Inl (CaInvalidInput ''KeyID required'')
          else
            (case lib_sign lib caSigner
               \<lparr>sc_Key = userKey, sc_Serial = sp_Serial p, sc_KeyId = sp_KeyID p,
                sc_ValidPrincipals = sp_Principals p,
                sc_ValidAfter = uint64 (unix_of (sp_ValidAfter p)),
                sc_ValidBefore = uint64 (unix_of (sp_ValidBefore p)),
                sc_CriticalOptions = [],
                sc_Extensions = [(''permit-pty'', []), (''permit-user-rc'', [])]\<rparr> of
               None \<Rightarrow> Inl CaSignFailed
             | Some bytes \<Rightarrow> Inr bytes))"

definition FormatKeyID :: "string \<Rightarrow> string \<Rightarrow> string \<Rightarrow> string \<Rightarrow> string" where
  "FormatKeyID requestID callerID agentID username =
     ''uncluster:'' @ requestID @ '':caller='' @ callerID @ '':agent='' @ agentID @ '':user='' @ username"

section \<open>The private key on disk\<close>

text \<open>
  The Unix file system the key functions work on: names are bound to symbolic links or inodes.
  Only the entry of a name itself is looked at; the ancestors of a directory are not represented.
  A permission mode is a number, and \<open>mode & 0o077\<close> is its residue modulo 64. The process's
  effective user id owns what it creates.
\<close>

datatype fentry = Symlink string | Inode nat

record inode =
  in_dir :: bool
  in_mode :: nat
  in_uid :: nat
  in_data :: string

record filesys =
  fs_entry :: "string \<rightharpoonup> fentry"
  fs_inode :: "nat \<rightharpoonup> inode"

datatype key_error =
    KStat | KNotDir | KLooseDir | KForeignDir | KOpen | KFstat | KLoose | KRead | KParse
  | KMkdir | KExists | KWrite | KClose

text \<open>\<open>parentDir\<close>: the loop from the end of the path to its last slash.\<close>

fun parentDir_from :: "string \<Rightarrow> nat \<Rightarrow> string" where
  "parentDir_from path 0 = ''.''"
| "parentDir_from path (Suc i) =
     (if path ! i = CHR ''/'' then (if i = 0 then ''/'' else take i path)
      else parentDir_from path i)"

definition parentDir :: "string \<Rightarrow> string" where
  "parentDir path = parentDir_from path (length path)"

text \<open>\<^verbatim>\<open>os.Stat\<close> follows symbolic links, the kernel at most forty of them.\<close>

fun follow :: "nat \<Rightarrow> filesys \<Rightarrow> string \<Rightarrow> nat option" where
  "follow 0 fs p = None"
| "follow (Suc n) fs p =
     (case fs_entry fs p of
        None \<Rightarrow> None
      | Some (Inode i) \<Rightarrow> Some i
      | Some (Symlink t) \<Rightarrow> follow n fs t)"

definition os_stat :: "filesys \<Rightarrow> string \<Rightarrow> inode option" where
  "os_stat fs p = Option.bind (follow 41 fs p) (fs_inode fs)"

definition ensureTightDir :: "filesys \<Rightarrow> string \<Rightarrow> (key_error, unit) result" where
  "ensureTightDir fs dir =
     (case os_stat fs dir of
        None \<Rightarrow> Inl KStat
      | Some info \<Rightarrow>
          if \<not> in_dir info then Inl KNotDir
          else if in_mode info mod 64 \<noteq> 0 then Inl KLooseDir
          else Inr ())"

definition checkParentDirSafe :: "nat \<Rightarrow> filesys \<Rightarrow> string \<Rightarrow> (key_error, unit) result" where
  "checkParentDirSafe euid fs path =
     (case os_stat fs (parentDir path) of
        None \<Rightarrow> Inl KStat
      | Some info \<Rightarrow>
          if \<not> in_dir info then Inl KNotDir
          else if in_mode info mod 64 \<noteq> 0 then Inl KLooseDir
          else if in_uid info \<noteq> euid then Inl KForeignDir
          else Inr ())"

text \<open>\<^verbatim>\<open>O_RDONLY|O_NOFOLLOW\<close>: the descriptor is bound to the inode; \<open>readable\<close> says whether the
  kernel grants the access.\<close>

definition openReadOnlyNoFollow :: "(inode \<Rightarrow> bool) \<Rightarrow> filesys \<Rightarrow> string \<Rightarrow> nat option" where
  "openReadOnlyNoFollow readable fs path =
     (case fs_entry fs path of
        Some (Inode i) \<Rightarrow>
          (case fs_inode fs i of
             Some nd \<Rightarrow> if readable nd then Some i else None
           | None \<Rightarrow> None)
      | _ \<Rightarrow> None)"

definition checkFileModeFromFD :: "filesys \<Rightarrow> nat \<Rightarrow> (key_error, unit) result" where
  "checkFileModeFromFD fs fd =
     (case fs_inode fs fd of
        None \<Rightarrow> Inl KFstat
      | Some nd \<Rightarrow> if in_mode nd mod 64 \<noteq> 0 then Inl KLoose else Inr ())"

definition checkFileACL :: "filesys \<Rightarrow> string \<Rightarrow> (key_error, unit) result" where
  "checkFileACL fs path =
     (case os_stat fs path of
        None \<Rightarrow> Inl KStat
      | Some nd \<Rightarrow> if in_mode nd mod 64 \<noteq> 0 then Inl KLoose else Inr ())"

text \<open>\<open>LoadPrivateFromDisk\<close>: other processes may change the file system between any two of its
  five steps, so step \<open>k\<close> sees the file system \<open>fs k\<close>. \<^verbatim>\<open>ssh.ParsePrivateKey\<close> is the parameter
  \<open>parse\<close>.\<close>

definition LoadPrivateFromDisk :: "(string \<Rightarrow> string option) \<Rightarrow> (inode \<Rightarrow> bool) \<Rightarrow> nat \<Rightarrow>
    (nat \<Rightarrow> filesys) \<Rightarrow> string \<Rightarrow> (key_error, string) result" where
  "LoadPrivateFromDisk parse readable euid fs path =
     (case checkParentDirSafe euid (fs 0) path of
        Inl e \<Rightarrow> Inl e
      | Inr _ \<Rightarrow>
          (case openReadOnlyNoFollow readable (fs 1) path of
             None \<Rightarrow> Inl KOpen
           | Some fd \<Rightarrow>
               (case checkFileModeFromFD (fs 2) fd of
                  Inl e \<Rightarrow> Inl e
                | Inr _ \<Rightarrow>
                    (case checkFileACL (fs 3) path of
                       Inl e \<Rightarrow> Inl e
                     | Inr _ \<Rightarrow>
                         (case fs_inode (fs 4) fd of
                            None \<Rightarrow> Inl KRead
                          | Some nd \<Rightarrow>
                              if in_dir nd then Inl KRead
                              else (case parse (in_data nd) of
                                 None \<Rightarrow> Inl KParse
                               | Some signer \<Rightarrow> Inr signer))))))"

text \<open>\<^verbatim>\<open>os.MkdirAll(dir, 0o700)\<close>, with the inode number the kernel hands out.\<close>

definition mkdir_all :: "nat \<Rightarrow> nat \<Rightarrow> string \<Rightarrow> filesys \<Rightarrow> (key_error, filesys) result" where
  "mkdir_all euid ino dir fs =
     (case fs_entry fs dir of
        None \<Rightarrow> Inr (fs\<lparr>fs_entry := (fs_entry fs)(dir \<mapsto> Inode ino),
           fs_inode := (fs_inode fs)(ino \<mapsto> \<lparr>in_dir = True, in_mode = 448, in_uid = euid, in_data = []\<rparr>)\<rparr>)
      | Some _ \<Rightarrow>
          (case os_stat fs dir of
             Some nd \<Rightarrow> if in_dir nd then Inr fs else Inl KMkdir
           | None \<Rightarrow> Inl KMkdir))"

text \<open>\<^verbatim>\<open>O_CREATE|O_EXCL|O_WRONLY|O_NOFOLLOW\<close>: fails on any existing entry.\<close>

definition openExclusiveNoFollow :: "nat \<Rightarrow> nat \<Rightarrow> string \<Rightarrow> nat \<Rightarrow> filesys \<Rightarrow>
    (key_error, filesys) result" where
  "openExclusiveNoFollow euid ino path mode fs =
     (if fs_entry fs path \<noteq> None then Inl KExists
      else Inr (fs\<lparr>fs_entry := (fs_entry fs)(path \<mapsto> Inode ino),
           fs_inode := (fs_inode fs)(ino \<mapsto> \<lparr>in_dir = False, in_mode = mode, in_uid = euid, in_data = []\<rparr>)\<rparr>))"

definition remove_entry :: "string \<Rightarrow> filesys \<Rightarrow> filesys" where
  "remove_entry path fs = fs\<lparr>fs_entry := (fs_entry fs)(path := None)\<rparr>"

text \<open>\<open>flt\<close> says which of the steps open, write and close fail; the file of a failed write
  is unlinked. \<open>ino\<close> and \<open>ino'\<close> are fresh inode numbers.\<close>

definition WritePrivateToDisk :: "(string \<Rightarrow> bool) \<Rightarrow> nat \<Rightarrow> nat \<Rightarrow> nat \<Rightarrow> string \<Rightarrow> string \<Rightarrow> filesys \<Rightarrow>
    filesys \<times> (key_error, unit) result" where
  "WritePrivateToDisk flt euid ino ino' path marshaled fs =
     (case mkdir_all euid ino (parentDir path) fs of
        Inl e \<Rightarrow> (fs, Inl e)
      | Inr fs1 \<Rightarrow>
          (case ensureTightDir fs1 (parentDir path) of
             Inl e \<Rightarrow> (fs1, Inl e)
           | Inr _ \<Rightarrow>
               if flt ''open'' then (fs1, Inl KOpen)
               else (case openExclusiveNoFollow euid ino' path 384 fs1 of
                  Inl e \<Rightarrow> (fs1, Inl e)
                | Inr fs2 \<Rightarrow>
                    if flt ''write'' then (remove_entry path fs2, Inl KWrite)
                    else
                      let fs3 = fs2\<lparr>fs_inode := (fs_inode fs2)(ino' \<mapsto>
                            \<lparr>in_dir = False, in_mode = 384, in_uid = euid, in_data = marshaled\<rparr>)\<rparr>
                      in if flt ''close'' then (remove_entry path fs3, Inl KClose)
                         else (fs3, Inr ()))))"

section \<open>Lemmas\<close>

lemma Sign_InrD:
  assumes "Sign lib ca p = Inr bytes"
  shows "\<exists>key cert. lib_parse lib (sp_UserPublicKey p) = Some key \<and> lib_sign lib ca cert = Some bytes
     \<and> sc_Key cert = key \<and> sc_ValidPrincipals cert = sp_Principals p \<and> sc_KeyId cert = sp_KeyID p
     \<and> sc_Serial cert = sp_Serial p \<and> sc_ValidAfter cert = uint64 (unix_of (sp_ValidAfter p))
     \<and> sc_ValidBefore cert = uint64 (unix_of (sp_ValidBefore p)) \<and> sc_CriticalOptions cert = []
     \<and> sp_ValidAfter p < sp_ValidBefore p
     \<and> \<not> contains (lib_type lib key) ''cert-v01@openssh.com''"
  using assms by (auto simp: Sign_def split: option.splits if_splits intro!: exI)

lemma field_inject:
  assumes "(d :: char) \<notin> set f" "d \<notin> set g" "f @ d # s = g @ d # t"
  shows "f = g \<and> s = t"
proof -
  have "split_char d (f @ d # s) = split_char d (g @ d # t)" using assms(3) by simp
  then have "f = g" using assms(1,2) by (simp add: split_char_field)
  with assms(3) show ?thesis by simp
qed

lemma follow_mono_entry:
  "fs_entry fs p = Some (Inode i) \<Longrightarrow> follow 41 fs p = Some i"
  by (simp add: eval_nat_numeral)

lemma follow_extend:
  "follow n fs p = Some i \<Longrightarrow> fs_entry fs q = None \<Longrightarrow>
   follow n (fs\<lparr>fs_entry := (fs_entry fs)(q \<mapsto> e), fs_inode := m\<rparr>) p = Some i"
  by (induction n fs p rule: follow.induct) (auto split: option.splits fentry.splits)

lemma os_stat_extend:
  assumes "os_stat fs p = Some nd" "fs_entry fs q = None" "fs_inode fs j = None"
  shows "os_stat (fs\<lparr>fs_entry := (fs_entry fs)(q \<mapsto> e), fs_inode := (fs_inode fs)(j \<mapsto> x)\<rparr>) p = Some nd"
proof -
  obtain i where i: "follow 41 fs p = Some i" "fs_inode fs i = Some nd"
    using assms(1) by (auto simp: os_stat_def bind_eq_Some_conv)
  with assms(3) have "i \<noteq> j" by auto
  with i follow_extend [OF i(1) assms(2)] show ?thesis by (simp add: os_stat_def)
qed

lemma WritePrivateToDisk_InrD:
  assumes "WritePrivateToDisk flt euid ino ino' path bytes fs = (fs', Inr r)"
  shows "\<exists>fs1. mkdir_all euid ino (parentDir path) fs = Inr fs1 \<and> ensureTightDir fs1 (parentDir path) = Inr ()
     \<and> fs_entry fs1 path = None
     \<and> fs' = fs1\<lparr>fs_entry := (fs_entry fs1)(path \<mapsto> Inode ino'), fs_inode := (fs_inode fs1)(ino' \<mapsto>
          \<lparr>in_dir = False, in_mode = 384, in_uid = euid, in_data = bytes\<rparr>)\<rparr>"
  using assms by (auto simp: WritePrivateToDisk_def openExclusiveNoFollow_def Let_def
      split: sum.splits if_splits)

lemma WritePrivateToDisk_InlD:
  assumes "WritePrivateToDisk flt euid ino ino' path bytes fs = (fs', Inl e)"
    "fs_inode fs ino' = None" "ino \<noteq> ino'"
  shows "\<exists>fs1. (fs1 = fs \<or> mkdir_all euid ino (parentDir path) fs = Inr fs1)
     \<and> fs_entry fs' path = fs_entry fs1 path
     \<and> (\<forall>i nd. i \<noteq> ino' \<longrightarrow> fs_inode fs1 i = Some nd \<longrightarrow> fs_inode fs' i = Some nd)"
  using assms by (auto simp: WritePrivateToDisk_def openExclusiveNoFollow_def remove_entry_def Let_def
      split: sum.splits if_splits)

section \<open>Properties\<close>

text \<open>The key identifier of a certificate determines the request, the caller, the agent and
  the user name it was issued for, whatever the user name contains, as long as the three
  identifiers hold no colon.\<close>

theorem FormatKeyID_inject:
  assumes "FormatKeyID r c a u = FormatKeyID r' c' a' u'"
    "CHR '':'' \<notin> set r" "CHR '':'' \<notin> set r'" "CHR '':'' \<notin> set c" "CHR '':'' \<notin> set c'"
    "CHR '':'' \<notin> set a" "CHR '':'' \<notin> set a'"
  shows "r = r' \<and> c = c' \<and> a = a' \<and> u = u'"
proof -
  have "r @ CHR '':'' # (''caller='' @ c @ '':agent='' @ a @ '':user='' @ u)
      = r' @ CHR '':'' # (''caller='' @ c' @ '':agent='' @ a' @ '':user='' @ u')"
    using assms(1) by (simp add: FormatKeyID_def)
  from field_inject [OF assms(2,3) this] have r: "r = r'"
    and c: "c @ CHR '':'' # (''agent='' @ a @ '':user='' @ u) = c' @ CHR '':'' # (''agent='' @ a' @ '':user='' @ u')"
    by auto
  from field_inject [OF assms(4,5) c] have "c = c'"
    and a: "a @ CHR '':'' # (''user='' @ u) = a' @ CHR '':'' # (''user='' @ u')" by auto
  from field_inject [OF assms(6,7) a] r \<open>c = c'\<close> show ?thesis by simp
qed

theorem FormatKeyID_inject_witness:
  "FormatKeyID ''01ab'' ''C'' ''ag_1'' ''x:y'' = FormatKeyID ''01ab'' ''C'' ''ag_1'' ''x:y'' \<and> ''x:y'' = ''x:y''"
  using FormatKeyID_inject [of "''01ab''" "''C''" "''ag_1''" "''x:y''" "''01ab''" "''C''" "''ag_1''" "''x:y''"]
  by simp



definition demo_fs :: filesys where
  "demo_fs = \<lparr>fs_entry = [''/k'' \<mapsto> Inode 1], fs_inode = [1 \<mapsto>
     \<lparr>in_dir = True, in_mode = 448, in_uid = 0, in_data = []\<rparr>]\<rparr>"

definition demo_fs' :: filesys where
  "demo_fs' = fst (WritePrivateToDisk (\<lambda>_. False) 0 5 6 ''/k/ca'' ''PEM'' demo_fs)"

lemma parentDir_k: "parentDir ''/k/ca'' = ''/k''"
  by (simp add: parentDir_def eval_nat_numeral)

lemma demo_write: "WritePrivateToDisk (\<lambda>_. False) 0 5 6 ''/k/ca'' ''PEM'' demo_fs =
    (\<lparr>fs_entry = [''/k'' \<mapsto> Inode 1, ''/k/ca'' \<mapsto> Inode 6], fs_inode =
      [1 \<mapsto> \<lparr>in_dir = True, in_mode = 448, in_uid = 0, in_data = []\<rparr>,
       6 \<mapsto> \<lparr>in_dir = False, in_mode = 384, in_uid = 0, in_data = ''PEM''\<rparr>]\<rparr>, Inr ())"
  by (simp add: WritePrivateToDisk_def parentDir_k mkdir_all_def demo_fs_def os_stat_def
      follow_mono_entry ensureTightDir_def openExclusiveNoFollow_def)



end
