(* ===== verification/Server.thy ===== *)
theory Server
  imports Tokens Store_Theorems Api_Types Cert_Authority
begin

text \<open>
  The package \<^verbatim>\<open>internal/server\<close>: the control plane's HTTP layer over the store. A handler takes
  the server's state and the decoded request (\<^term>\<open>None\<close> is a body that does not decode) and
  returns the next state with the response; \<open>serve\<close> is the router with its authentication
  middleware.

  What a request meets outside the program is the record \<open>req_env\<close>: for every store call of a
  handler, in the order of the code, the statements that fail; for every \<^verbatim>\<open>time.Now()\<close> its
  reading; for every \<^verbatim>\<open>rand.Read\<close> its bytes. \<open>BInternal\<close> stands for an error body whose text is
  an internal error's message. A panic is answered by the router's recoverer with a bare 500.
\<close>

section \<open>State and environment\<close>

record server_config =
  cfg_CAPubkey :: string
  cfg_CASigner :: "string option"

record libs =
  lb_idkey :: idkey
  lb_sum256 :: "string \<Rightarrow> string"
  lb_ssh :: ssh_lib

record req_env =
  re_flt :: "nat \<Rightarrow> faults"
  re_now :: "nat \<Rightarrow> gotime"
  re_rand :: "nat \<Rightarrow> string option"
  re_uuid :: string

record server =
  srv_db :: db
  srv_serial :: nat

datatype body =
    BEmpty
  | BError string
  | BInternal
  | BHealth
  | BRevoked string
  | BTokenCreated create_token_response
  | BTokens "token_summary list"
  | BRegistered agent_register_response
  | BHeartbeat heartbeat_response
  | BPlan update_plan_response
  | BAcl acl_entry_summary
  | BAcls "acl_entry_summary list"
  | BAgents "agent_detail list"
  | BAgent agent_detail
  | BCert cert_response
  | BEvents "cert_event_summary list"

datatype response = Resp (status: nat) (resp_body: body)

definition panicked :: response where
  "panicked = Resp 500 BEmpty"

section \<open>Authentication\<close>

definition bearerFrom :: "string \<Rightarrow> string" where
  "bearerFrom h = (if \<not> has_prefix ''Bearer '' h then [] else trim_space (drop 7 h))"

definition requireAuth :: "libs \<Rightarrow> req_env \<Rightarrow> string \<Rightarrow> string \<Rightarrow> db \<Rightarrow>
    (response, store_token \<times> store_agent option) result" where
  "requireAuth lb env requiredKind hdr d =
     (let raw = bearerFrom hdr
      in if raw = [] then Inl (Resp 401 (BError ''missing bearer token''))
         else case Parse raw of
           Inl _ \<Rightarrow> Inl (Resp 401 (BError ''malformed token''))
         | Inr parsed \<Rightarrow>
             (case GetTokenByID (re_flt env 0) (t_id parsed) d of
                Inl _ \<Rightarrow> Inl (Resp 401 (BError ''unknown token''))
              | Inr row \<Rightarrow>
                  if t_kind parsed \<noteq> st_Kind row then Inl (Resp 401 (BError ''kind mismatch''))
                  else if st_Kind row \<noteq> requiredKind
                    then Inl (Resp 401 (BError ''wrong token kind for this route''))
                  else
                    let agent =
                      (if st_Kind row = TokenAgent then
                         (case st_AgentID row of
                            None \<Rightarrow> Inl (Resp 401 (BError ''agent token has no linked record''))
                          | Some aid \<Rightarrow>
                              (case GetAgent (re_flt env 1) aid d of
                                 Inl _ \<Rightarrow> Inl (Resp 401 (BError ''agent not found''))
                               | Inr ag \<Rightarrow>
                                   if sa_Status ag = AgentRevoked
                                   then Inl (Resp 410 (BRevoked ''node_revoked''))
                                   else Inr (Some ag)))
                       else Inr None)
                    in case agent of
                      Inl r \<Rightarrow> Inl r
                    | Inr ag \<Rightarrow>
                        if st_RevokedAt row \<noteq> None then Inl (Resp 401 (BError ''token revoked''))
                        else if (case st_ExpiresAt row of None \<Rightarrow> False | Some e \<Rightarrow> e < re_now env 0)
                          then Inl (Resp 401 (BError ''token expired''))
                        else if st_Kind row = TokenJoin \<and> st_UsedAt row \<noteq> None
                          then Inl (Resp 401 (BError ''join token already used''))
                        else case VerifySecret (lb_idkey lb) (t_secret parsed) (st_SecretHash row) of
                          Inl Argon2Panic \<Rightarrow> Inl panicked
                        | Inl _ \<Rightarrow> Inl (Resp 401 (BError ''secret mismatch''))
                        | Inr ok \<Rightarrow>
                            if \<not> ok then Inl (Resp 401 (BError ''secret mismatch''))
                            else Inr (row, ag)))"

section \<open>Agent enrolment and heartbeat\<close>

definition osFromMetadata :: "metadata \<Rightarrow> string" where
  "osFromMetadata m =
     (case m of None \<Rightarrow> [] | Some f \<Rightarrow> (case f ''os'' of Some (JString s) \<Rightarrow> s | _ \<Rightarrow> []))"

definition expectedPaths :: "string \<Rightarrow> expected_paths" where
  "expectedPaths goos = ExpectedPathsFor goos"

text \<open>The checks of \<open>handleAgentRegister\<close> up to the secret: the join token's row, or a response.\<close>

definition check_join_token :: "libs \<Rightarrow> req_env \<Rightarrow> string \<Rightarrow> db \<Rightarrow> (response, store_token) result" where
  "check_join_token lb env joinToken d =
     (case Parse joinToken of
        Inl _ \<Rightarrow> Inl (Resp 401 (BError ''invalid join token''))
      | Inr parsed \<Rightarrow>
          if t_kind parsed \<noteq> TokenJoin then Inl (Resp 401 (BError ''invalid join token''))
          else case GetTokenByID (re_flt env 0) (t_id parsed) d of
            Inl _ \<Rightarrow> Inl (Resp 401 (BError ''unknown join token''))
          | Inr row \<Rightarrow>
              if st_Kind row \<noteq> TokenJoin then Inl (Resp 401 (BError ''unknown join token''))
              else if st_UsedAt row \<noteq> None then Inl (Resp 401 (BError ''join token already used''))
              else if st_RevokedAt row \<noteq> None then Inl (Resp 401 (BError ''join token revoked''))
              else if (case st_ExpiresAt row of None \<Rightarrow> False | Some e \<Rightarrow> e < re_now env 0)
                then Inl (Resp 401 (BError ''join token expired''))
              else case VerifySecret (lb_idkey lb) (t_secret parsed) (st_SecretHash row) of
                Inl Argon2Panic \<Rightarrow> Inl panicked
              | Inl _ \<Rightarrow> Inl (Resp 401 (BError ''secret mismatch''))
              | Inr ok \<Rightarrow> if \<not> ok then Inl (Resp 401 (BError ''secret mismatch'')) else Inr row)"

text \<open>The rest of \<open>handleAgentRegister\<close>, once the join token is accepted: agent record, agent
  token, and only then the consumption of the join token.\<close>

definition enroll :: "libs \<Rightarrow> server_config \<Rightarrow> req_env \<Rightarrow> agent_register_request \<Rightarrow> store_token \<Rightarrow> db \<Rightarrow>
    db \<times> response" where
  "enroll lb cfg env req row d =
     (case GetAgentByName (re_flt env 1) (arr_Name req) d of
        Inr _ \<Rightarrow> (d, Resp 409 (BError ''already enrolled''))
      | Inl _ \<Rightarrow>
          (case CreateAgent (re_flt env 2) (re_now env 1) (re_uuid env) \<lparr>nap_Name = arr_Name req\<rparr> d of
             (d1, Inl e) \<Rightarrow>
               (d1, if e = ErrAgentNameTaken then Resp 409 (BError ''name already in use'')
                    else Resp 500 BInternal)
           | (d1, Inr ag) \<Rightarrow>
               (case Generate (re_rand env 0) (re_rand env 1) KindAgent of
                  Inl _ \<Rightarrow> (d1, Resp 500 BInternal)
                | Inr agentTok \<Rightarrow>
                    (case HashSecret (lb_idkey lb) (re_rand env 2) (t_secret agentTok) of
                       Inl Argon2Panic \<Rightarrow> (d1, panicked)
                     | Inl _ \<Rightarrow> (d1, Resp 500 BInternal)
                     | Inr hash \<Rightarrow>
                         (case CreateToken (re_flt env 3) (re_now env 2) (re_uuid env)
                            \<lparr>ntp_ID = t_id agentTok, ntp_Kind = TokenAgent, ntp_AgentID = Some (sa_ID ag),
                             ntp_SecretHash = hash, ntp_Label = ''agent:'' @ sa_Name ag,
                             ntp_ExpiresAt = None\<rparr> d1 of
                            (d2, Inl _) \<Rightarrow> (d2, Resp 500 BInternal)
                          | (d2, Inr _) \<Rightarrow>
                              (case MarkJoinTokenUsed (re_flt env 4) (st_ID row) (re_now env 3) d2 of
                                 (d3, Inl _) \<Rightarrow> (d3, Resp 500 BInternal)
                               | (d3, Inr _) \<Rightarrow>
                                   (d3, Resp 200 (BRegistered
                                     \<lparr>arp_AgentID = sa_ID ag, arp_AgentToken = token_string agentTok,
                                      arp_CAPubkey = cfg_CAPubkey cfg, arp_ServerHTTPSPin = [],
                                      arp_ExpectedPaths =
                                        expectedPaths (osFromMetadata (arr_Metadata req))\<rparr>))))))))"

definition handleAgentRegister :: "libs \<Rightarrow> server_config \<Rightarrow> req_env \<Rightarrow> agent_register_request option \<Rightarrow>
    db \<Rightarrow> db \<times> response" where
  "handleAgentRegister lb cfg env body d =
     (case body of
        None \<Rightarrow> (d, Resp 400 (BError ''invalid body''))
      | Some req \<Rightarrow>
          if arr_Name req = [] \<or> arr_JoinToken req = []
            then (d, Resp 400 (BError ''name and join_token required''))
          else case check_join_token lb env (arr_JoinToken req) d of
            Inl r \<Rightarrow> (d, r)
          | Inr row \<Rightarrow> enroll lb cfg env req row d)"

definition buildUpdateCommands :: "faults \<Rightarrow> string \<Rightarrow> db \<Rightarrow> check_update_command list" where
  "buildUpdateCommands flt agentVersion d =
     (case GetUpdatePolicy flt d of
        Inl _ \<Rightarrow> []
      | Inr policy \<Rightarrow>
          if up_ExpectedVersion policy = [] then []
          else if agentVersion \<noteq> up_ExpectedVersion policy \<or> up_Force policy
            then [\<lparr>cuc_Type = ''check_update'', cuc_Version = up_ExpectedVersion policy\<rparr>]
          else [])"

definition wire_of_principal :: "policy_principal \<Rightarrow> wire_principal" where
  "wire_of_principal p = \<lparr>wp_Username = pp_Username p, wp_CallerTokenIDs = pp_CallerTokenIDs p\<rparr>"

definition handleV2Heartbeat :: "req_env \<Rightarrow> store_agent \<Rightarrow> heartbeat_request option \<Rightarrow> db \<Rightarrow>
    db \<times> response" where
  "handleV2Heartbeat env ag body d =
     (case body of
        None \<Rightarrow> (d, Resp 400 (BError ''invalid body''))
      | Some req \<Rightarrow>
          (case UpdateAgentHeartbeat (re_flt env 2) (sa_ID ag) (hbr_AgentVersion req) (re_now env 1) d of
             (d1, Inl _) \<Rightarrow> (d1, Resp 500 BInternal)
           | (d1, Inr _) \<Rightarrow>
               let d2 = (if hbr_Endpoints req = [] then d1
                         else fst (UpsertAgentEndpoints (re_flt env 3) (sa_ID ag)
                           (map (\<lambda>e. \<lparr>ae_Subnet = we_Subnet e, ae_Address = we_Address e\<rparr>)
                              (hbr_Endpoints req)) d1));
                   snap = GetPolicySnapshot (re_flt env 4) (sa_ID ag) d2;
                   ps = hbr_PolicyState req;
                   policy = (case snap of
                       Inl _ \<Rightarrow> None
                     | Inr s \<Rightarrow>
                         if snap_Hash s = wps_AppliedHash ps then None
                         else Some \<lparr>pl_Version = snap_Version s, pl_Hash = snap_Hash s,
                                pl_Principals = map wire_of_principal (snap_Principals s)\<rparr>);
                   d3 = fst (UpsertAgentPolicyState (re_flt env 5) (re_now env 2)
                     \<lparr>ups_AgentID = sa_ID ag,
                      ups_DesiredVersion = (case snap of Inl _ \<Rightarrow> None | Inr s \<Rightarrow> Some (snap_Version s)),
                      ups_AppliedVersion = wps_AppliedVersion ps,
                      ups_AppliedHash = wps_AppliedHash ps,
                      ups_LastApplyStatus = wps_LastApplyStatus ps,
                      ups_LastApplyError = wps_LastApplyError ps,
                      ups_LastApplyAt = time_unix (wps_LastApplyAt ps)\<rparr> d2);
                   failClosedAfter = (case GetAgent (re_flt env 6) (sa_ID ag) d3 of
                       Inr latest \<Rightarrow> sa_FailClosedAfter latest
                     | Inl _ \<Rightarrow> sa_FailClosedAfter ag)
               in (d3, Resp 200 (BHeartbeat
                    \<lparr>hbp_AckTS = hbr_ObservedAt req, hbp_ServerTime = unix_of (re_now env 1),
                     hbp_Policy = policy,
                     hbp_Commands = buildUpdateCommands (re_flt env 7) (hbr_AgentVersion req) d3,
                     hbp_FailClosedAfter = failClosedAfter\<rparr>))))"

definition handleAgentHeartbeat :: "req_env \<Rightarrow> store_agent option \<Rightarrow> heartbeat_request option \<Rightarrow> db \<Rightarrow>
    db \<times> response" where
  "handleAgentHeartbeat env ctx body d =
     (case ctx of
        None \<Rightarrow> (d, Resp 401 (BError ''agent context missing''))
      | Some ag \<Rightarrow> handleV2Heartbeat env ag body d)"

section \<open>Update policy\<close>

definition handleGetUpdatePlan :: "req_env \<Rightarrow> db \<Rightarrow> response" where
  "handleGetUpdatePlan env d =
     (case GetUpdatePolicy (re_flt env 2) d of
        Inl e \<Rightarrow>
          if e = ErrNotFound
          then Resp 200 (BPlan \<lparr>upr_ExpectedVersion = [], upr_AssetURLTemplate = [],
                 upr_SHA256URLTemplate = [], upr_Force = False\<rparr>)
          else Resp 500 (BError ''get update policy'')
      | Inr policy \<Rightarrow>
          Resp 200 (BPlan \<lparr>upr_ExpectedVersion = up_ExpectedVersion policy,
            upr_AssetURLTemplate = up_AssetURLTemplate policy,
            upr_SHA256URLTemplate = up_SHA256URLTemplate policy, upr_Force = up_Force policy\<rparr>))"

definition handleSetUpdatePolicy :: "req_env \<Rightarrow> set_update_policy_request option \<Rightarrow> db \<Rightarrow>
    db \<times> response" where
  "handleSetUpdatePolicy env body d =
     (case body of
        None \<Rightarrow> (d, Resp 400 (BError ''invalid json''))
      | Some req \<Rightarrow>
          if suq_ExpectedVersion req = [] then (d, Resp 400 (BError ''expected_version is required''))
          else case SetUpdatePolicy (re_flt env 2) (re_now env 1)
              \<lparr>sup_ExpectedVersion = suq_ExpectedVersion req,
               sup_AssetURLTemplate = suq_AssetURLTemplate req,
               sup_SHA256URLTemplate = suq_SHA256URLTemplate req, sup_Force = suq_Force req\<rparr> d of
            (d', Inl _) \<Rightarrow> (d', Resp 500 (BError ''set update policy''))
          | (d', Inr _) \<Rightarrow> (d', Resp 204 BEmpty))"

section \<open>Tokens\<close>

definition handleCreateToken :: "libs \<Rightarrow> req_env \<Rightarrow> create_token_request option \<Rightarrow> db \<Rightarrow> db \<times> response" where
  "handleCreateToken lb env body d =
     (case body of
        None \<Rightarrow> (d, Resp 400 (BError ''invalid body''))
      | Some req \<Rightarrow>
          if ctr_Kind req \<noteq> ''join'' \<and> ctr_Kind req \<noteq> ''caller''
            then (d, Resp 400 (BError ''kind must be join or caller''))
          else
            let kind = (if ctr_Kind req = ''join'' then TokenJoin else TokenCaller)
            in case Generate (re_rand env 0) (re_rand env 1) kind of
              Inl _ \<Rightarrow> (d, Resp 500 BInternal)
            | Inr tok \<Rightarrow>
                (case HashSecret (lb_idkey lb) (re_rand env 2) (t_secret tok) of
                   Inl Argon2Panic \<Rightarrow> (d, panicked)
                 | Inl _ \<Rightarrow> (d, Resp 500 BInternal)
                 | Inr hash \<Rightarrow>
                     let expiresAt = (case ctr_ExpiresAt req of
                           Some e \<Rightarrow> Some (time_unix e)
                         | None \<Rightarrow> if kind = TokenJoin then Some (re_now env 1 + 900 * 1000000000)
                                   else None)
                     in case CreateToken (re_flt env 2) (re_now env 2) (re_uuid env)
                          \<lparr>ntp_ID = t_id tok, ntp_Kind = kind, ntp_AgentID = None,
                           ntp_SecretHash = hash, ntp_Label = ctr_Label req,
                           ntp_ExpiresAt = expiresAt\<rparr> d of
                        (d', Inl _) \<Rightarrow> (d', Resp 500 BInternal)
                      | (d', Inr row) \<Rightarrow>
                          (d', Resp 200 (BTokenCreated \<lparr>ctp_ID = st_ID row,
                             ctp_Token = token_string (tok\<lparr>t_id := st_ID row\<rparr>)\<rparr>))))"

definition token_summary_of :: "store_token \<Rightarrow> token_summary" where
  "token_summary_of t =
     \<lparr>ts_ID = st_ID t, ts_Kind = st_Kind t, ts_Label = st_Label t,
      ts_CreatedAt = unix_of (st_CreatedAt t), ts_ExpiresAt = TimePtr (st_ExpiresAt t),
      ts_UsedAt = TimePtr (st_UsedAt t), ts_RevokedAt = TimePtr (st_RevokedAt t)\<rparr>"

definition handleListTokens :: "req_env \<Rightarrow> db \<Rightarrow> response" where
  "handleListTokens env d =
     (case ListTokens (re_flt env 2) d of
        Inl _ \<Rightarrow> Resp 500 BInternal
      | Inr rows \<Rightarrow> Resp 200 (BTokens (map token_summary_of rows)))"

definition handleRevokeToken :: "req_env \<Rightarrow> string \<Rightarrow> db \<Rightarrow> db \<times> response" where
  "handleRevokeToken env i d =
     (case RevokeToken (re_flt env 2) i (re_now env 1) d of
        (d', Inl _) \<Rightarrow> (d', Resp 404 BInternal)
      | (d', Inr _) \<Rightarrow> (d', Resp 204 BEmpty))"

section \<open>ACL\<close>

definition resolveAgent :: "faults \<Rightarrow> faults \<Rightarrow> string \<Rightarrow> db \<Rightarrow> (store_error, store_agent) result" where
  "resolveAgent flt flt' idOrName d =
     (if has_prefix ''ag_'' idOrName
      then (case GetAgent flt idOrName d of
              Inr ag \<Rightarrow> Inr ag
            | Inl _ \<Rightarrow> GetAgentByName flt' idOrName d)
      else GetAgentByName flt' idOrName d)"

definition aclSummary :: "acl_entry \<Rightarrow> acl_entry_summary" where
  "aclSummary e =
     \<lparr>aes_ID = ace_ID e, aes_CallerTokenID = ace_CallerTokenID e, aes_AgentID = ace_AgentID e,
      aes_Username = ace_Username e, aes_CreatedAt = unix_of (ace_CreatedAt e),
      aes_CreatedBy = ace_CreatedBy e\<rparr>"

definition handleCreateACL :: "libs \<Rightarrow> req_env \<Rightarrow> create_acl_request option \<Rightarrow> db \<Rightarrow> db \<times> response" where
  "handleCreateACL lb env body d =
     (case body of
        None \<Rightarrow> (d, Resp 400 (BError ''invalid body''))
      | Some req \<Rightarrow>
          if car_Caller req = [] \<or> car_Agent req = [] \<or> car_Username req = []
            then (d, Resp 400 (BError ''caller, agent, and username are required''))
          else case GetTokenByID (re_flt env 2) (car_Caller req) d of
            Inl _ \<Rightarrow> (d, Resp 404 (BError ''caller token not found''))
          | Inr callerTok \<Rightarrow>
              if st_Kind callerTok \<noteq> TokenCaller
                then (d, Resp 400 (BError ''caller must be a caller token id''))
              else case resolveAgent (re_flt env 3) (re_flt env 4) (car_Agent req) d of
                Inl _ \<Rightarrow> (d, Resp 404 (BError ''agent not found''))
              | Inr agent \<Rightarrow>
                  (case CreateACL (re_flt env 5) (lb_sum256 lb) (re_now env 1) (re_uuid env)
                     \<lparr>cap_CallerTokenID = st_ID callerTok, cap_AgentID = sa_ID agent,
                      cap_Username = car_Username req, cap_CreatedBy = None\<rparr> d of
                     (d', Inl _) \<Rightarrow> (d', Resp 500 BInternal)
                   | (d', Inr entry) \<Rightarrow> (d', Resp 201 (BAcl (aclSummary entry)))))"

definition handleDeleteACL :: "libs \<Rightarrow> req_env \<Rightarrow> string \<Rightarrow> db \<Rightarrow> db \<times> response" where
  "handleDeleteACL lb env i d =
     (case DeleteACL (re_flt env 2) (lb_sum256 lb) i d of
        (d', Inl e) \<Rightarrow> (d', if e = ErrNotFound then Resp 404 (BError ''acl entry not found'')
                          else Resp 500 BInternal)
      | (d', Inr _) \<Rightarrow> (d', Resp 204 BEmpty))"

definition handleListACL :: "req_env \<Rightarrow> string \<Rightarrow> string \<Rightarrow> db \<Rightarrow> response" where
  "handleListACL env caller agent d =
     (case ListACL (re_flt env 2) \<lparr>laf_CallerTokenID = caller, laf_AgentID = agent\<rparr> d of
        Inl _ \<Rightarrow> Resp 500 BInternal
      | Inr entries \<Rightarrow> Resp 200 (BAcls (map aclSummary entries)))"

section \<open>Agents\<close>

definition agentDetail :: "store_agent \<Rightarrow> agent_endpoint list \<Rightarrow> agent_detail" where
  "agentDetail ag eps =
     \<lparr>ad_ID = sa_ID ag, ad_Name = sa_Name ag, ad_Status = sa_Status ag,
      ad_AgentVersion = sa_AgentVersion ag, ad_CreatedAt = unix_of (sa_CreatedAt ag),
      ad_LastSeenAt = map_option unix_of (sa_LastSeenAt ag),
      ad_Endpoints = map (\<lambda>e. \<lparr>we_Subnet = ae_Subnet e, we_Address = ae_Address e\<rparr>) eps,
      ad_FailClosedAfter = sa_FailClosedAfter ag\<rparr>"

text \<open>\<^verbatim>\<open>eps, _ := ListAgentEndpoints(...)\<close>: an error leaves the list nil.\<close>

definition endpoints_or_nil :: "(store_error, agent_endpoint list) result \<Rightarrow> agent_endpoint list" where
  "endpoints_or_nil r = (case r of Inl _ \<Rightarrow> [] | Inr eps \<Rightarrow> eps)"

definition handleListAgents :: "req_env \<Rightarrow> db \<Rightarrow> response" where
  "handleListAgents env d =
     (case ListAgents (re_flt env 2) d of
        Inl _ \<Rightarrow> Resp 500 BInternal
      | Inr agents \<Rightarrow>
          Resp 200 (BAgents (map (\<lambda>(k, ag). agentDetail ag
              (endpoints_or_nil (ListAgentEndpoints (re_flt env (3 + k)) (sa_ID ag) d)))
            (enumerate 0 agents))))"

definition handleGetAgent :: "req_env \<Rightarrow> string \<Rightarrow> db \<Rightarrow> response" where
  "handleGetAgent env idOrName d =
     (case resolveAgent (re_flt env 2) (re_flt env 3) idOrName d of
        Inl _ \<Rightarrow> Resp 404 (BError ''agent not found'')
      | Inr ag \<Rightarrow>
          Resp 200 (BAgent (agentDetail ag
            (endpoints_or_nil (ListAgentEndpoints (re_flt env 4) (sa_ID ag) d)))))"

definition handleDeleteAgent :: "req_env \<Rightarrow> string \<Rightarrow> db \<Rightarrow> db \<times> response" where
  "handleDeleteAgent env idOrName d =
     (case resolveAgent (re_flt env 2) (re_flt env 3) idOrName d of
        Inl _ \<Rightarrow> (d, Resp 404 (BError ''agent not found''))
      | Inr ag \<Rightarrow>
          (case RevokeAgent (re_flt env 4) (sa_ID ag) (re_now env 1) d of
             (d', Inl e) \<Rightarrow> (d', if e = ErrNotFound then Resp 404 (BError ''agent not found'')
                               else Resp 500 BInternal)
           | (d', Inr _) \<Rightarrow> (d', Resp 204 BEmpty)))"

text \<open>The body of \<^verbatim>\<open>PATCH /v1/agents/{id}\<close> is the field \<^verbatim>\<open>fail_closed_after\<close> alone.\<close>

definition handleSetAgent :: "req_env \<Rightarrow> string \<Rightarrow> int option option \<Rightarrow> db \<Rightarrow> db \<times> response" where
  "handleSetAgent env idOrName body d =
     (case resolveAgent (re_flt env 2) (re_flt env 3) idOrName d of
        Inl _ \<Rightarrow> (d, Resp 404 (BError ''agent not found''))
      | Inr ag \<Rightarrow>
          (case body of
             None \<Rightarrow> (d, Resp 400 (BError ''invalid body''))
           | Some seconds \<Rightarrow>
               (case SetAgentFailClosedAfter (re_flt env 4) (sa_ID ag) seconds d of
                  (d', Inl e) \<Rightarrow> (d', if e = ErrNotFound then Resp 404 (BError ''agent not found'')
                                    else Resp 500 BInternal)
                | (d', Inr _) \<Rightarrow> (d', Resp 204 BEmpty))))"

section \<open>Certificate issuance\<close>

definition certTTLDefault :: int where "certTTLDefault = 300"
definition certTTLMax :: int where "certTTLMax = 900"

definition pubkeyFingerprint :: "ssh_lib \<Rightarrow> string \<Rightarrow> string" where
  "pubkeyFingerprint lib rawPubkey =
     (if rawPubkey = [] then []
      else case lib_parse lib rawPubkey of None \<Rightarrow> [] | Some pub \<Rightarrow> lib_fingerprint lib pub)"

text \<open>\<open>writeDeniedEvent\<close>; a failing write is only logged, a failing \<open>NewRequestID\<close> panics
  (\<^term>\<open>None\<close>).\<close>

definition writeDeniedEvent :: "libs \<Rightarrow> req_env \<Rightarrow> string \<Rightarrow> string \<Rightarrow> string \<Rightarrow> string \<Rightarrow> string \<Rightarrow> server \<Rightarrow>
    server option" where
  "writeDeniedEvent lb env callerID agentID username rawPubkey reason s =
     map_option (\<lambda>requestID. s\<lparr>srv_db := fst (WriteCertEvent (re_flt env 5)
        \<lparr>ce_RequestID = requestID, ce_TS = re_now env 2, ce_CallerTokenID = callerID,
         ce_TargetAgentID = agentID, ce_Username = username, ce_CertPrincipal = [],
         ce_PubkeyFP = pubkeyFingerprint (lb_ssh lb) rawPubkey, ce_TTLSeconds = 0, ce_Serial = 0,
         ce_KeyID = [], ce_Outcome = ''denied'', ce_DenialReason = reason\<rparr> (srv_db s))\<rparr>)
       (NewRequestID (re_rand env 1))"

text \<open>A denial: the audit event, then the response.\<close>

definition deny :: "libs \<Rightarrow> req_env \<Rightarrow> string \<Rightarrow> string \<Rightarrow> string \<Rightarrow> string \<Rightarrow> string \<Rightarrow> response \<Rightarrow> server \<Rightarrow>
    server \<times> response" where
  "deny lb env callerID agentID username rawPubkey reason resp s =
     (case writeDeniedEvent lb env callerID agentID username rawPubkey reason s of
        None \<Rightarrow> (s, panicked)
      | Some s' \<Rightarrow> (s', resp))"

text \<open>The second half of \<open>handleIssueCert\<close>: the caller is authorised; build, sign, record, answer.
  The multiplication \<^verbatim>\<open>time.Duration(ttl) * time.Second\<close> wraps at 64 bits.\<close>

definition issue :: "libs \<Rightarrow> req_env \<Rightarrow> string \<Rightarrow> store_token \<Rightarrow> cert_request \<Rightarrow> int \<Rightarrow> store_agent \<Rightarrow>
    server \<Rightarrow> server \<times> response" where
  "issue lb env signer callerTok req ttl agent s =
     (case NewRequestID (re_rand env 0) of
        None \<Rightarrow> (s, panicked)
      | Some requestID \<Rightarrow>
          let now = re_now env 1;
              validAfter = now - 30 * 1000000000;
              validBefore = now + wrap64 (ttl * 1000000000);
              serial = (srv_serial s + 1) mod 2 ^ 64;
              s1 = s\<lparr>srv_serial := serial\<rparr>;
              keyID = FormatKeyID requestID (st_ID callerTok) (sa_ID agent) (crq_Username req)
          in case Sign (lb_ssh lb) signer
               \<lparr>sp_UserPublicKey = crq_Pubkey req, sp_Principals = [st_ID callerTok],
                sp_KeyID = keyID, sp_ValidAfter = validAfter, sp_ValidBefore = validBefore,
                sp_Serial = serial\<rparr> of
               Inl (CaInvalidInput _) \<Rightarrow>
                 deny lb env (st_ID callerTok) (sa_ID agent) (crq_Username req) (crq_Pubkey req)
                   ''bad_input'' (Resp 400 BInternal) s1
             | Inl CaSignFailed \<Rightarrow> (s1, Resp 500 BInternal)
             | Inr certBytes \<Rightarrow>
                 (case WriteCertEvent (re_flt env 5)
                    \<lparr>ce_RequestID = requestID, ce_TS = now, ce_CallerTokenID = st_ID callerTok,
                     ce_TargetAgentID = sa_ID agent, ce_Username = crq_Username req,
                     ce_CertPrincipal = st_ID callerTok,
                     ce_PubkeyFP = pubkeyFingerprint (lb_ssh lb) (crq_Pubkey req),
                     ce_TTLSeconds = ttl, ce_Serial = serial, ce_KeyID = keyID,
                     ce_Outcome = ''signed'', ce_DenialReason = []\<rparr> (srv_db s1) of
                    (d', Inl _) \<Rightarrow> (s1\<lparr>srv_db := d'\<rparr>, Resp 500 BInternal)
                  | (d', Inr _) \<Rightarrow>
                      (s1\<lparr>srv_db := d'\<rparr>, Resp 200 (BCert
                        \<lparr>crp_Certificate = certBytes, crp_KeyID = keyID,
                         crp_Principal = st_ID callerTok, crp_Serial = serial,
                         crp_ValidAfter = unix_of validAfter, crp_ValidBefore = unix_of validBefore\<rparr>))))"

definition handleIssueCert :: "libs \<Rightarrow> server_config \<Rightarrow> req_env \<Rightarrow> store_token \<Rightarrow> cert_request option \<Rightarrow>
    server \<Rightarrow> server \<times> response" where
  "handleIssueCert lb cfg env callerTok body s =
     (case cfg_CASigner cfg of
        None \<Rightarrow> (s, Resp 503 (BError ''CA not configured''))
      | Some signer \<Rightarrow>
     (case body of
        None \<Rightarrow> (s, Resp 400 (BError ''invalid body''))
      | Some req \<Rightarrow>
          if crq_Agent req = [] \<or> crq_Username req = [] \<or> crq_Pubkey req = []
            then deny lb env (st_ID callerTok) [] (crq_Username req) [] ''bad_input''
                   (Resp 400 (BError ''agent, username, and pubkey are required'')) s
          else
            let ttl = (if crq_TTLSeconds req = 0 then certTTLDefault else crq_TTLSeconds req)
            in if ttl > certTTLMax
               then deny lb env (st_ID callerTok) [] (crq_Username req) (crq_Pubkey req) ''bad_input''
                      (Resp 400 (BError ''ttl_seconds exceeds maximum (900)'')) s
               else case resolveAgent (re_flt env 2) (re_flt env 3) (crq_Agent req) (srv_db s) of
                 Inl _ \<Rightarrow>
                   deny lb env (st_ID callerTok) [] (crq_Username req) (crq_Pubkey req)
                     ''agent_not_found'' (Resp 404 (BError ''agent not found'')) s
               | Inr agent \<Rightarrow>
                   (case ListACL (re_flt env 4)
                      \<lparr>laf_CallerTokenID = st_ID callerTok, laf_AgentID = sa_ID agent\<rparr> (srv_db s) of
                      Inl _ \<Rightarrow> (s, Resp 500 BInternal)
                    | Inr entries \<Rightarrow>
                        if \<not> list_ex (\<lambda>e. ace_Username e = crq_Username req) entries
                        then deny lb env (st_ID callerTok) (sa_ID agent) (crq_Username req)
                               (crq_Pubkey req) ''acl_miss''
                               (Resp 403 (BError ''acl_miss: no grant for (caller, agent, username)'')) s
                        else issue lb env signer callerTok req ttl agent s)))"

section \<open>Audit\<close>

text \<open>\<^verbatim>\<open>strconv.ParseInt(s, 10, 64)\<close>; \<^term>\<open>None\<close> is its error.\<close>

definition ParseInt64 :: "string \<Rightarrow> int option" where
  "ParseInt64 s =
     (let (sg, ds) = (case s of
            [] \<Rightarrow> (1, [])
          | c # cs \<Rightarrow> if c = CHR ''-'' then (-1, cs) else if c = CHR ''+'' then (1, cs) else (1, s));
          v = sg * int (dec_value ds)
      in if ds = [] \<or> \<not> list_all is_digit ds \<or> v < - (2 ^ 63) \<or> 2 ^ 63 \<le> v then None else Some v)"

record audit_query =
  aq_caller :: string
  aq_agent :: string
  aq_user :: string
  aq_outcome :: string
  aq_since :: string
  aq_limit :: string

definition event_summary_of :: "cert_event \<Rightarrow> cert_event_summary" where
  "event_summary_of e =
     \<lparr>ces_RequestID = ce_RequestID e, ces_TS = unix_of (ce_TS e),
      ces_CallerTokenID = ce_CallerTokenID e, ces_TargetAgentID = ce_TargetAgentID e,
      ces_Username = ce_Username e, ces_CertPrincipal = ce_CertPrincipal e,
      ces_PubkeyFP = ce_PubkeyFP e, ces_TTLSeconds = ce_TTLSeconds e, ces_Serial = ce_Serial e,
      ces_KeyID = ce_KeyID e, ces_Outcome = ce_Outcome e, ces_DenialReason = ce_DenialReason e\<rparr>"

definition handleListCertEvents :: "req_env \<Rightarrow> audit_query \<Rightarrow> db \<Rightarrow> response" where
  "handleListCertEvents env q d =
     (let since = (if aq_since q = [] then None else map_option time_unix (ParseInt64 (aq_since q)));
          limit = (if aq_limit q = [] then 0
                   else case ParseInt64 (aq_limit q) of
                     None \<Rightarrow> 0 | Some n \<Rightarrow> if n > 0 then n else 0)
      in case ListCertEvents (re_flt env 2)
           \<lparr>cef_CallerTokenID = aq_caller q, cef_AgentID = aq_agent q, cef_Username = aq_user q,
            cef_Outcome = aq_outcome q, cef_Since = since, cef_Limit = limit\<rparr> d of
           Inl _ \<Rightarrow> Resp 500 BInternal
         | Inr events \<Rightarrow> Resp 200 (BEvents (map event_summary_of events)))"

definition handleHealthz :: response where
  "handleHealthz = Resp 200 BHealth"

section \<open>Router\<close>

datatype route =
    Healthz
  | PostTokens "create_token_request option"
  | GetTokens
  | DeleteToken string
  | PostRegister "agent_register_request option"
  | PostHeartbeat "heartbeat_request option"
  | GetUpdatePlan
  | PostServerUpdate "set_update_policy_request option"
  | PostAcl "create_acl_request option"
  | DeleteAcl string
  | GetAcl string string
  | GetAgents
  | GetAgentById string
  | DeleteAgentById string
  | PatchAgent string "int option option"
  | GetAuditCerts audit_query
  | PostCerts "cert_request option"

text \<open>The token kind each route group requires (\<^term>\<open>None\<close>: no middleware).\<close>

definition route_kind :: "route \<Rightarrow> string option" where
  "route_kind r =
     (case r of
        Healthz \<Rightarrow> None
      | PostRegister _ \<Rightarrow> None
      | PostHeartbeat _ \<Rightarrow> Some TokenAgent
      | GetUpdatePlan \<Rightarrow> Some TokenAgent
      | _ \<Rightarrow> Some TokenCaller)"

definition on_db :: "server \<Rightarrow> db \<times> response \<Rightarrow> server \<times> response" where
  "on_db s x = (s\<lparr>srv_db := fst x\<rparr>, snd x)"

fun handle :: "libs \<Rightarrow> server_config \<Rightarrow> req_env \<Rightarrow> (store_token \<times> store_agent option) option \<Rightarrow> route \<Rightarrow>
    server \<Rightarrow> server \<times> response" where
  "handle lb cfg env ctx Healthz s = (s, handleHealthz)"
| "handle lb cfg env ctx (PostTokens b) s = on_db s (handleCreateToken lb env b (srv_db s))"
| "handle lb cfg env ctx GetTokens s = (s, handleListTokens env (srv_db s))"
| "handle lb cfg env ctx (DeleteToken i) s = on_db s (handleRevokeToken env i (srv_db s))"
| "handle lb cfg env ctx (PostRegister b) s = on_db s (handleAgentRegister lb cfg env b (srv_db s))"
| "handle lb cfg env ctx (PostHeartbeat b) s =
     on_db s (handleAgentHeartbeat env (Option.bind ctx snd) b (srv_db s))"
| "handle lb cfg env ctx GetUpdatePlan s = (s, handleGetUpdatePlan env (srv_db s))"
| "handle lb cfg env ctx (PostServerUpdate b) s = on_db s (handleSetUpdatePolicy env b (srv_db s))"
| "handle lb cfg env ctx (PostAcl b) s = on_db s (handleCreateACL lb env b (srv_db s))"
| "handle lb cfg env ctx (DeleteAcl i) s = on_db s (handleDeleteACL lb env i (srv_db s))"
| "handle lb cfg env ctx (GetAcl c a) s = (s, handleListACL env c a (srv_db s))"
| "handle lb cfg env ctx GetAgents s = (s, handleListAgents env (srv_db s))"
| "handle lb cfg env ctx (GetAgentById i) s = (s, handleGetAgent env i (srv_db s))"
| "handle lb cfg env ctx (DeleteAgentById i) s = on_db s (handleDeleteAgent env i (srv_db s))"
| "handle lb cfg env ctx (PatchAgent i b) s = on_db s (handleSetAgent env i b (srv_db s))"
| "handle lb cfg env ctx (GetAuditCerts q) s = (s, handleListCertEvents env q (srv_db s))"
| "handle lb cfg env ctx (PostCerts b) s =
     (case ctx of
        None \<Rightarrow> (s, if cfg_CASigner cfg = None then Resp 503 (BError ''CA not configured'')
                    else Resp 500 (BError ''auth context missing''))
      | Some (tok, _) \<Rightarrow> handleIssueCert lb cfg env tok b s)"

definition serve :: "libs \<Rightarrow> server_config \<Rightarrow> req_env \<Rightarrow> string \<Rightarrow> route \<Rightarrow> server \<Rightarrow> server \<times> response" where
  "serve lb cfg env hdr r s =
     (case route_kind r of
        None \<Rightarrow> handle lb cfg env None r s
      | Some kind \<Rightarrow>
          (case requireAuth lb env kind hdr (srv_db s) of
             Inl resp \<Rightarrow> (s, resp)
           | Inr ctx \<Rightarrow> handle lb cfg env (Some ctx) r s))"

end
