(* ===== verification/Server_Issuance.thy ===== *)
theory Server_Issuance
  imports Server_Theorems
begin

text \<open>
  Certificate issuance: \<open>POST /v1/certs\<close> signs only for a grant in the ACL, records every
  decision, and bounds the lifetime of what it signs (for a non-negative requested lifetime).
\<close>

section \<open>Inversion of the handler\<close>

lemma deny_not_cert: "resp_body (snd (deny lb env c a u k reason (Resp n b) s)) \<in> {BEmpty, b}"
  by (simp add: deny_def panicked_def split: option.split)

lemma ListACL_grant:
  assumes "ListACL flt \<lparr>laf_CallerTokenID = c, laf_AgentID = a\<rparr> d = Inr es" "c \<noteq> []" "a \<noteq> []"
    "list_ex (\<lambda>e. ace_Username e = u) es"
  shows "\<exists>row \<in> set (db_acl d). acl_caller row = c \<and> acl_agent row = a \<and> acl_username row = u"
proof -
  obtain e where e: "e \<in> set es" "ace_Username e = u" using assms(4) by (auto simp: list_ex_iff)
  then obtain row where "row \<in> set (db_acl d)" "acl_caller row = c" "acl_agent row = a" "e = scanACL row"
    using assms(1-3) by (auto simp: ListACL_def split: if_splits)
  with e(2) show ?thesis by (intro bexI [of _ row]) (simp_all add: scanACL_def)
qed

lemma handleIssueCert_certD:
  assumes "handleIssueCert lb cfg env tok body s = (s', Resp n (BCert c))"
  shows "\<exists>signer req agent es ttl. cfg_CASigner cfg = Some signer \<and> body = Some req
     \<and> ttl = (if crq_TTLSeconds req = 0 then 300 else crq_TTLSeconds req) \<and> ttl \<le> 900
     \<and> resolveAgent (re_flt env 2) (re_flt env 3) (crq_Agent req) (srv_db s) = Inr agent
     \<and> ListACL (re_flt env 4) \<lparr>laf_CallerTokenID = st_ID tok, laf_AgentID = sa_ID agent\<rparr> (srv_db s) = Inr es
     \<and> list_ex (\<lambda>e. ace_Username e = crq_Username req) es
     \<and> issue lb env signer tok req ttl agent s = (s', Resp n (BCert c))"
proof -
  obtain signer where signer: "cfg_CASigner cfg = Some signer"
    using assms by (auto simp: handleIssueCert_def split: option.splits)
  obtain req where req: "body = Some req"
    using assms by (auto simp: handleIssueCert_def signer split: option.splits)
  have nd: "deny lb env a b u k reason (Resp m (BError x)) s \<noteq> (s', Resp n (BCert c))" for a b u k reason m x
    using deny_not_cert [of lb env a b u k reason m "BError x" s] by auto
  have fields: "\<not> (crq_Agent req = [] \<or> crq_Username req = [] \<or> crq_Pubkey req = [])"
    using assms nd by (auto simp: handleIssueCert_def signer req)
  define ttl where "ttl = (if crq_TTLSeconds req = 0 then certTTLDefault else crq_TTLSeconds req)"
  have t: "\<not> ttl > certTTLMax"
    using assms nd fields by (auto simp: handleIssueCert_def signer req ttl_def [symmetric] Let_def)
  obtain agent where agent: "resolveAgent (re_flt env 2) (re_flt env 3) (crq_Agent req) (srv_db s) = Inr agent"
    using assms nd fields t
    by (cases "resolveAgent (re_flt env 2) (re_flt env 3) (crq_Agent req) (srv_db s)")
      (auto simp: handleIssueCert_def signer req ttl_def [symmetric] Let_def)
  obtain es where es: "ListACL (re_flt env 4) \<lparr>laf_CallerTokenID = st_ID tok, laf_AgentID = sa_ID agent\<rparr> (srv_db s) = Inr es"
    using assms fields t agent
    by (cases "ListACL (re_flt env 4) \<lparr>laf_CallerTokenID = st_ID tok, laf_AgentID = sa_ID agent\<rparr> (srv_db s)")
      (auto simp: handleIssueCert_def signer req ttl_def [symmetric] Let_def)
  have ex: "list_ex (\<lambda>e. ace_Username e = crq_Username req) es"
    using assms nd fields t agent es
    by (cases "list_ex (\<lambda>e. ace_Username e = crq_Username req) es")
      (auto simp: handleIssueCert_def signer req ttl_def [symmetric] Let_def)
  have "issue lb env signer tok req ttl agent s = (s', Resp n (BCert c))"
    using assms fields t agent es ex by (auto simp: handleIssueCert_def signer req ttl_def [symmetric] Let_def)
  with signer req agent es ex t show ?thesis
    by (auto simp: ttl_def certTTLDefault_def certTTLMax_def)
qed

lemma issue_certD:
  assumes "issue lb env signer tok req ttl agent s = (s', Resp n (BCert c))"
  shows "\<exists>rid cert. NewRequestID (re_rand env 0) = Some rid \<and> n = 200
     \<and> lib_sign (lb_ssh lb) signer cert = Some (crp_Certificate c)
     \<and> sc_ValidPrincipals cert = [st_ID tok] \<and> sc_KeyId cert = crp_KeyID c \<and> sc_Serial cert = crp_Serial c
     \<and> lib_parse (lb_ssh lb) (crq_Pubkey req) = Some (sc_Key cert)
     \<and> sc_ValidAfter cert = uint64 (crp_ValidAfter c) \<and> sc_ValidBefore cert = uint64 (crp_ValidBefore c)
     \<and> crp_KeyID c = FormatKeyID rid (st_ID tok) (sa_ID agent) (crq_Username req)
     \<and> crp_Principal c = st_ID tok \<and> crp_Serial c = (srv_serial s + 1) mod 2 ^ 64
     \<and> srv_serial s' = crp_Serial c
     \<and> crp_ValidAfter c = unix_of (re_now env 1 - 30 * 1000000000)
     \<and> crp_ValidBefore c = unix_of (re_now env 1 + wrap64 (ttl * 1000000000))
     \<and> WriteCertEvent (re_flt env 5)
          \<lparr>ce_RequestID = rid, ce_TS = re_now env 1, ce_CallerTokenID = st_ID tok,
           ce_TargetAgentID = sa_ID agent, ce_Username = crq_Username req, ce_CertPrincipal = st_ID tok,
           ce_PubkeyFP = pubkeyFingerprint (lb_ssh lb) (crq_Pubkey req), ce_TTLSeconds = ttl,
           ce_Serial = crp_Serial c, ce_KeyID = crp_KeyID c, ce_Outcome = ''signed'',
           ce_DenialReason = []\<rparr> (srv_db s) = (srv_db s', Inr ())"
proof -
  obtain rid where rid: "NewRequestID (re_rand env 0) = Some rid"
    using assms by (auto simp: issue_def panicked_def split: option.splits)
  define p where "p = \<lparr>sp_UserPublicKey = crq_Pubkey req, sp_Principals = [st_ID tok],
                sp_KeyID = FormatKeyID rid (st_ID tok) (sa_ID agent) (crq_Username req),
                sp_ValidAfter = re_now env 1 - 30 * 1000000000,
                sp_ValidBefore = re_now env 1 + wrap64 (ttl * 1000000000),
                sp_Serial = (srv_serial s + 1) mod 2 ^ 64\<rparr>"
  have nd: "deny lb env a b u k reason (Resp m BInternal) x \<noteq> (s', Resp n (BCert c))" for a b u k reason m x
    using deny_not_cert [of lb env a b u k reason m "BInternal" x] by auto
  obtain bytes where bytes: "Sign (lb_ssh lb) signer p = Inr bytes"
    using assms nd by (cases "Sign (lb_ssh lb) signer p")
      (auto simp: issue_def rid p_def Let_def simp del: One_nat_def split: ca_error.splits)
  define e where "e = \<lparr>ce_RequestID = rid, ce_TS = re_now env 1, ce_CallerTokenID = st_ID tok,
           ce_TargetAgentID = sa_ID agent, ce_Username = crq_Username req, ce_CertPrincipal = st_ID tok,
           ce_PubkeyFP = pubkeyFingerprint (lb_ssh lb) (crq_Pubkey req), ce_TTLSeconds = ttl,
           ce_Serial = (srv_serial s + 1) mod 2 ^ 64,
           ce_KeyID = FormatKeyID rid (st_ID tok) (sa_ID agent) (crq_Username req),
           ce_Outcome = ''signed'', ce_DenialReason = []\<rparr>"
  have "issue lb env signer tok req ttl agent s =
      (case WriteCertEvent (re_flt env 5) e (srv_db s) of
         (d', Inl _) \<Rightarrow> (s\<lparr>srv_serial := (srv_serial s + 1) mod 2 ^ 64, srv_db := d'\<rparr>, Resp 500 BInternal)
       | (d', Inr _) \<Rightarrow> (s\<lparr>srv_serial := (srv_serial s + 1) mod 2 ^ 64, srv_db := d'\<rparr>, Resp 200 (BCert
           \<lparr>crp_Certificate = bytes, crp_KeyID = sp_KeyID p, crp_Principal = st_ID tok,
            crp_Serial = sp_Serial p, crp_ValidAfter = unix_of (sp_ValidAfter p),
            crp_ValidBefore = unix_of (sp_ValidBefore p)\<rparr>)))"
    using bytes
    by (simp add: issue_def rid p_def e_def Let_def del: One_nat_def split: prod.split sum.split)
  with assms have w: "WriteCertEvent (re_flt env 5) e (srv_db s) = (srv_db s', Inr ())" "n = 200"
    "srv_serial s' = sp_Serial p"
    "c = \<lparr>crp_Certificate = bytes, crp_KeyID = sp_KeyID p, crp_Principal = st_ID tok,
            crp_Serial = sp_Serial p, crp_ValidAfter = unix_of (sp_ValidAfter p),
            crp_ValidBefore = unix_of (sp_ValidBefore p)\<rparr>"
    by (auto simp: p_def split: prod.splits sum.splits)
  from Sign_InrD [OF bytes] obtain cert where "lib_sign (lb_ssh lb) signer cert = Some bytes"
    "sc_ValidPrincipals cert = sp_Principals p" "sc_KeyId cert = sp_KeyID p" "sc_Serial cert = sp_Serial p"
    "lib_parse (lb_ssh lb) (sp_UserPublicKey p) = Some (sc_Key cert)"
    "sc_ValidAfter cert = uint64 (unix_of (sp_ValidAfter p))"
    "sc_ValidBefore cert = uint64 (unix_of (sp_ValidBefore p))" by auto
  with rid w show ?thesis by (intro exI [of _ rid] exI [of _ cert]) (simp add: p_def e_def del: One_nat_def)
qed

section \<open>Properties\<close>

lemma agent_id_nonempty:
  assumes "keys_ok d" "resolveAgent f g x d = Inr ag"
  shows "sa_ID ag \<noteq> []"
proof -
  have "\<exists>r \<in> set (db_agents d). sa_ID ag = ar_id r"
    using assms(2)
    by (auto simp: resolveAgent_def GetAgent_def GetAgentByName_def queryAgent_def scanAgent_def
        split: if_splits option.splits sum.splits dest!: row_get_SomeD)
  then show ?thesis using assms(1) by (auto simp: keys_ok_def list_all_iff has_prefix_def)
qed

lemma wrap64_ttl: "0 \<le> ttl \<Longrightarrow> ttl \<le> 900 \<Longrightarrow> wrap64 (ttl * 1000000000) = ttl * 1000000000"
  by (rule wrap64_id) simp_all

lemma WriteCertEvent_fresh:
  assumes "WriteCertEvent flt e d = (d', Inr x)" "row_get ev_request_id (ce_RequestID e) (db_events d) = None"
    "ce_CallerTokenID e \<noteq> []"
  shows "\<exists>ev. db_events d' = db_events d @ [ev] \<and> ev_outcome ev = ce_Outcome e \<and> ev_serial ev = ce_Serial e
     \<and> ev_caller ev = ce_CallerTokenID e \<and> ev_request_id ev = ce_RequestID e
     \<and> ev_key_id ev = nullString (ce_KeyID e) \<and> ev_username ev = nullString (ce_Username e)"
  using assms by (auto simp: WriteCertEvent_def nullString_def split: if_splits)


section \<open>A concrete server\<close>

definition demo_tid :: string where "demo_tid = b32_encode ''0123456789''"

definition demo_sec :: string where "demo_sec = b32_encode ''0123456789abcdef0123456789abcdef''"

definition demo_idkey :: idkey where
  "demo_idkey = (\<lambda>pw sl t m p n. Some (take 32 (pw @ replicate 32 (CHR ''x''))))"

definition demo_hash :: string where
  "demo_hash = (case HashSecret demo_idkey (Some ''salt'') demo_sec of Inr h \<Rightarrow> h | Inl _ \<Rightarrow> [])"

definition demo_libs :: libs where
  "demo_libs = \<lparr>lb_idkey = demo_idkey, lb_sum256 = (\<lambda>s. s), lb_ssh =
     \<lparr>lib_parse = Some, lib_type = (\<lambda>_. ''ssh-ed25519''), lib_fingerprint = (\<lambda>k. k),
      lib_sign = (\<lambda>s c. Some (sc_KeyId c))\<rparr>\<rparr>"

definition demo_env :: req_env where
  "demo_env = \<lparr>re_flt = (\<lambda>_. no_fault), re_now = (\<lambda>_. 1000000000000),
     re_rand = (\<lambda>_. Some ''0123456789abcdef''), re_uuid = demo_uuid\<rparr>"

definition demo_cfg :: server_config where
  "demo_cfg = \<lparr>cfg_CAPubkey = ''pub'', cfg_CASigner = Some ''key''\<rparr>"

definition demo_server :: server where
  "demo_server = \<lparr>srv_db =
     fst (CreateACL no_fault (\<lambda>s. s) 0 demo_uuid (demo_acl\<lparr>cap_CallerTokenID := demo_tid\<rparr>)
       (fst (InsertTokenWithID no_fault 0 demo_tid TokenCaller None demo_hash [] demo_base))),
     srv_serial = 0\<rparr>"

definition demo_raw :: string where
  "demo_raw = ''uct_caller_'' @ demo_tid @ ''_'' @ demo_sec"

definition demo_hdr :: string where
  "demo_hdr = ''Bearer '' @ demo_raw"

definition demo_caller :: store_token where
  "demo_caller = \<lparr>st_ID = demo_tid, st_Kind = ''caller'', st_AgentID = None, st_SecretHash = demo_hash,
     st_Label = [], st_CreatedAt = 0, st_ExpiresAt = None, st_UsedAt = None, st_RevokedAt = None\<rparr>"

lemma demo_tid_ne [simp]: "demo_tid \<noteq> []" "demo_tid \<noteq> ''J''" "''J'' \<noteq> demo_tid"
proof -
  have "length demo_tid = 16" by (simp add: demo_tid_def length_b32_encode del: b32_encode.simps)
  moreover have "length ''J'' = 1" by simp
  ultimately show "demo_tid \<noteq> []" "demo_tid \<noteq> ''J''" "''J'' \<noteq> demo_tid"
    by (metis list.size(3) one_eq_numeral_iff num.distinct(1) zero_neq_numeral)+
qed

lemma demo_parse:
  "Parse demo_raw =
     Inr \<lparr>t_kind = ''caller'', t_id = demo_tid, t_secret = demo_sec\<rparr>"
  using Parse_encoded [of "''caller''" "''0123456789''" "''0123456789abcdef0123456789abcdef''"]
  by (simp add: demo_raw_def demo_tid_def demo_sec_def validKind_def kind_defs del: b32_encode.simps)

lemma demo_printable:
  "\<forall>c \<in> set (demo_tid @ ''_'' @ demo_sec). (32::nat) < of_char c \<and> (of_char c :: nat) < 127"
proof -
  have a: "\<forall>c \<in> set b32_alphabet. (32::nat) < of_char c \<and> (of_char c :: nat) < 127"
    by (simp add: b32_alphabet_def)
  have e: "\<forall>c \<in> set (b32_encode x). (32::nat) < of_char c \<and> (of_char c :: nat) < 127" for x
    using a b32_encode_alphabet [of x] by blast
  show ?thesis
    unfolding demo_tid_def demo_sec_def set_append ball_Un by (intro conjI e) simp_all
qed

lemma bearerFrom_printable:
  "\<forall>c \<in> set raw. (32::nat) < of_char c \<and> (of_char c :: nat) < 127 \<Longrightarrow> bearerFrom (''Bearer '' @ raw) = raw"
  using trim_space_clean by (simp add: bearerFrom_def has_prefix_def)

lemma demo_bearer: "bearerFrom demo_hdr = demo_raw" "demo_raw \<noteq> []"
proof -
  show "bearerFrom demo_hdr = demo_raw"
    unfolding demo_hdr_def by (rule bearerFrom_printable) (use demo_printable in \<open>simp add: demo_raw_def\<close>)
  show "demo_raw \<noteq> []" by (simp add: demo_raw_def)
qed

lemma demo_verify: "VerifySecret demo_idkey demo_sec demo_hash = Inr True"
proof -
  have "length demo_sec = 52" by (simp add: demo_sec_def length_b32_encode del: b32_encode.simps)
  then have k: "demo_idkey demo_sec ''salt'' 3 65536 2 32 = Some (take 32 demo_sec)"
    "length (take 32 demo_sec) = 32" by (simp_all add: demo_idkey_def)
  have h: "HashSecret demo_idkey (Some ''salt'') demo_sec = Inr demo_hash"
    using k by (simp add: demo_hash_def HashSecret_def)
  show ?thesis using VerifySecret_HashSecret [OF k h, of demo_sec] k by simp
qed

lemma demo_server_db:
  "srv_db demo_server = demo_base\<lparr>
     db_tokens := db_tokens demo_base @ [\<lparr>tr_id = demo_tid, tr_kind = ''caller'', tr_agent_id = None,
       tr_secret_hash = demo_hash, tr_label = [], tr_created_at = 0, tr_expires_at = None,
       tr_used_at = None, tr_revoked_at = None\<rparr>],
     db_acl := [\<lparr>acl_id = ''acl_111111112222333344445555'', acl_caller = demo_tid,
       acl_agent = demo_agent, acl_username = ''root'', acl_created_at = 0, acl_created_by = None\<rparr>],
     db_versions := [\<lparr>vr_agent_id = demo_agent, vr_version = 1,
       vr_hash = Hash (\<lambda>s. s) [Grant ''root'' demo_tid]\<rparr>]\<rparr>"
  by (simp add: demo_server_def InsertTokenWithID_def insert_token_def CreateACL_def insert_acl_def
      bumpPolicyVersionTx_def no_fault_def computePolicyHash_def select_grants_rows rows_of_def
      row_grant_def demo_acl_def demo_base_eval empty_db_def shortID_def demo_uuid_def unix_of_def
      row_update_def set_hash_def agent_ref_ok_def TokenCaller_def Let_def)

lemma demo_serial: "srv_serial demo_server = 0"
  by (simp add: demo_server_def)

lemma demo_server_init: "server_init demo_libs demo_server"
proof -
  have "steps demo_libs empty_db demo_base" using demo_base_reachable by blast
  then show ?thesis
    unfolding server_init_def demo_server_def
    by (simp add: demo_libs_def) (rule rtranclp.rtrancl_into_rtrancl,
        rule rtranclp.rtrancl_into_rtrancl, assumption, rule st_insert_token, rule st_create_acl)
qed

lemma demo_auth:
  "requireAuth demo_libs demo_env TokenCaller demo_hdr (srv_db demo_server) = Inr (demo_caller, None)"
  by (simp add: requireAuth_def demo_bearer demo_parse GetTokenByID_def demo_server_db demo_base_eval
      demo_env_def no_fault_def empty_db_def scanToken_def token_kind_defs demo_libs_def demo_verify
      demo_caller_def time_unix_def Let_def)

definition demo_cert_request :: "int \<Rightarrow> cert_request" where
  "demo_cert_request ttl = \<lparr>crq_Agent = ''web'', crq_Username = ''root'', crq_Pubkey = ''pk'',
     crq_TTLSeconds = ttl\<rparr>"

lemma demo_issue:
  assumes "ttl \<le> 900" "ttl \<noteq> 0" "- 30000000000 < wrap64 (ttl * 1000000000)"
  shows "\<exists>s' c. handleIssueCert demo_libs demo_cfg demo_env demo_caller (Some (demo_cert_request ttl)) demo_server
       = (s', Resp 200 (BCert c)) \<and> crp_ValidAfter c = 970
     \<and> crp_ValidBefore c = unix_of (1000000000000 + wrap64 (ttl * 1000000000))"
proof -
  have na: "\<not> contains ''ssh-ed25519'' ''cert-v01@openssh.com''"
    by (simp add: contains_def has_prefix_def)
  show ?thesis
    using assms na
    by (simp add: handleIssueCert_def demo_cfg_def demo_cert_request_def certTTLMax_def resolveAgent_def
        has_prefix_def GetAgentByName_def queryAgent_def demo_env_def no_fault_def demo_server_db
        demo_base_eval empty_db_def scanAgent_def ListACL_def demo_caller_def scanACL_def issue_def
        NewRequestID_def Sign_def demo_libs_def FormatKeyID_def WriteCertEvent_def nullString_def
        unix_of_def demo_serial Let_def)
qed




text \<open>A negative lifetime escapes the nine-hundred-second limit: the check compares only from
  above, and the multiplication by one second wraps at 64 bits, so a request for
  \<open>-9223372037\<close> seconds, when it is answered with a certificate, gets one that is valid for more
  than nine billion seconds.\<close>

theorem negative_ttl_escapes_limit:
  assumes "handleIssueCert lb cfg env tok (Some req) s = (s', Resp n (BCert c))"
    "crq_TTLSeconds req = - 9223372037"
  shows "crp_ValidBefore c - crp_ValidAfter c \<ge> 9223372066"
proof -
  from handleIssueCert_certD [OF assms(1)] assms(2) obtain signer agent where
    i: "issue lb env signer tok req (- 9223372037) agent s = (s', Resp n (BCert c))" by auto
  have w: "wrap64 (- 9223372037 * 1000000000) = 9223372036709551616"
    by (simp add: wrap64_def)
  have b: "crp_ValidBefore c = unix_of (re_now env 1 + 9223372036709551616)"
    using issue_certD [OF i] unfolding w by auto
  have "unix_of (re_now env 1 + 9223372036 * 1000000000) \<le> unix_of (re_now env 1 + 9223372036709551616)"
    by (rule unix_of_mono) simp
  moreover have "unix_of (re_now env 1 + (- 30) * 1000000000) = unix_of (re_now env 1) + (- 30)"
    by (rule unix_of_add_seconds)
  then have "crp_ValidAfter c = unix_of (re_now env 1) - 30"
    using issue_certD [OF i] by (auto simp del: One_nat_def)
  ultimately show ?thesis using b unfolding unix_of_add_seconds by linarith
qed

theorem negative_ttl_escapes_limit_witness:
  "\<exists>s' c. handleIssueCert demo_libs demo_cfg demo_env demo_caller
        (Some (demo_cert_request (- 9223372037))) demo_server = (s', Resp 200 (BCert c))
     \<and> crp_ValidBefore c - crp_ValidAfter c \<ge> 9223372066"
proof -
  have w: "wrap64 (- 9223372037 * 1000000000) = 9223372036709551616" by (simp add: wrap64_def)
  obtain s' c where h: "handleIssueCert demo_libs demo_cfg demo_env demo_caller
      (Some (demo_cert_request (- 9223372037))) demo_server = (s', Resp 200 (BCert c))"
    using demo_issue [of "- 9223372037"] w by auto
  from negative_ttl_escapes_limit [OF h] h show ?thesis by (auto simp: demo_cert_request_def)
qed

theorem effects_need_valid_token_witness:
  "\<exists>p row. fst (serve demo_libs demo_cfg demo_env demo_hdr GetTokens demo_server) = demo_server
     \<and> status (snd (serve demo_libs demo_cfg demo_env demo_hdr GetTokens demo_server)) = 200
     \<and> Parse (bearerFrom demo_hdr) = Inr p
     \<and> row_get tr_id (t_id p) (db_tokens (srv_db demo_server)) = Some row \<and> tr_kind row = TokenCaller"
proof -
  have sv: "serve demo_libs demo_cfg demo_env demo_hdr GetTokens demo_server =
      (demo_server, handleListTokens demo_env (srv_db demo_server))"
    by (simp add: serve_def route_kind_def demo_auth)
  have st: "status (handleListTokens demo_env (srv_db demo_server)) = 200"
    by (simp add: handleListTokens_def ListTokens_def demo_env_def no_fault_def)
  have "route_kind GetTokens = Some TokenCaller" by (simp add: route_kind_def)
  from effects_need_valid_token [OF sv this] st sv show ?thesis by auto
qed

section \<open>The audit trail\<close>

lemma deny_audited:
  assumes "deny lb env c a u k reason (Resp m b) s = (s', resp)" "status resp \<noteq> 500" "c \<noteq> []"
    "\<not> re_flt env 5 ''events.insert''"
    "\<And>rid. NewRequestID (re_rand env 1) = Some rid \<Longrightarrow> row_get ev_request_id rid (db_events (srv_db s)) = None"
  shows "resp = Resp m b \<and> (\<exists>ev. db_events (srv_db s') = db_events (srv_db s) @ [ev] \<and> ev_caller ev = c
     \<and> ev_username ev = nullString u \<and> ev_outcome ev = ''denied'' \<and> ev_denial ev = nullString reason)"
  using assms
  by (auto simp: deny_def writeDeniedEvent_def panicked_def WriteCertEvent_def nullString_def
      split: option.splits)

lemma issue_audited:
  assumes "issue lb env signer tok req ttl agent s = (s', resp)" "status resp \<noteq> 500" "st_ID tok \<noteq> []"
    "\<not> re_flt env 5 ''events.insert''" "srv_serial s + 1 < 2 ^ 63"
    "\<And>rid. NewRequestID (re_rand env 0) = Some rid \<Longrightarrow> row_get ev_request_id rid (db_events (srv_db s)) = None"
    "\<And>rid. NewRequestID (re_rand env 1) = Some rid \<Longrightarrow> row_get ev_request_id rid (db_events (srv_db s)) = None"
  shows "\<exists>ev. db_events (srv_db s') = db_events (srv_db s) @ [ev] \<and> ev_caller ev = st_ID tok
     \<and> ev_username ev = nullString (crq_Username req)
     \<and> ev_outcome ev = (if status resp = 200 then ''signed'' else ''denied'')"
proof -
  let ?s1 = "s\<lparr>srv_serial := (srv_serial s + 1) mod 2 ^ 64\<rparr>"
  have d: "\<exists>ev. db_events (srv_db s') = db_events (srv_db s) @ [ev] \<and> ev_caller ev = st_ID tok
     \<and> ev_username ev = nullString (crq_Username req)
     \<and> ev_outcome ev = (if status resp = 200 then ''signed'' else ''denied'')"
    if "deny lb env (st_ID tok) (sa_ID agent) (crq_Username req) (crq_Pubkey req)
                   ''bad_input'' (Resp 400 BInternal) ?s1 = (s', resp)"
    using deny_audited [OF that assms(2,3,4)] assms(7) by auto
  have sm: "(srv_serial s + 1) mod 2 ^ 64 < 2 ^ 63" using assms(5) by simp
  show ?thesis
  proof (cases "NewRequestID (re_rand env 0)")
    case None
    then show ?thesis using assms(1,2) by (auto simp: issue_def panicked_def)
  next
    case (Some rid)
    have w: "\<exists>ev. db_events d' = db_events (srv_db s) @ [ev] \<and> ev_caller ev = st_ID tok
        \<and> ev_username ev = nullString (crq_Username req) \<and> ev_outcome ev = ''signed''"
      if "WriteCertEvent (re_flt env 5) e (srv_db s) = (d', Inr x)" "ce_RequestID e = rid"
        "ce_CallerTokenID e = st_ID tok" "ce_Username e = crq_Username req" "ce_Outcome e = ''signed''"
      for e d' x
      using WriteCertEvent_fresh [OF that(1)] that(2-5) assms(3) assms(6) [OF Some] by auto
    show ?thesis
      using assms(1,2) d w
      by (simp add: issue_def Some Let_def split: sum.splits ca_error.splits prod.splits) fastforce+
  qed
qed

text \<open>C14: Every decision on a certificate request is audited: with a configured CA, a decoded
  body, a working audit table and fresh request identifiers, every answer that is not an internal
  error appends exactly one event for this caller and user name, marked signed when a certificate
  was returned and denied otherwise.\<close>

theorem every_cert_decision_audited:
  assumes "handleIssueCert lb cfg env tok (Some req) s = (s', resp)" "cfg_CASigner cfg = Some signer"
    "status resp \<noteq> 500" "st_ID tok \<noteq> []" "\<not> re_flt env 5 ''events.insert''" "srv_serial s + 1 < 2 ^ 63"
    "\<And>rid. NewRequestID (re_rand env 0) = Some rid \<Longrightarrow> row_get ev_request_id rid (db_events (srv_db s)) = None"
    "\<And>rid. NewRequestID (re_rand env 1) = Some rid \<Longrightarrow> row_get ev_request_id rid (db_events (srv_db s)) = None"
  shows "\<exists>ev. db_events (srv_db s') = db_events (srv_db s) @ [ev] \<and> ev_caller ev = st_ID tok
     \<and> ev_username ev = nullString (crq_Username req)
     \<and> ev_outcome ev = (if status resp = 200 then ''signed'' else ''denied'')"
proof -
  have d: ?thesis
    if "deny lb env (st_ID tok) a (crq_Username req) k reason (Resp m (BError x)) s = (s', resp)" "m \<noteq> 200"
    for a k reason m x
    using deny_audited [OF that(1) assms(3,4,5,8)] that(2) by auto
  have i: ?thesis if "issue lb env signer tok req ttl agent s = (s', resp)" for ttl agent
    using issue_audited [OF that assms(3-8)] .
  show ?thesis
    using assms(1-3) d i
    by (simp add: handleIssueCert_def Let_def split: if_splits sum.splits) (auto split: if_splits sum.splits)
qed

theorem every_cert_decision_audited_witness:
  "\<exists>s' resp ev. handleIssueCert demo_libs demo_cfg demo_env demo_caller
        (Some ((demo_cert_request 300)\<lparr>crq_Username := ''eve''\<rparr>)) demo_server = (s', resp)
     \<and> status resp = 403 \<and> db_events (srv_db s') = [ev] \<and> ev_outcome ev = ''denied''"
proof -
  obtain s' resp where h: "handleIssueCert demo_libs demo_cfg demo_env demo_caller
      (Some ((demo_cert_request 300)\<lparr>crq_Username := ''eve''\<rparr>)) demo_server = (s', resp)" by fastforce
  then have st: "status resp = 403"
    by (auto simp: handleIssueCert_def demo_cfg_def demo_cert_request_def certTTLMax_def resolveAgent_def
        has_prefix_def GetAgentByName_def queryAgent_def demo_env_def no_fault_def demo_server_db
        demo_base_eval empty_db_def scanAgent_def ListACL_def demo_caller_def scanACL_def
        deny_def writeDeniedEvent_def NewRequestID_def Let_def)
  have ev: "db_events (srv_db demo_server) = []" by (simp add: demo_server_db demo_base_eval empty_db_def)
  have "\<exists>ev. db_events (srv_db s') = db_events (srv_db demo_server) @ [ev] \<and> ev_caller ev = st_ID demo_caller
     \<and> ev_username ev = nullString (crq_Username ((demo_cert_request 300)\<lparr>crq_Username := ''eve''\<rparr>))
     \<and> ev_outcome ev = (if status resp = 200 then ''signed'' else ''denied'')"
    by (rule every_cert_decision_audited [OF h, of "''key''"])
      (simp_all add: st ev demo_serial demo_cfg_def demo_caller_def demo_env_def no_fault_def)
  with h st ev show ?thesis by auto
qed

section \<open>The schema\<close>

text \<open>C10: Whatever requests a server has answered, whichever statements failed, its tables keep their
  keys unique (tokens, agents and their names, grants, policy versions, endpoints, audit rows),
  every grant, version and token refers to an agent that exists, and the stored policy hash of
  each agent is the hash of its grants.\<close>

theorem database_stays_well_formed:
  assumes "server_init lb s0" "(server_step lb cfg)\<^sup>*\<^sup>* s0 s"
  shows "distinct (map tr_id (db_tokens (srv_db s))) \<and> distinct (map ar_id (db_agents (srv_db s)))
     \<and> distinct (map ar_name (db_agents (srv_db s))) \<and> distinct (map acl_triple (db_acl (srv_db s)))
     \<and> distinct (map vr_agent_id (db_versions (srv_db s))) \<and> distinct (map endpoint_key (db_endpoints (srv_db s)))
     \<and> distinct (map ev_request_id (db_events (srv_db s)))
     \<and> acl_agent ` set (db_acl (srv_db s)) \<union> vr_agent_id ` set (db_versions (srv_db s)) \<subseteq> ar_id ` set (db_agents (srv_db s))
     \<and> (\<forall>r \<in> set (db_tokens (srv_db s)). \<forall>a. tr_agent_id r = Some a \<longrightarrow> a \<in> ar_id ` set (db_agents (srv_db s)))
     \<and> (\<forall>a. policy_hash a (srv_db s) = Hash (lb_sum256 lb) (select_grants a (srv_db s)))"
proof -
  have "db_wf (lb_sum256 lb) (srv_db s)"
    using requests.inv_reachable [OF assms] by (simp add: server_inv_def)
  then show ?thesis by (simp add: db_wf_def keys_ok_def refs_ok_def policy_ok_def agent_ids_def)
qed

theorem database_stays_well_formed_witness:
  "\<exists>s. server_step demo_libs demo_cfg demo_server s \<and> distinct (map ar_name (db_agents (srv_db s)))
     \<and> policy_hash demo_agent (srv_db s) = Hash (lb_sum256 demo_libs) (select_grants demo_agent (srv_db s))"
proof -
  have "server_step demo_libs demo_cfg demo_server
      (fst (serve demo_libs demo_cfg demo_env demo_hdr (PostCerts (Some (demo_cert_request 300))) demo_server))"
    by (rule server_step.intros)
  then show ?thesis
    using database_stays_well_formed [OF demo_server_init r_into_rtranclp] by blast
qed

end
