(* ===== verification/Server_Enrolment.thy ===== *)
theory Server_Enrolment
  imports Server_Issuance
begin

text \<open>
  Enrolment, heartbeat and deprovisioning of agents over the HTTP layer.
\<close>

section \<open>Enrolment\<close>

lemma check_join_token_InrD:
  assumes "check_join_token lb env joinToken d = Inr tok"
  shows "\<exists>p r. Parse joinToken = Inr p \<and> row_get tr_id (t_id p) (db_tokens d) = Some r \<and> tok = scanToken r
     \<and> tr_kind r = TokenJoin \<and> tr_used_at r = None \<and> tr_revoked_at r = None
     \<and> (\<forall>e. tr_expires_at r = Some e \<longrightarrow> re_now env 0 \<le> time_unix e)
     \<and> VerifySecret (lb_idkey lb) (t_secret p) (tr_secret_hash r) = Inr True"
proof -
  obtain p where p: "Parse joinToken = Inr p"
    using assms by (auto simp: check_join_token_def split: sum.splits)
  obtain t where t: "GetTokenByID (re_flt env 0) (t_id p) d = Inr t"
    using assms by (auto simp: check_join_token_def p split: if_splits sum.splits)
  obtain r where r: "row_get tr_id (t_id p) (db_tokens d) = Some r" "t = scanToken r"
    using GetTokenByID_InrD [OF t] by blast
  show ?thesis
    using assms r by (auto simp: check_join_token_def p t scanToken_def
        split: if_splits sum.splits option.splits token_error.splits)
qed

lemma check_join_token_InlD:
  "check_join_token lb env joinToken d = Inl resp \<Longrightarrow> status resp \<in> {401, 500}"
  by (auto simp: check_join_token_def panicked_def
      split: if_splits sum.splits option.splits token_error.splits)

lemma enroll_okD:
  assumes "enroll lb cfg env req row d = (d', resp)" "status resp = 200"
  shows "\<exists>d1 d2 ag agentTok hash t x. CreateAgent (re_flt env 2) (re_now env 1) (re_uuid env)
        \<lparr>nap_Name = arr_Name req\<rparr> d = (d1, Inr ag)
     \<and> Generate (re_rand env 0) (re_rand env 1) KindAgent = Inr agentTok
     \<and> HashSecret (lb_idkey lb) (re_rand env 2) (t_secret agentTok) = Inr hash
     \<and> CreateToken (re_flt env 3) (re_now env 2) (re_uuid env)
          \<lparr>ntp_ID = t_id agentTok, ntp_Kind = TokenAgent, ntp_AgentID = Some (sa_ID ag),
           ntp_SecretHash = hash, ntp_Label = ''agent:'' @ sa_Name ag, ntp_ExpiresAt = None\<rparr> d1 = (d2, Inr t)
     \<and> MarkJoinTokenUsed (re_flt env 4) (st_ID row) (re_now env 3) d2 = (d', Inr x)
     \<and> resp = Resp 200 (BRegistered \<lparr>arp_AgentID = sa_ID ag, arp_AgentToken = token_string agentTok,
          arp_CAPubkey = cfg_CAPubkey cfg, arp_ServerHTTPSPin = [],
          arp_ExpectedPaths = expectedPaths (osFromMetadata (arr_Metadata req))\<rparr>)"
proof -
  obtain e where g: "GetAgentByName (re_flt env 1) (arr_Name req) d = Inl e"
    using assms by (auto simp: enroll_def split: sum.splits)
  obtain d1 ag where c1: "CreateAgent (re_flt env 2) (re_now env 1) (re_uuid env)
      \<lparr>nap_Name = arr_Name req\<rparr> d = (d1, Inr ag)"
    using assms by (cases "CreateAgent (re_flt env 2) (re_now env 1) (re_uuid env) \<lparr>nap_Name = arr_Name req\<rparr> d")
      (auto simp: enroll_def g simp del: One_nat_def append.simps split: sum.splits if_splits)
  obtain agentTok where g2: "Generate (re_rand env 0) (re_rand env 1) KindAgent = Inr agentTok"
    using assms by (auto simp: enroll_def g c1 simp del: One_nat_def append.simps split: sum.splits)
  obtain hash where h: "HashSecret (lb_idkey lb) (re_rand env 2) (t_secret agentTok) = Inr hash"
    using assms by (auto simp: enroll_def g c1 g2 panicked_def simp del: One_nat_def append.simps
        split: sum.splits token_error.splits)
  let ?p = "\<lparr>ntp_ID = t_id agentTok, ntp_Kind = TokenAgent, ntp_AgentID = Some (sa_ID ag),
           ntp_SecretHash = hash, ntp_Label = ''agent:'' @ sa_Name ag, ntp_ExpiresAt = None\<rparr>"
  obtain d2 t where c2: "CreateToken (re_flt env 3) (re_now env 2) (re_uuid env) ?p d1 = (d2, Inr t)"
    using assms by (cases "CreateToken (re_flt env 3) (re_now env 2) (re_uuid env) ?p d1")
      (auto simp: enroll_def g c1 g2 h simp del: One_nat_def append.simps split: sum.splits)
  show ?thesis
    using assms by (cases "MarkJoinTokenUsed (re_flt env 4) (st_ID row) (re_now env 3) d2")
      (auto simp: enroll_def g c1 g2 h c2 simp del: One_nat_def append.simps split: sum.splits)
qed

lemma register_okD:
  assumes "handleAgentRegister lb cfg env body d = (d', resp)" "status resp = 200"
  shows "\<exists>req row. body = Some req \<and> check_join_token lb env (arr_JoinToken req) d = Inr row
     \<and> enroll lb cfg env req row d = (d', resp)"
  using assms check_join_token_InlD
  by (fastforce simp: handleAgentRegister_def split: option.splits if_splits sum.splits)

lemma register_serve:
  assumes "serve lb cfg env hdr (PostRegister body) s = (s', resp)"
  shows "handleAgentRegister lb cfg env body (srv_db s) = (srv_db s', resp)"
  using assms by (auto simp: serve_def route_kind_def on_db_def)

text \<open>C15: A join token enrols at most one agent: after a registration with it was answered with
  success, no registration with the same join token succeeds, whatever requests come in between
  and whatever fails.\<close>

theorem join_token_enrols_once:
  assumes "server_inv lb s" "serve lb cfg env hdr (PostRegister (Some req)) s = (s', resp)" "status resp = 200"
    "(server_step lb cfg)\<^sup>*\<^sup>* s' s''" "arr_JoinToken req' = arr_JoinToken req"
    "serve lb cfg env' hdr' (PostRegister (Some req')) s'' = (s3, resp')"
  shows "status resp' \<noteq> 200"
proof
  assume ok': "status resp' = 200"
  obtain row where c: "check_join_token lb env (arr_JoinToken req) (srv_db s) = Inr row"
    and e: "enroll lb cfg env req row (srv_db s) = (srv_db s', resp)"
    using register_okD [OF register_serve [OF assms(2)] assms(3)] by auto
  obtain p r where p: "Parse (arr_JoinToken req) = Inr p" "row_get tr_id (t_id p) (db_tokens (srv_db s)) = Some r"
    "row = scanToken r" using check_join_token_InrD [OF c] by auto
  have id: "st_ID row = t_id p" using row_get_SomeD [OF p(2)] p(3) by (simp add: scanToken_def)
  obtain d1 d2 ag t x and tok :: token and hash where steps: "CreateAgent (re_flt env 2) (re_now env 1) (re_uuid env)
        \<lparr>nap_Name = arr_Name req\<rparr> (srv_db s) = (d1, Inr ag)"
     "CreateToken (re_flt env 3) (re_now env 2) (re_uuid env)
          \<lparr>ntp_ID = t_id tok, ntp_Kind = TokenAgent, ntp_AgentID = Some (sa_ID ag),
           ntp_SecretHash = hash, ntp_Label = ''agent:'' @ sa_Name ag, ntp_ExpiresAt = None\<rparr> d1 = (d2, Inr t)"
     and mark: "MarkJoinTokenUsed (re_flt env 4) (st_ID row) (re_now env 3) d2 = (srv_db s', Inr x)"
    using enroll_okD [OF e assms(3)] by blast
  have "steps lb (srv_db s) d2" using steps_trans [OF call_step(4) [OF steps(1)] call_step(1) [OF steps(2)]] .
  then have wf2: "db_wf (lb_sum256 lb) d2" using calls.inv_steps assms(1) by (auto simp: server_inv_def)
  have wf': "db_wf (lb_sum256 lb) (srv_db s')"
    using calls.inv_steps [OF call_step(3) [OF mark] wf2] .
  obtain r1 where r1: "row_get tr_id (t_id p) (db_tokens (srv_db s')) = Some r1" "tr_used_at r1 \<noteq> None"
    using mark_used_sets [OF mark] wf2 id by (auto simp: db_wf_def keys_ok_def)
  have "tokens_mono (srv_db s') (srv_db s'')"
    using requests.rel_steps [OF assms(4)] wf' by (simp add: server_inv_def)
  then obtain r2 where r2: "row_get tr_id (t_id p) (db_tokens (srv_db s'')) = Some r2" "tr_used_at r2 \<noteq> None"
    using r1 unfolding tokens_mono_def token_mono_def by metis
  obtain row' where "check_join_token lb env' (arr_JoinToken req') (srv_db s'') = Inr row'"
    using register_okD [OF register_serve [OF assms(6)] ok'] by auto
  then show False using check_join_token_InrD p(1) r2 assms(5) by fastforce
qed

lemma CreateAgent_okI:
  assumes "\<And>s. \<not> flt s" "nap_Name p \<notin> ar_name ` set (db_agents d)"
    "''ag_'' @ shortID u 24 \<notin> ar_id ` set (db_agents d)"
  shows "\<exists>a ag. CreateAgent flt now u p d = (d\<lparr>db_agents := db_agents d @ [a]\<rparr>, Inr ag)
     \<and> ar_id a = ''ag_'' @ shortID u 24 \<and> ar_name a = nap_Name p \<and> ar_status a = AgentOnline
     \<and> sa_ID ag = ar_id a \<and> sa_Name ag = ar_name a"
proof -
  have "row_get ar_id (''ag_'' @ shortID u 24) (db_agents d) = None"
    "row_get ar_name (nap_Name p) (db_agents d) = None" using assms(2,3) by (simp_all add: row_get_None_iff)
  then show ?thesis
    using assms(1) by (simp add: CreateAgent_def insert_agent_def GetAgent_def queryAgent_def
        row_get_append scanAgent_def Let_def del: append.simps)
      (rule exI, rule conjI, rule refl, simp del: append.simps)
qed

lemma CreateToken_okI:
  assumes "\<And>s. \<not> flt s" "ntp_ID p \<noteq> []" "ntp_ID p \<notin> tr_id ` set (db_tokens d)"
    "ntp_AgentID p = Some a" "a \<in> agent_ids d"
  shows "\<exists>r t. CreateToken flt now u p d = (d\<lparr>db_tokens := db_tokens d @ [r]\<rparr>, Inr t)
     \<and> tr_id r = ntp_ID p \<and> tr_kind r = ntp_Kind p \<and> tr_agent_id r = Some a
     \<and> tr_secret_hash r = ntp_SecretHash p \<and> tr_revoked_at r = None \<and> tr_expires_at r = map_option unix_of (ntp_ExpiresAt p)"
proof -
  have "row_get tr_id (ntp_ID p) (db_tokens d) = None" "row_get ar_id a (db_agents d) \<noteq> None"
    using assms(3,5) by (simp_all add: row_get_None_iff agent_ids_def)
  then show ?thesis
    using assms(1,2,4) by (simp add: CreateToken_def insert_token_def agent_ref_ok_def GetTokenByID_def
        row_get_append Let_def)
      (rule exI, rule conjI, rule refl, simp)
qed

lemma MarkJoinTokenUsed_okI:
  assumes "\<And>s. \<not> flt s" "r \<in> set (db_tokens d)" "tr_id r = i" "tr_kind r = ''join''" "tr_used_at r = None"
    "tr_revoked_at r = None"
  shows "\<exists>d'. MarkJoinTokenUsed flt i at d = (d', Inr ()) \<and> db_agents d' = db_agents d
     \<and> (\<forall>x \<in> set (db_tokens d). tr_kind x \<noteq> ''join'' \<longrightarrow> x \<in> set (db_tokens d'))"
proof -
  let ?P = "\<lambda>r. tr_id r = i \<and> tr_kind r = ''join'' \<and> tr_used_at r = None \<and> tr_revoked_at r = None"
  have "rows_affected ?P (db_tokens d) \<noteq> 0"
    unfolding rows_affected_0_iff using assms(2-6) by auto
  moreover have "x \<in> set (row_update ?P f (db_tokens d))" if "x \<in> set (db_tokens d)" "tr_kind x \<noteq> ''join''" for x f
    using that by (auto simp: row_update_def image_iff intro!: bexI [of _ x])
  ultimately show ?thesis using assms(1) by (simp add: MarkJoinTokenUsed_def Let_def)
qed

lemma enroll_succeeds:
  assumes "\<And>k s. \<not> re_flt env k s" "check_join_token lb env (arr_JoinToken req) d = Inr row"
    "arr_Name req \<notin> ar_name ` set (db_agents d)"
    "''ag_'' @ shortID (re_uuid env) 24 \<notin> ar_id ` set (db_agents d)"
    "Generate (re_rand env 0) (re_rand env 1) KindAgent = Inr tok"
    "HashSecret (lb_idkey lb) (re_rand env 2) (t_secret tok) = Inr hash"
    "t_id tok \<noteq> []" "t_id tok \<notin> tr_id ` set (db_tokens d)"
  shows "\<exists>d' rr a t. enroll lb cfg env req row d = (d', Resp 200 (BRegistered rr))
     \<and> arp_AgentToken rr = token_string tok \<and> arp_AgentID rr = ar_id a
     \<and> a \<in> set (db_agents d') \<and> ar_name a = arr_Name req \<and> ar_status a = AgentOnline
     \<and> t \<in> set (db_tokens d') \<and> tr_id t = t_id tok \<and> tr_kind t = TokenAgent
     \<and> tr_agent_id t = Some (ar_id a) \<and> tr_secret_hash t = hash \<and> tr_revoked_at t = None"
proof -
  obtain a ag where c1: "CreateAgent (re_flt env 2) (re_now env 1) (re_uuid env)
      \<lparr>nap_Name = arr_Name req\<rparr> d = (d\<lparr>db_agents := db_agents d @ [a]\<rparr>, Inr ag)"
    "ar_name a = arr_Name req" "ar_status a = AgentOnline" "sa_ID ag = ar_id a"
    using CreateAgent_okI [of "re_flt env 2" "\<lparr>nap_Name = arr_Name req\<rparr>" d "re_uuid env" "re_now env 1"] assms(1,3,4)
    by (auto simp del: append.simps One_nat_def)
  let ?d1 = "d\<lparr>db_agents := db_agents d @ [a]\<rparr>"
  let ?p = "\<lparr>ntp_ID = t_id tok, ntp_Kind = TokenAgent, ntp_AgentID = Some (sa_ID ag),
           ntp_SecretHash = hash, ntp_Label = ''agent:'' @ sa_Name ag, ntp_ExpiresAt = None\<rparr>"
  obtain t x where c2: "CreateToken (re_flt env 3) (re_now env 2) (re_uuid env) ?p ?d1
      = (?d1\<lparr>db_tokens := db_tokens d @ [t]\<rparr>, Inr x)"
    "tr_id t = t_id tok" "tr_kind t = TokenAgent" "tr_agent_id t = Some (ar_id a)"
    "tr_secret_hash t = hash" "tr_revoked_at t = None"
    using CreateToken_okI [of "re_flt env 3" ?p ?d1 "ar_id a" "re_now env 2" "re_uuid env"]
      assms(1,7,8) c1(4)
    by (auto simp: agent_ids_def simp del: append.simps)
  let ?d2 = "?d1\<lparr>db_tokens := db_tokens d @ [t]\<rparr>"
  obtain p :: token and r where r: "row_get tr_id (t_id p) (db_tokens d) = Some r" "row = scanToken r"
    "tr_kind r = TokenJoin" "tr_used_at r = None" "tr_revoked_at r = None"
    using check_join_token_InrD [OF assms(2)] by auto
  obtain d' where c3: "MarkJoinTokenUsed (re_flt env 4) (st_ID row) (re_now env 3) ?d2 = (d', Inr ())"
    "db_agents d' = db_agents ?d2" "t \<in> set (db_tokens d')"
    using MarkJoinTokenUsed_okI [of "re_flt env 4" r ?d2 "st_ID row" "re_now env 3"]
      assms(1) r row_get_SomeD [OF r(1)] c2(3)
    by (auto simp: scanToken_def TokenJoin_def TokenAgent_def)
  have g: "GetAgentByName (re_flt env 1) (arr_Name req) d = Inl ErrNotFound"
    using assms(1,3) row_get_None_iff [of ar_name "arr_Name req" "db_agents d"]
    by (simp add: GetAgentByName_def queryAgent_def)
  have "enroll lb cfg env req row d = (d', Resp 200 (BRegistered
      \<lparr>arp_AgentID = sa_ID ag, arp_AgentToken = token_string tok, arp_CAPubkey = cfg_CAPubkey cfg,
       arp_ServerHTTPSPin = [], arp_ExpectedPaths = expectedPaths (osFromMetadata (arr_Metadata req))\<rparr>))"
    using assms(5,6) g c1(1) c2(1) c3(1)
    by (simp add: enroll_def del: append.simps One_nat_def)
  then show ?thesis
    using c1 c2 c3
    by (intro exI [of _ d'] exI [of _ "\<lparr>arp_AgentID = sa_ID ag, arp_AgentToken = token_string tok,
          arp_CAPubkey = cfg_CAPubkey cfg, arp_ServerHTTPSPin = [],
          arp_ExpectedPaths = expectedPaths (osFromMetadata (arr_Metadata req))\<rparr>"] exI [of _ a] exI [of _ t]) simp
qed


text \<open>When hashing the new agent token's secret fails, the agent record stays behind: the
  request ends in a 500, and every later registration under that name is refused with 409, even
  with a fresh valid join token, so the retry the code counts on cannot succeed.\<close>

theorem failed_enrolment_blocks_name:
  assumes "\<And>s. \<not> re_flt env 1 s" "\<And>s. \<not> re_flt env 2 s"
    "check_join_token lb env (arr_JoinToken req) d = Inr row"
    "arr_Name req \<noteq> []" "arr_JoinToken req \<noteq> []" "arr_Name req \<notin> ar_name ` set (db_agents d)"
    "''ag_'' @ shortID (re_uuid env) 24 \<notin> ar_id ` set (db_agents d)"
    "Generate (re_rand env 0) (re_rand env 1) KindAgent = Inr tok" "re_rand env 2 = None"
    "handleAgentRegister lb cfg env (Some req) d = (d', resp)"
    "arr_Name req' = arr_Name req" "arr_JoinToken req' \<noteq> []"
    "check_join_token lb env' (arr_JoinToken req') d' = Inr row'" "\<not> re_flt env' 1 ''agents.select''"
  shows "status resp = 500 \<and> handleAgentRegister lb cfg env' (Some req') d' = (d', Resp 409 (BError ''already enrolled''))"
proof -
  obtain a ag where c1: "CreateAgent (re_flt env 2) (re_now env 1) (re_uuid env)
      \<lparr>nap_Name = arr_Name req\<rparr> d = (d\<lparr>db_agents := db_agents d @ [a]\<rparr>, Inr ag)"
    "ar_name a = arr_Name req"
    using CreateAgent_okI [of "re_flt env 2" "\<lparr>nap_Name = arr_Name req\<rparr>" d "re_uuid env" "re_now env 1"] assms(2,6,7)
    by (auto simp del: append.simps One_nat_def)
  have g: "GetAgentByName (re_flt env 1) (arr_Name req) d = Inl ErrNotFound"
    using assms(1,6) row_get_None_iff [of ar_name "arr_Name req" "db_agents d"]
    by (simp add: GetAgentByName_def queryAgent_def)
  have h: "HashSecret (lb_idkey lb) None x = Inl RandFailed" for x by (simp add: HashSecret_def)
  have r: "d' = d\<lparr>db_agents := db_agents d @ [a]\<rparr>" "resp = Resp 500 BInternal"
    using assms(3-5,8-10) g c1(1) h
    by (auto simp: handleAgentRegister_def enroll_def simp del: append.simps One_nat_def)
  have "row_get ar_name (arr_Name req) (db_agents d') \<noteq> None"
    using c1(2) by (simp add: row_get_None_iff r(1))
  then obtain ag' where "GetAgentByName (re_flt env' 1) (arr_Name req) d' = Inr ag'"
    using assms(14) by (auto simp: GetAgentByName_def queryAgent_def simp del: One_nat_def split: option.splits)
  then show ?thesis
    using assms(4,11-13) r(2) by (simp add: handleAgentRegister_def enroll_def del: One_nat_def)
qed

section \<open>Heartbeat\<close>

lemma heartbeat_okD:
  assumes "handleV2Heartbeat env ag (Some req) d = (d', Resp 200 (BHeartbeat h))"
  shows "\<exists>d2. steps lb d d2 \<and> db_acl d2 = db_acl d \<and> db_versions d2 = db_versions d
     \<and> hbp_Policy h = (case GetPolicySnapshot (re_flt env 4) (sa_ID ag) d2 of Inl _ \<Rightarrow> None
         | Inr s \<Rightarrow> if snap_Hash s = wps_AppliedHash (hbr_PolicyState req) then None
             else Some \<lparr>pl_Version = snap_Version s, pl_Hash = snap_Hash s,
                    pl_Principals = map wire_of_principal (snap_Principals s)\<rparr>)"
proof -
  obtain d1 x where c1: "UpdateAgentHeartbeat (re_flt env 2) (sa_ID ag) (hbr_AgentVersion req)
      (re_now env 1) d = (d1, Inr x)"
    using assms by (cases "UpdateAgentHeartbeat (re_flt env 2) (sa_ID ag) (hbr_AgentVersion req) (re_now env 1) d")
      (auto simp: handleV2Heartbeat_def simp del: One_nat_def split: sum.splits)
  define d2 where "d2 = (if hbr_Endpoints req = [] then d1
      else fst (UpsertAgentEndpoints (re_flt env 3) (sa_ID ag)
        (map (\<lambda>e. \<lparr>ae_Subnet = we_Subnet e, ae_Address = we_Address e\<rparr>) (hbr_Endpoints req)) d1))"
  have k1: "db_acl d1 = db_acl d \<and> db_versions d1 = db_versions d"
    using c1 by (auto simp: UpdateAgentHeartbeat_def split: if_splits)
  have ins: "db_acl (fst (UpsertAgentEndpoints f a es x)) = db_acl x
      \<and> db_versions (fst (UpsertAgentEndpoints f a es x)) = db_versions x" for f a es x
    by (auto simp: UpsertAgentEndpoints_def in_tx_def split: if_splits prod.splits sum.splits
        dest!: insert_endpoints_InrD)
  have "steps lb d d2"
    unfolding d2_def using call_step(5) [OF c1] steps_trans [OF call_step(5) [OF c1] fst_step(1)] by simp
  moreover have "db_acl d2 = db_acl d \<and> db_versions d2 = db_versions d"
    using k1 ins by (auto simp: d2_def)
  moreover have "hbp_Policy h = (case GetPolicySnapshot (re_flt env 4) (sa_ID ag) d2 of Inl _ \<Rightarrow> None
         | Inr s \<Rightarrow> if snap_Hash s = wps_AppliedHash (hbr_PolicyState req) then None
             else Some \<lparr>pl_Version = snap_Version s, pl_Hash = snap_Hash s,
                    pl_Principals = map wire_of_principal (snap_Principals s)\<rparr>)"
    using assms by (auto simp: handleV2Heartbeat_def c1 Let_def d2_def [symmetric] simp del: One_nat_def)
  ultimately show ?thesis by blast
qed

text \<open>The grants a pushed policy stands for.\<close>

definition payload_grants :: "wire_principal list \<Rightarrow> grant list" where
  "payload_grants ps = concat (map (\<lambda>p. map (Grant (wp_Username p)) (wp_CallerTokenIDs p)) ps)"

lemma payload_grants_wire: "payload_grants (map wire_of_principal ps) = principal_grants ps"
  by (simp add: payload_grants_def principal_grants_def wire_of_principal_def comp_def)

lemma heartbeat_policy_content:
  assumes "db_wf sum256 d" "handleV2Heartbeat env ag (Some req) d = (d', Resp 200 (BHeartbeat h))"
    "\<And>s. \<not> re_flt env 4 s"
  shows "(hbp_Policy h = None \<longleftrightarrow>
        wps_AppliedHash (hbr_PolicyState req) = Hash sum256 (select_grants (sa_ID ag) d))
   \<and> (\<forall>pl. hbp_Policy h = Some pl \<longrightarrow>
        pl_Version pl = policy_version (sa_ID ag) d \<and> pl_Hash pl = Hash sum256 (payload_grants (pl_Principals pl))
        \<and> payload_grants (pl_Principals pl) = select_grants (sa_ID ag) d
        \<and> sorted_wrt (<) (map wp_Username (pl_Principals pl))
        \<and> (\<forall>p \<in> set (pl_Principals pl). wp_CallerTokenIDs p \<noteq> []))"
proof -
  from heartbeat_okD [OF assms(2), of undefined] obtain d2 where d2: "db_acl d2 = db_acl d" "db_versions d2 = db_versions d"
    "hbp_Policy h = (case GetPolicySnapshot (re_flt env 4) (sa_ID ag) d2 of Inl _ \<Rightarrow> None
         | Inr s \<Rightarrow> if snap_Hash s = wps_AppliedHash (hbr_PolicyState req) then None
             else Some \<lparr>pl_Version = snap_Version s, pl_Hash = snap_Hash s,
                    pl_Principals = map wire_of_principal (snap_Principals s)\<rparr>)" by blast
  obtain s where s: "GetPolicySnapshot (re_flt env 4) (sa_ID ag) d2 = Inr s"
    using assms(3) by (cases "row_get vr_agent_id (sa_ID ag) (db_versions d2)")
      (auto simp: GetPolicySnapshot_def)
  have g: "select_grants (sa_ID ag) d2 = select_grants (sa_ID ag) d" by (simp add: select_grants_rows d2)
  have v: "policy_version (sa_ID ag) d2 = policy_version (sa_ID ag) d"
    "policy_hash (sa_ID ag) d2 = Hash sum256 (select_grants (sa_ID ag) d)"
    using assms(1) by (simp_all add: policy_version_def policy_hash_def d2 db_wf_def policy_ok_def)
  have m: "wp_Username \<circ> wire_of_principal = pp_Username"
    by (simp add: wire_of_principal_def fun_eq_iff)
  have gp: "principal_grants (snap_Principals s) = select_grants (sa_ID ag) d"
    "sorted_wrt (<) (map pp_Username (snap_Principals s))"
    "\<forall>p \<in> set (map wire_of_principal (snap_Principals s)). wp_CallerTokenIDs p \<noteq> []"
    using group_principals_sorted [OF sorted_select_grants] GetPolicySnapshot_InrD [OF s] by (simp_all add: g wire_of_principal_def)
  show ?thesis
    using d2(3) s v GetPolicySnapshot_InrD [OF s] gp payload_grants_wire m by (auto split: if_splits)
qed

text \<open>The heartbeat's half of the policy handshake: on a reachable database, a heartbeat
  answered with success carries no policy exactly when the hash the agent reports is the hash of
  the agent's current grants, and otherwise carries the whole current policy: its hash is the hash
  of the grants it lists, these are exactly the agent's ACL rows, its user names are strictly
  increasing, and every user it lists has a caller.\<close>

theorem heartbeat_pushes_current_policy:
  assumes "db_wf sum256 d" "handleV2Heartbeat env ag (Some req) d = (d', Resp 200 (BHeartbeat h))"
    "\<And>s. \<not> re_flt env 4 s"
  shows "(hbp_Policy h = None \<longleftrightarrow>
        wps_AppliedHash (hbr_PolicyState req) = Hash sum256 (select_grants (sa_ID ag) d))
   \<and> (\<forall>pl. hbp_Policy h = Some pl \<longrightarrow>
        pl_Version pl = policy_version (sa_ID ag) d \<and> pl_Hash pl = Hash sum256 (payload_grants (pl_Principals pl))
        \<and> payload_grants (pl_Principals pl) = select_grants (sa_ID ag) d
        \<and> sorted_wrt (<) (map wp_Username (pl_Principals pl))
        \<and> (\<forall>p \<in> set (pl_Principals pl). wp_CallerTokenIDs p \<noteq> []))"
  using assms by (rule heartbeat_policy_content)

section \<open>Deprovisioning\<close>

definition agent_revoked :: "string \<Rightarrow> db \<Rightarrow> bool" where
  "agent_revoked i d \<longleftrightarrow> map_option ar_status (row_get ar_id i (db_agents d)) = Some AgentRevoked"

lemma agent_revoked_same: "db_agents d' = db_agents d \<Longrightarrow> agent_revoked i d \<Longrightarrow> agent_revoked i d'"
  by (simp add: agent_revoked_def)

lemma agents_untouched:
  "db_agents (fst (CreateToken flt now u ntp d)) = db_agents d"
  "db_agents (fst (RevokeToken flt i now d)) = db_agents d"
  "db_agents (fst (MarkJoinTokenUsed flt i now d)) = db_agents d"
  "db_agents (fst (UpsertAgentPolicyState flt now ups d)) = db_agents d"
  "db_agents (fst (WriteCertEvent flt ce d)) = db_agents d"
  "db_agents (fst (SetUpdatePolicy flt now upd d)) = db_agents d"
  "db_agents (fst (UpsertAgentEndpoints flt i es d)) = db_agents d"
  "db_agents (fst (CreateACL flt sum256 now u cap d)) = db_agents d"
  "db_agents (fst (DeleteACL flt sum256 i d)) = db_agents d"
proof -
  show "db_agents (fst (CreateToken flt now u ntp d)) = db_agents d"
    unfolding CreateToken_def Let_def fst_keep by (simp add: insert_token_def)
  show "db_agents (fst (UpsertAgentEndpoints flt i es d)) = db_agents d"
    by (auto simp: UpsertAgentEndpoints_def in_tx_def split: if_splits prod.splits sum.splits
        dest!: insert_endpoints_InrD)
  show "db_agents (fst (CreateACL flt sum256 now u cap d)) = db_agents d"
    using CreateACL_cases [of flt sum256 now u cap d] by (auto simp: with_acl_def Let_def)
  show "db_agents (fst (DeleteACL flt sum256 i d)) = db_agents d"
    using DeleteACL_cases [of flt sum256 i d] by (auto simp: with_acl_def)
qed (auto simp: RevokeToken_def MarkJoinTokenUsed_def UpsertAgentPolicyState_def WriteCertEvent_def
      SetUpdatePolicy_def Let_def split: option.splits)

lemma revoked_CreateAgent: "agent_revoked i d \<Longrightarrow> agent_revoked i (fst (CreateAgent flt now u p d))"
  unfolding CreateAgent_def Let_def
  by (auto simp: insert_agent_def agent_revoked_def row_get_append)

lemma revoked_SetFailClosed:
  "agent_revoked i d \<Longrightarrow> agent_revoked i (fst (SetAgentFailClosedAfter flt j sec d))"
  by (cases "row_get ar_id i (db_agents d)")
    (auto simp: SetAgentFailClosedAfter_def agent_revoked_def fail_agent.get_update set_fail_closed_def Let_def)

lemma revoked_RevokeAgent: "agent_revoked i d \<Longrightarrow> agent_revoked i (fst (RevokeAgent flt j at d))"
proof (cases "snd (RevokeAgent flt j at d)")
  case (Inl e)
  assume "agent_revoked i d"
  then show ?thesis using RevokeAgent_rollback [OF Inl] by simp
next
  case (Inr x)
  assume r: "agent_revoked i d"
  have "RevokeAgent flt j at d = (fst (RevokeAgent flt j at d), Inr x)" using Inr by (metis prod.collapse)
  from RevokeAgent_InrD [OF this] obtain a where "fst (RevokeAgent flt j at d) = revoke_tables j (revoked_name a at) at d"
    by auto
  then show ?thesis using r
    by (cases "row_get ar_id i (db_agents d)") (auto simp: agent_revoked_def revoke_tables_agents mark_revoked_def AgentRevoked_def)
qed

lemma revoked_heartbeat:
  "agent_revoked i d \<Longrightarrow> j \<noteq> i \<Longrightarrow> agent_revoked i (fst (UpdateAgentHeartbeat flt j v at d))"
  by (cases "row_get ar_id i (db_agents d)")
    (auto simp: UpdateAgentHeartbeat_def agent_revoked_def beat_agent.get_update dest: row_get_SomeD)

lemma call_revoked:
  "CreateToken flt now u ntp d = (d', r1) \<Longrightarrow> agent_revoked i d \<Longrightarrow> agent_revoked i d'"
  "RevokeToken flt j now d = (d', r2) \<Longrightarrow> agent_revoked i d \<Longrightarrow> agent_revoked i d'"
  "MarkJoinTokenUsed flt j now d = (d', r2) \<Longrightarrow> agent_revoked i d \<Longrightarrow> agent_revoked i d'"
  "WriteCertEvent flt ce d = (d', r2) \<Longrightarrow> agent_revoked i d \<Longrightarrow> agent_revoked i d'"
  "SetUpdatePolicy flt now upd d = (d', r2) \<Longrightarrow> agent_revoked i d \<Longrightarrow> agent_revoked i d'"
  "CreateACL flt sum256 now u cap d = (d', r3) \<Longrightarrow> agent_revoked i d \<Longrightarrow> agent_revoked i d'"
  "DeleteACL flt sum256 j d = (d', r2) \<Longrightarrow> agent_revoked i d \<Longrightarrow> agent_revoked i d'"
  "CreateAgent flt now u p d = (d', r4) \<Longrightarrow> agent_revoked i d \<Longrightarrow> agent_revoked i d'"
  "SetAgentFailClosedAfter flt j sec d = (d', r2) \<Longrightarrow> agent_revoked i d \<Longrightarrow> agent_revoked i d'"
  "RevokeAgent flt j now d = (d', r2) \<Longrightarrow> agent_revoked i d \<Longrightarrow> agent_revoked i d'"
  using agents_untouched revoked_CreateAgent revoked_SetFailClosed revoked_RevokeAgent agent_revoked_same
  by (metis fst_conv)+

lemma enroll_revoked: "agent_revoked i d \<Longrightarrow> agent_revoked i (fst (enroll lb cfg env req row d))"
  by (auto simp: enroll_def simp del: append.simps split: sum.splits prod.splits token_error.splits
      dest: call_revoked)

lemma small_handlers_revoked:
  assumes "agent_revoked i d"
  shows "agent_revoked i (fst (handleAgentRegister lb cfg env b0 d))"
    "agent_revoked i (fst (handleCreateToken lb env b1 d))"
    "agent_revoked i (fst (handleRevokeToken env j d))"
    "agent_revoked i (fst (handleSetUpdatePolicy env b2 d))"
    "agent_revoked i (fst (handleCreateACL lb env b3 d))"
    "agent_revoked i (fst (handleDeleteACL lb env j d))"
    "agent_revoked i (fst (handleDeleteAgent env j d))"
    "agent_revoked i (fst (handleSetAgent env j b4 d))"
  using assms
  by (auto simp: handleCreateToken_def handleRevokeToken_def handleSetUpdatePolicy_def
      handleAgentRegister_def enroll_revoked
      handleCreateACL_def handleDeleteACL_def handleDeleteAgent_def handleSetAgent_def Let_def
      split: option.splits sum.splits prod.splits token_error.splits dest: call_revoked)

lemma heartbeat_revoked:
  assumes "agent_revoked i d" "sa_ID ag \<noteq> i"
  shows "agent_revoked i (fst (handleV2Heartbeat env ag b d))"
proof (cases b)
  case (Some req)
  obtain d1 r1 where c1: "UpdateAgentHeartbeat (re_flt env 2) (sa_ID ag) (hbr_AgentVersion req)
      (re_now env 1) d = (d1, r1)" by fastforce
  have s1: "agent_revoked i d1" using revoked_heartbeat [OF assms] c1 by (metis fst_conv)
  have "agent_revoked i (fst (UpsertAgentPolicyState f2 n p2
      (if c then d1 else fst (UpsertAgentEndpoints f j es d1))))" for f j es f2 n p2 c
    using s1 agents_untouched agent_revoked_same by (metis (full_types))
  then show ?thesis using s1
    by (cases r1) (simp_all add: Some handleV2Heartbeat_def c1 Let_def del: One_nat_def)
qed (simp add: handleV2Heartbeat_def assms)

lemma cert_revoked:
  assumes "agent_revoked i (srv_db s)"
  shows "agent_revoked i (srv_db (fst (handleIssueCert lb cfg env tok b s)))"
proof -
  have d: "agent_revoked i (srv_db (fst (deny lb env c a u k reason resp x)))"
    if "agent_revoked i (srv_db x)" for c a u k reason resp x
    using that agents_untouched(5) agent_revoked_same
    by (auto simp: deny_def writeDeniedEvent_def agent_revoked_def split: option.splits)
  have "agent_revoked i (srv_db (fst (issue lb env signer tok req ttl ag s)))" for signer req ttl ag
    using assms d
    by (auto simp: issue_def Let_def split: option.splits sum.splits prod.splits ca_error.splits
        dest: call_revoked(4))
  then show ?thesis
    using assms d by (auto simp: handleIssueCert_def Let_def split: option.splits sum.splits)
qed

lemma serve_revoked:
  assumes "agent_revoked i (srv_db s)"
  shows "agent_revoked i (srv_db (fst (serve lb cfg env hdr r s)))"
proof (cases "\<exists>b. r = PostHeartbeat b")
  case True
  then obtain b where r: "r = PostHeartbeat b" by blast
  show ?thesis
  proof (cases "requireAuth lb env TokenAgent hdr (srv_db s)")
    case (Inl x)
    then show ?thesis using assms by (simp add: r serve_def route_kind_def)
  next
    case (Inr ctx)
    obtain tok ag where ctx: "ctx = (tok, ag)" by (cases ctx)
    from requireAuth_InrD [OF Inr [unfolded ctx]] obtain a aid where a: "ag = Some a"
      "GetAgent (re_flt env 1) aid (srv_db s) = Inr a" "sa_Status a \<noteq> AgentRevoked" by auto
    obtain x where x: "row_get ar_id aid (db_agents (srv_db s)) = Some x" "a = scanAgent x"
      using a(2) by (auto simp: GetAgent_def queryAgent_def split: if_splits option.splits)
    then have "sa_ID a \<noteq> i"
      using assms a(3) row_get_SomeD [OF x(1)] by (auto simp: scanAgent_def agent_revoked_def)
    then show ?thesis
      using heartbeat_revoked [OF assms] Inr
      by (simp add: r serve_def route_kind_def ctx a handleAgentHeartbeat_def on_db_def)
  qed
next
  case False
  then have "agent_revoked i (srv_db (fst (handle lb cfg env ctx r s)))" for ctx
    using assms small_handlers_revoked [OF assms] cert_revoked [OF assms]
    by (cases r) (auto simp: on_db_def split: option.splits)
  then show ?thesis using assms by (auto simp: serve_def split: option.splits sum.splits)
qed

lemma revoked_forever:
  "(server_step lb cfg)\<^sup>*\<^sup>* s s' \<Longrightarrow> agent_revoked i (srv_db s) \<Longrightarrow> agent_revoked i (srv_db s')"
  by (induction rule: rtranclp_induct) (auto elim!: server_step.cases intro: serve_revoked)


section \<open>Witnesses\<close>

definition demo_join :: string where
  "demo_join = ''uct_join_'' @ demo_tid @ ''_'' @ demo_sec"

definition demo_jdb :: db where
  "demo_jdb = fst (InsertTokenWithID no_fault 0 demo_tid TokenJoin None demo_hash [] empty_db)"

definition demo_jenv :: req_env where
  "demo_jenv = demo_env\<lparr>re_rand := (\<lambda>k. if k = 0 then Some ''9876543210'' else Some ''salt'')\<rparr>"

definition demo_register :: agent_register_request where
  "demo_register = \<lparr>arr_JoinToken = demo_join, arr_Name = ''db1'', arr_Metadata = None\<rparr>"

lemma demo_join_parse:
  "Parse demo_join = Inr \<lparr>t_kind = ''join'', t_id = demo_tid, t_secret = demo_sec\<rparr>" "demo_join \<noteq> []"
  using Parse_encoded [of "''join''" "''0123456789''" "''0123456789abcdef0123456789abcdef''"]
  by (simp_all add: demo_join_def demo_tid_def demo_sec_def validKind_def kind_defs del: b32_encode.simps)

lemma demo_jdb_eval: "demo_jdb = empty_db\<lparr>db_tokens := [\<lparr>tr_id = demo_tid, tr_kind = ''join'',
    tr_agent_id = None, tr_secret_hash = demo_hash, tr_label = [], tr_created_at = 0,
    tr_expires_at = None, tr_used_at = None, tr_revoked_at = None\<rparr>]\<rparr>"
  by (simp add: demo_jdb_def InsertTokenWithID_def insert_token_def no_fault_def empty_db_def TokenJoin_def
      agent_ref_ok_def unix_of_def)

lemma demo_check:
  assumes "\<not> re_flt env 0 ''tokens.select''" "db_tokens d = db_tokens demo_jdb"
  shows "\<exists>row. check_join_token demo_libs env demo_join d = Inr row"
  using assms by (simp add: check_join_token_def demo_join_parse GetTokenByID_def demo_jdb_eval scanToken_def
      token_kind_defs demo_libs_def demo_verify)

lemma demo_gen: "Generate (Some ''9876543210'') (Some ''salt'') KindAgent =
    Inr \<lparr>t_kind = ''agent'', t_id = b32_encode ''9876543210'', t_secret = b32_encode ''salt''\<rparr>"
  by (simp add: Generate_def validKind_def kind_defs randBase32_def del: b32_encode.simps)

lemma demo_new_id: "b32_encode ''9876543210'' \<noteq> []" "b32_encode ''9876543210'' \<noteq> demo_tid"
proof -
  show "b32_encode ''9876543210'' \<noteq> []"
    using length_b32_encode [of "''9876543210''"] by (auto simp del: b32_encode.simps)
  have "b32_decode (b32_encode ''9876543210'') \<noteq> b32_decode demo_tid"
    unfolding demo_tid_def b32_decode_encode by simp
  then show "b32_encode ''9876543210'' \<noteq> demo_tid" by metis
qed

lemma demo_facts:
  "\<not> re_flt demo_jenv k x" "arr_Name demo_register \<noteq> []" "arr_JoinToken demo_register \<noteq> []"
  "arr_Name demo_register \<notin> ar_name ` set (db_agents demo_jdb)"
  "''ag_'' @ shortID (re_uuid demo_jenv) 24 \<notin> ar_id ` set (db_agents demo_jdb)"
  "Generate (re_rand demo_jenv 0) (re_rand demo_jenv 1) KindAgent =
     Inr \<lparr>t_kind = ''agent'', t_id = b32_encode ''9876543210'', t_secret = b32_encode ''salt''\<rparr>"
  "b32_encode ''9876543210'' \<notin> tr_id ` set (db_tokens demo_jdb)"
  using demo_gen demo_new_id
  by (simp_all add: demo_jenv_def demo_env_def no_fault_def demo_register_def demo_join_parse
        demo_jdb_eval empty_db_def del: b32_encode.simps)

lemma demo_hash_ok: "\<exists>hash. HashSecret (lb_idkey demo_libs) (re_rand demo_jenv 2) x = Inr hash"
  by (simp add: HashSecret_def demo_libs_def demo_idkey_def demo_jenv_def)

lemma demo_check_ok:
  "\<exists>row. check_join_token demo_libs demo_jenv (arr_JoinToken demo_register) demo_jdb = Inr row"
  using demo_check [of demo_jenv demo_jdb] demo_facts(1) by (simp add: demo_register_def)


theorem join_token_enrols_once_witness:
  "\<exists>s' resp. serve demo_libs demo_cfg demo_jenv [] (PostRegister (Some demo_register)) \<lparr>srv_db = demo_jdb, srv_serial = 0\<rparr>
       = (s', resp) \<and> status resp = 200
     \<and> status (snd (serve demo_libs demo_cfg demo_jenv [] (PostRegister (Some demo_register)) s')) \<noteq> 200"
proof -
  let ?s = "\<lparr>srv_db = demo_jdb, srv_serial = 0\<rparr>"
  obtain row where row: "check_join_token demo_libs demo_jenv (arr_JoinToken demo_register) demo_jdb = Inr row"
    using demo_check_ok by blast
  obtain hash where h: "HashSecret (lb_idkey demo_libs) (re_rand demo_jenv 2) (b32_encode ''salt'') = Inr hash"
    using demo_hash_ok by blast
  obtain d' rr where e: "enroll demo_libs demo_cfg demo_jenv demo_register row demo_jdb = (d', Resp 200 (BRegistered rr))"
    using enroll_succeeds [OF demo_facts(1) row demo_facts(4-6), of hash demo_cfg] h demo_new_id demo_facts(7)
    by (simp del: b32_encode.simps) blast
  have sv: "serve demo_libs demo_cfg demo_jenv [] (PostRegister (Some demo_register)) ?s
      = (?s\<lparr>srv_db := d'\<rparr>, Resp 200 (BRegistered rr))"
    using e row demo_facts(2,3) by (simp add: serve_def route_kind_def on_db_def handleAgentRegister_def)
  have "steps demo_libs empty_db demo_jdb"
    unfolding demo_jdb_def by (rule steps_one, rule st_insert_token)
  then have inv: "server_inv demo_libs ?s" using requests.inv_init by (auto simp: server_init_def)
  obtain s3 resp' where sv': "serve demo_libs demo_cfg demo_jenv [] (PostRegister (Some demo_register))
      (?s\<lparr>srv_db := d'\<rparr>) = (s3, resp')" by fastforce
  have "status resp' \<noteq> 200"
    by (rule join_token_enrols_once [OF inv sv _ rtranclp.rtrancl_refl refl sv']) simp
  with sv sv' show ?thesis by auto
qed

theorem failed_enrolment_blocks_name_witness:
  "\<exists>d'. handleAgentRegister demo_libs demo_cfg (demo_jenv\<lparr>re_rand := (re_rand demo_jenv)(2 := None)\<rparr>)
         (Some demo_register) demo_jdb = (d', Resp 500 BInternal)
     \<and> handleAgentRegister demo_libs demo_cfg demo_jenv (Some demo_register) d' = (d', Resp 409 (BError ''already enrolled''))"
proof -
  let ?env = "demo_jenv\<lparr>re_rand := (re_rand demo_jenv)(2 := None)\<rparr>"
  have fl: "\<And>k x. \<not> re_flt ?env k x" using demo_facts(1) by simp
  obtain row where row: "check_join_token demo_libs ?env (arr_JoinToken demo_register) demo_jdb = Inr row"
    using demo_check [of ?env demo_jdb] fl by (auto simp: demo_register_def)
  have un: "''ag_'' @ shortID (re_uuid ?env) 24 \<notin> ar_id ` set (db_agents demo_jdb)"
    using demo_facts(5) by simp
  have g: "Generate (re_rand ?env 0) (re_rand ?env 1) KindAgent =
     Inr \<lparr>t_kind = ''agent'', t_id = b32_encode ''9876543210'', t_secret = b32_encode ''salt''\<rparr>"
    using demo_facts(6) by (simp del: b32_encode.simps One_nat_def)
  obtain d' resp where h: "handleAgentRegister demo_libs demo_cfg ?env (Some demo_register) demo_jdb = (d', resp)"
    by fastforce
  have "\<exists>a. d' = demo_jdb\<lparr>db_agents := [a]\<rparr> \<and> resp = Resp 500 BInternal"
    using h row g fl demo_facts(2,3)
    by (auto simp: handleAgentRegister_def enroll_def GetAgentByName_def queryAgent_def demo_jdb_eval
        empty_db_def CreateAgent_def insert_agent_def GetAgent_def HashSecret_def Let_def
        simp del: b32_encode.simps append_Cons One_nat_def)
  then obtain a where d': "d' = demo_jdb\<lparr>db_agents := [a]\<rparr>" "resp = Resp 500 BInternal" by blast
  obtain row' where row': "check_join_token demo_libs demo_jenv (arr_JoinToken demo_register) d' = Inr row'"
    using demo_check [of demo_jenv d'] demo_facts(1) by (auto simp: d' demo_register_def)
  have "status resp = 500 \<and> handleAgentRegister demo_libs demo_cfg demo_jenv (Some demo_register) d'
      = (d', Resp 409 (BError ''already enrolled''))"
    by (rule failed_enrolment_blocks_name [OF fl fl row demo_facts(2-4) un g _ h refl demo_facts(3) row'
          demo_facts(1)]) simp
  with h d' show ?thesis by auto
qed

definition demo_ag :: store_agent where
  "demo_ag = \<lparr>sa_ID = demo_agent, sa_Name = ''web'', sa_CreatedAt = 0, sa_LastSeenAt = None,
     sa_Status = AgentOnline, sa_AgentVersion = [], sa_FailClosedAfter = None\<rparr>"

definition demo_beat :: heartbeat_request where
  "demo_beat = \<lparr>hbr_AgentID = demo_agent, hbr_AgentVersion = ''v1.0.0'', hbr_ObservedAt = 5,
     hbr_Endpoints = [], hbr_PolicyState = \<lparr>wps_DesiredVersion = None, wps_AppliedVersion = 0,
       wps_AppliedHash = [], wps_LastApplyStatus = [], wps_LastApplyError = None,
       wps_LastApplyAt = 0\<rparr>, hbr_Health = []\<rparr>"

lemma demo_beat_ok: "\<exists>d' h. handleV2Heartbeat demo_env demo_ag (Some demo_beat) demo_db = (d', Resp 200 (BHeartbeat h))"
proof -
  have "snd (UpdateAgentHeartbeat (re_flt demo_env 2) (sa_ID demo_ag) (hbr_AgentVersion demo_beat)
      (re_now demo_env 1) demo_db) = Inr ()"
    by (simp add: UpdateAgentHeartbeat_def demo_env_def no_fault_def demo_ag_def demo_db_eval demo_base_eval empty_db_def)
  then show ?thesis
    by (cases "UpdateAgentHeartbeat (re_flt demo_env 2) (sa_ID demo_ag) (hbr_AgentVersion demo_beat)
      (re_now demo_env 1) demo_db") (simp add: handleV2Heartbeat_def Let_def del: One_nat_def)
qed

lemma demo_db_grants: "select_grants demo_agent demo_db = [Grant ''root'' ''C1'']"
  by (simp add: select_grants_rows rows_of_def row_grant_def demo_db_eval)

theorem heartbeat_pushes_current_policy_witness:
  "\<exists>d' h pl. handleV2Heartbeat demo_env demo_ag (Some demo_beat) demo_db = (d', Resp 200 (BHeartbeat h))
     \<and> hbp_Policy h = Some pl \<and> payload_grants (pl_Principals pl) = [Grant ''root'' ''C1'']"
proof -
  obtain d' h where b: "handleV2Heartbeat demo_env demo_ag (Some demo_beat) demo_db = (d', Resp 200 (BHeartbeat h))"
    using demo_beat_ok by blast
  have wf: "db_wf (\<lambda>s. s) demo_db" using calls.inv_reachable demo_db_reachable by blast
  have f: "\<And>s. \<not> re_flt demo_env 4 s" by (simp add: demo_env_def no_fault_def)
  have "Hash (\<lambda>s. s) (select_grants demo_agent demo_db) \<noteq> []"
    by (simp add: demo_db_grants Hash_def Canonical_def hex_encode_def grant_line_def)
  then show ?thesis
    using heartbeat_pushes_current_policy [OF wf b f] b
    by (cases "hbp_Policy h") (simp_all add: demo_ag_def demo_beat_def demo_db_grants)
qed

definition demo_atok :: string where
  "demo_atok = ''uct_agent_'' @ demo_tid @ ''_'' @ demo_sec"

definition demo_revoked :: server where
  "demo_revoked = \<lparr>srv_db = demo_base\<lparr>db_tokens := [\<lparr>tr_id = demo_tid, tr_kind = ''agent'',
       tr_agent_id = Some demo_agent, tr_secret_hash = demo_hash, tr_label = [], tr_created_at = 0,
       tr_expires_at = None, tr_used_at = None, tr_revoked_at = Some 1\<rparr>],
     db_agents := [\<lparr>ar_id = demo_agent, ar_name = ''web'', ar_created_at = 0, ar_last_seen_at = None,
       ar_status = ''revoked'', ar_agent_version = [], ar_fail_closed_after = None\<rparr>]\<rparr>,
     srv_serial = 0\<rparr>"

lemma demo_atok_parse:
  "Parse demo_atok = Inr \<lparr>t_kind = ''agent'', t_id = demo_tid, t_secret = demo_sec\<rparr>"
  using Parse_encoded [of "''agent''" "''0123456789''" "''0123456789abcdef0123456789abcdef''"]
  by (simp add: demo_atok_def demo_tid_def demo_sec_def validKind_def kind_defs del: b32_encode.simps)

lemma demo_atok_bearer: "bearerFrom (''Bearer '' @ demo_atok) = demo_atok"
  by (rule bearerFrom_printable) (use demo_printable in \<open>simp add: demo_atok_def\<close>)


end
