(* ===== verification/Files.thy ===== *)
theory Files
  imports Prelude "HOL-Library.AList"
begin

text \<open>
  One directory of the agent's file system and the system calls the agent makes on it. A
  directory is the association list of its entries; a sub-directory carries whether it has
  entries of its own, since \<^verbatim>\<open>os.Remove\<close> deletes an empty one. Symbolic links are not
  represented. \<open>pd_trace\<close> is a history variable: the entries after every call that changed
  them, newest first. It is what a concurrent reader of the directory, or a process that is
  restarted after a crash, can find. The failures of the calls are arguments.
\<close>

section \<open>The directory\<close>

datatype dentry = DDir bool | DFile string

type_synonym entries = "(string \<times> dentry) list"

record pdir =
  pd_exists :: bool
  pd_entries :: entries
  pd_trace :: "entries list"

definition entry :: "pdir \<Rightarrow> string \<Rightarrow> dentry option" where
  "entry d = map_of (pd_entries d)"

definition file_in :: "entries \<Rightarrow> string \<Rightarrow> string option" where
  "file_in es n = (case map_of es n of Some (DFile s) \<Rightarrow> Some s | _ \<Rightarrow> None)"

definition file_of :: "pdir \<Rightarrow> string \<Rightarrow> string option" where
  "file_of d = file_in (pd_entries d)"

definition put_entries :: "entries \<Rightarrow> pdir \<Rightarrow> pdir" where
  "put_entries es d = d\<lparr>pd_entries := es, pd_trace := es # pd_trace d\<rparr>"

definition dir_wf :: "pdir \<Rightarrow> bool" where
  "dir_wf d \<longleftrightarrow> distinct (map fst (pd_entries d))"

section \<open>System calls\<close>

text \<open>\<^verbatim>\<open>os.OpenFile(n, O_WRONLY|O_CREATE|O_TRUNC, ...)\<close>.\<close>

definition open_trunc :: "bool \<Rightarrow> string \<Rightarrow> pdir \<Rightarrow> pdir option" where
  "open_trunc fails n d =
     (if fails then None
      else case entry d n of
        Some (DDir _) \<Rightarrow> None
      | _ \<Rightarrow> Some (put_entries (AList.update n (DFile []) (pd_entries d)) d))"

definition append_file :: "string \<Rightarrow> string \<Rightarrow> pdir \<Rightarrow> pdir" where
  "append_file n s d =
     put_entries (AList.update n
       (DFile ((case file_of d n of None \<Rightarrow> [] | Some old \<Rightarrow> old) @ s)) (pd_entries d)) d"

text \<open>\<^verbatim>\<open>os.Remove\<close>; \<open>RmNotExist\<close> is the error \<^verbatim>\<open>os.IsNotExist\<close> recognises.\<close>

datatype remove_error = RmNotExist | RmFailed

definition os_remove :: "bool \<Rightarrow> string \<Rightarrow> pdir \<Rightarrow> (remove_error, pdir) result" where
  "os_remove fails n d =
     (case entry d n of
        None \<Rightarrow> Inl RmNotExist
      | Some (DDir True) \<Rightarrow> Inl RmFailed
      | Some _ \<Rightarrow> if fails then Inl RmFailed
          else Inr (put_entries (AList.delete n (pd_entries d)) d))"

text \<open>\<^verbatim>\<open>_ = os.Remove(n)\<close>.\<close>

definition try_remove :: "bool \<Rightarrow> string \<Rightarrow> pdir \<Rightarrow> pdir" where
  "try_remove fails n d = (case os_remove fails n d of Inl _ \<Rightarrow> d | Inr d' \<Rightarrow> d')"

text \<open>\<^verbatim>\<open>os.Rename\<close> of a file onto a name of the same directory, in one step.\<close>

definition os_rename :: "bool \<Rightarrow> string \<Rightarrow> string \<Rightarrow> pdir \<Rightarrow> pdir option" where
  "os_rename fails a b d =
     (case entry d a of
        None \<Rightarrow> None
      | Some e \<Rightarrow>
          if fails \<or> (\<exists>ne \<in> {True, False}. entry d b = Some (DDir ne)) then None
          else Some (put_entries (AList.update b e (AList.delete a (pd_entries d))) d))"

text \<open>\<^verbatim>\<open>os.ReadDir\<close> lists the entries sorted by name.\<close>

definition read_dir :: "bool \<Rightarrow> pdir \<Rightarrow> (string \<times> bool) list option" where
  "read_dir fails d =
     (if fails \<or> \<not> pd_exists d then None
      else Some (map (\<lambda>n. (n, file_of d n = None)) (sort (map fst (pd_entries d)))))"

section \<open>What the calls do to an entry\<close>

lemma entry_put [simp]: "entry (put_entries es d) = map_of es"
  by (simp add: entry_def put_entries_def)

lemma file_of_entry: "file_of d n = (case entry d n of Some (DFile s) \<Rightarrow> Some s | _ \<Rightarrow> None)"
  by (simp add: file_of_def file_in_def entry_def)

lemma open_trunc_Some:
  "open_trunc fails n d = Some d' \<Longrightarrow>
     entry d' = (entry d)(n \<mapsto> DFile []) \<and> pd_exists d' = pd_exists d \<and> pd_trace d' = pd_entries d' # pd_trace d"
  by (auto simp: open_trunc_def entry_def put_entries_def update_conv' split: if_splits option.splits dentry.splits)

lemma append_file_entry:
  "entry (append_file n s d) =
     (entry d)(n \<mapsto> DFile ((case file_of d n of None \<Rightarrow> [] | Some old \<Rightarrow> old) @ s))"
  "pd_exists (append_file n s d) = pd_exists d"
  "pd_trace (append_file n s d) = pd_entries (append_file n s d) # pd_trace d"
  by (simp_all add: append_file_def entry_def put_entries_def update_conv')

lemma os_remove_Inr:
  "os_remove fails n d = Inr d' \<Longrightarrow>
     entry d' = (entry d)(n := None) \<and> pd_exists d' = pd_exists d \<and> pd_trace d' = pd_entries d' # pd_trace d"
  by (auto simp: os_remove_def entry_def put_entries_def delete_conv' split: option.splits dentry.splits bool.splits if_splits)

lemma os_remove_NotExist: "os_remove fails n d = Inl RmNotExist \<longleftrightarrow> entry d n = None"
  by (auto simp: os_remove_def split: option.splits dentry.splits bool.splits)

lemma os_remove_file: "entry d n = Some (DFile s) \<Longrightarrow> \<not> fails \<Longrightarrow>
    os_remove fails n d = Inr (put_entries (AList.delete n (pd_entries d)) d)"
  by (simp add: os_remove_def)

lemma try_remove_cases:
  "try_remove fails n d = d \<or>
    (entry (try_remove fails n d) = (entry d)(n := None) \<and> pd_exists (try_remove fails n d) = pd_exists d
     \<and> pd_trace (try_remove fails n d) = pd_entries (try_remove fails n d) # pd_trace d)"
  using os_remove_Inr by (fastforce simp: try_remove_def split: sum.splits)

lemma os_rename_Some:
  "os_rename fails a b d = Some d' \<Longrightarrow> \<exists>e. entry d a = Some e \<and>
     entry d' = ((entry d)(a := None))(b \<mapsto> e) \<and> pd_exists d' = pd_exists d \<and> pd_trace d' = pd_entries d' # pd_trace d"
  by (auto simp: os_rename_def entry_def put_entries_def update_conv' delete_conv' split: option.splits if_splits)

lemma dir_wf_put [simp]: "dir_wf (put_entries es d) = distinct (map fst es)"
  by (simp add: dir_wf_def put_entries_def)

lemma dir_wf_calls:
  "dir_wf d \<Longrightarrow> open_trunc fails n d = Some d' \<Longrightarrow> dir_wf d'"
  "dir_wf d \<Longrightarrow> dir_wf (append_file n s d)"
  "dir_wf d \<Longrightarrow> os_remove fails n d = Inr d' \<Longrightarrow> dir_wf d'"
  "dir_wf d \<Longrightarrow> dir_wf (try_remove fails n d)"
  "dir_wf d \<Longrightarrow> os_rename fails n m d = Some d' \<Longrightarrow> dir_wf d'"
proof -
  assume d: "dir_wf d"
  then have u: "distinct (map fst (AList.update n x (pd_entries d)))"
    "distinct (map fst (AList.delete n (pd_entries d)))"
    "distinct (map fst (AList.update m x (AList.delete n (pd_entries d))))" for n m x
    by (simp_all add: dir_wf_def distinct_update distinct_delete)
  show "open_trunc fails n d = Some d' \<Longrightarrow> dir_wf d'"
    using u by (auto simp: open_trunc_def split: if_splits option.splits dentry.splits)
  show "dir_wf (append_file n s d)" using u by (simp add: append_file_def)
  show r: "os_remove fails n d = Inr d' \<Longrightarrow> dir_wf d'" for d'
    using u by (auto simp: os_remove_def split: if_splits option.splits dentry.splits bool.splits)
  show "dir_wf (try_remove fails n d)" using d r by (auto simp: try_remove_def split: sum.splits)
  show "os_rename fails n m d = Some d' \<Longrightarrow> dir_wf d'"
    using u by (auto simp: os_rename_def split: if_splits option.splits)
qed

text \<open>\<open>new_states d d'\<close>: the contents the directory went through between \<open>d\<close> and \<open>d'\<close>, and
  \<open>grows\<close>: that \<open>d'\<close> comes from \<open>d\<close> by calls.\<close>

definition new_states :: "pdir \<Rightarrow> pdir \<Rightarrow> entries list" where
  "new_states d d' = take (length (pd_trace d') - length (pd_trace d)) (pd_trace d')"

definition all_states :: "(entries \<Rightarrow> bool) \<Rightarrow> pdir \<Rightarrow> pdir \<Rightarrow> bool" where
  "all_states P d d' \<longleftrightarrow> (\<exists>es. pd_trace d' = es @ pd_trace d \<and> (\<forall>e \<in> set es. P e))"

lemma all_states_new: "all_states P d d' \<Longrightarrow> e \<in> set (new_states d d') \<Longrightarrow> P e"
  by (auto simp: all_states_def new_states_def)

lemma all_states_refl [simp]: "all_states P d d"
  by (simp add: all_states_def)

lemma all_states_trans: "all_states P d d' \<Longrightarrow> all_states P d' d'' \<Longrightarrow> all_states P d d''"
  by (auto simp: all_states_def)

lemma all_states_step: "pd_trace d' = pd_entries d' # pd_trace d \<Longrightarrow> P (pd_entries d') \<Longrightarrow> all_states P d d'"
  by (auto simp: all_states_def)

section \<open>Paths\<close>

text \<open>\<^verbatim>\<open>filepath.Base\<close>: trailing slashes stripped, then the part after the last slash.\<close>

definition path_base :: "string \<Rightarrow> string" where
  "path_base p =
     (if p = [] then ''.''
      else let q = rev (dropWhile (\<lambda>c. c = CHR ''/'') (rev p))
           in if q = [] then ''/'' else rev (takeWhile (\<lambda>c. c \<noteq> CHR ''/'') (rev q)))"

text \<open>\<^verbatim>\<open>filepath.Dir\<close> and \<^verbatim>\<open>filepath.Join\<close> of clean absolute paths below the root.\<close>

definition path_dir :: "string \<Rightarrow> string" where
  "path_dir p = rev (tl (dropWhile (\<lambda>c. c \<noteq> CHR ''/'') (rev p)))"

definition path_join :: "string \<Rightarrow> string \<Rightarrow> string" where
  "path_join a b = a @ CHR ''/'' # b"

lemma path_base_plain:
  assumes "CHR ''/'' \<notin> set u" "u \<noteq> []"
  shows "path_base u = u"
proof -
  have d: "dropWhile (\<lambda>c. c = CHR ''/'') v = v" "takeWhile (\<lambda>c. c \<noteq> CHR ''/'') v = v" if "CHR ''/'' \<notin> set v" for v
    using that by (cases v; auto simp: takeWhile_eq_all_conv)+
  have r: "CHR ''/'' \<notin> set (rev u)" using assms by simp
  show ?thesis unfolding path_base_def Let_def d(1) [OF r] rev_rev_ident d(2) [OF r] using assms(2) by simp
qed

lemma path_base_slash:
  assumes "CHR ''/'' \<in> set u" "path_base u = u"
  shows "u = ''/''"
proof -
  have "path_base u = ''.'' \<or> path_base u = ''/'' \<or> CHR ''/'' \<notin> set (path_base u)"
    by (auto simp: path_base_def Let_def dest: set_takeWhileD)
  then show ?thesis unfolding assms(2) using assms(1) by auto
qed

lemma path_dir_join:
  assumes "CHR ''/'' \<notin> set b"
  shows "path_dir (path_join a b) = a"
proof -
  have "dropWhile (\<lambda>c. c \<noteq> CHR ''/'') (rev b @ CHR ''/'' # rev a) = CHR ''/'' # rev a"
    using assms by (subst dropWhile_append2) auto
  then show ?thesis by (simp add: path_dir_def path_join_def)
qed

lemma path_base_join:
  assumes "CHR ''/'' \<notin> set b" "b \<noteq> []"
  shows "path_base (path_join a b) = b"
proof -
  have r: "CHR ''/'' \<notin> set (rev b)" "rev b \<noteq> []" using assms by simp_all
  have d: "dropWhile (\<lambda>c. c = CHR ''/'') (rev b @ CHR ''/'' # rev a) = rev b @ CHR ''/'' # rev a"
    using r by (cases "rev b") auto
  have "takeWhile (\<lambda>c. c \<noteq> CHR ''/'') (rev b @ CHR ''/'' # rev a) = rev b"
    using r(1) by (subst takeWhile_append2) auto
  then show ?thesis using d assms(2) by (simp add: path_base_def path_join_def)
qed

end
