(* ===== verification/Agent_Policy.thy ===== *)
theory Agent_Policy
  imports Files Api_Types
begin

text \<open>
  The agent's half of the policy handshake (\<^verbatim>\<open>internal/agent/policy.go\<close>,
  \<^verbatim>\<open>policy_apply_unix.go\<close> and the reader \<^verbatim>\<open>principalsFileContent\<close> of
  \<^verbatim>\<open>internal/cli/agent_cmd.go\<close>): a policy snapshot is validated and rendered as one
  principals file per user, and sshd asks the reader for a user's file at every login.

  \<open>pol_faults\<close> says which system calls of one apply fail: a write that fails has written the
  given number of bytes of its line. The texts of the operating system's errors are a parameter.
\<close>

section \<open>State and errors\<close>

record policy_state =
  ps_appliedVersion :: int
  ps_appliedHash :: string
  ps_lastApplyStatus :: string
  ps_lastApplyError :: "string option"
  ps_lastApplyAt :: int

datatype write_error = WOpen | WWrite | WSync | WClose | WAcl | WRename

datatype policy_error =
    PMkdir
  | PUsername string
  | PCallerTokenID string
  | PRemoveEmpty string
  | PWrite string write_error
  | PReadDir
  | PRemoveStale string

record pol_faults =
  pf_mkdir :: bool
  pf_open :: "string \<Rightarrow> bool"
  pf_write :: "string \<Rightarrow> nat \<Rightarrow> nat option"
  pf_sync :: "string \<Rightarrow> bool"
  pf_close :: "string \<Rightarrow> bool"
  pf_rename :: "string \<Rightarrow> bool"
  pf_remove :: "string \<Rightarrow> bool"
  pf_readdir :: bool

section \<open>Validation\<close>

text \<open>\<^verbatim>\<open>strings.ContainsAny\<close> for a set of ASCII characters.\<close>

definition contains_any :: "string \<Rightarrow> string \<Rightarrow> bool" where
  "contains_any s chars \<longleftrightarrow> list_ex (\<lambda>c. c \<in> set chars) s"

definition validateUsername :: "string \<Rightarrow> bool" where
  "validateUsername s \<longleftrightarrow>
     s \<noteq> [] \<and> \<not> (contains_any s [CHR ''/'', CHR 0x5C, CHR 0x00, CHR 0x0A, CHR 0x0D, CHR 0x09, CHR '' '']
       \<or> s = ''.'' \<or> s = ''..'')"

definition caller_rune_ok :: "nat \<Rightarrow> bool" where
  "caller_rune_ok r \<longleftrightarrow> \<not> (is_space r \<or> r \<in> set (map of_char '',*?[]''))"

definition validateCallerTokenID :: "string \<Rightarrow> bool" where
  "validateCallerTokenID s \<longleftrightarrow> s \<noteq> [] \<and> list_all (\<lambda>p. caller_rune_ok (fst p)) (runes s)"

fun validate_callers :: "string list \<Rightarrow> (policy_error, unit) result" where
  "validate_callers [] = Inr ()"
| "validate_callers (c # cs) = (if validateCallerTokenID c then validate_callers cs else Inl (PCallerTokenID c))"

fun validatePolicyPayload :: "wire_principal list \<Rightarrow> (policy_error, unit) result" where
  "validatePolicyPayload [] = Inr ()"
| "validatePolicyPayload (p # ps) =
     (if \<not> validateUsername (wp_Username p) then Inl (PUsername (wp_Username p))
      else case validate_callers (wp_CallerTokenIDs p) of
        Inl e \<Rightarrow> Inl e
      | Inr _ \<Rightarrow> validatePolicyPayload ps)"

section \<open>Rendering\<close>

text \<open>On Unix the file's own access list is left alone.\<close>

definition restrictPrincipalsFileACL :: "string \<Rightarrow> (write_error, unit) result" where
  "restrictPrincipalsFileACL path = Inr ()"

definition line_of :: "string \<Rightarrow> string" where
  "line_of c = c @ [CHR 0x0A]"

definition principals_text :: "string list \<Rightarrow> string" where
  "principals_text ids = concat (map line_of ids)"

definition tmp_name :: "string \<Rightarrow> string" where
  "tmp_name username = username @ ''.tmp''"

fun write_lines :: "(nat \<Rightarrow> nat option) \<Rightarrow> string \<Rightarrow> string list \<Rightarrow> nat \<Rightarrow> pdir \<Rightarrow> pdir \<times> bool" where
  "write_lines fails tmp [] k d = (d, True)"
| "write_lines fails tmp (c # cs) k d =
     (case fails k of
        None \<Rightarrow> write_lines fails tmp cs (Suc k) (append_file tmp (line_of c) d)
      | Some n \<Rightarrow> (append_file tmp (take n (line_of c)) d, False))"

definition atomicWritePrincipals ::
  "pol_faults \<Rightarrow> string \<Rightarrow> string list \<Rightarrow> pdir \<Rightarrow> pdir \<times> (write_error, unit) result" where
  "atomicWritePrincipals flt username callerTokenIDs d =
     (let tmp = tmp_name username in
      case open_trunc (pf_open flt tmp) tmp d of
        None \<Rightarrow> (d, Inl WOpen)
      | Some d1 \<Rightarrow>
          let (d2, ok) = write_lines (pf_write flt tmp) tmp callerTokenIDs 0 d1 in
          if \<not> ok then (try_remove (pf_remove flt tmp) tmp d2, Inl WWrite)
          else if pf_sync flt tmp then (try_remove (pf_remove flt tmp) tmp d2, Inl WSync)
          else if pf_close flt tmp then (try_remove (pf_remove flt tmp) tmp d2, Inl WClose)
          else case restrictPrincipalsFileACL tmp of
            Inl e \<Rightarrow> (try_remove (pf_remove flt tmp) tmp d2, Inl WAcl)
          | Inr _ \<Rightarrow>
              (case os_rename (pf_rename flt tmp) tmp username d2 of
                 None \<Rightarrow> (try_remove (pf_remove flt tmp) tmp d2, Inl WRename)
               | Some d3 \<Rightarrow> (d3, Inr ())))"

text \<open>The loop over the policy's principals, with the names still wanted at its end.\<close>

fun write_principals ::
  "pol_faults \<Rightarrow> wire_principal list \<Rightarrow> string list \<Rightarrow> pdir \<Rightarrow> pdir \<times> (policy_error, string list) result" where
  "write_principals flt [] want d = (d, Inr want)"
| "write_principals flt (p # ps) want d =
     (let u = wp_Username p in
      if wp_CallerTokenIDs p = [] then
        (case os_remove (pf_remove flt u) u d of
           Inl RmFailed \<Rightarrow> (d, Inl (PRemoveEmpty u))
         | Inl RmNotExist \<Rightarrow> write_principals flt ps (removeAll u want) d
         | Inr d' \<Rightarrow> write_principals flt ps (removeAll u want) d')
      else
        (case atomicWritePrincipals flt u (wp_CallerTokenIDs p) d of
           (d', Inl e) \<Rightarrow> (d', Inl (PWrite u e))
         | (d', Inr _) \<Rightarrow> write_principals flt ps want d'))"

text \<open>The loop that deletes the files of users the policy dropped.\<close>

fun remove_stale ::
  "pol_faults \<Rightarrow> string list \<Rightarrow> (string \<times> bool) list \<Rightarrow> pdir \<Rightarrow> pdir \<times> (policy_error, unit) result" where
  "remove_stale flt want [] d = (d, Inr ())"
| "remove_stale flt want ((n, isdir) # es) d =
     (if isdir \<or> n \<in> set want then remove_stale flt want es d
      else case os_remove (pf_remove flt n) n d of
        Inl RmFailed \<Rightarrow> (d, Inl (PRemoveStale n))
      | Inl RmNotExist \<Rightarrow> remove_stale flt want es d
      | Inr d' \<Rightarrow> remove_stale flt want es d')"

definition renderPrincipalsDir ::
  "pol_faults \<Rightarrow> policy_payload \<Rightarrow> pdir \<Rightarrow> pdir \<times> (policy_error, unit) result" where
  "renderPrincipalsDir flt snap d =
     (if pf_mkdir flt then (d, Inl PMkdir)
      else let d0 = d\<lparr>pd_exists := True\<rparr> in
      case validatePolicyPayload (pl_Principals snap) of
        Inl e \<Rightarrow> (d0, Inl e)
      | Inr _ \<Rightarrow>
          (case write_principals flt (pl_Principals snap) (map wp_Username (pl_Principals snap)) d0 of
             (d1, Inl e) \<Rightarrow> (d1, Inl e)
           | (d1, Inr want) \<Rightarrow>
               (case read_dir (pf_readdir flt) d1 of
                  None \<Rightarrow> (d1, Inl PReadDir)
                | Some es \<Rightarrow> remove_stale flt want es d1)))"

definition doApplyPolicy ::
  "pol_faults \<Rightarrow> policy_payload \<Rightarrow> pdir \<Rightarrow> pdir \<times> (policy_error, unit) result" where
  "doApplyPolicy flt snap d = renderPrincipalsDir flt snap d"

text \<open>\<open>now\<close> is \<^verbatim>\<open>time.Now().Unix()\<close>, \<open>dir\<close> the configured principals directory.\<close>

definition runApplyPolicy ::
  "(policy_error \<Rightarrow> string) \<Rightarrow> pol_faults \<Rightarrow> int \<Rightarrow> string \<Rightarrow> policy_payload \<Rightarrow> policy_state \<times> pdir \<Rightarrow>
    policy_state \<times> pdir" where
  "runApplyPolicy errText flt now dir snap st =
     (case st of (ps, d) \<Rightarrow>
      if dir = [] then (ps, d)
      else case doApplyPolicy flt snap d of
        (d', Inl e) \<Rightarrow>
          (ps\<lparr>ps_lastApplyStatus := ''failed'', ps_lastApplyError := Some (errText e), ps_lastApplyAt := now\<rparr>, d')
      | (d', Inr _) \<Rightarrow>
          (ps\<lparr>ps_appliedVersion := pl_Version snap, ps_appliedHash := pl_Hash snap,
              ps_lastApplyStatus := ''ok'', ps_lastApplyError := None, ps_lastApplyAt := now\<rparr>, d'))"

fun wipe_entries :: "(string \<Rightarrow> bool) \<Rightarrow> (string \<times> bool) list \<Rightarrow> pdir \<Rightarrow> pdir" where
  "wipe_entries fails [] d = d"
| "wipe_entries fails ((n, isdir) # es) d =
     wipe_entries fails es (if isdir then d else try_remove (fails n) n d)"

definition wipePrincipals :: "pol_faults \<Rightarrow> pdir \<Rightarrow> pdir" where
  "wipePrincipals flt d =
     (case read_dir (pf_readdir flt) d of
        None \<Rightarrow> d
      | Some es \<Rightarrow> wipe_entries (pf_remove flt) es d)"

section \<open>The reader sshd runs\<close>

text \<open>\<open>readable\<close> says whether \<^verbatim>\<open>os.ReadFile\<close> of an existing file succeeds;
  \<^verbatim>\<open>filepath.Join(dir, "/")\<close> is the directory itself, which cannot be read as a file.\<close>

definition principalsFileContent :: "bool \<Rightarrow> string \<Rightarrow> string \<Rightarrow> pdir \<Rightarrow> string option" where
  "principalsFileContent readable dir username d =
     (let base = path_base username in
      if dir = [] \<or> base \<noteq> username \<or> base = ''.'' \<or> base = ''..'' then None
      else if readable \<and> base \<noteq> ''/'' then file_of d base else None)"

end
