(* ===== verification/Agent_Policy_Theorems.thy ===== *)
theory Agent_Policy_Theorems
  imports Agent_Policy
begin

text \<open>
  What applying a policy does to the principals directory: the outcome of every routine, the
  contents a concurrent reader can find on the way, and the files after a successful apply.
\<close>

section \<open>One file\<close>

text \<open>\<open>except N es d\<close>: the entries \<open>es\<close> are those of \<open>d\<close> outside the names \<open>N\<close>.\<close>

definition except :: "string set \<Rightarrow> entries \<Rightarrow> pdir \<Rightarrow> bool" where
  "except N es d \<longleftrightarrow> (\<forall>m. m \<notin> N \<longrightarrow> map_of es m = entry d m)"

lemma except_refl [simp]: "except N (pd_entries d) d"
  by (simp add: except_def entry_def)

lemma except_trans:
  "except N es d' \<Longrightarrow> except N (pd_entries d') d \<Longrightarrow> except N es d"
  by (simp add: except_def entry_def)

lemma except_states_trans:
  assumes "all_states (\<lambda>es. except N es d) d d'" "all_states (\<lambda>es. except N es d') d' d''"
    "except N (pd_entries d') d"
  shows "all_states (\<lambda>es. except N es d) d d''"
  using assms by (fastforce simp: all_states_def intro: except_trans)

lemma append_except:
  "all_states (\<lambda>es. except {n} es d) d (append_file n s d)" "except {n} (pd_entries (append_file n s d)) d"
proof -
  show e: "except {n} (pd_entries (append_file n s d)) d"
    using append_file_entry(1) [of n s d] by (simp add: except_def entry_def)
  show "all_states (\<lambda>es. except {n} es d) d (append_file n s d)"
    by (rule all_states_step) (simp_all add: append_file_entry e)
qed

lemma write_lines_effect:
  assumes "write_lines fails tmp ids k d = (d', ok)" "entry d tmp = Some (DFile s)"
  shows "except {tmp} (pd_entries d') d \<and> all_states (\<lambda>es. except {tmp} es d) d d'
     \<and> pd_exists d' = pd_exists d \<and> (dir_wf d \<longrightarrow> dir_wf d')
     \<and> (\<exists>t. entry d' tmp = Some (DFile t) \<and> (ok \<longrightarrow> t = s @ principals_text ids))"
  using assms
proof (induction ids arbitrary: k d s)
  case Nil
  then show ?case by (simp add: principals_text_def)
next
  case (Cons c cs)
  let ?s = "\<lambda>x. append_file tmp x d"
  have f: "file_of d tmp = Some s" using Cons.prems(2) by (simp add: file_of_entry)
  show ?case
  proof (cases "fails k")
    case None
    have e: "entry (?s (line_of c)) tmp = Some (DFile (s @ line_of c))"
      using f by (simp add: append_file_entry)
    have w: "write_lines fails tmp cs (Suc k) (?s (line_of c)) = (d', ok)"
      using Cons.prems(1) None by simp
    from Cons.IH [OF w e] have h: "except {tmp} (pd_entries d') (?s (line_of c))"
      "all_states (\<lambda>es. except {tmp} es (?s (line_of c))) (?s (line_of c)) d'"
      "pd_exists d' = pd_exists d" "dir_wf d \<longrightarrow> dir_wf d'"
      "\<exists>t. entry d' tmp = Some (DFile t) \<and> (ok \<longrightarrow> t = s @ principals_text (c # cs))"
      using dir_wf_calls(2) by (auto simp: append_file_entry principals_text_def)
    have "except {tmp} (pd_entries d') d"
      using except_trans [OF h(1)] append_except(2) .
    moreover have "all_states (\<lambda>es. except {tmp} es d) d d'"
      by (rule except_states_trans [OF append_except(1) h(2) append_except(2)])
    ultimately show ?thesis using h by blast
  next
    case (Some n)
    then have "d' = ?s (take n (line_of c))" "\<not> ok" using Cons.prems(1) by auto
    then show ?thesis
      using f append_except dir_wf_calls(2) by (auto simp: append_file_entry)
  qed
qed

lemma try_remove_except:
  "except {n} (pd_entries (try_remove fails n d)) d"
  "all_states (\<lambda>es. except {n} es d) d (try_remove fails n d)"
  "pd_exists (try_remove fails n d) = pd_exists d"
proof -
  show e: "except {n} (pd_entries (try_remove fails n d)) d"
    using try_remove_cases [of fails n d] by (auto simp: except_def entry_def)
  show "all_states (\<lambda>es. except {n} es d) d (try_remove fails n d)"
    using try_remove_cases [of fails n d] e by (auto intro: all_states_step simp: all_states_def)
  show "pd_exists (try_remove fails n d) = pd_exists d"
    using try_remove_cases [of fails n d] by auto
qed

text \<open>\<open>shows_only\<close>: outside the names \<open>N\<close>, the entries \<open>es\<close> show what \<open>d\<close> shows or what the
  policy \<open>ps\<close> wants for the name.\<close>

definition wanted :: "wire_principal \<Rightarrow> dentry option" where
  "wanted p = (if wp_CallerTokenIDs p = [] then None else Some (DFile (principals_text (wp_CallerTokenIDs p))))"

definition shows_only :: "string set \<Rightarrow> wire_principal list \<Rightarrow> pdir \<Rightarrow> entries \<Rightarrow> bool" where
  "shows_only N ps d es \<longleftrightarrow>
     (\<forall>m. m \<notin> N \<longrightarrow> map_of es m = entry d m \<or> (\<exists>p \<in> set ps. wp_Username p = m \<and> map_of es m = wanted p))"

lemma except_shows_only: "except N es d \<Longrightarrow> shows_only N ps d es"
  by (auto simp: except_def shows_only_def)

lemma except_states_shows_only:
  "all_states (\<lambda>es. except N es d) d d' \<Longrightarrow> all_states (shows_only N ps d) d d'"
  unfolding all_states_def using except_shows_only by blast

lemma shows_only_trans:
  assumes "shows_only N ps d' es" "shows_only N qs d (pd_entries d')"
  shows "shows_only N (qs @ ps) d es"
  unfolding shows_only_def
proof (intro allI impI)
  fix m assume m: "m \<notin> N"
  have "map_of es m = entry d' m \<or> (\<exists>p \<in> set ps. wp_Username p = m \<and> map_of es m = wanted p)"
    "entry d' m = entry d m \<or> (\<exists>p \<in> set qs. wp_Username p = m \<and> entry d' m = wanted p)"
    using assms m by (auto simp: shows_only_def entry_def)
  then show "map_of es m = entry d m \<or> (\<exists>p \<in> set (qs @ ps). wp_Username p = m \<and> map_of es m = wanted p)"
    by auto
qed

lemma shows_only_mono: "shows_only N ps d es \<Longrightarrow> N \<subseteq> M \<Longrightarrow> set ps \<subseteq> set qs \<Longrightarrow> shows_only M qs d es"
  unfolding shows_only_def by blast

lemma all_states_mono: "all_states P d d' \<Longrightarrow> (\<And>e. P e \<Longrightarrow> Q e) \<Longrightarrow> all_states Q d d'"
  unfolding all_states_def by blast

lemma tmp_name_neq [simp]: "tmp_name u \<noteq> u" "u \<noteq> tmp_name u"
  by (simp_all add: tmp_name_def)

lemma atomicWritePrincipals_effect:
  assumes "atomicWritePrincipals flt (wp_Username p) (wp_CallerTokenIDs p) d = (d', r)"
    "wp_CallerTokenIDs p \<noteq> []"
  shows "all_states (shows_only {tmp_name (wp_Username p)} [p] d) d d' \<and> pd_exists d' = pd_exists d
     \<and> (dir_wf d \<longrightarrow> dir_wf d')
     \<and> (r = Inr () \<longrightarrow> entry d' = ((entry d)(tmp_name (wp_Username p) := None))(wp_Username p := wanted p))
     \<and> (r \<noteq> Inr () \<longrightarrow> except {tmp_name (wp_Username p)} (pd_entries d') d)"
proof -
  let ?u = "wp_Username p" and ?tmp = "tmp_name (wp_Username p)" and ?ids = "wp_CallerTokenIDs p"
  show ?thesis
  proof (cases "open_trunc (pf_open flt ?tmp) ?tmp d")
    case None
    then show ?thesis using assms(1) by (auto simp: atomicWritePrincipals_def)
  next
    case (Some d1)
    note o = open_trunc_Some [OF Some]
    have e1: "except {?tmp} (pd_entries d1) d" using o by (simp add: except_def entry_def)
    have s1: "all_states (\<lambda>es. except {?tmp} es d) d d1" using o e1 by (auto intro: all_states_step)
    obtain d2 ok where w: "write_lines (pf_write flt ?tmp) ?tmp ?ids 0 d1 = (d2, ok)" by fastforce
    note we = write_lines_effect [OF w, of "[]"]
    have w2: "except {?tmp} (pd_entries d2) d" "all_states (\<lambda>es. except {?tmp} es d) d d2"
      "pd_exists d2 = pd_exists d" "dir_wf d \<longrightarrow> dir_wf d2" "ok \<longrightarrow> entry d2 ?tmp = wanted p"
      using o we except_trans [OF _ e1] except_states_trans [OF s1 _ e1] dir_wf_calls(1) [OF _ Some] assms(2)
      by (auto simp: wanted_def)
    have clean: ?thesis if "d' = try_remove (pf_remove flt ?tmp) ?tmp d2" "r \<noteq> Inr ()"
      using that w2 try_remove_except [where n = ?tmp and fails = "pf_remove flt ?tmp" and d = d2] except_trans [OF _ w2(1)]
        except_states_trans [OF w2(2) _ w2(1)] dir_wf_calls(4) except_states_shows_only by auto
    show ?thesis
    proof (cases "ok \<and> \<not> pf_sync flt ?tmp \<and> \<not> pf_close flt ?tmp \<and> os_rename (pf_rename flt ?tmp) ?tmp ?u d2 \<noteq> None")
      case False
      then show ?thesis using assms(1) Some w
        by (intro clean) (auto simp: atomicWritePrincipals_def Let_def restrictPrincipalsFileACL_def
            split: if_splits option.splits)
    next
      case True
      then obtain d3 where d3: "os_rename (pf_rename flt ?tmp) ?tmp ?u d2 = Some d3" by blast
      have r: "d' = d3" "r = Inr ()" using assms(1) Some w True d3
        by (auto simp: atomicWritePrincipals_def Let_def restrictPrincipalsFileACL_def)
      note rn = os_rename_Some [OF d3]
      have ed: "entry d2 m = entry d m" if "m \<noteq> ?tmp" for m
        using w2(1) that by (simp add: except_def entry_def)
      have e3: "entry d3 = ((entry d)(?tmp := None))(?u := wanted p)"
        using rn w2(5) True ed by (auto simp: fun_eq_iff)
      have "shows_only {?tmp} [p] d (pd_entries d3)"
        using e3 by (auto simp: shows_only_def entry_def)
      then have "all_states (shows_only {?tmp} [p] d) d2 d3"
        using rn by (auto intro: all_states_step)
      then have "all_states (shows_only {?tmp} [p] d) d d3"
        by (rule all_states_trans [OF except_states_shows_only [OF w2(2)]])
      moreover have "dir_wf d \<longrightarrow> dir_wf d3" using w2(4) dir_wf_calls(5) [OF _ d3] by blast
      ultimately show ?thesis using r e3 rn w2(3) by auto
    qed
  qed
qed

section \<open>The loop over the policy\<close>

text \<open>No file written earlier is the temporary file of a later one, and no user is listed twice.\<close>

definition tmp_safe :: "wire_principal list \<Rightarrow> bool" where
  "tmp_safe ps \<longleftrightarrow> sorted_wrt (\<lambda>p q. wp_Username p \<noteq> wp_Username q
      \<and> wp_Username p \<noteq> tmp_name (wp_Username q)) ps"

lemma append_greater: "t \<noteq> [] \<Longrightarrow> (u :: string) < u @ t"
  by (induction u) (auto simp: neq_Nil_conv)

lemma sorted_tmp_safe: "sorted_wrt (<) (map wp_Username ps) \<Longrightarrow> tmp_safe ps"
  unfolding tmp_safe_def sorted_wrt_map
proof (rule sorted_wrt_mono_rel)
  fix p q :: wire_principal
  assume "wp_Username p < wp_Username q"
  moreover have "wp_Username q < tmp_name (wp_Username q)" by (simp add: tmp_name_def append_greater)
  ultimately show "wp_Username p \<noteq> wp_Username q \<and> wp_Username p \<noteq> tmp_name (wp_Username q)" by auto
qed

abbreviation tmps :: "wire_principal list \<Rightarrow> string set" where
  "tmps ps \<equiv> (tmp_name \<circ> wp_Username) ` set ps"

lemma os_remove_states:
  assumes "os_remove fails (wp_Username p) d = Inr d'" "wp_CallerTokenIDs p = []"
  shows "all_states (shows_only N [p] d) d d' \<and> shows_only N [p] d (pd_entries d')
    \<and> entry d' = (entry d)(wp_Username p := wanted p)"
proof -
  have e: "entry d' = (entry d)(wp_Username p := wanted p)"
    using os_remove_Inr [OF assms(1)] assms(2) by (simp add: wanted_def)
  then have "shows_only N [p] d (pd_entries d')" by (auto simp: shows_only_def entry_def)
  with e os_remove_Inr [OF assms(1)] show ?thesis by (auto intro: all_states_step)
qed

text \<open>One round of the loop, on every branch that goes on.\<close>

definition round_done :: "wire_principal \<Rightarrow> pdir \<Rightarrow> pdir \<Rightarrow> bool" where
  "round_done p d d' \<longleftrightarrow> all_states (shows_only {tmp_name (wp_Username p)} [p] d) d d'
     \<and> pd_exists d' = pd_exists d \<and> (dir_wf d \<longrightarrow> dir_wf d')
     \<and> entry d' (wp_Username p) = wanted p
     \<and> (\<forall>m. m \<noteq> wp_Username p \<longrightarrow> m \<noteq> tmp_name (wp_Username p) \<longrightarrow> entry d' m = entry d m)"

lemma write_principals_round:
  assumes "write_principals flt (p # ps) want d = (d', r)"
  obtains (go) d1 where "round_done p d d1"
      "write_principals flt ps (if wp_CallerTokenIDs p = [] then removeAll (wp_Username p) want else want) d1 = (d', r)"
    | (stop) e where "r = Inl e" "all_states (shows_only {tmp_name (wp_Username p)} [p] d) d d'"
      "dir_wf d \<longrightarrow> dir_wf d'" "shows_only {tmp_name (wp_Username p)} [p] d (pd_entries d')"
proof (cases "wp_CallerTokenIDs p = []")
  case True
  show ?thesis
  proof (cases "os_remove (pf_remove flt (wp_Username p)) (wp_Username p) d")
    case (Inl e)
    show ?thesis
    proof (cases e)
      case RmNotExist
      then have n: "entry d (wp_Username p) = None" using Inl os_remove_NotExist by metis
      show ?thesis
        by (rule go [of d]) (use assms True Inl RmNotExist n in \<open>auto simp: round_done_def wanted_def\<close>)
    next
      case RmFailed
      show ?thesis using stop assms True Inl RmFailed except_shows_only by auto
    qed
  next
    case (Inr d1)
    have "dir_wf d \<longrightarrow> dir_wf d1" using dir_wf_calls(3) Inr by blast
    then have "round_done p d d1"
      using os_remove_states [OF Inr True] os_remove_Inr [OF Inr] by (simp add: round_done_def)
    then show ?thesis by (rule go) (use assms True Inr in simp)
  qed
next
  case False
  obtain d1 w where w: "atomicWritePrincipals flt (wp_Username p) (wp_CallerTokenIDs p) d = (d1, w)" by fastforce
  note we = atomicWritePrincipals_effect [OF w False]
  show ?thesis
  proof (cases w)
    case (Inl e)
    then show ?thesis using stop assms False w we except_shows_only by auto
  next
    case (Inr u)
    then have "round_done p d d1" using we by (simp add: round_done_def)
    then show ?thesis by (rule go) (use assms False w Inr in auto)
  qed
qed

lemma round_shows: "round_done p d d1 \<Longrightarrow> shows_only {tmp_name (wp_Username p)} [p] d (pd_entries d1)"
  unfolding round_done_def shows_only_def entry_def by (metis list.set_intros(1) singletonI)

lemma write_principals_states:
  assumes "write_principals flt ps want d = (d', r)"
  shows "all_states (shows_only (tmps ps) ps d) d d' \<and> shows_only (tmps ps) ps d (pd_entries d')
    \<and> (dir_wf d \<longrightarrow> dir_wf d')"
  using assms
proof (induction ps arbitrary: want d)
  case Nil
  then show ?case by (simp add: except_shows_only)
next
  case (Cons p ps)
  have m: "shows_only {tmp_name (wp_Username p)} [p] d e \<Longrightarrow> shows_only (tmps (p # ps)) (p # ps) d e" for e
    by (erule shows_only_mono) auto
  from Cons.prems show ?case
  proof (cases rule: write_principals_round)
    case (go d1)
    have t: "shows_only (tmps ps) ps d1 e \<Longrightarrow> shows_only (tmps (p # ps)) (p # ps) d e" for e
      using shows_only_trans [of "tmps (p # ps)" ps d1 e "[p]" d]
        shows_only_mono [of "tmps ps" ps d1 e "tmps (p # ps)" ps]
        shows_only_mono [OF round_shows [OF go(1)], of "tmps (p # ps)" "[p]"] by auto
    have a: "all_states (shows_only (tmps (p # ps)) (p # ps) d) d d1"
      using go(1) m unfolding round_done_def by (blast intro: all_states_mono)
    have "all_states (shows_only (tmps (p # ps)) (p # ps) d) d1 d'"
      using Cons.IH [OF go(2)] t by (blast intro: all_states_mono)
    with a have "all_states (shows_only (tmps (p # ps)) (p # ps) d) d d'" by (rule all_states_trans)
    then show ?thesis using Cons.IH [OF go(2)] t go(1) unfolding round_done_def by blast
  next
    case (stop e)
    then show ?thesis using m by (blast intro: all_states_mono)
  qed
qed

lemma write_principals_done:
  assumes "write_principals flt ps want d = (d', Inr want')" "tmp_safe ps"
  shows "set want' = set want - {wp_Username p |p. p \<in> set ps \<and> wp_CallerTokenIDs p = []}
    \<and> (\<forall>p \<in> set ps. entry d' (wp_Username p) = wanted p)
    \<and> (\<forall>m. m \<notin> wp_Username ` set ps \<longrightarrow> m \<notin> tmps ps \<longrightarrow> entry d' m = entry d m)
    \<and> pd_exists d' = pd_exists d"
  using assms
proof (induction ps arbitrary: want d)
  case Nil
  then show ?case by auto
next
  case (Cons p ps)
  have safe: "tmp_safe ps" "wp_Username p \<notin> wp_Username ` set ps" "wp_Username p \<notin> tmps ps"
    using Cons.prems(2) by (auto simp: tmp_safe_def)
  from Cons.prems(1) show ?case
  proof (cases rule: write_principals_round)
    case (go d1)
    note ih = Cons.IH [OF go(2) safe(1)]
    have rd: "pd_exists d1 = pd_exists d" "entry d1 (wp_Username p) = wanted p"
      "\<And>m. m \<noteq> wp_Username p \<Longrightarrow> m \<noteq> tmp_name (wp_Username p) \<Longrightarrow> entry d1 m = entry d m"
      using go(1) by (simp_all add: round_done_def)
    have "entry d' (wp_Username p) = wanted p" using ih rd(2) safe by auto
    then show ?thesis using ih rd by (auto split: if_splits)
  qed simp
qed

section \<open>Deleting stale files\<close>

definition shrinks :: "string set \<Rightarrow> pdir \<Rightarrow> entries \<Rightarrow> bool" where
  "shrinks gone d es \<longleftrightarrow> (\<forall>m. map_of es m = entry d m \<or> m \<in> gone \<and> map_of es m = None)"

lemma shrinks_refl [simp]: "shrinks gone d (pd_entries d)"
  by (simp add: shrinks_def entry_def)

lemma shrinks_trans: "shrinks g d (pd_entries d') \<Longrightarrow> shrinks h d' es \<Longrightarrow> shrinks (g \<union> h) d es"
  unfolding shrinks_def entry_def by (metis Un_iff)

definition stale :: "string list \<Rightarrow> (string \<times> bool) list \<Rightarrow> string set" where
  "stale want es = {n. (n, False) \<in> set es \<and> n \<notin> set want}"

lemma os_remove_shrinks:
  assumes "os_remove fails n d = Inr d'"
  shows "all_states (shrinks {n} d) d d' \<and> shrinks {n} d (pd_entries d')"
proof -
  have "shrinks {n} d (pd_entries d')"
    using os_remove_Inr [OF assms] by (auto simp: shrinks_def entry_def fun_upd_def)
  then show ?thesis using os_remove_Inr [OF assms] by (auto intro: all_states_step)
qed

lemma remove_stale_effect:
  assumes "remove_stale flt want es d = (d', r)"
  shows "all_states (shrinks (stale want es) d) d d' \<and> shrinks (stale want es) d (pd_entries d')
    \<and> (dir_wf d \<longrightarrow> dir_wf d') \<and> pd_exists d' = pd_exists d
    \<and> (r = Inr () \<longrightarrow> (\<forall>n \<in> stale want es. entry d' n = None))"
  using assms
proof (induction flt want es d rule: remove_stale.induct)
  case (1 flt want d)
  then show ?case by (simp add: stale_def)
next
  case (2 flt want n isdir es d)
  have sub: "stale want es \<subseteq> stale want ((n, isdir) # es)" by (auto simp: stale_def)
  have mono: "shrinks g d e \<Longrightarrow> g \<subseteq> h \<Longrightarrow> shrinks h d e" for g h d e
    unfolding shrinks_def by blast
  show ?case
  proof (cases "isdir \<or> n \<in> set want")
    case True
    then have "stale want ((n, isdir) # es) = stale want es" by (auto simp: stale_def)
    then show ?thesis using True 2 by simp
  next
    case False
    then have st: "stale want ((n, isdir) # es) = insert n (stale want es)" by (auto simp: stale_def)
    show ?thesis
    proof (cases "os_remove (pf_remove flt n) n d")
      case (Inl e)
      show ?thesis
      proof (cases e)
        case RmNotExist
        then have ne: "entry d n = None" using Inl os_remove_NotExist by metis
        note ih = 2(2) [OF False Inl RmNotExist]
        have "remove_stale flt want es d = (d', r)" using 2(4) False Inl RmNotExist by simp
        note ih = ih [OF this]
        have "entry d' n = None" using ih ne unfolding shrinks_def entry_def by metis
        then show ?thesis using ih sub mono unfolding st by (auto intro: all_states_mono)
      next
        case RmFailed
        then show ?thesis using 2(4) False Inl by auto
      qed
    next
      case (Inr d1)
      have "remove_stale flt want es d1 = (d', r)" using 2(4) False Inr by simp
      note ih = 2(3) [OF False Inr this]
      note rm = os_remove_shrinks [OF Inr]
      have t: "shrinks (stale want es) d1 e \<Longrightarrow> shrinks (insert n (stale want es)) d e" for e
        using shrinks_trans [of "{n}" d d1 "stale want es" e] rm by simp
      have "all_states (shrinks (insert n (stale want es)) d) d d1"
        using rm mono by (blast intro: all_states_mono)
      moreover have "all_states (shrinks (insert n (stale want es)) d) d1 d'"
        using ih t by (blast intro: all_states_mono)
      moreover have "entry d' n = None"
        using ih os_remove_Inr [OF Inr] unfolding shrinks_def entry_def by (metis fun_upd_same)
      ultimately show ?thesis
        using ih t all_states_trans dir_wf_calls(3) [OF _ Inr] os_remove_Inr [OF Inr] unfolding st by blast
    qed
  qed
qed

section \<open>A whole apply\<close>

text \<open>The abstract meaning of a policy: the file each user name has.\<close>

definition policy_files :: "wire_principal list \<Rightarrow> string \<Rightarrow> string option" where
  "policy_files ps u =
     (case find (\<lambda>p. wp_Username p = u) ps of
        None \<Rightarrow> None
      | Some p \<Rightarrow> if wp_CallerTokenIDs p = [] then None else Some (principals_text (wp_CallerTokenIDs p)))"

lemma tmp_safe_unique:
  "tmp_safe ps \<Longrightarrow> p \<in> set ps \<Longrightarrow> find (\<lambda>q. wp_Username q = wp_Username p) ps = Some p"
  by (induction ps) (auto simp: tmp_safe_def)

lemma policy_files_in:
  "tmp_safe ps \<Longrightarrow> p \<in> set ps \<Longrightarrow>
     policy_files ps (wp_Username p) = (case wanted p of Some (DFile s) \<Rightarrow> Some s | _ \<Rightarrow> None)"
  by (simp add: policy_files_def tmp_safe_unique wanted_def)

lemma policy_files_notin: "u \<notin> wp_Username ` set ps \<Longrightarrow> policy_files ps u = None"
proof -
  assume "u \<notin> wp_Username ` set ps"
  then have "find (\<lambda>p. wp_Username p = u) ps = None" by (auto simp: find_None_iff)
  then show ?thesis by (simp add: policy_files_def)
qed

lemma read_dir_stale:
  "read_dir fails d = Some es \<Longrightarrow> stale want es = {n. file_of d n \<noteq> None \<and> n \<notin> set want}"
proof -
  have m: "file_of d n \<noteq> None \<Longrightarrow> n \<in> fst ` set (pd_entries d)" for n
    by (cases "map_of (pd_entries d) n") (force simp: file_of_entry entry_def dest: map_of_SomeD)+
  show "read_dir fails d = Some es \<Longrightarrow> stale want es = {n. file_of d n \<noteq> None \<and> n \<notin> set want}"
    using m by (auto simp: read_dir_def stale_def image_image split: if_splits) (force simp: image_iff)
qed

lemma wanted_names:
  assumes "write_principals flt ps (map wp_Username ps) d = (d1, Inr want)" "tmp_safe ps"
  shows "u \<in> set want \<longleftrightarrow> (\<exists>p \<in> set ps. wp_Username p = u \<and> wp_CallerTokenIDs p \<noteq> [])"
    "u \<notin> set want \<Longrightarrow> policy_files ps u = None"
proof -
  have w: "set want = wp_Username ` set ps - {wp_Username p |p. p \<in> set ps \<and> wp_CallerTokenIDs p = []}"
    using write_principals_done [OF assms] by simp
  show iff: "u \<in> set want \<longleftrightarrow> (\<exists>p \<in> set ps. wp_Username p = u \<and> wp_CallerTokenIDs p \<noteq> [])"
  proof -
    have "p = q" if "p \<in> set ps" "q \<in> set ps" "wp_Username p = wp_Username q" for p q
      using tmp_safe_unique [OF assms(2) that(1)] tmp_safe_unique [OF assms(2) that(2)]
      unfolding that(3) by (metis option.inject)
    then show ?thesis unfolding w by auto
  qed
  show "u \<notin> set want \<Longrightarrow> policy_files ps u = None"
    unfolding iff using policy_files_in [OF assms(2)] policy_files_notin
    by (cases "u \<in> wp_Username ` set ps") (auto simp: wanted_def)
qed

lemma renderPrincipalsDir_exactI:
  assumes "renderPrincipalsDir flt snap d = (d', Inr ())" "tmp_safe (pl_Principals snap)"
  shows "file_of d' u = policy_files (pl_Principals snap) u"
proof -
  let ?ps = "pl_Principals snap"
  obtain d1 want es where w: "write_principals flt ?ps (map wp_Username ?ps) (d\<lparr>pd_exists := True\<rparr>) = (d1, Inr want)"
    and es: "read_dir (pf_readdir flt) d1 = Some es" and s: "remove_stale flt want es d1 = (d', Inr ())"
    using assms(1) by (auto simp: renderPrincipalsDir_def Let_def split: if_splits sum.splits prod.splits option.splits)
  note wd = write_principals_done [OF w assms(2)]
  note rs = remove_stale_effect [OF s]
  have sh: "entry d' u = entry d1 u \<or> u \<in> stale want es \<and> entry d' u = None"
    using rs unfolding shrinks_def entry_def by blast
  note st = read_dir_stale [OF es, of want]
  show ?thesis
  proof (cases "u \<in> set want")
    case True
    then obtain p where p: "p \<in> set ?ps" "wp_Username p = u" using wanted_names(1) [OF w assms(2)] by blast
    have "entry d' u = wanted p" using sh st True wd p by auto
    then show ?thesis using policy_files_in [OF assms(2) p(1)] p(2) by (simp add: file_of_entry)
  next
    case False
    have "file_of d' u = None"
    proof (cases "file_of d1 u")
      case None
      then show ?thesis using sh by (auto simp: file_of_entry)
    next
      case (Some x)
      then have "entry d' u = None" using rs st False by auto
      then show ?thesis by (simp add: file_of_entry)
    qed
    then show ?thesis using wanted_names(2) [OF w assms(2) False] by simp
  qed
qed

lemma file_in_map: "map_of es u = map_of es' u \<Longrightarrow> file_in es u = file_in es' u"
  by (simp add: file_in_def)

lemma shows_only_file:
  assumes "shows_only N ps d es" "tmp_safe ps" "u \<notin> N"
  shows "file_in es u = file_of d u \<or> file_in es u = policy_files ps u"
  using assms(1,3) policy_files_in [OF assms(2)]
  by (force simp: shows_only_def file_of_entry file_in_def)

text \<open>C24: No half-written principals file is ever visible: whatever system calls fail and wherever
  an apply stops, in every state of the directory on the way, a user's file is either the one
  from before the apply or the one the policy asks for (or absent, when the policy has none),
  for every name that is not a temporary name of the policy's users.\<close>

theorem renderPrincipalsDir_no_partial_file:
  assumes "renderPrincipalsDir flt snap d = (d', r)" "sorted_wrt (<) (map wp_Username (pl_Principals snap))"
    "es \<in> set (new_states d d')" "u \<notin> (tmp_name \<circ> wp_Username) ` set (pl_Principals snap)"
  shows "file_in es u = file_of d u \<or> file_in es u = policy_files (pl_Principals snap) u"
proof -
  let ?ps = "pl_Principals snap" and ?d0 = "d\<lparr>pd_exists := True\<rparr>"
  let ?P = "\<lambda>es. file_in es u = file_of d u \<or> file_in es u = policy_files ?ps u"
  have safe: "tmp_safe ?ps" using assms(2) by (rule sorted_tmp_safe)
  have d0: "pd_trace ?d0 = pd_trace d" "file_of ?d0 = file_of d" "entry ?d0 = entry d"
    by (simp_all add: file_of_def entry_def)
  obtain d1 w where w: "write_principals flt ?ps (map wp_Username ?ps) ?d0 = (d1, w)" by fastforce
  note ws = write_principals_states [OF w]
  have sf: "?P e" if "shows_only (tmps ?ps) ?ps ?d0 e" for e
    using shows_only_file [OF that safe assms(4)] unfolding d0 .
  have P1: "all_states ?P ?d0 d1" "?P (pd_entries d1)"
    using ws sf by (blast intro: all_states_mono)+
  have "all_states ?P ?d0 d'"
  proof (cases "pf_mkdir flt \<or> validatePolicyPayload ?ps \<noteq> Inr () \<or> d' = d1")
    case True
    then show ?thesis using assms(1) P1 d0(1)
      by (auto simp: renderPrincipalsDir_def Let_def all_states_def split: if_splits sum.splits)
  next
    case False
    then obtain want es' where s: "w = Inr want" "read_dir (pf_readdir flt) d1 = Some es'"
        "remove_stale flt want es' d1 = (d', r)"
      using assms(1) w by (auto simp: renderPrincipalsDir_def Let_def split: if_splits sum.splits option.splits)
    note none = wanted_names(2) [OF w [unfolded s(1)] safe, of u]
    have sh': "?P e" if sh: "shrinks (stale want es') d1 e" for e
    proof -
      have "map_of e u = map_of (pd_entries d1) u \<or> u \<in> stale want es' \<and> map_of e u = None"
        using sh unfolding shrinks_def entry_def by (rule spec)
      then show ?thesis
      proof
        assume e: "map_of e u = map_of (pd_entries d1) u"
        show ?thesis using P1(2) unfolding file_in_map [OF e] .
      next
        assume e: "u \<in> stale want es' \<and> map_of e u = None"
        then have "u \<notin> set want" "file_in e u = None" by (simp_all add: stale_def file_in_def)
        then show ?thesis using none by simp
      qed
    qed
    have "all_states (shrinks (stale want es') d1) d1 d'" using remove_stale_effect [OF s(3)] by simp
    then have "all_states ?P d1 d'" using sh' by (rule all_states_mono)
    with P1(1) show ?thesis by (rule all_states_trans)
  qed
  then have "all_states ?P d d'" by (simp add: all_states_def)
  from all_states_new [OF this assms(3)] show ?thesis .
qed

section \<open>What sshd is told\<close>

lemma valid_caller_no_newline: "validateCallerTokenID c \<Longrightarrow> CHR 0x0A \<notin> set c"
proof
  assume v: "validateCallerTokenID c" and "CHR 0x0A \<in> set c"
  then have "10 \<in> fst ` set (runes c)" using ascii_byte_rune [of "CHR 0x0A" c] by simp
  then show False using v by (auto simp: validateCallerTokenID_def list_all_iff caller_rune_ok_def is_space_def)
qed

text \<open>How sshd reads the reader's output: one principal per line.\<close>

definition output_lines :: "string option \<Rightarrow> string list" where
  "output_lines out = (case out of None \<Rightarrow> [] | Some s \<Rightarrow> filter (\<lambda>l. l \<noteq> []) (split_char (CHR 0x0A) s))"

lemma output_lines_text:
  "\<forall>c \<in> set ids. validateCallerTokenID c \<Longrightarrow> output_lines (Some (principals_text ids)) = ids"
proof (induction ids)
  case (Cons c cs)
  have "c \<noteq> []" using Cons.prems by (simp add: validateCallerTokenID_def)
  then show ?case
    using Cons valid_caller_no_newline [of c]
    by (simp add: output_lines_def principals_text_def line_of_def split_char_field)
qed (simp add: output_lines_def principals_text_def)

lemma validate_callers_Inr: "validate_callers cs = Inr () \<longleftrightarrow> (\<forall>c \<in> set cs. validateCallerTokenID c)"
  by (induction cs) auto

lemma validatePolicyPayload_Inr:
  "validatePolicyPayload ps = Inr () \<longleftrightarrow>
     (\<forall>p \<in> set ps. validateUsername (wp_Username p) \<and> (\<forall>c \<in> set (wp_CallerTokenIDs p). validateCallerTokenID c))"
  by (induction ps) (auto split: sum.splits simp: validate_callers_Inr [symmetric])

lemma principalsFileContent_iff:
  "principalsFileContent True dir u d =
     (if dir = [] \<or> CHR ''/'' \<in> set u \<or> u \<in> {[], ''.'', ''..''} then None else file_of d u)"
proof (cases "CHR ''/'' \<in> set u \<or> u = []")
  case True
  then consider "u = []" | "path_base u \<noteq> u" | "u = ''/''" using path_base_slash by blast
  then show ?thesis using True by cases (auto simp: principalsFileContent_def Let_def path_base_def [of "[]"])
next
  case False
  then have "path_base u = u" using path_base_plain by blast
  then show ?thesis using False by (auto simp: principalsFileContent_def)
qed

section \<open>The properties of an apply\<close>

text \<open>The callers a policy grants a login name.\<close>

definition granted_callers :: "wire_principal list \<Rightarrow> string \<Rightarrow> string list" where
  "granted_callers ps u = (case find (\<lambda>p. wp_Username p = u) ps of None \<Rightarrow> [] | Some p \<Rightarrow> wp_CallerTokenIDs p)"

lemma policy_files_lines:
  assumes "validatePolicyPayload ps = Inr ()"
  shows "output_lines (policy_files ps u) = granted_callers ps u"
proof (cases "find (\<lambda>p. wp_Username p = u) ps")
  case (Some p)
  then have "p \<in> set ps" by (auto simp: find_Some_iff)
  then have "\<forall>c \<in> set (wp_CallerTokenIDs p). validateCallerTokenID c"
    using assms by (simp add: validatePolicyPayload_Inr)
  then show ?thesis using Some output_lines_text by (simp add: policy_files_def granted_callers_def output_lines_def)
qed (simp add: policy_files_def granted_callers_def output_lines_def)

lemma render_validated:
  "renderPrincipalsDir flt snap d = (d', Inr ()) \<Longrightarrow> validatePolicyPayload (pl_Principals snap) = Inr ()"
  by (auto simp: renderPrincipalsDir_def Let_def split: if_splits sum.splits)

lemma sshd_reads_policy:
  assumes "renderPrincipalsDir flt snap d = (d', Inr ())"
    "sorted_wrt (<) (map wp_Username (pl_Principals snap))" "dir \<noteq> []"
  shows "output_lines (principalsFileContent True dir u d') =
     (if CHR ''/'' \<in> set u \<or> u \<in> {[], ''.'', ''..''} then [] else granted_callers (pl_Principals snap) u)"
  using renderPrincipalsDir_exactI [OF assms(1) sorted_tmp_safe [OF assms(2)]] assms(3)
    policy_files_lines [OF render_validated [OF assms(1)]]
  by (simp add: principalsFileContent_iff output_lines_def)

text \<open>C4: What sshd is told after a policy has been applied: the reader prints, for every login
  name, exactly the callers the policy grants that name, one per line and in the policy's order;
  for a name that is empty, dotted or holds a slash it prints nothing, whatever the directory
  held before.\<close>

theorem sshd_is_told_the_policy:
  assumes "renderPrincipalsDir flt snap d = (d', Inr ())"
    "sorted_wrt (<) (map wp_Username (pl_Principals snap))" "dir \<noteq> []"
  shows "output_lines (principalsFileContent True dir u d') =
     (if CHR ''/'' \<in> set u \<or> u \<in> {[], ''.'', ''..''} then [] else granted_callers (pl_Principals snap) u)"
  using assms by (rule sshd_reads_policy)

text \<open>The state an agent reports is what is on its disk: an apply either succeeds, and then
  the recorded version and hash are the snapshot's and the principals files are exactly the
  policy's; or it fails, and then the version and hash stay what they were, the status is
  \<open>failed\<close>, and an error is recorded.\<close>

theorem runApplyPolicy_reports_truth:
  assumes "runApplyPolicy errText flt now dir snap (ps, d) = (ps', d')" "dir \<noteq> []"
    "sorted_wrt (<) (map wp_Username (pl_Principals snap))"
  shows "ps_lastApplyAt ps' = now \<and>
    (ps_lastApplyStatus ps' = ''ok'' \<and> ps_appliedVersion ps' = pl_Version snap \<and> ps_appliedHash ps' = pl_Hash snap
       \<and> ps_lastApplyError ps' = None \<and> file_of d' = policy_files (pl_Principals snap)
   \<or> ps_lastApplyStatus ps' = ''failed'' \<and> ps_appliedVersion ps' = ps_appliedVersion ps
       \<and> ps_appliedHash ps' = ps_appliedHash ps \<and> ps_lastApplyError ps' \<noteq> None)"
proof (cases "snd (doApplyPolicy flt snap d)")
  case (Inl e)
  then show ?thesis using assms(1,2) by (cases "doApplyPolicy flt snap d") (auto simp: runApplyPolicy_def)
next
  case (Inr u)
  then have r: "renderPrincipalsDir flt snap d = (fst (doApplyPolicy flt snap d), Inr ())"
    by (simp add: doApplyPolicy_def prod_eq_iff)
  have "file_of (fst (doApplyPolicy flt snap d)) = policy_files (pl_Principals snap)"
    using renderPrincipalsDir_exactI [OF r sorted_tmp_safe [OF assms(3)]] by blast
  then show ?thesis using assms(1,2) Inr by (cases "doApplyPolicy flt snap d") (auto simp: runApplyPolicy_def)
qed

text \<open>A policy with one bad user name or caller identifier is refused as a whole, and no file
  is touched: the files and the history of the directory stay as they were.\<close>

theorem renderPrincipalsDir_rejects_invalid:
  assumes "p \<in> set (pl_Principals snap)"
    "\<not> validateUsername (wp_Username p) \<or> (\<exists>c \<in> set (wp_CallerTokenIDs p). \<not> validateCallerTokenID c)"
  shows "\<exists>e. snd (renderPrincipalsDir flt snap d) = Inl e
    \<and> pd_entries (fst (renderPrincipalsDir flt snap d)) = pd_entries d
    \<and> pd_trace (fst (renderPrincipalsDir flt snap d)) = pd_trace d"
proof -
  have "validatePolicyPayload (pl_Principals snap) \<noteq> Inr ()"
    using assms by (auto simp: validatePolicyPayload_Inr)
  then obtain e where "validatePolicyPayload (pl_Principals snap) = Inl e"
    by (cases "validatePolicyPayload (pl_Principals snap)") auto
  then show ?thesis by (simp add: renderPrincipalsDir_def)
qed

section \<open>When an apply succeeds\<close>

definition no_pol_faults :: pol_faults where
  "no_pol_faults = \<lparr>pf_mkdir = False, pf_open = (\<lambda>_. False), pf_write = (\<lambda>_ _. None), pf_sync = (\<lambda>_. False),
     pf_close = (\<lambda>_. False), pf_rename = (\<lambda>_. False), pf_remove = (\<lambda>_. False), pf_readdir = False\<rparr>"

definition only_files :: "pdir \<Rightarrow> bool" where
  "only_files d \<longleftrightarrow> (\<forall>n b. entry d n \<noteq> Some (DDir b))"

lemma write_lines_ok: "snd (write_lines (\<lambda>_. None) tmp ids k d)"
  by (induction ids arbitrary: k d) simp_all

lemma only_files_openable: "only_files d \<Longrightarrow> \<exists>d1. open_trunc False n d = Some d1"
  by (cases "entry d n") (auto simp: open_trunc_def only_files_def split: dentry.splits)

lemma atomicWrite_ok:
  assumes "only_files d"
  shows "\<exists>d'. atomicWritePrincipals no_pol_faults u ids d = (d', Inr ())"
proof -
  let ?tmp = "tmp_name u"
  obtain d1 where d1: "open_trunc False ?tmp d = Some d1" using only_files_openable assms by blast
  obtain d2 ok where w: "write_lines (\<lambda>_. None) ?tmp ids 0 d1 = (d2, ok)" by fastforce
  have ok: "ok" using write_lines_ok [of ?tmp ids 0 d1] w by simp
  note e1 = open_trunc_Some [OF d1]
  note e2 = write_lines_effect [OF w, of "[]"]
  obtain t where t: "entry d2 ?tmp = Some (DFile t)" using e1 e2 by auto
  have "entry d2 u = entry d u" using e1 e2 by (simp add: except_def entry_def)
  then have "os_rename False ?tmp u d2 \<noteq> None"
    using t assms by (auto simp: os_rename_def only_files_def)
  then show ?thesis using d1 w ok
    by (auto simp: atomicWritePrincipals_def no_pol_faults_def restrictPrincipalsFileACL_def Let_def)
qed

lemma only_files_remove: "only_files d \<Longrightarrow> os_remove False n d = Inl RmNotExist
    \<or> (\<exists>d'. os_remove False n d = Inr d' \<and> only_files d')"
proof (cases "entry d n")
  case (Some e)
  assume o: "only_files d"
  then obtain s where "e = DFile s" using Some by (cases e) (auto simp: only_files_def)
  then have r: "os_remove False n d = Inr (put_entries (AList.delete n (pd_entries d)) d)"
    using Some by (simp add: os_remove_def)
  have "only_files (put_entries (AList.delete n (pd_entries d)) d)"
    using o by (auto simp: only_files_def delete_conv' entry_def [of d])
  with r show ?thesis by blast
qed (simp add: os_remove_def)

lemma write_principals_ok:
  "only_files d \<Longrightarrow> \<exists>d' want'. write_principals no_pol_faults ps want d = (d', Inr want') \<and> only_files d'"
proof (induction ps arbitrary: want d)
  case (Cons p ps)
  show ?case
  proof (cases "wp_CallerTokenIDs p = []")
    case True
    then show ?thesis using Cons only_files_remove [OF Cons.prems, of "wp_Username p"]
      by (auto simp: no_pol_faults_def)
  next
    case False
    obtain d1 where w: "atomicWritePrincipals no_pol_faults (wp_Username p) (wp_CallerTokenIDs p) d = (d1, Inr ())"
      using atomicWrite_ok [OF Cons.prems] by blast
    have "only_files d1" using atomicWritePrincipals_effect [OF w False] Cons.prems
      by (auto simp: only_files_def wanted_def)
    then show ?thesis using Cons.IH False w by auto
  qed
qed simp

lemma remove_stale_ok:
  "only_files d \<Longrightarrow> \<exists>d'. remove_stale no_pol_faults want es d = (d', Inr ())"
proof (induction es arbitrary: d)
  case (Cons e es)
  obtain n isdir where e: "e = (n, isdir)" by fastforce
  show ?case using Cons only_files_remove [OF Cons.prems, of n] by (auto simp: e no_pol_faults_def)
qed simp

lemma write_principals_exists:
  "write_principals flt ps want d = (d', Inr want') \<Longrightarrow> pd_exists d' = pd_exists d"
proof (induction ps arbitrary: want d)
  case (Cons p ps)
  from Cons.prems show ?case
    by (cases rule: write_principals_round) (use Cons.IH in \<open>auto simp: round_done_def\<close>)
qed simp

lemma render_succeeds:
  assumes "only_files d" "validatePolicyPayload (pl_Principals snap) = Inr ()"
  shows "\<exists>d'. renderPrincipalsDir no_pol_faults snap d = (d', Inr ())"
proof -
  let ?d0 = "d\<lparr>pd_exists := True\<rparr>"
  have "only_files ?d0" using assms(1) by (simp add: only_files_def entry_def)
  then obtain d1 want where w: "write_principals no_pol_faults (pl_Principals snap)
      (map wp_Username (pl_Principals snap)) ?d0 = (d1, Inr want)" "only_files d1"
    using write_principals_ok by blast
  have "pd_exists d1" using write_principals_exists [OF w(1)] by simp
  then obtain es where es: "read_dir False d1 = Some es" by (simp add: read_dir_def)
  obtain d' where "remove_stale no_pol_faults want es d1 = (d', Inr ())" using remove_stale_ok [OF w(2)] by blast
  then have "renderPrincipalsDir no_pol_faults snap d = (d', Inr ())"
    using assms(2) w(1) es by (simp add: renderPrincipalsDir_def no_pol_faults_def)
  then show ?thesis by blast
qed

section \<open>Wiping\<close>

lemma try_remove_file: "file_of (try_remove fails n d) m = (if m = n \<and> \<not> fails then None else file_of d m)"
  by (auto simp: try_remove_def os_remove_def file_of_entry delete_conv' entry_def [of d]
      split: option.splits dentry.splits bool.splits)

lemma wipe_entries_files:
  "file_of (wipe_entries fails es d) n = (if (n, False) \<in> set es \<and> \<not> fails n then None else file_of d n)"
  by (induction fails es d rule: wipe_entries.induct) (auto simp: try_remove_file)

lemma wipePrincipals_files:
  assumes "\<not> pf_readdir flt" "pd_exists d"
  shows "file_of (wipePrincipals flt d) n = (if pf_remove flt n then file_of d n else None)"
proof -
  obtain es where es: "read_dir (pf_readdir flt) d = Some es" using assms by (simp add: read_dir_def)
  have "(n, False) \<in> set es \<or> file_of d n = None" using read_dir_stale [OF es, of "[]"] by (auto simp: stale_def)
  then show ?thesis using es by (auto simp: wipePrincipals_def wipe_entries_files)
qed

section \<open>Witnesses\<close>

definition demo_pdir :: pdir where
  "demo_pdir = \<lparr>pd_exists = True, pd_entries = [(''bob'', DFile ''OLD''), (''root'', DFile ''X'')], pd_trace = []\<rparr>"

definition demo_payload :: policy_payload where
  "demo_payload = \<lparr>pl_Version = 3, pl_Hash = ''h3'',
     pl_Principals = [\<lparr>wp_Username = ''root'', wp_CallerTokenIDs = [''C1'', ''C2'']\<rparr>,
                      \<lparr>wp_Username = ''web'', wp_CallerTokenIDs = [''C2'']\<rparr>]\<rparr>"

lemma demo_payload_facts:
  "validatePolicyPayload (pl_Principals demo_payload) = Inr ()"
  "sorted_wrt (<) (map wp_Username (pl_Principals demo_payload))" "only_files demo_pdir"
  by (simp_all add: demo_payload_def validateUsername_def contains_any_def validateCallerTokenID_def runes_ascii
      caller_rune_ok_def is_space_def only_files_def demo_pdir_def entry_def)

theorem sshd_is_told_the_policy_witness:
  "\<exists>d'. renderPrincipalsDir no_pol_faults demo_payload demo_pdir = (d', Inr ())
     \<and> output_lines (principalsFileContent True ''/etc/ssh/auth_principals'' ''root'' d') = [''C1'', ''C2'']
     \<and> output_lines (principalsFileContent True ''/etc/ssh/auth_principals'' ''bob'' d') = []"
proof -
  obtain d' where r: "renderPrincipalsDir no_pol_faults demo_payload demo_pdir = (d', Inr ())"
    using render_succeeds [OF demo_payload_facts(3,1)] by blast
  show ?thesis
    using r sshd_is_told_the_policy [OF r demo_payload_facts(2), of "''/etc/ssh/auth_principals''" "''root''"]
      sshd_is_told_the_policy [OF r demo_payload_facts(2), of "''/etc/ssh/auth_principals''" "''bob''"]
    by (simp add: granted_callers_def demo_payload_def)
qed

definition demo_ps :: policy_state where
  "demo_ps = \<lparr>ps_appliedVersion = 2, ps_appliedHash = ''h2'', ps_lastApplyStatus = ''ok'',
     ps_lastApplyError = None, ps_lastApplyAt = 5\<rparr>"

theorem runApplyPolicy_reports_truth_witness:
  "\<exists>ps' d'. runApplyPolicy (\<lambda>_. ''err'') no_pol_faults 9 ''/d'' demo_payload (demo_ps, demo_pdir) = (ps', d')
     \<and> ps_lastApplyAt ps' = 9 \<and> (ps_appliedVersion ps' = 3 \<and> file_of d' = policy_files (pl_Principals demo_payload)
         \<or> ps_appliedVersion ps' = 2)"
proof -
  obtain ps' d' where r: "runApplyPolicy (\<lambda>_. ''err'') no_pol_faults 9 ''/d'' demo_payload (demo_ps, demo_pdir) = (ps', d')"
    by fastforce
  from runApplyPolicy_reports_truth [OF r _ demo_payload_facts(2)] r show ?thesis
    by (auto simp: demo_ps_def demo_payload_def)
qed

theorem renderPrincipalsDir_rejects_invalid_witness:
  "\<exists>e. snd (renderPrincipalsDir no_pol_faults
        (demo_payload\<lparr>pl_Principals := [\<lparr>wp_Username = ''a b'', wp_CallerTokenIDs = [''C1'']\<rparr>]\<rparr>) demo_pdir) = Inl e"
  using renderPrincipalsDir_rejects_invalid [of "\<lparr>wp_Username = ''a b'', wp_CallerTokenIDs = [''C1'']\<rparr>"
      "demo_payload\<lparr>pl_Principals := [\<lparr>wp_Username = ''a b'', wp_CallerTokenIDs = [''C1'']\<rparr>]\<rparr>" no_pol_faults demo_pdir]
  by (auto simp: validateUsername_def contains_any_def)

lemma demo_torn_write:
  "\<exists>d'. renderPrincipalsDir (no_pol_faults\<lparr>pf_write := \<lambda>_ k. if k = 1 then Some 1 else None\<rparr>)
       demo_payload demo_pdir = (d', Inl (PWrite ''root'' WWrite))
     \<and> [(''bob'', DFile ''OLD''), (''root'', DFile ''X''), (''root.tmp'', DFile [CHR ''C'', CHR ''1'', CHR 0x0A, CHR ''C''])]
         \<in> set (new_states demo_pdir d')"
  using demo_payload_facts(1)
  by (simp add: renderPrincipalsDir_def no_pol_faults_def demo_payload_def demo_pdir_def atomicWritePrincipals_def
      tmp_name_def open_trunc_def entry_def put_entries_def append_file_def file_of_def file_in_def line_of_def
      try_remove_def os_remove_def new_states_def Let_def)

theorem renderPrincipalsDir_no_partial_file_witness:
  "\<exists>d' es. renderPrincipalsDir (no_pol_faults\<lparr>pf_write := \<lambda>_ k. if k = 1 then Some 1 else None\<rparr>)
       demo_payload demo_pdir = (d', Inl (PWrite ''root'' WWrite))
     \<and> es \<in> set (new_states demo_pdir d')
     \<and> (file_in es ''root'' = Some ''X'' \<or> file_in es ''root'' = policy_files (pl_Principals demo_payload) ''root'')"
proof -
  obtain d' es where r: "renderPrincipalsDir (no_pol_faults\<lparr>pf_write := \<lambda>_ k. if k = 1 then Some 1 else None\<rparr>)
       demo_payload demo_pdir = (d', Inl (PWrite ''root'' WWrite))" and es: "es \<in> set (new_states demo_pdir d')"
    using demo_torn_write by blast
  have "''root'' \<notin> (tmp_name \<circ> wp_Username) ` set (pl_Principals demo_payload)"
    by (simp add: demo_payload_def tmp_name_def)
  from renderPrincipalsDir_no_partial_file [OF r demo_payload_facts(2) es this] r es show ?thesis
    by (auto simp: demo_pdir_def file_of_def file_in_def)
qed

end
