(* ===== verification/Agent_Loop.thy ===== *)
theory Agent_Loop
  imports Agent_Policy_Theorems
begin

text \<open>
  The agent's run loop (\<^verbatim>\<open>internal/agent/agent.go\<close>, \<^verbatim>\<open>internal/agent/http.go\<close>): the heartbeat
  goroutine, the apply worker and the one-place channel between them. The goroutines interleave:
  \<open>agent_step\<close> has one rule per atomic action, and the heartbeat goroutine's position inside the
  three \<^verbatim>\<open>select\<close> statements that hand a snapshot to the worker is a program counter. One apply
  of the worker, one wipe and one fail-closed apply are each a single step.

  \<open>al_received\<close>, \<open>al_taken\<close> and \<open>al_healthy\<close> are history variables: the last snapshot the server
  sent, the last one the worker took from the channel, and how often the health hook ran.
\<close>

section \<open>The HTTP client\<close>

datatype client_error = ErrUnauthorized | ErrRevoked | ErrStatus nat | ErrTransport

text \<open>\<^verbatim>\<open>ServerClient.do\<close> from the response's status on; \<open>reply\<close> is \<^term>\<open>None\<close> when the request
  itself failed or the body could not be decoded.\<close>

definition client_do :: "nat \<Rightarrow> 'a option \<Rightarrow> (client_error, 'a) result" where
  "client_do status reply =
     (if status = 401 then Inl ErrUnauthorized
      else if status = 410 then Inl ErrRevoked
      else if 400 \<le> status then Inl (ErrStatus status)
      else case reply of None \<Rightarrow> Inl ErrTransport | Some out \<Rightarrow> Inr out)"

section \<open>The heartbeat request\<close>

text \<open>The health provider is optional; a call to it returns checks, an error or panics.\<close>

datatype provider_call = ProviderOk "health_check list" | ProviderErr string | ProviderPanic string

definition healthProviderFailCheck :: "string \<Rightarrow> health_check" where
  "healthProviderFailCheck msg = \<lparr>hc_Component = ''health_provider'', hc_Check = ''collect'', hc_State = ''fail'',
     hc_ErrorCode = Some ''provider_failure'', hc_Message = Some msg\<rparr>"

definition callHealthProvider :: "provider_call \<Rightarrow> (string, health_check list) result" where
  "callHealthProvider hp =
     (case hp of
        ProviderOk cs \<Rightarrow> Inr cs
      | ProviderErr e \<Rightarrow> Inl e
      | ProviderPanic r \<Rightarrow> Inl (''health provider panicked: '' @ r))"

definition collectHealth :: "provider_call option \<Rightarrow> health_check list" where
  "collectHealth provider =
     (case provider of
        None \<Rightarrow> []
      | Some hp \<Rightarrow>
          (case callHealthProvider hp of
             Inl e \<Rightarrow> [healthProviderFailCheck e]
           | Inr cs \<Rightarrow> cs))"

text \<open>The request \<^verbatim>\<open>heartbeatOnceV2\<close> sends; the optional metrics are left out.\<close>

definition heartbeat_request_of ::
  "string \<Rightarrow> string \<Rightarrow> int \<Rightarrow> wire_endpoint list \<Rightarrow> provider_call option \<Rightarrow> policy_state \<Rightarrow> heartbeat_request" where
  "heartbeat_request_of agentID version now endpoints hp ps =
     \<lparr>hbr_AgentID = agentID, hbr_AgentVersion = version, hbr_ObservedAt = now, hbr_Endpoints = endpoints,
      hbr_PolicyState = \<lparr>wps_DesiredVersion = None, wps_AppliedVersion = ps_appliedVersion ps,
        wps_AppliedHash = ps_appliedHash ps,
        wps_LastApplyStatus = (if ps_lastApplyStatus ps = [] then ''ok'' else ps_lastApplyStatus ps),
        wps_LastApplyError = ps_lastApplyError ps, wps_LastApplyAt = ps_lastApplyAt ps\<rparr>,
      hbr_Health = collectHealth hp\<rparr>"

section \<open>State\<close>

datatype run_error = RunUnauthorized | RunDeprovisioned | RunCancelled

datatype hb_pc = HIdle | HSend policy_payload | HDrain policy_payload | HResend policy_payload | HDone run_error

record agent_state =
  al_ps :: policy_state
  al_dir :: pdir
  al_ch :: "policy_payload option"
  al_worker :: "policy_payload option"
  al_hb :: hb_pc
  al_fca :: "int option"
  al_lastOK :: "gotime option"
  al_marker :: bool
  al_received :: "policy_payload option"
  al_taken :: "policy_payload option"
  al_healthy :: nat

section \<open>The actions\<close>

text \<open>The bookkeeping of a successful heartbeat.\<close>

definition heartbeat_ok :: "gotime \<Rightarrow> int option \<Rightarrow> agent_state \<Rightarrow> agent_state" where
  "heartbeat_ok now fca s =
     s\<lparr>al_lastOK := Some now, al_fca := fca,
       al_healthy := al_healthy s + (if al_lastOK s = None then 1 else 0)\<rparr>"

text \<open>The test of \<^verbatim>\<open>checkFailClosed\<close>: \<^verbatim>\<open>time.Duration(*fca)*time.Second\<close> is 64-bit arithmetic.\<close>

definition fail_closed_due :: "gotime \<Rightarrow> int option \<Rightarrow> gotime option \<Rightarrow> bool" where
  "fail_closed_due now fca lastOK =
     (case fca of
        None \<Rightarrow> False
      | Some f \<Rightarrow>
          if f \<le> 0 then False
          else case lastOK of
            None \<Rightarrow> False
          | Some t \<Rightarrow> wrap64 (f * 1000000000) \<le> now - t)"

definition empty_payload :: policy_payload where
  "empty_payload = \<lparr>pl_Version = 0, pl_Hash = [], pl_Principals = []\<rparr>"

definition apply_to :: "(policy_error \<Rightarrow> string) \<Rightarrow> string \<Rightarrow> pol_faults \<Rightarrow> gotime \<Rightarrow> policy_payload \<Rightarrow>
    agent_state \<Rightarrow> agent_state" where
  "apply_to errText dir flt now snap s =
     (let (ps, d) = runApplyPolicy errText flt (unix_of now) dir snap (al_ps s, al_dir s)
      in s\<lparr>al_ps := ps, al_dir := d\<rparr>)"

definition checkFailClosed :: "(policy_error \<Rightarrow> string) \<Rightarrow> string \<Rightarrow> pol_faults \<Rightarrow> gotime \<Rightarrow>
    agent_state \<Rightarrow> agent_state" where
  "checkFailClosed errText dir flt now s =
     (if fail_closed_due now (al_fca s) (al_lastOK s) then apply_to errText dir flt now empty_payload s else s)"

text \<open>\<open>marker_ok\<close>: the marker's directory and file could be written.\<close>

definition onRevoked :: "string \<Rightarrow> pol_faults \<Rightarrow> bool \<Rightarrow> agent_state \<Rightarrow> agent_state" where
  "onRevoked dir flt marker_ok s =
     s\<lparr>al_dir := (if dir = [] then al_dir s else wipePrincipals flt (al_dir s)),
       al_marker := (al_marker s \<or> marker_ok), al_hb := HDone RunDeprovisioned\<rparr>"

text \<open>What \<^verbatim>\<open>heartbeatOnceV2\<close> does with the server's answer, up to handing the snapshot over.\<close>

definition heartbeat_answer :: "string \<Rightarrow> pol_faults \<Rightarrow> bool \<Rightarrow> gotime \<Rightarrow>
    (client_error, heartbeat_response) result \<Rightarrow> agent_state \<Rightarrow> agent_state" where
  "heartbeat_answer dir flt marker_ok now ans s =
     (case ans of
        Inl ErrUnauthorized \<Rightarrow> s\<lparr>al_hb := HDone RunUnauthorized\<rparr>
      | Inl ErrRevoked \<Rightarrow> onRevoked dir flt marker_ok s
      | Inl _ \<Rightarrow> s
      | Inr h \<Rightarrow>
          let s1 = heartbeat_ok now (hbp_FailClosedAfter h) s in
          (case hbp_Policy h of
             None \<Rightarrow> s1
           | Some p \<Rightarrow> s1\<lparr>al_hb := HSend p, al_received := Some p\<rparr>))"

section \<open>Interleaving\<close>

inductive agent_step :: "(policy_error \<Rightarrow> string) \<Rightarrow> string \<Rightarrow> agent_state \<Rightarrow> agent_state \<Rightarrow> bool"
  for errText :: "policy_error \<Rightarrow> string" and dir :: string where
  heartbeat: "al_hb s = HIdle \<Longrightarrow>
     agent_step errText dir s (heartbeat_answer dir flt marker_ok now ans s)"
| tick: "al_hb s = HIdle \<Longrightarrow> agent_step errText dir s (checkFailClosed errText dir flt now s)"
| cancel: "al_hb s = HIdle \<Longrightarrow> agent_step errText dir s (s\<lparr>al_hb := HDone RunCancelled\<rparr>)"
| send: "al_hb s = HSend p \<Longrightarrow> al_ch s = None \<Longrightarrow>
     agent_step errText dir s (s\<lparr>al_ch := Some p, al_hb := HIdle\<rparr>)"
| send_full: "al_hb s = HSend p \<Longrightarrow> al_ch s = Some q \<Longrightarrow> agent_step errText dir s (s\<lparr>al_hb := HDrain p\<rparr>)"
| drain: "al_hb s = HDrain p \<Longrightarrow> agent_step errText dir s (s\<lparr>al_ch := None, al_hb := HResend p\<rparr>)"
| resend: "al_hb s = HResend p \<Longrightarrow> al_ch s = None \<Longrightarrow>
     agent_step errText dir s (s\<lparr>al_ch := Some p, al_hb := HIdle\<rparr>)"
| resend_full: "al_hb s = HResend p \<Longrightarrow> al_ch s = Some q \<Longrightarrow> agent_step errText dir s (s\<lparr>al_hb := HIdle\<rparr>)"
| worker_take: "al_ch s = Some p \<Longrightarrow> al_worker s = None \<Longrightarrow>
     agent_step errText dir s (s\<lparr>al_ch := None, al_worker := Some p, al_taken := Some p\<rparr>)"
| worker_apply: "al_worker s = Some p \<Longrightarrow>
     agent_step errText dir s ((apply_to errText dir flt now p s)\<lparr>al_worker := None\<rparr>)"

definition agent_init :: "agent_state \<Rightarrow> bool" where
  "agent_init s \<longleftrightarrow> al_ch s = None \<and> al_worker s = None \<and> al_hb s = HIdle \<and> al_fca s = None
     \<and> al_lastOK s = None \<and> \<not> al_marker s \<and> al_received s = None \<and> al_taken s = None \<and> al_healthy s = 0"

text \<open>\<^verbatim>\<open>Run\<close> has returned: the heartbeat goroutine is done and the worker has drained the channel.\<close>

definition run_returned :: "agent_state \<Rightarrow> run_error \<Rightarrow> bool" where
  "run_returned s e \<longleftrightarrow> al_hb s = HDone e \<and> al_ch s = None \<and> al_worker s = None"

section \<open>The invariant\<close>

text \<open>Outside a hand-over the newest snapshot is in the channel, or the worker took it; inside one,
  the snapshot being handed over is the newest, and after the drain nobody else can have filled
  the channel.\<close>

definition agent_inv :: "agent_state \<Rightarrow> bool" where
  "agent_inv s \<longleftrightarrow>
     al_healthy s = (if al_lastOK s = None then 0 else 1)
   \<and> (case al_hb s of
        HSend p \<Rightarrow> al_received s = Some p
      | HDrain p \<Rightarrow> al_received s = Some p
      | HResend p \<Rightarrow> al_received s = Some p \<and> al_ch s = None
      | _ \<Rightarrow> al_ch s = al_received s \<and> al_ch s \<noteq> None \<or> al_ch s = None \<and> al_taken s = al_received s)"

lemma apply_to_frame [simp]:
  "al_ch (apply_to errText dir flt now p s) = al_ch s" "al_worker (apply_to errText dir flt now p s) = al_worker s"
  "al_hb (apply_to errText dir flt now p s) = al_hb s" "al_lastOK (apply_to errText dir flt now p s) = al_lastOK s"
  "al_received (apply_to errText dir flt now p s) = al_received s" "al_taken (apply_to errText dir flt now p s) = al_taken s"
  "al_healthy (apply_to errText dir flt now p s) = al_healthy s" "al_marker (apply_to errText dir flt now p s) = al_marker s"
  "al_fca (apply_to errText dir flt now p s) = al_fca s"
  by (simp_all add: apply_to_def Let_def split: prod.splits)

lemma agent_inv_answer:
  "agent_inv s \<Longrightarrow> al_hb s = HIdle \<Longrightarrow> agent_inv (heartbeat_answer dir flt marker_ok now ans s)"
  by (auto simp: agent_inv_def heartbeat_answer_def heartbeat_ok_def onRevoked_def Let_def
      split: sum.splits client_error.splits option.splits)

lemma agent_inv_step: "agent_inv s \<Longrightarrow> agent_step errText dir s t \<Longrightarrow> agent_inv t"
proof (erule agent_step.cases, goal_cases)
  case (1 s' flt marker_ok now ans)
  then show ?case using agent_inv_answer by simp
qed (auto simp: agent_inv_def checkFailClosed_def split: hb_pc.splits)

interpretation agent_runs: invariant_system agent_init "agent_step errText dir" agent_inv for errText dir
proof
  show "agent_init s \<Longrightarrow> agent_inv s" for s by (simp add: agent_init_def agent_inv_def)
qed (rule agent_inv_step)

section \<open>The hand-over keeps the newest snapshot\<close>

text \<open>C25: Coalescing never loses the newest policy: in every state the interleaved goroutines can
  reach, whenever the heartbeat goroutine is between two heartbeats, the last snapshot the server
  sent is waiting in the channel or is the last one the worker took; and from there the worker
  alone gets to a state where it has taken it and is idle again. The health hook has run once if
  a heartbeat ever succeeded, and never otherwise.\<close>

theorem newest_policy_is_kept:
  assumes "agent_init s0" "(agent_step errText dir)\<^sup>*\<^sup>* s0 s" "al_hb s = HIdle"
  shows "(al_ch s = al_received s \<or> al_ch s = None \<and> al_taken s = al_received s)
    \<and> (\<exists>t. (agent_step errText dir)\<^sup>*\<^sup>* s t \<and> al_ch t = None \<and> al_worker t = None \<and> al_hb t = HIdle
         \<and> al_taken t = al_received s \<and> al_received t = al_received s)
    \<and> al_healthy s = (if al_lastOK s = None then 0 else 1)"
proof -
  have inv: "agent_inv s" using agent_runs.inv_reachable assms(1,2) by blast
  then have q: "al_ch s = al_received s \<and> al_ch s \<noteq> None \<or> al_ch s = None \<and> al_taken s = al_received s"
    using assms(3) by (simp add: agent_inv_def)
  have "\<exists>s1. (agent_step errText dir)\<^sup>*\<^sup>* s s1 \<and> al_worker s1 = None \<and> al_ch s1 = al_ch s \<and> al_hb s1 = HIdle
      \<and> al_taken s1 = al_taken s \<and> al_received s1 = al_received s"
  proof (cases "al_worker s")
    case None
    then show ?thesis using assms(3) by blast
  next
    case (Some p)
    show ?thesis
      using r_into_rtranclp [of "agent_step errText dir", OF worker_apply [OF Some, of errText dir undefined 0]]
        assms(3) by fastforce
  qed
  then obtain s1 where s1: "(agent_step errText dir)\<^sup>*\<^sup>* s s1" "al_worker s1 = None" "al_ch s1 = al_ch s"
    "al_hb s1 = HIdle" "al_taken s1 = al_taken s" "al_received s1 = al_received s" by blast
  have "\<exists>t. (agent_step errText dir)\<^sup>*\<^sup>* s t \<and> al_ch t = None \<and> al_worker t = None \<and> al_hb t = HIdle
      \<and> al_taken t = al_received s \<and> al_received t = al_received s"
  proof (cases "al_ch s")
    case None
    then show ?thesis using s1 q by auto
  next
    case (Some p)
    then have c: "al_ch s1 = Some p" using s1 by simp
    let ?s2 = "s1\<lparr>al_ch := None, al_worker := Some p, al_taken := Some p\<rparr>"
    let ?s3 = "(apply_to errText dir undefined 0 p ?s2)\<lparr>al_worker := None\<rparr>"
    have "agent_step errText dir s1 ?s2" using worker_take [OF c s1(2)] .
    moreover have "agent_step errText dir ?s2 ?s3" by (rule worker_apply) simp
    ultimately have "(agent_step errText dir)\<^sup>*\<^sup>* s ?s3" using s1(1) by (meson rtranclp.rtrancl_into_rtrancl)
    then show ?thesis using Some q s1 by (intro exI [of _ ?s3]) auto
  qed
  then show ?thesis using q inv by (auto simp: agent_inv_def)
qed

section \<open>Deprovisioning\<close>

lemma done_steps:
  assumes "(agent_step errText dir)\<^sup>*\<^sup>* s t" "run_returned s e"
  shows "t = s"
  using assms
proof (induction rule: rtranclp_induct)
  case (step t u)
  then have "t = s" by simp
  then show ?case using step(2,4) by (auto elim!: agent_step.cases simp: run_returned_def)
qed simp

text \<open>C26: A revoked agent wipes its principals: when the 410 arrives while no snapshot is waiting
  and the worker is idle, no later step brings a file back; the only files left are those whose
  removal failed, the run ends as deprovisioned and the marker is there when it could be written.\<close>

theorem revoked_agent_is_wiped:
  assumes "al_hb s = HIdle" "al_ch s = None" "al_worker s = None" "dir \<noteq> []"
    "pd_exists (al_dir s)" "\<not> pf_readdir flt"
    "(agent_step errText dir)\<^sup>*\<^sup>* (heartbeat_answer dir flt marker_ok now (client_do 410 None) s) t"
  shows "run_returned t RunDeprovisioned \<and> (marker_ok \<longrightarrow> al_marker t)
    \<and> (\<forall>u. file_of (al_dir t) u \<noteq> None \<longrightarrow> pf_remove flt u)"
proof -
  let ?w = "heartbeat_answer dir flt marker_ok now (client_do 410 None) s"
  have w: "?w = onRevoked dir flt marker_ok s" by (simp add: heartbeat_answer_def client_do_def)
  have r: "run_returned ?w RunDeprovisioned" unfolding w using assms(2,3) by (simp add: run_returned_def onRevoked_def)
  have "t = ?w" by (rule done_steps [OF assms(7) r])
  then show ?thesis
    using r w assms(4) wipePrincipals_files [OF assms(6,5)] by (auto simp: onRevoked_def split: if_splits)
qed

section \<open>Fail-closed\<close>

text \<open>Fail-closed mode: for a limit of \<open>f\<close> seconds that fits a duration, the check does nothing
  before the limit, and once \<open>f\<close> seconds have passed since the last successful heartbeat it
  removes every principals file and records an empty hash, so that the next successful heartbeat
  is answered with the whole policy.\<close>

theorem fail_closed_at_the_limit:
  assumes "al_fca s = Some f" "al_lastOK s = Some t" "0 < f" "f * 1000000000 < 2 ^ 63"
    "dir \<noteq> []" "only_files (al_dir s)"
  shows "(now - t < f * 1000000000 \<longrightarrow> checkFailClosed errText dir flt now s = s)
    \<and> (f * 1000000000 \<le> now - t \<longrightarrow>
        file_of (al_dir (checkFailClosed errText dir no_pol_faults now s)) = (\<lambda>_. None)
        \<and> ps_appliedHash (al_ps (checkFailClosed errText dir no_pol_faults now s)) = [])"
proof -
  have w: "wrap64 (f * 1000000000) = f * 1000000000" using assms(3,4) by (intro wrap64_id) auto
  obtain d' where r: "renderPrincipalsDir no_pol_faults empty_payload (al_dir s) = (d', Inr ())"
    using render_succeeds [OF assms(6), of empty_payload] by (auto simp: empty_payload_def)
  have "file_of d' = (\<lambda>_. None)"
    using renderPrincipalsDir_exactI [OF r] by (auto simp: empty_payload_def tmp_safe_def policy_files_def)
  then show ?thesis
    using assms w r by (auto simp: checkFailClosed_def fail_closed_due_def apply_to_def runApplyPolicy_def
        doApplyPolicy_def empty_payload_def)
qed

text \<open>A limit above the range of a duration (9223372037 seconds, 292 years) wraps to a negative
  one: the check then wipes the principals on the first tick after a successful heartbeat.\<close>

theorem fail_closed_overflow:
  "fail_closed_due t (Some 9223372037) (Some t) \<and> fail_closed_due (t + 1) (Some 9223372037) (Some t)
   \<and> \<not> fail_closed_due t (Some 9223372036) (Some t)"
  by (simp add: fail_closed_due_def wrap64_def)

section \<open>A snapshot that overtakes the wipe\<close>

definition demo_agent0 :: agent_state where
  "demo_agent0 = \<lparr>al_ps = demo_ps, al_dir = demo_pdir, al_ch = None, al_worker = None, al_hb = HIdle, al_fca = None,
     al_lastOK = None, al_marker = False, al_received = None, al_taken = None, al_healthy = 0\<rparr>"

definition demo_answer :: heartbeat_response where
  "demo_answer = \<lparr>hbp_AckTS = 0, hbp_ServerTime = 0, hbp_Policy = Some demo_payload, hbp_Commands = [],
     hbp_FailClosedAfter = None\<rparr>"

lemma demo_agent0_fields [simp]:
  "al_ps demo_agent0 = demo_ps" "al_dir demo_agent0 = demo_pdir" "al_ch demo_agent0 = None"
  "al_worker demo_agent0 = None" "al_hb demo_agent0 = HIdle" "al_fca demo_agent0 = None"
  "al_lastOK demo_agent0 = None" "\<not> al_marker demo_agent0" "al_received demo_agent0 = None"
  "al_taken demo_agent0 = None" "al_healthy demo_agent0 = 0"
  by (simp_all add: demo_agent0_def)

lemma demo_agent0_init: "agent_init demo_agent0"
  by (simp add: agent_init_def demo_agent0_def)

lemma demo_received:
  "(agent_step errText dir)\<^sup>*\<^sup>* demo_agent0 (demo_agent0\<lparr>al_ch := Some demo_payload, al_lastOK := Some 0,
     al_received := Some demo_payload, al_healthy := 1\<rparr>)"
proof -
  let ?s1 = "heartbeat_answer dir no_pol_faults True 0 (Inr demo_answer) demo_agent0"
  have s1: "?s1 = demo_agent0\<lparr>al_hb := HSend demo_payload, al_lastOK := Some 0,
      al_received := Some demo_payload, al_healthy := 1\<rparr>"
    by (simp add: heartbeat_answer_def heartbeat_ok_def demo_answer_def)
  have "agent_step errText dir demo_agent0 ?s1" by (rule heartbeat) simp
  moreover have "agent_step errText dir ?s1 (?s1\<lparr>al_ch := Some demo_payload, al_hb := HIdle\<rparr>)"
    by (rule send) (simp_all add: s1)
  ultimately have "(agent_step errText dir)\<^sup>*\<^sup>* demo_agent0 (?s1\<lparr>al_ch := Some demo_payload, al_hb := HIdle\<rparr>)" by simp
  then show ?thesis unfolding s1 by simp (simp add: demo_agent0_def)
qed

text \<open>A snapshot that is still waiting in the channel when the 410 arrives is applied after the
  wipe: there is a run of the agent that ends as deprovisioned, with the marker written and no
  system call failing, and leaves a principals file that grants access.\<close>

theorem deprovision_race_keeps_access:
  "\<exists>s0 s. agent_init s0 \<and> (agent_step errText ''/d'')\<^sup>*\<^sup>* s0 s \<and> run_returned s RunDeprovisioned \<and> al_marker s
     \<and> file_of (al_dir s) ''root'' = Some (principals_text [''C1'', ''C2''])"
proof -
  let ?s2 = "demo_agent0\<lparr>al_ch := Some demo_payload, al_lastOK := Some 0,
     al_received := Some demo_payload, al_healthy := 1\<rparr>"
  let ?s3 = "heartbeat_answer ''/d'' no_pol_faults True 1 (client_do 410 None) ?s2"
  have s3: "?s3 = onRevoked ''/d'' no_pol_faults True ?s2" by (simp add: heartbeat_answer_def client_do_def)
  let ?s4 = "?s3\<lparr>al_ch := None, al_worker := Some demo_payload, al_taken := Some demo_payload\<rparr>"
  let ?s5 = "(apply_to errText ''/d'' no_pol_faults 1 demo_payload ?s4)\<lparr>al_worker := None\<rparr>"
  have 3: "agent_step errText ''/d'' ?s2 ?s3" by (rule heartbeat) simp
  have 4: "agent_step errText ''/d'' ?s3 ?s4"
    by (rule worker_take) (simp_all add: s3 onRevoked_def del: One_nat_def)
  have 5: "agent_step errText ''/d'' ?s4 ?s5" by (rule worker_apply) simp
  have steps: "(agent_step errText ''/d'')\<^sup>*\<^sup>* demo_agent0 ?s5"
    using demo_received 3 4 5 by (meson rtranclp.rtrancl_into_rtrancl)
  let ?d = "wipePrincipals no_pol_faults demo_pdir"
  have "only_files ?d"
    by (simp add: only_files_def wipePrincipals_def read_dir_def no_pol_faults_def demo_pdir_def file_of_def
        file_in_def try_remove_def os_remove_def entry_def put_entries_def)
  then obtain d' where r: "renderPrincipalsDir no_pol_faults demo_payload ?d = (d', Inr ())"
    using render_succeeds demo_payload_facts(1) by blast
  have "file_of d' ''root'' = Some (principals_text [''C1'', ''C2''])"
    using renderPrincipalsDir_exactI [OF r sorted_tmp_safe [OF demo_payload_facts(2)], of "''root''"]
    by (simp add: policy_files_def demo_payload_def)
  moreover have "al_dir ?s5 = d'" using r
    by (simp add: s3 onRevoked_def apply_to_def runApplyPolicy_def doApplyPolicy_def del: One_nat_def)
  moreover have "run_returned ?s5 RunDeprovisioned" "al_marker ?s5"
    by (simp_all add: s3 run_returned_def onRevoked_def del: One_nat_def)
  ultimately show ?thesis using steps demo_agent0_init by metis
qed

section \<open>Witnesses\<close>

theorem newest_policy_is_kept_witness:
  "\<exists>s t. (agent_step (\<lambda>_. []) ''/d'')\<^sup>*\<^sup>* demo_agent0 s \<and> (agent_step (\<lambda>_. []) ''/d'')\<^sup>*\<^sup>* s t
     \<and> al_ch s = Some demo_payload \<and> al_taken t = Some demo_payload \<and> al_worker t = None \<and> al_healthy s = 1"
proof -
  let ?s = "demo_agent0\<lparr>al_ch := Some demo_payload, al_lastOK := Some 0,
     al_received := Some demo_payload, al_healthy := 1\<rparr>"
  have r: "(agent_step (\<lambda>_. []) ''/d'')\<^sup>*\<^sup>* demo_agent0 ?s" by (rule demo_received)
  from newest_policy_is_kept [OF demo_agent0_init r] obtain t where
    t: "(agent_step (\<lambda>_. []) ''/d'')\<^sup>*\<^sup>* ?s t" "al_worker t = None" "al_taken t = Some demo_payload" "al_healthy ?s = 1"
    by auto
  have "al_ch ?s = Some demo_payload" by simp
  with r t show ?thesis by blast
qed

theorem revoked_agent_is_wiped_witness:
  "\<exists>t. (agent_step (\<lambda>_. []) ''/d'')\<^sup>*\<^sup>* demo_agent0 t \<and> run_returned t RunDeprovisioned \<and> al_marker t
     \<and> (\<forall>u. file_of (al_dir t) u = None)"
proof -
  let ?t = "heartbeat_answer ''/d'' no_pol_faults True 0 (client_do 410 None) demo_agent0"
  have "agent_step (\<lambda>_. []) ''/d'' demo_agent0 ?t" by (rule heartbeat) simp
  then show ?thesis
    using revoked_agent_is_wiped [of demo_agent0 "''/d''" no_pol_faults "\<lambda>_. []" True 0 ?t]
    by (auto simp: demo_pdir_def no_pol_faults_def)
qed

theorem fail_closed_at_the_limit_witness:
  "file_of (al_dir (checkFailClosed (\<lambda>_. []) ''/d'' no_pol_faults 60000000000
      (demo_agent0\<lparr>al_fca := Some 60, al_lastOK := Some 0\<rparr>))) = (\<lambda>_. None)"
  using fail_closed_at_the_limit [of "demo_agent0\<lparr>al_fca := Some 60, al_lastOK := Some 0\<rparr>" 60 0 "''/d''" 60000000000 "\<lambda>_. []"]
    demo_payload_facts(3) by simp

end
