(* ===== verification/Convergence.thy ===== *)
theory Convergence
  imports Server_Enrolment Agent_Loop
begin

text \<open>
  The control plane and an agent together: one heartbeat exchange, the apply it triggers and the
  login that follows.
\<close>

section \<open>Grants on the wire and on disk\<close>

text \<open>The callers an agent's ACL rows grant a login name.\<close>

definition acl_callers :: "grant list \<Rightarrow> string \<Rightarrow> string list" where
  "acl_callers gs u = map CallerTokenID (filter (\<lambda>g. Username g = u) gs)"

lemma granted_callers_grants:
  "distinct (map wp_Username ps) \<Longrightarrow> granted_callers ps u = acl_callers (payload_grants ps) u"
proof (induction ps)
  case (Cons p ps)
  have n: "u \<notin> wp_Username ` set ps \<Longrightarrow> acl_callers (payload_grants ps) u = []"
    by (auto simp: acl_callers_def payload_grants_def filter_empty_conv)
  have f: "filter (\<lambda>g. Username g = u) (map (Grant (wp_Username p)) cs) =
      (if wp_Username p = u then map (Grant (wp_Username p)) cs else [])" for cs
    by (induction cs) auto
  have "acl_callers (payload_grants (p # ps)) u =
      (if wp_Username p = u then wp_CallerTokenIDs p else []) @ acl_callers (payload_grants ps) u"
    by (simp add: acl_callers_def payload_grants_def f comp_def)
  then show ?case using Cons n by (auto simp: granted_callers_def)
qed (simp add: granted_callers_def acl_callers_def payload_grants_def)

lemma payload_users:
  "validatePolicyPayload ps = Inr () \<longleftrightarrow>
     (\<forall>p \<in> set ps. validateUsername (wp_Username p)) \<and> (\<forall>g \<in> set (payload_grants ps). validateCallerTokenID (CallerTokenID g))"
  by (auto simp: validatePolicyPayload_Inr payload_grants_def)

lemma sorted_distinct_users: "sorted_wrt (<) (map wp_Username ps) \<Longrightarrow> distinct (map wp_Username ps)"
  by (simp add: strict_sorted_iff)

section \<open>Convergence\<close>

definition grants_renderable :: "grant list \<Rightarrow> bool" where
  "grants_renderable gs \<longleftrightarrow> list_all (\<lambda>g. validateUsername (Username g) \<and> validateCallerTokenID (CallerTokenID g)) gs"

text \<open>C1: Policy convergence. On a reachable database whose grants for the agent are renderable, let a
  heartbeat be answered with a policy, and let the agent apply it without failing system calls to
  a directory without sub-directories. Then sshd is told, for every plain login name, exactly the
  callers the agent's ACL rows grant it; the agent records the hash of these rows; and the next
  heartbeat that reports this state, as long as the rows are the same, is answered without a
  policy.\<close>

theorem policy_converges:
  assumes "db_wf sum256 d" "handleV2Heartbeat env ag (Some req) d = (d1, Resp 200 (BHeartbeat h))"
    "\<And>s. \<not> re_flt env 4 s" "hbp_Policy h = Some pl"
    "grants_renderable (select_grants (sa_ID ag) d)" "only_files dd" "dir \<noteq> []"
    "runApplyPolicy errText no_pol_faults now dir pl (ps, dd) = (ps', dd')"
    "db_wf sum256 d2" "select_grants (sa_ID ag) d2 = select_grants (sa_ID ag) d" "\<And>s. \<not> re_flt env2 4 s"
    "handleV2Heartbeat env2 ag (Some (heartbeat_request_of agentID ver now2 eps hp ps')) d2
       = (d3, Resp 200 (BHeartbeat h2))"
  shows "(\<forall>u. output_lines (principalsFileContent True dir u dd') =
       (if CHR ''/'' \<in> set u \<or> u \<in> {[], ''.'', ''..''} then [] else acl_callers (select_grants (sa_ID ag) d) u))
    \<and> ps_appliedHash ps' = Hash sum256 (select_grants (sa_ID ag) d) \<and> hbp_Policy h2 = None"
proof -
  have "pl_Hash pl = Hash sum256 (payload_grants (pl_Principals pl))
      \<and> payload_grants (pl_Principals pl) = select_grants (sa_ID ag) d
      \<and> sorted_wrt (<) (map wp_Username (pl_Principals pl))
      \<and> (\<forall>p \<in> set (pl_Principals pl). wp_CallerTokenIDs p \<noteq> [])"
    using heartbeat_policy_content [OF assms(1-3)] assms(4) by simp
  then have pl: "pl_Hash pl = Hash sum256 (select_grants (sa_ID ag) d)"
      "payload_grants (pl_Principals pl) = select_grants (sa_ID ag) d"
      "sorted_wrt (<) (map wp_Username (pl_Principals pl))"
      "\<forall>p \<in> set (pl_Principals pl). wp_CallerTokenIDs p \<noteq> []" by simp_all
  have "validateUsername (wp_Username p)" if "p \<in> set (pl_Principals pl)" for p
  proof -
    have "hd (wp_CallerTokenIDs p) \<in> set (wp_CallerTokenIDs p)" using pl(4) that by simp
    then have "Grant (wp_Username p) (hd (wp_CallerTokenIDs p)) \<in> set (select_grants (sa_ID ag) d)"
      unfolding pl(2) [symmetric] payload_grants_def using that by auto
    then show ?thesis using assms(5) by (auto simp: grants_renderable_def list_all_iff)
  qed
  then have v: "validatePolicyPayload (pl_Principals pl) = Inr ()"
    using assms(5) by (auto simp: payload_users pl(2) grants_renderable_def list_all_iff)
  obtain dd1 where r: "renderPrincipalsDir no_pol_faults pl dd = (dd1, Inr ())"
    using render_succeeds [OF assms(6) v] by blast
  have ap: "dd' = dd1" "ps_appliedHash ps' = pl_Hash pl"
    using assms(7,8) r by (auto simp: runApplyPolicy_def doApplyPolicy_def)
  have files: "file_of dd' u = policy_files (pl_Principals pl) u" for u
    using renderPrincipalsDir_exactI [OF r sorted_tmp_safe [OF pl(3)]] ap(1) by simp
  have lines: "output_lines (file_of dd' u) = acl_callers (select_grants (sa_ID ag) d) u" for u
    unfolding files policy_files_lines [OF v] granted_callers_grants [OF sorted_distinct_users [OF pl(3)]] pl(2) ..
  have "hbp_Policy h2 = None"
    using heartbeat_policy_content [OF assms(9,12,11)] ap(2) pl(1) assms(10)
    by (simp add: heartbeat_request_of_def)
  then show ?thesis
    using lines ap(2) pl(1) assms(7) by (simp add: principalsFileContent_iff output_lines_def)
qed

lemma demo_any_beat: "\<exists>d' h. handleV2Heartbeat demo_env demo_ag (Some req) demo_db = (d', Resp 200 (BHeartbeat h))"
proof -
  have "snd (UpdateAgentHeartbeat (re_flt demo_env 2) (sa_ID demo_ag) (hbr_AgentVersion req)
      (re_now demo_env 1) demo_db) = Inr ()"
    by (simp add: UpdateAgentHeartbeat_def demo_env_def no_fault_def demo_ag_def demo_db_eval demo_base_eval empty_db_def)
  then show ?thesis
    by (cases "UpdateAgentHeartbeat (re_flt demo_env 2) (sa_ID demo_ag) (hbr_AgentVersion req)
      (re_now demo_env 1) demo_db") (simp add: handleV2Heartbeat_def Let_def del: One_nat_def)
qed

lemma demo_wf: "db_wf (\<lambda>s. s) demo_db" "\<And>s. \<not> re_flt demo_env 4 s"
  using calls.inv_reachable demo_db_reachable by (blast, simp add: demo_env_def no_fault_def)

lemma demo_pushed:
  "\<exists>d1 h pl. handleV2Heartbeat demo_env demo_ag (Some demo_beat) demo_db = (d1, Resp 200 (BHeartbeat h))
     \<and> hbp_Policy h = Some pl"
proof -
  obtain d1 h where b: "handleV2Heartbeat demo_env demo_ag (Some demo_beat) demo_db = (d1, Resp 200 (BHeartbeat h))"
    using demo_any_beat by blast
  have "Hash (\<lambda>s. s) (select_grants demo_agent demo_db) \<noteq> []"
    by (simp add: demo_db_grants Hash_def Canonical_def hex_encode_def grant_line_def)
  then show ?thesis
    using heartbeat_policy_content [OF demo_wf(1) b demo_wf(2)] b
    by (cases "hbp_Policy h") (simp_all add: demo_ag_def demo_beat_def)
qed

theorem policy_converges_witness:
  "\<exists>d1 h pl ps' dd'. handleV2Heartbeat demo_env demo_ag (Some demo_beat) demo_db = (d1, Resp 200 (BHeartbeat h))
     \<and> hbp_Policy h = Some pl \<and> runApplyPolicy (\<lambda>_. []) no_pol_faults 7 ''/d'' pl (demo_ps, demo_pdir) = (ps', dd')
     \<and> output_lines (principalsFileContent True ''/d'' ''root'' dd') = [''C1'']
     \<and> output_lines (principalsFileContent True ''/d'' ''bob'' dd') = []"
proof -
  obtain d1 h pl where b: "handleV2Heartbeat demo_env demo_ag (Some demo_beat) demo_db = (d1, Resp 200 (BHeartbeat h))"
      "hbp_Policy h = Some pl" using demo_pushed by blast
  obtain ps' dd' where a: "runApplyPolicy (\<lambda>_. []) no_pol_faults 7 ''/d'' pl (demo_ps, demo_pdir) = (ps', dd')"
    by fastforce
  obtain d3 h2 where b2: "handleV2Heartbeat demo_env demo_ag (Some (heartbeat_request_of [] [] 0 [] None ps')) demo_db
      = (d3, Resp 200 (BHeartbeat h2))" using demo_any_beat by blast
  have g: "select_grants (sa_ID demo_ag) demo_db = [Grant ''root'' ''C1'']"
    by (simp add: demo_ag_def demo_db_grants)
  have "grants_renderable (select_grants (sa_ID demo_ag) demo_db)"
    by (simp add: g grants_renderable_def validateUsername_def contains_any_def validateCallerTokenID_def runes_ascii
        caller_rune_ok_def is_space_def)
  from policy_converges [OF demo_wf(1) b(1) demo_wf(2) b(2) this demo_payload_facts(3) _ a demo_wf(1) refl demo_wf(2) b2]
  have "\<forall>u. output_lines (principalsFileContent True ''/d'' u dd') =
       (if CHR ''/'' \<in> set u \<or> u \<in> {[], ''.'', ''..''} then [] else acl_callers [Grant ''root'' ''C1''] u)"
    by (simp add: g)
  then have "output_lines (principalsFileContent True ''/d'' ''root'' dd') = [''C1'']"
    "output_lines (principalsFileContent True ''/d'' ''bob'' dd') = []" by (simp_all add: acl_callers_def)
  with a b show ?thesis by blast
qed

section \<open>Grants the agent cannot render\<close>

lemma bad_grant_refused:
  assumes "db_wf sum256 d" "handleV2Heartbeat env ag (Some req) d = (d1, Resp 200 (BHeartbeat h))"
    "\<And>s. \<not> re_flt env 4 s" "hbp_Policy h = Some pl"
    "Grant u c \<in> set (select_grants (sa_ID ag) d)" "\<not> validateUsername u"
  shows "\<exists>e. snd (renderPrincipalsDir flt pl dd) = Inl e \<and> file_of (fst (renderPrincipalsDir flt pl dd)) = file_of dd"
proof -
  have "payload_grants (pl_Principals pl) = select_grants (sa_ID ag) d"
    using heartbeat_policy_content [OF assms(1-3)] assms(4) by simp
  then have "\<exists>p \<in> set (pl_Principals pl). wp_Username p = u"
    using assms(5) by (auto simp: payload_grants_def simp flip: \<open>payload_grants (pl_Principals pl) = select_grants (sa_ID ag) d\<close>)
  then have "validatePolicyPayload (pl_Principals pl) \<noteq> Inr ()" using assms(6) by (auto simp: validatePolicyPayload_Inr)
  then obtain e where "validatePolicyPayload (pl_Principals pl) = Inl e"
    by (cases "validatePolicyPayload (pl_Principals pl)") auto
  then show ?thesis by (simp add: renderPrincipalsDir_def file_of_def)
qed

text \<open>C27: The control plane accepts grants the agent cannot render: when a grant whose user name
  the agent refuses has been created, every policy a later heartbeat carries while the row is
  there is refused as a whole, whatever else it grants or revokes, and the agent's files stay as
  they are.\<close>

theorem unrenderable_grant_blocks_policy:
  assumes "handleCreateACL lb env (Some creq) d = (d', Resp 201 (BAcl e))" "\<not> validateUsername (car_Username creq)"
    "db_wf sum256 d2" "set (db_acl d') \<subseteq> set (db_acl d2)" "sa_ID ag = aes_AgentID e"
    "handleV2Heartbeat env2 ag (Some req) d2 = (d3, Resp 200 (BHeartbeat h))" "\<And>s. \<not> re_flt env2 4 s"
    "hbp_Policy h = Some pl"
  shows "\<exists>err. snd (renderPrincipalsDir flt pl dd) = Inl err
    \<and> file_of (fst (renderPrincipalsDir flt pl dd)) = file_of dd"
proof -
  obtain callerTok :: store_token and agent :: store_agent and x where c: "CreateACL (re_flt env 5) (lb_sum256 lb) (re_now env 1) (re_uuid env)
      \<lparr>cap_CallerTokenID = st_ID callerTok, cap_AgentID = sa_ID agent, cap_Username = car_Username creq,
       cap_CreatedBy = None\<rparr> d = (d', Inr x)" and e: "e = aclSummary x"
    using assms(1) by (auto simp: handleCreateACL_def simp del: One_nat_def split: if_splits sum.splits prod.splits)
  obtain row where row: "row \<in> set (db_acl d')" "scanACL row = x" "acl_agent row = sa_ID agent"
      "acl_username row = car_Username creq" using CreateACL_result [OF c] by auto
  have "acl_agent row = sa_ID ag" using row(2) e assms(5) by (auto simp: aclSummary_def scanACL_def)
  then have "Grant (car_Username creq) (acl_caller row) \<in> set (select_grants (sa_ID ag) d2)"
    unfolding set_select_grants mem_Collect_eq row(4) [symmetric] using row(1) assms(4) by (intro exI [of _ row]) auto
  then show ?thesis by (rule bad_grant_refused [OF assms(3,6,7,8) _ assms(2)])
qed

definition demo_cdb :: db where
  "demo_cdb = fst (InsertTokenWithID no_fault 0 demo_tid TokenCaller None demo_hash [] demo_base)"

definition demo_bad_grant :: create_acl_request where
  "demo_bad_grant = \<lparr>car_Caller = demo_tid, car_Agent = demo_agent, car_Username = ''a b''\<rparr>"

definition demo_bad_acl :: create_acl_params where
  "demo_bad_acl = \<lparr>cap_CallerTokenID = demo_tid, cap_AgentID = demo_agent, cap_Username = ''a b'', cap_CreatedBy = None\<rparr>"

definition demo_bad_db :: db where
  "demo_bad_db = fst (CreateACL no_fault (\<lambda>s. s) (re_now demo_env 1) demo_uuid demo_bad_acl demo_cdb)"

lemma demo_cdb_eval: "demo_cdb = demo_base\<lparr>db_tokens := db_tokens demo_base @ [\<lparr>tr_id = demo_tid, tr_kind = ''caller'',
    tr_agent_id = None, tr_secret_hash = demo_hash, tr_label = [], tr_created_at = 0, tr_expires_at = None,
    tr_used_at = None, tr_revoked_at = None\<rparr>]\<rparr>"
  by (simp add: demo_cdb_def InsertTokenWithID_def insert_token_def no_fault_def demo_base_eval empty_db_def
      agent_ref_ok_def TokenCaller_def unix_of_def)

lemma demo_bad_wf: "db_wf (\<lambda>s. s) demo_bad_db"
proof -
  have "(store_step (\<lambda>s. s))\<^sup>*\<^sup>* demo_base demo_cdb" unfolding demo_cdb_def by (rule r_into_rtranclp, rule st_insert_token)
  moreover have "store_step (\<lambda>s. s) demo_cdb demo_bad_db" unfolding demo_bad_db_def by (rule st_create_acl)
  ultimately show ?thesis
    using demo_base_reachable calls.inv_reachable by (meson rtranclp.rtrancl_into_rtrancl rtranclp_trans)
qed

lemma demo_bad_eval: "\<exists>e. CreateACL no_fault (\<lambda>s. s) (re_now demo_env 1) demo_uuid demo_bad_acl demo_cdb = (demo_bad_db, Inr e)
    \<and> ace_AgentID e = demo_agent"
proof -
  have f: "agent_ids demo_cdb = {demo_agent}" "db_acl demo_cdb = []"
    by (simp_all add: demo_cdb_eval demo_base_eval agent_ids_def empty_db_def)
  obtain e where e: "snd (CreateACL no_fault (\<lambda>s. s) (re_now demo_env 1) demo_uuid demo_bad_acl demo_cdb) = Inr e"
  proof -
    have "\<exists>e. snd (CreateACL no_fault (\<lambda>s. s) (re_now demo_env 1) demo_uuid demo_bad_acl demo_cdb) = Inr e"
      by (rule CreateACL_succeeds) (simp_all add: no_fault_def demo_bad_acl_def f)
    then show ?thesis using that by blast
  qed
  then have c: "CreateACL no_fault (\<lambda>s. s) (re_now demo_env 1) demo_uuid demo_bad_acl demo_cdb = (demo_bad_db, Inr e)"
    by (simp add: demo_bad_db_def prod_eq_iff)
  from CreateACL_result [OF c] show ?thesis using c by (auto simp: demo_bad_acl_def scanACL_def)
qed

lemma demo_bad_agents: "db_agents demo_bad_db = db_agents demo_base"
  unfolding demo_bad_db_def agents_untouched(8) by (simp add: demo_cdb_eval)

lemma demo_bad_grants: "select_grants demo_agent demo_bad_db \<noteq> []"
proof -
  obtain e where c: "CreateACL no_fault (\<lambda>s. s) (re_now demo_env 1) demo_uuid demo_bad_acl demo_cdb = (demo_bad_db, Inr e)"
    using demo_bad_eval by blast
  have "set (select_grants demo_agent demo_bad_db) \<noteq> {}"
    unfolding set_select_grants using CreateACL_result [OF c] by (auto simp: demo_bad_acl_def)
  then show ?thesis by auto
qed

lemma demo_bad_created:
  "\<exists>e. handleCreateACL demo_libs demo_env (Some demo_bad_grant) demo_cdb = (demo_bad_db, Resp 201 (BAcl e))
     \<and> aes_AgentID e = demo_agent"
proof -
  obtain e where c: "CreateACL no_fault (\<lambda>s. s) (re_now demo_env 1) demo_uuid demo_bad_acl demo_cdb = (demo_bad_db, Inr e)"
    and a: "ace_AgentID e = demo_agent" using demo_bad_eval by blast
  have fl: "re_flt demo_env k = no_fault" "re_uuid demo_env = demo_uuid" "lb_sum256 demo_libs = (\<lambda>s. s)" for k
    by (simp_all add: demo_env_def demo_libs_def)
  have "\<exists>t. GetTokenByID no_fault demo_tid demo_cdb = Inr t \<and> st_ID t = demo_tid \<and> st_Kind t = TokenCaller"
    by (simp add: GetTokenByID_def no_fault_def demo_cdb_eval demo_base_eval empty_db_def scanToken_def TokenCaller_def)
  then obtain t :: store_token where t: "GetTokenByID no_fault demo_tid demo_cdb = Inr t" "st_ID t = demo_tid"
    "st_Kind t = TokenCaller" by blast
  have "\<exists>ag. resolveAgent no_fault no_fault demo_agent demo_cdb = Inr ag \<and> sa_ID ag = demo_agent"
    by (simp add: resolveAgent_def GetAgent_def queryAgent_def no_fault_def demo_cdb_eval demo_base_eval empty_db_def
        scanAgent_def demo_agent_def has_prefix_def)
  then obtain ag :: store_agent where ag: "resolveAgent no_fault no_fault demo_agent demo_cdb = Inr ag" "sa_ID ag = demo_agent"
    by blast
  have "handleCreateACL demo_libs demo_env (Some demo_bad_grant) demo_cdb = (demo_bad_db, Resp 201 (BAcl (aclSummary e)))"
    using t ag c by (simp add: handleCreateACL_def demo_bad_grant_def fl demo_bad_acl_def demo_agent_def del: One_nat_def)
  then show ?thesis using a by (simp add: aclSummary_def)
qed

theorem unrenderable_grant_blocks_policy_witness:
  "\<exists>d3 h pl err. handleV2Heartbeat demo_env demo_ag (Some demo_beat) demo_bad_db = (d3, Resp 200 (BHeartbeat h))
     \<and> hbp_Policy h = Some pl \<and> snd (renderPrincipalsDir no_pol_faults pl demo_pdir) = Inl err"
proof -
  obtain e where cr: "handleCreateACL demo_libs demo_env (Some demo_bad_grant) demo_cdb = (demo_bad_db, Resp 201 (BAcl e))"
    "aes_AgentID e = demo_agent" using demo_bad_created by blast
  have "snd (UpdateAgentHeartbeat (re_flt demo_env 2) (sa_ID demo_ag) (hbr_AgentVersion demo_beat)
      (re_now demo_env 1) demo_bad_db) = Inr ()"
    by (simp add: UpdateAgentHeartbeat_def demo_env_def no_fault_def demo_ag_def demo_bad_agents)
  then obtain d3 h where b: "handleV2Heartbeat demo_env demo_ag (Some demo_beat) demo_bad_db = (d3, Resp 200 (BHeartbeat h))"
    by (cases "UpdateAgentHeartbeat (re_flt demo_env 2) (sa_ID demo_ag) (hbr_AgentVersion demo_beat)
      (re_now demo_env 1) demo_bad_db") (simp add: handleV2Heartbeat_def Let_def del: One_nat_def)
  obtain pl where pl: "hbp_Policy h = Some pl"
    using heartbeat_policy_content [OF demo_bad_wf b demo_wf(2)] demo_bad_grants
    by (cases "hbp_Policy h") (simp_all add: demo_ag_def demo_beat_def Hash_def Canonical_def hex_encode_def grant_line_def)
  from unrenderable_grant_blocks_policy [OF cr(1) _ demo_bad_wf _ _ b demo_wf(2) pl, of no_pol_faults demo_pdir] b pl cr(2)
  show ?thesis by (auto simp: demo_bad_grant_def validateUsername_def contains_any_def demo_ag_def)
qed

end
