(* ===== verification/Payload_Store.thy ===== *)
theory Payload_Store
  imports Files
begin

text \<open>
  The versioned store of the agent's self-updatable binary
  (\<^verbatim>\<open>internal/agent/payloadstore.go\<close>, \<^verbatim>\<open>managedpaths_unix.go\<close>): one directory per staged
  version, the symbolic links \<open>current\<close> and \<open>previous\<close>, and the quarantine markers.

  \<open>st_links\<close> holds the links below the root by name (the temporary ones too), with their targets;
  \<open>st_bins\<close> the bytes of \<open>versions/<v>/uncluster\<close>; \<open>st_quarantine\<close> the quarantine markers. The
  failure oracle takes the operation and the name it works on.
\<close>

section \<open>State\<close>

record payload_store =
  st_root :: string
  st_links :: "string \<rightharpoonup> string"
  st_bins :: "(string \<times> string) list"
  st_quarantine :: "string list"

type_synonym store_faults = "string \<Rightarrow> string \<Rightarrow> bool"

datatype ps_error =
    PsBadVersion string
  | PsQuarantined string
  | PsNotStaged string
  | PsNoCurrent
  | PsNoPrevious
  | PsIO string

definition payloadBinaryName :: string where
  "payloadBinaryName = ''uncluster''"

definition ManagedPayloadDir :: "string \<Rightarrow> string" where
  "ManagedPayloadDir goos = (if goos = ''darwin'' then ''/usr/local/var/uncluster'' else ''/var/lib/uncluster'')"

section \<open>Versions and paths\<close>

definition version_rune_ok :: "nat \<Rightarrow> bool" where
  "version_rune_ok r \<longleftrightarrow> 97 \<le> r \<and> r \<le> 122 \<or> 65 \<le> r \<and> r \<le> 90 \<or> 48 \<le> r \<and> r \<le> 57
     \<or> r = 46 \<or> r = 95 \<or> r = 43 \<or> r = 45"

definition versionPathComponent :: "string \<Rightarrow> (ps_error, string) result" where
  "versionPathComponent version =
     (if version = [] \<or> version = ''.'' \<or> version = ''..'' \<or> \<not> list_all (\<lambda>p. version_rune_ok (fst p)) (runes version)
      then Inl (PsBadVersion version) else Inr version)"

definition versionBinaryPath :: "string \<Rightarrow> string \<Rightarrow> (ps_error, string) result" where
  "versionBinaryPath root version =
     (case versionPathComponent version of
        Inl e \<Rightarrow> Inl e
      | Inr v \<Rightarrow> Inr (path_join (path_join (path_join root ''versions'') v) payloadBinaryName))"

definition versionOf :: "string \<Rightarrow> string" where
  "versionOf binPath = path_base (path_dir binPath)"

section \<open>Operations\<close>

definition isDirSyncUnsupported :: "string \<Rightarrow> bool" where
  "isDirSyncUnsupported msg \<longleftrightarrow> contains msg ''invalid argument'' \<or> contains msg ''not supported''
     \<or> contains msg ''operation not supported''"

text \<open>\<open>sync\<close> is the text of the error \<^verbatim>\<open>Sync\<close> returned, if any.\<close>

definition fsyncDir :: "bool \<Rightarrow> string option \<Rightarrow> (ps_error, unit) result" where
  "fsyncDir open_fails sync =
     (if open_fails then Inl (PsIO ''open dir'')
      else case sync of
        None \<Rightarrow> Inr ()
      | Some msg \<Rightarrow> if isDirSyncUnsupported msg then Inr () else Inl (PsIO ''fsync dir''))"

definition swapSymlink :: "store_faults \<Rightarrow> string \<Rightarrow> string \<Rightarrow> payload_store \<Rightarrow>
    payload_store \<times> (ps_error, unit) result" where
  "swapSymlink flt link target st =
     (let tmp = link @ ''.tmp'';
          l1 = (if flt ''remove'' tmp then st_links st else (st_links st)(tmp := None)) in
      if flt ''symlink'' tmp \<or> l1 tmp \<noteq> None then (st\<lparr>st_links := l1\<rparr>, Inl (PsIO ''create symlink''))
      else
        let l2 = l1(tmp \<mapsto> target) in
        if flt ''rename'' link
        then (st\<lparr>st_links := (if flt ''cleanup'' tmp then l2 else l2(tmp := None))\<rparr>, Inl (PsIO ''swap symlink''))
        else (st\<lparr>st_links := l2(tmp := None, link \<mapsto> target)\<rparr>, Inr ()))"

definition IsQuarantined :: "store_faults \<Rightarrow> string \<Rightarrow> payload_store \<Rightarrow> bool" where
  "IsQuarantined flt version st =
     (case versionPathComponent version of
        Inl _ \<Rightarrow> False
      | Inr v \<Rightarrow> v \<in> set (st_quarantine st) \<and> \<not> flt ''stat'' v)"

definition Quarantine :: "store_faults \<Rightarrow> string \<Rightarrow> payload_store \<Rightarrow> payload_store \<times> (ps_error, unit) result" where
  "Quarantine flt version st =
     (case versionPathComponent version of
        Inl e \<Rightarrow> (st, Inl e)
      | Inr v \<Rightarrow>
          if flt ''mkdir'' ''quarantine'' then (st, Inl (PsIO ''mkdir quarantine''))
          else if flt ''write'' v then (st, Inl (PsIO ''write quarantine marker''))
          else (st\<lparr>st_quarantine := v # st_quarantine st\<rparr>, Inr ()))"

text \<open>Staging writes to a temporary file of the version's directory and renames it; a failure
  before the rename leaves the version as it was.\<close>

definition Stage :: "store_faults \<Rightarrow> string option \<Rightarrow> string \<Rightarrow> string \<Rightarrow> payload_store \<Rightarrow>
    payload_store \<times> (ps_error, string) result" where
  "Stage flt sync version bytes st =
     (case versionBinaryPath (st_root st) version of
        Inl e \<Rightarrow> (st, Inl e)
      | Inr binPath \<Rightarrow>
          if flt ''mkdir'' version then (st, Inl (PsIO ''mkdir version dir''))
          else if flt ''createtemp'' version then (st, Inl (PsIO ''create temp''))
          else if flt ''copy'' version then (st, Inl (PsIO ''write payload''))
          else if flt ''sync'' version then (st, Inl (PsIO ''fsync payload''))
          else if flt ''close'' version then (st, Inl (PsIO ''close payload''))
          else if flt ''chmod'' version then (st, Inl (PsIO ''chmod payload''))
          else if flt ''rename'' version then (st, Inl (PsIO ''install payload''))
          else
            let st1 = st\<lparr>st_bins := AList.update version bytes (st_bins st)\<rparr> in
            (case fsyncDir (flt ''opendir'' version) sync of
               Inl e \<Rightarrow> (st1, Inl e)
             | Inr _ \<Rightarrow> (st1, Inr binPath)))"

definition resolve :: "store_faults \<Rightarrow> string \<Rightarrow> payload_store \<Rightarrow> (ps_error, string \<times> string) result" where
  "resolve flt link st =
     (case st_links st link of
        None \<Rightarrow> Inl PsNoCurrent
      | Some target \<Rightarrow>
          if flt ''readlink'' link then Inl (PsIO ''read pointer'')
          else
            let target' = (if has_prefix ''/'' target then target else path_join (st_root st) target)
            in Inr (target', versionOf target'))"

definition Current :: "store_faults \<Rightarrow> payload_store \<Rightarrow> (ps_error, string \<times> string) result" where
  "Current flt st = resolve flt ''current'' st"

definition Previous :: "store_faults \<Rightarrow> payload_store \<Rightarrow> (ps_error, string \<times> string) result" where
  "Previous flt st = resolve flt ''previous'' st"

definition Activate :: "store_faults \<Rightarrow> string option \<Rightarrow> string \<Rightarrow> payload_store \<Rightarrow>
    payload_store \<times> (ps_error, unit) result" where
  "Activate flt sync version st =
     (case versionBinaryPath (st_root st) version of
        Inl e \<Rightarrow> (st, Inl e)
      | Inr binPath \<Rightarrow>
          if IsQuarantined flt version st then (st, Inl (PsQuarantined version))
          else if map_of (st_bins st) version = None \<or> flt ''stat'' binPath then (st, Inl (PsNotStaged version))
          else
            (case (if flt ''readlink'' ''current'' then (st, Inr ())
                   else case st_links st ''current'' of
                     None \<Rightarrow> (st, Inr ())
                   | Some cur \<Rightarrow> swapSymlink flt ''previous'' cur st) of
               (st1, Inl e) \<Rightarrow> (st1, Inl e)
             | (st1, Inr _) \<Rightarrow>
                 (case swapSymlink flt ''current'' binPath st1 of
                    (st2, Inl e) \<Rightarrow> (st2, Inl e)
                  | (st2, Inr _) \<Rightarrow> (st2, fsyncDir (flt ''opendir'' []) sync))))"

definition Rollback :: "store_faults \<Rightarrow> string option \<Rightarrow> payload_store \<Rightarrow>
    payload_store \<times> (ps_error, string) result" where
  "Rollback flt sync st =
     (case Previous flt st of
        Inl PsNoCurrent \<Rightarrow> (st, Inl PsNoPrevious)
      | Inl e \<Rightarrow> (st, Inl e)
      | Inr (prevTarget, prevVersion) \<Rightarrow>
          (case swapSymlink flt ''current'' prevTarget st of
             (st1, Inl e) \<Rightarrow> (st1, Inl e)
           | (st1, Inr _) \<Rightarrow>
               (case fsyncDir (flt ''opendir'' []) sync of
                  Inl e \<Rightarrow> (st1, Inl e)
                | Inr _ \<Rightarrow> (st1, Inr prevVersion))))"

section \<open>Paths determine versions\<close>

definition bin_path :: "string \<Rightarrow> string \<Rightarrow> string" where
  "bin_path root v = path_join (path_join (path_join root ''versions'') v) payloadBinaryName"

definition valid_version :: "string \<Rightarrow> bool" where
  "valid_version v \<longleftrightarrow> versionPathComponent v = Inr v"

lemma versionBinaryPath_cases:
  "versionBinaryPath root v = (if valid_version v then Inr (bin_path root v) else Inl (PsBadVersion v))"
  by (auto simp: versionBinaryPath_def versionPathComponent_def valid_version_def bin_path_def)

lemma versionPathComponent_cases: "versionPathComponent v = (if valid_version v then Inr v else Inl (PsBadVersion v))"
  by (auto simp: versionPathComponent_def valid_version_def)

lemma valid_version_plain: "valid_version v \<Longrightarrow> CHR ''/'' \<notin> set v \<and> v \<noteq> []"
proof
  assume v: "valid_version v"
  show "CHR ''/'' \<notin> set v"
  proof
    assume "CHR ''/'' \<in> set v"
    then have "47 \<in> fst ` set (runes v)" using ascii_byte_rune [of "CHR ''/''" v] by simp
    then show False using v
      by (auto simp: valid_version_def versionPathComponent_def list_all_iff version_rune_ok_def split: if_splits)
  qed
  show "v \<noteq> []" using v by (auto simp: valid_version_def versionPathComponent_def)
qed

lemma versionOf_bin_path: "valid_version v \<Longrightarrow> versionOf (bin_path root v) = v"
  using valid_version_plain [of v]
  by (simp add: versionOf_def bin_path_def payloadBinaryName_def path_dir_join path_base_join)

section \<open>Well-formed stores\<close>

text \<open>Both links, when they are there, lead to the binary of a staged version.\<close>

definition link_ok :: "payload_store \<Rightarrow> string \<Rightarrow> bool" where
  "link_ok st l \<longleftrightarrow> (case st_links st l of None \<Rightarrow> True
     | Some t \<Rightarrow> \<exists>v \<in> fst ` set (st_bins st). valid_version v \<and> t = bin_path (st_root st) v)"

definition store_wf :: "payload_store \<Rightarrow> bool" where
  "store_wf st \<longleftrightarrow> has_prefix ''/'' (st_root st) \<and> link_ok st ''current'' \<and> link_ok st ''previous''"

lemma bin_path_abs: "has_prefix ''/'' root \<Longrightarrow> has_prefix ''/'' (bin_path root v)"
  by (auto simp: bin_path_def path_join_def has_prefix_iff)

lemma swapSymlink_effect:
  assumes "swapSymlink flt link target st = (st', r)" "link = ''current'' \<or> link = ''previous''"
  shows "st_root st' = st_root st \<and> st_bins st' = st_bins st \<and> st_quarantine st' = st_quarantine st
    \<and> (\<forall>l \<in> {''current'', ''previous''}. st_links st' l = (if r = Inr () \<and> l = link then Some target else st_links st l))"
proof -
  have n: "l \<noteq> link @ ''.tmp''" if "l \<in> {''current'', ''previous''}" for l
    using that assms(2) by auto
  define l1 where "l1 = (if flt ''remove'' (link @ ''.tmp'') then st_links st else (st_links st)(link @ ''.tmp'' := None))"
  have l1: "l1 l = st_links st l" if "l \<in> {''current'', ''previous''}" for l
    using n [OF that] by (simp add: l1_def)
  have sw: "(st', r) = (if flt ''symlink'' (link @ ''.tmp'') \<or> l1 (link @ ''.tmp'') \<noteq> None
      then (st\<lparr>st_links := l1\<rparr>, Inl (PsIO ''create symlink''))
      else if flt ''rename'' link
        then (st\<lparr>st_links := (if flt ''cleanup'' (link @ ''.tmp'') then l1(link @ ''.tmp'' \<mapsto> target)
                else l1(link @ ''.tmp'' := None))\<rparr>, Inl (PsIO ''swap symlink''))
        else (st\<lparr>st_links := l1(link @ ''.tmp'' := None, link \<mapsto> target)\<rparr>, Inr ()))"
    unfolding assms(1) [symmetric] swapSymlink_def Let_def l1_def [symmetric] fun_upd_upd ..
  show ?thesis using sw l1 n by (cases "flt ''symlink'' (link @ ''.tmp'') \<or> l1 (link @ ''.tmp'') \<noteq> None"; cases "flt ''rename'' link")
    (simp_all del: append.simps)
qed

lemma swapSymlink_ok:
  "\<not> flt ''remove'' (link @ ''.tmp'') \<Longrightarrow> \<not> flt ''symlink'' (link @ ''.tmp'') \<Longrightarrow> \<not> flt ''rename'' link \<Longrightarrow>
     snd (swapSymlink flt link target st) = Inr ()"
  by (simp add: swapSymlink_def Let_def)

lemma resolve_wf:
  assumes "store_wf st" "l = ''current'' \<or> l = ''previous''"
  shows "resolve flt l st = (case st_links st l of None \<Rightarrow> Inl PsNoCurrent
     | Some t \<Rightarrow> if flt ''readlink'' l then Inl (PsIO ''read pointer'') else Inr (t, versionOf t))"
proof (cases "st_links st l")
  case (Some t)
  then obtain v where "t = bin_path (st_root st) v" using assms by (auto simp: store_wf_def link_ok_def)
  then have "has_prefix ''/'' t" using assms(1) bin_path_abs by (simp add: store_wf_def)
  then show ?thesis using Some by (simp add: resolve_def)
qed (simp add: resolve_def)

text \<open>What every operation promises, whatever fails: the store stays well-formed, a link that was
  there stays, staged versions stay staged and quarantined versions stay quarantined.\<close>

definition store_le :: "payload_store \<Rightarrow> payload_store \<Rightarrow> bool" where
  "store_le st st' \<longleftrightarrow> st_root st' = st_root st \<and> fst ` set (st_bins st) \<subseteq> fst ` set (st_bins st')
     \<and> set (st_quarantine st) \<subseteq> set (st_quarantine st')
     \<and> (st_links st ''current'' \<noteq> None \<longrightarrow> st_links st' ''current'' \<noteq> None)"

definition keeps :: "payload_store \<Rightarrow> payload_store \<Rightarrow> bool" where
  "keeps st st' \<longleftrightarrow> (store_wf st \<longrightarrow> store_wf st') \<and> store_le st st'"

lemma keeps_refl [simp]: "keeps st st"
  by (simp add: keeps_def store_le_def)

lemma keeps_trans: "keeps a b \<Longrightarrow> keeps b c \<Longrightarrow> keeps a c"
  unfolding keeps_def store_le_def by auto

lemma swap_keeps:
  assumes "swapSymlink flt link target st = (st', r)" "link = ''current'' \<or> link = ''previous''"
    "store_wf st \<Longrightarrow> \<exists>v \<in> fst ` set (st_bins st). valid_version v \<and> target = bin_path (st_root st) v"
  shows "keeps st st'"
  using swapSymlink_effect [OF assms(1,2)] assms(2,3)
  by (auto simp: keeps_def store_wf_def store_le_def link_ok_def split: option.splits if_splits)

lemma Quarantine_keeps: "keeps st (fst (Quarantine flt v st))"
  by (auto simp: Quarantine_def keeps_def store_le_def store_wf_def link_ok_def split: sum.splits option.splits)

lemma Stage_keeps: "keeps st (fst (Stage flt sync v bytes st))"
proof -
  have "keeps st (st\<lparr>st_bins := AList.update v bytes (st_bins st)\<rparr>)"
    by (auto simp: keeps_def store_le_def store_wf_def link_ok_def dom_update split: option.splits)
  then show ?thesis by (auto simp: Stage_def Let_def split: sum.splits)
qed

lemma current_target:
  "store_wf st \<Longrightarrow> l \<in> {''current'', ''previous''} \<Longrightarrow> st_links st l = Some t \<Longrightarrow>
     \<exists>v \<in> fst ` set (st_bins st). valid_version v \<and> t = bin_path (st_root st) v"
  by (auto simp: store_wf_def link_ok_def)

lemma Activate_keeps: "keeps st (fst (Activate flt sync v st))"
proof (cases "valid_version v \<and> \<not> IsQuarantined flt v st \<and> map_of (st_bins st) v \<noteq> None")
  case True
  define m where "m = (if flt ''readlink'' ''current'' then (st, Inr ())
      else case st_links st ''current'' of None \<Rightarrow> (st, Inr ()) | Some cur \<Rightarrow> swapSymlink flt ''previous'' cur st)"
  obtain st1 r1 where m: "m = (st1, r1)" by fastforce
  have k1: "keeps st st1"
  proof (cases "flt ''readlink'' ''current'' \<or> st_links st ''current'' = None")
    case True
    then show ?thesis using m by (auto simp: m_def split: if_splits option.splits)
  next
    case False
    then obtain cur where c: "st_links st ''current'' = Some cur" by auto
    then have "swapSymlink flt ''previous'' cur st = (st1, r1)" using m False by (simp add: m_def)
    then show ?thesis by (rule swap_keeps) (use current_target c in auto)
  qed
  obtain st2 r2 where s: "swapSymlink flt ''current'' (bin_path (st_root st) v) st1 = (st2, r2)" by fastforce
  have "v \<in> fst ` set (st_bins st1)" "st_root st1 = st_root st"
    using True k1 by (auto simp: keeps_def store_le_def domIff dom_map_of_conv_image_fst [symmetric])
  then have "keeps st1 st2" using True by (intro swap_keeps [OF s]) auto
  then have "keeps st st2" using k1 keeps_trans by blast
  then show ?thesis using True k1 m s
    by (auto simp: Activate_def versionBinaryPath_cases m_def [symmetric] split: sum.splits)
qed (auto simp: Activate_def versionBinaryPath_cases)

lemma Rollback_keeps: "keeps st (fst (Rollback flt sync st))"
proof (cases "store_wf st")
  case False
  then show ?thesis
    using swapSymlink_effect [of flt "''current''" _ st]
    by (auto simp: Rollback_def keeps_def store_le_def split: sum.splits prod.splits ps_error.splits)
next
  case True
  show ?thesis
  proof (cases "Previous flt st")
    case (Inl e)
    then show ?thesis by (cases e) (auto simp: Rollback_def)
  next
    case (Inr p)
    then obtain t where t: "st_links st ''previous'' = Some t" "p = (t, versionOf t)"
      using resolve_wf [OF True, of "''previous''" flt] by (auto simp: Previous_def split: option.splits if_splits)
    obtain st1 r1 where s: "swapSymlink flt ''current'' t st = (st1, r1)" by fastforce
    have "keeps st st1" by (rule swap_keeps [OF s]) (use current_target [OF True] t in auto)
    then show ?thesis using Inr t s by (auto simp: Rollback_def split: sum.splits)
  qed
qed

end
