(* ===== verification/Launcher.thy ===== *)
theory Launcher
  imports Payload_Store
begin

text \<open>
  The resident launcher that supervises the payload (\<^verbatim>\<open>internal/agent/launcher.go\<close>,
  \<^verbatim>\<open>healthmarker.go\<close>) and the payload's own update of the store
  (\<^verbatim>\<open>internal/agent/selfupdate_apply_unix.go\<close>). A \<^verbatim>\<open>select\<close> is the choice of the event that
  fires; \<open>launch_step\<close> interleaves the launcher with the updates the running payload makes.
\<close>

section \<open>Markers\<close>

record marker_body =
  mb_SchemaVersion :: int
  mb_Version :: string

definition markerSchemaVersion :: int where
  "markerSchemaVersion = 1"

text \<open>A marker file is missing, unreadable, not JSON of the right shape, or a body.\<close>

datatype marker_file = MMissing | MUnreadable | MMalformed | MBody marker_body

definition writeMarkerAtomic :: "bool \<Rightarrow> marker_body \<Rightarrow> marker_file \<Rightarrow> marker_file \<times> bool" where
  "writeMarkerAtomic fails body old =
     (if fails then (old, False) else (MBody (body\<lparr>mb_SchemaVersion := markerSchemaVersion\<rparr>), True))"

text \<open>\<^term>\<open>Inl ()\<close> is a genuine I/O error.\<close>

definition readMarker :: "marker_file \<Rightarrow> unit + string option" where
  "readMarker m =
     (case m of
        MMissing \<Rightarrow> Inr None
      | MUnreadable \<Rightarrow> Inl ()
      | MMalformed \<Rightarrow> Inr None
      | MBody b \<Rightarrow> if mb_SchemaVersion b \<noteq> markerSchemaVersion then Inr None else Inr (Some (mb_Version b)))"

definition WriteHealthMarker :: "bool \<Rightarrow> string \<Rightarrow> string \<Rightarrow> marker_file \<Rightarrow> marker_file \<times> bool" where
  "WriteHealthMarker fails path version old =
     (if path = [] then (old, True)
      else writeMarkerAtomic fails \<lparr>mb_SchemaVersion = 0, mb_Version = version\<rparr> old)"

definition marker_matches :: "string \<Rightarrow> marker_file \<Rightarrow> bool" where
  "marker_matches version m \<longleftrightarrow> readMarker m = Inr (Some version)"

text \<open>\<^verbatim>\<open>WaitHealthy\<close>: the marker as it is found at each poll; \<^term>\<open>None\<close> is the context ending.\<close>

fun WaitHealthy :: "string \<Rightarrow> marker_file option list \<Rightarrow> bool option" where
  "WaitHealthy version [] = None"
| "WaitHealthy version (None # ms) = Some False"
| "WaitHealthy version (Some m # ms) = (if marker_matches version m then Some True else WaitHealthy version ms)"

section \<open>Supervision\<close>

datatype supervise_outcome =
  SuperviseHealthy | SuperviseUnhealthy | SuperviseShutdown | SupervisePendingUpdate | SuperviseExited

text \<open>Which channel the first \<^verbatim>\<open>select\<close> receives from, whether the context is already cancelled
  and whether a stop is requested by then.\<close>

datatype wait_event = WCtxDone | WExited | WHealth bool

definition superviseUntilHealthy :: "wait_event \<Rightarrow> bool \<Rightarrow> bool \<Rightarrow> supervise_outcome" where
  "superviseUntilHealthy ev cancelled stopRequested =
     (case ev of
        WCtxDone \<Rightarrow> SuperviseShutdown
      | WExited \<Rightarrow>
          if cancelled then SuperviseShutdown
          else if stopRequested then SuperviseShutdown
          else SuperviseUnhealthy
      | WHealth True \<Rightarrow> SuperviseHealthy
      | WHealth False \<Rightarrow> if cancelled then SuperviseShutdown else SuperviseUnhealthy)"

datatype steady_event = SCtxDone | SExited | STick

text \<open>\<^verbatim>\<open>consumePendingUpdate\<close> on whether the marker is there; it is removed unless that fails.\<close>

definition consumePendingUpdate :: "bool \<Rightarrow> bool \<Rightarrow> bool \<times> bool" where
  "consumePendingUpdate remove_fails pending = (if \<not> pending then (False, pending) else (True, remove_fails))"

text \<open>One turn of the loop of \<^verbatim>\<open>superviseSteadyState\<close>; \<^term>\<open>None\<close> is another turn.\<close>

definition superviseSteadyState :: "steady_event \<Rightarrow> bool \<Rightarrow> bool \<Rightarrow> bool \<Rightarrow> bool \<Rightarrow> supervise_outcome option \<times> bool" where
  "superviseSteadyState ev cancelled stopRequested remove_fails pending =
     (case ev of
        SCtxDone \<Rightarrow> (Some SuperviseShutdown, pending)
      | SExited \<Rightarrow>
          (Some (if cancelled then SuperviseShutdown
                 else if stopRequested then SuperviseShutdown
                 else SuperviseExited), pending)
      | STick \<Rightarrow>
          let (found, pending') = consumePendingUpdate remove_fails pending
          in (if found then Some SupervisePendingUpdate else None, pending'))"

definition demoteBadVersion :: "store_faults \<Rightarrow> string option \<Rightarrow> string \<Rightarrow> payload_store \<Rightarrow>
    payload_store \<times> (ps_error, unit) result" where
  "demoteBadVersion flt sync version st =
     (let st1 = fst (Quarantine flt version st) in
      case Rollback flt sync st1 of
        (st2, Inl e) \<Rightarrow> (st2, Inl e)
      | (st2, Inr rolledTo) \<Rightarrow> (st2, Inr ()))"

section \<open>The payload's update\<close>

text \<open>\<open>download\<close> is the outcome of \<^verbatim>\<open>downloadVerified\<close>: the bytes, or an error. The result says
  whether the pending-update marker was written.\<close>

datatype update_error = UpQuarantined | UpDownload | UpOpen | UpStage ps_error | UpActivate ps_error | UpMarker

definition applyUpdate :: "store_faults \<Rightarrow> string option \<Rightarrow> string option \<Rightarrow> string \<Rightarrow> payload_store \<Rightarrow>
    payload_store \<times> (update_error, unit) result" where
  "applyUpdate flt sync download expectedVersion st =
     (if IsQuarantined flt expectedVersion st then (st, Inl UpQuarantined)
      else case download of
        None \<Rightarrow> (st, Inl UpDownload)
      | Some bytes \<Rightarrow>
          if flt ''open'' ''download'' then (st, Inl UpOpen)
          else case Stage flt sync expectedVersion bytes st of
            (st1, Inl e) \<Rightarrow> (st1, Inl (UpStage e))
          | (st1, Inr _) \<Rightarrow>
              (case Activate flt sync expectedVersion st1 of
                 (st2, Inl e) \<Rightarrow> (st2, Inl (UpActivate e))
               | (st2, Inr _) \<Rightarrow> if flt ''write'' ''pending-update'' then (st2, Inl UpMarker) else (st2, Inr ())))"

section \<open>The launcher's run\<close>

datatype launch_end = LClean | LCancelled | LNoCurrent ps_error | LStartFailed | LNoLastGood ps_error

datatype launch_pc = LStart | LWaiting string | LSteady string | LEnded launch_end

record launcher =
  la_store :: payload_store
  la_pc :: launch_pc
  la_pending :: bool

inductive launch_step :: "launcher \<Rightarrow> launcher \<Rightarrow> bool" where
  stop_before_start: "la_pc s = LStart \<Longrightarrow> launch_step s (s\<lparr>la_pc := LEnded LClean\<rparr>)"
| no_current: "la_pc s = LStart \<Longrightarrow> Current flt (la_store s) = Inl e \<Longrightarrow> launch_step s (s\<lparr>la_pc := LEnded (LNoCurrent e)\<rparr>)"
| start_fails: "la_pc s = LStart \<Longrightarrow> Current flt (la_store s) = Inr (curBin, curVer) \<Longrightarrow>
     launch_step s (s\<lparr>la_pc := LEnded LStartFailed\<rparr>)"
| start_payload: "la_pc s = LStart \<Longrightarrow> Current flt (la_store s) = Inr (curBin, curVer) \<Longrightarrow>
     launch_step s (s\<lparr>la_pc := LWaiting curVer\<rparr>)"
| wait_shutdown: "la_pc s = LWaiting v \<Longrightarrow> superviseUntilHealthy ev cancelled stopReq = SuperviseShutdown \<Longrightarrow>
     launch_step s (s\<lparr>la_pc := LEnded LCancelled\<rparr>)"
| wait_healthy: "la_pc s = LWaiting v \<Longrightarrow> superviseUntilHealthy ev cancelled stopReq = SuperviseHealthy \<Longrightarrow>
     launch_step s (s\<lparr>la_pc := LSteady v\<rparr>)"
| wait_unhealthy: "la_pc s = LWaiting v \<Longrightarrow> superviseUntilHealthy ev cancelled stopReq = SuperviseUnhealthy \<Longrightarrow>
     demoteBadVersion flt sync v (la_store s) = (st, r) \<Longrightarrow>
     launch_step s (s\<lparr>la_store := st, la_pc := (case r of Inl e \<Rightarrow> LEnded (LNoLastGood e) | Inr _ \<Rightarrow> LStart)\<rparr>)"
| steady: "la_pc s = LSteady v \<Longrightarrow>
     superviseSteadyState ev cancelled stopReq remove_fails (la_pending s) = (out, pending) \<Longrightarrow>
     launch_step s (s\<lparr>la_pending := pending, la_pc := (case out of
         None \<Rightarrow> LSteady v
       | Some SuperviseShutdown \<Rightarrow> LEnded LCancelled
       | Some _ \<Rightarrow> LStart)\<rparr>)"
| payload_update: "la_pc s = LWaiting v \<or> la_pc s = LSteady v \<Longrightarrow>
     applyUpdate flt sync download ver (la_store s) = (st, r) \<Longrightarrow>
     launch_step s (s\<lparr>la_store := st, la_pending := (la_pending s \<or> r = Inr ())\<rparr>)"

definition launcher_init :: "launcher \<Rightarrow> bool" where
  "launcher_init s \<longleftrightarrow> la_pc s = LStart \<and> store_wf (la_store s) \<and> st_links (la_store s) ''current'' \<noteq> None"

definition launcher_inv :: "launcher \<Rightarrow> bool" where
  "launcher_inv s \<longleftrightarrow> store_wf (la_store s) \<and> st_links (la_store s) ''current'' \<noteq> None"

section \<open>Invariant\<close>

lemma demote_keeps: "keeps st (fst (demoteBadVersion flt sync v st))"
  using keeps_trans [OF Quarantine_keeps Rollback_keeps]
  by (auto simp: demoteBadVersion_def Let_def split: prod.splits sum.splits) (metis fst_conv)+

lemma applyUpdate_keeps: "keeps st (fst (applyUpdate flt sync dl v st))"
proof -
  have s: "keeps st st1" if "Stage flt sync v b st = (st1, r)" for b st1 r
    using Stage_keeps [of st flt sync v b] that by simp
  have a: "keeps st1 st2" if "Activate flt sync v st1 = (st2, r)" for st1 st2 r
    using Activate_keeps [of st1 flt sync v] that by simp
  show ?thesis
    using s a keeps_trans by (fastforce simp: applyUpdate_def split: option.splits prod.splits sum.splits)
qed

lemma launcher_keeps: "launch_step s t \<Longrightarrow> keeps (la_store s) (la_store t)"
proof (induction rule: launch_step.induct)
  case (wait_unhealthy s v ev cancelled stopReq flt sync st r)
  then show ?case using demote_keeps [of "la_store s" flt sync v] by simp
next
  case (payload_update s v flt sync download ver st r)
  then show ?case using applyUpdate_keeps [of "la_store s" flt sync download ver] by simp
qed simp_all

interpretation launches: monotone_system launcher_init launch_step launcher_inv
  "\<lambda>s t. store_le (la_store s) (la_store t)"
proof
  show "launcher_init s \<Longrightarrow> launcher_inv s" for s by (simp add: launcher_init_def launcher_inv_def)
  show "launcher_inv s \<Longrightarrow> launch_step s t \<Longrightarrow> launcher_inv t" for s t
    using launcher_keeps by (auto simp: launcher_inv_def keeps_def store_le_def)
  show "launcher_inv s \<Longrightarrow> launch_step s t \<Longrightarrow> store_le (la_store s) (la_store t)" for s t
    using launcher_keeps by (auto simp: keeps_def)
qed (auto simp: store_le_def)

section \<open>A payload is always runnable\<close>

text \<open>C28: There is always a payload to start: in every state the launcher and the updates of its
  payloads can reach from a store with a current version, whatever file operations fail on the
  way, the current pointer leads to the binary of a staged version, and resolving it gives that
  version.\<close>

theorem payload_always_runnable:
  assumes "launcher_init s0" "launch_step\<^sup>*\<^sup>* s0 s" "\<not> flt ''readlink'' ''current''"
  shows "\<exists>v. map_of (st_bins (la_store s)) v \<noteq> None
    \<and> Current flt (la_store s) = Inr (bin_path (st_root (la_store s)) v, v)"
proof -
  have inv: "store_wf (la_store s)" "st_links (la_store s) ''current'' \<noteq> None"
    using launches.inv_reachable [OF assms(1,2)] by (auto simp: launcher_inv_def)
  then obtain t where t: "st_links (la_store s) ''current'' = Some t" by auto
  then obtain v where v: "v \<in> fst ` set (st_bins (la_store s))" "valid_version v" "t = bin_path (st_root (la_store s)) v"
    using current_target [OF inv(1)] by blast
  have "map_of (st_bins (la_store s)) v \<noteq> None"
    using v(1) by (simp add: map_of_eq_None_iff)
  moreover have "Current flt (la_store s) = Inr (bin_path (st_root (la_store s)) v, v)"
    using resolve_wf [OF inv(1), of "''current''" flt] t v assms(3) versionOf_bin_path by (simp add: Current_def)
  ultimately show ?thesis by blast
qed

section \<open>Rolling back\<close>

abbreviation no_store_faults :: store_faults where
  "no_store_faults \<equiv> \<lambda>_ _. False"

lemma swap_ok:
  "swapSymlink no_store_faults link target st =
     (st\<lparr>st_links := (st_links st)(link @ ''.tmp'' := None, link \<mapsto> target)\<rparr>, Inr ())"
  unfolding swapSymlink_def Let_def by simp

lemma tmp_links: "''current'' @ ''.tmp'' \<noteq> ''previous''" "''previous'' @ ''.tmp'' \<noteq> ''current''"
    "''current'' \<noteq> ''current'' @ ''.tmp''" "''previous'' \<noteq> ''previous'' @ ''.tmp''"
  by simp_all

lemma Activate_ok:
  assumes "valid_version v" "v \<notin> set (st_quarantine st)" "map_of (st_bins st) v \<noteq> None"
    "st_links st ''current'' = Some cur"
  shows "\<exists>st'. Activate no_store_faults None v st = (st', Inr ()) \<and> st_links st' ''current'' = Some (bin_path (st_root st) v)
    \<and> st_links st' ''previous'' = Some cur \<and> st_bins st' = st_bins st \<and> st_quarantine st' = st_quarantine st
    \<and> st_root st' = st_root st"
  using assms
  by (simp add: Activate_def versionBinaryPath_cases IsQuarantined_def versionPathComponent_cases swap_ok fsyncDir_def)

lemma demote_ok:
  assumes "store_wf st" "valid_version v" "st_links st ''previous'' = Some (bin_path (st_root st) u)"
  shows "\<exists>st'. demoteBadVersion no_store_faults None v st = (st', Inr ()) \<and> v \<in> set (st_quarantine st')
    \<and> st_links st' ''current'' = Some (bin_path (st_root st) u) \<and> st_links st' ''previous'' = Some (bin_path (st_root st) u)
    \<and> st_bins st' = st_bins st \<and> st_root st' = st_root st"
proof -
  let ?q = "st\<lparr>st_quarantine := v # st_quarantine st\<rparr>"
  have q: "Quarantine no_store_faults v st = (?q, Inr ())"
    using assms(2) by (simp add: Quarantine_def versionPathComponent_cases)
  have "store_wf ?q" using assms(1) Quarantine_keeps [of st no_store_faults v] q by (simp add: keeps_def)
  then have "Previous no_store_faults ?q = Inr (bin_path (st_root st) u, versionOf (bin_path (st_root st) u))"
    using resolve_wf [of ?q "''previous''" no_store_faults] assms(3) by (simp add: Previous_def)
  then show ?thesis using assms(3) by (simp add: demoteBadVersion_def q Rollback_def swap_ok fsyncDir_def)
qed


section \<open>A second rollback\<close>

definition demo_store :: payload_store where
  "demo_store = \<lparr>st_root = ''/p'', st_links = [''current'' \<mapsto> bin_path ''/p'' ''v2'', ''previous'' \<mapsto> bin_path ''/p'' ''v1''],
     st_bins = [(''v1'', ''one''), (''v2'', ''two'')], st_quarantine = []\<rparr>"

definition demo_launcher :: launcher where
  "demo_launcher = \<lparr>la_store = demo_store, la_pc = LStart, la_pending = False\<rparr>"

lemma demo_versions: "valid_version ''v1''" "valid_version ''v2''" "valid_version ''v3''"
  by (simp_all add: valid_version_def versionPathComponent_def runes_ascii version_rune_ok_def)

lemma demo_launcher_init: "launcher_init demo_launcher"
  using demo_versions by (simp add: launcher_init_def demo_launcher_def store_wf_def link_ok_def demo_store_def has_prefix_def)

lemma failed_start_step:
  assumes "la_pc s = LStart" "store_wf (la_store s)" "st_root (la_store s) = ''/p''"
    "st_links (la_store s) ''current'' = Some (bin_path ''/p'' v)" "valid_version v"
    "st_links (la_store s) ''previous'' = Some (bin_path ''/p'' ''v1'')"
  shows "\<exists>t. launch_step s (s\<lparr>la_pc := LWaiting v\<rparr>) \<and> launch_step (s\<lparr>la_pc := LWaiting v\<rparr>) t \<and> la_pc t = LStart
    \<and> store_wf (la_store t) \<and> st_root (la_store t) = ''/p'' \<and> st_links (la_store t) ''current'' = Some (bin_path ''/p'' ''v1'')
    \<and> st_links (la_store t) ''previous'' = Some (bin_path ''/p'' ''v1'') \<and> v \<in> set (st_quarantine (la_store t))"
proof -
  have c: "Current no_store_faults (la_store s) = Inr (bin_path ''/p'' v, v)"
    using resolve_wf [OF assms(2), of "''current''" no_store_faults] assms(4,5) versionOf_bin_path by (simp add: Current_def)
  obtain st' where d: "demoteBadVersion no_store_faults None v (la_store s) = (st', Inr ())" "v \<in> set (st_quarantine st')"
    "st_links st' ''current'' = Some (bin_path ''/p'' ''v1'')" "st_links st' ''previous'' = Some (bin_path ''/p'' ''v1'')"
    "st_root st' = ''/p''"
    using demote_ok [OF assms(2,5), of "''v1''"] assms(3,6) by auto
  have wf: "store_wf st'" using demote_keeps [of "la_store s" no_store_faults None v] assms(2) d(1) by (simp add: keeps_def)
  have "launch_step (s\<lparr>la_pc := LWaiting v\<rparr>) ((s\<lparr>la_pc := LWaiting v\<rparr>)\<lparr>la_store := st',
      la_pc := (case Inr () :: (ps_error, unit) result of Inl e \<Rightarrow> LEnded (LNoLastGood e) | Inr _ \<Rightarrow> LStart)\<rparr>)"
    by (rule wait_unhealthy [where ev = "WHealth False" and cancelled = False and stopReq = False and v = v])
      (use d(1) in \<open>simp_all add: superviseUntilHealthy_def\<close>)
  then show ?thesis using start_payload [OF assms(1) c] d wf by (intro exI conjI) auto
qed

text \<open>The launcher can restart a version it has just quarantined: when both the new version and
  the version it is rolled back to miss their health deadline (a control plane that is down for
  long enough does that), the second rollback leaves the pointer on the version it has just
  quarantined, and the launcher starts it again instead of ending with an error.\<close>

theorem second_rollback_restarts_quarantined:
  "\<exists>s0 s v. launcher_init s0 \<and> launch_step\<^sup>*\<^sup>* s0 s \<and> la_pc s = LWaiting v \<and> v \<in> set (st_quarantine (la_store s))"
proof -
  have wf: "store_wf demo_store" using demo_launcher_init by (simp add: launcher_init_def demo_launcher_def)
  obtain t1 where t1: "launch_step demo_launcher (demo_launcher\<lparr>la_pc := LWaiting ''v2''\<rparr>)"
    "launch_step (demo_launcher\<lparr>la_pc := LWaiting ''v2''\<rparr>) t1" "la_pc t1 = LStart" "store_wf (la_store t1)"
    "st_root (la_store t1) = ''/p''" "st_links (la_store t1) ''current'' = Some (bin_path ''/p'' ''v1'')"
    "st_links (la_store t1) ''previous'' = Some (bin_path ''/p'' ''v1'')"
    using failed_start_step [of demo_launcher "''v2''"] wf demo_versions
    by (auto simp: demo_launcher_def demo_store_def)
  obtain t2 where t2: "launch_step t1 (t1\<lparr>la_pc := LWaiting ''v1''\<rparr>)" "launch_step (t1\<lparr>la_pc := LWaiting ''v1''\<rparr>) t2"
    "la_pc t2 = LStart" "store_wf (la_store t2)" "st_root (la_store t2) = ''/p''"
    "st_links (la_store t2) ''current'' = Some (bin_path ''/p'' ''v1'')"
    "st_links (la_store t2) ''previous'' = Some (bin_path ''/p'' ''v1'')" "''v1'' \<in> set (st_quarantine (la_store t2))"
    using failed_start_step [OF t1(3-6) demo_versions(1) t1(7)] by blast
  have t3: "launch_step t2 (t2\<lparr>la_pc := LWaiting ''v1''\<rparr>)"
    using failed_start_step [OF t2(3-6) demo_versions(1) t2(7)] by blast
  have "launch_step\<^sup>*\<^sup>* demo_launcher (t2\<lparr>la_pc := LWaiting ''v1''\<rparr>)"
    using t1(1,2) t2(1,2) t3 by (meson rtranclp.rtrancl_into_rtrancl rtranclp.rtrancl_refl)
  then show ?thesis using demo_launcher_init t2(8)
    by (intro exI [of _ demo_launcher] exI [of _ "t2\<lparr>la_pc := LWaiting ''v1''\<rparr>"] exI [of _ "''v1''"]) simp
qed

text \<open>Activating the version that is already current loses the last known good version: the
  rollback target becomes that version itself.\<close>

theorem reactivation_loses_last_good:
  assumes "valid_version v" "v \<notin> set (st_quarantine st)" "map_of (st_bins st) v \<noteq> None"
    "st_links st ''current'' = Some (bin_path (st_root st) v)"
  shows "\<exists>st'. Activate no_store_faults None v st = (st', Inr ())
    \<and> st_links st' ''previous'' = Some (bin_path (st_root st) v)"
  using Activate_ok [OF assms(1,2,3,4)] by blast

section \<open>Witnesses\<close>

theorem payload_always_runnable_witness:
  "\<exists>v. map_of (st_bins (la_store demo_launcher)) v \<noteq> None
     \<and> Current (\<lambda>_ _. False) (la_store demo_launcher) = Inr (bin_path (st_root (la_store demo_launcher)) v, v)"
  by (rule payload_always_runnable [OF demo_launcher_init rtranclp.rtrancl_refl]) simp


end
