(* ===== verification/Self_Update.thy ===== *)
theory Self_Update
  imports Launcher Api_Types
begin

text \<open>
  The agent's self-update (\<^verbatim>\<open>internal/agent/selfupdate.go\<close>, \<^verbatim>\<open>updatehost.go\<close>,
  \<^verbatim>\<open>selfupdate_apply_unix.go\<close>): the update plan's URL templates, the host allowlist, the download
  with its checksum, and the command handler that puts them together.

  \<open>url_host\<close> is the part of \<^verbatim>\<open>net/url\<close> the allowlist check uses, \<^verbatim>\<open>url.Parse\<close> followed by
  \<^verbatim>\<open>Hostname\<close>. Host names are compared with the ASCII case mapping. The network is a parameter: \<open>fetch url\<close> is the status and
  body a GET gives, or \<^term>\<open>None\<close> when the request fails; \<open>sha256\<close> is the digest.
\<close>

section \<open>URL templates\<close>

text \<open>\<^verbatim>\<open>strings.NewReplacer\<close>: at each position the first pattern that matches is replaced.\<close>

fun first_match :: "(string \<times> string) list \<Rightarrow> string \<Rightarrow> (string \<times> string) option" where
  "first_match [] s = None"
| "first_match ((p, r) # ps) s = (if has_prefix p s then Some (p, r) else first_match ps s)"

fun replace_all :: "(string \<times> string) list \<Rightarrow> nat \<Rightarrow> string \<Rightarrow> string" where
  "replace_all ps skip [] = []"
| "replace_all ps (Suc k) (c # cs) = replace_all ps k cs"
| "replace_all ps 0 (c # cs) =
     (case first_match ps (c # cs) of
        None \<Rightarrow> c # replace_all ps 0 cs
      | Some (p, r) \<Rightarrow> r @ replace_all ps (length p - 1) cs)"

definition ResolveTemplate :: "string \<Rightarrow> string \<Rightarrow> string \<Rightarrow> string \<Rightarrow> string" where
  "ResolveTemplate tmpl goos goarch ver =
     replace_all [(''{os}'', goos), (''{arch}'', goarch), (''{version}'', ver),
        (''{ext}'', if goos = ''windows'' then ''.exe'' else [])] 0 tmpl"

section \<open>The host of a URL\<close>

definition cut_at :: "char \<Rightarrow> string \<Rightarrow> string \<times> string" where
  "cut_at c s = (takeWhile (\<lambda>x. x \<noteq> c) s, tl (dropWhile (\<lambda>x. x \<noteq> c) s))"

definition is_letter :: "char \<Rightarrow> bool" where
  "is_letter c \<longleftrightarrow> (let n = of_char c :: nat in 65 \<le> n \<and> n \<le> 90 \<or> 97 \<le> n \<and> n \<le> 122)"

text \<open>\<^verbatim>\<open>getScheme\<close>; \<^term>\<open>None\<close> is its error.\<close>

fun scheme_from :: "string \<Rightarrow> string \<Rightarrow> string \<Rightarrow> (string \<times> string) option" where
  "scheme_from whole acc [] = Some ([], whole)"
| "scheme_from whole acc (c # cs) =
     (if is_letter c then scheme_from whole (acc @ [c]) cs
      else if is_digit c \<or> c \<in> set ''+-.'' then
        (if acc = [] then Some ([], whole) else scheme_from whole (acc @ [c]) cs)
      else if c = CHR '':'' then (if acc = [] then None else Some (acc, cs))
      else Some ([], whole))"

text \<open>\<^verbatim>\<open>shouldEscape\<close> in host mode, for an ASCII byte.\<close>

definition host_char :: "char \<Rightarrow> bool" where
  "host_char c \<longleftrightarrow> is_letter c \<or> is_digit c \<or> c \<in> set ''!$&()*+,;=:[]<>-_.~'' \<or> c = CHR 0x27 \<or> c = CHR 0x22"

definition unhex :: "char \<Rightarrow> nat option" where
  "unhex c = (let n = of_char c :: nat in
     if 48 \<le> n \<and> n \<le> 57 then Some (n - 48)
     else if 97 \<le> n \<and> n \<le> 102 then Some (n - 87)
     else if 65 \<le> n \<and> n \<le> 70 then Some (n - 55)
     else None)"

text \<open>\<^verbatim>\<open>unescape\<close> in host mode and, for \<open>lax\<close>, in the modes that only fail on a broken escape.\<close>

fun unescape :: "bool \<Rightarrow> string \<Rightarrow> string option" where
  "unescape lax [] = Some []"
| "unescape lax (c # cs) =
     (if c = CHR ''%'' then
        (case cs of
           a # b # rest \<Rightarrow>
             (case (unhex a, unhex b) of
                (Some x, Some y) \<Rightarrow>
                  if \<not> lax \<and> x < 8 \<and> [a, b] \<noteq> ''25'' then None
                  else map_option (Cons (char_of (16 * x + y))) (unescape lax rest)
              | _ \<Rightarrow> None)
         | _ \<Rightarrow> None)
      else if \<not> lax \<and> (of_char c :: nat) < 128 \<and> \<not> host_char c then None
      else map_option (Cons c) (unescape lax cs))"

definition validOptionalPort :: "string \<Rightarrow> bool" where
  "validOptionalPort p \<longleftrightarrow> p = [] \<or> hd p = CHR '':'' \<and> list_all is_digit (tl p)"

text \<open>The part from the last occurrence of a byte on, and the part before it.\<close>

definition from_last :: "char \<Rightarrow> string \<Rightarrow> string option" where
  "from_last c s = (if c \<in> set s then Some (c # rev (takeWhile (\<lambda>x. x \<noteq> c) (rev s))) else None)"

definition before_last :: "char \<Rightarrow> string \<Rightarrow> string" where
  "before_last c s = rev (tl (dropWhile (\<lambda>x. x \<noteq> c) (rev s)))"

text \<open>\<^verbatim>\<open>parseHost\<close>, without the zone of an IPv6 literal.\<close>

definition parse_host :: "string \<Rightarrow> string option" where
  "parse_host host =
     (if has_prefix ''['' host then
        (case from_last (CHR '']'') host of
           None \<Rightarrow> None
         | Some r \<Rightarrow> if validOptionalPort (tl r) then unescape False host else None)
      else case from_last (CHR '':'') host of
        Some port \<Rightarrow> if validOptionalPort port then unescape False host else None
      | None \<Rightarrow> unescape False host)"

definition valid_userinfo :: "string \<Rightarrow> bool" where
  "valid_userinfo s \<longleftrightarrow> list_all (\<lambda>c. is_letter c \<or> is_digit c \<or> c \<in> set ''-._:~!$&()*+,;=%@'' \<or> c = CHR 0x27) s"

definition parse_authority :: "string \<Rightarrow> string option" where
  "parse_authority authority =
     (case from_last (CHR ''@'') authority of
        None \<Rightarrow> parse_host authority
      | Some at \<Rightarrow>
          (case parse_host (tl at) of
             None \<Rightarrow> None
           | Some h \<Rightarrow>
               let user = before_last (CHR ''@'') authority in
               if valid_userinfo user \<and> unescape True user \<noteq> None then Some h else None))"

definition url_parse_host :: "string \<Rightarrow> string option" where
  "url_parse_host rawURL =
     (let (u, frag) = cut_at (CHR ''#'') rawURL in
      if list_ex (\<lambda>c. (of_char c :: nat) < 32 \<or> c = CHR 0x7F) u then None
      else if unescape True frag = None then None
      else if u = ''*'' then Some []
      else case scheme_from u [] u of
        None \<Rightarrow> None
      | Some (scheme, rest) \<Rightarrow>
          let path = fst (cut_at (CHR ''?'') rest) in
          if \<not> has_prefix ''/'' path then
            (if scheme \<noteq> [] then Some []
             else if CHR '':'' \<in> set (fst (cut_at (CHR ''/'') path)) then None
             else if unescape True path = None then None else Some [])
          else if (scheme \<noteq> [] \<or> \<not> has_prefix ''///'' path) \<and> has_prefix ''//'' path then
            let authority = takeWhile (\<lambda>c. c \<noteq> CHR ''/'') (drop 2 path);
                rest' = dropWhile (\<lambda>c. c \<noteq> CHR ''/'') (drop 2 path) in
            (case parse_authority authority of
               None \<Rightarrow> None
             | Some h \<Rightarrow> if unescape True rest' = None then None else Some h)
          else if unescape True path = None then None else Some [])"

text \<open>\<^verbatim>\<open>Hostname\<close>: the port and the brackets of an IPv6 literal are stripped.\<close>

definition strip_port :: "string \<Rightarrow> string" where
  "strip_port hostPort =
     (let h = (case from_last (CHR '':'') hostPort of
                 None \<Rightarrow> hostPort
               | Some p \<Rightarrow> if validOptionalPort p then before_last (CHR '':'') hostPort else hostPort)
      in if has_prefix ''['' h \<and> has_suffix '']'' h then butlast (tl h) else h)"

definition url_host :: "string \<Rightarrow> string option" where
  "url_host rawURL = map_option strip_port (url_parse_host rawURL)"

section \<open>The allowlist\<close>

definition DefaultUpdateHostAllowlist :: "string list" where
  "DefaultUpdateHostAllowlist = [''github.com'']"

definition AllowedUpdateHosts :: "string list option \<Rightarrow> string list" where
  "AllowedUpdateHosts cfg = (case cfg of None \<Rightarrow> DefaultUpdateHostAllowlist | Some l \<Rightarrow> l)"

definition ValidateUpdateURL :: "string \<Rightarrow> string list \<Rightarrow> bool" where
  "ValidateUpdateURL rawURL allowlist =
     (case url_host rawURL of
        None \<Rightarrow> False
      | Some h \<Rightarrow>
          let host = to_lower h in
          if host = [] then False else list_ex (\<lambda>allowed. equal_fold host allowed) allowlist)"

section \<open>Downloads\<close>

type_synonym fetch = "string \<Rightarrow> (nat \<times> string) option"

datatype dl_error = DlTemp | DlDownload | DlChecksumFetch | DlEmptyChecksum | ErrChecksumMismatch

definition su_download :: "fetch \<Rightarrow> bool \<Rightarrow> string \<Rightarrow> string option" where
  "su_download fetch write_fails url =
     (case fetch url of
        None \<Rightarrow> None
      | Some (status, body) \<Rightarrow> if status \<noteq> 200 \<or> write_fails then None else Some body)"

definition verifySHA256 :: "(string \<Rightarrow> string) \<Rightarrow> fetch \<Rightarrow> string \<Rightarrow> string \<Rightarrow> (dl_error, unit) result" where
  "verifySHA256 sha256 fetch file sha256URL =
     (case fetch sha256URL of
        None \<Rightarrow> Inl DlChecksumFetch
      | Some (status, raw) \<Rightarrow>
          if status \<noteq> 200 then Inl DlChecksumFetch
          else case Prelude.fields raw of
            [] \<Rightarrow> Inl DlEmptyChecksum
          | f # fs \<Rightarrow> if hex_encode (sha256 file) \<noteq> to_lower f then Inl ErrChecksumMismatch else Inr ())"

definition downloadVerified :: "(string \<Rightarrow> string) \<Rightarrow> fetch \<Rightarrow> bool \<Rightarrow> bool \<Rightarrow> string \<Rightarrow> string \<Rightarrow> (dl_error, string) result" where
  "downloadVerified sha256 fetch temp_fails write_fails assetURL sha256URL =
     (if temp_fails then Inl DlTemp
      else case su_download fetch write_fails assetURL of
        None \<Rightarrow> Inl DlDownload
      | Some bytes \<Rightarrow>
          if sha256URL = [] then Inr bytes
          else case verifySHA256 sha256 fetch bytes sha256URL of
            Inl e \<Rightarrow> Inl e
          | Inr _ \<Rightarrow> Inr bytes)"

section \<open>The in-place swap\<close>

text \<open>\<^verbatim>\<open>Updater.Apply\<close> and \<^verbatim>\<open>Updater.Rollback\<close>, which Windows and the CLI use: \<open>files\<close> are the bytes
  at the binary's path and its neighbours, \<open>bin\<close> that path, \<open>prevSuffix\<close> the platform's suffix.
  A download that fails may leave \<open>partial\<close> bytes in the new file.\<close>

datatype apply_error = ErrPinned | ApDownload | ApVerify dl_error | ApChmod | ApRenamePrev | ApRenameNew
  | ApNoPrev | ApRenameFailed

type_synonym bin_files = "string \<rightharpoonup> string"

record apply_faults =
  af_partial :: "string option"
  af_chmod :: bool
  af_rename_prev :: bool
  af_rename_new :: bool
  af_restore :: bool
  af_remove :: bool

definition rm_new :: "apply_faults \<Rightarrow> string \<Rightarrow> bin_files \<Rightarrow> bin_files" where
  "rm_new flt newPath fs = (if af_remove flt then fs else fs(newPath := None))"

definition Updater_Apply :: "apply_faults \<Rightarrow> (string \<Rightarrow> string) \<Rightarrow> fetch \<Rightarrow> string \<Rightarrow> string \<Rightarrow> string \<Rightarrow> string \<Rightarrow>
    string \<Rightarrow> string \<Rightarrow> bin_files \<Rightarrow> bin_files \<times> (apply_error, unit) result" where
  "Updater_Apply flt sha256 fetch pinned bin prevSuffix expectedVersion assetURL sha256URL fs =
     (if pinned \<noteq> [] \<and> pinned \<noteq> expectedVersion then (fs, Inl ErrPinned)
      else
        let newPath = bin @ ''.new''; prevPath = bin @ prevSuffix in
        case su_download fetch (af_partial flt \<noteq> None) assetURL of
          None \<Rightarrow> ((case af_partial flt of None \<Rightarrow> fs | Some b \<Rightarrow> fs(newPath \<mapsto> b)), Inl ApDownload)
        | Some bytes \<Rightarrow>
            let fs1 = fs(newPath \<mapsto> bytes) in
            (case (if sha256URL = [] then Inr () else verifySHA256 sha256 fetch bytes sha256URL) of
               Inl e \<Rightarrow> (rm_new flt newPath fs1, Inl (ApVerify e))
             | Inr _ \<Rightarrow>
                 if af_chmod flt then (rm_new flt newPath fs1, Inl ApChmod)
                 else if af_rename_prev flt \<and> fs1 bin \<noteq> None then (rm_new flt newPath fs1, Inl ApRenamePrev)
                 else
                   let fs2 = (case fs1 bin of None \<Rightarrow> fs1 | Some cur \<Rightarrow> fs1(bin := None, prevPath \<mapsto> cur)) in
                   if af_rename_new flt then
                     ((case fs2 prevPath of
                         Some old \<Rightarrow> if af_restore flt then fs2 else fs2(prevPath := None, bin \<mapsto> old)
                       | None \<Rightarrow> fs2), Inl ApRenameNew)
                   else (fs2(newPath := None, bin \<mapsto> bytes), Inr ())))"

definition Updater_Rollback :: "apply_faults \<Rightarrow> string \<Rightarrow> string \<Rightarrow> bin_files \<Rightarrow> bin_files \<times> (apply_error, unit) result" where
  "Updater_Rollback flt bin prevSuffix fs =
     (let prevPath = bin @ prevSuffix; failedPath = bin @ ''.failed'' in
      case fs prevPath of
        None \<Rightarrow> (fs, Inl ApNoPrev)
      | Some old \<Rightarrow>
          if af_rename_prev flt \<and> fs bin \<noteq> None then (fs, Inl ApRenameFailed)
          else
            let fs1 = (case fs bin of None \<Rightarrow> fs | Some cur \<Rightarrow> fs(bin := None, failedPath \<mapsto> cur)) in
            if af_rename_new flt then (fs1, Inl ApRenamePrev)
            else (fs1(prevPath := None, bin \<mapsto> old), Inr ()))"

section \<open>The update command\<close>

datatype check_error = CuPlan | CuDisallowedHost | CuApply update_error

record update_env =
  ue_fetch :: fetch
  ue_sha256 :: "string \<Rightarrow> string"
  ue_goos :: string
  ue_goarch :: string
  ue_version :: string
  ue_allowlist :: "string list option"
  ue_pinned :: string
  ue_temp_fails :: bool
  ue_write_fails :: bool
  ue_flt :: store_faults
  ue_sync :: "string option"

text \<open>\<open>plan\<close> is the answer to \<^verbatim>\<open>GetUpdatePlan\<close>, if one came; \<open>running\<close> the agent's own version is
  \<open>ue_version\<close>.\<close>

definition HandleCheckUpdate :: "update_env \<Rightarrow> update_plan_response option \<Rightarrow> payload_store \<Rightarrow>
    payload_store \<times> (check_error, unit) result" where
  "HandleCheckUpdate env plan st =
     (case plan of
        None \<Rightarrow> (st, Inl CuPlan)
      | Some p \<Rightarrow>
          if upr_ExpectedVersion p = [] then (st, Inr ())
          else if ue_version env = upr_ExpectedVersion p \<and> \<not> upr_Force p then (st, Inr ())
          else
            let assetURL = ResolveTemplate (upr_AssetURLTemplate p) (ue_goos env) (ue_goarch env) (upr_ExpectedVersion p);
                sha256URL = ResolveTemplate (upr_SHA256URLTemplate p) (ue_goos env) (ue_goarch env) (upr_ExpectedVersion p);
                allowlist = AllowedUpdateHosts (ue_allowlist env) in
            if \<not> ValidateUpdateURL assetURL allowlist then (st, Inl CuDisallowedHost)
            else if sha256URL \<noteq> [] \<and> \<not> ValidateUpdateURL sha256URL allowlist then (st, Inl CuDisallowedHost)
            else if ue_pinned env \<noteq> [] \<and> ue_pinned env \<noteq> upr_ExpectedVersion p then (st, Inr ())
            else
              let dl = downloadVerified (ue_sha256 env) (ue_fetch env) (ue_temp_fails env) (ue_write_fails env) assetURL sha256URL in
              (case applyUpdate (ue_flt env) (ue_sync env) (case dl of Inl _ \<Rightarrow> None | Inr b \<Rightarrow> Some b)
                      (upr_ExpectedVersion p) st of
                 (st', Inl e) \<Rightarrow> (st', Inl (CuApply e))
               | (st', Inr _) \<Rightarrow> (st', Inr ())))"

text \<open>\<^verbatim>\<open>dispatchCommand\<close>: commands of another type are ignored.\<close>

definition dispatchCommand :: "update_env \<Rightarrow> update_plan_response option \<Rightarrow> check_update_command \<Rightarrow> payload_store \<Rightarrow>
    payload_store \<times> (check_error, unit) result" where
  "dispatchCommand env plan cmd st =
     (if cuc_Type cmd = ''check_update'' then HandleCheckUpdate env plan st else (st, Inr ()))"

section \<open>What is installed\<close>

lemma swap_bins: "st_bins (fst (swapSymlink flt l t st)) = st_bins st"
  by (simp add: swapSymlink_def Let_def)

lemma Activate_bins: "st_bins (fst (Activate flt sync v st)) = st_bins st"
  using swap_bins [of flt "''previous''" _ st] swap_bins [of flt "''current''"]
  by (auto simp: Activate_def split: sum.splits prod.splits option.splits if_splits) (metis fst_conv)+

lemma applyUpdate_change:
  assumes "applyUpdate flt sync dl v st = (st', r)" "st' \<noteq> st"
  shows "\<exists>bytes. dl = Some bytes \<and> \<not> IsQuarantined flt v st \<and> valid_version v
    \<and> st_bins st' = AList.update v bytes (st_bins st)"
proof -
  have nq: "\<not> IsQuarantined flt v st" using assms by (auto simp: applyUpdate_def)
  obtain bytes where b: "dl = Some bytes" using assms nq by (auto simp: applyUpdate_def split: option.splits)
  obtain st1 r1 where s: "Stage flt sync v bytes st = (st1, r1)" by fastforce
  have st1: "st1 = st \<and> (\<exists>e. r1 = Inl e) \<or> valid_version v \<and> st_bins st1 = AList.update v bytes (st_bins st)"
    using s by (auto simp: Stage_def versionBinaryPath_cases Let_def split: if_splits sum.splits)
  obtain st2 r2 where a: "Activate flt sync v st1 = (st2, r2)" by fastforce
  have "st_bins st2 = st_bins st1" using Activate_bins [of flt sync v st1] a by simp
  then show ?thesis using assms nq b s st1 a
    by (auto simp: applyUpdate_def split: if_splits sum.splits)
qed

lemma downloadVerified_Inr:
  assumes "downloadVerified sha256 fetch tf wrf assetURL sha256URL = Inr bytes"
  shows "fetch assetURL = Some (200, bytes) \<and> (sha256URL \<noteq> [] \<longrightarrow>
    (\<exists>raw f fs. fetch sha256URL = Some (200, raw) \<and> Prelude.fields raw = f # fs \<and> hex_encode (sha256 bytes) = to_lower f))"
  using assms by (auto simp: downloadVerified_def su_download_def verifySHA256_def
      split: if_splits option.splits sum.splits list.splits)


section \<open>Swapping in place and back\<close>

text \<open>A swap that succeeds keeps the old binary for the rollback, and the rollback puts it back; a
  swap that fails leaves the running binary as it was, unless the second rename and its undoing
  both fail. The new file may stay behind.\<close>

theorem inplace_swap_and_rollback:
  assumes "Updater_Apply flt sha256 fetch pinned bin sfx v a s fs = (fs1, r)" "fs bin = Some old"
    "sfx = ''.prev'' \<or> sfx = ''.old''"
  shows "(r = Inr () \<longrightarrow> fs1 (bin @ sfx) = Some old \<and> (\<exists>b. fetch a = Some (200, b) \<and> fs1 bin = Some b)
       \<and> (\<forall>fs2 flt'. Updater_Rollback flt' bin sfx fs1 = (fs2, Inr ()) \<longrightarrow> fs2 bin = Some old))
    \<and> (r \<noteq> Inr () \<longrightarrow> fs1 bin = Some old \<or> r = Inl ApRenameNew \<and> af_restore flt)"
proof -
  have n: "bin @ ''.new'' \<noteq> bin" "bin @ sfx \<noteq> bin" "bin @ sfx \<noteq> bin @ ''.new''" "bin @ ''.failed'' \<noteq> bin @ sfx"
    "bin @ ''.failed'' \<noteq> bin" using assms(3) by auto
  show ?thesis
  proof (cases "r = Inr ()")
    case True
    then obtain b where b: "su_download fetch (af_partial flt \<noteq> None) a = Some b"
      "fs1 = (fs(bin @ ''.new'' \<mapsto> b, bin := None, bin @ sfx \<mapsto> old))(bin @ ''.new'' := None, bin \<mapsto> b)"
      using assms(1,2) n by (auto simp: Updater_Apply_def Let_def split: if_splits option.splits sum.splits)
    then have "fetch a = Some (200, b)" by (auto simp: su_download_def split: option.splits if_splits)
    moreover have "fs1 (bin @ sfx) = Some old" "fs1 bin = Some b" using b(2) n by auto
    moreover have "fs2 bin = Some old" if "Updater_Rollback flt' bin sfx fs1 = (fs2, Inr ())" for fs2 flt'
      using that calculation(2,3) n by (auto simp: Updater_Rollback_def Let_def split: if_splits)
    ultimately show ?thesis using True by blast
  next
    case False
    then show ?thesis using assms(1,2) n
      by (auto simp: Updater_Apply_def Let_def rm_new_def split: if_splits option.splits sum.splits)
  qed
qed

section \<open>Which URLs are accepted\<close>

definition plain_host_char :: "char \<Rightarrow> bool" where
  "plain_host_char c \<longleftrightarrow> is_letter c \<or> is_digit c \<or> c = CHR ''-'' \<or> c = CHR ''.''"

definition plain_path_char :: "char \<Rightarrow> bool" where
  "plain_path_char c \<longleftrightarrow> plain_host_char c \<or> c = CHR ''/'' \<or> c = CHR ''_'' \<or> c = CHR ''+''"

lemma plain_char_facts:
  "plain_path_char c \<Longrightarrow> c \<noteq> CHR ''#'' \<and> c \<noteq> CHR ''?'' \<and> c \<noteq> CHR ''%'' \<and> c \<noteq> CHR 0x7F \<and> \<not> (of_char c :: nat) < 32"
  "plain_host_char c \<Longrightarrow> c \<noteq> CHR ''/'' \<and> c \<noteq> CHR '':'' \<and> c \<noteq> CHR ''@'' \<and> c \<noteq> CHR ''['' \<and> c \<noteq> CHR ''%'' \<and> host_char c"
  by (auto simp: plain_path_char_def plain_host_char_def is_letter_def is_digit_def host_char_def Let_def)

lemma unescape_plain: "list_all plain_path_char s \<Longrightarrow> unescape True s = Some s"
  by (induction s) (auto dest: plain_char_facts)

lemma unescape_host: "list_all plain_host_char h \<Longrightarrow> unescape False h = Some h"
  by (induction h) (auto dest: plain_char_facts(2))

lemma parse_authority_plain:
  assumes "list_all plain_host_char h"
  shows "parse_authority h = Some h" "strip_port h = h"
proof -
  have n: "CHR ''@'' \<notin> set h" "CHR '':'' \<notin> set h" "CHR ''['' \<notin> set h"
    using assms plain_char_facts(2) by (auto simp: list_all_iff)
  have "\<not> has_prefix ''['' h" using n(3) by (cases h) (auto simp: has_prefix_def)
  then show "parse_authority h = Some h" "strip_port h = h"
    using n unescape_host [OF assms]
    by (simp_all add: parse_authority_def parse_host_def from_last_def strip_port_def)
qed

lemma cut_at_none: "c \<notin> set s \<Longrightarrow> cut_at c s = (s, [])"
proof -
  assume c: "c \<notin> set s"
  have "takeWhile (\<lambda>x. x \<noteq> c) s = s" "dropWhile (\<lambda>x. x \<noteq> c) s = []"
    using c by (induction s) auto
  then show ?thesis unfolding cut_at_def by (simp only: list.sel)
qed

lemma while_until: "c \<notin> set h \<Longrightarrow> takeWhile (\<lambda>x. x \<noteq> c) (h @ c # p) = h"
    "c \<notin> set h \<Longrightarrow> dropWhile (\<lambda>x. x \<noteq> c) (h @ c # p) = c # p"
  by (induction h) auto

lemma url_host_https:
  assumes "list_all plain_host_char h" "list_all plain_path_char p"
  shows "url_host (''https://'' @ h @ ''/'' @ p) = Some h"
proof -
  let ?u = "''https://'' @ h @ ''/'' @ p"
  have q: "list_all plain_path_char h" "list_all plain_path_char (CHR ''/'' # p)"
    using assms by (auto simp: list_all_iff plain_path_char_def)
  have c: "x \<noteq> CHR ''#'' \<and> x \<noteq> CHR ''?'' \<and> \<not> (of_char x :: nat) < 32 \<and> x \<noteq> CHR 0x7F" if "x \<in> set ?u" for x
  proof -
    have "x \<in> set ''https://'' \<or> x \<in> set h \<or> x = CHR ''/'' \<or> x \<in> set p"
      using that unfolding set_append Un_iff by simp
    then have "x \<in> set ''https:'' \<or> plain_path_char x" using q unfolding list_all_iff by auto
    then show ?thesis
    proof
      assume "plain_path_char x"
      from plain_char_facts(1) [OF this] show ?thesis by blast
    qed auto
  qed
  have cut: "cut_at (CHR ''#'') ?u = (?u, [])"
    by (rule cut_at_none) (use c in blast)
  have cut2: "fst (cut_at (CHR ''?'') (''//'' @ h @ ''/'' @ p)) = ''//'' @ h @ ''/'' @ p"
  proof -
    have "set (''//'' @ h @ ''/'' @ p) \<subseteq> set ?u" by auto
    then have "CHR ''?'' \<notin> set (''//'' @ h @ ''/'' @ p)" using c by blast
    from cut_at_none [OF this] show ?thesis by (rule arg_cong [where f = fst, THEN trans]) (rule fst_conv)
  qed
  have ctl: "\<not> list_ex (\<lambda>c. (of_char c :: nat) < 32 \<or> c = CHR 0x7F) ?u"
    using c unfolding list_ex_iff by blast
  have sch: "scheme_from ?u [] ?u = Some (''https'', ''//'' @ h @ ''/'' @ p)"
    by (simp add: is_letter_def is_digit_def)
  have h: "CHR ''/'' \<notin> set h" using assms(1) plain_char_facts(2) by (auto simp: list_all_iff)
  have tw: "takeWhile (\<lambda>c. c \<noteq> CHR ''/'') (h @ CHR ''/'' # p) = h"
    "dropWhile (\<lambda>c. c \<noteq> CHR ''/'') (h @ CHR ''/'' # p) = CHR ''/'' # p"
    using while_until [OF h] by blast+
  show ?thesis
    unfolding url_host_def url_parse_host_def cut Let_def prod.case sch option.case cut2
    using ctl parse_authority_plain [OF assms(1)] unescape_plain [OF q(2)] tw
    by (simp add: has_prefix_def)
qed

text \<open>The allowlist check is exact on ordinary download URLs: an \<open>https\<close> URL with a plain host
  name and path is accepted precisely when the host name itself, up to case, is on the list; a
  host name in front of an \<open>@\<close> does not count.\<close>

theorem ValidateUpdateURL_exact:
  assumes "list_all plain_host_char h" "h \<noteq> []" "list_all plain_path_char p"
  shows "(ValidateUpdateURL (''https://'' @ h @ ''/'' @ p) allowlist \<longleftrightarrow> (\<exists>a \<in> set allowlist. equal_fold h a))
    \<and> \<not> ValidateUpdateURL ''https://github.com@evil.com/x'' [''github.com'']"
proof
  have "\<forall>c \<in> set h. of_char c < (128::nat)"
    using assms(1) by (fastforce simp: list_all_iff plain_host_char_def is_letter_def is_digit_def Let_def)
  then have l: "equal_fold (to_lower h) a = equal_fold h a" for a by (simp add: equal_fold_def fold_text_lower)
  show "ValidateUpdateURL (''https://'' @ h @ ''/'' @ p) allowlist \<longleftrightarrow> (\<exists>a \<in> set allowlist. equal_fold h a)"
    unfolding ValidateUpdateURL_def url_host_https [OF assms(1,3)] option.case Let_def l
    using assms(2) by (simp add: list_ex_iff to_lower_def)
  have "url_host ''https://github.com@evil.com/x'' = Some ''evil.com''" by code_simp
  then show "\<not> ValidateUpdateURL ''https://github.com@evil.com/x'' [''github.com'']"
    by (simp add: ValidateUpdateURL_def equal_fold_def fold_text_Cons fold_rune_def to_lower_def lower_char_def)
qed

section \<open>Witnesses\<close>

lemma demo_folds: "equal_fold ''GitHub.com'' ''github.com''" "\<not> equal_fold ''evil.github.com'' ''github.com''"
  by (simp_all add: equal_fold_def fold_text_Cons fold_rune_def)

theorem ValidateUpdateURL_exact_witness:
  "ValidateUpdateURL ''https://GitHub.com/o/r'' [''github.com''] \<and> \<not> ValidateUpdateURL ''https://evil.github.com/o/r'' [''github.com'']"
  using ValidateUpdateURL_exact [of "''GitHub.com''" "''o/r''" "[''github.com'']"]
    ValidateUpdateURL_exact [of "''evil.github.com''" "''o/r''" "[''github.com'']"]
    demo_folds
  by (simp add: plain_host_char_def plain_path_char_def is_letter_def is_digit_def)

definition demo_update_env :: update_env where
  "demo_update_env = \<lparr>ue_fetch = (\<lambda>u. if u = ''https://github.com/b/v3'' then Some (200, ''three'') else Some (200, ''6869'')),
     ue_sha256 = (\<lambda>_. ''hi''), ue_goos = ''linux'', ue_goarch = ''amd64'', ue_version = ''v2'', ue_allowlist = None,
     ue_pinned = [], ue_temp_fails = False, ue_write_fails = False, ue_flt = (\<lambda>_ _. False), ue_sync = None\<rparr>"

definition demo_plan :: update_plan_response where
  "demo_plan = \<lparr>upr_ExpectedVersion = ''v3'', upr_AssetURLTemplate = ''https://github.com/b/{version}'',
     upr_SHA256URLTemplate = ''https://github.com/s/{version}'', upr_Force = False\<rparr>"

lemma allows_github: "url_host u = Some ''github.com'' \<Longrightarrow> ValidateUpdateURL u [''github.com'']"
  by (simp add: ValidateUpdateURL_def equal_fold_def to_lower_def lower_char_def)

lemma demo_urls:
  "ResolveTemplate ''https://github.com/b/{version}'' ''linux'' ''amd64'' ''v3'' = ''https://github.com/b/v3''"
  "ResolveTemplate ''https://github.com/s/{version}'' ''linux'' ''amd64'' ''v3'' = ''https://github.com/s/v3''"
  "ValidateUpdateURL ''https://github.com/b/v3'' [''github.com'']" "ValidateUpdateURL ''https://github.com/s/v3'' [''github.com'']"
  by ((rule allows_github)?, code_simp)+

lemma demo_download:
  "downloadVerified (ue_sha256 demo_update_env) (ue_fetch demo_update_env) False False
     ''https://github.com/b/v3'' ''https://github.com/s/v3'' = Inr ''three''"
proof -
  have f: "Prelude.fields ''6869'' = [''6869'']" by (simp add: Prelude.fields_def runes_ascii is_space_def)
  have h: "hex_encode ''hi'' = ''6869''" by code_simp
  show ?thesis
    by (simp add: downloadVerified_def su_download_def verifySHA256_def demo_update_env_def f h to_lower_def lower_char_def)
qed


end
