(* ===== verification/Principals_Writer.thy ===== *)
theory Principals_Writer
  imports Agent_Policy_Theorems
begin

text \<open>
  The Windows half of a policy apply (\<^verbatim>\<open>internal/agent/principalswriter.go\<close>,
  \<^verbatim>\<open>policy_apply_windows.go\<close>, \<^verbatim>\<open>principalswriter_windows.go\<close>): the agent hands a desired state to
  the privileged writer service through a spool directory and polls for the status the writer
  leaves there. The JSON text of the two documents is an argument, as are the SHA-256 sum, the
  texts of errors and the failures of system calls. The writer renders with
  \<^const>\<open>renderPrincipalsDir\<close>; the access list it stamps on every file is not part of the model.
\<close>

section \<open>The documents\<close>

record desired_state =
  ds_Version :: int
  ds_Hash :: string
  ds_Principals :: "wire_principal list"
  ds_Deprovision :: bool

record applied_status =
  as_AppliedVersion :: int
  as_AppliedHash :: string
  as_Status :: string
  as_Error :: string

record spool_json =
  sj_marshalDesired :: "desired_state \<Rightarrow> string"
  sj_unmarshalDesired :: "string \<Rightarrow> desired_state option"
  sj_marshalApplied :: "applied_status \<Rightarrow> string"
  sj_unmarshalApplied :: "string \<Rightarrow> applied_status option"

definition spoolPolicyFile :: string where "spoolPolicyFile = ''policy.json''"
definition spoolAppliedFile :: string where "spoolAppliedFile = ''applied.json''"

definition deprovisionDesiredState :: desired_state where
  "deprovisionDesiredState = \<lparr>ds_Version = 0, ds_Hash = [], ds_Principals = [], ds_Deprovision = True\<rparr>"

definition desiredStateRequestsDeprovision :: "spool_json \<Rightarrow> string \<Rightarrow> bool" where
  "desiredStateRequestsDeprovision sj b =
     (case sj_unmarshalDesired sj b of None \<Rightarrow> False | Some d \<Rightarrow> ds_Deprovision d)"

definition shouldSelfRemoveOnApply :: "spool_json \<Rightarrow> string \<Rightarrow> applied_status \<Rightarrow> bool" where
  "shouldSelfRemoveOnApply sj b st \<longleftrightarrow> as_Status st = ''ok'' \<and> desiredStateRequestsDeprovision sj b"

definition desiredStateFromPayload :: "policy_payload \<Rightarrow> desired_state" where
  "desiredStateFromPayload snap =
     \<lparr>ds_Version = pl_Version snap, ds_Hash = pl_Hash snap, ds_Principals = pl_Principals snap, ds_Deprovision = False\<rparr>"

definition toPayload :: "desired_state \<Rightarrow> policy_payload" where
  "toPayload d = \<lparr>pl_Version = ds_Version d, pl_Hash = ds_Hash d, pl_Principals = ds_Principals d\<rparr>"

definition matchesDesired :: "applied_status \<Rightarrow> desired_state \<Rightarrow> bool" where
  "matchesDesired s d \<longleftrightarrow> as_AppliedVersion s = ds_Version d \<and> as_AppliedHash s = ds_Hash d"

definition desiredStateDigest :: "(string \<Rightarrow> string) \<Rightarrow> string \<Rightarrow> string" where
  "desiredStateDigest sum256 b = hex_encode (sum256 b)"

text \<open>\<open>parseErr\<close> is the text of the error for bytes that do not parse.\<close>

definition applyDesiredStateBytes ::
  "spool_json \<Rightarrow> string \<Rightarrow> (policy_error \<Rightarrow> string) \<Rightarrow> pol_faults \<Rightarrow> string \<Rightarrow> pdir \<Rightarrow> pdir \<times> applied_status" where
  "applyDesiredStateBytes sj parseErr errText flt b dir =
     (case sj_unmarshalDesired sj b of
        None \<Rightarrow> (dir, \<lparr>as_AppliedVersion = 0, as_AppliedHash = [], as_Status = ''failed'', as_Error = parseErr\<rparr>)
      | Some d \<Rightarrow>
          let snap = toPayload d;
              failed = (\<lambda>e. \<lparr>as_AppliedVersion = ds_Version d, as_AppliedHash = ds_Hash d, as_Status = ''failed'',
                             as_Error = errText e\<rparr>) in
          (case validatePolicyPayload (pl_Principals snap) of
             Inl e \<Rightarrow> (dir, failed e)
           | Inr _ \<Rightarrow>
               (case renderPrincipalsDir flt snap dir of
                  (dir', Inl e) \<Rightarrow> (dir', failed e)
                | (dir', Inr _) \<Rightarrow> (dir', \<lparr>as_AppliedVersion = ds_Version d, as_AppliedHash = ds_Hash d,
                                           as_Status = ''ok'', as_Error = []\<rparr>))))"

section \<open>Spool files\<close>

record spool_faults =
  sf_mkdir :: bool
  sf_open :: bool
  sf_write :: "nat option"
  sf_sync :: bool
  sf_close :: bool
  sf_rename :: bool
  sf_remove :: bool
  sf_read :: bool

definition atomicWriteSpoolFile :: "spool_faults \<Rightarrow> string \<Rightarrow> string \<Rightarrow> pdir \<Rightarrow> pdir \<times> (write_error, unit) result" where
  "atomicWriteSpoolFile flt path b d =
     (let tmp = path @ ''.tmp'' in
      case open_trunc (sf_open flt) tmp d of
        None \<Rightarrow> (d, Inl WOpen)
      | Some d1 \<Rightarrow>
          (case sf_write flt of
             Some n \<Rightarrow> (try_remove (sf_remove flt) tmp (append_file tmp (take n b) d1), Inl WWrite)
           | None \<Rightarrow>
               let d2 = append_file tmp b d1 in
               if sf_sync flt then (try_remove (sf_remove flt) tmp d2, Inl WSync)
               else if sf_close flt then (try_remove (sf_remove flt) tmp d2, Inl WClose)
               else case os_rename (sf_rename flt) tmp path d2 of
                 None \<Rightarrow> (try_remove (sf_remove flt) tmp d2, Inl WRename)
               | Some d3 \<Rightarrow> (d3, Inr ())))"

definition readMatchingAppliedStatus :: "spool_json \<Rightarrow> bool \<Rightarrow> desired_state \<Rightarrow> pdir \<Rightarrow> applied_status option" where
  "readMatchingAppliedStatus sj fails d spool =
     (case file_of spool spoolAppliedFile of
        None \<Rightarrow> None
      | Some b \<Rightarrow>
          if fails then None
          else case sj_unmarshalApplied sj b of
            None \<Rightarrow> None
          | Some st \<Rightarrow> if \<not> matchesDesired st d then None else Some st)"

definition ClearSpoolDesiredState :: "bool \<Rightarrow> pdir \<Rightarrow> pdir \<times> bool" where
  "ClearSpoolDesiredState fails spool =
     (case os_remove fails spoolPolicyFile spool of
        Inl RmNotExist \<Rightarrow> (spool, True)
      | Inl RmFailed \<Rightarrow> (spool, False)
      | Inr spool' \<Rightarrow> (spool', True))"

section \<open>Waiting for the writer\<close>

text \<open>\<open>reads k\<close> is the outcome of the \<open>k\<close>-th read, \<open>clock k\<close> the time after it, and \<open>cancelled k\<close>
  whether the context is done before the timer that follows it.\<close>

datatype poll_result = PollResolved applied_status | PollTimeout | PollCancelled

partial_function (option) poll_from ::
  "int \<Rightarrow> (nat \<Rightarrow> applied_status option) \<Rightarrow> (nat \<Rightarrow> gotime) \<Rightarrow> (nat \<Rightarrow> bool) \<Rightarrow> nat \<Rightarrow> poll_result option" where
  "poll_from deadline reads clock cancelled k =
     (case reads k of
        Some st \<Rightarrow> Some (PollResolved st)
      | None \<Rightarrow>
          if \<not> clock k < deadline then Some PollTimeout
          else if cancelled k then Some PollCancelled
          else poll_from deadline reads clock cancelled (Suc k))"

declare poll_from.simps [code]

definition pollApplied ::
  "int \<Rightarrow> (nat \<Rightarrow> applied_status option) \<Rightarrow> (nat \<Rightarrow> gotime) \<Rightarrow> (nat \<Rightarrow> bool) \<Rightarrow> poll_result option" where
  "pollApplied deadline reads clock cancelled = poll_from deadline reads clock cancelled 0"

definition applyTimeout :: int where "applyTimeout = 30 * 1000000000"
definition applyPollInterval :: int where "applyPollInterval = 250 * 1000000"

datatype submit_error = SbMkdir | SbWrite write_error | SbInterrupted | SbTimeout | SbFailed string

text \<open>The outcome of the poll.\<close>

definition submit_outcome :: "poll_result \<Rightarrow> (submit_error, unit) result" where
  "submit_outcome r =
     (case r of
        PollCancelled \<Rightarrow> Inl SbInterrupted
      | PollTimeout \<Rightarrow> Inl SbTimeout
      | PollResolved st \<Rightarrow> if as_Status st = ''ok'' then Inr () else Inl (SbFailed (as_Error st)))"

text \<open>\<open>spools k\<close> is the spool directory at the \<open>k\<close>-th read, the first one being the directory the
  submission left; \<open>now\<close> is the time the wait starts.\<close>

definition submitDesiredState ::
  "spool_json \<Rightarrow> spool_faults \<Rightarrow> gotime \<Rightarrow> (nat \<Rightarrow> gotime) \<Rightarrow> (nat \<Rightarrow> bool) \<Rightarrow> (pdir \<Rightarrow> nat \<Rightarrow> pdir) \<Rightarrow> desired_state \<Rightarrow> pdir \<Rightarrow>
    pdir \<times> (submit_error, unit) result option" where
  "submitDesiredState sj flt now clock cancelled spools d spool =
     (if sf_mkdir flt then (spool, Some (Inl SbMkdir))
      else case atomicWriteSpoolFile flt spoolPolicyFile (sj_marshalDesired sj d) (spool\<lparr>pd_exists := True\<rparr>) of
        (spool', Inl e) \<Rightarrow> (spool', Some (Inl (SbWrite e)))
      | (spool', Inr _) \<Rightarrow>
          (spool', map_option submit_outcome
             (pollApplied (now + applyTimeout)
                (\<lambda>k. readMatchingAppliedStatus sj (sf_read flt) d (spools spool' k)) clock cancelled)))"

text \<open>\<^verbatim>\<open>doApplyPolicy\<close> of the Windows build: a policy that does not validate is never submitted.\<close>

definition doApplyPolicy_windows ::
  "spool_json \<Rightarrow> spool_faults \<Rightarrow> gotime \<Rightarrow> (nat \<Rightarrow> gotime) \<Rightarrow> (nat \<Rightarrow> bool) \<Rightarrow> (pdir \<Rightarrow> nat \<Rightarrow> pdir) \<Rightarrow> policy_payload \<Rightarrow> pdir \<Rightarrow>
    pdir \<times> (policy_error + submit_error, unit) result option" where
  "doApplyPolicy_windows sj flt now clock cancelled spools snap spool =
     (case validatePolicyPayload (pl_Principals snap) of
        Inl e \<Rightarrow> (spool, Some (Inl (Inl e)))
      | Inr _ \<Rightarrow> map_prod id (map_option (map_sum Inr id))
          (submitDesiredState sj flt now clock cancelled spools (desiredStateFromPayload snap) spool))"

section \<open>The writer service\<close>

record writer_sys =
  ws_spool :: pdir
  ws_dir :: pdir
  ws_lastDigest :: string
  ws_service :: bool

definition writeApplied :: "spool_json \<Rightarrow> spool_faults \<Rightarrow> applied_status \<Rightarrow> writer_sys \<Rightarrow> writer_sys" where
  "writeApplied sj flt st w =
     w\<lparr>ws_spool := fst (atomicWriteSpoolFile flt spoolAppliedFile (sj_marshalApplied sj st) (ws_spool w))\<rparr>"

text \<open>\<open>scm\<close> says whether the service manager accepts the deletion.\<close>

definition selfRemove :: "bool \<Rightarrow> writer_sys \<Rightarrow> writer_sys" where
  "selfRemove scm w = (if scm then w\<lparr>ws_service := False\<rparr> else w)"

record writer_env =
  we_json :: spool_json
  we_sum256 :: "string \<Rightarrow> string"
  we_parseErr :: string
  we_errText :: "policy_error \<Rightarrow> string"
  we_render :: pol_faults
  we_spool :: spool_faults
  we_scm :: bool

definition tick :: "writer_env \<Rightarrow> writer_sys \<Rightarrow> writer_sys \<times> bool" where
  "tick env w =
     (case file_of (ws_spool w) spoolPolicyFile of
        None \<Rightarrow> (w, False)
      | Some b \<Rightarrow>
          if sf_read (we_spool env) then (w, False)
          else
            let digest = desiredStateDigest (we_sum256 env) b in
            if digest = ws_lastDigest w then (w, False)
            else
              let (dir', st) = applyDesiredStateBytes (we_json env) (we_parseErr env) (we_errText env) (we_render env) b (ws_dir w);
                  w1 = writeApplied (we_json env) (we_spool env) st (w\<lparr>ws_dir := dir'\<rparr>) in
              if as_Status st \<noteq> ''ok'' then (w1, False)
              else
                let w2 = w1\<lparr>ws_lastDigest := digest\<rparr> in
                if shouldSelfRemoveOnApply (we_json env) b st then (selfRemove (we_scm env) w2, True)
                else (w2, False))"

section \<open>The wait ends\<close>

lemma poll_from_ends:
  "reads (k + n) \<noteq> None \<or> \<not> clock (k + n) < deadline \<or> cancelled (k + n) \<Longrightarrow>
   \<exists>r. poll_from deadline reads clock cancelled k = Some r
     \<and> (\<forall>st. r = PollResolved st \<longrightarrow> (\<exists>m \<le> n. reads (k + m) = Some st))
     \<and> (r = PollTimeout \<longrightarrow> (\<exists>m \<le> n. \<not> clock (k + m) < deadline))"
proof (induction n arbitrary: k)
  case 0
  then show ?case by (subst poll_from.simps) (auto split: option.splits)
next
  case (Suc n)
  show ?case
  proof (cases "reads k \<noteq> None \<or> \<not> clock k < deadline \<or> cancelled k")
    case True
    then show ?thesis by (subst poll_from.simps) (auto split: option.splits)
  next
    case False
    obtain r where r: "poll_from deadline reads clock cancelled (Suc k) = Some r"
      "\<forall>st. r = PollResolved st \<longrightarrow> (\<exists>m \<le> n. reads (Suc k + m) = Some st)"
      "r = PollTimeout \<longrightarrow> (\<exists>m \<le> n. \<not> clock (Suc k + m) < deadline)"
      using Suc.IH [of "Suc k"] Suc.prems by auto
    have "poll_from deadline reads clock cancelled k = Some r"
      using False r(1) by (subst poll_from.simps) simp
    moreover have "\<exists>m \<le> Suc n. reads (k + m) = Some st" if "r = PollResolved st" for st
      using r(2) that by (metis Suc_le_mono add_Suc_shift)
    moreover have "\<exists>m \<le> Suc n. \<not> clock (k + m) < deadline" if "r = PollTimeout"
      using r(3) that by (metis Suc_le_mono add_Suc_shift)
    ultimately show ?thesis by blast
  qed
qed

lemma clock_grows:
  assumes "\<forall>k. clock k + d \<le> clock (Suc k)"
  shows "clock 0 + int n * d \<le> (clock n :: int)"
proof (induction n)
  case (Suc n)
  then show ?case using assms [rule_format, of n] by (simp add: algebra_simps)
qed simp

text \<open>C33: The agent's wait for the writer always ends: when the clock advances by at least the
  poll interval between two reads, the wait is over after at most 121 reads, whatever the reads
  give; it reports a status only if a read delivered that status, and a timeout only when the
  thirty seconds have passed.\<close>

theorem pollApplied_terminates:
  assumes "\<forall>k. clock k + applyPollInterval \<le> clock (Suc k)" "now \<le> clock 0"
  shows "\<exists>r. pollApplied (now + applyTimeout) reads clock cancelled = Some r
    \<and> (\<forall>st. r = PollResolved st \<longrightarrow> (\<exists>m \<le> 120. reads m = Some st))
    \<and> (r = PollTimeout \<longrightarrow> (\<exists>m \<le> 120. now + applyTimeout \<le> clock m))"
proof -
  have "\<not> clock (0 + 120) < now + applyTimeout"
    using clock_grows [OF assms(1), of 120] assms(2) by (simp add: applyPollInterval_def applyTimeout_def)
  then show ?thesis
    using poll_from_ends [of reads 0 120 clock "now + applyTimeout" cancelled] by (fastforce simp: pollApplied_def)
qed

section \<open>Spool files are never half-written\<close>

lemma tmp_suffix_neq [simp]: "p @ ''.tmp'' \<noteq> p" "p \<noteq> p @ ''.tmp''"
  by simp_all

text \<open>\<open>replaces p b es d\<close>: outside the temporary name the entries are those of \<open>d\<close>, or \<open>p\<close> already
  has the new contents.\<close>

definition replaces :: "string \<Rightarrow> string \<Rightarrow> entries \<Rightarrow> pdir \<Rightarrow> bool" where
  "replaces p b es d \<longleftrightarrow> (\<forall>m. m \<noteq> p @ ''.tmp'' \<longrightarrow> map_of es m = entry d m \<or> m = p \<and> map_of es m = Some (DFile b))"

lemma except_replaces: "except {p @ ''.tmp''} es d \<Longrightarrow> replaces p b es d"
  by (simp add: except_def replaces_def)

lemma atomicWriteSpoolFile_effect:
  assumes "atomicWriteSpoolFile flt p b d = (d', r)"
  shows "(r = Inr () \<longrightarrow> entry d' = (entry d)(p @ ''.tmp'' := None, p \<mapsto> DFile b))
    \<and> (r \<noteq> Inr () \<longrightarrow> except {p @ ''.tmp''} (pd_entries d') d)
    \<and> all_states (\<lambda>es. replaces p b es d) d d'"
proof (cases "open_trunc (sf_open flt) (p @ ''.tmp'') d")
  case None
  then show ?thesis using assms by (auto simp: atomicWriteSpoolFile_def)
next
  case (Some d1)
  define tmp where "tmp = p @ ''.tmp''"
  have neq: "tmp \<noteq> p" "p \<noteq> tmp" by (simp_all add: tmp_def)
  note o = open_trunc_Some [OF Some, folded tmp_def]
  have e1: "except {tmp} (pd_entries d1) d" using o by (simp add: except_def entry_def)
  have s1: "all_states (\<lambda>es. except {tmp} es d) d d1" using o e1 by (auto intro: all_states_step)
  have e2: "except {tmp} (pd_entries (append_file tmp x d1)) d" "all_states (\<lambda>es. except {tmp} es d) d (append_file tmp x d1)" for x
    by (rule except_trans [OF append_except(2) e1], rule except_states_trans [OF s1 append_except(1) e1])
  have clean: ?thesis if "d' = try_remove (sf_remove flt) tmp (append_file tmp x d1)" "r \<noteq> Inr ()" for x
  proof -
    have "except {tmp} (pd_entries d') d" unfolding that(1) by (rule except_trans [OF try_remove_except(1) e2(1)])
    moreover have "all_states (\<lambda>es. except {tmp} es d) d d'"
      unfolding that(1) by (rule except_states_trans [OF e2(2) try_remove_except(2) e2(1)])
    ultimately show ?thesis
      using that(2) all_states_mono [of _ d d' "\<lambda>es. replaces p b es d"] except_replaces unfolding tmp_def by auto
  qed
  show ?thesis
  proof (cases "sf_write flt = None \<and> \<not> sf_sync flt \<and> \<not> sf_close flt \<and> os_rename (sf_rename flt) tmp p (append_file tmp b d1) \<noteq> None")
    case False
    then obtain x where "d' = try_remove (sf_remove flt) tmp (append_file tmp x d1)" "r \<noteq> Inr ()"
      using assms Some unfolding tmp_def by (auto simp: atomicWriteSpoolFile_def Let_def split: if_splits option.splits)
    then show ?thesis by (rule clean)
  next
    case True
    then obtain d3 where d3: "os_rename (sf_rename flt) tmp p (append_file tmp b d1) = Some d3" by blast
    have r: "d' = d3" "r = Inr ()" using assms Some True d3 unfolding tmp_def by (auto simp: atomicWriteSpoolFile_def Let_def)
    note rn = os_rename_Some [OF d3]
    have "entry (append_file tmp b d1) tmp = Some (DFile b)"
      using o by (simp add: append_file_entry file_of_entry)
    moreover have "entry (append_file tmp b d1) m = entry d m" if "m \<noteq> tmp" for m
      using e2(1) that by (simp add: except_def entry_def)
    ultimately have e3: "entry d3 = (entry d)(tmp := None, p \<mapsto> DFile b)" using rn by (auto simp: fun_eq_iff)
    then have "replaces p b (pd_entries d3) d" by (auto simp: replaces_def entry_def tmp_def)
    then have "all_states (\<lambda>es. replaces p b es d) (append_file tmp b d1) d3" using rn by (auto intro: all_states_step)
    moreover have "all_states (\<lambda>es. replaces p b es d) d (append_file tmp b d1)"
      unfolding tmp_def by (rule all_states_mono [OF e2(2) [unfolded tmp_def]]) (rule except_replaces)
    ultimately show ?thesis using r e3 all_states_trans unfolding tmp_def by auto
  qed
qed

lemma atomicWriteSpoolFile_ok:
  assumes "only_files d" "sf_open flt = False" "sf_write flt = None" "sf_sync flt = False" "sf_close flt = False" "sf_rename flt = False"
  shows "\<exists>d'. atomicWriteSpoolFile flt p b d = (d', Inr ())"
proof -
  obtain d1 where d1: "open_trunc False (p @ ''.tmp'') d = Some d1" using only_files_openable [OF assms(1)] by blast
  note o = open_trunc_Some [OF d1]
  have "entry (append_file (p @ ''.tmp'') b d1) p \<noteq> Some (DDir c)" for c
    using assms(1) o by (auto simp: append_file_entry only_files_def)
  moreover have "entry (append_file (p @ ''.tmp'') b d1) (p @ ''.tmp'') \<noteq> None" by (simp add: append_file_entry)
  ultimately obtain d3 where "os_rename False (p @ ''.tmp'') p (append_file (p @ ''.tmp'') b d1) = Some d3"
    by (auto simp: os_rename_def split: option.splits)
  then show ?thesis using d1 assms(2-6) by (simp add: atomicWriteSpoolFile_def Let_def)
qed

section \<open>What the writer does with the spool\<close>

lemma writeApplied_frame [simp]:
  "ws_dir (writeApplied sj flt st w) = ws_dir w" "ws_lastDigest (writeApplied sj flt st w) = ws_lastDigest w"
  "ws_service (writeApplied sj flt st w) = ws_service w"
  by (simp_all add: writeApplied_def)

lemma selfRemove_frame [simp]:
  "ws_dir (selfRemove scm w) = ws_dir w" "ws_lastDigest (selfRemove scm w) = ws_lastDigest w"
  "ws_spool (selfRemove scm w) = ws_spool w" "ws_service (selfRemove scm w) = (ws_service w \<and> \<not> scm)"
  by (simp_all add: selfRemove_def)

lemma applyDesiredStateBytes_cases:
  assumes "applyDesiredStateBytes sj pe et flt b dir = (dir', st)"
  shows "(as_Status st = ''failed'' \<or> as_Status st = ''ok'')
    \<and> (sj_unmarshalDesired sj b = None \<or> (\<exists>d. sj_unmarshalDesired sj b = Some d \<and> validatePolicyPayload (ds_Principals d) \<noteq> Inr ())
         \<longrightarrow> dir' = dir \<and> as_Status st = ''failed'')
    \<and> (as_Status st = ''ok'' \<longrightarrow> (\<exists>d. sj_unmarshalDesired sj b = Some d \<and> validatePolicyPayload (ds_Principals d) = Inr ()
         \<and> renderPrincipalsDir flt (toPayload d) dir = (dir', Inr ()) \<and> matchesDesired st d))"
  using assms by (auto simp: applyDesiredStateBytes_def toPayload_def matchesDesired_def Let_def
      split: option.splits sum.splits prod.splits)

text \<open>A tick that acts: new bytes in the spool.\<close>

lemma tick_acts:
  assumes "file_of (ws_spool w) spoolPolicyFile = Some b" "\<not> sf_read (we_spool env)"
    "desiredStateDigest (we_sum256 env) b \<noteq> ws_lastDigest w"
    "applyDesiredStateBytes (we_json env) (we_parseErr env) (we_errText env) (we_render env) b (ws_dir w) = (dir', st)"
  shows "\<exists>w'. tick env w = (w', shouldSelfRemoveOnApply (we_json env) b st) \<and> ws_dir w' = dir'
    \<and> ws_spool w' = fst (atomicWriteSpoolFile (we_spool env) spoolAppliedFile (sj_marshalApplied (we_json env) st) (ws_spool w))
    \<and> ws_lastDigest w' = (if as_Status st = ''ok'' then desiredStateDigest (we_sum256 env) b else ws_lastDigest w)
    \<and> ws_service w' = (ws_service w \<and> \<not> (shouldSelfRemoveOnApply (we_json env) b st \<and> we_scm env))"
  using assms by (auto simp: tick_def Let_def writeApplied_def shouldSelfRemoveOnApply_def)

lemma tick_idle:
  assumes "file_of (ws_spool w) spoolPolicyFile = None \<or> sf_read (we_spool env)
    \<or> (\<exists>b. file_of (ws_spool w) spoolPolicyFile = Some b \<and> desiredStateDigest (we_sum256 env) b = ws_lastDigest w)"
  shows "tick env w = (w, False)"
  using assms by (auto simp: tick_def split: option.splits)

text \<open>C5: Whatever bytes are in the spool and whichever call fails, the privileged writer changes
  the principals directory only for a document that parses and whose every user and caller name
  is valid; it takes the document as done only when the directory holds exactly that document's
  principals files; and it deletes its own service, or stops, only after such a document asked for
  deprovisioning.\<close>

theorem writer_acts_only_on_valid_state:
  assumes "tick env w = (w', stop)"
  shows "(ws_dir w' \<noteq> ws_dir w \<or> ws_lastDigest w' \<noteq> ws_lastDigest w \<or> stop \<or> ws_service w' \<noteq> ws_service w \<longrightarrow>
      (\<exists>b d. file_of (ws_spool w) spoolPolicyFile = Some b \<and> sj_unmarshalDesired (we_json env) b = Some d
         \<and> validatePolicyPayload (ds_Principals d) = Inr ()
         \<and> (ws_lastDigest w' \<noteq> ws_lastDigest w \<or> stop \<or> ws_service w' \<noteq> ws_service w \<longrightarrow>
              ws_lastDigest w' = desiredStateDigest (we_sum256 env) b
              \<and> (sorted_wrt (<) (map wp_Username (ds_Principals d)) \<longrightarrow> file_of (ws_dir w') = policy_files (ds_Principals d)))
         \<and> (stop \<or> ws_service w' \<noteq> ws_service w \<longrightarrow> ds_Deprovision d)))"
proof (cases "file_of (ws_spool w) spoolPolicyFile = None \<or> sf_read (we_spool env)
    \<or> (\<exists>b. file_of (ws_spool w) spoolPolicyFile = Some b \<and> desiredStateDigest (we_sum256 env) b = ws_lastDigest w)")
  case True
  then show ?thesis using tick_idle [OF True] assms by simp
next
  case False
  then obtain b where b: "file_of (ws_spool w) spoolPolicyFile = Some b" "\<not> sf_read (we_spool env)"
    "desiredStateDigest (we_sum256 env) b \<noteq> ws_lastDigest w" by auto
  obtain dir' st where ap: "applyDesiredStateBytes (we_json env) (we_parseErr env) (we_errText env) (we_render env) b (ws_dir w)
      = (dir', st)" by fastforce
  note t = tick_acts [OF b ap]
  note ac = applyDesiredStateBytes_cases [OF ap]
  show ?thesis
  proof (cases "sj_unmarshalDesired (we_json env) b")
    case None
    then show ?thesis using t ac assms by (auto simp: shouldSelfRemoveOnApply_def)
  next
    case (Some d)
    have ok: "file_of dir' = policy_files (ds_Principals d)"
      if "as_Status st = ''ok''" "sorted_wrt (<) (map wp_Username (ds_Principals d))"
      using ac that Some renderPrincipalsDir_exactI [OF _ sorted_tmp_safe, of "we_render env" "toPayload d" "ws_dir w" dir']
      by (simp add: toPayload_def fun_eq_iff)
    show ?thesis
    proof (cases "validatePolicyPayload (ds_Principals d) = Inr ()")
      case True
      then show ?thesis using t ac assms Some ok b(1)
        by (auto simp: shouldSelfRemoveOnApply_def desiredStateRequestsDeprovision_def)
    next
      case False
      then show ?thesis using t ac assms Some by (auto simp: shouldSelfRemoveOnApply_def)
    qed
  qed
qed

section \<open>The round trip\<close>

definition quiet_spool :: spool_faults where
  "quiet_spool = \<lparr>sf_mkdir = False, sf_open = False, sf_write = None, sf_sync = False, sf_close = False, sf_rename = False,
     sf_remove = False, sf_read = False\<rparr>"

text \<open>The status a successful apply of \<open>d\<close> reports, and that the document and this status are read
  back as they were written.\<close>

definition ok_status :: "desired_state \<Rightarrow> applied_status" where
  "ok_status d = \<lparr>as_AppliedVersion = ds_Version d, as_AppliedHash = ds_Hash d, as_Status = ''ok'', as_Error = []\<rparr>"

definition reads_back :: "spool_json \<Rightarrow> desired_state \<Rightarrow> bool" where
  "reads_back sj d \<longleftrightarrow> sj_unmarshalDesired sj (sj_marshalDesired sj d) = Some d
     \<and> sj_unmarshalApplied sj (sj_marshalApplied sj (ok_status d)) = Some (ok_status d)"

lemma spool_names [simp]:
  "spoolPolicyFile \<noteq> spoolAppliedFile" "spoolAppliedFile \<noteq> spoolPolicyFile"
  "spoolPolicyFile \<noteq> spoolPolicyFile @ ''.tmp''" "spoolAppliedFile \<noteq> spoolPolicyFile @ ''.tmp''"
  "spoolPolicyFile \<noteq> spoolAppliedFile @ ''.tmp''" "spoolAppliedFile \<noteq> spoolAppliedFile @ ''.tmp''"
  by (simp_all add: spoolPolicyFile_def spoolAppliedFile_def)

lemma spool_write_ok:
  assumes "only_files spool"
  obtains spool' where "atomicWriteSpoolFile quiet_spool p b spool = (spool', Inr ())" "only_files spool'"
    "file_of spool' p = Some b" "\<forall>m. m \<noteq> p \<and> m \<noteq> p @ ''.tmp'' \<longrightarrow> file_of spool' m = file_of spool m"
proof -
  obtain spool' where s: "atomicWriteSpoolFile quiet_spool p b spool = (spool', Inr ())"
    using atomicWriteSpoolFile_ok [OF assms, of quiet_spool p b] by (auto simp: quiet_spool_def)
  then have e: "entry spool' = (entry spool)(p @ ''.tmp'' := None, p \<mapsto> DFile b)"
    using atomicWriteSpoolFile_effect [OF s] by simp
  have "only_files spool'" using assms e by (auto simp: only_files_def)
  then show ?thesis using that s e by (simp add: file_of_entry)
qed

lemma poll_from_resolved:
  "(\<And>i. k \<le> i \<Longrightarrow> i < k + n \<Longrightarrow> reads i = None \<and> clock i < deadline \<and> \<not> cancelled i) \<Longrightarrow> reads (k + n) = Some st \<Longrightarrow>
   poll_from deadline reads clock cancelled k = Some (PollResolved st)"
proof (induction n arbitrary: k)
  case 0
  then show ?case by (subst poll_from.simps) simp
next
  case (Suc n)
  have "poll_from deadline reads clock cancelled (Suc k) = Some (PollResolved st)"
    using Suc.prems by (intro Suc.IH) simp_all
  moreover have "reads k = None" "clock k < deadline" "\<not> cancelled k" using Suc.prems(1) [of k] by simp_all
  ultimately show ?case by (subst poll_from.simps) simp
qed

text \<open>A quiet tick on a written document that validates.\<close>

lemma tick_quiet:
  assumes "reads_back (we_json env) d" "we_spool env = quiet_spool" "we_render env = no_pol_faults" "only_files (ws_spool w)"
    "only_files (ws_dir w)" "file_of (ws_spool w) spoolPolicyFile = Some (sj_marshalDesired (we_json env) d)"
    "desiredStateDigest (we_sum256 env) (sj_marshalDesired (we_json env) d) \<noteq> ws_lastDigest w"
    "validatePolicyPayload (ds_Principals d) = Inr ()"
  shows "\<exists>w'. tick env w = (w', ds_Deprovision d) \<and> renderPrincipalsDir no_pol_faults (toPayload d) (ws_dir w) = (ws_dir w', Inr ())
    \<and> only_files (ws_spool w')
    \<and> file_of (ws_spool w') spoolAppliedFile = Some (sj_marshalApplied (we_json env) (ok_status d))
    \<and> file_of (ws_spool w') spoolPolicyFile = file_of (ws_spool w) spoolPolicyFile
    \<and> ws_service w' = (ws_service w \<and> \<not> (ds_Deprovision d \<and> we_scm env))
    \<and> ws_lastDigest w' = desiredStateDigest (we_sum256 env) (sj_marshalDesired (we_json env) d)"
proof -
  let ?st = "ok_status d"
  let ?b = "sj_marshalDesired (we_json env) d"
  have dec: "sj_unmarshalDesired (we_json env) ?b = Some d" using assms(1) by (simp add: reads_back_def)
  obtain dir' where r: "renderPrincipalsDir no_pol_faults (toPayload d) (ws_dir w) = (dir', Inr ())"
    using render_succeeds [OF assms(5), of "toPayload d"] assms(8) by (auto simp: toPayload_def)
  have ap: "applyDesiredStateBytes (we_json env) (we_parseErr env) (we_errText env) (we_render env) ?b (ws_dir w) = (dir', ?st)"
    using dec r assms(3,8) by (simp add: applyDesiredStateBytes_def toPayload_def ok_status_def Let_def)
  have nr: "\<not> sf_read (we_spool env)" using assms(2) by (simp add: quiet_spool_def)
  obtain sp where sp: "atomicWriteSpoolFile quiet_spool spoolAppliedFile (sj_marshalApplied (we_json env) ?st) (ws_spool w) = (sp, Inr ())"
    "only_files sp" "file_of sp spoolAppliedFile = Some (sj_marshalApplied (we_json env) ?st)"
    "\<forall>m. m \<noteq> spoolAppliedFile \<and> m \<noteq> spoolAppliedFile @ ''.tmp'' \<longrightarrow> file_of sp m = file_of (ws_spool w) m"
    using spool_write_ok [OF assms(4), where p = spoolAppliedFile and b = "sj_marshalApplied (we_json env) ?st"] by blast
  have sr: "shouldSelfRemoveOnApply (we_json env) ?b ?st = ds_Deprovision d"
    using dec by (simp add: shouldSelfRemoveOnApply_def desiredStateRequestsDeprovision_def ok_status_def)
  show ?thesis using tick_acts [OF assms(6) nr assms(7) ap] r sp(1-3) sp(4) [rule_format, of spoolPolicyFile] sr assms(2)
    by (auto simp: ok_status_def)
qed


text \<open>The agent takes a stale status for the answer to a new submission when version and hash
  agree: after a fail-closed wipe the status on the spool is version 0 with no hash, and the
  deprovisioning request that follows, whose version and hash are the same, is reported as applied
  on the first read although the writer has not seen it and its service is still there.\<close>

theorem stale_status_confirms_deprovision:
  assumes "reads_back (we_json env) (desiredStateFromPayload \<lparr>pl_Version = 0, pl_Hash = [], pl_Principals = []\<rparr>)"
    "we_spool env = quiet_spool" "we_render env = no_pol_faults" "only_files (ws_spool w)" "only_files (ws_dir w)"
    "file_of (ws_spool w) spoolPolicyFile
       = Some (sj_marshalDesired (we_json env) (desiredStateFromPayload \<lparr>pl_Version = 0, pl_Hash = [], pl_Principals = []\<rparr>))"
    "desiredStateDigest (we_sum256 env) (sj_marshalDesired (we_json env)
       (desiredStateFromPayload \<lparr>pl_Version = 0, pl_Hash = [], pl_Principals = []\<rparr>)) \<noteq> ws_lastDigest w"
    "tick env w = (w1, stop)"
  shows "\<exists>sp1. submitDesiredState (we_json env) quiet_spool now clock cancelled (\<lambda>sp k. sp) deprovisionDesiredState (ws_spool w1)
      = (sp1, Some (Inr ())) \<and> ws_service w1 = ws_service w"
proof -
  let ?d = "desiredStateFromPayload \<lparr>pl_Version = 0, pl_Hash = [], pl_Principals = []\<rparr>" and ?sj = "we_json env"
  let ?st = "\<lparr>as_AppliedVersion = 0, as_AppliedHash = [], as_Status = ''ok'', as_Error = []\<rparr>"
  have d: "ds_Version ?d = 0" "ds_Hash ?d = []" "ds_Principals ?d = []" "\<not> ds_Deprovision ?d"
    "ok_status ?d = ?st" by (simp_all add: desiredStateFromPayload_def ok_status_def)
  have w1: "only_files (ws_spool w1)" "file_of (ws_spool w1) spoolAppliedFile = Some (sj_marshalApplied ?sj ?st)" "ws_service w1 = ws_service w"
    using tick_quiet [OF assms(1-7)] d assms(8) by auto
  let ?s0 = "(ws_spool w1)\<lparr>pd_exists := True\<rparr>"
  have of: "only_files ?s0" using w1(1) by (simp add: only_files_def entry_def)
  obtain sp where sp: "atomicWriteSpoolFile quiet_spool spoolPolicyFile (sj_marshalDesired ?sj deprovisionDesiredState) ?s0 = (sp, Inr ())"
    "\<forall>m. m \<noteq> spoolPolicyFile \<and> m \<noteq> spoolPolicyFile @ ''.tmp'' \<longrightarrow> file_of sp m = file_of ?s0 m"
    using spool_write_ok [OF of, where p = spoolPolicyFile and b = "sj_marshalDesired ?sj deprovisionDesiredState"] by blast
  have "file_of sp spoolAppliedFile = Some (sj_marshalApplied ?sj ?st)"
    using sp(2) [rule_format, of spoolAppliedFile] w1(2) by (simp add: file_of_def)
  then have "readMatchingAppliedStatus ?sj False deprovisionDesiredState sp = Some ?st"
    using assms(1) d by (simp add: readMatchingAppliedStatus_def matchesDesired_def deprovisionDesiredState_def reads_back_def)
  then have "pollApplied (now + applyTimeout) (\<lambda>k. readMatchingAppliedStatus ?sj False deprovisionDesiredState sp) clock cancelled
      = Some (PollResolved ?st)"
    unfolding pollApplied_def by (subst poll_from.simps) simp
  then show ?thesis using sp(1) w1(3)
    by (simp add: submitDesiredState_def submit_outcome_def) (simp add: quiet_spool_def)
qed

section \<open>Witnesses\<close>

theorem pollApplied_terminates_witness:
  "\<exists>r. pollApplied applyTimeout (\<lambda>_. None) (\<lambda>k. int k * applyPollInterval) (\<lambda>_. False) = Some r \<and> (\<forall>st. r \<noteq> PollResolved st)"
  using pollApplied_terminates [of "\<lambda>k. int k * applyPollInterval" 0 "\<lambda>_. None" "\<lambda>_. False"]
  by (auto simp: algebra_simps)

definition demo_spool_json :: "desired_state \<Rightarrow> spool_json" where
  "demo_spool_json d = \<lparr>sj_marshalDesired = (\<lambda>d. if ds_Deprovision d then ''D'' else ''P''), sj_unmarshalDesired = (\<lambda>_. Some d),
     sj_marshalApplied = (\<lambda>_. ''A''), sj_unmarshalApplied = (\<lambda>_. Some (ok_status d))\<rparr>"

definition demo_writer_env :: "desired_state \<Rightarrow> writer_env" where
  "demo_writer_env d = \<lparr>we_json = demo_spool_json d, we_sum256 = (\<lambda>s. s), we_parseErr = [], we_errText = (\<lambda>_. []),
     we_render = no_pol_faults, we_spool = quiet_spool, we_scm = True\<rparr>"

definition empty_dir :: pdir where
  "empty_dir = \<lparr>pd_exists = True, pd_entries = [], pd_trace = []\<rparr>"

definition demo_writer :: "string \<Rightarrow> writer_sys" where
  "demo_writer b = \<lparr>ws_spool = empty_dir\<lparr>pd_entries := [(spoolPolicyFile, DFile b)]\<rparr>, ws_dir = empty_dir, ws_lastDigest = [],
     ws_service = True\<rparr>"

lemma demo_writer_facts:
  "reads_back (we_json (demo_writer_env d)) d" "we_spool (demo_writer_env d) = quiet_spool"
  "we_render (demo_writer_env d) = no_pol_faults" "only_files (ws_spool (demo_writer b))" "only_files (ws_dir (demo_writer b))"
  "file_of (ws_spool (demo_writer b)) spoolPolicyFile = Some b" "only_files empty_dir"
  "b \<noteq> [] \<Longrightarrow> desiredStateDigest (we_sum256 (demo_writer_env d)) b \<noteq> ws_lastDigest (demo_writer b')"
  by (auto simp: reads_back_def demo_writer_env_def demo_spool_json_def demo_writer_def empty_dir_def only_files_def entry_def
      file_of_entry desiredStateDigest_def hex_encode_def hex_byte_def Let_def neq_Nil_conv)

theorem writer_acts_only_on_valid_state_witness:
  "\<exists>w'. tick (demo_writer_env (desiredStateFromPayload demo_payload)) (demo_writer ''P'') = (w', False)
     \<and> file_of (ws_dir w') = policy_files (pl_Principals demo_payload)"
proof -
  let ?d = "desiredStateFromPayload demo_payload" and ?w = "demo_writer ''P''"
  let ?env = "demo_writer_env ?d"
  have d: "ds_Principals ?d = pl_Principals demo_payload" "\<not> ds_Deprovision ?d" by (simp_all add: desiredStateFromPayload_def)
  have b: "sj_marshalDesired (we_json ?env) ?d = ''P''" "sj_unmarshalDesired (we_json ?env) x = Some ?d" for x
    using d by (simp_all add: demo_writer_env_def demo_spool_json_def)
  have dg: "desiredStateDigest (we_sum256 ?env) ''P'' \<noteq> ws_lastDigest ?w" by (rule demo_writer_facts(8)) simp
  obtain w' where t: "tick ?env ?w = (w', False)" "ws_lastDigest w' = desiredStateDigest (we_sum256 ?env) ''P''"
    using tick_quiet [where d = ?d and w = ?w and env = ?env] demo_writer_facts(1) [of ?d] demo_writer_facts(2) [of ?d]
      demo_writer_facts(3) [of ?d] demo_writer_facts(4-6) [of "''P''"] b dg d demo_payload_facts by auto
  then show ?thesis
    using writer_acts_only_on_valid_state [OF t(1)] dg b d demo_payload_facts demo_writer_facts(6) [of "''P''"] by auto
qed


theorem stale_status_confirms_deprovision_witness:
  "\<exists>(env :: writer_env) (w1 :: writer_sys) sp1. submitDesiredState (we_json env) quiet_spool 0 (\<lambda>k. int k) (\<lambda>_. False) (\<lambda>sp k. sp) deprovisionDesiredState (ws_spool w1)
      = (sp1, Some (Inr ())) \<and> ws_service w1"
proof -
  let ?d = "desiredStateFromPayload \<lparr>pl_Version = 0, pl_Hash = [], pl_Principals = []\<rparr>" and ?w = "demo_writer ''P''"
  let ?env = "demo_writer_env ?d"
  have b: "sj_marshalDesired (we_json ?env) ?d = ''P''"
    by (simp add: demo_writer_env_def demo_spool_json_def desiredStateFromPayload_def)
  have dg: "desiredStateDigest (we_sum256 ?env) (sj_marshalDesired (we_json ?env) ?d) \<noteq> ws_lastDigest ?w"
    unfolding b by (rule demo_writer_facts(8)) simp
  obtain w1 stop where t: "tick ?env ?w = (w1, stop)" by fastforce
  have "ws_service ?w" by (simp add: demo_writer_def)
  moreover have "file_of (ws_spool ?w) spoolPolicyFile = Some (sj_marshalDesired (we_json ?env) ?d)"
    unfolding b by (rule demo_writer_facts(6))
  ultimately obtain sp1 where "submitDesiredState (we_json ?env) quiet_spool 0 (\<lambda>k. int k) (\<lambda>_. False) (\<lambda>sp k. sp)
      deprovisionDesiredState (ws_spool w1) = (sp1, Some (Inr ()))" "ws_service w1"
    using stale_status_confirms_deprovision [OF demo_writer_facts(1-5) _ dg t] by metis
  then show ?thesis by blast
qed

end
