(* ===== verification/Writer_Loop.thy ===== *)
theory Writer_Loop
  imports Principals_Writer
begin

text \<open>
  The main loop of the privileged writer, \<^verbatim>\<open>Run\<close> of \<^verbatim>\<open>agent/principalswriter_windows.go\<close>, beside an agent that
  may put anything into the spool at any time.
\<close>

section \<open>The loop\<close>

text \<open>The loop has not looked at the spool yet, waits for its ticker or its cancellation, or has returned. Every
  tick meets failures of its own (\<open>env\<close>); the spool belongs to the agent, which the writer does not trust.\<close>

datatype writer_phase = Starting | Polling | Returned

inductive run_step :: "spool_json \<Rightarrow> (string \<Rightarrow> string) \<Rightarrow> writer_sys \<times> writer_phase \<Rightarrow> writer_sys \<times> writer_phase \<Rightarrow> bool"
  for sj sum256 where
  first: "\<lbrakk>we_json env = sj; we_sum256 env = sum256; tick env w = (w', stop)\<rbrakk> \<Longrightarrow>
    run_step sj sum256 (w, Starting) (w', if stop then Returned else Polling)"
| poll: "\<lbrakk>we_json env = sj; we_sum256 env = sum256; tick env w = (w', stop)\<rbrakk> \<Longrightarrow>
    run_step sj sum256 (w, Polling) (w', if stop then Returned else Polling)"
| cancel: "run_step sj sum256 (w, Polling) (w, Returned)"
| submit: "run_step sj sum256 (w, ph) (w\<lparr>ws_spool := sp\<rparr>, ph)"

inductive_cases run_stepE: "run_step sj sum256 (w, ph) (w', ph')"

section \<open>What a tick may write\<close>

text \<open>\<open>rendered n e\<close>: the entry \<open>e\<close> of the name \<open>n\<close> is the principals file of a valid user with valid callers,
  or \<open>n\<close> is the temporary name of such a file.\<close>

definition rendered :: "string \<Rightarrow> dentry option \<Rightarrow> bool" where
  "rendered n e \<longleftrightarrow> (\<exists>p :: wire_principal. validateUsername (wp_Username p) \<and> list_all validateCallerTokenID (wp_CallerTokenIDs p)
     \<and> (n = tmp_name (wp_Username p) \<or> n = wp_Username p \<and> e = wanted p))"

definition only_renders :: "pdir \<Rightarrow> pdir \<Rightarrow> bool" where
  "only_renders d d' \<longleftrightarrow> (\<forall>n. entry d' n = entry d n \<or> entry d' n = None \<or> rendered n (entry d' n))"

lemma only_renders_refl [simp]: "only_renders d d"
  by (simp add: only_renders_def)

lemma only_renders_trans: "only_renders d d' \<Longrightarrow> only_renders d' d'' \<Longrightarrow> only_renders d d''"
  unfolding only_renders_def by metis

lemma render_only_renders:
  assumes "renderPrincipalsDir flt snap d = (d', r)"
  shows "only_renders d d'"
proof -
  let ?ps = "pl_Principals snap" and ?d0 = "d\<lparr>pd_exists := True\<rparr>"
  have d0: "entry ?d0 = entry d" by (simp add: entry_def fun_eq_iff)
  obtain d1 w where w: "write_principals flt ?ps (map wp_Username ?ps) ?d0 = (d1, w)" by fastforce
  have sh: "shows_only (tmps ?ps) ?ps ?d0 (pd_entries d1)" using write_principals_states [OF w] by blast
  show ?thesis
  proof (cases "pf_mkdir flt \<or> validatePolicyPayload ?ps \<noteq> Inr ()")
    case True
    then have "entry d' = entry d" using assms d0
      by (auto simp: renderPrincipalsDir_def Let_def split: if_splits sum.splits)
    then show ?thesis by (simp add: only_renders_def)
  next
    case False
    then have v: "\<forall>p \<in> set ?ps. validateUsername (wp_Username p) \<and> list_all validateCallerTokenID (wp_CallerTokenIDs p)"
      by (simp add: validatePolicyPayload_Inr list_all_iff)
    have one: "only_renders d d1"
      using sh v unfolding only_renders_def rendered_def shows_only_def d0 [symmetric] by (fastforce simp: entry_def)
    show ?thesis
    proof (cases "d' = d1")
      case False
      with \<open>\<not> (pf_mkdir flt \<or> _)\<close> obtain want es where "remove_stale flt want es d1 = (d', r)"
        using assms w by (auto simp: renderPrincipalsDir_def Let_def split: if_splits sum.splits option.splits)
      then have "shrinks (stale want es) d1 (pd_entries d')" using remove_stale_effect by blast
      then have "only_renders d1 d'" by (auto simp: only_renders_def shrinks_def entry_def)
      with one show ?thesis by (rule only_renders_trans)
    qed (use one in simp)
  qed
qed

lemma tick_outcome:
  assumes "tick env w = (w', stop)"
  shows "only_renders (ws_dir w) (ws_dir w')"
    "\<not> stop \<Longrightarrow> ws_service w' = ws_service w
       \<and> (ws_lastDigest w' = ws_lastDigest w \<or> (\<exists>b. ws_lastDigest w' = desiredStateDigest (we_sum256 env) b
            \<and> \<not> desiredStateRequestsDeprovision (we_json env) b))"
proof -
  have "only_renders (ws_dir w) (ws_dir w') \<and> (\<not> stop \<longrightarrow> ws_service w' = ws_service w
       \<and> (ws_lastDigest w' = ws_lastDigest w \<or> (\<exists>b. ws_lastDigest w' = desiredStateDigest (we_sum256 env) b
            \<and> \<not> desiredStateRequestsDeprovision (we_json env) b)))"
  proof (cases "file_of (ws_spool w) spoolPolicyFile = None \<or> sf_read (we_spool env)
    \<or> (\<exists>b. file_of (ws_spool w) spoolPolicyFile = Some b \<and> desiredStateDigest (we_sum256 env) b = ws_lastDigest w)")
    case True
    then show ?thesis using tick_idle [OF True] assms by simp
  next
    case False
    then obtain b where b: "file_of (ws_spool w) spoolPolicyFile = Some b" "\<not> sf_read (we_spool env)"
      "desiredStateDigest (we_sum256 env) b \<noteq> ws_lastDigest w" by auto
    obtain dir' st where ap: "applyDesiredStateBytes (we_json env) (we_parseErr env) (we_errText env) (we_render env) b (ws_dir w)
        = (dir', st)" by fastforce
    have "only_renders (ws_dir w) dir'"
      using ap render_only_renders by (auto simp: applyDesiredStateBytes_def Let_def split: option.splits sum.splits prod.splits)
    then show ?thesis using tick_acts [OF b ap] assms by (auto simp: shouldSelfRemoveOnApply_def split: if_splits)
  qed
  then show "only_renders (ws_dir w) (ws_dir w')"
    "\<not> stop \<Longrightarrow> ws_service w' = ws_service w
       \<and> (ws_lastDigest w' = ws_lastDigest w \<or> (\<exists>b. ws_lastDigest w' = desiredStateDigest (we_sum256 env) b
            \<and> \<not> desiredStateRequestsDeprovision (we_json env) b))" by simp_all
qed

lemma hex_encode_Nil: "hex_encode b = [] \<longleftrightarrow> b = []"
  using length_hex_encode [of b] by (cases b) auto

lemma hex_encode_eq: "hex_encode a = hex_encode b \<longleftrightarrow> a = b"
  using hex_encode_inject by blast

lemma rendered_Some:
  "rendered n (Some e) \<Longrightarrow> \<exists>p :: wire_principal. validateUsername (wp_Username p) \<and> list_all validateCallerTokenID (wp_CallerTokenIDs p)
     \<and> (n = tmp_name (wp_Username p) \<or> n = wp_Username p \<and> e = DFile (principals_text (wp_CallerTokenIDs p)))"
proof -
  assume "rendered n (Some e)"
  then obtain p where p: "validateUsername (wp_Username p)" "list_all validateCallerTokenID (wp_CallerTokenIDs p)"
    "n = tmp_name (wp_Username p) \<or> n = wp_Username p \<and> Some e = wanted p" unfolding rendered_def by blast
  have "n = tmp_name (wp_Username p) \<or> n = wp_Username p \<and> e = DFile (principals_text (wp_CallerTokenIDs p))"
    using p(3) by (cases "wp_CallerTokenIDs p = []") (simp_all add: wanted_def)
  with p(1,2) show ?thesis by blast
qed

section \<open>Runs\<close>

definition writer_init :: "writer_sys \<times> writer_phase \<Rightarrow> bool" where
  "writer_init s \<longleftrightarrow> snd s = Starting \<and> ws_lastDigest (fst s) = [] \<and> ws_service (fst s)"

definition writer_inv :: "spool_json \<Rightarrow> (string \<Rightarrow> string) \<Rightarrow> writer_sys \<times> writer_phase \<Rightarrow> bool" where
  "writer_inv sj sum256 s \<longleftrightarrow> snd s \<noteq> Returned \<longrightarrow> ws_service (fst s)
     \<and> (ws_lastDigest (fst s) = [] \<or> (\<exists>b. ws_lastDigest (fst s) = desiredStateDigest sum256 b \<and> \<not> desiredStateRequestsDeprovision sj b))"

lemma run_step_inv: "writer_inv sj sum256 s \<Longrightarrow> run_step sj sum256 s t \<Longrightarrow> writer_inv sj sum256 t"
  by (erule run_step.cases) (auto simp: writer_inv_def dest: tick_outcome(2))

interpretation writer_runs: monotone_system writer_init "run_step sj sum256" "writer_inv sj sum256"
    "\<lambda>s t. only_renders (ws_dir (fst s)) (ws_dir (fst t))" for sj sum256
proof unfold_locales
  show "only_renders (ws_dir (fst s)) (ws_dir (fst t))" if "run_step sj sum256 s t" for s t
    using that by cases (auto dest: tick_outcome(1))
  show "writer_inv sj sum256 s" if "writer_init s" for s
    using that by (simp add: writer_init_def writer_inv_def)
  show "writer_inv sj sum256 t" if "writer_inv sj sum256 s" "run_step sj sum256 s t" for s t
    using that by (rule run_step_inv)
qed (auto intro: only_renders_trans)

text \<open>C7: A compromised agent can make the privileged writer write principals files and nothing else. Whatever
  it puts into the spool and whenever, and whichever calls of the writer fail, every entry of the principals
  directory is one that was there before, or the file of a valid user name that lists valid callers, or the
  temporary file of one; and the writer's service is there until the loop has returned.\<close>

theorem writer_confined:
  assumes "(run_step sj sum256)\<^sup>*\<^sup>* (w0, Starting) (w, ph)" "ws_lastDigest w0 = []" "ws_service w0"
    "entry (ws_dir w) n = Some e"
  shows "(entry (ws_dir w0) n = Some e
      \<or> (\<exists>p :: wire_principal. validateUsername (wp_Username p) \<and> list_all validateCallerTokenID (wp_CallerTokenIDs p)
           \<and> (n = tmp_name (wp_Username p) \<or> n = wp_Username p \<and> e = DFile (principals_text (wp_CallerTokenIDs p)))))
    \<and> (ph \<noteq> Returned \<longrightarrow> ws_service w)"
proof -
  have i: "writer_init (w0, Starting)" using assms(2,3) by (simp add: writer_init_def)
  have "entry (ws_dir w) n = entry (ws_dir w0) n \<or> entry (ws_dir w) n = None \<or> rendered n (entry (ws_dir w) n)"
    using writer_runs.rel_reachable [OF i rtranclp.rtrancl_refl assms(1)] by (simp add: only_renders_def)
  then have "entry (ws_dir w0) n = Some e \<or> rendered n (Some e)" using assms(4) by auto
  moreover have "ph \<noteq> Returned \<longrightarrow> ws_service w"
    using writer_runs.inv_reachable [OF i assms(1)] by (simp add: writer_inv_def)
  ultimately show ?thesis using rendered_Some by blast
qed

text \<open>Deprovisioning always gets through: in whatever state a run has come to, if the agent's request is in the
  spool and the next tick meets no failure, the principals directory is emptied of its files, the loop returns,
  and the service is deleted when the service manager allows it. (SHA-256 is taken to have no collisions.)\<close>

theorem deprovision_stops_writer:
  fixes env :: writer_env
  assumes "(run_step (we_json env) (we_sum256 env))\<^sup>*\<^sup>* (w0, Starting) (w, ph)" "ws_lastDigest w0 = []" "ws_service w0" "ph \<noteq> Returned"
    "inj (we_sum256 env)" "we_sum256 env (sj_marshalDesired (we_json env) deprovisionDesiredState) \<noteq> []"
    "reads_back (we_json env) deprovisionDesiredState" "we_spool env = quiet_spool" "we_render env = no_pol_faults"
    "only_files (ws_spool w)" "only_files (ws_dir w)"
    "file_of (ws_spool w) spoolPolicyFile = Some (sj_marshalDesired (we_json env) deprovisionDesiredState)"
  shows "\<exists>w'. run_step (we_json env) (we_sum256 env) (w, ph) (w', Returned)
     \<and> file_of (ws_dir w') = (\<lambda>_. None) \<and> (we_scm env \<longrightarrow> \<not> ws_service w')"
proof -
  let ?d = deprovisionDesiredState and ?sj = "we_json env"
  have d: "ds_Deprovision ?d" "ds_Principals ?d = []" "validatePolicyPayload (ds_Principals ?d) = Inr ()"
    by (simp_all add: deprovisionDesiredState_def)
  have r: "desiredStateRequestsDeprovision ?sj (sj_marshalDesired ?sj ?d)"
    using assms(7) d(1) by (simp add: desiredStateRequestsDeprovision_def reads_back_def)
  have "writer_inv ?sj (we_sum256 env) (w, ph)"
    using writer_runs.inv_reachable [OF _ assms(1)] assms(2,3) by (simp add: writer_init_def)
  then have dg: "desiredStateDigest (we_sum256 env) (sj_marshalDesired ?sj ?d) \<noteq> ws_lastDigest w"
    using assms(4-6) r by (auto simp: writer_inv_def desiredStateDigest_def hex_encode_Nil inj_eq hex_encode_eq)
  obtain w' where t: "tick env w = (w', True)" "renderPrincipalsDir no_pol_faults (toPayload ?d) (ws_dir w) = (ws_dir w', Inr ())"
    "ws_service w' = (ws_service w \<and> \<not> we_scm env)"
    using tick_quiet [OF assms(7-12) dg d(3)] d(1) by auto
  have "file_of (ws_dir w') u = None" for u
    using renderPrincipalsDir_exactI [OF t(2), of u] d(2) by (simp add: toPayload_def tmp_safe_def policy_files_def)
  moreover have "run_step ?sj (we_sum256 env) (w, ph) (w', Returned)"
    using run_step.first [OF refl refl t(1)] run_step.poll [OF refl refl t(1)] assms(4) by (cases ph) auto
  ultimately show ?thesis using t(3) by auto
qed

theorem writer_confined_witness:
  "\<exists>w' e (p :: wire_principal). run_step (demo_spool_json (desiredStateFromPayload demo_payload)) (\<lambda>s. s) (demo_writer ''P'', Starting) (w', Polling)
     \<and> entry (ws_dir w') ''root'' = Some e \<and> validateUsername (wp_Username p)
     \<and> (''root'' = tmp_name (wp_Username p) \<or> ''root'' = wp_Username p \<and> e = DFile (principals_text (wp_CallerTokenIDs p)))"
proof -
  let ?d = "desiredStateFromPayload demo_payload" and ?w = "demo_writer ''P''"
  let ?env = "demo_writer_env ?d"
  have d: "ds_Principals ?d = pl_Principals demo_payload" "\<not> ds_Deprovision ?d" by (simp_all add: desiredStateFromPayload_def)
  have e: "we_json ?env = demo_spool_json ?d" "we_sum256 ?env = (\<lambda>s. s)" by (simp_all add: demo_writer_env_def)
  have b: "sj_marshalDesired (we_json ?env) ?d = ''P''" using d by (simp add: demo_writer_env_def demo_spool_json_def)
  have dg: "desiredStateDigest (we_sum256 ?env) ''P'' \<noteq> ws_lastDigest ?w" by (rule demo_writer_facts(8)) simp
  obtain w' where t: "tick ?env ?w = (w', False)" "renderPrincipalsDir no_pol_faults (toPayload ?d) (ws_dir ?w) = (ws_dir w', Inr ())"
    using tick_quiet [where d = ?d and w = ?w and env = ?env] demo_writer_facts(1) [of ?d] demo_writer_facts(2) [of ?d]
      demo_writer_facts(3) [of ?d] demo_writer_facts(4-6) [of "''P''"] b dg d demo_payload_facts by auto
  have s: "run_step (demo_spool_json ?d) (\<lambda>s. s) (?w, Starting) (w', Polling)"
    using run_step.first [OF e t(1)] by simp
  have "tmp_safe (pl_Principals (toPayload ?d))"
    using sorted_tmp_safe [OF demo_payload_facts(2)] d(1) by (simp add: toPayload_def)
  then have "file_of (ws_dir w') ''root'' = policy_files (pl_Principals demo_payload) ''root''"
    using renderPrincipalsDir_exactI [OF t(2)] d(1) by (simp add: toPayload_def)
  then obtain en where en: "entry (ws_dir w') ''root'' = Some en"
    by (auto simp: policy_files_def demo_payload_def file_of_entry split: option.splits)
  have i: "ws_lastDigest ?w = []" "ws_service ?w" "entry (ws_dir ?w) ''root'' = None"
    by (simp_all add: demo_writer_def empty_dir_def entry_def)
  from writer_confined [OF r_into_rtranclp [of "run_step (demo_spool_json ?d) (\<lambda>s. s)", OF s] i(1,2) en] i(3)
  obtain p :: wire_principal where "validateUsername (wp_Username p)"
    "''root'' = tmp_name (wp_Username p) \<or> ''root'' = wp_Username p \<and> en = DFile (principals_text (wp_CallerTokenIDs p))" by auto
  with s en show ?thesis by blast
qed

end
