(* ===== verification/Redact.thy ===== *)
theory Redact
  imports Tokens
begin

text \<open>
  The redaction of evidence (\<^verbatim>\<open>internal/validate/redact.go\<close>). The regular expression
  \<^verbatim>\<open>uct_(join|agent|cli|caller)_([A-Za-z0-9]+)_([A-Za-z0-9]{16,})\<close> has one way to match at a
  position, since the underscore is not in its character class: a run of the class always extends
  to the next character outside it. \<^verbatim>\<open>ReplaceAllString\<close> replaces the leftmost match and goes on
  after it.
\<close>

section \<open>Definitions\<close>

definition word_char :: "char \<Rightarrow> bool" where
  "word_char c \<longleftrightarrow> (let n = of_char c :: nat in 65 \<le> n \<and> n \<le> 90 \<or> 97 \<le> n \<and> n \<le> 122 \<or> 48 \<le> n \<and> n \<le> 57)"

definition redact_kinds :: "string list" where
  "redact_kinds = [''join'', ''agent'', ''cli'', ''caller'']"

text \<open>The match at the head of the text: the kind, the identifier and what follows the secret.\<close>

definition tokenRe :: "string \<Rightarrow> (string \<times> string \<times> string) option" where
  "tokenRe s =
     (if \<not> has_prefix ''uct_'' s then None
      else case find (\<lambda>k. has_prefix (k @ ''_'') (drop 4 s)) redact_kinds of
        None \<Rightarrow> None
      | Some k \<Rightarrow>
          let r = drop (5 + length k) s;
              i = takeWhile word_char r;
              r' = dropWhile word_char r;
              sec = takeWhile word_char (tl r') in
          if i \<noteq> [] \<and> r' \<noteq> [] \<and> hd r' = CHR ''_'' \<and> 16 \<le> length sec
          then Some (k, i, dropWhile word_char (tl r')) else None)"

definition redacted :: "string \<Rightarrow> string \<Rightarrow> string" where
  "redacted k i = ''uct_'' @ k @ ''_'' @ i @ ''_REDACTED''"

lemma length_dropWhile_tl: "length (dropWhile P (tl (dropWhile Q r))) \<le> length r"
  by (metis dual_order.trans length_dropWhile_le length_tl diff_le_self)

lemma tokenRe_shorter: "tokenRe s = Some (k, i, rest) \<Longrightarrow> length rest < length s"
  using length_dropWhile_tl [of word_char word_char "drop (5 + length k) s"]
  by (cases s) (auto simp: tokenRe_def has_prefix_def Let_def split: if_splits option.splits)

function RedactSecrets :: "string \<Rightarrow> string" where
  "RedactSecrets s =
     (if s = [] then []
      else case tokenRe s of
        None \<Rightarrow> hd s # RedactSecrets (tl s)
      | Some (k, i, rest) \<Rightarrow> redacted k i @ RedactSecrets rest)"
  by pat_completeness auto
termination
  by (relation "measure length") (auto dest: tokenRe_shorter)

declare RedactSecrets.simps [simp del]

lemma RedactSecrets_Nil [simp]: "RedactSecrets [] = []"
  by (subst RedactSecrets.simps) simp

lemma RedactSecrets_skip: "tokenRe (c # s) = None \<Longrightarrow> RedactSecrets (c # s) = c # RedactSecrets s"
  by (subst RedactSecrets.simps) simp

lemma RedactSecrets_match:
  "tokenRe s = Some (k, i, rest) \<Longrightarrow> RedactSecrets s = redacted k i @ RedactSecrets rest"
  by (subst RedactSecrets.simps) (auto simp: tokenRe_def has_prefix_def)

section \<open>Runs of word characters\<close>

abbreviation words :: "string \<Rightarrow> bool" where
  "words s \<equiv> list_all word_char s"

abbreviation at_end :: "string \<Rightarrow> bool" where
  "at_end s \<equiv> s = [] \<or> \<not> word_char (hd s)"

lemma word_char_underscore [simp]: "\<not> word_char (CHR ''_'')"
  by (simp add: word_char_def)

lemma words_literals [simp]:
  "words ''uct''" "words ''REDACTED''" "words ''join''" "words ''agent''" "words ''cli''" "words ''caller''"
  by (simp_all add: word_char_def)

lemma take_run: "words a \<Longrightarrow> at_end r \<Longrightarrow> takeWhile word_char (a @ r) = a \<and> dropWhile word_char (a @ r) = r"
  by (induction a) (cases r; auto)+

text \<open>Two ways to read a text as a run and what follows it are the same.\<close>

lemma run_unique: "words a \<Longrightarrow> words b \<Longrightarrow> at_end r \<Longrightarrow> at_end r' \<Longrightarrow> a @ r = b @ r' \<Longrightarrow> a = b \<and> r = r'"
  using take_run by metis

lemma run_underscore: "words a \<Longrightarrow> words b \<Longrightarrow> a @ CHR ''_'' # r = b @ CHR ''_'' # r' \<Longrightarrow> a = b \<and> r = r'"
  using run_unique [of a b "CHR ''_'' # r" "CHR ''_'' # r'"] by simp

lemma run_longer:
  assumes "words a" "words b" "at_end r" "a @ q = b @ r"
  shows "length a \<le> length b"
proof -
  have "words (take (length a) (b @ r))" using assms(1,4) by (metis append_eq_conv_conj)
  then show ?thesis
  proof (rule contrapos_pp)
    assume "\<not> length a \<le> length b"
    moreover from this have "r \<noteq> []" using assms(4) by (metis append_Nil2 le_add1 length_append)
    ultimately have "hd r \<in> set (take (length a) (b @ r))"
      by (cases r) (auto simp: take_Cons')
    with \<open>r \<noteq> []\<close> assms(3) show "\<not> words (take (length a) (b @ r))" by (auto simp: list_all_iff)
  qed
qed

lemma prefix_by_length: "a @ q = b @ r \<Longrightarrow> length a \<le> length b \<Longrightarrow> \<exists>z. b = a @ z"
  by (auto simp: append_eq_append_conv2)

section \<open>Shape of a match\<close>

text \<open>The tokens at issue: a known kind, an identifier of sixteen and a secret of fifty-two word
  characters.\<close>

definition plain_token :: "token \<Rightarrow> bool" where
  "plain_token t \<longleftrightarrow> t_kind t \<in> set redact_kinds \<and> words (t_id t) \<and> words (t_secret t)
     \<and> length (t_id t) = 16 \<and> length (t_secret t) = 52"

lemma redact_kinds_words: "k \<in> set redact_kinds \<Longrightarrow> words k \<and> length k \<le> 6 \<and> k \<noteq> [] \<and> k \<noteq> ''REDACTED''"
  by (auto simp: redact_kinds_def word_char_def)

lemma find_kind:
  assumes "k \<in> set redact_kinds"
  shows "find (\<lambda>k'. has_prefix (k' @ ''_'') (k @ CHR ''_'' # r)) redact_kinds = Some k"
  using assms by (auto simp: redact_kinds_def has_prefix_def)

lemma tokenRe_Some:
  "tokenRe s = Some (k, i, rest) \<longleftrightarrow>
     (\<exists>sec. s = ''uct_'' @ k @ CHR ''_'' # i @ CHR ''_'' # sec @ rest \<and> k \<in> set redact_kinds \<and> i \<noteq> []
        \<and> words i \<and> words sec \<and> 16 \<le> length sec \<and> at_end rest)" (is "_ \<longleftrightarrow> ?R")
proof
  assume a: "tokenRe s = Some (k, i, rest)"
  then have pre: "has_prefix ''uct_'' s" and
    f: "find (\<lambda>k. has_prefix (k @ ''_'') (drop 4 s)) redact_kinds = Some k"
    by (auto simp: tokenRe_def Let_def split: if_splits option.splits)
  define r where "r = drop (5 + length k) s"
  have k: "k \<in> set redact_kinds" "has_prefix (k @ ''_'') (drop 4 s)"
    using f by (auto simp: find_Some_iff)
  then have s: "s = ''uct_'' @ k @ CHR ''_'' # r"
    using pre by (auto simp: has_prefix_iff r_def numeral_eq_Suc)
  have x: "i = takeWhile word_char r" "i \<noteq> []" "dropWhile word_char r \<noteq> []"
    "hd (dropWhile word_char r) = CHR ''_''" "16 \<le> length (takeWhile word_char (tl (dropWhile word_char r)))"
    "rest = dropWhile word_char (tl (dropWhile word_char r))"
    using a pre f by (auto simp: tokenRe_def Let_def r_def split: if_splits)
  define q where "q = tl (dropWhile word_char r)"
  have "r = i @ CHR ''_'' # takeWhile word_char q @ rest"
    using takeWhile_dropWhile_id [of word_char r] takeWhile_dropWhile_id [of word_char q]
      list.collapse [OF x(3)] x(1,4,6) by (simp add: q_def)
  moreover have "at_end rest" using x(6) hd_dropWhile by blast
  moreover have "words i" "words (takeWhile word_char q)" using x(1) by (auto simp: list_all_iff dest: set_takeWhileD)
  ultimately show ?R using s k(1) x(2,5)
    by (intro exI [of _ "takeWhile word_char q"] conjI) (simp_all add: q_def)
next
  assume ?R
  then obtain sec where s: "s = ''uct_'' @ k @ CHR ''_'' # i @ CHR ''_'' # sec @ rest" and
    h: "k \<in> set redact_kinds" "i \<noteq> []" "words i" "words sec" "16 \<le> length sec" "at_end rest" by blast
  have d: "drop (5 + length k) s = i @ CHR ''_'' # sec @ rest" "drop 4 s = k @ CHR ''_'' # i @ CHR ''_'' # sec @ rest"
    "has_prefix ''uct_'' s"
    using s by (auto simp: has_prefix_def numeral_eq_Suc)
  have w: "takeWhile word_char (i @ CHR ''_'' # sec @ rest) = i"
    "dropWhile word_char (i @ CHR ''_'' # sec @ rest) = CHR ''_'' # sec @ rest"
    "takeWhile word_char (sec @ rest) = sec" "dropWhile word_char (sec @ rest) = rest"
    using take_run [of i "CHR ''_'' # sec @ rest"] take_run [of sec rest] h by auto
  show "tokenRe s = Some (k, i, rest)"
    using find_kind [OF h(1)] h by (simp add: tokenRe_def d w)
qed

lemma tokenRe_plain:
  assumes "plain_token t" "s = token_string t @ r"
  shows "tokenRe s \<noteq> None"
proof -
  let ?sec = "t_secret t @ takeWhile word_char r" and ?rest = "dropWhile word_char r"
  have "words ?sec" using assms(1) by (auto simp: plain_token_def list_all_iff dest: set_takeWhileD)
  moreover have "at_end ?rest" using hd_dropWhile by blast
  ultimately have "tokenRe s = Some (t_kind t, t_id t, ?rest)"
    unfolding tokenRe_Some using assms
    by (intro exI [of _ ?sec]) (auto simp: plain_token_def token_string_def)
  then show ?thesis by simp
qed

lemma tokenRe_at_end: "at_end s \<Longrightarrow> s \<noteq> [] \<Longrightarrow> tokenRe s = None"
  by (cases s) (auto simp: tokenRe_def has_prefix_def word_char_def split: if_splits)

lemma RedactSecrets_at_end: "at_end s \<Longrightarrow> at_end (RedactSecrets s)"
  using tokenRe_at_end RedactSecrets_skip by (cases s) auto

section \<open>No token survives\<close>

text \<open>A plain token cannot start inside the text a match is replaced by.\<close>

lemma redacted_tail:
  assumes "plain_token t" "at_end r" "words a" "a @ ''_REDACTED'' @ r = ''uct_'' @ t_kind t @ CHR ''_'' # q"
  shows False
proof -
  have k: "words (t_kind t)" "t_kind t \<noteq> ''REDACTED''"
    using assms(1) redact_kinds_words by (auto simp: plain_token_def)
  have "''REDACTED'' @ r = t_kind t @ CHR ''_'' # q"
    using run_underscore [OF assms(3) words_literals(1), of "''REDACTED'' @ r" "t_kind t @ CHR ''_'' # q"] assms(4) by simp
  then show False using run_unique [OF words_literals(2) k(1) assms(2), of "CHR ''_'' # q"] k by auto
qed

lemma redacted_inside:
  assumes "plain_token t" "at_end r" "words i" "words a" "a @ CHR ''_'' # i @ ''_REDACTED'' @ r = token_string t @ q"
  shows False
proof -
  have t: "words (t_kind t)" "words (t_id t)" "length (t_id t) = 16"
    using assms(1) redact_kinds_words by (auto simp: plain_token_def)
  have "i @ ''_REDACTED'' @ r = t_kind t @ CHR ''_'' # t_id t @ CHR ''_'' # t_secret t @ q"
    using run_underscore [OF assms(4) words_literals(1), of "i @ ''_REDACTED'' @ r"] assms(5) by (simp add: token_string_def)
  then have "''REDACTED'' @ r = t_id t @ CHR ''_'' # t_secret t @ q"
    using run_underscore [OF assms(3) t(1), of "''REDACTED'' @ r"] by simp
  then have "t_id t = ''REDACTED''"
    using run_unique [OF words_literals(2) t(2) assms(2), of "CHR ''_'' # t_secret t @ q"] by auto
  then show False using t(3) by simp
qed

lemma redacted_head:
  assumes "plain_token t" "at_end r" "words i" "words k"
    "u @ CHR ''_'' # k @ CHR ''_'' # i @ ''_REDACTED'' @ r = token_string t @ q" "words u"
  shows False
proof -
  have t: "words (t_kind t)" "words (t_id t)" "words (t_secret t)" "length (t_secret t) = 52"
    using assms(1) redact_kinds_words by (auto simp: plain_token_def)
  have "k @ CHR ''_'' # i @ ''_REDACTED'' @ r = t_kind t @ CHR ''_'' # t_id t @ CHR ''_'' # t_secret t @ q"
    using run_underscore [OF assms(6) words_literals(1), of "k @ CHR ''_'' # i @ ''_REDACTED'' @ r"] assms(5)
    by (simp add: token_string_def)
  then have "i @ ''_REDACTED'' @ r = t_id t @ CHR ''_'' # t_secret t @ q"
    using run_underscore [OF assms(4) t(1), of "i @ ''_REDACTED'' @ r"] by simp
  then have "''REDACTED'' @ r = t_secret t @ q"
    using run_underscore [OF assms(3) t(2), of "''REDACTED'' @ r"] by simp
  then have "length (t_secret t) \<le> 8" using run_longer [OF t(3) words_literals(2) assms(2)] by simp
  then show False using t(4) by simp
qed

lemma suffix_of_run: "words w \<Longrightarrow> words (drop n w)"
  by (auto simp: list_all_iff dest: in_set_dropD)

text \<open>A suffix of a field, an underscore and a rest starts in the field or lies in the rest.\<close>

lemma field_suffix:
  assumes "a @ c # b = x @ y"
  obtains n where "y = drop n a @ c # b" | x' where "b = x' @ y"
proof (cases "length x \<le> length a")
  case True
  then show ?thesis using that(1) [of "length x"] assms by (metis append_eq_conv_conj drop_append diff_is_0_eq drop0)
next
  case False
  then obtain m where "length x = length a + Suc m" by (metis add_Suc_right less_iff_Suc_add not_le)
  then have "y = drop m b" using assms by (metis append_eq_conv_conj drop_Suc_Cons drop_append add_diff_cancel_left' drop_all le_add1 append_Nil)
  then show ?thesis using that(2) [of "take m b"] by simp
qed

lemma redacted_fields: "redacted k i = ''uct'' @ CHR ''_'' # k @ CHR ''_'' # i @ CHR ''_'' # ''REDACTED''"
  by (simp add: redacted_def)

lemma token_fields: "token_string t = ''uct'' @ CHR ''_'' # t_kind t @ CHR ''_'' # t_id t @ CHR ''_'' # t_secret t"
  by (simp add: token_string_def)

lemma redacted_no_start:
  assumes "plain_token t" "at_end r" "words i" "k \<in> set redact_kinds" "redacted k i = p @ y" "y \<noteq> []"
    "y @ r = token_string t @ q"
  shows False
proof -
  have k: "words k" using redact_kinds_words assms(4) by blast
  show False
  proof (rule field_suffix [OF assms(5) [unfolded redacted_fields]])
    fix n assume "y = drop n ''uct'' @ CHR ''_'' # k @ CHR ''_'' # i @ CHR ''_'' # ''REDACTED''"
    then show False using redacted_head [OF assms(1-3) k, of "drop n ''uct''" q] assms(7) suffix_of_run [OF words_literals(1)]
      by simp
  next
    fix x1 assume "k @ CHR ''_'' # i @ CHR ''_'' # ''REDACTED'' = x1 @ y"
    then show False
    proof (rule field_suffix)
      fix n assume "y = drop n k @ CHR ''_'' # i @ CHR ''_'' # ''REDACTED''"
      then show False using redacted_inside [OF assms(1-3) suffix_of_run [OF k], of n q] assms(7) by simp
    next
      fix x2 assume "i @ CHR ''_'' # ''REDACTED'' = x2 @ y"
      then show False
      proof (rule field_suffix)
        fix n assume "y = drop n i @ CHR ''_'' # ''REDACTED''"
        then show False
          using redacted_tail [OF assms(1,2) suffix_of_run [OF assms(3)], of n "t_id t @ CHR ''_'' # t_secret t @ q"] assms(7)
          by (simp add: token_string_def)
      next
        fix x3 assume x3: "''REDACTED'' = x3 @ y"
        have "words (x3 @ y)" unfolding x3 [symmetric] by (rule words_literals)
        then have "words y" by simp
        then have "y = ''uct''"
          using run_unique [OF _ words_literals(1) assms(2), of y "CHR ''_'' # t_kind t @ CHR ''_'' # t_id t @ CHR ''_'' # t_secret t @ q"] assms(7)
          by (simp add: token_string_def)
        then have "CHR ''u'' \<in> set (x3 @ y)" by simp
        then show False unfolding x3 [symmetric] by simp
      qed
    qed
  qed
qed

text \<open>The part of a token that the replacement text shows at its head is a part of \<^verbatim>\<open>uct\<close>.\<close>

lemma token_tail_at_match:
  assumes "plain_token t" "token_string t = x @ y" "y @ q = redacted k i @ r" "at_end r" "words i" "k \<in> set redact_kinds"
  shows "\<exists>z. ''uct'' = y @ z"
proof -
  have t: "words (t_kind t)" "words (t_id t)" "words (t_secret t)" "length (t_id t) = 16" "length (t_secret t) = 52"
    using assms(1) redact_kinds_words by (auto simp: plain_token_def)
  have kw: "words k" "length k \<le> 6" using assms(6) redact_kinds_words by blast+
  have e: "''uct'' @ CHR ''_'' # k @ CHR ''_'' # i @ ''_REDACTED'' @ r = y @ q"
    using assms(3) by (simp add: redacted_def)
  show ?thesis
  proof (rule field_suffix [OF assms(2) [unfolded token_fields]])
    fix n assume y: "y = drop n ''uct'' @ CHR ''_'' # t_kind t @ CHR ''_'' # t_id t @ CHR ''_'' # t_secret t"
    have "''uct'' @ CHR ''_'' # k @ CHR ''_'' # i @ ''_REDACTED'' @ r
        = drop n ''uct'' @ CHR ''_'' # t_kind t @ CHR ''_'' # t_id t @ CHR ''_'' # t_secret t @ q"
      using e y by (simp del: drop_Suc_Cons)
    from run_underscore [OF words_literals(1) suffix_of_run [OF words_literals(1)] this]
    have "drop n ''uct'' = ''uct''" by (rule conjunct1 [THEN sym])
    then have "''uct'' @ CHR ''_'' # k @ CHR ''_'' # i @ ''_REDACTED'' @ r = token_string t @ q"
      using e y by (simp add: token_string_def)
    then show ?thesis using redacted_head [OF assms(1,4,5) kw(1) _ words_literals(1)] by blast
  next
    fix x1 assume "t_kind t @ CHR ''_'' # t_id t @ CHR ''_'' # t_secret t = x1 @ y"
    then show ?thesis
    proof (rule field_suffix)
      fix n assume "y = drop n (t_kind t) @ CHR ''_'' # t_id t @ CHR ''_'' # t_secret t"
      then have "k @ CHR ''_'' # i @ ''_REDACTED'' @ r = t_id t @ CHR ''_'' # t_secret t @ q"
        using run_underscore [OF words_literals(1) suffix_of_run [OF t(1)], of _ n] e by simp
      then have "k = t_id t" using run_underscore [OF kw(1) t(2)] by blast
      then show ?thesis using kw(2) t(4) by simp
    next
      fix x2 assume "t_id t @ CHR ''_'' # t_secret t = x2 @ y"
      then show ?thesis
      proof (rule field_suffix)
        fix n assume "y = drop n (t_id t) @ CHR ''_'' # t_secret t"
        then have "k @ CHR ''_'' # i @ ''_REDACTED'' @ r = t_secret t @ q"
          using run_underscore [OF words_literals(1) suffix_of_run [OF t(2)], of _ n] e by simp
        then show ?thesis using run_longer [OF t(3) kw(1), of "CHR ''_'' # i @ ''_REDACTED'' @ r" q] kw(2) t(5) by simp
      next
        fix x3 assume "t_secret t = x3 @ y"
        then have "words y" using t(3) by simp
        have "length y \<le> length ''uct''" by (rule run_longer [OF \<open>words y\<close> words_literals(1) _ e [symmetric]]) simp
        then show ?thesis by (rule prefix_by_length [OF e [symmetric]])
      qed
    qed
  qed
qed

text \<open>What the output shows of a token at its head, the input has too.\<close>

lemma token_tail_in_input:
  assumes "plain_token t"
  shows "token_string t = x @ y \<Longrightarrow> RedactSecrets s = y @ q \<Longrightarrow> \<exists>q'. s = y @ q'"
proof (induction s arbitrary: x y q rule: RedactSecrets.induct)
  case (1 s)
  show ?case
  proof (cases "s = [] \<or> y = []")
    case True
    then show ?thesis using 1(4) by auto
  next
    case False
    then obtain c cs c' ys where s: "s = c # cs" and y: "y = c' # ys" by (meson neq_Nil_conv)
    show ?thesis
    proof (cases "tokenRe s")
      case None
      then have "c # RedactSecrets cs = y @ q" using 1(4) s RedactSecrets_skip by simp
      moreover have "token_string t = (x @ [c']) @ ys" using 1(3) y by simp
      ultimately have "\<exists>q'. cs = ys @ q'" "c' = c" using 1(1) None s y by auto
      then show ?thesis using s y by auto
    next
      case (Some m)
      obtain k i rest where m: "tokenRe s = Some (k, i, rest)" using Some by (cases m) auto
      obtain sec where s': "s = ''uct_'' @ k @ CHR ''_'' # i @ CHR ''_'' # sec @ rest"
        and k: "k \<in> set redact_kinds" "words i" "at_end rest"
        using m tokenRe_Some by blast
      have "y @ q = redacted k i @ RedactSecrets rest" using 1(4) RedactSecrets_match [OF m] by simp
      then obtain z where z: "''uct'' = y @ z"
        using token_tail_at_match [OF assms 1(3) _ RedactSecrets_at_end [OF k(3)] k(2,1)] by blast
      have "s = ''uct'' @ CHR ''_'' # k @ CHR ''_'' # i @ CHR ''_'' # sec @ rest" using s' by simp
      then show ?thesis unfolding z by simp
    qed
  qed
qed

lemma no_token_at_head: "plain_token t \<Longrightarrow> RedactSecrets s \<noteq> token_string t @ q"
proof
  assume t: "plain_token t" and e: "RedactSecrets s = token_string t @ q"
  then obtain q' where "s = token_string t @ q'" using token_tail_in_input [OF t _ e, of "[]"] by auto
  then obtain k i rest where m: "tokenRe s = Some (k, i, rest)" using tokenRe_plain [OF t, of s q'] by (cases "tokenRe s") auto
  then obtain sec where k: "k \<in> set redact_kinds" "words i" "at_end rest" using tokenRe_Some by blast
  have "redacted k i @ RedactSecrets rest = token_string t @ q" using e RedactSecrets_match [OF m] by simp
  then show False
    using redacted_no_start [OF t RedactSecrets_at_end [OF k(3)] k(2,1), of "[]" "redacted k i" q]
    by (simp add: redacted_def)
qed

lemma no_token_anywhere: "plain_token t \<Longrightarrow> RedactSecrets s \<noteq> p @ token_string t @ q"
proof (induction s arbitrary: p rule: RedactSecrets.induct)
  case (1 s)
  note t = \<open>plain_token t\<close>
  show ?case
  proof
    assume e: "RedactSecrets s = p @ token_string t @ q"
    then have "p \<noteq> []" using no_token_at_head [OF t] by auto
    have "s \<noteq> []" using e by (auto simp: token_string_def)
    then obtain c cs where s: "s = c # cs" by (meson neq_Nil_conv)
    show False
    proof (cases "tokenRe s")
      case None
      then have "c # RedactSecrets cs = p @ token_string t @ q" using e s RedactSecrets_skip by simp
      then obtain p' where "RedactSecrets cs = p' @ token_string t @ q" using \<open>p \<noteq> []\<close> by (cases p) auto
      then show False using 1(1) [of p'] None s t by simp
    next
      case (Some m)
      obtain k i rest where m: "tokenRe s = Some (k, i, rest)" using Some by (cases m) auto
      then obtain sec where k: "k \<in> set redact_kinds" "words i" "at_end rest" using tokenRe_Some by blast
      have w: "redacted k i @ RedactSecrets rest = p @ token_string t @ q" using e RedactSecrets_match [OF m] by simp
      then consider y where "redacted k i = p @ y" "y \<noteq> []" "y @ RedactSecrets rest = token_string t @ q"
        | p' where "RedactSecrets rest = p' @ token_string t @ q"
        by (metis append_eq_append_conv2 append_Nil2 append_Nil)
      then show False
        using redacted_no_start [OF t RedactSecrets_at_end [OF k(3)] k(2,1)] 1(2) [OF \<open>s \<noteq> []\<close> m refl refl t] by cases blast+
    qed
  qed
qed

section \<open>Generated tokens\<close>

lemma alphabet_words: "c \<in> set b32_alphabet \<Longrightarrow> word_char c \<and> c \<noteq> CHR ''u''"
  by (auto simp: b32_alphabet_def word_char_def)

lemma encoded_words: "words (b32_encode b)" "CHR ''u'' \<notin> set (b32_encode b)"
  using b32_encode_alphabet [of b] alphabet_words by (auto simp: list_all_iff)

lemma generated_plain:
  assumes "Generate (Some ib) (Some sb) kind = Inr t" "length ib = 10" "length sb = 32"
  shows "plain_token t \<and> CHR ''u'' \<notin> set (t_kind t) \<union> set (t_id t) \<union> set (t_secret t)"
proof -
  have t: "validKind kind" "t = \<lparr>t_kind = kind, t_id = b32_encode ib, t_secret = b32_encode sb\<rparr>"
    using Generate_InrD [OF assms(1)] by auto
  have k: "kind \<in> set redact_kinds \<and> CHR ''u'' \<notin> set kind"
    using t(1) unfolding validKind_def kind_defs redact_kinds_def by auto
  show ?thesis
    using k t(2) encoded_words [of ib] encoded_words [of sb] assms(2,3) by (simp add: plain_token_def length_b32_encode)
qed

text \<open>A generated token followed by a character outside the class is replaced.\<close>

lemma RedactSecrets_token:
  assumes "plain_token t" "words w" "at_end r"
  shows "RedactSecrets (token_string t @ w @ r) = redacted (t_kind t) (t_id t) @ RedactSecrets r"
proof (rule RedactSecrets_match)
  show "tokenRe (token_string t @ w @ r) = Some (t_kind t, t_id t, r)"
    unfolding tokenRe_Some using assms
    by (intro exI [of _ "t_secret t @ w"]) (auto simp: plain_token_def token_string_def)
qed

lemma RedactSecrets_id: "CHR ''u'' \<notin> set s \<Longrightarrow> RedactSecrets s = s"
proof (induction s)
  case (Cons c s)
  then have "tokenRe (c # s) = None" by (auto simp: tokenRe_def has_prefix_def)
  then show ?case using Cons RedactSecrets_skip by simp
qed simp

text \<open>Whatever the evidence is, no token \<open>Generate\<close> ever produced occurs in it after
  redaction; a token that no letter or digit follows is replaced by its kind and identifier and
  the rest of the text is redacted on its own.\<close>

theorem redaction_removes_tokens:
  assumes "Generate (Some ib) (Some sb) kind = Inr t" "length ib = 10" "length sb = 32"
  shows "RedactSecrets s \<noteq> p @ token_string t @ q
    \<and> (at_end r \<longrightarrow> RedactSecrets (token_string t @ r)
          = ''uct_'' @ t_kind t @ ''_'' @ t_id t @ ''_REDACTED'' @ RedactSecrets r)"
  using no_token_anywhere [of t s p q] generated_plain [OF assms] RedactSecrets_token [of t "[]" r]
  by (auto simp: redacted_def)

text \<open>Two tokens with nothing between them: the first secret's run of letters swallows the
  start of the second token, and the second secret is written out in full.\<close>

theorem adjacent_token_leaks:
  assumes "Generate (Some ib) (Some sb) kind = Inr t" "length ib = 10" "length sb = 32"
    and "Generate (Some ib') (Some sb') kind' = Inr t'" "length ib' = 10" "length sb' = 32"
  shows "RedactSecrets (token_string t @ token_string t')
    = ''uct_'' @ t_kind t @ ''_'' @ t_id t @ ''_REDACTED_'' @ t_kind t' @ ''_'' @ t_id t' @ ''_'' @ t_secret t'"
proof -
  let ?r = "CHR ''_'' # t_kind t' @ CHR ''_'' # t_id t' @ CHR ''_'' # t_secret t'"
  have "CHR ''u'' \<notin> set ?r" using generated_plain [OF assms(4-6)] by simp
  then have "RedactSecrets (token_string t @ ''uct'' @ ?r) = redacted (t_kind t) (t_id t) @ ?r"
    using RedactSecrets_token [OF conjunct1 [OF generated_plain [OF assms(1-3)]] words_literals(1), of ?r] RedactSecrets_id
    by simp
  then show ?thesis by (simp add: token_string_def redacted_def)
qed

section \<open>Witnesses\<close>

lemma generate_demo:
  "Generate (Some ''0123456789'') (Some ''0123456789abcdef0123456789abcdef'') KindCaller =
     Inr \<lparr>t_kind = KindCaller, t_id = b32_encode ''0123456789'',
          t_secret = b32_encode ''0123456789abcdef0123456789abcdef''\<rparr>"
  by (simp add: Generate_def randBase32_def validKind_def del: b32_encode.simps)

theorem redaction_removes_tokens_witness:
  "\<exists>t. Generate (Some ''0123456789'') (Some ''0123456789abcdef0123456789abcdef'') KindCaller = Inr t
     \<and> RedactSecrets (token_string t @ '' end'') = ''uct_'' @ t_kind t @ ''_'' @ t_id t @ ''_REDACTED end''"
proof -
  have "at_end '' end''" by (simp add: word_char_def)
  moreover have "RedactSecrets '' end'' = '' end''" by (simp add: RedactSecrets_id)
  ultimately show ?thesis
    using redaction_removes_tokens [OF generate_demo, of undefined undefined undefined "'' end''"] generate_demo by simp
qed

theorem adjacent_token_leaks_witness:
  "\<exists>t p. Generate (Some ''0123456789'') (Some ''0123456789abcdef0123456789abcdef'') KindCaller = Inr t
     \<and> RedactSecrets (token_string t @ token_string t) = p @ t_secret t"
proof -
  obtain t where g: "Generate (Some ''0123456789'') (Some ''0123456789abcdef0123456789abcdef'') KindCaller = Inr t"
    using generate_demo by blast
  from adjacent_token_leaks [OF g _ _ g]
  have "RedactSecrets (token_string t @ token_string t)
    = (''uct_'' @ t_kind t @ ''_'' @ t_id t @ ''_REDACTED_'' @ t_kind t @ ''_'' @ t_id t @ ''_'') @ t_secret t"
    by simp
  then show ?thesis using g by blast
qed

end
