(* ===== verification/Validate_Lock.thy ===== *)
theory Validate_Lock
  imports Prelude
begin

text \<open>
  The lock of mutating validation runs (\<^verbatim>\<open>internal/validate/lock.go\<close>, \<^verbatim>\<open>lock_unix.go\<close>). The
  lock file is an inode with its contents: \<^term>\<open>None\<close> stands for contents that do not parse,
  which is what a file has between its creation and the write of the lock information.
  \<^verbatim>\<open>json.Marshal\<close> of the information is injective, so comparing the bytes of two complete files
  is comparing their information.

  The operations come twice: as functions, for a process that is not disturbed, and as the
  relation \<open>lock_step\<close>, in which every system call of every process is a step of its own. A
  process is named by its process number; numbers are not reused.
\<close>

section \<open>The lock file\<close>

record lock_info =
  li_PID :: int
  li_TS :: int
  li_Token :: string

record lock_fs =
  lf_path :: "nat option"
  lf_data :: "nat \<Rightarrow> lock_info option"
  lf_next :: nat

text \<open>\<^verbatim>\<open>os.OpenFile(path, O_CREATE|O_EXCL|O_WRONLY, ...)\<close>: \<^term>\<open>None\<close> is \<^verbatim>\<open>os.ErrExist\<close>.\<close>

definition create_excl :: "lock_fs \<Rightarrow> (lock_fs \<times> nat) option" where
  "create_excl fs =
     (case lf_path fs of
        Some _ \<Rightarrow> None
      | None \<Rightarrow> Some (fs\<lparr>lf_path := Some (lf_next fs), lf_data := (lf_data fs)(lf_next fs := None),
                        lf_next := Suc (lf_next fs)\<rparr>, lf_next fs))"

definition write_info :: "nat \<Rightarrow> lock_info \<Rightarrow> lock_fs \<Rightarrow> lock_fs" where
  "write_info i info fs = fs\<lparr>lf_data := (lf_data fs)(i := Some info)\<rparr>"

text \<open>\<^verbatim>\<open>os.ReadFile\<close> and \<^verbatim>\<open>json.Unmarshal\<close>.\<close>

definition read_lock :: "lock_fs \<Rightarrow> lock_info option option" where
  "read_lock fs = map_option (lf_data fs) (lf_path fs)"

definition unlink :: "lock_fs \<Rightarrow> lock_fs" where
  "unlink fs = fs\<lparr>lf_path := None\<rparr>"

section \<open>Staleness\<close>

datatype kill_result = KillOK | KillEPERM | KillESRCH

definition processAlive :: "(int \<Rightarrow> kill_result) \<Rightarrow> int \<Rightarrow> bool" where
  "processAlive kill pid =
     (if pid \<le> 0 then False else if kill pid = KillOK then True else kill pid = KillEPERM)"

definition staleLockAfter :: int where
  "staleLockAfter = 3600 * 1000000000"

definition lock_stale :: "gotime \<Rightarrow> (int \<Rightarrow> kill_result) \<Rightarrow> lock_info \<Rightarrow> bool" where
  "lock_stale now kill info \<longleftrightarrow>
     now - time_unix (li_TS info) > staleLockAfter \<or> \<not> processAlive kill (li_PID info)"

section \<open>The operations, undisturbed\<close>

datatype lock_error = LkMkdir | LkExist | LkIO string | ErrLocked

record lock_env =
  le_pid :: int
  le_now :: gotime
  le_kill :: "int \<Rightarrow> kill_result"
  le_fails :: "string \<Rightarrow> bool"

definition tryCreateLock :: "lock_env \<Rightarrow> string \<Rightarrow> lock_fs \<Rightarrow> lock_fs \<times> (lock_error, string) result" where
  "tryCreateLock env token fs =
     (if le_fails env ''open'' then (fs, Inl (LkIO ''open''))
      else case create_excl fs of
        None \<Rightarrow> (fs, Inl LkExist)
      | Some (fs1, i) \<Rightarrow>
          if le_fails env ''write'' then (unlink fs1, Inl (LkIO ''write lock info''))
          else (write_info i \<lparr>li_PID = le_pid env, li_TS = unix_of (le_now env), li_Token = token\<rparr> fs1, Inr token))"

definition removeIfUnchanged :: "lock_env \<Rightarrow> lock_info \<Rightarrow> lock_fs \<Rightarrow> lock_fs \<times> bool" where
  "removeIfUnchanged env want fs =
     (if le_fails env ''reread'' \<or> read_lock fs \<noteq> Some (Some want) then (fs, False)
      else if le_fails env ''remove'' then (fs, False) else (unlink fs, True))"

definition breakIfStale :: "lock_env \<Rightarrow> lock_fs \<Rightarrow> lock_fs \<times> bool" where
  "breakIfStale env fs =
     (if le_fails env ''read'' then (fs, False)
      else case read_lock fs of
        None \<Rightarrow> (fs, False)
      | Some None \<Rightarrow> (fs, False)
      | Some (Some info) \<Rightarrow>
          if lock_stale (le_now env) (le_kill env) info then removeIfUnchanged env info fs else (fs, False))"

text \<open>\<open>tok\<close> is the result of \<^verbatim>\<open>randHex(8)\<close>.\<close>

definition AcquireLock :: "lock_env \<Rightarrow> string \<Rightarrow> lock_fs \<Rightarrow> lock_fs \<times> (lock_error, string) result" where
  "AcquireLock env tok fs =
     (if le_fails env ''mkdir'' then (fs, Inl LkMkdir)
      else case tryCreateLock env tok fs of
        (fs1, Inr lk) \<Rightarrow> (fs1, Inr lk)
      | (fs1, Inl e) \<Rightarrow>
          if e \<noteq> LkExist then (fs1, Inl e)
          else case breakIfStale env fs1 of
            (fs2, False) \<Rightarrow> (fs2, Inl ErrLocked)
          | (fs2, True) \<Rightarrow>
              (case tryCreateLock env tok fs2 of
                 (fs3, Inr lk) \<Rightarrow> (fs3, Inr lk)
               | (fs3, Inl e) \<Rightarrow> if e \<noteq> LkExist then (fs3, Inl e) else (fs3, Inl ErrLocked)))"

definition Release :: "lock_env \<Rightarrow> string \<Rightarrow> lock_fs \<Rightarrow> lock_fs \<times> (lock_error, unit) result" where
  "Release env token fs =
     (case lf_path fs of
        None \<Rightarrow> (fs, Inr ())
      | Some i \<Rightarrow>
          if le_fails env ''read'' then (fs, Inl (LkIO ''read''))
          else if (case lf_data fs i of None \<Rightarrow> False | Some info \<Rightarrow> li_Token info \<noteq> token) then (fs, Inr ())
          else if le_fails env ''remove'' then (fs, Inl (LkIO ''remove''))
          else (unlink fs, Inr ()))"

section \<open>Every interleaving\<close>

text \<open>Where a process is: the constructors name the system call it makes next. \<open>PDead\<close> has
  crashed.\<close>

datatype lock_pc =
    PIdle
  | PWrite nat string
  | PWriteErr
  | PRead string
  | PDecide string lock_info
  | PRecheck string lock_info
  | PRemove string
  | PRetry string
  | PHeld string
  | PUnlink
  | PDead

text \<open>\<open>lk_judged\<close> is a history variable: the lock files that were judged stale, with the moment
  of the judgement.\<close>

record lock_state =
  lk_fs :: lock_fs
  lk_pc :: "int \<Rightarrow> lock_pc"
  lk_now :: gotime
  lk_judged :: "(gotime \<times> lock_info) set"

definition kill_of :: "lock_state \<Rightarrow> int \<Rightarrow> kill_result" where
  "kill_of s pid = (if lk_pc s pid = PDead then KillESRCH else KillOK)"

definition goto :: "int \<Rightarrow> lock_pc \<Rightarrow> lock_state \<Rightarrow> lock_state" where
  "goto p c s = s\<lparr>lk_pc := (lk_pc s)(p := c)\<rparr>"

inductive lock_step :: "lock_state \<Rightarrow> lock_state \<Rightarrow> bool" where
  create: "lk_pc s p = PIdle \<Longrightarrow> 0 < p \<Longrightarrow> create_excl (lk_fs s) = Some (fs', i) \<Longrightarrow>
     lock_step s (goto p (PWrite i tok) (s\<lparr>lk_fs := fs'\<rparr>))"
| create_exists: "lk_pc s p = PIdle \<Longrightarrow> 0 < p \<Longrightarrow> create_excl (lk_fs s) = None \<Longrightarrow> lock_step s (goto p (PRead tok) s)"
| write_ok: "lk_pc s p = PWrite i tok \<Longrightarrow>
     lock_step s (goto p (PHeld tok)
       (s\<lparr>lk_fs := write_info i \<lparr>li_PID = p, li_TS = unix_of (lk_now s), li_Token = tok\<rparr> (lk_fs s)\<rparr>))"
| write_fails: "lk_pc s p = PWrite i tok \<Longrightarrow> lock_step s (goto p PWriteErr s)"
| write_cleanup: "lk_pc s p = PWriteErr \<Longrightarrow> lock_step s (goto p PIdle (s\<lparr>lk_fs := unlink (lk_fs s)\<rparr>))"
| read: "lk_pc s p = PRead tok \<Longrightarrow> read_lock (lk_fs s) = Some (Some info) \<Longrightarrow>
     lock_step s (goto p (PDecide tok info) s)"
| read_locked: "lk_pc s p = PRead tok \<Longrightarrow> lock_step s (goto p PIdle s)"
| decide_stale: "lk_pc s p = PDecide tok info \<Longrightarrow> lock_stale (lk_now s) (kill_of s) info \<Longrightarrow>
     lock_step s (goto p (PRecheck tok info) (s\<lparr>lk_judged := insert (lk_now s, info) (lk_judged s)\<rparr>))"
| decide_live: "lk_pc s p = PDecide tok info \<Longrightarrow> \<not> lock_stale (lk_now s) (kill_of s) info \<Longrightarrow>
     lock_step s (goto p PIdle s)"
| recheck: "lk_pc s p = PRecheck tok info \<Longrightarrow> read_lock (lk_fs s) = Some (Some info) \<Longrightarrow>
     lock_step s (goto p (PRemove tok) s)"
| recheck_changed: "lk_pc s p = PRecheck tok info \<Longrightarrow> lock_step s (goto p PIdle s)"
| remove: "lk_pc s p = PRemove tok \<Longrightarrow> lf_path (lk_fs s) \<noteq> None \<Longrightarrow>
     lock_step s (goto p (PRetry tok) (s\<lparr>lk_fs := unlink (lk_fs s)\<rparr>))"
| remove_fails: "lk_pc s p = PRemove tok \<Longrightarrow> lock_step s (goto p PIdle s)"
| retry: "lk_pc s p = PRetry tok \<Longrightarrow> create_excl (lk_fs s) = Some (fs', i) \<Longrightarrow>
     lock_step s (goto p (PWrite i tok) (s\<lparr>lk_fs := fs'\<rparr>))"
| retry_exists: "lk_pc s p = PRetry tok \<Longrightarrow> lock_step s (goto p PIdle s)"
| release_gone: "lk_pc s p = PHeld tok \<Longrightarrow> lf_path (lk_fs s) = None \<Longrightarrow> lock_step s (goto p PIdle s)"
| release_other: "lk_pc s p = PHeld tok \<Longrightarrow> read_lock (lk_fs s) = Some (Some info) \<Longrightarrow> li_Token info \<noteq> tok \<Longrightarrow>
     lock_step s (goto p PIdle s)"
| release_own: "lk_pc s p = PHeld tok \<Longrightarrow> lf_path (lk_fs s) = Some i \<Longrightarrow>
     (\<forall>info. lf_data (lk_fs s) i = Some info \<longrightarrow> li_Token info = tok) \<Longrightarrow> lock_step s (goto p PUnlink s)"
| unlink_own: "lk_pc s p = PUnlink \<Longrightarrow> lock_step s (goto p PIdle (s\<lparr>lk_fs := unlink (lk_fs s)\<rparr>))"
| release_fails: "lk_pc s p = PHeld tok \<or> lk_pc s p = PUnlink \<Longrightarrow> lock_step s (goto p PIdle s)"
| crash: "lock_step s (goto p PDead s)"
| tick: "lk_now s \<le> t \<Longrightarrow> lock_step s (s\<lparr>lk_now := t\<rparr>)"

definition lock_init :: "lock_state \<Rightarrow> bool" where
  "lock_init s \<longleftrightarrow> lf_path (lk_fs s) = None \<and> lk_pc s = (\<lambda>_. PIdle) \<and> lk_judged s = {}"

definition holds_lock :: "lock_state \<Rightarrow> int \<Rightarrow> bool" where
  "holds_lock s p \<longleftrightarrow> (\<exists>tok. lk_pc s p = PHeld tok)"

section \<open>Mutual exclusion\<close>

text \<open>The processes that may rely on the file at the path.\<close>

definition owns :: "lock_state \<Rightarrow> int \<Rightarrow> bool" where
  "owns s p \<longleftrightarrow> (\<exists>i tok. lk_pc s p = PWrite i tok) \<or> holds_lock s p \<or> lk_pc s p \<in> {PWriteErr, PUnlink}"

text \<open>The processes on their way to break a lock.\<close>

definition breaking :: "lock_state \<Rightarrow> int \<Rightarrow> bool" where
  "breaking s p \<longleftrightarrow> (\<exists>tok info. lk_pc s p = PRecheck tok info) \<or> (\<exists>tok. lk_pc s p \<in> {PRemove tok, PRetry tok})"

definition judged_ok :: "lock_state \<Rightarrow> bool" where
  "judged_ok s \<longleftrightarrow> (\<forall>(t, info) \<in> lk_judged s. t \<le> lk_now s \<and>
     (t - time_unix (li_TS info) > staleLockAfter \<or> li_PID info \<le> 0 \<or> lk_pc s (li_PID info) = PDead))"

definition lock_inv :: "lock_state \<Rightarrow> bool" where
  "lock_inv s \<longleftrightarrow> judged_ok s \<and>
     (lk_judged s = {} \<longrightarrow> (\<forall>p. \<not> breaking s p) \<and> (\<forall>p q. owns s p \<longrightarrow> owns s q \<longrightarrow> p = q)
        \<and> (lf_path (lk_fs s) = None \<longrightarrow> (\<forall>p. \<not> owns s p)))"

lemma goto_simps [simp]:
  "lk_pc (goto p c s) = (lk_pc s)(p := c)" "lk_fs (goto p c s) = lk_fs s" "lk_now (goto p c s) = lk_now s"
  "lk_judged (goto p c s) = lk_judged s"
  by (simp_all add: goto_def)

lemma lock_file_simps [simp]:
  "lf_path (write_info i info fs) = lf_path fs" "lf_path (unlink fs) = None"
  "lf_data (unlink fs) = lf_data fs" "lf_data (write_info i info fs) = (lf_data fs)(i := Some info)"
  by (simp_all add: write_info_def unlink_def)

lemma create_excl_Some:
  "create_excl fs = Some (fs', i) \<longleftrightarrow> lf_path fs = None \<and> i = lf_next fs
     \<and> fs' = fs\<lparr>lf_path := Some i, lf_data := (lf_data fs)(i := None), lf_next := Suc i\<rparr>"
  by (auto simp: create_excl_def split: option.splits)

lemma create_excl_None: "create_excl fs = None \<longleftrightarrow> lf_path fs \<noteq> None"
  by (auto simp: create_excl_def split: option.splits)

lemma stale_cases:
  "lock_stale now (kill_of s) info \<Longrightarrow>
     now - time_unix (li_TS info) > staleLockAfter \<or> li_PID info \<le> 0 \<or> lk_pc s (li_PID info) = PDead"
  by (auto simp: lock_stale_def processAlive_def kill_of_def split: if_splits)

lemma judged_ok_goto:
  assumes "judged_ok s" "lk_pc s p \<noteq> PDead \<or> c = PDead"
  shows "judged_ok (goto p c (s\<lparr>lk_fs := fs\<rparr>))" "judged_ok (goto p c s)"
  using assms by (auto simp: judged_ok_def)

lemma judged_ok_step: "lock_step s t \<Longrightarrow> judged_ok s \<Longrightarrow> judged_ok t"
proof (induction rule: lock_step.induct)
  case (decide_stale s p tok info)
  then show ?case using stale_cases [OF decide_stale(2)] by (auto simp: judged_ok_def)
next
  case (tick s t)
  then show ?case by (fastforce simp: judged_ok_def)
next
  case (release_fails s p tok)
  then show ?case by (intro judged_ok_goto(2)) auto
qed (simp_all add: judged_ok_goto)

lemma judged_mono: "lock_step s t \<Longrightarrow> lk_judged s \<subseteq> lk_judged t"
  by (induction rule: lock_step.induct) auto

lemmas lock_roles = owns_def breaking_def holds_lock_def

lemma exclusive_step:
  "lock_step s t \<Longrightarrow> lk_judged t = {} \<Longrightarrow> \<forall>p. \<not> breaking s p \<Longrightarrow> \<forall>p q. owns s p \<longrightarrow> owns s q \<longrightarrow> p = q \<Longrightarrow>
   lf_path (lk_fs s) = None \<longrightarrow> (\<forall>p. \<not> owns s p) \<Longrightarrow>
   (\<forall>p. \<not> breaking t p) \<and> (\<forall>p q. owns t p \<longrightarrow> owns t q \<longrightarrow> p = q)
     \<and> (lf_path (lk_fs t) = None \<longrightarrow> (\<forall>p. \<not> owns t p))"
proof (induction rule: lock_step.induct)
  case (decide_stale s p tok info)
  then show ?case by simp
next
  case (tick s t)
  then show ?case by (simp add: lock_roles)
next
  case (create s p fs' i tok)
  then show ?case by (simp add: lock_roles create_excl_Some)
next
  case (retry s p tok fs' i)
  then show ?case by (simp add: lock_roles)
next
  case (remove s p tok)
  then show ?case by (simp add: lock_roles)
next
  case (recheck s p tok info)
  then show ?case by (simp add: lock_roles)
qed (auto simp: lock_roles split: if_splits)

interpretation locking: invariant_system lock_init lock_step lock_inv
proof
  show "lock_inv s" if "lock_init s" for s
    using that by (auto simp: lock_init_def lock_inv_def judged_ok_def lock_roles)
  show "lock_inv t" if "lock_inv s" "lock_step s t" for s t
  proof -
    have "judged_ok t" using that judged_ok_step by (simp add: lock_inv_def)
    moreover have "lk_judged t = {} \<Longrightarrow> lk_judged s = {}" using judged_mono [OF that(2)] by simp
    ultimately show ?thesis using that(1) exclusive_step [OF that(2)] by (simp add: lock_inv_def)
  qed
qed


section \<open>Breaking an abandoned lock\<close>

lemma kill_of_goto: "lk_pc s p \<noteq> PDead \<Longrightarrow> c \<noteq> PDead \<Longrightarrow> kill_of (goto p c s) = kill_of s"
  by (auto simp: kill_of_def fun_eq_iff)

text \<open>An idle process alone gets from an abandoned lock file to the removal of the file.\<close>

lemma reaches_remove:
  assumes "lk_pc s p = PIdle" "0 < p" "read_lock (lk_fs s) = Some (Some info)" "lock_stale (lk_now s) (kill_of s) info"
  shows "lock_step\<^sup>*\<^sup>* s (goto p (PRemove tok) (s\<lparr>lk_judged := insert (lk_now s, info) (lk_judged s)\<rparr>))"
proof -
  let ?s1 = "goto p (PRead tok) s" and ?s2 = "goto p (PDecide tok info) s"
    and ?s3 = "goto p (PRecheck tok info) (s\<lparr>lk_judged := insert (lk_now s, info) (lk_judged s)\<rparr>)"
  have "lf_path (lk_fs s) \<noteq> None" using assms(3) by (auto simp: read_lock_def)
  then have 1: "lock_step s ?s1" using assms by (intro create_exists) (simp_all add: create_excl_None)
  have "lock_step ?s1 (goto p (PDecide tok info) ?s1)" using assms(3) by (intro read) simp_all
  then have 2: "lock_step ?s1 ?s2" by (simp add: goto_def)
  have "lock_step ?s2 (goto p (PRecheck tok info) (?s2\<lparr>lk_judged := insert (lk_now ?s2, info) (lk_judged ?s2)\<rparr>))"
    using assms kill_of_goto [of s p "PDecide tok info"] by (intro decide_stale) simp_all
  then have 3: "lock_step ?s2 ?s3" by (simp add: goto_def)
  have "lock_step ?s3 (goto p (PRemove tok) ?s3)" using assms(3) by (intro recheck [of _ _ tok info]) simp_all
  then have 4: "lock_step ?s3 (goto p (PRemove tok) (s\<lparr>lk_judged := insert (lk_now s, info) (lk_judged s)\<rparr>))"
    by (simp add: goto_def)
  show ?thesis
    by (rule converse_rtranclp_into_rtranclp [of lock_step, OF 1], rule converse_rtranclp_into_rtranclp [of lock_step, OF 2],
        rule converse_rtranclp_into_rtranclp [of lock_step, OF 3], rule r_into_rtranclp, rule 4)
qed

text \<open>From there it takes the lock, whatever lock file is at the path by then.\<close>

lemma remove_then_holds:
  assumes "lk_pc s p = PRemove tok" "lf_path (lk_fs s) \<noteq> None"
  shows "\<exists>t. lock_step\<^sup>*\<^sup>* s t \<and> lk_pc t = (lk_pc s)(p := PHeld tok) \<and> lk_now t = lk_now s
    \<and> read_lock (lk_fs t) = Some (Some \<lparr>li_PID = p, li_TS = unix_of (lk_now s), li_Token = tok\<rparr>)"
proof -
  let ?s1 = "goto p (PRetry tok) (s\<lparr>lk_fs := unlink (lk_fs s)\<rparr>)"
  obtain fs' i where c: "create_excl (lk_fs ?s1) = Some (fs', i)"
    by (simp add: create_excl_Some)
  let ?s2 = "goto p (PWrite i tok) (?s1\<lparr>lk_fs := fs'\<rparr>)"
  let ?info = "\<lparr>li_PID = p, li_TS = unix_of (lk_now ?s2), li_Token = tok\<rparr>"
  let ?s3 = "goto p (PHeld tok) (?s2\<lparr>lk_fs := write_info i ?info (lk_fs ?s2)\<rparr>)"
  have 1: "lock_step s ?s1" using assms by (rule remove)
  have 2: "lock_step ?s1 ?s2" by (rule retry [OF _ c]) simp
  have 3: "lock_step ?s2 ?s3" by (rule write_ok) simp
  have "lock_step\<^sup>*\<^sup>* s ?s3"
    by (rule converse_rtranclp_into_rtranclp [of lock_step, OF 1], rule converse_rtranclp_into_rtranclp [of lock_step, OF 2], rule r_into_rtranclp, rule 3)
  moreover have "read_lock (lk_fs ?s3) = Some (Some ?info)"
    using c by (simp add: read_lock_def create_excl_Some)
  ultimately show ?thesis by (intro exI [of _ ?s3]) simp
qed

text \<open>A lock file left by a dead process, or an hour old, is recovered: an idle run that is
  alone gets the lock. But two runs that find the file at the same time can both end up holding
  the lock, within the same instant: both check the file before either removes it, and the second
  removal deletes the first run's new lock.\<close>

theorem abandoned_lock_two_winners:
  assumes "lk_pc s p = PIdle" "lk_pc s q = PIdle" "0 < p" "0 < q" "p \<noteq> q"
    "read_lock (lk_fs s) = Some (Some info)" "lock_stale (lk_now s) (kill_of s) info"
  shows "(\<exists>t. lock_step\<^sup>*\<^sup>* s t \<and> lk_pc t = (lk_pc s)(p := PHeld tok) \<and> lk_now t = lk_now s)
    \<and> (\<exists>t. lock_step\<^sup>*\<^sup>* s t \<and> holds_lock t p \<and> holds_lock t q \<and> lk_now t = lk_now s)"
proof -
  let ?j = "insert (lk_now s, info) (lk_judged s)"
  let ?s1 = "goto p (PRemove tok) (s\<lparr>lk_judged := ?j\<rparr>)"
  have r1: "lock_step\<^sup>*\<^sup>* s ?s1" using reaches_remove assms by blast
  have path: "lf_path (lk_fs s) \<noteq> None" using assms(6) by (auto simp: read_lock_def)
  obtain t where t: "lock_step\<^sup>*\<^sup>* ?s1 t" "lk_pc t = (lk_pc s)(p := PHeld tok)" "lk_now t = lk_now s"
    using remove_then_holds [of ?s1 p tok] path by auto
  let ?s2 = "goto q (PRemove tok) (?s1\<lparr>lk_judged := insert (lk_now ?s1, info) (lk_judged ?s1)\<rparr>)"
  have k: "kill_of ?s1 = kill_of s" using assms(1) by (auto simp: kill_of_def fun_eq_iff)
  have r2: "lock_step\<^sup>*\<^sup>* ?s1 ?s2" using k assms by (intro reaches_remove) simp_all
  obtain u where u: "lock_step\<^sup>*\<^sup>* ?s2 u" "lk_pc u = (lk_pc ?s2)(p := PHeld tok)" "lk_now u = lk_now s"
      "read_lock (lk_fs u) \<noteq> None"
    using remove_then_holds [of ?s2 p tok] path assms(5) by auto
  have "lk_pc u q = PRemove tok" "lf_path (lk_fs u) \<noteq> None" using u(2,4) assms(5) by (simp_all add: read_lock_def)
  then obtain v where v: "lock_step\<^sup>*\<^sup>* u v" "lk_pc v = (lk_pc u)(q := PHeld tok)" "lk_now v = lk_now s"
    using remove_then_holds [of u q tok] u(3) by auto
  have "holds_lock v p \<and> holds_lock v q" using u(2) v(2) assms(5) by (simp add: holds_lock_def)
  then show ?thesis using r1 t r2 u(1) v(1,3) by (meson rtranclp_trans)
qed

section \<open>A creation that was cut short\<close>

text \<open>The lock file does not parse and no live process is about to complete it.\<close>

definition wedged :: "lock_state \<Rightarrow> bool" where
  "wedged s \<longleftrightarrow> read_lock (lk_fs s) = Some None \<and> (\<forall>p. \<not> owns s p \<and> \<not> breaking s p)
     \<and> (\<forall>p tok info. lk_pc s p \<noteq> PDecide tok info)"

lemma wedged_step: "lock_step s t \<Longrightarrow> wedged s \<Longrightarrow> wedged t"
proof (induction rule: lock_step.induct)
  case (create s p fs' i tok)
  then show ?case by (simp add: wedged_def read_lock_def create_excl_Some)
qed (force simp: wedged_def lock_roles read_lock_def)+

text \<open>A run that dies between creating the lock file and writing it locks every later run out
  for good: the empty file is never judged abandoned, whatever time passes.\<close>

theorem empty_lock_wedges:
  assumes "wedged s" "lock_step\<^sup>*\<^sup>* s t"
  shows "\<not> holds_lock t p \<and> lf_path (lk_fs t) \<noteq> None"
proof -
  have "wedged t" using assms(2,1) by (induction rule: rtranclp_induct) (auto intro: wedged_step)
  then show ?thesis by (auto simp: wedged_def owns_def read_lock_def)
qed

section \<open>The undisturbed operation is one of the interleavings\<close>

definition quiet_env :: "int \<Rightarrow> lock_state \<Rightarrow> lock_env" where
  "quiet_env p s = \<lparr>le_pid = p, le_now = lk_now s, le_kill = kill_of s, le_fails = (\<lambda>_. False)\<rparr>"

definition lock_free :: "lock_state \<Rightarrow> lock_fs \<Rightarrow> bool" where
  "lock_free s fs \<longleftrightarrow> (case read_lock fs of None \<Rightarrow> True | Some None \<Rightarrow> False
      | Some (Some info) \<Rightarrow> lock_stale (lk_now s) (kill_of s) info)"

lemma tryCreateLock_quiet:
  "tryCreateLock (quiet_env p s) tok fs =
     (case create_excl fs of None \<Rightarrow> (fs, Inl LkExist)
      | Some (fs1, i) \<Rightarrow> (write_info i \<lparr>li_PID = p, li_TS = unix_of (lk_now s), li_Token = tok\<rparr> fs1, Inr tok))"
  by (simp add: tryCreateLock_def quiet_env_def split: option.splits)

lemma create_steps:
  assumes "lk_pc s p = PIdle" "0 < p" "create_excl (lk_fs s) = Some (fs1, i)"
  shows "lock_step\<^sup>*\<^sup>* s (goto p (PHeld tok)
     (s\<lparr>lk_fs := write_info i \<lparr>li_PID = p, li_TS = unix_of (lk_now s), li_Token = tok\<rparr> fs1\<rparr>))"
proof -
  let ?s1 = "goto p (PWrite i tok) (s\<lparr>lk_fs := fs1\<rparr>)"
  have "lock_step s ?s1" using assms by (rule create)
  moreover have "lock_step ?s1 (goto p (PHeld tok)
      (?s1\<lparr>lk_fs := write_info i \<lparr>li_PID = p, li_TS = unix_of (lk_now ?s1), li_Token = tok\<rparr> (lk_fs ?s1)\<rparr>))"
    by (rule write_ok) simp
  ultimately show ?thesis by (simp add: goto_def)
qed

text \<open>Without failing calls, \<open>AcquireLock\<close> of an undisturbed process gives back its token
  exactly when there is no lock file or the file is stale, leaves a complete lock file of its own
  then, changes nothing and reports \<open>ErrLocked\<close> otherwise, and \<open>Release\<close> removes the file again.\<close>

theorem AcquireLock_undisturbed:
  "if lock_free s fs then \<exists>fs'. AcquireLock (quiet_env p s) tok fs = (fs', Inr tok)
      \<and> read_lock fs' = Some (Some \<lparr>li_PID = p, li_TS = unix_of (lk_now s), li_Token = tok\<rparr>)
      \<and> read_lock (fst (Release (quiet_env p s) tok fs')) = None
    else AcquireLock (quiet_env p s) tok fs = (fs, Inl ErrLocked)"
proof -
  let ?info = "\<lparr>li_PID = p, li_TS = unix_of (lk_now s), li_Token = tok\<rparr>"
  have rel: "read_lock (fst (Release (quiet_env p s) tok fs')) = None" if "read_lock fs' = Some (Some ?info)" for fs'
    using that by (auto simp: Release_def quiet_env_def read_lock_def)
  have new: "\<exists>fs'. tryCreateLock (quiet_env p s) tok g = (fs', Inr tok) \<and> read_lock fs' = Some (Some ?info)"
    if "lf_path g = None" for g
    using that by (simp add: tryCreateLock_quiet create_excl_def read_lock_def)
  have old: "tryCreateLock (quiet_env p s) tok fs = (fs, Inl LkExist)" if "lf_path fs \<noteq> None"
    using that by (auto simp: tryCreateLock_quiet create_excl_def)
  have nf: "\<not> le_fails (quiet_env p s) c" for c by (simp add: quiet_env_def)
  show ?thesis
  proof (cases "lf_path fs")
    case None
    then have "lock_free s fs" by (simp add: lock_free_def read_lock_def)
    then show ?thesis using new [OF None] rel nf by (auto simp: AcquireLock_def)
  next
    case (Some i)
    have brk: "breakIfStale (quiet_env p s) fs = (if lock_free s fs then (unlink fs, True) else (fs, False))"
      using Some by (auto simp: breakIfStale_def removeIfUnchanged_def lock_free_def read_lock_def quiet_env_def
          split: option.splits)
    obtain fs' where "tryCreateLock (quiet_env p s) tok (unlink fs) = (fs', Inr tok)" "read_lock fs' = Some (Some ?info)"
      using new [of "unlink fs"] by auto
    then show ?thesis using old Some brk rel nf by (auto simp: AcquireLock_def)
  qed
qed

section \<open>Witnesses\<close>

definition demo_lock :: lock_state where
  "demo_lock = \<lparr>lk_fs = \<lparr>lf_path = None, lf_data = (\<lambda>_. None), lf_next = 0\<rparr>, lk_pc = (\<lambda>_. PIdle),
     lk_now = 0, lk_judged = {}\<rparr>"

text \<open>Process 1 took the lock and died.\<close>

definition demo_crashed :: lock_state where
  "demo_crashed = demo_lock\<lparr>lk_fs := \<lparr>lf_path = Some 0, lf_data = (\<lambda>_. None)(0 := Some \<lparr>li_PID = 1, li_TS = 0,
     li_Token = ''t''\<rparr>), lf_next = 1\<rparr>, lk_pc := (\<lambda>_. PIdle)(1 := PDead)\<rparr>"

lemma demo_held: "lock_step\<^sup>*\<^sup>* demo_lock (goto 1 (PHeld ''t'') (demo_lock\<lparr>lk_fs := lk_fs demo_crashed\<rparr>))"
proof -
  let ?fs = "\<lparr>lf_path = Some 0, lf_data = (\<lambda>_. None), lf_next = 1\<rparr> :: lock_fs"
  have c: "create_excl (lk_fs demo_lock) = Some (?fs, 0)"
    by (simp add: create_excl_def demo_lock_def fun_upd_def)
  have "lk_pc demo_lock 1 = PIdle" by (simp add: demo_lock_def)
  from create_steps [OF this _ c, of "''t''"] show ?thesis
    by (simp add: demo_crashed_def demo_lock_def write_info_def unix_of_def)
qed


lemma demo_crashed_stale:
  "read_lock (lk_fs demo_crashed) = Some (Some \<lparr>li_PID = 1, li_TS = 0, li_Token = ''t''\<rparr>)"
  "lock_stale (lk_now demo_crashed) (kill_of demo_crashed) \<lparr>li_PID = 1, li_TS = 0, li_Token = ''t''\<rparr>"
  by (simp_all add: demo_crashed_def demo_lock_def read_lock_def lock_stale_def processAlive_def kill_of_def)

theorem abandoned_lock_two_winners_witness:
  "lock_step\<^sup>*\<^sup>* demo_lock demo_crashed \<and>
   (\<exists>t. lock_step\<^sup>*\<^sup>* demo_crashed t \<and> holds_lock t 2 \<and> holds_lock t 3 \<and> lk_now t = 0)"
proof -
  have "lock_step (goto 1 (PHeld ''t'') (demo_lock\<lparr>lk_fs := lk_fs demo_crashed\<rparr>))
      (goto 1 PDead (goto 1 (PHeld ''t'') (demo_lock\<lparr>lk_fs := lk_fs demo_crashed\<rparr>)))" by (rule crash)
  moreover have "goto 1 PDead (goto 1 (PHeld ''t'') (demo_lock\<lparr>lk_fs := lk_fs demo_crashed\<rparr>)) = demo_crashed"
    by (simp add: goto_def demo_crashed_def demo_lock_def)
  ultimately have "lock_step\<^sup>*\<^sup>* demo_lock demo_crashed" using demo_held by (metis rtranclp.rtrancl_into_rtrancl)
  moreover have "\<exists>t. lock_step\<^sup>*\<^sup>* demo_crashed t \<and> holds_lock t 2 \<and> holds_lock t 3 \<and> lk_now t = lk_now demo_crashed"
    using abandoned_lock_two_winners [of demo_crashed 2 3, OF _ _ _ _ _ demo_crashed_stale]
    by (simp add: demo_crashed_def)
  ultimately show ?thesis by (simp add: demo_crashed_def demo_lock_def)
qed

definition demo_wedged :: lock_state where
  "demo_wedged = demo_lock\<lparr>lk_fs := \<lparr>lf_path = Some 0, lf_data = (\<lambda>_. None), lf_next = 1\<rparr>, lk_pc := (\<lambda>_. PIdle)(1 := PDead)\<rparr>"

theorem empty_lock_wedges_witness:
  "lock_step\<^sup>*\<^sup>* demo_lock demo_wedged \<and> lock_step\<^sup>*\<^sup>* demo_wedged (demo_wedged\<lparr>lk_now := 10 ^ 18\<rparr>)
   \<and> \<not> holds_lock (demo_wedged\<lparr>lk_now := 10 ^ 18\<rparr>) 2"
proof -
  have w: "wedged demo_wedged"
    by (simp add: wedged_def demo_wedged_def demo_lock_def read_lock_def lock_roles)
  have t: "lock_step\<^sup>*\<^sup>* demo_wedged (demo_wedged\<lparr>lk_now := 10 ^ 18\<rparr>)"
    by (intro r_into_rtranclp tick) (simp add: demo_wedged_def demo_lock_def)
  have c: "create_excl (lk_fs demo_lock) = Some (lk_fs demo_wedged, 0)"
    by (simp add: create_excl_def demo_lock_def demo_wedged_def fun_upd_def)
  have 1: "lock_step demo_lock (goto 1 (PWrite 0 ''t'') (demo_lock\<lparr>lk_fs := lk_fs demo_wedged\<rparr>))"
    by (rule create [OF _ _ c]) (simp_all add: demo_lock_def)
  have 2: "lock_step (goto 1 (PWrite 0 ''t'') (demo_lock\<lparr>lk_fs := lk_fs demo_wedged\<rparr>)) demo_wedged"
    using crash [of "goto 1 (PWrite 0 ''t'') (demo_lock\<lparr>lk_fs := lk_fs demo_wedged\<rparr>)" 1]
    by (simp add: goto_def demo_wedged_def demo_lock_def)
  have "lock_step\<^sup>*\<^sup>* demo_lock demo_wedged"
    by (rule converse_rtranclp_into_rtranclp [of lock_step, OF 1], rule r_into_rtranclp, rule 2)
  then show ?thesis using t empty_lock_wedges [OF w t] by blast
qed

end
