(* ===== verification/Validate_Checks.thy ===== *)
theory Validate_Checks
  imports Prelude
begin

text \<open>
  The checks of the validation surface (\<^verbatim>\<open>internal/validate\<close>): the safety classes, the file
  snapshots, the install, self-update, dogfood and reboot checks. The functions a check is
  configured with (a real install, a reboot, a probe) are arguments, \<^term>\<open>None\<close> for Go's nil.
  The file system is a map from paths to nodes; two paths never name the same node. Permission
  bits are those a process without umask gets.
\<close>

section \<open>Safety classes\<close>

definition SafetyInspect :: string where "SafetyInspect = ''inspect''"
definition SafetyBounded :: string where "SafetyBounded = ''bounded''"
definition SafetyPrivileged :: string where "SafetyPrivileged = ''privileged''"
definition SafetyDisruptive :: string where "SafetyDisruptive = ''disruptive''"

lemmas safety_defs = SafetyInspect_def SafetyBounded_def SafetyPrivileged_def SafetyDisruptive_def

datatype safety_error = UnknownClass string | NeedsAllowMutate | NeedsAllowReboot

definition toLowerASCII :: "string \<Rightarrow> string" where
  "toLowerASCII s = map lower_char s"

definition ParseSafetyClass :: "string \<Rightarrow> (safety_error, string) result" where
  "ParseSafetyClass s =
     (let c = toLowerASCII s
      in if c \<in> {SafetyInspect, SafetyBounded, SafetyPrivileged, SafetyDisruptive} then Inr c
         else Inl (UnknownClass s))"

definition CheckSafetyAllowed :: "string \<Rightarrow> bool \<Rightarrow> bool \<Rightarrow> (safety_error, unit) result" where
  "CheckSafetyAllowed cls allowMutate allowReboot =
     (if cls = SafetyInspect \<or> cls = SafetyBounded then Inr ()
      else if cls = SafetyPrivileged then (if \<not> allowMutate then Inl NeedsAllowMutate else Inr ())
      else if cls = SafetyDisruptive then (if \<not> allowReboot then Inl NeedsAllowReboot else Inr ())
      else Inl (UnknownClass cls))"

section \<open>Results\<close>

record check_result =
  cr_Name :: string
  cr_State :: string
  cr_Raw :: string

definition em_dash :: string where
  "em_dash = [CHR 0xE2, CHR 0x80, CHR 0x94]"

definition show_bool :: "bool \<Rightarrow> string" where
  "show_bool b = (if b then ''true'' else ''false'')"

definition nl :: string where
  "nl = [CHR 0x0A]"

section \<open>Dogfood\<close>

datatype dogfood_class = DogfoodPass | DogfoodProduct | DogfoodTransport | DogfoodIndeterminate

definition dogfood_text :: "dogfood_class \<Rightarrow> string" where
  "dogfood_text c = (case c of DogfoodPass \<Rightarrow> ''pass'' | DogfoodProduct \<Rightarrow> ''product''
     | DogfoodTransport \<Rightarrow> ''transport'' | DogfoodIndeterminate \<Rightarrow> ''indeterminate'')"

definition ClassifyDogfood :: "bool \<Rightarrow> bool \<Rightarrow> bool \<Rightarrow> dogfood_class" where
  "ClassifyDogfood controlConfigured plainSSHOK unclusterSSHOK =
     (if \<not> controlConfigured then DogfoodIndeterminate
      else if \<not> plainSSHOK then DogfoodTransport
      else if unclusterSSHOK then DogfoodPass else DogfoodProduct)"

record dogfood_opts =
  dg_Target :: string
  dg_ControlConfigured :: bool
  dg_PlainSSH :: "(bool \<times> string) option"
  dg_UnclusterSSH :: "(bool \<times> string) option"

record dogfood_result =
  dr_Class :: dogfood_class
  dr_State :: string
  dr_Raw :: string

definition dogfood_CheckResult :: "dogfood_result \<Rightarrow> check_result" where
  "dogfood_CheckResult d = \<lparr>cr_Name = ''dogfood'', cr_State = dr_State d, cr_Raw = dr_Raw d\<rparr>"

definition RunDogfood :: "dogfood_opts \<Rightarrow> dogfood_result" where
  "RunDogfood opts =
     (let l0 = ''dogfood target: '' @ dg_Target opts @ nl;
          (plainOK, l1) =
            (if \<not> dg_ControlConfigured opts
             then (False, ''no plain-ssh control configured '' @ em_dash @ '' a dogfood failure's root cause is INDETERMINATE'' @ nl)
             else case dg_PlainSSH opts of
               None \<Rightarrow> (False, [])
             | Some (ok, ev) \<Rightarrow> (ok, ''plain-ssh control: ok='' @ show_bool ok @ '' '' @ em_dash @ '' '' @ ev @ nl));
          (unclusterOK, l2) =
            (case dg_UnclusterSSH opts of
               None \<Rightarrow> (False, [])
             | Some (ok, ev) \<Rightarrow> (ok, ''uncluster-ssh path: ok='' @ show_bool ok @ '' '' @ em_dash @ '' '' @ ev @ nl));
          cls = ClassifyDogfood (dg_ControlConfigured opts) plainOK unclusterOK;
          l3 = ''classification: '' @ dogfood_text cls @ nl;
          (state, l4) =
            (case cls of
               DogfoodPass \<Rightarrow> (''ok'', [])
             | DogfoodIndeterminate \<Rightarrow> (''warn'',
                 ''verdict: indeterminate (dogfood transport failed; root cause unknown without a plain-ssh control)'' @ nl)
             | DogfoodProduct \<Rightarrow> (''fail'', ''verdict: PRODUCT-class failure '' @ em_dash
                 @ '' plain ssh works but `uncluster ssh` does not (SSH brokering broken)'' @ nl)
             | DogfoodTransport \<Rightarrow> (''fail'', ''verdict: TRANSPORT/environment-class failure '' @ em_dash
                 @ '' plain ssh itself does not reach the target'' @ nl))
      in \<lparr>dr_Class = cls, dr_State = state, dr_Raw = l0 @ l1 @ l2 @ l3 @ l4\<rparr>)"

section \<open>Self-update\<close>

text \<open>The state \<open>'w\<close> is what the update functions act on; an error is its text.\<close>

record 'w self_update_opts =
  su_TargetVersion :: string
  su_VersionBefore :: "('w \<Rightarrow> string) option"
  su_ApplyUpdate :: "(string \<Rightarrow> 'w \<Rightarrow> 'w \<times> string option) option"
  su_VersionAfter :: "('w \<Rightarrow> string) option"
  su_Rollback :: "('w \<Rightarrow> 'w \<times> string option) option"

definition rollbackAndVerify ::
  "string \<Rightarrow> string \<Rightarrow> ('w \<Rightarrow> string) \<Rightarrow> ('w \<Rightarrow> 'w \<times> string option) \<Rightarrow> string \<Rightarrow> bool \<Rightarrow> 'w \<Rightarrow> 'w \<times> check_result" where
  "rollbackAndVerify name log versionAfter rollback before expectRecoveryPass w =
     (case rollback w of
        (w', Some err) \<Rightarrow> (w', \<lparr>cr_Name = name, cr_State = ''fail'', cr_Raw = log @ ''ROLLBACK FAILED: '' @ err @ nl\<rparr>)
      | (w', None) \<Rightarrow>
          let restored = versionAfter w';
              log1 = log @ ''version after rollback: '' @ restored @ nl in
          if restored \<noteq> before
          then (w', \<lparr>cr_Name = name, cr_State = ''fail'',
                 cr_Raw = log1 @ ''self-update FAILED: rollback did not restore the prior version (got '' @ restored
                   @ '', want '' @ before @ '') '' @ em_dash @ '' machine left on a bad binary'' @ nl\<rparr>)
          else if \<not> expectRecoveryPass
          then (w', \<lparr>cr_Name = name, cr_State = ''fail'',
                 cr_Raw = log1 @ ''self-update FAILED: update silently landed the wrong version; reverted to '' @ before
                   @ '' but the updater cannot be trusted'' @ nl\<rparr>)
          else (w', \<lparr>cr_Name = name, cr_State = ''ok'',
                 cr_Raw = log1 @ ''self-update rollback PASSED: broken update reverted; agent back on prior version ''
                   @ before @ nl\<rparr>))"

definition RunSelfUpdateValidation :: "'w self_update_opts \<Rightarrow> 'w \<Rightarrow> 'w \<times> check_result" where
  "RunSelfUpdateValidation opts w =
     (case (su_VersionBefore opts, su_ApplyUpdate opts, su_VersionAfter opts, su_Rollback opts) of
        (Some vb, Some apply, Some va, Some rb) \<Rightarrow>
          let before = vb w;
              log = ''version before: '' @ before @ nl @ ''target version: '' @ su_TargetVersion opts @ nl in
          (case apply (su_TargetVersion opts) w of
             (w1, Some err) \<Rightarrow>
               rollbackAndVerify ''self-update'' (log @ ''update FAILED to apply: '' @ err @ nl) va rb before True w1
           | (w1, None) \<Rightarrow>
               let after = va w1;
                   log1 = log @ ''version after update: '' @ after @ nl in
               if after = su_TargetVersion opts
               then (w1, \<lparr>cr_Name = ''self-update'', cr_State = ''ok'',
                      cr_Raw = log1 @ ''self-update PASSED: agent came back on the target version'' @ nl\<rparr>)
               else rollbackAndVerify ''self-update''
                      (log1 @ ''version mismatch: got '' @ after @ '', want '' @ su_TargetVersion opts
                        @ '' (update claimed success) '' @ em_dash @ '' rolling back, but this is a FAIL'' @ nl)
                      va rb before False w1)
      | _ \<Rightarrow> (w, \<lparr>cr_Name = ''self-update'', cr_State = ''fail'',
               cr_Raw = ''self-update misconfigured: VersionBefore, ApplyUpdate, VersionAfter, Rollback are all required''\<rparr>))"

section \<open>Snapshots of files\<close>

text \<open>\<open>NDir True\<close> is a directory with entries.\<close>

datatype fnode = NDir bool | NFile nat string

type_synonym fsys = "string \<Rightarrow> fnode option"

record file_state =
  fst_path :: string
  fst_existed :: bool
  fst_mode :: nat
  fst_content :: string

text \<open>\<open>fails op p\<close>: the call \<open>op\<close> on \<open>p\<close> fails.\<close>

type_synonym fs_faults = "string \<Rightarrow> string \<Rightarrow> bool"

fun Snapshot :: "fs_faults \<Rightarrow> string list \<Rightarrow> fsys \<Rightarrow> (string, file_state list) result" where
  "Snapshot fails [] fs = Inr []"
| "Snapshot fails (p # ps) fs =
     (if fails ''lstat'' p then Inl (''snapshot stat '' @ p)
      else case fs p of
        None \<Rightarrow> map_sum id ((#) \<lparr>fst_path = p, fst_existed = False, fst_mode = 0, fst_content = []\<rparr>) (Snapshot fails ps fs)
      | Some (NDir _) \<Rightarrow> Snapshot fails ps fs
      | Some (NFile mode b) \<Rightarrow>
          if fails ''read'' p then Inl (''snapshot read '' @ p)
          else map_sum id ((#) \<lparr>fst_path = p, fst_existed = True, fst_mode = mode, fst_content = b\<rparr>) (Snapshot fails ps fs))"

text \<open>\<^verbatim>\<open>os.WriteFile\<close> keeps the mode of a file that exists; a failed one may have truncated it.\<close>

definition write_file :: "fs_faults \<Rightarrow> string \<Rightarrow> string \<Rightarrow> nat \<Rightarrow> fsys \<Rightarrow> fsys \<times> bool" where
  "write_file fails p content mode fs =
     (case fs p of
        Some (NDir _) \<Rightarrow> (fs, False)
      | Some (NFile m _) \<Rightarrow>
          if fails ''open'' p then (fs, False)
          else if fails ''write'' p then (fs(p \<mapsto> NFile m []), False)
          else (fs(p \<mapsto> NFile m content), True)
      | None \<Rightarrow>
          if fails ''open'' p then (fs, False)
          else if fails ''write'' p then (fs(p \<mapsto> NFile mode []), False)
          else (fs(p \<mapsto> NFile mode content), True))"

definition chmod_file :: "fs_faults \<Rightarrow> string \<Rightarrow> nat \<Rightarrow> fsys \<Rightarrow> fsys \<times> bool" where
  "chmod_file fails p mode fs =
     (case fs p of
        Some (NFile _ b) \<Rightarrow> if fails ''chmod'' p then (fs, False) else (fs(p \<mapsto> NFile mode b), True)
      | _ \<Rightarrow> (fs, False))"

text \<open>\<^verbatim>\<open>os.Remove\<close>, a missing file being no error.\<close>

definition remove_node :: "fs_faults \<Rightarrow> string \<Rightarrow> fsys \<Rightarrow> fsys \<times> bool" where
  "remove_node fails p fs =
     (case fs p of
        None \<Rightarrow> (fs, True)
      | Some (NDir True) \<Rightarrow> (fs, False)
      | Some _ \<Rightarrow> if fails ''remove'' p then (fs, False) else (fs(p := None), True))"

definition note_error :: "string \<Rightarrow> string option \<Rightarrow> string option" where
  "note_error err firstErr = (case firstErr of None \<Rightarrow> Some err | Some e \<Rightarrow> Some e)"

fun restore_loop :: "fs_faults \<Rightarrow> file_state list \<Rightarrow> string option \<Rightarrow> fsys \<Rightarrow> fsys \<times> string option" where
  "restore_loop fails [] firstErr fs = (fs, firstErr)"
| "restore_loop fails (st # sts) firstErr fs =
     (if fst_existed st then
        (case write_file fails (fst_path st) (fst_content st) (fst_mode st) fs of
           (fs1, False) \<Rightarrow> restore_loop fails sts (note_error (''restore write '' @ fst_path st) firstErr) fs1
         | (fs1, True) \<Rightarrow>
             (case chmod_file fails (fst_path st) (fst_mode st) fs1 of
                (fs2, False) \<Rightarrow> restore_loop fails sts (note_error (''restore chmod '' @ fst_path st) firstErr) fs2
              | (fs2, True) \<Rightarrow> restore_loop fails sts firstErr fs2))
      else
        (case remove_node fails (fst_path st) fs of
           (fs1, False) \<Rightarrow> restore_loop fails sts (note_error (''restore remove '' @ fst_path st) firstErr) fs1
         | (fs1, True) \<Rightarrow> restore_loop fails sts firstErr fs1))"

definition Restore :: "fs_faults \<Rightarrow> file_state list \<Rightarrow> fsys \<Rightarrow> fsys \<times> string option" where
  "Restore fails snap fs = restore_loop fails snap None fs"

definition snap_Paths :: "file_state list \<Rightarrow> string list" where
  "snap_Paths snap = map fst_path snap"

section \<open>Install smoke\<close>

text \<open>The install and the verifier act on the file system.\<close>

record install_smoke_opts =
  is_Footprint :: "string list"
  is_Install :: "(fsys \<Rightarrow> fsys \<times> string option) option"
  is_Verify :: "(fsys \<Rightarrow> bool \<times> string) option"

definition restore_and_log :: "fs_faults \<Rightarrow> file_state list \<Rightarrow> string \<Rightarrow> string \<Rightarrow> fsys \<Rightarrow> fsys \<times> string" where
  "restore_and_log fails snap failed done fs =
     (case Restore fails snap fs of
        (fs', Some err) \<Rightarrow> (fs', failed @ err @ nl)
      | (fs', None) \<Rightarrow> (fs', done @ nl))"

definition RunInstallSmoke :: "fs_faults \<Rightarrow> install_smoke_opts \<Rightarrow> fsys \<Rightarrow> fsys \<times> check_result" where
  "RunInstallSmoke fails opts fs =
     (let res = (\<lambda>st raw. \<lparr>cr_Name = ''install-smoke'', cr_State = st, cr_Raw = raw\<rparr>) in
      case (is_Install opts, is_Verify opts) of
        (Some install, Some verify) \<Rightarrow>
          (case Snapshot fails (is_Footprint opts) fs of
             Inl err \<Rightarrow> (fs, res ''fail'' (''preflight snapshot failed: '' @ err))
           | Inr snap \<Rightarrow>
               (case install fs of
                  (fs1, Some err) \<Rightarrow>
                    let (fs2, l) = restore_and_log fails snap ''WARNING: restore after install failure also failed: ''
                          (''snapshot restored '' @ em_dash @ '' machine left clean (no half-install)'') fs1
                    in (fs2, res ''fail'' (''install failed: '' @ err @ nl @ l))
                | (fs1, None) \<Rightarrow>
                    let (ok, doctorJSON) = verify fs1;
                        log = ''install completed'' @ nl @ ''doctor verify: '' @ doctorJSON @ nl in
                    if \<not> ok then
                      let (fs2, l) = restore_and_log fails snap ''WARNING: restore after unhealthy verify also failed: ''
                            (''snapshot restored '' @ em_dash @ '' unhealthy install rolled back'') fs1
                      in (fs2, res ''fail'' (log @ ''doctor reported the install unhealthy '' @ em_dash @ '' rolling back'' @ nl @ l))
                    else (fs1, res ''ok'' (log @ ''install verified healthy'' @ nl))))
      | _ \<Rightarrow> (fs, res ''fail'' ''install-smoke misconfigured: Install and Verify are required''))"

section \<open>The bounded fixture\<close>

definition below :: "string \<Rightarrow> string \<Rightarrow> bool" where
  "below d p \<longleftrightarrow> p = d \<or> has_prefix (d @ ''/'') p"

definition remove_all :: "string \<Rightarrow> fsys \<Rightarrow> fsys" where
  "remove_all d fs = (\<lambda>p. if below d p then None else fs p)"

text \<open>\<open>work\<close> is the directory \<^verbatim>\<open>os.MkdirTemp\<close> made, \<^term>\<open>None\<close> its failure.\<close>

definition RunBoundedFixture :: "fs_faults \<Rightarrow> string option \<Rightarrow> bool \<Rightarrow> fsys \<Rightarrow> fsys \<times> check_result" where
  "RunBoundedFixture fails work injectFailure fs =
     (let res = (\<lambda>st raw. \<lparr>cr_Name = ''bounded-fixture'', cr_State = st, cr_Raw = raw\<rparr>) in
      case work of
        None \<Rightarrow> (fs, res ''fail'' ''create bounded scope: '')
      | Some dir \<Rightarrow>
          let fs0 = fs(dir \<mapsto> NDir False);
              target = dir @ ''/fixture.txt'';
              (fs', r) =
                (case Snapshot fails [target] fs0 of
                   Inl err \<Rightarrow> (fs0, res ''fail'' (''snapshot bounded scope: '' @ err))
                 | Inr snap \<Rightarrow>
                     let failed = (\<lambda>g err. (fst (Restore fails snap g),
                           res ''fail'' (''bounded fixture failed (scope restored + removed): '' @ err))) in
                     (case write_file fails target (''bounded fixture wrote here'' @ nl) 384 fs0 of
                        (fs1, False) \<Rightarrow> failed fs1 ''write fixture file''
                      | (fs1, True) \<Rightarrow>
                          if injectFailure then failed fs1 ''injected bounded-fixture failure''
                          else if fails ''read'' target then failed fs1 ''read back fixture file''
                          else (case fs1 target of
                                  Some (NFile _ b) \<Rightarrow>
                                    if b = [] then failed fs1 ''fixture file unexpectedly empty''
                                    else (fs1, res ''ok'' ''bounded fixture wrote + verified + self-cleaned in a throwaway scope'')
                                | _ \<Rightarrow> failed fs1 ''read back fixture file'')))
          in (remove_all dir fs', r))"

section \<open>Reboot survival\<close>

definition PhaseArmed :: string where "PhaseArmed = ''armed''"
definition PhaseDone :: string where "PhaseDone = ''done''"

record reboot_state =
  rb_RunID :: string
  rb_Phase :: string
  rb_Target :: string
  rb_ArmedAt :: int
  rb_Evidence :: string

text \<open>\<open>enc\<close> and \<open>dec\<close> are the JSON form of the state. The world has the state file and a
  history of what was done to the machine.\<close>

datatype reboot_event = EvEnsured | EvSaved reboot_state | EvReboot | EvCleared | EvVerified

record reboot_world =
  rw_file :: "string option"
  rw_events :: "reboot_event list"

record reboot_survival =
  rs_Target :: string
  rs_AllowReboot :: bool
  rs_EnsureInstalled :: "string option option"
  rs_TriggerReboot :: "string option option"
  rs_VerifyResurrected :: "(bool \<times> string) option"

definition SaveRebootState :: "(reboot_state \<Rightarrow> string) \<Rightarrow> (string \<Rightarrow> bool) \<Rightarrow> reboot_state \<Rightarrow> reboot_world \<Rightarrow>
    reboot_world \<times> string option" where
  "SaveRebootState enc fails st w =
     (if fails ''mkdir'' then (w, Some ''mkdir'')
      else if fails ''write'' then (w, Some ''write'')
      else if fails ''rename'' then (w, Some ''rename'')
      else (w\<lparr>rw_file := Some (enc st), rw_events := rw_events w @ [EvSaved st]\<rparr>, None))"

definition LoadRebootState :: "(string \<Rightarrow> reboot_state option) \<Rightarrow> (string \<Rightarrow> bool) \<Rightarrow> reboot_world \<Rightarrow>
    (string, reboot_state option) result" where
  "LoadRebootState dec fails w =
     (case rw_file w of
        None \<Rightarrow> Inr None
      | Some b \<Rightarrow>
          if fails ''read'' then Inl ''read''
          else case dec b of None \<Rightarrow> Inl ''corrupt reboot state'' | Some st \<Rightarrow> Inr (Some st))"

definition ClearRebootState :: "(string \<Rightarrow> bool) \<Rightarrow> reboot_world \<Rightarrow> reboot_world \<times> string option" where
  "ClearRebootState fails w =
     (if rw_file w \<noteq> None \<and> fails ''remove'' then (w, Some ''remove'')
      else (w\<lparr>rw_file := None, rw_events := rw_events w @ [EvCleared]\<rparr>, None))"

definition Arm :: "(reboot_state \<Rightarrow> string) \<Rightarrow> (string \<Rightarrow> bool) \<Rightarrow> gotime \<Rightarrow> reboot_survival \<Rightarrow> string \<Rightarrow> string \<Rightarrow>
    reboot_world \<Rightarrow> reboot_world \<times> (string, string) result" where
  "Arm enc fails now r runID evidencePath w =
     (if \<not> rs_AllowReboot r
      then (w, Inl ''reboot-survival is disruptive: pass --allow-reboot to authorize the real reboot'')
      else
        let (w0, ens) = (case rs_EnsureInstalled r of
              None \<Rightarrow> (w, None) | Some e \<Rightarrow> (w\<lparr>rw_events := rw_events w @ [EvEnsured]\<rparr>, e)) in
        case ens of
          Some err \<Rightarrow> (w0, Inl (''ensure installed before arming: '' @ err))
        | None \<Rightarrow>
            (case SaveRebootState enc fails \<lparr>rb_RunID = runID, rb_Phase = PhaseArmed, rb_Target = rs_Target r,
                    rb_ArmedAt = unix_of now, rb_Evidence = evidencePath\<rparr> w0 of
               (w1, Some err) \<Rightarrow> (w1, Inl (''persist reboot state: '' @ err))
             | (w1, None) \<Rightarrow>
                 (case rs_TriggerReboot r of
                    None \<Rightarrow> (w1, Inr runID)
                  | Some (Some err) \<Rightarrow> (fst (ClearRebootState fails w1), Inl (''trigger reboot: '' @ err))
                  | Some None \<Rightarrow> (w1\<lparr>rw_events := rw_events w1 @ [EvReboot]\<rparr>, Inr runID))))"

record resume_result =
  rr_Armed :: bool
  rr_Passed :: bool
  rr_RunID :: string
  rr_Evidence :: string

definition Resume :: "(string \<Rightarrow> reboot_state option) \<Rightarrow> (string \<Rightarrow> bool) \<Rightarrow> reboot_survival \<Rightarrow> reboot_world \<Rightarrow>
    reboot_world \<times> (string, resume_result) result" where
  "Resume dec fails r w =
     (case LoadRebootState dec fails w of
        Inl err \<Rightarrow> (w, Inl err)
      | Inr None \<Rightarrow> (w, Inr \<lparr>rr_Armed = False, rr_Passed = False, rr_RunID = [], rr_Evidence = []\<rparr>)
      | Inr (Some st) \<Rightarrow>
          let (w1, passed, evidence) =
            (case rs_VerifyResurrected r of
               None \<Rightarrow> (w, False, ''no verifier configured'')
             | Some (ok, ev) \<Rightarrow> (w\<lparr>rw_events := rw_events w @ [EvVerified]\<rparr>, ok, ev)) in
          (case ClearRebootState fails w1 of
             (w2, Some cerr) \<Rightarrow> (w2, Inl (''clear reboot state after resume: '' @ cerr))
           | (w2, None) \<Rightarrow> (w2, Inr \<lparr>rr_Armed = True, rr_Passed = passed, rr_RunID = rb_RunID st, rr_Evidence = evidence\<rparr>)))"

definition ResumeOrArm :: "(reboot_state \<Rightarrow> string) \<Rightarrow> (string \<Rightarrow> reboot_state option) \<Rightarrow> (string \<Rightarrow> bool) \<Rightarrow> gotime \<Rightarrow>
    reboot_survival \<Rightarrow> string \<Rightarrow> string \<Rightarrow> reboot_world \<Rightarrow> reboot_world \<times> check_result" where
  "ResumeOrArm enc dec fails now r runID evidencePath w =
     (let res = (\<lambda>st raw. \<lparr>cr_Name = ''reboot-survival'', cr_State = st, cr_Raw = raw\<rparr>) in
      case LoadRebootState dec fails w of
        Inl err \<Rightarrow> (w, res ''fail'' (''read reboot state: '' @ err))
      | Inr (Some _) \<Rightarrow>
          (case Resume dec fails r w of
             (w1, Inl err) \<Rightarrow> (w1, res ''fail'' (''resume failed: '' @ err))
           | (w1, Inr out) \<Rightarrow>
               if rr_Passed out
               then (w1, res ''ok'' (''reboot-survival PASSED: service resurrected after reboot '' @ em_dash @ '' '' @ rr_Evidence out))
               else (w1, res ''fail'' (''reboot-survival FAILED: service did not resurrect after reboot '' @ em_dash @ '' '' @ rr_Evidence out)))
      | Inr None \<Rightarrow>
          (case Arm enc fails now r runID evidencePath w of
             (w1, Inl err) \<Rightarrow> (w1, res ''fail'' err)
           | (w1, Inr _) \<Rightarrow> (w1, res ''ok''
               ''reboot-survival armed: state persisted + reboot triggered. Re-run `validate --checks reboot-survival` after the machine comes back to complete Phase 2.'')))"

section \<open>Restoring a snapshot\<close>

abbreviation no_fs_faults :: fs_faults where
  "no_fs_faults \<equiv> \<lambda>_ _. False"

definition node_of :: "file_state \<Rightarrow> fnode option" where
  "node_of st = (if fst_existed st then Some (NFile (fst_mode st) (fst_content st)) else None)"

definition is_dir :: "fsys \<Rightarrow> string \<Rightarrow> bool" where
  "is_dir fs p \<longleftrightarrow> (\<exists>b. fs p = Some (NDir b))"

text \<open>What a mutation must leave for a path to be restorable: no directory in the place of a
  file, and no directory with entries where there was nothing.\<close>

definition restorable :: "fsys \<Rightarrow> fsys \<Rightarrow> string \<Rightarrow> bool" where
  "restorable fs0 fs p \<longleftrightarrow> is_dir fs0 p \<or> \<not> is_dir fs p \<or> fs0 p = None \<and> fs p = Some (NDir False)"

lemma Snapshot_Inr:
  assumes "Snapshot fails ps fs = Inr snap"
  shows "(\<forall>st \<in> set snap. fst_path st \<in> set ps \<and> fs (fst_path st) = node_of st)
    \<and> (\<forall>p \<in> set ps. is_dir fs p \<or> p \<in> fst_path ` set snap)"
  using assms
proof (induction ps arbitrary: snap)
  case (Cons p ps)
  from Cons.prems obtain snap' where s: "Snapshot fails ps fs = Inr snap'"
    by (auto split: if_splits option.splits fnode.splits) (cases "Snapshot fails ps fs"; auto)+
  note ih = Cons.IH [OF s]
  show ?case
  proof (cases "fs p")
    case None
    then have "snap = \<lparr>fst_path = p, fst_existed = False, fst_mode = 0, fst_content = []\<rparr> # snap'"
      using Cons.prems s by (auto split: if_splits)
    then show ?thesis using ih None by (auto simp: node_of_def)
  next
    case (Some n)
    show ?thesis
    proof (cases n)
      case (NDir b)
      then have "snap = snap'" using Cons.prems s Some by (auto split: if_splits)
      then show ?thesis using ih Some NDir by (auto simp: is_dir_def)
    next
      case (NFile m b)
      then have "snap = \<lparr>fst_path = p, fst_existed = True, fst_mode = m, fst_content = b\<rparr> # snap'"
        using Cons.prems s Some by (auto split: if_splits)
      then show ?thesis using ih Some NFile by (auto simp: node_of_def)
    qed
  qed
qed simp

lemma Snapshot_no_faults: "\<exists>snap. Snapshot no_fs_faults ps fs = Inr snap"
  by (induction ps) (auto split: option.splits fnode.splits)

lemma restore_loop_ok:
  assumes "\<forall>st \<in> set snap. node_of st = fs0 (fst_path st) \<and> restorable fs0 fs (fst_path st)"
  shows "restore_loop no_fs_faults snap e fs = (\<lambda>p. if p \<in> fst_path ` set snap then fs0 p else fs p, e)"
  using assms
proof (induction snap arbitrary: fs)
  case (Cons st snap)
  let ?p = "fst_path st"
  let ?fs = "fs(?p := fs0 ?p)"
  have n: "node_of st = fs0 ?p" "restorable fs0 fs ?p" using Cons.prems by auto
  have 1: "restore_loop no_fs_faults (st # snap) e fs = restore_loop no_fs_faults snap e ?fs"
  proof (cases "fst_existed st")
    case True
    then have f: "fs0 ?p = Some (NFile (fst_mode st) (fst_content st))" using n by (simp add: node_of_def)
    then have "\<not> is_dir fs ?p" using n by (auto simp: restorable_def is_dir_def)
    then show ?thesis using True f
      by (auto simp: write_file_def chmod_file_def is_dir_def split: option.splits fnode.splits)
  next
    case False
    then have f: "fs0 ?p = None" using n by (simp add: node_of_def)
    then have "fs ?p \<noteq> Some (NDir True)" using n by (auto simp: restorable_def is_dir_def)
    then show ?thesis using False f
      by (auto simp: remove_node_def fun_upd_idem split: option.splits fnode.splits bool.splits)
  qed
  have "\<forall>st' \<in> set snap. node_of st' = fs0 (fst_path st') \<and> restorable fs0 ?fs (fst_path st')"
    using Cons.prems by (auto simp: restorable_def is_dir_def)
  note 2 = Cons.IH [OF this]
  show ?case unfolding 1 2 by auto
qed simp

lemma Restore_ok:
  assumes "Snapshot fails ps fs0 = Inr snap" "\<forall>p \<in> set ps. restorable fs0 fs p"
  shows "Restore no_fs_faults snap fs = (\<lambda>p. if p \<in> set ps \<and> \<not> is_dir fs0 p then fs0 p else fs p, None)"
proof -
  note s = Snapshot_Inr [OF assms(1)]
  have "node_of st = fs0 (fst_path st) \<and> restorable fs0 fs (fst_path st)" if "st \<in> set snap" for st
    using that s assms(2) by auto
  moreover have "p \<in> fst_path ` set snap \<longleftrightarrow> p \<in> set ps \<and> \<not> is_dir fs0 p" for p
    using s by (force simp: is_dir_def node_of_def split: if_splits)
  ultimately show ?thesis using restore_loop_ok [of snap fs0 fs None] by (simp add: Restore_def)
qed

text \<open>When no call of the check itself fails, a failed install or an install that does not
  verify leaves every file of the footprint as it was before and every other path as the install
  left it; the check passes exactly when the install succeeded and verified.\<close>

theorem install_smoke_rolls_back:
  assumes "\<forall>p \<in> set ps. restorable fs (fst (install fs)) p"
    "RunInstallSmoke no_fs_faults \<lparr>is_Footprint = ps, is_Install = Some install, is_Verify = Some verify\<rparr> fs = (fs', cr)"
  shows "cr_State cr = (if snd (install fs) = None \<and> fst (verify (fst (install fs))) then ''ok'' else ''fail'')
    \<and> fs' = (\<lambda>p. if cr_State cr = ''fail'' \<and> p \<in> set ps \<and> \<not> is_dir fs p then fs p else fst (install fs) p)"
proof -
  obtain snap where s: "Snapshot no_fs_faults ps fs = Inr snap" using Snapshot_no_faults by blast
  obtain fs1 e where i: "install fs = (fs1, e)" by fastforce
  obtain ok j where v: "verify fs1 = (ok, j)" by fastforce
  have r: "Restore no_fs_faults snap fs1 = (\<lambda>p. if p \<in> set ps \<and> \<not> is_dir fs p then fs p else fs1 p, None)"
    using Restore_ok [OF s] assms(1) i by simp
  show ?thesis
    using assms(2) s i v r
    by (cases e; cases ok) (auto simp: RunInstallSmoke_def restore_and_log_def Let_def)
qed

section \<open>The bounded fixture leaves nothing\<close>

lemma below_child: "below d (d @ ''/'' @ n)"
  by (simp add: below_def has_prefix_def)

lemma write_file_elsewhere: "write_file fails p c m fs = (fs', b) \<Longrightarrow> q \<noteq> p \<Longrightarrow> fs' q = fs q"
  by (auto simp: write_file_def split: option.splits fnode.splits if_splits)

lemma restore_elsewhere:
  "q \<notin> fst_path ` set snap \<Longrightarrow> fst (restore_loop fails snap e fs) q = fs q"
proof (induction snap arbitrary: e fs)
  case (Cons st snap)
  then show ?case
    by (auto split: prod.splits bool.splits dest: write_file_elsewhere
        simp: chmod_file_def remove_node_def split: option.splits fnode.splits if_splits)
qed simp

text \<open>Whatever call fails, the fixture leaves the file system as it found it when nothing was at
  or below its fresh working directory.\<close>

theorem bounded_fixture_no_residue:
  assumes "\<forall>p. below dir p \<longrightarrow> fs p = None"
  shows "fst (RunBoundedFixture fails (Some dir) injectFailure fs) = fs"
proof -
  define target where "target = dir @ ''/fixture.txt''"
  have t: "below dir target" by (simp add: target_def below_def has_prefix_def)
  have res: "remove_all dir g = fs" if "\<forall>p. p \<noteq> dir \<and> p \<noteq> target \<longrightarrow> g p = fs p" for g
  proof
    fix p show "remove_all dir g p = fs p"
      using that assms t by (cases "below dir p") (auto simp: remove_all_def below_def)
  qed
  have sn: "set (map fst_path snap) \<subseteq> {target}" if "Snapshot fails [target] fs0 = Inr snap" for snap fs0
    using Snapshot_Inr [OF that] by auto
  have rs: "fst (Restore fails snap g) p = g p" if "Snapshot fails [target] fs0 = Inr snap" "p \<noteq> target" for snap g p fs0
    unfolding Restore_def using sn [OF that(1)] that(2) by (intro restore_elsewhere) auto
  obtain g r where gr: "RunBoundedFixture fails (Some dir) injectFailure fs = (remove_all dir g, r)"
    and g: "\<forall>p. p \<noteq> dir \<and> p \<noteq> target \<longrightarrow> g p = fs p"
  proof (cases "Snapshot fails [target] (fs(dir \<mapsto> NDir False))")
    case (Inl e)
    then show ?thesis using that [of "fs(dir \<mapsto> NDir False)"] by (auto simp: RunBoundedFixture_def Let_def target_def)
  next
    case (Inr snap)
    obtain fs1 b where w: "write_file fails target (''bounded fixture wrote here'' @ nl) 384 (fs(dir \<mapsto> NDir False)) = (fs1, b)"
      by fastforce
    have e: "\<forall>p. p \<noteq> dir \<and> p \<noteq> target \<longrightarrow> fs1 p = fs p" using write_file_elsewhere [OF w] by auto
    have e': "\<forall>p. p \<noteq> dir \<and> p \<noteq> target \<longrightarrow> fst (Restore fails snap fs1) p = fs p" using e rs [OF Inr] by simp
    have "\<exists>g \<in> {fs1, fst (Restore fails snap fs1)}. \<exists>r.
        RunBoundedFixture fails (Some dir) injectFailure fs = (remove_all dir g, r)"
      using Inr w unfolding target_def
      by (auto simp: RunBoundedFixture_def Let_def split: bool.splits option.splits fnode.splits)
    then show ?thesis using that e e' by blast
  qed
  then show ?thesis using res [OF g] by simp
qed

section \<open>Rebooting\<close>

text \<open>Without the flag nothing is saved and nothing rebooted; with it the state is on disk before
  the reboot; and a run that finds the state verifies and clears it, whatever its verdict.\<close>

theorem reboot_two_phases:
  assumes "\<And>st. dec (enc st) = Some st" "rw_file w = None"
  shows "(\<not> rs_AllowReboot r \<longrightarrow> fst (ResumeOrArm enc dec fails now r runID ev w) = w)
    \<and> (EvReboot \<in> set (rw_events (fst (ResumeOrArm enc dec fails now r runID ev w))) \<longrightarrow> EvReboot \<in> set (rw_events w)
         \<or> rs_AllowReboot r \<and> (\<exists>st. rw_file (fst (ResumeOrArm enc dec fails now r runID ev w)) = Some (enc st)
              \<and> rb_RunID st = runID \<and> rb_Phase st = PhaseArmed))
    \<and> (rw_file w' = Some (enc st) \<and> rs_VerifyResurrected r = Some (ok, evd) \<longrightarrow>
         (\<exists>raw. ResumeOrArm enc dec (\<lambda>_. False) now r runID ev w'
            = (w'\<lparr>rw_file := None, rw_events := rw_events w' @ [EvVerified, EvCleared]\<rparr>,
               \<lparr>cr_Name = ''reboot-survival'', cr_State = (if ok then ''ok'' else ''fail''), cr_Raw = raw\<rparr>)))"
proof -
  have l: "LoadRebootState dec fails w = Inr None" using assms(2) by (simp add: LoadRebootState_def)
  have 1: "fst (ResumeOrArm enc dec fails now r runID ev w) = fst (Arm enc fails now r runID ev w)"
    using l by (auto simp: ResumeOrArm_def Let_def split: prod.splits sum.splits)
  have 2: "EvReboot \<in> set (rw_events (fst (Arm enc fails now r runID ev w))) \<longrightarrow> EvReboot \<in> set (rw_events w)
      \<or> rs_AllowReboot r \<and> (\<exists>st. rw_file (fst (Arm enc fails now r runID ev w)) = Some (enc st)
              \<and> rb_RunID st = runID \<and> rb_Phase st = PhaseArmed)"
    by (auto simp: Arm_def SaveRebootState_def ClearRebootState_def Let_def split: option.splits prod.splits if_splits)
  have 3: "\<exists>raw. ResumeOrArm enc dec (\<lambda>_. False) now r runID ev w'
            = (w'\<lparr>rw_file := None, rw_events := rw_events w' @ [EvVerified, EvCleared]\<rparr>,
               \<lparr>cr_Name = ''reboot-survival'', cr_State = (if ok then ''ok'' else ''fail''), cr_Raw = raw\<rparr>)"
    if "rw_file w' = Some (enc st)" "rs_VerifyResurrected r = Some (ok, evd)"
    using that assms(1)
    by (auto simp: ResumeOrArm_def Resume_def LoadRebootState_def ClearRebootState_def Let_def)
  have "\<not> rs_AllowReboot r \<Longrightarrow> fst (Arm enc fails now r runID ev w) = w" by (simp add: Arm_def)
  then show ?thesis using 1 2 3 by simp
qed

section \<open>The self-update verdict\<close>

text \<open>The check passes only if the version probe now gives the target version after an update
  that reported success, or the version from before after one that reported failure.\<close>

theorem self_update_verdict:
  assumes "RunSelfUpdateValidation opts w = (w', cr)" "cr_State cr = ''ok''"
    "su_VersionBefore opts = Some vb" "su_ApplyUpdate opts = Some apply" "su_VersionAfter opts = Some va"
  shows "if snd (apply (su_TargetVersion opts) w) = None then va w' = su_TargetVersion opts else va w' = vb w"
  using assms by (auto simp: RunSelfUpdateValidation_def rollbackAndVerify_def Let_def
      split: option.splits prod.splits if_splits)

section \<open>Witnesses\<close>

theorem install_smoke_rolls_back_witness:
  "let install = (\<lambda>fs. (fs(''/a'' \<mapsto> NFile 420 ''new'', ''/b'' \<mapsto> NFile 420 ''new''), Some ''boom'')); verify = (\<lambda>_. (True, []));
       fs = (\<lambda>p. if p = ''/a'' then Some (NFile 384 ''old'') else None);
       (fs', cr) = RunInstallSmoke no_fs_faults \<lparr>is_Footprint = [''/a'', ''/c''], is_Install = Some install, is_Verify = Some verify\<rparr> fs
   in cr_State cr = ''fail'' \<and> fs' ''/a'' = Some (NFile 384 ''old'') \<and> fs' ''/b'' = Some (NFile 420 ''new'')"
proof -
  let ?install = "\<lambda>fs. (fs(''/a'' \<mapsto> NFile 420 ''new'', ''/b'' \<mapsto> NFile 420 ''new''), Some ''boom'')"
  let ?fs = "\<lambda>p. if p = ''/a'' then Some (NFile 384 ''old'') else None"
  obtain fs' cr where r: "RunInstallSmoke no_fs_faults \<lparr>is_Footprint = [''/a'', ''/c''], is_Install = Some ?install,
      is_Verify = Some (\<lambda>_. (True, []))\<rparr> ?fs = (fs', cr)" by fastforce
  have "\<forall>p \<in> set [''/a'', ''/c'']. restorable ?fs (fst (?install ?fs)) p"
    by (simp add: restorable_def is_dir_def)
  from install_smoke_rolls_back [OF this r]
  have "cr_State cr = ''fail''" "fs' = (\<lambda>p. if cr_State cr = ''fail'' \<and> p \<in> set [''/a'', ''/c''] \<and> \<not> is_dir ?fs p then ?fs p
      else fst (?install ?fs) p)" by simp_all
  then show ?thesis using r by (simp add: is_dir_def)
qed

end
