(* ===== verification/Validate_Run.thy ===== *)
theory Validate_Run
  imports Redact Validate_Lock Validate_Checks Files
begin

text \<open>
  A validation run (\<^verbatim>\<open>internal/validate/run.go\<close>, \<^verbatim>\<open>skip.go\<close>) and the command that starts it
  (\<^verbatim>\<open>internal/cli/validate_cmd.go\<close>): the safety gate, the lock, the checks, the redacted evidence
  and the breadcrumb log. The JSON text of a record, time formatting, the environment and the
  failures of system calls are arguments; what the checks act on is the type \<open>'m\<close>.
\<close>

section \<open>State\<close>

record breadcrumb =
  bc_TS :: int
  bc_Commit :: string
  bc_Dirty :: bool
  bc_Tier :: string
  bc_Target :: string
  bc_Checks :: "string list"
  bc_Result :: string
  bc_EvidencePath :: string

record run_manifest =
  mf_RunID :: string
  mf_StartedAt :: string
  mf_Tier :: string
  mf_Target :: string
  mf_Safety :: string
  mf_Commit :: string
  mf_Dirty :: bool
  mf_Checks :: "check_result list"
  mf_Passed :: bool

record runner =
  rn_Tier :: string
  rn_Target :: string
  rn_Checks :: "string list"
  rn_Safety :: string
  rn_AllowMutate :: bool
  rn_AllowReboot :: bool
  rn_EvidenceRoot :: string
  rn_BreadcrumbPath :: string
  rn_LockPath :: string

record run_result =
  res_Passed :: bool
  res_ExitCode :: int
  res_EvidencePath :: string
  res_Checks :: "check_result list"

text \<open>\<open>vw_files\<close> are the evidence files, \<open>vw_log\<close> the bytes of the breadcrumb log. \<open>vw_ran\<close> is a
  history: the checks that ran, each with the lock file at that moment.\<close>

record 'm vworld =
  vw_machine :: 'm
  vw_lock :: lock_fs
  vw_files :: "(string \<times> string) list"
  vw_log :: "string option"
  vw_ran :: "(string \<times> lock_info option option) list"

text \<open>\<open>rv_write p = Some n\<close>: the write to \<open>p\<close> fails after \<open>n\<close> bytes.\<close>

record run_env =
  rv_now :: gotime
  rv_rand :: string
  rv_acquire :: lock_env
  rv_release :: lock_env
  rv_token :: string
  rv_commit :: "(string \<times> bool) option"
  rv_fails :: "string \<Rightarrow> bool"
  rv_write :: "string \<Rightarrow> nat option"
  rv_tempdir :: string
  rv_xdg :: string
  rv_home :: "string option"

record json_lib =
  jl_manifest :: "run_manifest \<Rightarrow> string"
  jl_summary :: "string \<Rightarrow> bool \<Rightarrow> (string \<times> string) list \<Rightarrow> string"
  jl_breadcrumb :: "breadcrumb \<Rightarrow> string"
  jl_unbreadcrumb :: "string \<Rightarrow> breadcrumb option"
  jl_stamp :: "gotime \<Rightarrow> string"
  jl_rfc3339 :: "gotime \<Rightarrow> string"

datatype run_error = RunRefused safety_error | RunPath | RunLock lock_error | RunEvidence string | RunBreadcrumb string

section \<open>Paths and names\<close>

definition DefaultBreadcrumbPath :: "run_env \<Rightarrow> string option" where
  "DefaultBreadcrumbPath env =
     (if rv_xdg env = [] then
        (case rv_home env of None \<Rightarrow> None
         | Some home \<Rightarrow> Some (path_join (path_join (path_join (path_join home ''.local'') ''state'') ''uncluster'') ''validation.jsonl''))
      else Some (path_join (path_join (rv_xdg env) ''uncluster'') ''validation.jsonl''))"

definition DefaultLockPath :: "run_env \<Rightarrow> string option" where
  "DefaultLockPath env =
     map_option (\<lambda>bc. path_join (path_dir bc) ''validation.lock'') (DefaultBreadcrumbPath env)"

definition DefaultEvidenceRoot :: "run_env \<Rightarrow> string" where
  "DefaultEvidenceRoot env = path_join (rv_tempdir env) ''uncluster-validate''"

definition newRunID :: "json_lib \<Rightarrow> run_env \<Rightarrow> string" where
  "newRunID jl env = jl_stamp jl (rv_now env) @ ''-'' @ rv_rand env"

definition sanitizeName :: "string \<Rightarrow> string" where
  "sanitizeName s = map (\<lambda>c. if word_char c \<or> c = CHR ''-'' \<or> c = CHR ''_'' then c else CHR ''_'') s"

section \<open>Evidence\<close>

definition writeRedacted :: "run_env \<Rightarrow> string \<Rightarrow> string \<Rightarrow> 'm vworld \<Rightarrow> 'm vworld \<times> bool" where
  "writeRedacted env path content w =
     (if rv_fails env (''open '' @ path) then (w, False)
      else case rv_write env path of
        Some n \<Rightarrow> (w\<lparr>vw_files := AList.update path (take n (RedactSecrets content)) (vw_files w)\<rparr>, False)
      | None \<Rightarrow> (w\<lparr>vw_files := AList.update path (RedactSecrets content) (vw_files w)\<rparr>, True))"

fun write_raws :: "run_env \<Rightarrow> string \<Rightarrow> check_result list \<Rightarrow> 'm vworld \<Rightarrow> 'm vworld \<times> string option" where
  "write_raws env dir [] w = (w, None)"
| "write_raws env dir (c # cs) w =
     (if cr_Raw c = [] then write_raws env dir cs w
      else case writeRedacted env (path_join dir (''check-'' @ sanitizeName (cr_Name c) @ ''.out'')) (cr_Raw c) w of
        (w', False) \<Rightarrow> (w', Some ''check output'')
      | (w', True) \<Rightarrow> write_raws env dir cs w')"

definition writeEvidence :: "json_lib \<Rightarrow> run_env \<Rightarrow> string \<Rightarrow> run_manifest \<Rightarrow> check_result list \<Rightarrow> 'm vworld \<Rightarrow>
    'm vworld \<times> string option" where
  "writeEvidence jl env dir m results w =
     (if rv_fails env ''mkdir evidence'' then (w, Some ''mkdir'')
      else if rv_fails env ''chmod evidence'' then (w, Some ''chmod'')
      else case writeRedacted env (path_join dir ''manifest.json'') (jl_manifest jl m) w of
        (w1, False) \<Rightarrow> (w1, Some ''manifest'')
      | (w1, True) \<Rightarrow>
          (case writeRedacted env (path_join dir ''summary.json'')
                  (jl_summary jl (mf_RunID m) (mf_Passed m) (map (\<lambda>c. (cr_Name c, cr_State c)) results)) w1 of
             (w2, False) \<Rightarrow> (w2, Some ''summary'')
           | (w2, True) \<Rightarrow> write_raws env dir results w2))"

definition appendBreadcrumb :: "json_lib \<Rightarrow> run_env \<Rightarrow> runner \<Rightarrow> breadcrumb \<Rightarrow> 'm vworld \<Rightarrow> 'm vworld \<times> string option" where
  "appendBreadcrumb jl env r bc w =
     (case (if rn_BreadcrumbPath r = [] then DefaultBreadcrumbPath env else Some (rn_BreadcrumbPath r)) of
        None \<Rightarrow> (w, Some ''no home directory'')
      | Some path \<Rightarrow>
          if rv_fails env ''mkdir breadcrumb'' then (w, Some ''mkdir'')
          else if rv_fails env ''open breadcrumb'' then (w, Some ''open'')
          else
            let line = RedactSecrets (jl_breadcrumb jl bc) @ [CHR 0x0A];
                old = (case vw_log w of None \<Rightarrow> [] | Some s \<Rightarrow> s) in
            case rv_write env path of
              Some n \<Rightarrow> (w\<lparr>vw_log := Some (old @ take n line)\<rparr>, Some ''write'')
            | None \<Rightarrow> (w\<lparr>vw_log := Some (old @ line)\<rparr>, None))"

section \<open>The run\<close>

fun run_checks :: "(string \<Rightarrow> 'm \<Rightarrow> 'm \<times> check_result) \<Rightarrow> string list \<Rightarrow> 'm vworld \<Rightarrow> 'm vworld \<times> check_result list" where
  "run_checks check [] w = (w, [])"
| "run_checks check (n # ns) w =
     (let (m', cr) = check n (vw_machine w);
          (w', crs) = run_checks check ns (w\<lparr>vw_machine := m', vw_ran := vw_ran w @ [(n, read_lock (vw_lock w))]\<rparr>)
      in (w', cr # crs))"

text \<open>What follows the lock.\<close>

definition run_body :: "json_lib \<Rightarrow> run_env \<Rightarrow> runner \<Rightarrow> (string \<Rightarrow> 'm \<Rightarrow> 'm \<times> check_result) \<Rightarrow> 'm vworld \<Rightarrow>
    'm vworld \<times> (run_error, run_result) result" where
  "run_body jl env r check w =
     (let runID = newRunID jl env;
          (commit, dirty) = (case rv_commit env of None \<Rightarrow> ([], False) | Some cd \<Rightarrow> cd);
          (w1, results) = run_checks check (rn_Checks r) w;
          passed = list_all (\<lambda>cr. cr_State cr \<noteq> ''fail'') results;
          evidenceRoot = (if rn_EvidenceRoot r = [] then DefaultEvidenceRoot env else rn_EvidenceRoot r);
          evidenceDir = path_join evidenceRoot runID
      in case writeEvidence jl env evidenceDir
             \<lparr>mf_RunID = runID, mf_StartedAt = jl_rfc3339 jl (rv_now env), mf_Tier = rn_Tier r, mf_Target = rn_Target r,
              mf_Safety = rn_Safety r, mf_Commit = commit, mf_Dirty = dirty, mf_Checks = results, mf_Passed = passed\<rparr>
             results w1 of
           (w2, Some err) \<Rightarrow> (w2, Inl (RunEvidence err))
         | (w2, None) \<Rightarrow>
             (case appendBreadcrumb jl env r
                 \<lparr>bc_TS = unix_of (rv_now env), bc_Commit = commit, bc_Dirty = dirty, bc_Tier = rn_Tier r,
                  bc_Target = rn_Target r, bc_Checks = rn_Checks r,
                  bc_Result = (if passed then ''pass'' else ''fail''), bc_EvidencePath = evidenceDir\<rparr> w2 of
                (w3, Some err) \<Rightarrow> (w3, Inl (RunBreadcrumb err))
              | (w3, None) \<Rightarrow> (w3, Inr \<lparr>res_Passed = passed, res_ExitCode = (if passed then 0 else 1),
                    res_EvidencePath = evidenceDir, res_Checks = results\<rparr>)))"

definition Run :: "json_lib \<Rightarrow> run_env \<Rightarrow> runner \<Rightarrow> (string \<Rightarrow> 'm \<Rightarrow> 'm \<times> check_result) \<Rightarrow> 'm vworld \<Rightarrow>
    'm vworld \<times> (run_error, run_result) result" where
  "Run jl env r check w =
     (case CheckSafetyAllowed (rn_Safety r) (rn_AllowMutate r) (rn_AllowReboot r) of
        Inl e \<Rightarrow> (w, Inl (RunRefused e))
      | Inr _ \<Rightarrow>
          if rn_Safety r = SafetyInspect then run_body jl env r check w
          else if rn_LockPath r = [] \<and> DefaultLockPath env = None then (w, Inl RunPath)
          else case AcquireLock (rv_acquire env) (rv_token env) (vw_lock w) of
            (lk, Inl e) \<Rightarrow> (w\<lparr>vw_lock := lk\<rparr>, Inl (RunLock e))
          | (lk, Inr tok) \<Rightarrow>
              let (w1, res) = run_body jl env r check (w\<lparr>vw_lock := lk\<rparr>)
              in (w1\<lparr>vw_lock := fst (Release (rv_release env) tok (vw_lock w1))\<rparr>, res))"

section \<open>Skipping\<close>

record skip_query =
  sq_Commit :: string
  sq_Dirty :: bool
  sq_Tier :: string
  sq_Target :: string
  sq_Checks :: "string list"

text \<open>\<^term>\<open>None\<close> is a scan error: a line that does not fit the scanner's buffer.\<close>

definition ReadBreadcrumbs :: "json_lib \<Rightarrow> string option \<Rightarrow> breadcrumb list option" where
  "ReadBreadcrumbs jl log =
     (case log of
        None \<Rightarrow> Some []
      | Some s \<Rightarrow>
          let ls = split_char (CHR 0x0A) s in
          if list_ex (\<lambda>l. 1048576 \<le> length l) ls then None
          else Some (List.map_filter (\<lambda>l. let t = trim_space l in if t = [] then None else jl_unbreadcrumb jl t) ls))"

definition normalizedChecks :: "string list \<Rightarrow> string" where
  "normalizedChecks checks = join_with '','' (sort checks)"

definition skip_match :: "skip_query \<Rightarrow> breadcrumb \<Rightarrow> bool" where
  "skip_match q bc \<longleftrightarrow> \<not> bc_Dirty bc \<and> bc_Commit bc = sq_Commit q \<and> bc_Tier bc = sq_Tier q \<and> bc_Target bc = sq_Target q
     \<and> normalizedChecks (bc_Checks bc) = normalizedChecks (sq_Checks q)"

fun best_match :: "skip_query \<Rightarrow> breadcrumb option \<Rightarrow> breadcrumb list \<Rightarrow> breadcrumb option" where
  "best_match q best [] = best"
| "best_match q best (bc # bcs) =
     (if \<not> skip_match q bc then best_match q best bcs
      else case best of
        None \<Rightarrow> best_match q (Some bc) bcs
      | Some b \<Rightarrow> best_match q (if bc_TS b \<le> bc_TS bc then Some bc else Some b) bcs)"

definition ShouldSkip :: "breadcrumb list \<Rightarrow> skip_query \<Rightarrow> bool" where
  "ShouldSkip prior q =
     (if sq_Dirty q then False
      else case best_match q None prior of
        None \<Rightarrow> False
      | Some best \<Rightarrow> bc_Result best = ''pass'')"

section \<open>The command\<close>

text \<open>The machine the command's checks act on. The functions they call elsewhere (the doctor, the
  installer, the reboot) are arguments: \<open>ck_doctor\<close> gives the doctor's exit code and its JSON.\<close>

record machine =
  mc_fs :: fsys
  mc_reboot :: reboot_world

record check_env =
  ck_resolve :: "string option"
  ck_load :: "string option"
  ck_exe :: "string option"
  ck_state_path :: "string option"
  ck_doctor :: "fsys \<Rightarrow> nat \<times> string"
  ck_install :: "fsys \<Rightarrow> fsys \<times> string option"
  ck_footprint :: "string list"
  ck_shutdown :: "string option"
  ck_enc :: "reboot_state \<Rightarrow> string"
  ck_dec :: "string \<Rightarrow> reboot_state option"
  ck_fs_fails :: fs_faults
  ck_rb_fails :: "string \<Rightarrow> bool"
  ck_work :: "string option"
  ck_now :: gotime
  ck_runID :: string
  ck_quote :: "string \<Rightarrow> string"

definition runDoctorCheck :: "check_env \<Rightarrow> machine \<Rightarrow> check_result" where
  "runDoctorCheck ce m =
     (case ck_resolve ce of
        Some err \<Rightarrow> \<lparr>cr_Name = ''doctor'', cr_State = ''fail'', cr_Raw = ''resolve config path: '' @ err\<rparr>
      | None \<Rightarrow>
     (case ck_load ce of
        Some err \<Rightarrow> \<lparr>cr_Name = ''doctor'', cr_State = ''fail'', cr_Raw = ''load agent config: '' @ err\<rparr>
      | None \<Rightarrow>
          let (code, json) = ck_doctor ce (mc_fs m)
          in \<lparr>cr_Name = ''doctor'', cr_State = (if code = 1 then ''warn'' else if code = 2 then ''fail'' else ''ok''),
              cr_Raw = json\<rparr>))"

definition runInstallSmokeCheck :: "check_env \<Rightarrow> machine \<Rightarrow> machine \<times> check_result" where
  "runInstallSmokeCheck ce m =
     (let failed = (\<lambda>raw. (m, \<lparr>cr_Name = ''install-smoke'', cr_State = ''fail'', cr_Raw = raw\<rparr>)) in
      case ck_resolve ce of
        Some err \<Rightarrow> failed (''resolve config path: '' @ err)
      | None \<Rightarrow>
     (case ck_load ce of
        Some err \<Rightarrow> failed (''load agent config: '' @ err)
      | None \<Rightarrow>
     (case ck_exe ce of
        Some err \<Rightarrow> failed (''resolve executable: '' @ err)
      | None \<Rightarrow>
          let (fs', cr) = RunInstallSmoke (ck_fs_fails ce)
            \<lparr>is_Footprint = ck_footprint ce, is_Install = Some (ck_install ce),
             is_Verify = Some (\<lambda>fs. let (code, json) = ck_doctor ce fs in (code \<noteq> 2, json))\<rparr> (mc_fs m)
          in (m\<lparr>mc_fs := fs'\<rparr>, cr))))"

definition realServiceLiveness :: "check_env \<Rightarrow> fsys \<Rightarrow> bool \<times> string" where
  "realServiceLiveness ce fs =
     (case ck_resolve ce of
        Some err \<Rightarrow> (False, ''resolve config: '' @ err)
      | None \<Rightarrow>
     (case ck_load ce of
        Some err \<Rightarrow> (False, ''load config: '' @ err)
      | None \<Rightarrow> let (code, json) = ck_doctor ce fs in (code \<noteq> 2, json)))"

definition ensure_installed :: "check_env \<Rightarrow> fsys \<Rightarrow> string option" where
  "ensure_installed ce fs =
     (case ck_resolve ce of
        Some err \<Rightarrow> Some err
      | None \<Rightarrow>
     (case ck_load ce of
        Some err \<Rightarrow> Some err
      | None \<Rightarrow>
          if fst (ck_doctor ce fs) = 2
          then Some ''agent not healthy pre-reboot (doctor exit 2); install/repair before arming reboot-survival''
          else None))"

definition runRebootSurvivalCheck :: "check_env \<Rightarrow> bool \<Rightarrow> machine \<Rightarrow> machine \<times> check_result" where
  "runRebootSurvivalCheck ce allowReboot m =
     (case ck_state_path ce of
        Some err \<Rightarrow> (m, \<lparr>cr_Name = ''reboot-survival'', cr_State = ''fail'', cr_Raw = ''resolve reboot state path: '' @ err\<rparr>)
      | None \<Rightarrow>
          let (rw, cr) = ResumeOrArm (ck_enc ce) (ck_dec ce) (ck_rb_fails ce) (ck_now ce)
            \<lparr>rs_Target = ''this-machine'', rs_AllowReboot = allowReboot,
             rs_EnsureInstalled = Some (ensure_installed ce (mc_fs m)), rs_TriggerReboot = Some (ck_shutdown ce),
             rs_VerifyResurrected = Some (realServiceLiveness ce (mc_fs m))\<rparr> (ck_runID ce) [] (mc_reboot m)
          in (m\<lparr>mc_reboot := rw\<rparr>, cr))"

definition runSelfUpdateCheck :: check_result where
  "runSelfUpdateCheck = \<lparr>cr_Name = ''self-update'', cr_State = ''warn'',
     cr_Raw = ''self-update orchestration is built + unit-tested (happy + rollback) with faked artifacts; ''
       @ ''the real download/checksum/atomic-swap against live release artifacts is the deferred ''
       @ ''ready-for-human real-machine exercise (#111). Not run here.''\<rparr>"

definition runDogfoodCheck :: "string \<Rightarrow> check_result" where
  "runDogfoodCheck target =
     (if target = [] \<or> target = ''this-machine'' then
        \<lparr>cr_Name = ''dogfood'', cr_State = ''warn'',
         cr_Raw = ''dogfood needs a remote --target <agent-name>; the harness + classifier are built + unit-tested with fakes. Real cross-machine dogfood (live CP + agents + plain-ssh control) is the deferred ready-for-human exercise (#112). Not run here.''\<rparr>
      else dogfood_CheckResult (RunDogfood
        \<lparr>dg_Target = target, dg_ControlConfigured = False, dg_PlainSSH = None,
         dg_UnclusterSSH = Some (False, ''real `uncluster ssh` dogfood probe is the deferred ready-for-human exercise (#112)'')\<rparr>))"

definition makeCheckRunner :: "check_env \<Rightarrow> bool \<Rightarrow> string \<Rightarrow> string \<Rightarrow> machine \<Rightarrow> machine \<times> check_result" where
  "makeCheckRunner ce allowReboot target name m =
     (if name = ''doctor'' then (m, runDoctorCheck ce m)
      else if name = ''bounded-fixture'' then
        (let (fs', cr) = RunBoundedFixture (ck_fs_fails ce) (ck_work ce) False (mc_fs m) in (m\<lparr>mc_fs := fs'\<rparr>, cr))
      else if name = ''install-smoke'' then runInstallSmokeCheck ce m
      else if name = ''reboot-survival'' then runRebootSurvivalCheck ce allowReboot m
      else if name = ''self-update'' then (m, runSelfUpdateCheck)
      else if name = ''dogfood'' then (m, runDogfoodCheck target)
      else (m, \<lparr>cr_Name = name, cr_State = ''fail'', cr_Raw = ''unknown check '' @ ck_quote ce name
        @ '' (wired checks: doctor, bounded-fixture, install-smoke, reboot-survival, self-update, dogfood)''\<rparr>))"

text \<open>\<open>head\<close> and \<open>status\<close> are the outputs of the two git commands, \<^term>\<open>None\<close> their failure.\<close>

definition gitCommitDirty :: "string option \<Rightarrow> string option \<Rightarrow> string \<times> bool" where
  "gitCommitDirty head status =
     (case head of
        None \<Rightarrow> (''unknown'', False)
      | Some out \<Rightarrow>
          (case status of
             None \<Rightarrow> (trim_space out, False)
           | Some st \<Rightarrow> (trim_space out, trim_space st \<noteq> [])))"

record validate_flags =
  vf_tier :: string
  vf_target :: string
  vf_checks :: "string list"
  vf_safety :: string
  vf_allow_mutate :: bool
  vf_allow_reboot :: bool
  vf_evidence_root :: string
  vf_force :: bool

datatype cmd_outcome =
    CmdBadSafety safety_error
  | CmdNoHome
  | CmdSkipped
  | CmdError run_error
  | CmdDone run_result

text \<open>\<open>git\<close> is the outcome of \<^verbatim>\<open>gitCommitDirty\<close>.\<close>

definition validate_cmd :: "json_lib \<Rightarrow> run_env \<Rightarrow> check_env \<Rightarrow> string \<times> bool \<Rightarrow> validate_flags \<Rightarrow> machine vworld \<Rightarrow>
    machine vworld \<times> cmd_outcome" where
  "validate_cmd jl env ce git fl w =
     (case ParseSafetyClass (vf_safety fl) of
        Inl e \<Rightarrow> (w, CmdBadSafety e)
      | Inr sc \<Rightarrow>
          let evidenceRt = (if vf_evidence_root fl = [] then DefaultEvidenceRoot env else vf_evidence_root fl) in
          case DefaultBreadcrumbPath env of
            None \<Rightarrow> (w, CmdNoHome)
          | Some bcPath \<Rightarrow>
              if \<not> vf_force fl \<and>
                 (case ReadBreadcrumbs jl (vw_log w) of
                    None \<Rightarrow> False
                  | Some bcs \<Rightarrow> ShouldSkip bcs \<lparr>sq_Commit = fst git, sq_Dirty = snd git, sq_Tier = vf_tier fl,
                      sq_Target = vf_target fl, sq_Checks = vf_checks fl\<rparr>)
              then (w, CmdSkipped)
              else case Run jl (env\<lparr>rv_commit := Some git\<rparr>)
                     \<lparr>rn_Tier = vf_tier fl, rn_Target = vf_target fl, rn_Checks = vf_checks fl, rn_Safety = sc,
                      rn_AllowMutate = vf_allow_mutate fl, rn_AllowReboot = vf_allow_reboot fl,
                      rn_EvidenceRoot = evidenceRt, rn_BreadcrumbPath = bcPath, rn_LockPath = []\<rparr>
                     (makeCheckRunner ce (vf_allow_reboot fl) (vf_target fl)) w of
                (w', Inl e) \<Rightarrow> (w', CmdError e)
              | (w', Inr res) \<Rightarrow> (w', CmdDone res))"

section \<open>Evidence and log hold no token\<close>

definition token_free :: "string \<Rightarrow> bool" where
  "token_free s \<longleftrightarrow> (\<forall>t p q. plain_token t \<longrightarrow> s \<noteq> p @ token_string t @ q)"

lemma token_free_redacted: "token_free (RedactSecrets s)"
  using no_token_anywhere by (auto simp: token_free_def)

lemma token_free_take: "token_free s \<Longrightarrow> token_free (take n s)"
  unfolding token_free_def by (metis append.assoc append_take_drop_id)

lemma token_free_newline:
  assumes "token_free s"
  shows "token_free (s @ [CHR 0x0A])"
proof -
  have "False" if t: "plain_token t" "s @ [CHR 0x0A] = p @ token_string t @ q" for t p q
  proof (cases q rule: rev_cases)
    case Nil
    then have "last (s @ [CHR 0x0A]) = last (t_secret t)" "t_secret t \<noteq> []"
      unfolding t(2) using t(1) by (auto simp: token_string_def plain_token_def)
    then have "word_char (CHR 0x0A)" using t(1) by (auto simp: plain_token_def list_all_iff)
    then show False by (simp add: word_char_def)
  next
    case (snoc q' c)
    then have "s = p @ token_string t @ q'" using t(2) by (metis append.assoc append1_eq_conv)
    then show False using assms t(1) by (auto simp: token_free_def)
  qed
  then show ?thesis by (auto simp: token_free_def)
qed

definition files_clean :: "(string \<times> string) list \<Rightarrow> 'm vworld \<Rightarrow> bool" where
  "files_clean old w \<longleftrightarrow> (\<forall>(p, s) \<in> set (vw_files w). (p, s) \<in> set old \<or> token_free s)"

lemma set_update: "x \<in> set (AList.update k v al) \<Longrightarrow> x = (k, v) \<or> x \<in> set al"
  by (induction al) (auto split: if_splits)

lemma writeRedacted_clean: "files_clean old w \<Longrightarrow> files_clean old (fst (writeRedacted env p s w))"
  using token_free_redacted token_free_take
  by (auto simp: files_clean_def writeRedacted_def split: option.splits dest!: set_update)

lemma writeRedacted_frame:
  "vw_log (fst (writeRedacted env p s w)) = vw_log w" "vw_machine (fst (writeRedacted env p s w)) = vw_machine w"
  "vw_lock (fst (writeRedacted env p s w)) = vw_lock w" "vw_ran (fst (writeRedacted env p s w)) = vw_ran w"
  by (auto simp: writeRedacted_def split: option.splits)

text \<open>What writing the evidence keeps: the log, the machine, the lock and the history.\<close>

definition same_rest :: "'m vworld \<Rightarrow> 'm vworld \<Rightarrow> bool" where
  "same_rest w w' \<longleftrightarrow> vw_log w' = vw_log w \<and> vw_machine w' = vw_machine w \<and> vw_lock w' = vw_lock w \<and> vw_ran w' = vw_ran w"

lemma same_rest_trans: "same_rest a b \<Longrightarrow> same_rest b c \<Longrightarrow> same_rest a c"
  by (simp add: same_rest_def)

lemma writeRedacted_keeps:
  assumes "writeRedacted env p s w = (w', b)"
  shows "same_rest w w' \<and> (files_clean old w \<longrightarrow> files_clean old w')"
  using writeRedacted_frame [of env p s w] writeRedacted_clean [of old w env p s] assms by (simp add: same_rest_def)

lemma write_raws_keeps:
  "write_raws env dir rs w = (w', e) \<Longrightarrow> same_rest w w' \<and> (files_clean old w \<longrightarrow> files_clean old w')"
proof (induction rs arbitrary: w)
  case Nil
  then show ?case by (simp add: same_rest_def)
next
  case (Cons c rs)
  let ?p = "path_join dir (''check-'' @ sanitizeName (cr_Name c) @ ''.out'')"
  obtain w1 b where wr: "writeRedacted env ?p (cr_Raw c) w = (w1, b)" by fastforce
  note k = writeRedacted_keeps [OF wr, of old]
  show ?case
  proof (cases "cr_Raw c = []")
    case True
    then show ?thesis using Cons by simp
  next
    case False
    then show ?thesis using Cons.prems Cons.IH [of w1] wr k same_rest_trans by (cases b) auto
  qed
qed

lemma writeEvidence_keeps:
  assumes "writeEvidence jl env dir m rs w = (w', e)"
  shows "same_rest w w' \<and> (files_clean old w \<longrightarrow> files_clean old w')"
proof -
  let ?sum = "jl_summary jl (mf_RunID m) (mf_Passed m) (map (\<lambda>c. (cr_Name c, cr_State c)) rs)"
  obtain w1 b1 where 1: "writeRedacted env (path_join dir ''manifest.json'') (jl_manifest jl m) w = (w1, b1)" by fastforce
  obtain w2 b2 where 2: "writeRedacted env (path_join dir ''summary.json'') ?sum w1 = (w2, b2)" by fastforce
  have k: "same_rest w w1" "same_rest w w2" "files_clean old w \<longrightarrow> files_clean old w1 \<and> files_clean old w2"
    using writeRedacted_keeps [OF 1, of old] writeRedacted_keeps [OF 2, of old] same_rest_trans by auto
  have "w' = w \<or> w' = w1 \<or> w' = w2 \<or> write_raws env dir rs w2 = (w', e)"
    using assms 1 2 by (cases b1; cases b2) (auto simp: writeEvidence_def split: if_splits)
  then show ?thesis using k write_raws_keeps [of env dir rs w2 w' e old] same_rest_trans
    by (auto simp: same_rest_def)
qed

lemma run_checks_spec:
  "run_checks check ns w = (w', rs) \<Longrightarrow>
     vw_log w' = vw_log w \<and> vw_lock w' = vw_lock w \<and> vw_files w' = vw_files w
     \<and> vw_ran w' = vw_ran w @ map (\<lambda>n. (n, read_lock (vw_lock w))) ns \<and> length rs = length ns"
proof (induction ns arbitrary: w w' rs)
  case (Cons n ns)
  then show ?case by (fastforce simp: Let_def split: prod.splits)
qed simp

lemma appendBreadcrumb_spec:
  assumes "appendBreadcrumb jl env r bc w = (w', e)"
  shows "\<exists>s. token_free s \<and> (w' = w \<or> w' = w\<lparr>vw_log := Some ((case vw_log w of None \<Rightarrow> [] | Some l \<Rightarrow> l) @ s)\<rparr>)"
proof -
  define line where "line = RedactSecrets (jl_breadcrumb jl bc) @ [CHR 0x0A]"
  have "token_free (take n line)" for n
    unfolding line_def by (intro token_free_take token_free_newline token_free_redacted)
  moreover have "w' = w \<or> (\<exists>n. w' = w\<lparr>vw_log := Some ((case vw_log w of None \<Rightarrow> [] | Some l \<Rightarrow> l) @ take n line)\<rparr>)"
    using assms unfolding appendBreadcrumb_def Let_def line_def [symmetric]
    by (auto split: option.splits if_splits intro: exI [of _ "length line"])
  ultimately show ?thesis by blast
qed

text \<open>What one run does to the log, the files, the lock and the history.\<close>

lemma run_body_spec:
  assumes "run_body jl env r check w = (w', res)"
  shows "files_clean (vw_files w) w'
    \<and> (\<exists>s. token_free s \<and> (vw_log w' = vw_log w \<or> vw_log w' = Some ((case vw_log w of None \<Rightarrow> [] | Some l \<Rightarrow> l) @ s)))
    \<and> vw_lock w' = vw_lock w \<and> vw_ran w' = vw_ran w @ map (\<lambda>n. (n, read_lock (vw_lock w))) (rn_Checks r)
    \<and> vw_machine w' = vw_machine (fst (run_checks check (rn_Checks r) w))
    \<and> (case res of Inl _ \<Rightarrow> True
       | Inr x \<Rightarrow> res_Passed x = list_all (\<lambda>cr. cr_State cr \<noteq> ''fail'') (res_Checks x)
           \<and> res_ExitCode x = (if res_Passed x then 0 else 1) \<and> length (res_Checks x) = length (rn_Checks r))"
proof -
  obtain w1 rs where c: "run_checks check (rn_Checks r) w = (w1, rs)" by fastforce
  note cs = run_checks_spec [OF c]
  have fc: "files_clean (vw_files w) w1" using cs by (auto simp: files_clean_def)
  obtain commit dirty where cd: "(case rv_commit env of None \<Rightarrow> ([], False) | Some cd \<Rightarrow> cd) = (commit, dirty)" by fastforce
  obtain dir m where "run_body jl env r check w =
      (case writeEvidence jl env dir m rs w1 of
         (w2, Some err) \<Rightarrow> (w2, Inl (RunEvidence err))
       | (w2, None) \<Rightarrow>
           (case appendBreadcrumb jl env r
               \<lparr>bc_TS = unix_of (rv_now env), bc_Commit = commit, bc_Dirty = dirty, bc_Tier = rn_Tier r,
                bc_Target = rn_Target r, bc_Checks = rn_Checks r,
                bc_Result = (if list_all (\<lambda>cr. cr_State cr \<noteq> ''fail'') rs then ''pass'' else ''fail''), bc_EvidencePath = dir\<rparr> w2 of
              (w3, Some err) \<Rightarrow> (w3, Inl (RunBreadcrumb err))
            | (w3, None) \<Rightarrow> (w3, Inr \<lparr>res_Passed = list_all (\<lambda>cr. cr_State cr \<noteq> ''fail'') rs,
                  res_ExitCode = (if list_all (\<lambda>cr. cr_State cr \<noteq> ''fail'') rs then 0 else 1),
                  res_EvidencePath = dir, res_Checks = rs\<rparr>)))"
    unfolding run_body_def Let_def c cd prod.case by blast
  note b = this
  obtain w2 e2 where ev: "writeEvidence jl env dir m rs w1 = (w2, e2)" by fastforce
  note k = writeEvidence_keeps [OF ev, of "vw_files w"]
  have app: "files_clean (vw_files w) w3 \<and> vw_machine w3 = vw_machine w2 \<and> vw_lock w3 = vw_lock w2 \<and> vw_ran w3 = vw_ran w2
      \<and> (\<exists>s. token_free s \<and> (vw_log w3 = vw_log w2 \<or> vw_log w3 = Some ((case vw_log w2 of None \<Rightarrow> [] | Some l \<Rightarrow> l) @ s)))"
    if "appendBreadcrumb jl env r bc w2 = (w3, e)" "files_clean (vw_files w) w2" for bc w3 e
    using appendBreadcrumb_spec [OF that(1)] that(2) by (auto simp: files_clean_def)
  have cl: "files_clean (vw_files w) w2" "same_rest w1 w2" using k fc by simp_all
  have tf0: "token_free (RedactSecrets [])" by (rule token_free_redacted)
  show ?thesis
  proof (cases e2)
    case (Some err)
    then show ?thesis using assms b ev cl cs tf0 c by (auto simp: same_rest_def)
  next
    case None
    then show ?thesis using assms b ev cl cs app c by (auto simp: same_rest_def split: prod.splits option.splits)
  qed
qed

text \<open>No token \<^verbatim>\<open>Generate\<close> can produce occurs in the text.\<close>

definition generated_free :: "string \<Rightarrow> bool" where
  "generated_free s \<longleftrightarrow> (\<forall>ib sb kind t p q. Generate (Some ib) (Some sb) kind = Inr t \<and> length ib = 10 \<and> length sb = 32
     \<longrightarrow> s \<noteq> p @ token_string t @ q)"

lemma token_free_generated: "token_free s \<Longrightarrow> generated_free s"
  using generated_plain by (fastforce simp: token_free_def generated_free_def)

text \<open>\<open>Run\<close> is the body, between taking the lock and releasing it for a class above inspect.\<close>

lemma Run_cases:
  assumes "Run jl env r check w = (w', res)"
  obtains e where "CheckSafetyAllowed (rn_Safety r) (rn_AllowMutate r) (rn_AllowReboot r) = Inl e" "w' = w" "res = Inl (RunRefused e)"
  | "rn_Safety r = SafetyInspect" "run_body jl env r check w = (w', res)"
  | lk e where "w' = w\<lparr>vw_lock := lk\<rparr>" "res = Inl e" "\<exists>le. e = RunPath \<or> e = RunLock le"
  | lk tok w1 where "AcquireLock (rv_acquire env) (rv_token env) (vw_lock w) = (lk, Inr tok)"
      "run_body jl env r check (w\<lparr>vw_lock := lk\<rparr>) = (w1, res)"
      "w' = w1\<lparr>vw_lock := fst (Release (rv_release env) tok (vw_lock w1))\<rparr>"
proof (cases "CheckSafetyAllowed (rn_Safety r) (rn_AllowMutate r) (rn_AllowReboot r)")
  case (Inl e)
  then show ?thesis using that(1) assms by (simp add: Run_def)
next
  case (Inr u)
  obtain lk a where ac: "AcquireLock (rv_acquire env) (rv_token env) (vw_lock w) = (lk, a)" by fastforce
  obtain w1 res1 where rb: "run_body jl env r check (w\<lparr>vw_lock := lk\<rparr>) = (w1, res1)" by fastforce
  show ?thesis
  proof (cases "rn_Safety r = SafetyInspect \<or> rn_LockPath r = [] \<and> DefaultLockPath env = None")
    case True
    then show ?thesis using that(2) that(3) [of "vw_lock w" RunPath] assms Inr by (auto simp: Run_def split: if_splits)
  next
    case False
    then show ?thesis using that(3) [of lk] that(4) [of lk] assms Inr ac rb
      by (cases a) (auto simp: Run_def Let_def)
  qed
qed


lemma AcquireLock_own:
  assumes "AcquireLock env tok fs = (fs', Inr lk)"
  shows "lk = tok \<and> read_lock fs' = Some (Some \<lparr>li_PID = le_pid env, li_TS = unix_of (le_now env), li_Token = tok\<rparr>)"
proof -
  have t: "lk = tok \<and> read_lock g' = Some (Some \<lparr>li_PID = le_pid env, li_TS = unix_of (le_now env), li_Token = tok\<rparr>)"
    if "tryCreateLock env tok g = (g', Inr lk)" for g g'
    using that by (auto simp: tryCreateLock_def create_excl_def read_lock_def split: if_splits option.splits)
  show ?thesis using assms t
    by (auto simp: AcquireLock_def split: if_splits prod.splits sum.splits bool.splits)
qed

text \<open>A run whose class is not authorised changes nothing. A run that reports a verdict ran
  its checks in order, passed exactly if none of them failed and exits with 0 exactly if it
  passed; above the inspect class it had the lock file with its own token during every check, and
  has removed it again if no call on it failed.\<close>

theorem Run_verdict:
  assumes "Run jl env r check w = (w', res)"
  shows "case CheckSafetyAllowed (rn_Safety r) (rn_AllowMutate r) (rn_AllowReboot r) of
      Inl e \<Rightarrow> w' = w \<and> res = Inl (RunRefused e)
    | Inr _ \<Rightarrow> (case res of Inl _ \<Rightarrow> True | Inr x \<Rightarrow>
        res_Passed x = list_all (\<lambda>cr. cr_State cr \<noteq> ''fail'') (res_Checks x)
        \<and> res_ExitCode x = (if res_Passed x then 0 else 1) \<and> length (res_Checks x) = length (rn_Checks r)
        \<and> (\<exists>f. vw_ran w' = vw_ran w @ map (\<lambda>n. (n, f)) (rn_Checks r)
             \<and> (rn_Safety r \<noteq> SafetyInspect \<longrightarrow>
                  f = Some (Some \<lparr>li_PID = le_pid (rv_acquire env), li_TS = unix_of (le_now (rv_acquire env)),
                                  li_Token = rv_token env\<rparr>)
                  \<and> ((\<forall>c. \<not> le_fails (rv_release env) c) \<longrightarrow> read_lock (vw_lock w') = None))))"
proof (rule Run_cases [OF assms])
  assume i: "rn_Safety r = SafetyInspect" and b: "run_body jl env r check w = (w', res)"
  show ?thesis using run_body_spec [OF b] i by (auto simp: CheckSafetyAllowed_def split: sum.splits)
next
  fix lk tok w1
  assume a: "AcquireLock (rv_acquire env) (rv_token env) (vw_lock w) = (lk, Inr tok)"
    and b: "run_body jl env r check (w\<lparr>vw_lock := lk\<rparr>) = (w1, res)"
    and w': "w' = w1\<lparr>vw_lock := fst (Release (rv_release env) tok (vw_lock w1))\<rparr>"
  note own = AcquireLock_own [OF a] and bs = run_body_spec [OF b]
  have rel: "read_lock (fst (Release (rv_release env) tok lk)) = None" if "\<forall>c. \<not> le_fails (rv_release env) c"
    using own that by (auto simp: Release_def read_lock_def split: option.splits)
  show ?thesis
  proof (cases "CheckSafetyAllowed (rn_Safety r) (rn_AllowMutate r) (rn_AllowReboot r)")
    case (Inl e)
    then show ?thesis using assms by (simp add: Run_def)
  next
    case (Inr u)
    then show ?thesis using own bs rel w' by (auto split: sum.splits)
  qed
qed (use assms in \<open>auto simp: Run_def split: sum.splits\<close>)

section \<open>Which runs are skipped\<close>

definition later :: "breadcrumb option \<Rightarrow> breadcrumb \<Rightarrow> breadcrumb option" where
  "later best bc = (case best of None \<Rightarrow> Some bc | Some b \<Rightarrow> if bc_TS b \<le> bc_TS bc then Some bc else Some b)"

lemma best_match_foldl: "best_match q best bcs = foldl later best (filter (skip_match q) bcs)"
  by (induction q best bcs rule: best_match.induct) (auto simp: later_def split: option.splits)

lemma later_simps [simp]:
  "later None bc = Some bc" "later (Some b) bc = (if bc_TS b \<le> bc_TS bc then Some bc else Some b)"
  by (simp_all add: later_def)

text \<open>The latest of the breadcrumbs with the greatest time stamp.\<close>

definition latest :: "breadcrumb list \<Rightarrow> breadcrumb" where
  "latest bcs = last (filter (\<lambda>b. bc_TS b = Max (bc_TS ` set bcs)) bcs)"

lemma foldl_later: "bcs \<noteq> [] \<Longrightarrow> foldl later None bcs = Some (latest bcs) \<and> bc_TS (latest bcs) = Max (bc_TS ` set bcs)"
proof (induction bcs rule: rev_induct)
  case (snoc b bcs)
  show ?case
  proof (cases "bcs = []")
    case True
    then show ?thesis by (simp add: latest_def)
  next
    case False
    let ?m = "Max (bc_TS ` set bcs)"
    have ih: "foldl later None bcs = Some (latest bcs)" "bc_TS (latest bcs) = ?m" using snoc False by auto
    have mx: "Max (bc_TS ` set (bcs @ [b])) = max (bc_TS b) ?m" using False by (simp add: Max_insert)
    show ?thesis
    proof (cases "?m \<le> bc_TS b")
      case True
      then show ?thesis using ih mx by (simp add: latest_def max_def)
    next
      case le: False
      then have "filter (\<lambda>x. bc_TS x = max (bc_TS b) ?m) (bcs @ [b]) = filter (\<lambda>x. bc_TS x = ?m) bcs"
        by (simp add: max_def)
      then show ?thesis using ih le unfolding latest_def mx by (simp add: max_def)
    qed
  qed
qed simp

definition check_names :: "string list \<Rightarrow> bool" where
  "check_names cs \<longleftrightarrow> (\<forall>c \<in> set cs. c \<noteq> [] \<and> CHR '','' \<notin> set c)"

lemma join_names_inject:
  assumes "check_names xs" "check_names ys" "join_with '','' xs = join_with '','' ys"
  shows "xs = ys"
proof -
  have e: "split_char (CHR '','') (join_with '','' cs) = (if cs = [] then [[]] else cs)" if "check_names cs" for cs
    using that split_char_join_with [of "CHR '',''" cs] by (auto simp: check_names_def list_all_iff)
  have "(if xs = [] then [[]] else xs) = (if ys = [] then [[]] else ys)"
    using e [OF assms(1)] e [OF assms(2)] assms(3) by simp
  then show ?thesis using assms(1,2) by (auto simp: check_names_def split: if_splits)
qed

lemma normalizedChecks_eq:
  assumes "check_names xs" "check_names ys"
  shows "normalizedChecks xs = normalizedChecks ys \<longleftrightarrow> mset xs = mset ys"
proof
  assume "normalizedChecks xs = normalizedChecks ys"
  then have "sort xs = sort ys"
    using join_names_inject [of "sort xs" "sort ys"] assms by (simp add: normalizedChecks_def check_names_def)
  then show "mset xs = mset ys" by (metis mset_sort)
next
  assume "mset xs = mset ys"
  then have "sort xs = sort ys" by (metis properties_for_sort mset_sort sorted_sort)
  then show "normalizedChecks xs = normalizedChecks ys" by (simp add: normalizedChecks_def)
qed

lemma latest_unique:
  assumes "bcs = us @ b # vs" "\<forall>x \<in> set us. bc_TS x \<le> bc_TS b" "\<forall>x \<in> set vs. bc_TS x < bc_TS b"
  shows "latest bcs = b"
proof -
  have "Max (bc_TS ` set bcs) = bc_TS b"
    using assms by (intro Max_eqI) (auto intro: less_imp_le)
  moreover have "filter (\<lambda>x. bc_TS x = bc_TS b) vs = []" using assms(3) by (auto simp: filter_empty_conv)
  ultimately show ?thesis by (simp add: latest_def assms(1))
qed

lemma latest_split:
  "bcs \<noteq> [] \<Longrightarrow> \<exists>us vs. bcs = us @ latest bcs # vs \<and> (\<forall>x \<in> set us. bc_TS x \<le> bc_TS (latest bcs))
     \<and> (\<forall>x \<in> set vs. bc_TS x < bc_TS (latest bcs))"
proof (induction bcs rule: rev_induct)
  case (snoc b bcs)
  show ?case
  proof (cases "bcs = [] \<or> bc_TS (latest bcs) \<le> bc_TS b")
    case True
    have le: "\<forall>x \<in> set bcs. bc_TS x \<le> bc_TS b"
    proof (cases "bcs = []")
      case False
      then obtain us vs where d: "bcs = us @ latest bcs # vs" "\<forall>x \<in> set us. bc_TS x \<le> bc_TS (latest bcs)"
        "\<forall>x \<in> set vs. bc_TS x < bc_TS (latest bcs)" using snoc.IH by blast
      have "bc_TS x \<le> bc_TS (latest bcs)" if "x \<in> set bcs" for x
        using that d(2,3) by (subst (asm) d(1)) auto
      then show ?thesis using True False by fastforce
    qed simp
    then have "latest (bcs @ [b]) = b" using latest_unique [of _ bcs b "[]"] by simp
    then show ?thesis using le by (intro exI [of _ bcs] exI [of _ "[]"]) auto
  next
    case False
    then obtain us vs where d: "bcs = us @ latest bcs # vs" "\<forall>x \<in> set us. bc_TS x \<le> bc_TS (latest bcs)"
      "\<forall>x \<in> set vs. bc_TS x < bc_TS (latest bcs)" using snoc.IH by blast
    have "bcs @ [b] = us @ latest bcs # vs @ [b]" "\<forall>x \<in> set (vs @ [b]). bc_TS x < bc_TS (latest bcs)"
      using d False by auto
    then show ?thesis using latest_unique d(2) by metis
  qed
qed simp

lemma filter_split:
  "filter P bcs = us @ b # vs \<Longrightarrow> \<exists>xs ys. bcs = xs @ b # ys \<and> P b \<and> filter P xs = us \<and> filter P ys = vs"
proof (induction bcs arbitrary: us)
  case (Cons c bcs)
  show ?case
  proof (cases "P c \<and> us = []")
    case True
    then have "c # bcs = [] @ b # bcs \<and> P b \<and> filter P [] = us \<and> filter P bcs = vs" using Cons.prems by auto
    then show ?thesis by blast
  next
    case False
    then have "filter P bcs = (if P c then tl us else us) @ b # vs" "P c \<Longrightarrow> us = c # tl us"
      using Cons.prems by (cases us; auto split: if_splits)+
    then obtain xs ys where "bcs = xs @ b # ys" "P b" "filter P xs = (if P c then tl us else us)" "filter P ys = vs"
      "P c \<Longrightarrow> us = c # tl us" using Cons.IH by blast
    then have "c # bcs = (c # xs) @ b # ys \<and> P b \<and> filter P (c # xs) = us \<and> filter P ys = vs" by auto
    then show ?thesis by blast
  qed
qed simp

definition same_run :: "skip_query \<Rightarrow> breadcrumb \<Rightarrow> bool" where
  "same_run q bc \<longleftrightarrow> bc_Dirty bc = False \<and> bc_Commit bc = sq_Commit q \<and> bc_Tier bc = sq_Tier q
     \<and> bc_Target bc = sq_Target q \<and> mset (bc_Checks bc) = mset (sq_Checks q)"

text \<open>An invocation is skipped exactly if the tree is clean and the log holds a pass, recorded
  on a clean tree for the same commit, tier, target and the same checks in any order, that no
  record of such a run after it matches in age and none before it exceeds: the newest verdict
  decides.\<close>

theorem ShouldSkip_exact:
  assumes "check_names (sq_Checks q)" "\<forall>bc \<in> set prior. check_names (bc_Checks bc)"
  shows "ShouldSkip prior q \<longleftrightarrow> \<not> sq_Dirty q \<and> (\<exists>xs bc ys. prior = xs @ bc # ys \<and> same_run q bc \<and> bc_Result bc = ''pass''
     \<and> (\<forall>b \<in> set xs. same_run q b \<longrightarrow> bc_TS b \<le> bc_TS bc) \<and> (\<forall>b \<in> set ys. same_run q b \<longrightarrow> bc_TS b < bc_TS bc))"
proof -
  have "filter (skip_match q) prior = filter (same_run q) prior"
    using assms by (intro filter_cong) (auto simp: skip_match_def same_run_def normalizedChecks_eq)
  then have s: "ShouldSkip prior q \<longleftrightarrow> \<not> sq_Dirty q \<and> filter (same_run q) prior \<noteq> []
      \<and> bc_Result (latest (filter (same_run q) prior)) = ''pass''"
    using foldl_later [of "filter (same_run q) prior"]
    by (cases "filter (same_run q) prior = []") (auto simp: ShouldSkip_def best_match_foldl)
  show ?thesis
  proof
    assume "ShouldSkip prior q"
    then show "\<not> sq_Dirty q \<and> (\<exists>xs bc ys. prior = xs @ bc # ys \<and> same_run q bc \<and> bc_Result bc = ''pass''
       \<and> (\<forall>b \<in> set xs. same_run q b \<longrightarrow> bc_TS b \<le> bc_TS bc) \<and> (\<forall>b \<in> set ys. same_run q b \<longrightarrow> bc_TS b < bc_TS bc))"
      using s latest_split [of "filter (same_run q) prior"] filter_split by fastforce
  next
    assume "\<not> sq_Dirty q \<and> (\<exists>xs bc ys. prior = xs @ bc # ys \<and> same_run q bc \<and> bc_Result bc = ''pass''
       \<and> (\<forall>b \<in> set xs. same_run q b \<longrightarrow> bc_TS b \<le> bc_TS bc) \<and> (\<forall>b \<in> set ys. same_run q b \<longrightarrow> bc_TS b < bc_TS bc))"
    then obtain xs bc ys where a: "\<not> sq_Dirty q" "prior = xs @ bc # ys" "same_run q bc" "bc_Result bc = ''pass''"
      "\<forall>b \<in> set xs. same_run q b \<longrightarrow> bc_TS b \<le> bc_TS bc" "\<forall>b \<in> set ys. same_run q b \<longrightarrow> bc_TS b < bc_TS bc" by blast
    then have "latest (filter (same_run q) prior) = bc"
      by (intro latest_unique [of _ "filter (same_run q) xs" _ "filter (same_run q) ys"]) auto
    then show "ShouldSkip prior q" using s a by simp
  qed
qed

section \<open>The safety class does not bind the checks\<close>

text \<open>With the default safety class, no authorising flag and a clean configuration, the
  command \<^verbatim>\<open>validate --checks install-smoke\<close> performs the real installation on the machine, and
  does so without taking the validation lock: only the class of the flag is gated, not the check.\<close>

theorem install_runs_unauthorised:
  assumes "ck_resolve ce = None" "ck_load ce = None" "ck_exe ce = None" "ck_fs_fails ce = no_fs_faults"
    "ck_install ce (mc_fs (vw_machine w)) = (fs', None)" "fst (ck_doctor ce fs') \<noteq> 2"
    "DefaultBreadcrumbPath env = Some bcPath" "vw_log w = None"
    "fl = \<lparr>vf_tier = ''local'', vf_target = ''this-machine'', vf_checks = [''install-smoke''], vf_safety = ''inspect'',
       vf_allow_mutate = False, vf_allow_reboot = False, vf_evidence_root = [], vf_force = False\<rparr>"
    "validate_cmd jl env ce git fl w = (w', out)"
  shows "mc_fs (vw_machine w') = fs' \<and> vw_ran w' = vw_ran w @ [(''install-smoke'', read_lock (vw_lock w))]
    \<and> vw_lock w' = vw_lock w"
proof -
  let ?r = "\<lparr>rn_Tier = ''local'', rn_Target = ''this-machine'', rn_Checks = [''install-smoke''], rn_Safety = ''inspect'',
    rn_AllowMutate = False, rn_AllowReboot = False, rn_EvidenceRoot = DefaultEvidenceRoot env, rn_BreadcrumbPath = bcPath,
    rn_LockPath = []\<rparr>"
  let ?check = "makeCheckRunner ce False ''this-machine''" and ?env = "env\<lparr>rv_commit := Some git\<rparr>"
  have sc: "ParseSafetyClass ''inspect'' = Inr ''inspect''"
    by (simp add: ParseSafetyClass_def toLowerASCII_def lower_char_def safety_defs)
  have ns: "ReadBreadcrumbs jl (vw_log w) = Some []" using assms(8) by (simp add: ReadBreadcrumbs_def)
  have "fst (validate_cmd jl env ce git fl w) = fst (Run jl ?env ?r ?check w)"
    using sc ns assms(7,9) by (simp add: validate_cmd_def Let_def ShouldSkip_def split: prod.splits sum.splits)
  moreover have "Run jl ?env ?r ?check w = run_body jl ?env ?r ?check w"
    by (simp add: Run_def CheckSafetyAllowed_def SafetyInspect_def)
  ultimately have rb: "w' = fst (run_body jl ?env ?r ?check w)" using assms(10) by simp
  obtain res where rb': "run_body jl ?env ?r ?check w = (w', res)" using rb by (metis prod.collapse)
  have ok: "fst (let (code, json) = ck_doctor ce fs' in (code \<noteq> (2::nat), json))" using assms(6) by (simp add: case_prod_beta)
  obtain snap where "Snapshot no_fs_faults (ck_footprint ce) (mc_fs (vw_machine w)) = Inr snap"
    using Snapshot_no_faults by blast
  then have "mc_fs (fst (runInstallSmokeCheck ce (vw_machine w))) = fs'"
    using assms(1-5) ok by (simp add: runInstallSmokeCheck_def RunInstallSmoke_def Let_def case_prod_beta)
  then show ?thesis using run_body_spec [OF rb'] by (simp add: makeCheckRunner_def Let_def case_prod_beta)
qed

section \<open>An armed reboot check is never resumed\<close>

text \<open>The line of a breadcrumb is read back as the breadcrumb.\<close>

definition line_reads_back :: "json_lib \<Rightarrow> breadcrumb \<Rightarrow> bool" where
  "line_reads_back jl bc \<longleftrightarrow>
     (let l = RedactSecrets (jl_breadcrumb jl bc)
      in CHR 0x0A \<notin> set l \<and> length l < 1048576 \<and> trim_space l \<noteq> [] \<and> jl_unbreadcrumb jl (trim_space l) = Some bc)"

lemma ReadBreadcrumbs_one:
  assumes "line_reads_back jl bc"
  shows "ReadBreadcrumbs jl (Some (RedactSecrets (jl_breadcrumb jl bc) @ [CHR 0x0A])) = Some [bc]"
proof -
  let ?l = "RedactSecrets (jl_breadcrumb jl bc)"
  have "split_char (CHR 0x0A) (?l @ [CHR 0x0A]) = [?l, []]"
    using split_char_field [of "CHR 0x0A" ?l "[]"] assms by (simp add: line_reads_back_def Let_def)
  moreover have "trim_space [] = []" by (simp add: trim_space_def)
  ultimately show ?thesis using assms
    by (simp add: ReadBreadcrumbs_def line_reads_back_def Let_def map_filter_def)
qed

definition quiet_run :: "run_env \<Rightarrow> bool" where
  "quiet_run env \<longleftrightarrow> (\<forall>c. \<not> rv_fails env c) \<and> (\<forall>p. rv_write env p = None)"

lemma writeRedacted_quiet:
  "quiet_run env \<Longrightarrow> writeRedacted env p s w = (w\<lparr>vw_files := AList.update p (RedactSecrets s) (vw_files w)\<rparr>, True)"
  by (simp add: quiet_run_def writeRedacted_def)

lemma write_raws_quiet: "quiet_run env \<Longrightarrow> snd (write_raws env dir rs w) = None"
proof (induction rs arbitrary: w)
  case (Cons c rs)
  then show ?case by (simp add: writeRedacted_quiet)
qed simp

lemma writeEvidence_quiet: "quiet_run env \<Longrightarrow> snd (writeEvidence jl env dir m rs w) = None"
  by (simp add: writeEvidence_def writeRedacted_quiet write_raws_quiet) (simp add: quiet_run_def)

text \<open>Without failures a run appends its breadcrumb and reports its verdict.\<close>

lemma run_body_quiet:
  assumes "quiet_run env" "rn_BreadcrumbPath r \<noteq> []" "rv_commit env = Some (commit, dirty)" "rn_EvidenceRoot r \<noteq> []"
    "run_checks check (rn_Checks r) w = (w1, rs)" "run_body jl env r check w = (w', res)"
  shows "\<exists>x. res = Inr x \<and> res_Passed x = list_all (\<lambda>cr. cr_State cr \<noteq> ''fail'') rs
    \<and> vw_log w' = Some ((case vw_log w of None \<Rightarrow> [] | Some l \<Rightarrow> l) @ RedactSecrets (jl_breadcrumb jl
        \<lparr>bc_TS = unix_of (rv_now env), bc_Commit = commit, bc_Dirty = dirty, bc_Tier = rn_Tier r,
         bc_Target = rn_Target r, bc_Checks = rn_Checks r,
         bc_Result = (if list_all (\<lambda>cr. cr_State cr \<noteq> ''fail'') rs then ''pass'' else ''fail''),
         bc_EvidencePath = path_join (rn_EvidenceRoot r) (newRunID jl env)\<rparr>) @ [CHR 0x0A])"
proof -
  let ?m = "\<lparr>mf_RunID = newRunID jl env, mf_StartedAt = jl_rfc3339 jl (rv_now env), mf_Tier = rn_Tier r, mf_Target = rn_Target r,
      mf_Safety = rn_Safety r, mf_Commit = commit, mf_Dirty = dirty, mf_Checks = rs,
      mf_Passed = list_all (\<lambda>cr. cr_State cr \<noteq> ''fail'') rs\<rparr>"
  let ?dir = "path_join (rn_EvidenceRoot r) (newRunID jl env)"
  obtain w2 where ev: "writeEvidence jl env ?dir ?m rs w1 = (w2, None)"
    using writeEvidence_quiet [OF assms(1)] by (metis prod.collapse)
  have log: "vw_log w2 = vw_log w" using writeEvidence_keeps [OF ev] run_checks_spec [OF assms(5)] by (simp add: same_rest_def)
  have ap: "appendBreadcrumb jl env r bc w2 =
      (w2\<lparr>vw_log := Some ((case vw_log w2 of None \<Rightarrow> [] | Some l \<Rightarrow> l) @ RedactSecrets (jl_breadcrumb jl bc) @ [CHR 0x0A])\<rparr>, None)" for bc
    using assms(1,2) by (simp add: appendBreadcrumb_def quiet_run_def Let_def)
  show ?thesis using assms(3-6) ev ap log by (auto simp: run_body_def Let_def)
qed

lemma disruptive_class: "ParseSafetyClass ''disruptive'' = Inr ''disruptive''"
  by (simp add: ParseSafetyClass_def toLowerASCII_def lower_char_def safety_defs)

text \<open>\<^verbatim>\<open>validate --checks reboot-survival --safety disruptive --allow-reboot\<close> on a clean tree
  saves the armed state, reboots and records a pass. The same command after the reboot, which
  should resume and verify, is skipped because of that pass, whatever came back; the armed state
  stays on disk.\<close>

theorem armed_reboot_is_skipped:
  assumes "quiet_run env" "DefaultBreadcrumbPath env = Some bcPath" "bcPath \<noteq> []"
    "AcquireLock (rv_acquire env) (rv_token env) (vw_lock w) = (lk, Inr tok)"
    "ck_resolve ce = None" "ck_load ce = None" "ck_state_path ce = None" "fst (ck_doctor ce (mc_fs (vw_machine w))) \<noteq> 2"
    "ck_shutdown ce = None" "ck_rb_fails ce = (\<lambda>_. False)" "rw_file (mc_reboot (vw_machine w)) = None" "vw_log w = None"
    "fl = \<lparr>vf_tier = ''local'', vf_target = ''this-machine'', vf_checks = [''reboot-survival''], vf_safety = ''disruptive'',
       vf_allow_mutate = False, vf_allow_reboot = True, vf_evidence_root = [], vf_force = False\<rparr>"
    "line_reads_back jl \<lparr>bc_TS = unix_of (rv_now env), bc_Commit = commit, bc_Dirty = False, bc_Tier = ''local'',
       bc_Target = ''this-machine'', bc_Checks = [''reboot-survival''], bc_Result = ''pass'',
       bc_EvidencePath = path_join (DefaultEvidenceRoot env) (newRunID jl env)\<rparr>"
    "validate_cmd jl env ce (commit, False) fl w = (w1, out)"
  shows "(\<exists>x. out = CmdDone x \<and> res_Passed x) \<and> EvReboot \<in> set (rw_events (mc_reboot (vw_machine w1)))
    \<and> (\<exists>st. rw_file (mc_reboot (vw_machine w1)) = Some (ck_enc ce st) \<and> rb_Phase st = PhaseArmed)
    \<and> (DefaultBreadcrumbPath env2 \<noteq> None \<longrightarrow> validate_cmd jl env2 ce2 (commit, False) fl w1 = (w1, CmdSkipped))"
proof -
  let ?r = "\<lparr>rn_Tier = ''local'', rn_Target = ''this-machine'', rn_Checks = [''reboot-survival''], rn_Safety = ''disruptive'',
    rn_AllowMutate = False, rn_AllowReboot = True, rn_EvidenceRoot = DefaultEvidenceRoot env, rn_BreadcrumbPath = bcPath,
    rn_LockPath = []\<rparr>"
  let ?check = "makeCheckRunner ce True ''this-machine''" and ?env = "env\<lparr>rv_commit := Some (commit, False)\<rparr>"
  let ?w = "w\<lparr>vw_lock := lk\<rparr>"
  have lp: "DefaultLockPath ?env \<noteq> None" using assms(2) by (simp add: DefaultLockPath_def DefaultBreadcrumbPath_def split: if_splits option.splits)
  obtain m cr where ck: "makeCheckRunner ce True ''this-machine'' ''reboot-survival'' (vw_machine w) = (m, cr)" by fastforce
  have arm: "cr_State cr = ''ok''" "EvReboot \<in> set (rw_events (mc_reboot m))"
    "\<exists>st. rw_file (mc_reboot m) = Some (ck_enc ce st) \<and> rb_Phase st = PhaseArmed"
    using ck assms(5-11)
    by (auto simp: makeCheckRunner_def runRebootSurvivalCheck_def ensure_installed_def ResumeOrArm_def LoadRebootState_def
        Arm_def SaveRebootState_def Let_def)
  obtain w2 res where rb: "run_body jl ?env ?r ?check ?w = (w2, res)" by fastforce
  have rc: "run_checks ?check (rn_Checks ?r) ?w
      = (?w\<lparr>vw_machine := m, vw_ran := vw_ran ?w @ [(''reboot-survival'', read_lock (vw_lock ?w))]\<rparr>, [cr])"
    using ck by simp
  have q: "quiet_run ?env" "rn_BreadcrumbPath ?r \<noteq> []" "rv_commit ?env = Some (commit, False)" "rn_EvidenceRoot ?r \<noteq> []"
    using assms(1,3) by (simp_all add: quiet_run_def DefaultEvidenceRoot_def path_join_def)
  from run_body_quiet [OF q rc rb] arm(1) assms(12)
  obtain x where x: "res = Inr x" "res_Passed x" and log: "vw_log w2 = Some (RedactSecrets (jl_breadcrumb jl
      \<lparr>bc_TS = unix_of (rv_now env), bc_Commit = commit, bc_Dirty = False, bc_Tier = ''local'',
       bc_Target = ''this-machine'', bc_Checks = [''reboot-survival''], bc_Result = ''pass'',
       bc_EvidencePath = path_join (DefaultEvidenceRoot env) (newRunID jl env)\<rparr>) @ [CHR 0x0A])"
    by (auto simp: newRunID_def)
  have mach: "vw_machine w2 = m" using run_body_spec [OF rb] rc by simp
  have "ReadBreadcrumbs jl (vw_log w) = Some []" using assms(12) by (simp add: ReadBreadcrumbs_def)
  then have w1: "w1 = w2\<lparr>vw_lock := fst (Release (rv_release env) tok (vw_lock w2))\<rparr>" "out = CmdDone x"
    using assms(2,4,13,15) rb x(1) lp disruptive_class
    by (simp_all add: validate_cmd_def Run_def CheckSafetyAllowed_def safety_defs ShouldSkip_def Let_def)
  have "ShouldSkip [bc] q \<longleftrightarrow> \<not> sq_Dirty q \<and> skip_match q bc \<and> bc_Result bc = ''pass''" for bc q
    by (simp add: ShouldSkip_def)
  then have "validate_cmd jl env2 ce2 (commit, False) fl w1 = (w1, CmdSkipped)" if "DefaultBreadcrumbPath env2 \<noteq> None"
    using that w1(1) log ReadBreadcrumbs_one [OF assms(14)] assms(13) disruptive_class
    by (auto simp: validate_cmd_def skip_match_def)
  then show ?thesis using w1 x(2) arm mach by simp
qed

section \<open>Witnesses\<close>

definition demo_run_env :: run_env where
  "demo_run_env = (let le = \<lparr>le_pid = 1, le_now = 0, le_kill = (\<lambda>_. KillOK), le_fails = (\<lambda>_. False)\<rparr> in
     \<lparr>rv_now = 0, rv_rand = ''00ff'', rv_acquire = le, rv_release = le, rv_token = ''t'', rv_commit = Some (''abc'', False),
      rv_fails = (\<lambda>_. False), rv_write = (\<lambda>_. None), rv_tempdir = ''/tmp'', rv_xdg = [], rv_home = Some ''/home/u''\<rparr>)"

definition demo_bc :: breadcrumb where
  "demo_bc = \<lparr>bc_TS = 0, bc_Commit = ''abc'', bc_Dirty = False, bc_Tier = ''local'', bc_Target = ''this-machine'',
     bc_Checks = [''reboot-survival''], bc_Result = ''pass'', bc_EvidencePath = ''/tmp/uncluster-validate/0-00ff''\<rparr>"

definition demo_json :: json_lib where
  "demo_json = \<lparr>jl_manifest = (\<lambda>_. ''{}''), jl_summary = (\<lambda>_ _ _. ''{}''), jl_breadcrumb = (\<lambda>_. ''{}''),
     jl_unbreadcrumb = (\<lambda>_. Some demo_bc), jl_stamp = (\<lambda>_. ''0''), jl_rfc3339 = (\<lambda>_. ''0'')\<rparr>"

definition demo_machine :: machine where
  "demo_machine = \<lparr>mc_fs = (\<lambda>_. None), mc_reboot = \<lparr>rw_file = None, rw_events = []\<rparr>\<rparr>"

definition demo_vworld :: "machine vworld" where
  "demo_vworld = \<lparr>vw_machine = demo_machine, vw_lock = lk_fs demo_lock, vw_files = [], vw_log = None, vw_ran = []\<rparr>"

definition demo_check_env :: check_env where
  "demo_check_env = \<lparr>ck_resolve = None, ck_load = None, ck_exe = None, ck_state_path = None, ck_doctor = (\<lambda>_. (0, ''{}'')),
     ck_install = (\<lambda>fs. (fs(''/etc/ssh/ca.pub'' \<mapsto> NFile 420 ''key''), None)), ck_footprint = [''/etc/ssh/ca.pub''],
     ck_shutdown = None, ck_enc = (\<lambda>_. ''armed''), ck_dec = (\<lambda>_. None), ck_fs_fails = no_fs_faults,
     ck_rb_fails = (\<lambda>_. False), ck_work = None, ck_now = 0, ck_runID = ''0'', ck_quote = (\<lambda>s. s)\<rparr>"

definition demo_runner :: runner where
  "demo_runner = \<lparr>rn_Tier = ''local'', rn_Target = ''this-machine'', rn_Checks = [''x''], rn_Safety = ''bounded'',
     rn_AllowMutate = False, rn_AllowReboot = False, rn_EvidenceRoot = ''/e'', rn_BreadcrumbPath = ''/b'', rn_LockPath = ''/l''\<rparr>"

lemma demo_acquire:
  "AcquireLock (rv_acquire demo_run_env) (rv_token demo_run_env) (vw_lock demo_vworld) = (lk_fs demo_crashed, Inr ''t'')"
  by (simp add: AcquireLock_def tryCreateLock_def create_excl_def write_info_def demo_run_env_def demo_vworld_def demo_lock_def
      demo_crashed_def unix_of_def Let_def)

text \<open>A check that prints a token.\<close>

definition leaky_check :: "string \<Rightarrow> machine \<Rightarrow> machine \<times> check_result" where
  "leaky_check n m = (m, \<lparr>cr_Name = n, cr_State = ''ok'', cr_Raw = ''uct_cli_AAAAAAAAAAAAAAAA_BBBBBBBBBBBBBBBBBBBBBBBBBBBBBBBBBBBBBBBBBBBBBBBBBBBB''\<rparr>)"

lemma demo_run: "\<exists>w' x. Run demo_json demo_run_env demo_runner leaky_check demo_vworld = (w', Inr x) \<and> res_Passed x"
proof -
  have q: "quiet_run demo_run_env" "rn_BreadcrumbPath demo_runner \<noteq> []" "rv_commit demo_run_env = Some (''abc'', False)"
    "rn_EvidenceRoot demo_runner \<noteq> []"
    by (simp_all add: quiet_run_def demo_run_env_def demo_runner_def Let_def)
  let ?w = "demo_vworld\<lparr>vw_lock := lk_fs demo_crashed\<rparr>"
  obtain w1 rs where c: "run_checks leaky_check (rn_Checks demo_runner) ?w = (w1, rs)" by fastforce
  then have "list_all (\<lambda>cr. cr_State cr \<noteq> ''fail'') rs" by (auto simp: demo_runner_def leaky_check_def)
  moreover obtain w2 res where b: "run_body demo_json demo_run_env demo_runner leaky_check ?w = (w2, res)" by fastforce
  ultimately obtain x where "res = Inr x" "res_Passed x" using run_body_quiet [OF q c b] by auto
  moreover have "CheckSafetyAllowed (rn_Safety demo_runner) (rn_AllowMutate demo_runner) (rn_AllowReboot demo_runner) = Inr ()"
    "rn_Safety demo_runner \<noteq> SafetyInspect" "rn_LockPath demo_runner \<noteq> []"
    by (simp_all add: demo_runner_def CheckSafetyAllowed_def safety_defs)
  ultimately show ?thesis using b demo_acquire by (simp add: Run_def)
qed


theorem Run_verdict_witness:
  "\<exists>w' x. Run demo_json demo_run_env demo_runner leaky_check demo_vworld = (w', Inr x) \<and> res_Passed x
     \<and> vw_ran w' = [(''x'', Some (Some \<lparr>li_PID = 1, li_TS = 0, li_Token = ''t''\<rparr>))] \<and> read_lock (vw_lock w') = None"
proof -
  obtain w' x where r: "Run demo_json demo_run_env demo_runner leaky_check demo_vworld = (w', Inr x)" "res_Passed x"
    using demo_run by auto
  have c: "CheckSafetyAllowed (rn_Safety demo_runner) (rn_AllowMutate demo_runner) (rn_AllowReboot demo_runner) = Inr ()"
    "rn_Safety demo_runner \<noteq> SafetyInspect" "rn_Checks demo_runner = [''x'']" "vw_ran demo_vworld = []"
    "\<not> le_fails (rv_release demo_run_env) k" "le_pid (rv_acquire demo_run_env) = 1" "le_now (rv_acquire demo_run_env) = 0"
    "rv_token demo_run_env = ''t''" for k
    by (simp_all add: demo_runner_def CheckSafetyAllowed_def safety_defs demo_vworld_def demo_run_env_def Let_def)
  show ?thesis using Run_verdict [OF r(1)] c r by (auto simp: unix_of_def)
qed

theorem install_runs_unauthorised_witness:
  "mc_fs (vw_machine (fst (validate_cmd demo_json demo_run_env demo_check_env (''abc'', False)
      \<lparr>vf_tier = ''local'', vf_target = ''this-machine'', vf_checks = [''install-smoke''], vf_safety = ''inspect'',
       vf_allow_mutate = False, vf_allow_reboot = False, vf_evidence_root = [], vf_force = False\<rparr> demo_vworld))) ''/etc/ssh/ca.pub''
     = Some (NFile 420 ''key'')"
proof -
  let ?fl = "\<lparr>vf_tier = ''local'', vf_target = ''this-machine'', vf_checks = [''install-smoke''], vf_safety = ''inspect'',
       vf_allow_mutate = False, vf_allow_reboot = False, vf_evidence_root = [], vf_force = False\<rparr>"
  obtain w' out where r: "validate_cmd demo_json demo_run_env demo_check_env (''abc'', False) ?fl demo_vworld = (w', out)" by fastforce
  obtain bcp where b: "DefaultBreadcrumbPath demo_run_env = Some bcp"
    by (simp add: DefaultBreadcrumbPath_def demo_run_env_def Let_def)
  have "mc_fs (vw_machine w') = (mc_fs (vw_machine demo_vworld))(''/etc/ssh/ca.pub'' \<mapsto> NFile 420 ''key'')"
    using install_runs_unauthorised [OF _ _ _ _ _ _ b _ refl r] by (simp add: demo_check_env_def demo_vworld_def)
  then show ?thesis using r by simp
qed

theorem armed_reboot_is_skipped_witness:
  "\<exists>w1 x. validate_cmd demo_json demo_run_env demo_check_env (''abc'', False)
      \<lparr>vf_tier = ''local'', vf_target = ''this-machine'', vf_checks = [''reboot-survival''], vf_safety = ''disruptive'',
       vf_allow_mutate = False, vf_allow_reboot = True, vf_evidence_root = [], vf_force = False\<rparr> demo_vworld = (w1, CmdDone x)
    \<and> rw_file (mc_reboot (vw_machine w1)) = Some ''armed''
    \<and> validate_cmd demo_json demo_run_env demo_check_env (''abc'', False)
      \<lparr>vf_tier = ''local'', vf_target = ''this-machine'', vf_checks = [''reboot-survival''], vf_safety = ''disruptive'',
       vf_allow_mutate = False, vf_allow_reboot = True, vf_evidence_root = [], vf_force = False\<rparr> w1 = (w1, CmdSkipped)"
proof -
  let ?fl = "\<lparr>vf_tier = ''local'', vf_target = ''this-machine'', vf_checks = [''reboot-survival''], vf_safety = ''disruptive'',
       vf_allow_mutate = False, vf_allow_reboot = True, vf_evidence_root = [], vf_force = False\<rparr>"
  obtain w1 out where r: "validate_cmd demo_json demo_run_env demo_check_env (''abc'', False) ?fl demo_vworld = (w1, out)" by fastforce
  have q: "quiet_run demo_run_env" by (simp add: quiet_run_def demo_run_env_def Let_def)
  have b: "DefaultBreadcrumbPath demo_run_env = Some ''/home/u/.local/state/uncluster/validation.jsonl''"
    by (simp add: DefaultBreadcrumbPath_def demo_run_env_def Let_def path_join_def)
  have "RedactSecrets ''{}'' = ''{}''" "trim_space ''{}'' = ''{}''"
    by (simp_all add: RedactSecrets_id trim_space_clean)
  then have l: "line_reads_back demo_json \<lparr>bc_TS = unix_of (rv_now demo_run_env), bc_Commit = ''abc'', bc_Dirty = False,
      bc_Tier = ''local'', bc_Target = ''this-machine'', bc_Checks = [''reboot-survival''], bc_Result = ''pass'',
      bc_EvidencePath = path_join (DefaultEvidenceRoot demo_run_env) (newRunID demo_json demo_run_env)\<rparr>"
    by (simp add: line_reads_back_def demo_json_def demo_bc_def demo_run_env_def unix_of_def DefaultEvidenceRoot_def
        newRunID_def path_join_def Let_def)
  have "ck_resolve demo_check_env = None" "ck_load demo_check_env = None" "ck_state_path demo_check_env = None"
    "fst (ck_doctor demo_check_env (mc_fs (vw_machine demo_vworld))) \<noteq> 2" "ck_shutdown demo_check_env = None"
    "ck_rb_fails demo_check_env = (\<lambda>_. False)" "rw_file (mc_reboot (vw_machine demo_vworld)) = None" "vw_log demo_vworld = None"
    by (simp_all add: demo_check_env_def demo_vworld_def demo_machine_def)
  from armed_reboot_is_skipped [OF q b _ demo_acquire this refl l r, of demo_run_env demo_check_env] b r
  show ?thesis by (auto simp: demo_check_env_def)
qed

theorem ShouldSkip_exact_witness:
  "ShouldSkip [demo_bc\<lparr>bc_Commit := ''c'', bc_Dirty := False, bc_Checks := [''b'', ''a''], bc_Result := ''pass''\<rparr>]
     \<lparr>sq_Commit = ''c'', sq_Dirty = False, sq_Tier = bc_Tier demo_bc, sq_Target = bc_Target demo_bc, sq_Checks = [''a'', ''b'']\<rparr>"
    (is "ShouldSkip [?b] ?q")
proof -
  have c: "check_names (sq_Checks ?q)" "\<forall>bc \<in> set [?b]. check_names (bc_Checks bc)"
    by (simp_all add: check_names_def)
  have "[?b] = [] @ ?b # []" "same_run ?q ?b" by (simp_all add: same_run_def add_mset_commute)
  then show ?thesis using ShouldSkip_exact [OF c] by fastforce
qed

end
