(* ===== verification/Sshd_Config.thy ===== *)
theory Sshd_Config
  imports Prelude
begin

text \<open>
  The text of sshd's configuration (\<^verbatim>\<open>internal/gatekeeper/sshdconfig.go\<close> and the drop-in texts of
  \<^verbatim>\<open>gatekeeper.go\<close>). On Windows the directives go into the base configuration as a block between
  two markers, before the first \<^verbatim>\<open>Match\<close> line; the installer inserts it, deprovisioning removes it
  and the doctor looks for it.
\<close>

section \<open>Definitions\<close>

abbreviation newline :: char where
  "newline \<equiv> CHR 0x0A"

definition managedBlockBegin :: string where
  "managedBlockBegin = ''# >>> uncluster (managed) '' @ [CHR 0xE2, CHR 0x80, CHR 0x94] @ '' do not edit this block >>>''"

definition managedBlockEnd :: string where
  "managedBlockEnd = ''# <<< uncluster (managed) <<<''"

definition legacyIncludeMarker :: string where
  "legacyIncludeMarker = ''# Added by uncluster agent install''"

definition sshdDropInContent :: "string \<Rightarrow> string \<Rightarrow> string" where
  "sshdDropInContent caPubkeyPath principalsDirPattern =
     ''TrustedUserCAKeys '' @ caPubkeyPath @ [newline] @ ''AuthorizedPrincipalsFile '' @ principalsDirPattern @ [newline]"

definition sshdDropInContentUnix :: "string \<Rightarrow> string \<Rightarrow> string \<Rightarrow> string" where
  "sshdDropInContentUnix caPubkeyPath commandBin commandUser =
     ''TrustedUserCAKeys '' @ caPubkeyPath @ [newline]
     @ ''AuthorizedPrincipalsCommand '' @ commandBin @ '' agent principals %u'' @ [newline]
     @ ''AuthorizedPrincipalsCommandUser '' @ commandUser @ [newline]"

definition managedDirectiveBlock :: "string \<Rightarrow> string \<Rightarrow> string" where
  "managedDirectiveBlock caPubkeyPath principalsPattern =
     managedBlockBegin @ [newline] @ sshdDropInContent caPubkeyPath principalsPattern @ managedBlockEnd @ [newline]"

text \<open>\<^verbatim>\<open>strings.SplitAfter(s, "\n")\<close>.\<close>

fun split_after :: "char \<Rightarrow> string \<Rightarrow> string list" where
  "split_after d [] = [[]]"
| "split_after d (c # cs) =
     (if c = d then [c] # split_after d cs
      else case split_after d cs of [] \<Rightarrow> [[c]] | f # fs \<Rightarrow> (c # f) # fs)"

definition is_match_line :: "string \<Rightarrow> bool" where
  "is_match_line line = (case fields (trim_space line) of [] \<Rightarrow> False | f # _ \<Rightarrow> equal_fold f ''Match'')"

fun match_from :: "nat \<Rightarrow> string list \<Rightarrow> nat option" where
  "match_from off [] = None"
| "match_from off (line # ls) = (if is_match_line line then Some off else match_from (off + length line) ls)"

definition firstMatchOffset :: "string \<Rightarrow> nat option" where
  "firstMatchOffset content = match_from 0 (split_after newline content)"

definition insertBeforeFirstMatch :: "string \<Rightarrow> string \<Rightarrow> string" where
  "insertBeforeFirstMatch content block =
     (case firstMatchOffset content of
        Some i \<Rightarrow> take i content @ block @ drop i content
      | None \<Rightarrow>
          (if content \<noteq> [] \<and> \<not> has_suffix [newline] content then content @ [newline] else content) @ block)"

definition removeManagedBlock :: "string \<Rightarrow> string" where
  "removeManagedBlock content =
     (case index_of managedBlockBegin content of
        None \<Rightarrow> content
      | Some b \<Rightarrow>
          (case index_of managedBlockEnd (drop b content) of
             None \<Rightarrow> take b content
           | Some rel \<Rightarrow>
               let e = b + rel + length managedBlockEnd;
                   e = (if e < length content \<and> content ! e = newline then Suc e else e)
               in take b content @ drop e content))"

text \<open>\<^verbatim>\<open>strings.ReplaceAll(t, `\`, "/")\<close>.\<close>

definition to_slash :: "string \<Rightarrow> string" where
  "to_slash t = map (\<lambda>c. if c = CHR 0x5C then CHR ''/'' else c) t"

definition legacy_line :: "string \<Rightarrow> bool" where
  "legacy_line ln =
     (let t = trim_space ln; fs = fields t in
      equal_fold t legacyIncludeMarker
      \<or> 2 \<le> length fs \<and> equal_fold (fs ! 0) ''Include'' \<and> contains (to_lower (to_slash t)) ''sshd_config.d'')"

definition stripLegacyIncludeLines :: "string \<Rightarrow> string" where
  "stripLegacyIncludeLines content =
     join_with [newline] (filter (\<lambda>ln. \<not> legacy_line ln) (split_char newline content))"

definition upsertManagedBlock :: "string \<Rightarrow> string \<Rightarrow> string" where
  "upsertManagedBlock content block =
     insertBeforeFirstMatch (stripLegacyIncludeLines (removeManagedBlock content)) block"

definition hasManagedBlockBeforeMatch :: "string \<Rightarrow> bool" where
  "hasManagedBlockBeforeMatch content =
     (case index_of managedBlockBegin content of
        None \<Rightarrow> False
      | Some b \<Rightarrow>
          if \<not> contains content managedBlockEnd then False
          else case firstMatchOffset content of Some m \<Rightarrow> b < m | None \<Rightarrow> True)"

section \<open>Lines\<close>

definition is_line :: "string \<Rightarrow> bool" where
  "is_line l \<longleftrightarrow> (\<exists>b. l = b @ [newline] \<and> newline \<notin> set b)"

lemma split_after_nonempty [simp]: "split_after d s \<noteq> []"
  by (induction s) (auto split: list.splits)

lemma split_after_field: "d \<notin> set b \<Longrightarrow> split_after d (b @ d # s) = (b @ [d]) # split_after d s"
  by (induction b) auto

lemma split_after_no_sep: "d \<notin> set s \<Longrightarrow> split_after d s = [s]"
  by (induction s) auto

lemma split_after_lines: "list_all is_line ls \<Longrightarrow> split_after newline (concat ls @ s) = ls @ split_after newline s"
  by (induction ls) (auto simp: is_line_def split_after_field)

lemma split_after_cases: "\<exists>ls l. split_after newline s = ls @ [l] \<and> list_all is_line ls \<and> newline \<notin> set l"
proof (induction s)
  case Nil
  show ?case by (intro exI [of _ "[]"]) simp
next
  case (Cons c s)
  then obtain ls l where ih: "split_after newline s = ls @ [l]" "list_all is_line ls" "newline \<notin> set l" by blast
  show ?case
  proof (cases "c = newline")
    case True
    then have "split_after newline (c # s) = ([newline] # ls) @ [l]" "list_all is_line ([newline] # ls)"
      using ih by (simp_all add: is_line_def)
    then show ?thesis using ih(3) by blast
  next
    case False
    show ?thesis
    proof (cases ls)
      case Nil
      then have "split_after newline (c # s) = [] @ [c # l]" using ih False by simp
      then show ?thesis using ih(3) False by (metis list.pred_inject(1) set_ConsD)
    next
      case (Cons f fs)
      then obtain b where "f = b @ [newline]" "newline \<notin> set b" using ih by (auto simp: is_line_def)
      then have "is_line (c # f)" using False by (auto simp: is_line_def intro!: exI [of _ "c # b"])
      then have "split_after newline (c # s) = ((c # f) # fs) @ [l]" "list_all is_line ((c # f) # fs)"
        using ih False Cons by simp_all
      then show ?thesis using ih(3) by blast
    qed
  qed
qed

lemma concat_split_after: "concat (split_after d s) = s"
proof (induction s)
  case (Cons c s)
  obtain f fs where "split_after d s = f # fs" using split_after_nonempty by (meson neq_Nil_conv)
  with Cons show ?case by auto
qed simp

section \<open>The first word of a line\<close>

lemma first_field_head:
  assumes "of_char c < (128::nat)" "\<not> is_space (of_char c)"
  shows "\<exists>w fs. fields (trim_space (c # s)) = (c # w) # fs"
proof -
  let ?sp = "\<lambda>p :: nat \<times> string. is_space (fst p)"
  let ?x = "(of_char c :: nat, [c])"
  have d: "dropWhile ?sp (runes (c # s)) = ?x # runes s" using assms by (simp add: runes_ascii)
  have "\<exists>l. dropWhile ?sp (ys @ [?x]) = l @ [?x]" for ys
    using assms(2) by (induction ys) auto
  then have "\<exists>l. rev (dropWhile ?sp (ys @ [?x])) = ?x # l" for ys by (metis rev.simps(2) rev_rev_ident)
  then obtain l where "rev (dropWhile ?sp (rev (runes s) @ [?x])) = ?x # l" by blast
  then have t: "trim_space (c # s) = c # concat (map snd l)" by (simp add: trim_space_def d)
  show ?thesis
    unfolding t using assms
    by (cases "fields_go (runes (concat (map snd l)))") (auto simp: fields_def runes_ascii)
qed

lemma not_match_head:
  assumes "of_char c < (128::nat)" "\<not> is_space (of_char c)" "fold_rune (of_char c) \<noteq> 109"
  shows "\<not> is_match_line (c # s)"
proof -
  obtain w fs where f: "fields (trim_space (c # s)) = (c # w) # fs" using first_field_head [OF assms(1,2)] by blast
  have "\<not> equal_fold (c # w) ''Match''" 
    using assms(1,3) by (simp add: equal_fold_def fold_text_Cons fold_rune_def)
  then show ?thesis by (simp add: is_match_line_def f)
qed

lemma decode_rune_snoc:
  "bs \<noteq> [] \<Longrightarrow> c < 128 \<Longrightarrow> decode_rune (bs @ [c]) = decode_rune bs"
  apply (cases bs; simp)
  subgoal for b bs' by (cases bs'; simp add: cont_byte_def) (auto simp: cont_byte_def split: list.splits)
  done

lemma decode_rune_le: "bs \<noteq> [] \<Longrightarrow> snd (decode_rune bs) \<le> length bs"
  by (cases bs) (auto split: list.splits)

lemma runes_snoc: "of_char c < (128::nat) \<Longrightarrow> runes (s @ [c]) = runes s @ [(of_char c, [c])]"
proof (induction s rule: runes.induct)
  case (1 s)
  show ?case
  proof (cases "s = []")
    case True
    then show ?thesis using 1(2) by (simp add: runes_ascii)
  next
    case False
    obtain r w where rw: "decode_rune (map of_char (take 4 s)) = (r, w)" by fastforce
    have "map of_char (take 4 s) \<noteq> ([] :: nat list)" using False by simp
    then have w: "w \<le> length s" using decode_rune_le [of "map of_char (take 4 s)"] rw by simp
    have "decode_rune (map of_char (take 4 (s @ [c]))) = (r, w)"
    proof (cases "4 \<le> length s")
      case True
      then show ?thesis using rw by simp
    next
      case False
      then have "map of_char (take 4 (s @ [c])) = (map of_char (take 4 s) :: nat list) @ [of_char c]"
        by (cases "4 - length s") simp_all
      then show ?thesis using decode_rune_snoc [of "map of_char (take 4 s)"] \<open>s \<noteq> []\<close> 1(2) rw by simp
    qed
    then have "runes (s @ [c]) = (r, take w s) # runes (drop w s @ [c])"
      using w by (subst runes.simps) simp
    also have "\<dots> = (r, take w s) # runes (drop w s) @ [(of_char c, [c])]" using 1 False rw by simp
    also have "\<dots> = runes s @ [(of_char c, [c])]" using False rw by (subst (2) runes.simps) simp
    finally show ?thesis .
  qed
qed

lemma trim_space_snoc:
  assumes "of_char c < (128::nat)" "is_space (of_char c)"
  shows "trim_space (s @ [c]) = trim_space s"
proof (cases "\<forall>p \<in> set (runes s). is_space (fst p)")
  case True
  then have d: "dropWhile (\<lambda>p. is_space (fst p)) (runes s) = []" by (simp add: dropWhile_eq_Nil_conv)
  show ?thesis using assms True by (simp add: trim_space_def runes_snoc dropWhile_append Let_def d)
next
  case False
  then show ?thesis using assms by (simp only: trim_space_def runes_snoc dropWhile_append Let_def) simp
qed

lemma is_match_snoc [simp]: "is_match_line (l @ [newline]) = is_match_line l"
  by (simp add: is_match_line_def trim_space_snoc is_space_def)

lemma blank_line [simp]: "\<not> is_match_line []" "\<not> legacy_line []"
  by (simp_all add: is_match_line_def legacy_line_def trim_space_def fields_def Let_def equal_fold_def to_lower_def
      fold_text_Cons legacyIncludeMarker_def)

section \<open>The first match\<close>

lemma match_from_append:
  "list_all (\<lambda>l. \<not> is_match_line l) ls \<Longrightarrow> match_from off (ls @ ms) = match_from (off + length (concat ls)) ms"
  by (induction ls arbitrary: off) (auto simp: add.assoc)

lemma match_from_None_iff: "match_from off ls = None \<longleftrightarrow> list_all (\<lambda>l. \<not> is_match_line l) ls"
  by (induction ls arbitrary: off) auto

lemma match_from_SomeD:
  "match_from off ls = Some i \<Longrightarrow> \<exists>us m vs. ls = us @ m # vs \<and> list_all (\<lambda>l. \<not> is_match_line l) us
     \<and> is_match_line m \<and> i = off + length (concat us)"
proof (induction ls arbitrary: off)
  case (Cons l ls)
  show ?case
  proof (cases "is_match_line l")
    case True
    then have "l # ls = [] @ l # ls \<and> i = off + length (concat [])" using Cons.prems by simp
    then show ?thesis using True by (metis list.pred_inject(1))
  next
    case False
    then obtain us m vs where "ls = us @ m # vs" "list_all (\<lambda>l. \<not> is_match_line l) us" "is_match_line m"
      "i = off + length l + length (concat us)" using Cons by fastforce
    then show ?thesis using False by (intro exI [of _ "l # us"] exI [of _ m] exI [of _ vs]) simp
  qed
qed simp

text \<open>Where the block goes: \<open>pre\<close> is a sequence of whole lines without a match, and what follows is
  nothing or begins with the first match.\<close>

lemma firstMatch_SomeD:
  assumes "firstMatchOffset x = Some i"
  shows "\<exists>us m vs. list_all is_line us \<and> list_all (\<lambda>l. \<not> is_match_line l) us \<and> is_match_line m
     \<and> take i x = concat us \<and> i = length (concat us) \<and> split_after newline (drop i x) = m # vs"
proof -
  obtain us m vs where d: "split_after newline x = us @ m # vs" "list_all (\<lambda>l. \<not> is_match_line l) us"
    "is_match_line m" "i = length (concat us)"
    using match_from_SomeD assms unfolding firstMatchOffset_def by fastforce
  have us: "list_all is_line us"
  proof -
    obtain ls l where ls: "us @ m # vs = ls @ [l]" "list_all is_line ls" using split_after_cases [of x] d(1) by auto
    then have "us @ butlast (m # vs) = ls" by (metis butlast_append butlast_snoc list.distinct(1))
    then show ?thesis using ls(2) by auto
  qed
  have x: "x = concat us @ concat (m # vs)" using concat_split_after [of newline x] d(1) by simp
  then have "us @ split_after newline (concat (m # vs)) = us @ m # vs"
    using split_after_lines [OF us, of "concat (m # vs)"] d(1) by simp
  then show ?thesis using d us x by auto
qed

definition terminated :: "string \<Rightarrow> string" where
  "terminated x = (if x \<noteq> [] \<and> \<not> has_suffix [newline] x then x @ [newline] else x)"

lemma firstMatch_None_lines:
  assumes "firstMatchOffset x = None"
  shows "\<exists>us. terminated x = concat us \<and> list_all is_line us \<and> list_all (\<lambda>l. \<not> is_match_line l) us"
proof -
  obtain ls l where s: "split_after newline x = ls @ [l]" "list_all is_line ls" "newline \<notin> set l"
    using split_after_cases by blast
  have nm: "list_all (\<lambda>l. \<not> is_match_line l) (ls @ [l])" using assms s by (simp add: firstMatchOffset_def match_from_None_iff)
  have x: "x = concat ls @ l" using concat_split_after [of newline x] s(1) by simp
  show ?thesis
  proof (cases "l = []")
    case True
    have "ls = [] \<or> (\<exists>ks b. ls = ks @ [b @ [newline]])" using s(2) by (cases ls rule: rev_cases) (auto simp: is_line_def)
    then have "terminated x = x" using x True by (auto simp: terminated_def has_suffix_def)
    then show ?thesis using x True s(2) nm by (intro exI [of _ ls]) simp
  next
    case False
    then obtain b c where "l = b @ [c]" by (metis rev_exhaust)
    then have "\<not> has_suffix [newline] x" using x s(3) by (auto simp: has_suffix_def)
    then have "terminated x = concat (ls @ [l @ [newline]])" using x False by (simp add: terminated_def)
    then show ?thesis using s(2,3) nm by (intro exI [of _ "ls @ [l @ [newline]]"]) (auto simp: is_line_def)
  qed
qed

section \<open>The block\<close>

definition plain_path :: "string \<Rightarrow> bool" where
  "plain_path p \<longleftrightarrow> newline \<notin> set p \<and> CHR ''#'' \<notin> set p"

definition block_lines :: "string \<Rightarrow> string \<Rightarrow> string list" where
  "block_lines ca pat = [managedBlockBegin @ [newline], ''TrustedUserCAKeys '' @ ca @ [newline],
     ''AuthorizedPrincipalsFile '' @ pat @ [newline], managedBlockEnd @ [newline]]"

lemma managedDirectiveBlock_lines: "managedDirectiveBlock ca pat = concat (block_lines ca pat)"
  by (simp add: managedDirectiveBlock_def sshdDropInContent_def block_lines_def)

lemma markers_plain: "newline \<notin> set managedBlockBegin" "newline \<notin> set managedBlockEnd"
  "managedBlockBegin \<noteq> []" "managedBlockEnd \<noteq> []" "hd managedBlockBegin = CHR ''#''" "hd managedBlockEnd = CHR ''#''"
  by (simp_all add: managedBlockBegin_def managedBlockEnd_def)

lemma block_is_lines: "plain_path ca \<Longrightarrow> plain_path pat \<Longrightarrow> list_all is_line (block_lines ca pat)"
proof -
  assume p: "plain_path ca" "plain_path pat"
  have l: "is_line (b @ [newline])" if "newline \<notin> set b" for b using that by (auto simp: is_line_def)
  have "newline \<notin> set (''TrustedUserCAKeys '' @ ca)" "newline \<notin> set (''AuthorizedPrincipalsFile '' @ pat)"
    using p by (auto simp: plain_path_def)
  from l [OF this(1)] l [OF this(2)] show ?thesis
    using l [OF markers_plain(1)] l [OF markers_plain(2)] by (simp add: block_lines_def)
qed

lemma block_no_match: "list_all (\<lambda>l. \<not> is_match_line l) (block_lines ca pat)"
proof -
  have l: "fold_rune (of_char (CHR ''#'')) \<noteq> 109" "fold_rune (of_char (CHR ''T'')) \<noteq> 109"
    "fold_rune (of_char (CHR ''A'')) \<noteq> 109" by (simp_all add: fold_rune_def)
  have h: "\<not> is_match_line (CHR ''#'' # s)" "\<not> is_match_line (CHR ''T'' # s)" "\<not> is_match_line (CHR ''A'' # s)" for s
    by (rule not_match_head [OF _ _ l(1)] not_match_head [OF _ _ l(2)] not_match_head [OF _ _ l(3)]; simp add: is_space_def)+
  have "managedBlockBegin = CHR ''#'' # tl managedBlockBegin" "managedBlockEnd = CHR ''#'' # tl managedBlockEnd"
    by (simp_all add: managedBlockBegin_def managedBlockEnd_def)
  then have "\<not> is_match_line (managedBlockBegin @ [newline])" "\<not> is_match_line (managedBlockEnd @ [newline])"
    using h(1) by (metis append_Cons)+
  then show ?thesis using h(2,3) by (simp add: block_lines_def)
qed

lemma begin_at:
  assumes "index_of managedBlockBegin pre = None" "pre = [] \<or> (\<exists>p. pre = p @ [newline])"
  shows "index_of managedBlockBegin (pre @ managedBlockBegin @ s) = Some (length pre)"
proof (cases "pre = []")
  case False
  then obtain p where p: "pre = p @ newline # []" using assms(2) by auto
  then have "index_of managedBlockBegin p = None"
    using assms(1) index_of_before [OF markers_plain(1,3), of p "[]"] by (auto split: option.splits)
  then show ?thesis using index_of_before [OF markers_plain(1,3), of p "managedBlockBegin @ s"] p by simp
qed simp

lemma end_at:
  assumes "plain_path ca" "plain_path pat"
  shows "index_of managedBlockEnd (managedDirectiveBlock ca pat @ s)
    = Some (length (managedDirectiveBlock ca pat) - Suc (length managedBlockEnd))"
proof -
  have n: "index_of managedBlockEnd (w @ p) = None" if "plain_path p" "CHR ''#'' \<notin> set w" for w p
    using that markers_plain(4,6) by (intro index_of_hd) (auto simp: plain_path_def)
  have b: "index_of managedBlockEnd managedBlockBegin = None"
    by (simp add: managedBlockEnd_def managedBlockBegin_def has_prefix_def)
  note i = index_of_before [OF markers_plain(2,4)]
  have e: "index_of managedBlockEnd managedBlockEnd = Some 0" using index_of_head [of managedBlockEnd "[]"] by simp
  have "managedDirectiveBlock ca pat @ s = managedBlockBegin @ newline # (''TrustedUserCAKeys '' @ ca) @ newline
      # (''AuthorizedPrincipalsFile '' @ pat) @ newline # managedBlockEnd @ newline # s"
    by (simp add: managedDirectiveBlock_def sshdDropInContent_def)
  then show ?thesis
    using b n [OF assms(1), of "''TrustedUserCAKeys ''"] n [OF assms(2), of "''AuthorizedPrincipalsFile ''"]
    by (simp only: i e option.case option.map) (simp add: managedDirectiveBlock_def sshdDropInContent_def)
qed

lemma remove_block:
  assumes "plain_path ca" "plain_path pat" "index_of managedBlockBegin pre = None" "pre = [] \<or> (\<exists>p. pre = p @ [newline])"
  shows "removeManagedBlock (pre @ managedDirectiveBlock ca pat @ post) = pre @ post"
proof -
  let ?b = "managedDirectiveBlock ca pat"
  obtain m where b: "?b = m @ managedBlockEnd @ [newline]"
    by (simp add: managedDirectiveBlock_def sshdDropInContent_def)
  have "index_of managedBlockBegin (pre @ ?b @ post) = Some (length pre)"
    using begin_at [OF assms(3,4)] by (simp add: managedDirectiveBlock_def)
  then show ?thesis
    using end_at [OF assms(1,2), of post] b by (simp add: removeManagedBlock_def nth_append Let_def)
qed

section \<open>Stripping\<close>

definition no_legacy :: "string \<Rightarrow> bool" where
  "no_legacy x \<longleftrightarrow> list_all (\<lambda>l. \<not> legacy_line l) (split_char newline x)"

lemma strip_no_legacy: "no_legacy x \<Longrightarrow> stripLegacyIncludeLines x = x"
  by (simp add: no_legacy_def stripLegacyIncludeLines_def list_all_iff filter_True split_char_join)

lemma no_legacy_strip: "no_legacy (stripLegacyIncludeLines c)"
proof -
  let ?ls = "filter (\<lambda>ln. \<not> legacy_line ln) (split_char newline c)"
  have "split_char newline (join_with [newline] ?ls) = (if ?ls = [] then [[]] else ?ls)"
    using split_char_join_with [of newline ?ls] split_char_no_sep_in [of _ newline c] by (auto simp: list_all_iff)
  then show ?thesis by (auto simp: no_legacy_def stripLegacyIncludeLines_def list_all_iff)
qed

lemma no_legacy_terminated: "no_legacy x \<Longrightarrow> no_legacy (terminated x)"
  by (simp add: no_legacy_def terminated_def split_char_snoc)

section \<open>Inserting\<close>

text \<open>The text of an insertion: the block stands after whole lines none of which is a match, and
  before nothing or the first match.\<close>

lemma insert_shape:
  obtains us post where "insertBeforeFirstMatch x block = concat us @ block @ post" "list_all is_line us"
    "list_all (\<lambda>l. \<not> is_match_line l) us" "concat us @ post = (if firstMatchOffset x = None then terminated x else x)"
    "\<forall>n. match_from n (split_after newline post) = (if firstMatchOffset x = None then None else Some n)"
proof (cases "firstMatchOffset x")
  case None
  obtain us where u: "terminated x = concat us" "list_all is_line us" "list_all (\<lambda>l. \<not> is_match_line l) us"
    using firstMatch_None_lines [OF None] by blast
  then show ?thesis
    using that [of us "[]"] None by (auto simp: insertBeforeFirstMatch_def terminated_def split: if_splits)
next
  case (Some i)
  obtain us m vs where "list_all is_line us" "list_all (\<lambda>l. \<not> is_match_line l) us" "is_match_line m"
    "take i x = concat us" "i = length (concat us)" "split_after newline (drop i x) = m # vs"
    using firstMatch_SomeD [OF Some] by blast
  moreover have "concat us @ drop i x = x" using calculation(4) append_take_drop_id [of i x] by simp
  ultimately show ?thesis using that [of us "drop i x"] Some by (simp add: insertBeforeFirstMatch_def)
qed

lemma concat_lines_end: "list_all is_line us \<Longrightarrow> concat us = [] \<or> (\<exists>p. concat us = p @ [newline])"
  by (cases us rule: rev_cases) (auto simp: is_line_def)

lemma index_of_prefix_None: "index_of p (s @ t) = None \<Longrightarrow> index_of p s = None"
proof (induction s)
  case Nil
  then show ?case by (cases t) (auto simp: has_prefix_def split: if_splits)
next
  case (Cons c s)
  have "has_prefix p (c # s) \<Longrightarrow> has_prefix p (c # s @ t)"
    by (metis append_Cons append_assoc has_prefix_iff)
  then show ?case using Cons by (auto split: if_splits)
qed

lemma index_of_suffix: "index_of p t \<noteq> None \<Longrightarrow> index_of p (s @ t) \<noteq> None"
  by (induction s) auto

lemma begin_terminated: "index_of managedBlockBegin x = None \<Longrightarrow> index_of managedBlockBegin (terminated x) = None"
  using index_of_before [OF markers_plain(1,3), of x "[]"] markers_plain(3) by (simp add: terminated_def)

lemma terminated_simps:
  "firstMatchOffset (terminated x) = None \<longleftrightarrow> firstMatchOffset x = None" "terminated (terminated x) = terminated x"
proof -
  obtain ls l where s: "split_after newline x = ls @ [l]" "list_all is_line ls" "newline \<notin> set l"
    using split_after_cases by blast
  have x: "x = concat ls @ l" using concat_split_after [of newline x] s(1) by simp
  have "split_after newline (x @ [newline]) = ls @ [l @ [newline], []]"
    using split_after_lines [OF s(2), of "l @ [newline]"] split_after_field [OF s(3), of "[]"] x by simp
  then show "firstMatchOffset (terminated x) = None \<longleftrightarrow> firstMatchOffset x = None"
    using s(1) by (simp add: terminated_def firstMatchOffset_def match_from_None_iff)
  show "terminated (terminated x) = terminated x" by (simp add: terminated_def has_suffix_def)
qed

lemma insert_terminated:
  assumes "firstMatchOffset x = None"
  shows "insertBeforeFirstMatch (terminated x) block = insertBeforeFirstMatch x block"
proof -
  have "insertBeforeFirstMatch y block = terminated y @ block" if "firstMatchOffset y = None" for y
    using that by (simp add: insertBeforeFirstMatch_def terminated_def)
  then show ?thesis using assms terminated_simps by simp
qed

section \<open>The life of the block\<close>

text \<open>sshd's global section: the lines before the first match.\<close>

definition global_lines :: "string \<Rightarrow> string list" where
  "global_lines content = takeWhile (\<lambda>l. \<not> is_match_line l) (split_after newline content)"

lemma inserted_block:
  assumes "plain_path ca" "plain_path pat" "index_of managedBlockBegin x = None"
    "r = insertBeforeFirstMatch x (managedDirectiveBlock ca pat)"
  shows "hasManagedBlockBeforeMatch r" "set (block_lines ca pat) \<subseteq> set (global_lines r)"
    "removeManagedBlock r = (if firstMatchOffset x = None then terminated x else x)"
proof -
  let ?b = "managedDirectiveBlock ca pat"
  obtain us post where u: "insertBeforeFirstMatch x ?b = concat us @ ?b @ post" "list_all is_line us"
    "list_all (\<lambda>l. \<not> is_match_line l) us" "concat us @ post = (if firstMatchOffset x = None then terminated x else x)"
    "\<forall>n. match_from n (split_after newline post) = (if firstMatchOffset x = None then None else Some n)"
    using insert_shape by blast
  have "index_of managedBlockBegin (concat us @ post) = None"
    using u(4) assms(3) begin_terminated by simp
  then have n: "index_of managedBlockBegin (concat us) = None" by (rule index_of_prefix_None)
  note c = concat_lines_end [OF u(2)]
  show "removeManagedBlock r = (if firstMatchOffset x = None then terminated x else x)"
    using remove_block [OF assms(1,2) n c, of post] u(1,4) assms(4) by simp
  have sp: "split_after newline r = us @ block_lines ca pat @ split_after newline post"
    using split_after_lines [of "us @ block_lines ca pat" post] u(1,2) block_is_lines [OF assms(1,2)] assms(4)
    by (simp add: managedDirectiveBlock_lines)
  then show "set (block_lines ca pat) \<subseteq> set (global_lines r)"
    using u(3) block_no_match [of ca pat] by (auto simp: global_lines_def takeWhile_append list_all_iff)
  have i: "index_of managedBlockBegin r = Some (length (concat us))"
    using begin_at [OF n c] u(1) assms(4) by (simp add: managedDirectiveBlock_def)
  have ct: "contains r managedBlockEnd"
    using index_of_suffix [of managedBlockEnd "?b @ post" "concat us"] end_at [OF assms(1,2), of post] u(1) assms(4)
    by (simp add: contains_def)
  have l: "0 < length ?b" by (simp add: managedDirectiveBlock_def)
  have "firstMatchOffset r = (if firstMatchOffset x = None then None else Some (length (concat us) + length ?b))"
    unfolding firstMatchOffset_def sp using u(3,5) block_no_match [of ca pat]
    by (simp add: match_from_append managedDirectiveBlock_lines firstMatchOffset_def)
  then show "hasManagedBlockBeforeMatch r" using i ct l by (simp add: hasManagedBlockBeforeMatch_def)
qed

text \<open>C40: The life of the managed block. When the base configuration holds no second marker, an
  installation makes the block effective (its directives stand in sshd's global section, and the
  doctor's check holds), a later installation with other paths replaces it, and deprovisioning
  restores the configuration as it was without block and legacy lines, up to a last newline.\<close>

theorem managed_block_lifecycle:
  assumes "plain_path ca" "plain_path pat"
    "x = stripLegacyIncludeLines (removeManagedBlock content)" "index_of managedBlockBegin x = None"
    "r = upsertManagedBlock content (managedDirectiveBlock ca pat)"
  shows "hasManagedBlockBeforeMatch r
    \<and> {''TrustedUserCAKeys '' @ ca @ [newline], ''AuthorizedPrincipalsFile '' @ pat @ [newline]} \<subseteq> set (global_lines r)
    \<and> removeManagedBlock r = (if firstMatchOffset x = None \<and> x \<noteq> [] \<and> \<not> has_suffix [newline] x then x @ [newline] else x)
    \<and> upsertManagedBlock r block = upsertManagedBlock content block"
proof -
  have r: "r = insertBeforeFirstMatch x (managedDirectiveBlock ca pat)" using assms(3,5) by (simp add: upsertManagedBlock_def)
  note i = inserted_block [OF assms(1,2,4) r]
  have nl: "no_legacy x" "no_legacy (terminated x)"
    using no_legacy_strip no_legacy_terminated assms(3) by simp_all
  have "upsertManagedBlock r block = insertBeforeFirstMatch (if firstMatchOffset x = None then terminated x else x) block"
    using strip_no_legacy nl by (simp add: upsertManagedBlock_def i(3))
  then have "upsertManagedBlock r block = upsertManagedBlock content block"
    using insert_terminated assms(3) by (simp add: upsertManagedBlock_def)
  moreover have "removeManagedBlock r =
      (if firstMatchOffset x = None \<and> x \<noteq> [] \<and> \<not> has_suffix [newline] x then x @ [newline] else x)"
    using i(3) by (simp add: terminated_def)
  ultimately show ?thesis using i(1,2) by (simp add: block_lines_def)
qed

text \<open>A configuration with two blocks keeps one of them forever: an installation removes the first
  and adds one.\<close>

theorem doubled_block_stays:
  assumes "plain_path ca" "plain_path pat" "no_legacy (managedDirectiveBlock ca pat)"
  shows "upsertManagedBlock (managedDirectiveBlock ca pat @ managedDirectiveBlock ca pat) (managedDirectiveBlock ca pat)
    = managedDirectiveBlock ca pat @ managedDirectiveBlock ca pat"
proof -
  let ?b = "managedDirectiveBlock ca pat"
  have "removeManagedBlock (?b @ ?b) = ?b"
    using remove_block [OF assms(1,2), of "[]" ?b] markers_plain(3) by simp
  moreover have "firstMatchOffset ?b = None"
    using split_after_lines [OF block_is_lines [OF assms(1,2)], of "[]"] block_no_match [of ca pat]
    by (simp add: firstMatchOffset_def match_from_None_iff managedDirectiveBlock_lines)
  moreover have "has_suffix [newline] ?b" by (simp add: managedDirectiveBlock_def has_suffix_def)
  ultimately show ?thesis
    using strip_no_legacy [OF assms(3)] by (simp add: upsertManagedBlock_def insertBeforeFirstMatch_def)
qed

section \<open>A concrete configuration\<close>

definition demo_config :: string where
  "demo_config = ''Port 22'' @ [newline] @ ''Match User bob'' @ [newline]"

theorem managed_block_lifecycle_witness:
  "let r = upsertManagedBlock demo_config (managedDirectiveBlock ''C:/ca.pub'' ''C:/p/%u'')
   in hasManagedBlockBeforeMatch r \<and> removeManagedBlock r = demo_config"
proof -
  have p: "plain_path ''C:/ca.pub''" "plain_path ''C:/p/%u''" by (simp_all add: plain_path_def)
  have n: "index_of managedBlockBegin demo_config = None"
    by (simp add: demo_config_def managedBlockBegin_def has_prefix_def)
  have "\<not> legacy_line ''Port 22''" "\<not> legacy_line ''Match User bob''"
    by (simp_all add: legacy_line_def trim_space_def runes_ascii is_space_def fields_def equal_fold_def to_lower_def
        fold_text_Cons fold_rune_def legacyIncludeMarker_def)
  then have "no_legacy demo_config" by (simp add: no_legacy_def demo_config_def)
  then have x: "stripLegacyIncludeLines (removeManagedBlock demo_config) = demo_config"
    using n by (simp add: removeManagedBlock_def strip_no_legacy)
  show ?thesis
    using managed_block_lifecycle [OF p _ _ refl, of demo_config demo_config] x n
    by (simp add: Let_def) (simp add: demo_config_def has_suffix_def)
qed

end
