(* ===== verification/Doctor.thy ===== *)
theory Doctor
  imports Sshd_Config Self_Update "HOL-Library.Word"
begin

text \<open>
  The doctor of the Unix gatekeeper (\<^verbatim>\<open>internal/gatekeeper/doctor_unix.go\<close>, \<^verbatim>\<open>doctor_perms_unix.go\<close>,
  \<^verbatim>\<open>fulldoctor.go\<close>, \<^verbatim>\<open>health.go\<close>, \<^verbatim>\<open>gatekeeper.go\<close>, \<^verbatim>\<open>install_drift.go\<close>). The doctor only reads: what it
  asks of the operating system (stat, file contents, the exit status and output of commands, the
  user database) is the record \<open>probe\<close>.
\<close>

unbundle bit_operations_syntax

section \<open>Results\<close>

datatype check_status = CheckOK | CheckWarn | CheckFail

record doctor_check =
  dc_Name :: string
  dc_Status :: check_status
  dc_Message :: string
  dc_Informational :: bool

definition result_of :: "string \<Rightarrow> check_status \<Rightarrow> string \<Rightarrow> doctor_check" where
  "result_of n st msg = \<lparr>dc_Name = n, dc_Status = st, dc_Message = msg, dc_Informational = False\<rparr>"

definition CheckConfigLoadedPath :: "string \<Rightarrow> doctor_check" where
  "CheckConfigLoadedPath path =
     (if path = [] then \<lparr>dc_Name = ''config-loaded-path'', dc_Status = CheckWarn,
          dc_Message = ''no config path resolved'', dc_Informational = True\<rparr>
      else \<lparr>dc_Name = ''config-loaded-path'', dc_Status = CheckOK, dc_Message = path, dc_Informational = True\<rparr>)"

definition CheckUpdateHostAllowlist :: "string list \<Rightarrow> doctor_check" where
  "CheckUpdateHostAllowlist allowlist =
     (if allowlist = [] then \<lparr>dc_Name = ''update-host-allowlist'', dc_Status = CheckOK,
          dc_Message = ''updates disabled (empty allowlist)'', dc_Informational = True\<rparr>
      else \<lparr>dc_Name = ''update-host-allowlist'', dc_Status = CheckOK,
          dc_Message = join_with '', '' allowlist, dc_Informational = True\<rparr>)"

fun exit_code_from :: "nat \<Rightarrow> doctor_check list \<Rightarrow> nat" where
  "exit_code_from code [] = code"
| "exit_code_from code (c # cs) =
     (case dc_Status c of
        CheckFail \<Rightarrow> 2
      | CheckWarn \<Rightarrow> exit_code_from 1 cs
      | CheckOK \<Rightarrow> exit_code_from code cs)"

definition ExitCode :: "doctor_check list \<Rightarrow> nat" where
  "ExitCode r = exit_code_from 0 r"

section \<open>Health checks\<close>

definition healthComponent :: "string \<Rightarrow> string" where
  "healthComponent name =
     (if name \<in> {''sshd-binary'', ''sshd-installed'', ''sshd-running'', ''sshd-drop-in'', ''sshd-effective-config'',
                 ''sshd-principals-command-binary'', ''macos-include''} then ''sshd''
      else if name = ''ca-pubkey'' then ''ca_pubkey''
      else if name \<in> {''principals-dir'', ''principals-file-acl'', ''spool-dir''} then ''principals''
      else if name = ''writer-service'' then ''writer_service''
      else if name = ''service-account'' then ''service_account''
      else if name = ''service-group'' then ''service_group''
      else if name = ''payload-dir'' then ''payload''
      else if name \<in> {''service-running'', ''service-installed''} then ''service''
      else if name \<in> {''config-loaded-path'', ''config-ownership''} then ''config''
      else if name = ''update-host-allowlist'' then ''selfupdate''
      else name)"

definition healthCheckField :: "string \<Rightarrow> string" where
  "healthCheckField name =
     (if name \<in> {''sshd-binary'', ''sshd-installed'', ''service-installed''} then ''installed''
      else if name \<in> {''sshd-running'', ''service-running''} then ''running''
      else if name = ''sshd-drop-in'' then ''config_drop_in''
      else if name = ''sshd-effective-config'' then ''effective_config''
      else if name = ''sshd-principals-command-binary'' then ''principals_command_binary''
      else if name = ''ca-pubkey'' then ''present''
      else if name = ''principals-dir'' then ''dir_writable''
      else if name = ''principals-file-acl'' then ''file_acl''
      else if name = ''spool-dir'' then ''spool_acl''
      else if name = ''writer-service'' then ''running''
      else if name = ''service-account'' then ''exists''
      else if name = ''service-group'' then ''group_exists''
      else if name = ''macos-include'' then ''include_directive''
      else if name = ''config-loaded-path'' then ''loaded_path''
      else if name = ''config-ownership'' then ''ownership''
      else if name = ''update-host-allowlist'' then ''host_allowlist''
      else if name = ''payload-dir'' then ''dir''
      else name)"

definition healthState :: "check_status \<Rightarrow> string" where
  "healthState s = (case s of CheckOK \<Rightarrow> ''ok'' | CheckWarn \<Rightarrow> ''warn'' | CheckFail \<Rightarrow> ''fail'')"

definition HealthChecks :: "doctor_check list \<Rightarrow> health_check list" where
  "HealthChecks r = map (\<lambda>c. \<lparr>hc_Component = healthComponent (dc_Name c), hc_Check = healthCheckField (dc_Name c),
     hc_State = healthState (dc_Status c), hc_ErrorCode = None,
     hc_Message = (if dc_Message c \<noteq> [] \<and> (dc_Informational c \<or> dc_Status c \<noteq> CheckOK) then Some (dc_Message c) else None)\<rparr>) r"

section \<open>The operating system\<close>

datatype stat_error = SeNotExist string | SeOther string

fun stat_error_text :: "stat_error \<Rightarrow> string" where
  "stat_error_text (SeNotExist t) = t"
| "stat_error_text (SeOther t) = t"

text \<open>\<open>fi_sys\<close> is the owner and group of \<^verbatim>\<open>syscall.Stat_t\<close>, where the platform has it; \<open>fi_perm\<close> the
  permission bits.\<close>

record file_info =
  fi_dir :: bool
  fi_regular :: bool
  fi_symlink :: bool
  fi_perm :: "32 word"
  fi_sys :: "(32 word \<times> 32 word) option"

record probe =
  pb_goos :: string
  pb_lookpath :: "string \<Rightarrow> bool"
  pb_run :: "string list \<Rightarrow> bool"
  pb_output :: "string list \<Rightarrow> (string, string) result"
  pb_read :: "string \<Rightarrow> (string, string) result"
  pb_stat :: "string \<Rightarrow> (stat_error, file_info) result"
  pb_lstat :: "string \<Rightarrow> (stat_error, file_info) result"
  pb_realpath :: "string \<Rightarrow> (string, string) result"
  pb_username :: "string \<Rightarrow> string option"
  pb_groupname :: "string \<Rightarrow> string option"
  pb_userid :: "string \<Rightarrow> string option"
  pb_noexec :: "string \<Rightarrow> bool option"
  pb_quote :: "string \<Rightarrow> string"

fun oct_nat :: "nat \<Rightarrow> string" where
  "oct_nat n = (if n < 8 then [digit_char n] else oct_nat (n div 8) @ [digit_char (n mod 8)])"

declare oct_nat.simps [simp del]

text \<open>\<^verbatim>\<open>%04o\<close> and \<^verbatim>\<open>%#o\<close>.\<close>

definition oct4 :: "32 word \<Rightarrow> string" where
  "oct4 m = (let s = oct_nat (unat m) in replicate (4 - length s) (CHR ''0'') @ s)"

definition oct_hash :: "32 word \<Rightarrow> string" where
  "oct_hash m = (if m = 0 then ''0'' else CHR ''0'' # oct_nat (unat m))"

definition serviceAccountName :: "string \<Rightarrow> string" where
  "serviceAccountName goos = (if goos = ''darwin'' then ''_uncluster'' else ''uncluster'')"

definition agentServiceName :: string where
  "agentServiceName = ''com.uncluster.agent''"

definition sshdConfigIncludeLine :: string where
  "sshdConfigIncludeLine = ''Include /etc/ssh/sshd_config.d/*''"

definition dash :: string where
  "dash = [CHR 0xE2, CHR 0x80, CHR 0x94]"

text \<open>\<^verbatim>\<open>bufio.Scanner\<close> over lines: it stops at a line that does not fit its buffer.\<close>

definition scan_lines :: "string \<Rightarrow> string list" where
  "scan_lines s = (let ls = split_char newline s; ls = (if last ls = [] then butlast ls else ls)
     in map (\<lambda>l. if l \<noteq> [] \<and> last l = CHR 0x0D then butlast l else l) (takeWhile (\<lambda>l. length l < 65536) ls))"

section \<open>The command sshd runs\<close>

definition filepath_dir :: "string \<Rightarrow> string" where
  "filepath_dir p = (if CHR ''/'' \<notin> set p then ''.'' else let d = path_dir p in if d = [] then ''/'' else d)"

record path_ownership =
  po_uid :: "32 word"
  po_perm :: "32 word"
  po_isRegular :: bool

datatype owner_error = UnsupportedPlatform | OwnerStat string

definition statPathOwnership :: "probe \<Rightarrow> string \<Rightarrow> (owner_error, path_ownership) result" where
  "statPathOwnership pb p =
     (case pb_stat pb p of
        Inl e \<Rightarrow> Inl (OwnerStat (stat_error_text e))
      | Inr info \<Rightarrow>
          (case fi_sys info of
             None \<Rightarrow> Inl UnsupportedPlatform
           | Some (uid, _) \<Rightarrow> Inr \<lparr>po_uid = uid, po_perm = fi_perm info, po_isRegular = fi_regular info\<rparr>))"

definition principalsChainComponentKind :: "bool \<Rightarrow> string" where
  "principalsChainComponentKind leaf = (if leaf then ''binary'' else ''ancestor directory'')"

definition principalsCommandCheckName :: string where
  "principalsCommandCheckName = ''sshd-principals-command-binary''"

text \<open>The walk terminates: a parent that differs from its path is shorter, or the fixed point of a
  relative path.\<close>

definition path_measure :: "string \<Rightarrow> nat" where
  "path_measure p = (if p = ''.'' then 0 else Suc (length p))"

lemma length_path_dir: "CHR ''/'' \<in> set p \<Longrightarrow> length (path_dir p) < length p"
proof -
  assume "CHR ''/'' \<in> set p"
  then have "dropWhile (\<lambda>c. c \<noteq> CHR ''/'') (rev p) \<noteq> []" by (auto simp: dropWhile_eq_Nil_conv)
  moreover have "length (dropWhile (\<lambda>c. c \<noteq> CHR ''/'') (rev p)) \<le> length p" by (metis length_dropWhile_le length_rev)
  ultimately show ?thesis by (cases "dropWhile (\<lambda>c. c \<noteq> CHR ''/'') (rev p)") (auto simp: path_dir_def)
qed

lemma filepath_dir_shrinks: "filepath_dir p \<noteq> p \<Longrightarrow> path_measure (filepath_dir p) < path_measure p"
proof (cases "CHR ''/'' \<in> set p")
  case True
  assume n: "filepath_dir p \<noteq> p"
  have l: "length (path_dir p) < length p" using length_path_dir [OF True] .
  show ?thesis
  proof (cases "path_dir p = []")
    case True
    then have d: "filepath_dir p = ''/''" using \<open>CHR ''/'' \<in> set p\<close> by (simp add: filepath_dir_def)
    then have "p \<noteq> [] \<and> p \<noteq> ''/''" using n \<open>CHR ''/'' \<in> set p\<close> by auto
    then have "1 < length p" using \<open>CHR ''/'' \<in> set p\<close> by (cases p; cases "tl p") auto
    then show ?thesis using d by (auto simp: path_measure_def)
  next
    case False
    then show ?thesis using l \<open>CHR ''/'' \<in> set p\<close> by (auto simp: filepath_dir_def path_measure_def)
  qed
qed (auto simp: filepath_dir_def path_measure_def)

function walk_from :: "(string \<Rightarrow> string) \<Rightarrow> (string \<Rightarrow> (owner_error, path_ownership) result) \<Rightarrow> string \<Rightarrow> bool \<Rightarrow> string \<Rightarrow> doctor_check" where
  "walk_from quote stat bin leaf p =
     (let name = principalsCommandCheckName; kind = principalsChainComponentKind leaf in
      case stat p of
        Inl UnsupportedPlatform \<Rightarrow> result_of name CheckWarn ''cannot read ownership of the command path on this platform''
      | Inl (OwnerStat e) \<Rightarrow> result_of name CheckFail
          (''AuthorizedPrincipalsCommand '' @ kind @ '' '' @ quote p @ '' not stat-able: '' @ e)
      | Inr own \<Rightarrow>
          if leaf \<and> \<not> po_isRegular own then result_of name CheckFail
            (''AuthorizedPrincipalsCommand binary '' @ quote p @ '' is not a regular file; sshd rejects it'')
          else if po_uid own \<noteq> 0 then result_of name CheckFail
            (''AuthorizedPrincipalsCommand '' @ kind @ '' '' @ quote p @ '' owned by uid '' @ dec_nat (unat (po_uid own))
             @ ''; sshd requires root (uid 0) for every component of the command path'')
          else if po_perm own AND 18 \<noteq> 0 then result_of name CheckFail
            (''AuthorizedPrincipalsCommand '' @ kind @ '' '' @ quote p @ '' is group/world-writable (mode '' @ oct4 (po_perm own)
             @ ''); sshd rejects the command path'')
          else if filepath_dir p = p then result_of name CheckOK
            (''AuthorizedPrincipalsCommand binary '' @ quote bin
             @ '' and its full path chain (to /) are root-owned and not group/world-writable'')
          else walk_from quote stat bin False (filepath_dir p))"
  by pat_completeness auto
termination
  by (relation "measure (\<lambda>(_, _, _, _, p). path_measure p)") (auto intro: filepath_dir_shrinks)

declare walk_from.simps [simp del]

definition walkCommandPathChain :: "(string \<Rightarrow> string) \<Rightarrow> string \<Rightarrow> (string \<Rightarrow> (owner_error, path_ownership) result) \<Rightarrow> doctor_check" where
  "walkCommandPathChain quote bin stat = walk_from quote stat bin True bin"

definition parseAuthorizedPrincipalsCommandBin :: "string \<Rightarrow> string" where
  "parseAuthorizedPrincipalsCommandBin content =
     (case find (\<lambda>line. let fs = Prelude.fields (trim_space line)
                  in 2 \<le> length fs \<and> equal_fold (fs ! 0) ''AuthorizedPrincipalsCommand'') (split_char newline content) of
        None \<Rightarrow> []
      | Some line \<Rightarrow> Prelude.fields (trim_space line) ! 1)"

text \<open>\<^verbatim>\<open>filepath.IsAbs\<close> on Unix is a leading slash.\<close>

definition checkPrincipalsCommandBinary :: "probe \<Rightarrow> expected_paths \<Rightarrow> doctor_check" where
  "checkPrincipalsCommandBinary pb paths =
     (let name = principalsCommandCheckName in
      case pb_read pb (xp_SSHDropIn paths) of
        Inl err \<Rightarrow> result_of name CheckFail (''cannot read drop-in '' @ xp_SSHDropIn paths @ '': '' @ err)
      | Inr b \<Rightarrow>
          let bin = parseAuthorizedPrincipalsCommandBin b in
          if bin = [] then result_of name CheckWarn
            (''no AuthorizedPrincipalsCommand directive in '' @ xp_SSHDropIn paths @ '' (run install to repair)'')
          else if \<not> has_prefix ''/'' bin then result_of name CheckFail
            (''AuthorizedPrincipalsCommand binary '' @ pb_quote pb bin @ '' is not absolute (sshd requires an absolute path)'')
          else (case pb_realpath pb bin of
            Inl err \<Rightarrow> result_of name CheckFail
              (''AuthorizedPrincipalsCommand binary '' @ pb_quote pb bin @ '' cannot be resolved: '' @ err)
          | Inr resolved \<Rightarrow> walkCommandPathChain (pb_quote pb) resolved (statPathOwnership pb)))"

section \<open>sshd\<close>

definition checkSSHDBinary :: "probe \<Rightarrow> doctor_check" where
  "checkSSHDBinary pb =
     (if \<not> pb_lookpath pb ''sshd'' then result_of ''sshd-binary'' CheckFail ''sshd not found in PATH''
      else result_of ''sshd-binary'' CheckOK ''sshd found'')"

definition checkSSHDRunning :: "probe \<Rightarrow> doctor_check" where
  "checkSSHDRunning pb =
     (let ok = (if pb_goos pb = ''darwin'' then pb_run pb [''launchctl'', ''list'', ''com.openssh.sshd'']
                else pb_run pb [''systemctl'', ''is-active'', ''--quiet'', ''ssh'']
                  \<or> pb_run pb [''systemctl'', ''is-active'', ''--quiet'', ''sshd''])
      in if ok then result_of ''sshd-running'' CheckOK ''sshd active''
         else result_of ''sshd-running'' CheckFail ''sshd not running'')"

definition checkCAPubkey :: "probe \<Rightarrow> expected_paths \<Rightarrow> string \<Rightarrow> doctor_check" where
  "checkCAPubkey pb paths wantPubkey =
     (case pb_read pb (xp_CAPubkey paths) of
        Inl err \<Rightarrow> result_of ''ca-pubkey'' CheckFail (''missing '' @ xp_CAPubkey paths @ '': '' @ err)
      | Inr b \<Rightarrow>
          if trim_space b \<noteq> trim_space wantPubkey
          then result_of ''ca-pubkey'' CheckFail (''ca pubkey mismatch at '' @ xp_CAPubkey paths)
          else result_of ''ca-pubkey'' CheckOK (''ca pubkey ok at '' @ xp_CAPubkey paths))"

definition checkSSHDropIn :: "probe \<Rightarrow> expected_paths \<Rightarrow> doctor_check" where
  "checkSSHDropIn pb paths =
     (case pb_read pb (xp_SSHDropIn paths) of
        Inl err \<Rightarrow> result_of ''sshd-drop-in'' CheckFail (''missing '' @ xp_SSHDropIn paths @ '': '' @ err)
      | Inr content \<Rightarrow>
          let user = serviceAccountName (pb_goos pb);
              missing =
                (if \<not> contains content (''TrustedUserCAKeys '' @ xp_CAPubkey paths) then [''TrustedUserCAKeys '' @ xp_CAPubkey paths] else [])
              @ (if parseAuthorizedPrincipalsCommandBin content = [] \<or> \<not> contains content ''agent principals %u''
                 then [''AuthorizedPrincipalsCommand <uncluster> agent principals %u''] else [])
              @ (if \<not> contains content (''AuthorizedPrincipalsCommandUser '' @ user) then [''AuthorizedPrincipalsCommandUser '' @ user] else [])
          in if missing \<noteq> [] then result_of ''sshd-drop-in'' CheckWarn (''drop-in at '' @ xp_SSHDropIn paths
                 @ '' missing/mismatched directive(s): '' @ join_with ''; '' missing @ '' (run install to repair)'')
             else result_of ''sshd-drop-in'' CheckOK (''drop-in ok at '' @ xp_SSHDropIn paths @ '' (AuthorizedPrincipalsCommand)''))"

definition checkMacOSInclude :: "probe \<Rightarrow> doctor_check" where
  "checkMacOSInclude pb =
     (case pb_read pb ''/etc/ssh/sshd_config'' of
        Inl _ \<Rightarrow> result_of ''macos-include'' CheckOK ''sshd_config absent (Sonoma+ implicit include assumed)''
      | Inr b \<Rightarrow>
          if list_ex (\<lambda>l. equal_fold (trim_space l) sshdConfigIncludeLine) (scan_lines b)
          then result_of ''macos-include'' CheckOK ''Include directive present in sshd_config''
          else result_of ''macos-include'' CheckWarn ''Include /etc/ssh/sshd_config.d/* missing from sshd_config (run install to add)'')"

definition checkSSHDEffectiveConfig :: "probe \<Rightarrow> expected_paths \<Rightarrow> doctor_check" where
  "checkSSHDEffectiveConfig pb paths =
     (case pb_output pb [''sshd'', ''-T''] of
        Inl err \<Rightarrow> result_of ''sshd-effective-config'' CheckWarn (''sshd -T failed: '' @ err)
      | Inr out \<Rightarrow>
          let content = to_lower out;
              missing =
                (if \<not> contains content (to_lower (xp_CAPubkey paths)) then [''TrustedUserCAKeys''] else [])
              @ (if \<not> contains content ''authorizedprincipalscommand'' \<or> \<not> contains content ''agent principals''
                 then [''AuthorizedPrincipalsCommand''] else [])
          in if missing \<noteq> [] then result_of ''sshd-effective-config'' CheckFail (''sshd effective config missing: '' @ join_with '', '' missing)
             else result_of ''sshd-effective-config'' CheckOK ''sshd effective config has TrustedUserCAKeys + AuthorizedPrincipalsCommand'')"

section \<open>Accounts, directories and the service\<close>

record payload_dir_facts =
  pf_statErr :: "stat_error option"
  pf_isSymlink :: bool
  pf_isDir :: bool
  pf_perm :: "32 word"
  pf_uid :: "32 word"
  pf_wantUID :: "32 word"
  pf_ownerKnown :: bool
  pf_noexec :: bool
  pf_noexecKnown :: bool

definition payloadDirResult :: "probe \<Rightarrow> string \<Rightarrow> payload_dir_facts \<Rightarrow> doctor_check" where
  "payloadDirResult pb dir f =
     (let name = ''payload-dir'' in
      case pf_statErr f of
        Some (SeNotExist _) \<Rightarrow> result_of name CheckWarn (''managed payload dir '' @ dir @ '' missing (run install to create it)'')
      | Some (SeOther err) \<Rightarrow> result_of name CheckFail (''cannot stat payload dir '' @ dir @ '': '' @ err)
      | None \<Rightarrow>
          if pf_isSymlink f then result_of name CheckFail (''payload dir '' @ dir
            @ '' is a symlink; refused (an attacker-swappable link could redirect the executed payload)'')
          else if \<not> pf_isDir f then result_of name CheckFail (''payload path '' @ dir @ '' is not a directory'')
          else if pf_perm f AND 2 \<noteq> 0 then result_of name CheckFail (''payload dir '' @ dir @ '' is world-writable (mode ''
            @ oct4 (pf_perm f) @ ''); any local user could replace the executed payload'')
          else if pf_ownerKnown f \<and> pf_uid f \<noteq> pf_wantUID f then result_of name CheckFail (''payload dir '' @ dir
            @ '' owned by uid '' @ dec_nat (unat (pf_uid f)) @ '', want the service account ''
            @ pb_quote pb (serviceAccountName (pb_goos pb)) @ '' (uid '' @ dec_nat (unat (pf_wantUID f)) @ '')'')
          else if pf_noexecKnown f \<and> pf_noexec f then result_of name CheckFail (''payload dir '' @ dir
            @ '' is on a noexec mount; the launcher cannot exec the payload binary'')
          else result_of name CheckOK (''payload dir '' @ dir
            @ '' present, service-account-owned, not world-writable, exec-permitted''))"

text \<open>\<^verbatim>\<open>strconv.Atoi\<close>.\<close>

definition Atoi :: "string \<Rightarrow> int option" where
  "Atoi s =
     (let (sg, ds) = (case s of
            [] \<Rightarrow> (1, [])
          | c # cs \<Rightarrow> if c = CHR ''-'' then (-1, cs) else if c = CHR ''+'' then (1, cs) else (1, s));
          v = sg * int (dec_value ds)
      in if ds = [] \<or> \<not> list_all is_digit ds \<or> v < - (2 ^ 63) \<or> 2 ^ 63 \<le> v then None else Some v)"

definition checkPayloadDir :: "probe \<Rightarrow> doctor_check" where
  "checkPayloadDir pb =
     (let dir = ManagedPayloadDir (pb_goos pb);
          f0 = \<lparr>pf_statErr = None, pf_isSymlink = False, pf_isDir = False, pf_perm = 0, pf_uid = 0, pf_wantUID = 0,
                pf_ownerKnown = False, pf_noexec = False, pf_noexecKnown = False\<rparr> in
      case pb_lstat pb dir of
        Inl err \<Rightarrow> payloadDirResult pb dir (f0\<lparr>pf_statErr := Some err\<rparr>)
      | Inr fi \<Rightarrow>
          let f = f0\<lparr>pf_isSymlink := fi_symlink fi, pf_isDir := fi_dir fi, pf_perm := fi_perm fi\<rparr>;
              f = (case fi_sys fi of
                     None \<Rightarrow> f
                   | Some (uid, _) \<Rightarrow>
                       (case Option.bind (pb_userid pb (serviceAccountName (pb_goos pb))) Atoi of
                          None \<Rightarrow> f\<lparr>pf_uid := uid\<rparr>
                        | Some want \<Rightarrow> f\<lparr>pf_uid := uid, pf_wantUID := word_of_int want, pf_ownerKnown := True\<rparr>));
              f = (case pb_noexec pb dir of None \<Rightarrow> f | Some b \<Rightarrow> f\<lparr>pf_noexec := b, pf_noexecKnown := True\<rparr>)
          in payloadDirResult pb dir f)"

definition checkServiceAccount :: "probe \<Rightarrow> doctor_check" where
  "checkServiceAccount pb =
     (let username = serviceAccountName (pb_goos pb) in
      if \<not> pb_run pb [''id'', ''-u'', username]
      then result_of ''service-account'' CheckFail (''service account '' @ pb_quote pb username @ '' not found'')
      else result_of ''service-account'' CheckOK (''service account '' @ pb_quote pb username @ '' exists''))"

definition lookupServiceGroupName :: "(string list \<Rightarrow> bool) \<Rightarrow> string" where
  "lookupServiceGroupName run =
     (case find (\<lambda>name. run [''getent'', ''group'', name] \<or> run [''dscl'', ''.'', ''-read'', ''/Groups/'' @ name])
             [''uncluster'', ''_uncluster''] of
        None \<Rightarrow> []
      | Some name \<Rightarrow> name)"

definition serviceGroupResult :: "probe \<Rightarrow> string \<Rightarrow> doctor_check" where
  "serviceGroupResult pb grp =
     (if grp = [] then result_of ''service-group'' CheckFail (''service account group ''
          @ pb_quote pb (serviceAccountName (pb_goos pb)) @ '' not found (config will be unreadable by the service account)'')
      else result_of ''service-group'' CheckOK (''service account group '' @ pb_quote pb grp @ '' exists''))"

definition checkServiceGroup :: "probe \<Rightarrow> doctor_check" where
  "checkServiceGroup pb = serviceGroupResult pb (lookupServiceGroupName (pb_run pb))"

definition checkServiceRunning :: "probe \<Rightarrow> doctor_check" where
  "checkServiceRunning pb =
     (if pb_goos pb = ''darwin'' then
        (if pb_run pb [''launchctl'', ''list'', agentServiceName]
         then result_of ''service-running'' CheckOK (agentServiceName @ '' loaded'')
         else result_of ''service-running'' CheckFail (agentServiceName @ '' not loaded (run install)''))
      else
        (if pb_run pb [''systemctl'', ''is-active'', ''--quiet'', agentServiceName]
         then result_of ''service-running'' CheckOK ''uncluster-agent service active''
         else result_of ''service-running'' CheckFail ''uncluster-agent service not active (run install)''))"

definition joinProblems :: "string list \<Rightarrow> string" where
  "joinProblems p = fst (foldl (\<lambda>(out, first) s. (out @ (if first then [] else ''; '') @ s, False)) ([], True) p)"

definition principalsDirResult :: "(string \<Rightarrow> string) \<Rightarrow> string \<Rightarrow> string \<Rightarrow> string \<Rightarrow> 32 word \<Rightarrow> string \<Rightarrow> doctor_check" where
  "principalsDirResult quote dir owner grp mode wantGroup =
     (let problems =
          (if owner \<noteq> ''root'' then [''owner '' @ quote owner @ '' (want root)''] else [])
        @ (if grp \<noteq> wantGroup then [''group '' @ quote grp @ '' (want '' @ quote wantGroup @ '')''] else [])
        @ (if mode AND 16 = 0 then [''mode '' @ oct_hash mode @ '' not group-writable (service account cannot write principals)''] else [])
      in if problems \<noteq> [] then result_of ''principals-dir'' CheckFail (dir @ '': '' @ joinProblems problems)
         else result_of ''principals-dir'' CheckOK (''principals dir ok at '' @ dir @ '' (root:'' @ grp @ '' '' @ oct_hash mode @ '')''))"

definition configOwnershipResult :: "(string \<Rightarrow> string) \<Rightarrow> string \<Rightarrow> string \<Rightarrow> string \<Rightarrow> 32 word \<Rightarrow> string \<Rightarrow> doctor_check" where
  "configOwnershipResult quote path owner grp mode wantGroup =
     (let problems =
          (if owner \<noteq> ''root'' then [''owner '' @ quote owner @ '' (want root)''] else [])
        @ (if grp \<noteq> wantGroup then [''group '' @ quote grp @ '' (want '' @ quote wantGroup @ '' '' @ dash
             @ '' config unreadable by service account)''] else [])
        @ (if mode AND 4 \<noteq> 0 then [''mode '' @ oct_hash mode @ '' is world-readable (exposes agent token)''] else [])
      in if problems \<noteq> [] then result_of ''config-ownership'' CheckFail (path @ '': '' @ joinProblems problems)
         else result_of ''config-ownership'' CheckOK (''config ownership ok at '' @ path @ '' (root:'' @ grp @ '' '' @ oct_hash mode @ '')''))"

definition lookupUserName :: "probe \<Rightarrow> 32 word \<Rightarrow> string" where
  "lookupUserName pb uid = (case pb_username pb (dec_nat (unat uid)) of Some n \<Rightarrow> n | None \<Rightarrow> dec_nat (unat uid))"

definition lookupGroupName :: "probe \<Rightarrow> 32 word \<Rightarrow> string" where
  "lookupGroupName pb gid = (case pb_groupname pb (dec_nat (unat gid)) of Some n \<Rightarrow> n | None \<Rightarrow> dec_nat (unat gid))"

definition checkPrincipalsDirPerms :: "probe \<Rightarrow> string \<Rightarrow> string \<Rightarrow> doctor_check" where
  "checkPrincipalsDirPerms pb dir wantGroup =
     (case pb_stat pb dir of
        Inl err \<Rightarrow> result_of ''principals-dir'' CheckFail (''missing '' @ dir @ '': '' @ stat_error_text err)
      | Inr info \<Rightarrow>
          if \<not> fi_dir info then result_of ''principals-dir'' CheckFail (dir @ '' exists but is not a directory'')
          else (case fi_sys info of
            None \<Rightarrow> result_of ''principals-dir'' CheckOK (''principals dir ok at '' @ dir @ '' (perms unverified on this platform)'')
          | Some (uid, gid) \<Rightarrow>
              let grp = lookupGroupName pb gid
              in principalsDirResult (pb_quote pb) dir (lookupUserName pb uid) grp (fi_perm info)
                   (if wantGroup = [] then grp else wantGroup)))"

definition checkConfigOwnership :: "probe \<Rightarrow> string \<Rightarrow> string \<Rightarrow> doctor_check" where
  "checkConfigOwnership pb path wantGroup =
     (case pb_stat pb path of
        Inl (SeNotExist _) \<Rightarrow> result_of ''config-ownership'' CheckWarn (path @ '' absent (run `uncluster agent install` to populate the system path)'')
      | Inl (SeOther err) \<Rightarrow> result_of ''config-ownership'' CheckFail (''stat '' @ path @ '': '' @ err)
      | Inr info \<Rightarrow>
          (case fi_sys info of
            None \<Rightarrow> result_of ''config-ownership'' CheckOK (''config ownership ok at '' @ path @ '' (perms unverified on this platform)'')
          | Some (uid, gid) \<Rightarrow>
              let grp = lookupGroupName pb gid
              in configOwnershipResult (pb_quote pb) path (lookupUserName pb uid) grp (fi_perm info)
                   (if wantGroup = [] then grp else wantGroup)))"

section \<open>The doctor\<close>

definition SystemConfigPath :: string where
  "SystemConfigPath = ''/etc/uncluster/agent.toml''"

definition Doctor :: "probe \<Rightarrow> expected_paths \<Rightarrow> string \<Rightarrow> doctor_check list" where
  "Doctor pb paths caPubkey =
     (let wantGroup = lookupServiceGroupName (pb_run pb) in
      [checkSSHDBinary pb, checkSSHDRunning pb, checkCAPubkey pb paths caPubkey, checkSSHDropIn pb paths,
       checkPrincipalsCommandBinary pb paths]
      @ (if pb_goos pb = ''darwin'' then [checkMacOSInclude pb] else [])
      @ [checkPrincipalsDirPerms pb (xp_PrincipalsDir paths) wantGroup, checkServiceAccount pb, checkServiceGroup pb,
         checkConfigOwnership pb SystemConfigPath wantGroup, checkPayloadDir pb, checkServiceRunning pb,
         checkSSHDEffectiveConfig pb paths])"

definition FullDoctor :: "probe \<Rightarrow> expected_paths \<Rightarrow> string \<Rightarrow> string list option \<Rightarrow> string \<Rightarrow> doctor_check list" where
  "FullDoctor pb paths caPubkey allowlist configPath =
     [CheckConfigLoadedPath configPath, CheckUpdateHostAllowlist (AllowedUpdateHosts allowlist)] @ Doctor pb paths caPubkey"

text \<open>\<open>quote\<close> is \<^verbatim>\<open>%q\<close>.\<close>

definition detectServiceUnitDrift :: "(string \<Rightarrow> string) \<Rightarrow> string \<Rightarrow> string \<Rightarrow> string \<Rightarrow> string list \<Rightarrow> string" where
  "detectServiceUnitDrift quote content intendedExe intendedUser intendedArgs =
     (if \<not> contains content intendedExe then ''executable path drift: unit does not reference '' @ quote intendedExe
      else if intendedUser \<noteq> [] \<and> \<not> contains content intendedUser then ''user drift: unit does not reference '' @ quote intendedUser
      else case find (\<lambda>arg. \<not> contains content arg) intendedArgs of
        Some arg \<Rightarrow> ''argument drift: unit does not reference '' @ quote arg
      | None \<Rightarrow> [])"

section \<open>The command path and sshd's rule\<close>

text \<open>\<open>command_chain p\<close>: the path, and every directory above it down to the root directory.\<close>

definition command_chain :: "string \<Rightarrow> string set" where
  "command_chain p = {q. q = p \<or> q = ''/'' \<or> q \<noteq> [] \<and> (\<exists>r. p = q @ CHR ''/'' # r)}"

text \<open>What sshd asks of one component: owned by root and neither group- nor world-writable.\<close>

definition sshd_trusts :: "(string \<Rightarrow> (owner_error, path_ownership) result) \<Rightarrow> string \<Rightarrow> bool" where
  "sshd_trusts stat q \<longleftrightarrow> (case stat q of Inl _ \<Rightarrow> False
     | Inr own \<Rightarrow> po_uid own = 0 \<and> \<not> bit (po_perm own) 1 \<and> \<not> bit (po_perm own) 4)"

lemma sshd_trusts_iff:
  "sshd_trusts stat q \<longleftrightarrow>
     (\<exists>own. stat q = Inr own \<and> po_uid own = 0 \<and> \<not> bit (po_perm own) 1 \<and> \<not> bit (po_perm own) 4)"
  by (cases "stat q") (simp_all add: sshd_trusts_def)

lemma path_dir_last: "CHR ''/'' \<notin> set r \<Longrightarrow> path_dir (q @ CHR ''/'' # r) = q"
  using path_dir_join [of r q] by (simp add: path_join_def)

lemma last_slash: "CHR ''/'' \<in> set p \<Longrightarrow> \<exists>q r. p = q @ CHR ''/'' # r \<and> CHR ''/'' \<notin> set r"
  using split_list_last by fastforce

lemma command_chain_root: "command_chain ''/'' = {''/''}"
  by (auto simp: command_chain_def Cons_eq_append_conv)

lemma command_chain_step:
  assumes "has_prefix ''/'' p" "filepath_dir p \<noteq> p"
  shows "command_chain p = insert p (command_chain (filepath_dir p)) \<and> has_prefix ''/'' (filepath_dir p)"
proof -
  have "CHR ''/'' \<in> set p" using assms(1) by (cases p) (auto simp: has_prefix_def)
  then obtain q r where p: "p = q @ CHR ''/'' # r" "CHR ''/'' \<notin> set r" using last_slash by blast
  have cut: "(\<exists>t. q @ CHR ''/'' # r = u @ CHR ''/'' # t) \<longleftrightarrow> u = q \<or> (\<exists>t. q = u @ CHR ''/'' # t)" for u
    using p(2) by (fastforce simp: append_eq_append_conv2 Cons_eq_append_conv append_eq_Cons_conv)
  have d: "filepath_dir p = (if q = [] then ''/'' else q)"
    using path_dir_last [OF p(2)] by (simp add: filepath_dir_def p(1))
  show ?thesis
  proof (cases "q = []")
    case True
    then show ?thesis using cut d p(1) by (auto simp: command_chain_def Cons_eq_append_conv has_prefix_def)
  next
    case False
    then have "hd q = CHR ''/''" using assms(1) p(1) by (cases q) (auto simp: has_prefix_def)
    then show ?thesis using cut d p(1) False by (cases q) (auto simp: command_chain_def has_prefix_def)
  qed
qed

lemma command_chain_end:
  assumes "has_prefix ''/'' p" "filepath_dir p = p"
  shows "p = ''/''"
proof (cases "path_dir p = []")
  case True
  then show ?thesis using assms by (cases p) (auto simp: filepath_dir_def has_prefix_def)
next
  case False
  have "CHR ''/'' \<in> set p" using assms(1) by (cases p) (auto simp: has_prefix_def)
  then have "length p < length p" using length_path_dir [of p] assms(2) False by (simp add: filepath_dir_def)
  then show ?thesis by simp
qed

lemma write_bits: "(w :: 32 word) AND 18 = 0 \<longleftrightarrow> \<not> bit w 1 \<and> \<not> bit w 4"
proof -
  have e: "(18 :: 32 word) = push_bit 1 1 OR push_bit 4 1" by simp
  have b: "bit (18 :: 32 word) n \<longleftrightarrow> n = 1 \<or> n = 4" for n
    unfolding e bit_or_iff bit_push_bit_iff bit_1_iff by auto
  have "w AND 18 = 0 \<longleftrightarrow> (\<forall>n. \<not> (bit w n \<and> bit (18 :: 32 word) n))"
    by (simp add: bit_eq_iff bit_and_iff)
  then show ?thesis unfolding b by auto
qed

lemma walk_from_ok:
  assumes "has_prefix ''/'' p"
  shows "dc_Status (walk_from quote stat bin leaf p) = CheckOK \<longleftrightarrow>
     (leaf \<longrightarrow> (\<exists>own. stat p = Inr own \<and> po_isRegular own)) \<and> (\<forall>q \<in> command_chain p. sshd_trusts stat q)"
  using assms
proof (induction quote stat bin leaf p rule: walk_from.induct)
  case (1 quote stat bin leaf p)
  have self: "p \<in> command_chain p" by (simp add: command_chain_def)
  show ?case
  proof (cases "stat p")
    case (Inl e)
    then have "\<not> sshd_trusts stat p" by (simp add: sshd_trusts_def)
    then show ?thesis using self Inl
      by (subst walk_from.simps) (auto simp: Let_def result_of_def split: owner_error.splits)
  next
    case (Inr own)
    show ?thesis
    proof (cases "leaf \<and> \<not> po_isRegular own \<or> po_uid own \<noteq> 0 \<or> po_perm own AND 18 \<noteq> 0")
      case True
      then have "\<not> (leaf \<longrightarrow> po_isRegular own) \<or> \<not> sshd_trusts stat p"
        using Inr by (auto simp: sshd_trusts_def write_bits)
      moreover have "dc_Status (walk_from quote stat bin leaf p) = CheckFail" using True Inr
        by (subst walk_from.simps) (auto simp: Let_def result_of_def)
      ultimately show ?thesis using self Inr by auto
    next
      case False
      then have t: "sshd_trusts stat p" using Inr by (simp add: sshd_trusts_def write_bits)
      show ?thesis
      proof (cases "filepath_dir p = p")
        case True
        then show ?thesis using False Inr t command_chain_end [OF 1(2) True]
          by (subst walk_from.simps) (auto simp: Let_def result_of_def command_chain_root)
      next
        case nxt: False
        note step = command_chain_step [OF 1(2) nxt]
        have "dc_Status (walk_from quote stat bin False (filepath_dir p)) = CheckOK \<longleftrightarrow>
          (\<forall>q \<in> command_chain (filepath_dir p). sshd_trusts stat q)"
          using 1(1) [OF refl refl Inr _ _ _ nxt] False step by auto
        then show ?thesis using False Inr t nxt step
          by (subst walk_from.simps) (auto simp: Let_def)
      qed
    qed
  qed
qed

text \<open>C39: the doctor's walk over the path of the command sshd runs accepts a path exactly when the
  command is a regular file and every component, from the command through each directory above it to
  the root directory, is owned by root and writable neither by its group nor by others: sshd's own
  condition. A component it cannot read, a writable directory anywhere in the chain or a foreign owner
  is never reported as sound.\<close>

theorem walk_accepts_exactly_trusted_paths:
  assumes "has_prefix ''/'' bin"
  shows "dc_Status (walkCommandPathChain quote bin stat) = CheckOK \<longleftrightarrow>
     (\<exists>own. stat bin = Inr own \<and> po_isRegular own)
     \<and> (\<forall>q. q = bin \<or> q = ''/'' \<or> q \<noteq> [] \<and> (\<exists>r. bin = q @ CHR ''/'' # r) \<longrightarrow>
          (\<exists>own. stat q = Inr own \<and> po_uid own = 0 \<and> \<not> bit (po_perm own) 1 \<and> \<not> bit (po_perm own) 4))"
  unfolding walkCommandPathChain_def walk_from_ok [OF assms] sshd_trusts_iff
  by (simp add: command_chain_def)

theorem walk_accepts_exactly_trusted_paths_witness:
  "dc_Status (walkCommandPathChain id ''/opt/u'' (\<lambda>p. Inr \<lparr>po_uid = 0, po_perm = 493, po_isRegular = p = ''/opt/u''\<rparr>)) = CheckOK
   \<and> dc_Status (walkCommandPathChain id ''/opt/u'' (\<lambda>p. Inr \<lparr>po_uid = 0, po_perm = (if p = ''/opt'' then 511 else 493),
        po_isRegular = p = ''/opt/u''\<rparr>)) \<noteq> CheckOK"
proof -
  have a: "has_prefix ''/'' ''/opt/u''" by (simp add: has_prefix_def)
  have b: "\<not> bit (493 :: 32 word) 1" "\<not> bit (493 :: 32 word) 4" "bit (511 :: 32 word) 1" by simp_all
  have c: "\<exists>r. ''/opt/u'' = ''/opt'' @ CHR ''/'' # r" by simp
  show ?thesis unfolding walk_accepts_exactly_trusted_paths [OF a] using b c by auto
qed

section \<open>The drop-in names the command the doctor reads\<close>

definition graphic :: "char \<Rightarrow> bool" where
  "graphic c \<longleftrightarrow> (32 :: nat) < of_char c \<and> of_char c < (127 :: nat)"

lemma graphic_space: "graphic c \<Longrightarrow> \<not> is_space (of_char c)"
  by (auto simp: graphic_def is_space_def)

lemma runes_ascii_all: "\<forall>c \<in> set s. of_char c < (128 :: nat) \<Longrightarrow> runes s = map (\<lambda>c. (of_char c, [c])) s"
  by (induction s) (auto simp: runes_ascii)

lemma fields_go_word:
  "list_all graphic w \<Longrightarrow> fields_go (map (\<lambda>c. (of_char c, [c])) w @ rs) = (fst (fields_go rs), w @ snd (fields_go rs))"
  by (induction w) (auto simp: graphic_space split: prod.splits)

lemma fields_word: "list_all graphic w \<Longrightarrow> w \<noteq> [] \<Longrightarrow> list_all (\<lambda>c. of_char c < (128 :: nat)) s \<Longrightarrow>
    Prelude.fields (w @ CHR '' '' # s) = w # Prelude.fields s"
proof -
  assume w: "list_all graphic w" "w \<noteq> []" and s: "list_all (\<lambda>c. of_char c < (128 :: nat)) s"
  have r: "runes (w @ CHR '' '' # s) = map (\<lambda>c. (of_char c, [c])) w @ (32, '' '') # runes s"
  proof -
    have "\<forall>c \<in> set (w @ CHR '' '' # s). of_char c < (128 :: nat)" "\<forall>c \<in> set s. of_char c < (128 :: nat)"
      using w s by (auto simp: graphic_def list_all_iff)
    then show ?thesis by (simp only: runes_ascii_all) simp
  qed
  have "is_space 32" by (simp add: is_space_def)
  then show ?thesis
    unfolding Prelude.fields_def r fields_go_word [OF w(1)] using w(2) by (auto simp: Let_def split: prod.splits)
qed

lemma trim_space_ends:
  assumes "list_all (\<lambda>c. of_char c < (128 :: nat)) s" "s \<noteq> []" "graphic (hd s)" "graphic (last s)"
  shows "trim_space s = s"
proof -
  have r: "runes s = map (\<lambda>c. (of_char c, [c])) s" using assms(1) by (simp add: runes_ascii_all list_all_iff)
  have d: "dropWhile (\<lambda>p. is_space (fst p)) (map (\<lambda>c. (of_char c :: nat, [c])) t) = map (\<lambda>c. (of_char c, [c])) t"
    if "t \<noteq> []" "graphic (hd t)" for t
    using that graphic_space by (cases t) auto
  have c: "concat (map (\<lambda>c. [c]) s) = s" by (induction s) auto
  show ?thesis unfolding trim_space_def Let_def r d [OF assms(2,3)]
    using d [of "rev s"] assms(2,4) c by (simp add: rev_map hd_rev comp_def)
qed

lemma drop_in_first_line:
  "\<not> (2 \<le> length (Prelude.fields (trim_space (CHR ''T'' # s)))
     \<and> equal_fold (Prelude.fields (trim_space (CHR ''T'' # s)) ! 0) ''AuthorizedPrincipalsCommand'')"
proof -
  have "of_char (CHR ''T'') < (128::nat)" "\<not> is_space (of_char (CHR ''T''))" by (simp_all add: is_space_def)
  from first_field_head [OF this, of s] obtain w fs where f: "Prelude.fields (trim_space (CHR ''T'' # s)) = (CHR ''T'' # w) # fs"
    by blast
  show ?thesis by (simp add: f equal_fold_def fold_text_Cons fold_rune_def)
qed

lemma runes_ascii_list: "list_all (\<lambda>c. of_char c < (128 :: nat)) s \<Longrightarrow> graphic c \<Longrightarrow> list_all (\<lambda>c. of_char c < (128 :: nat)) (c # s)"
  by (simp add: graphic_def)

lemma parse_second_line:
  assumes "split_char newline content = l1 # l2 # rest"
    "\<not> (2 \<le> length (Prelude.fields (trim_space l1)) \<and> equal_fold (Prelude.fields (trim_space l1) ! 0) ''AuthorizedPrincipalsCommand'')"
    "Prelude.fields (trim_space l2) = a # b # fs" "equal_fold a ''AuthorizedPrincipalsCommand''"
  shows "parseAuthorizedPrincipalsCommandBin content = b"
  using assms(2,4) by (auto simp: parseAuthorizedPrincipalsCommandBin_def assms(1,3) Let_def)

lemma drop_in_command:
  assumes bin: "list_all graphic bin" "bin \<noteq> []" and ca: "newline \<notin> set ca"
  shows "parseAuthorizedPrincipalsCommandBin (sshdDropInContentUnix ca bin user) = bin"
proof -
  let ?a = "''AuthorizedPrincipalsCommand''"
  let ?l = "?a @ CHR '' '' # bin @ '' agent principals %u''"
  have nl: "newline \<notin> set bin" using bin by (auto simp: list_all_iff graphic_def)
  define rest where "rest = split_char newline (''AuthorizedPrincipalsCommandUser '' @ user @ [newline])"
  have "newline \<notin> set (''TrustedUserCAKeys '' @ ca)" "newline \<notin> set ?l" using nl ca by auto
  note field = this [THEN split_char_field]
  have c: "sshdDropInContentUnix ca bin user = (''TrustedUserCAKeys '' @ ca) @ newline # (?l @ newline #
      (''AuthorizedPrincipalsCommandUser '' @ user @ [newline]))"
    by (simp add: sshdDropInContentUnix_def)
  have sp: "split_char newline (sshdDropInContentUnix ca bin user) = (''TrustedUserCAKeys '' @ ca) # ?l # rest"
    unfolding c field rest_def ..
  have g: "list_all graphic ?a" by (simp add: graphic_def)
  have asc: "list_all (\<lambda>c. of_char c < (128 :: nat)) (bin @ '' agent principals %u'')"
    using bin by (auto simp: list_all_iff graphic_def)
  have t: "trim_space ?l = ?l" by (rule trim_space_ends) (use bin in \<open>auto simp: list_all_iff graphic_def\<close>)
  have f: "Prelude.fields (trim_space ?l) = ?a # bin # Prelude.fields ''agent principals %u''"
    unfolding t using fields_word [OF g _ asc] fields_word [OF bin(1,2), of "''agent principals %u''"] by simp
  have a: "equal_fold ?a ?a" by (simp only: equal_fold_def)
  have n: "\<not> (2 \<le> length (Prelude.fields (trim_space (''TrustedUserCAKeys '' @ ca)))
      \<and> equal_fold (Prelude.fields (trim_space (''TrustedUserCAKeys '' @ ca)) ! 0) ?a)"
    using drop_in_first_line [of "''rustedUserCAKeys '' @ ca"] by simp
  show ?thesis by (rule parse_second_line [OF sp n f a])
qed

text \<open>the doctor reads back, from the drop-in that the installer writes, the very command the
  installer was given, whatever the path of the CA key and the user name are: the command whose path
  chain it checks is the one sshd will run.\<close>

theorem drop_in_command_round_trip:
  assumes bin: "list_all graphic bin" "bin \<noteq> []" and ca: "newline \<notin> set ca"
  shows "parseAuthorizedPrincipalsCommandBin (sshdDropInContentUnix ca bin user) = bin"
  by (rule drop_in_command [OF assms])

theorem drop_in_command_round_trip_witness:
  "parseAuthorizedPrincipalsCommandBin (sshdDropInContentUnix ''/etc/ssh/ca.pub'' ''/opt/uncluster/uncluster'' ''uncluster'')
     = ''/opt/uncluster/uncluster''"
  by (rule drop_in_command_round_trip) (simp_all add: graphic_def)

section \<open>The exit code\<close>

lemma exit_code_from_cases:
  "exit_code_from code r =
     (if \<exists>c \<in> set r. dc_Status c = CheckFail then 2 else if \<exists>c \<in> set r. dc_Status c = CheckWarn then 1 else code)"
  by (induction code r rule: exit_code_from.induct) (auto split: check_status.splits)

lemma health_state_cases:
  "''fail'' = healthState s \<longleftrightarrow> s = CheckFail" "''warn'' = healthState s \<longleftrightarrow> s = CheckWarn"
  by (cases s; simp add: healthState_def)+

text \<open>the exit code of the doctor and the health checks the agent reports to the control plane
  agree: 2 exactly when a reported state is \<open>fail\<close>, 1 exactly when none is but one is \<open>warn\<close>, and 0
  otherwise; the checks that only inform (the configuration path loaded, the update allowlist) never
  raise it to 2, so a failing exit code always comes from a check of the machine.\<close>

theorem exit_code_is_health:
  "ExitCode (FullDoctor pb paths ca allowlist configPath) =
     (let states = map hc_State (HealthChecks (FullDoctor pb paths ca allowlist configPath))
      in if ''fail'' \<in> set states then 2 else if ''warn'' \<in> set states then 1 else 0)
   \<and> (ExitCode (FullDoctor pb paths ca allowlist configPath) = 2 \<longleftrightarrow> ExitCode (Doctor pb paths ca) = 2)"
proof -
  have s: "''fail'' \<in> set (map hc_State (HealthChecks r)) \<longleftrightarrow> (\<exists>c \<in> set r. dc_Status c = CheckFail)"
    "''warn'' \<in> set (map hc_State (HealthChecks r)) \<longleftrightarrow> (\<exists>c \<in> set r. dc_Status c = CheckWarn)" for r
    by (auto simp: HealthChecks_def image_iff health_state_cases)
  have "dc_Status (CheckConfigLoadedPath configPath) \<noteq> CheckFail" "dc_Status (CheckUpdateHostAllowlist l) \<noteq> CheckFail" for l
    by (simp_all add: CheckConfigLoadedPath_def CheckUpdateHostAllowlist_def)
  then show ?thesis
    unfolding Let_def s ExitCode_def exit_code_from_cases by (auto simp: FullDoctor_def)
qed

end
