(* ===== verification/Installer.thy ===== *)
theory Installer
  imports Doctor
begin

text \<open>
  The Unix installer (\<^verbatim>\<open>internal/gatekeeper/install_unix.go\<close>, \<^verbatim>\<open>gatekeeper.go\<close>, \<^verbatim>\<open>service_unix.go\<close>,
  \<^verbatim>\<open>install_launchd_darwin.go\<close>, \<^verbatim>\<open>agent/config.go\<close>, \<^verbatim>\<open>agent/config_acl_unix.go\<close>) as a sequence of
  steps on the host.

  \<open>h_files\<close> maps a clean absolute path to its inode; symbolic links occur only inside the payload
  store, which is \<open>h_store\<close>. \<open>h_log\<close> is a history variable: the commands run, newest first. What is
  not the program's own is in \<open>install_env\<close>: the commands (\<open>ie_run\<close>, their effect on the host and
  their outcome), the service library, the TOML encoder, the failures of the system calls (\<open>ie_fault\<close>,
  the error text of an operation on a path; \<open>ie_short\<close>, the number of bytes a failing write leaves),
  the umask, the group of a new file and the name \<^verbatim>\<open>os.CreateTemp\<close> settles on. The installer runs as root.
\<close>

section \<open>The host\<close>

record inode =
  in_data :: "string option"
  in_uid :: "32 word"
  in_gid :: "32 word"
  in_perm :: "32 word"

record host =
  h_files :: "string \<rightharpoonup> inode"
  h_store :: payload_store
  h_log :: "string list list"

record agent_config =
  cf_Server :: string
  cf_AgentID :: string
  cf_AgentName :: string
  cf_AgentToken :: string
  cf_CAPubkey :: string
  cf_ServerHTTPSPin :: string
  cf_ExpectedPaths :: expected_paths
  cf_PinnedVersion :: string
  cf_UpdateHostAllowlist :: "string list option"

record service_config =
  sc_Name :: string
  sc_DisplayName :: string
  sc_Description :: string
  sc_Executable :: string
  sc_Arguments :: "string list"
  sc_UserName :: string
  sc_UserService :: "bool option"

type_synonym inst = "host \<Rightarrow> host \<times> (string, unit) result"

record install_env =
  ie_goos :: string
  ie_lookpath :: "string \<Rightarrow> bool"
  ie_run :: "string list \<Rightarrow> host \<Rightarrow> host \<times> (string \<times> string, string) result"
  ie_svc_new :: "string option"
  ie_svc_install :: "service_config \<Rightarrow> inst"
  ie_svc_uninstall :: "service_config \<Rightarrow> inst"
  ie_toml :: "agent_config \<Rightarrow> string"
  ie_fault :: "string \<Rightarrow> string \<Rightarrow> string option"
  ie_short :: "string \<Rightarrow> nat option"
  ie_umask :: "32 word"
  ie_newgid :: "string \<Rightarrow> 32 word"
  ie_temp :: "string option"
  ie_same :: "string \<Rightarrow> string \<Rightarrow> bool"
  ie_store_fault :: store_faults
  ie_store_sync :: "string option"
  ie_store_text :: "ps_error \<Rightarrow> string"
  ie_version :: string
  ie_quote :: "string \<Rightarrow> string"

text \<open>Sequencing, and \<^verbatim>\<open>fmt.Errorf("ctx: %w", err)\<close>.\<close>

fun run_steps :: "inst list \<Rightarrow> inst" where
  "run_steps [] h = (h, Inr ())"
| "run_steps (f # fs) h = (case f h of (h', Inl e) \<Rightarrow> (h', Inl e) | (h', Inr _) \<Rightarrow> run_steps fs h')"

definition wrapped :: "string \<Rightarrow> inst \<Rightarrow> inst" where
  "wrapped ctx f h = (case f h of (h', Inl e) \<Rightarrow> (h', Inl (ctx @ '': '' @ e)) | (h', Inr u) \<Rightarrow> (h', Inr u))"

definition exec :: "install_env \<Rightarrow> string list \<Rightarrow> host \<Rightarrow> host \<times> (string \<times> string, string) result" where
  "exec env cmd h = (case ie_run env cmd h of (h', r) \<Rightarrow> (h'\<lparr>h_log := cmd # h_log h\<rparr>, r))"

text \<open>\<^verbatim>\<open>exec.Command(...).Run()\<close>, and the same with the combined output in the error.\<close>

definition run_cmd :: "install_env \<Rightarrow> string list \<Rightarrow> inst" where
  "run_cmd env cmd h = (case exec env cmd h of (h', Inl (e, _)) \<Rightarrow> (h', Inl e) | (h', Inr _) \<Rightarrow> (h', Inr ()))"

definition run_combined :: "install_env \<Rightarrow> string \<Rightarrow> string list \<Rightarrow> inst" where
  "run_combined env ctx cmd h =
     (case exec env cmd h of
        (h', Inl (e, out)) \<Rightarrow> (h', Inl (ctx @ '': '' @ e @ [newline] @ out))
      | (h', Inr _) \<Rightarrow> (h', Inr ()))"

section \<open>System calls\<close>

definition path_error :: "string \<Rightarrow> string \<Rightarrow> string \<Rightarrow> string" where
  "path_error op p txt = op @ '' '' @ p @ '': '' @ txt"

definition enoent :: string where
  "enoent = ''no such file or directory''"

definition is_dir :: "host \<Rightarrow> string \<Rightarrow> bool" where
  "is_dir h p \<longleftrightarrow> (case h_files h p of Some i \<Rightarrow> in_data i = None | None \<Rightarrow> False)"

definition put_inode :: "string \<Rightarrow> inode \<Rightarrow> host \<Rightarrow> host" where
  "put_inode p i h = h\<lparr>h_files := (h_files h)(p \<mapsto> i)\<rparr>"

definition new_inode :: "install_env \<Rightarrow> string option \<Rightarrow> 32 word \<Rightarrow> string \<Rightarrow> inode" where
  "new_inode env d perm p = \<lparr>in_data = d, in_uid = 0, in_gid = ie_newgid env p, in_perm = perm AND NOT (ie_umask env)\<rparr>"

text \<open>\<^verbatim>\<open>os.MkdirAll\<close>.\<close>

definition mkdir1 :: "install_env \<Rightarrow> 32 word \<Rightarrow> string \<Rightarrow> inst" where
  "mkdir1 env perm p h =
     (case ie_fault env ''mkdir'' p of
        Some t \<Rightarrow> (h, Inl (path_error ''mkdir'' p t))
      | None \<Rightarrow> (put_inode p (new_inode env None perm p) h, Inr ()))"

function MkdirAll :: "install_env \<Rightarrow> 32 word \<Rightarrow> string \<Rightarrow> inst" where
  "MkdirAll env perm p h =
     (if p = [] then (h, Inl (path_error ''mkdir'' p enoent))
      else case h_files h p of
        Some i \<Rightarrow> if in_data i = None then (h, Inr ()) else (h, Inl (path_error ''mkdir'' p ''not a directory''))
      | None \<Rightarrow>
          if CHR ''/'' \<notin> set p \<or> filepath_dir p = p then mkdir1 env perm p h
          else (case MkdirAll env perm (filepath_dir p) h of
            (h1, Inl e) \<Rightarrow> (h1, Inl e)
          | (h1, Inr _) \<Rightarrow> mkdir1 env perm p h1))"
  by pat_completeness auto
termination
  by (relation "measure (\<lambda>(_, _, p, _). path_measure p)") (auto intro: filepath_dir_shrinks)

declare MkdirAll.simps [simp del]

definition set_inode :: "install_env \<Rightarrow> string \<Rightarrow> (inode \<Rightarrow> inode) \<Rightarrow> string \<Rightarrow> inst" where
  "set_inode env op f p h =
     (case h_files h p of
        None \<Rightarrow> (h, Inl (path_error op p enoent))
      | Some i \<Rightarrow>
          (case ie_fault env op p of
             Some t \<Rightarrow> (h, Inl (path_error op p t))
           | None \<Rightarrow> (put_inode p (f i) h, Inr ())))"

definition Chmod :: "install_env \<Rightarrow> string \<Rightarrow> 32 word \<Rightarrow> inst" where
  "Chmod env p mode = set_inode env ''chmod'' (\<lambda>i. i\<lparr>in_perm := mode\<rparr>) p"

definition Chown :: "install_env \<Rightarrow> string \<Rightarrow> 32 word \<Rightarrow> 32 word \<Rightarrow> inst" where
  "Chown env p uid gid = set_inode env ''chown'' (\<lambda>i. i\<lparr>in_uid := uid, in_gid := gid\<rparr>) p"

definition ReadFile :: "install_env \<Rightarrow> string \<Rightarrow> host \<Rightarrow> (string, string) result" where
  "ReadFile env p h =
     (case h_files h p of
        None \<Rightarrow> Inl (path_error ''open'' p enoent)
      | Some i \<Rightarrow>
          (case ie_fault env ''read'' p of
             Some t \<Rightarrow> Inl (path_error ''read'' p t)
           | None \<Rightarrow> (case in_data i of None \<Rightarrow> Inl (path_error ''read'' p ''is a directory'') | Some s \<Rightarrow> Inr s)))"

text \<open>Opening with \<^verbatim>\<open>O_WRONLY|O_CREATE|O_TRUNC\<close>, writing and closing: \<^verbatim>\<open>os.WriteFile\<close>, and what
  \<^verbatim>\<open>SaveConfigSystem\<close> does with the encoder's output.\<close>

definition WriteFile :: "install_env \<Rightarrow> string \<Rightarrow> string \<Rightarrow> 32 word \<Rightarrow> inst" where
  "WriteFile env p s perm h =
     (case ie_fault env ''open'' p of
        Some t \<Rightarrow> (h, Inl (path_error ''open'' p t))
      | None \<Rightarrow>
          (case (case h_files h p of
                   Some i \<Rightarrow> if in_data i = None then None else Some i
                 | None \<Rightarrow> if is_dir h (filepath_dir p) then Some (new_inode env (Some []) perm p) else None) of
             None \<Rightarrow> (h, Inl (path_error ''open'' p (if is_dir h p then ''is a directory'' else enoent)))
           | Some i \<Rightarrow>
               (case ie_short env p of
                  Some n \<Rightarrow> (put_inode p (i\<lparr>in_data := Some (take n s)\<rparr>) h, Inl (path_error ''write'' p ''short write''))
                | None \<Rightarrow> (put_inode p (i\<lparr>in_data := Some s\<rparr>) h,
                    case ie_fault env ''close'' p of Some t \<Rightarrow> Inl (path_error ''close'' p t) | None \<Rightarrow> Inr ()))))"

section \<open>sshd\<close>

definition sshdInstallHint :: "string \<Rightarrow> string" where
  "sshdInstallHint goos =
     (if goos = ''darwin'' then ''  System Preferences '' @ [CHR 0xE2, CHR 0x86, CHR 0x92] @ '' Sharing ''
        @ [CHR 0xE2, CHR 0x86, CHR 0x92] @ '' Remote Login (enable)''
      else ''  sudo apt-get install openssh-server   # Debian/Ubuntu'' @ [newline]
        @ ''  sudo dnf install openssh-server        # Fedora/RHEL'')"

definition sshdStartHint :: "string \<Rightarrow> string" where
  "sshdStartHint goos =
     (if goos = ''darwin'' then ''  sudo launchctl load -w /System/Library/LaunchDaemons/ssh.plist''
      else ''  sudo systemctl enable --now ssh   # Debian/Ubuntu'' @ [newline]
        @ ''  sudo systemctl enable --now sshd  # Fedora/RHEL'')"

definition checkSSHD :: "install_env \<Rightarrow> inst" where
  "checkSSHD env h =
     (if \<not> ie_lookpath env ''sshd''
      then (h, Inl (''sshd not found in PATH. Install it first:'' @ [newline] @ sshdInstallHint (ie_goos env)))
      else
        let stopped = Inl (''sshd is not running. Start it with:'' @ [newline] @ sshdStartHint (ie_goos env)) in
        case run_cmd env (if ie_goos env = ''darwin'' then [''launchctl'', ''list'', ''com.openssh.sshd'']
                          else [''systemctl'', ''is-active'', ''--quiet'', ''ssh'']) h of
          (h1, Inr _) \<Rightarrow> (h1, Inr ())
        | (h1, Inl _) \<Rightarrow>
            if ie_goos env = ''linux'' then
              (case run_cmd env [''systemctl'', ''is-active'', ''--quiet'', ''sshd''] h1 of
                 (h2, Inr _) \<Rightarrow> (h2, Inr ())
               | (h2, Inl _) \<Rightarrow> (h2, stopped))
            else (h1, stopped))"

definition sshd_config_path :: string where
  "sshd_config_path = ''/etc/ssh/sshd_config''"

definition ensureMacOSInclude :: "install_env \<Rightarrow> inst" where
  "ensureMacOSInclude env h =
     (case ReadFile env sshd_config_path h of
        Inl _ \<Rightarrow> (h, Inr ())
      | Inr b \<Rightarrow>
          if list_ex (\<lambda>l. equal_fold (trim_space l) sshdConfigIncludeLine) (scan_lines b) then (h, Inr ())
          else
            (case (ie_fault env ''open'' sshd_config_path, h_files h sshd_config_path) of
               (None, Some i) \<Rightarrow>
                 let s = [newline] @ ''# Added by uncluster agent install'' @ [newline] @ sshdConfigIncludeLine @ [newline] in
                 (case ie_short env sshd_config_path of
                    Some n \<Rightarrow> (put_inode sshd_config_path (i\<lparr>in_data := Some (b @ take n s)\<rparr>) h,
                      Inl (path_error ''write'' sshd_config_path ''short write''))
                  | None \<Rightarrow> (put_inode sshd_config_path (i\<lparr>in_data := Some (b @ s)\<rparr>) h, Inr ()))
             | (Some t, _) \<Rightarrow> (h, Inl (path_error ''open'' sshd_config_path t))
             | (None, None) \<Rightarrow> (h, Inl (path_error ''open'' sshd_config_path enoent))))"

definition reloadSSHD :: "install_env \<Rightarrow> inst" where
  "reloadSSHD env h =
     (if ie_goos env = ''darwin'' then run_cmd env [''launchctl'', ''kickstart'', ''-k'', ''system/com.openssh.sshd''] h
      else case run_cmd env [''systemctl'', ''reload'', ''ssh''] h of
        (h1, Inr _) \<Rightarrow> (h1, Inr ())
      | (h1, Inl _) \<Rightarrow> run_cmd env [''systemctl'', ''reload'', ''sshd''] h1)"

definition dirOf :: "string \<Rightarrow> string" where
  "dirOf p = (let r = dropWhile (\<lambda>c. c \<noteq> CHR ''/'' \<and> c \<noteq> CHR 0x5C) (rev p) in if r = [] then ''.'' else rev (tl r))"

definition writeCAPubkey :: "install_env \<Rightarrow> expected_paths \<Rightarrow> string \<Rightarrow> inst" where
  "writeCAPubkey env paths caPubkey =
     run_steps [wrapped ''mkdir ca pubkey dir'' (MkdirAll env 493 (dirOf (xp_CAPubkey paths))),
       WriteFile env (xp_CAPubkey paths) (trim_space caPubkey @ [newline]) 420]"

definition writeSSHDropIn :: "install_env \<Rightarrow> expected_paths \<Rightarrow> string \<Rightarrow> string \<Rightarrow> inst" where
  "writeSSHDropIn env paths commandBin commandUser =
     run_steps [wrapped ''mkdir sshd drop-in dir'' (MkdirAll env 493 (dirOf (xp_SSHDropIn paths))),
       WriteFile env (xp_SSHDropIn paths) (sshdDropInContentUnix (xp_CAPubkey paths) commandBin commandUser) 420]"

definition ensurePrincipalsDir :: "install_env \<Rightarrow> expected_paths \<Rightarrow> inst" where
  "ensurePrincipalsDir env paths = MkdirAll env 493 (xp_PrincipalsDir paths)"

section \<open>The launcher binary\<close>

definition launcherDir :: string where
  "launcherDir = ''/opt/uncluster''"

definition LauncherPath :: string where
  "LauncherPath = path_join launcherDir ''uncluster''"

text \<open>\<^verbatim>\<open>tightenChain\<close> with \<^verbatim>\<open>os.Lstat\<close> and \<^verbatim>\<open>os.Chmod\<close>.\<close>

function tightenChain :: "install_env \<Rightarrow> string \<Rightarrow> inst" where
  "tightenChain env p h =
     (case h_files h p of
        None \<Rightarrow> (h, Inl (''stat launcher ancestor '' @ p @ '': '' @ path_error ''lstat'' p enoent))
      | Some i \<Rightarrow>
          (case (if in_uid i = 0 \<and> in_perm i AND 18 \<noteq> 0
                 then wrapped (''tighten '' @ p @ '' (mode '' @ oct4 (in_perm i) @ '')'') (Chmod env p (in_perm i AND NOT 18)) h
                 else (h, Inr ())) of
             (h1, Inl e) \<Rightarrow> (h1, Inl e)
           | (h1, Inr _) \<Rightarrow>
               let parent = filepath_dir p in
               if parent = p \<or> parent = ''/'' then (h1, Inr ()) else tightenChain env parent h1))"
  by pat_completeness auto
termination
  by (relation "measure (\<lambda>(_, p, _). path_measure p)") (auto intro: filepath_dir_shrinks)

declare tightenChain.simps [simp del]

definition sameFile :: "install_env \<Rightarrow> string \<Rightarrow> string \<Rightarrow> host \<Rightarrow> bool" where
  "sameFile env a b h \<longleftrightarrow> h_files h a \<noteq> None \<and> h_files h b \<noteq> None \<and> ie_same env a b"

text \<open>The deferred \<^verbatim>\<open>os.Remove\<close> of the temporary file.\<close>

definition drop_temp :: "install_env \<Rightarrow> string \<Rightarrow> host \<Rightarrow> host" where
  "drop_temp env tmp h = (if ie_fault env ''remove'' tmp = None then h\<lparr>h_files := (h_files h)(tmp := None)\<rparr> else h)"

definition copyFileAtomic :: "install_env \<Rightarrow> string \<Rightarrow> string \<Rightarrow> 32 word \<Rightarrow> inst" where
  "copyFileAtomic env src dst mode h =
     (case (h_files h src, ie_fault env ''open'' src) of
        (None, _) \<Rightarrow> (h, Inl (''open '' @ src @ '': '' @ path_error ''open'' src enoent))
      | (Some _, Some t) \<Rightarrow> (h, Inl (''open '' @ src @ '': '' @ path_error ''open'' src t))
      | (Some si, None) \<Rightarrow>
          let dir = filepath_dir dst in
          case (ie_temp env, ie_fault env ''createtemp'' dir) of
            (Some n, None) \<Rightarrow>
              let tmp = path_join dir n; created = new_inode env (Some []) 384 tmp; h1 = put_inode tmp created h in
              if \<not> is_dir h dir \<or> h_files h tmp \<noteq> None
              then (h, Inl (''create temp in '' @ dir @ '': '' @ path_error ''open'' tmp enoent))
              else (case (in_data si, ie_fault env ''copy'' src) of
                (Some s, None) \<Rightarrow>
                  let h2 = put_inode tmp (created\<lparr>in_data := Some s\<rparr>) h1 in
                  (case (ie_fault env ''sync'' tmp, ie_fault env ''close'' tmp, ie_fault env ''chmod'' tmp, ie_fault env ''rename'' dst) of
                     (Some t, _) \<Rightarrow> (drop_temp env tmp h2, Inl (''fsync '' @ tmp @ '': '' @ path_error ''sync'' tmp t))
                   | (None, Some t, _) \<Rightarrow> (drop_temp env tmp h2, Inl (''close '' @ tmp @ '': '' @ path_error ''close'' tmp t))
                   | (None, None, Some t, _) \<Rightarrow> (drop_temp env tmp h2, Inl (''chmod '' @ tmp @ '': '' @ path_error ''chmod'' tmp t))
                   | (None, None, None, Some t) \<Rightarrow>
                       (drop_temp env tmp h2, Inl (''rename '' @ tmp @ '' to '' @ dst @ '': '' @ path_error ''rename'' tmp t))
                   | (None, None, None, None) \<Rightarrow>
                       let done_inode = created\<lparr>in_data := Some s, in_perm := mode\<rparr> in
                       if is_dir h dst
                       then (drop_temp env tmp h2, Inl (''rename '' @ tmp @ '' to '' @ dst @ '': '' @ path_error ''rename'' tmp ''file exists''))
                       else (h2\<lparr>h_files := (h_files h2)(tmp := None, dst \<mapsto> done_inode)\<rparr>, Inr ()))
              | (None, _) \<Rightarrow> (drop_temp env tmp h1, Inl (''copy '' @ src @ '' to '' @ dst @ '': '' @ path_error ''read'' src ''is a directory''))
              | (_, Some t) \<Rightarrow> (drop_temp env tmp h1, Inl (''copy '' @ src @ '' to '' @ dst @ '': '' @ t)))
          | (_, Some t) \<Rightarrow> (h, Inl (''create temp in '' @ dir @ '': '' @ t))
          | (None, None) \<Rightarrow> (h, Inl (''create temp in '' @ dir @ '': '' @ enoent)))"

definition installLauncherBinary :: "install_env \<Rightarrow> string \<Rightarrow> string \<Rightarrow> inst" where
  "installLauncherBinary env srcExe launcherPath =
     (let dir = filepath_dir launcherPath in
      run_steps
       [wrapped (''mkdir launcher dir '' @ dir) (MkdirAll env 493 dir),
        wrapped (''chown launcher dir '' @ dir) (Chown env dir 0 0),
        wrapped (''chmod launcher dir '' @ dir) (Chmod env dir 493),
        wrapped ''tighten launcher path chain'' (tightenChain env dir),
        (\<lambda>h. if sameFile env srcExe launcherPath h then (h, Inr ()) else copyFileAtomic env srcExe launcherPath 493 h),
        wrapped (''chown launcher '' @ launcherPath) (Chown env launcherPath 0 0),
        wrapped (''chmod launcher '' @ launcherPath) (Chmod env launcherPath 493)])"

section \<open>The service account\<close>

definition useradd_cmd :: "string \<Rightarrow> string list" where
  "useradd_cmd username = [''useradd'', ''--system'', ''--no-create-home'', ''--shell'', ''/usr/sbin/nologin'',
     ''--comment'', ''Uncluster agent service account'', username]"

definition ensureServiceAccountLinux :: "install_env \<Rightarrow> string \<Rightarrow> inst" where
  "ensureServiceAccountLinux env username h =
     (case run_cmd env [''id'', ''-u'', username] h of
        (h1, Inr _) \<Rightarrow> (h1, Inr ())
      | (h1, Inl _) \<Rightarrow> run_cmd env (useradd_cmd username) h1)"

definition darwinSystemIDMin :: int where
  "darwinSystemIDMin = 200"

definition darwinSystemIDMax :: int where
  "darwinSystemIDMax = 499"

definition parseUsedIDsDarwin :: "string \<Rightarrow> int list" where
  "parseUsedIDsDarwin out =
     List.map_filter (\<lambda>l. let fs = Prelude.fields l in if length fs < 2 then None else Atoi (last fs)) (scan_lines out)"

definition listUsedIDsDarwin :: "install_env \<Rightarrow> string \<Rightarrow> string \<Rightarrow> host \<Rightarrow> host \<times> (string, int list) result" where
  "listUsedIDsDarwin env path key h =
     (case exec env [''dscl'', ''.'', ''-list'', path, key] h of
        (h1, Inl (e, _)) \<Rightarrow> (h1, Inl (''dscl -list '' @ path @ '' '' @ key @ '': '' @ e))
      | (h1, Inr out) \<Rightarrow> (h1, Inr (parseUsedIDsDarwin out)))"

function find_free_from :: "(int \<Rightarrow> bool) \<Rightarrow> int \<Rightarrow> (string, int) result" where
  "find_free_from inUse i =
     (if i < darwinSystemIDMin then Inl ''no free system ID found in 200-499 range''
      else if \<not> inUse i then Inr i
      else find_free_from inUse (i - 1))"
  by pat_completeness auto
termination
  by (relation "measure (\<lambda>(_, i). nat (i - darwinSystemIDMin + 1))") auto

declare find_free_from.simps [simp del]

definition findFreeIDDarwin :: "(int \<Rightarrow> bool) \<Rightarrow> (string, int) result" where
  "findFreeIDDarwin inUse = find_free_from inUse darwinSystemIDMax"

definition findFreeSystemUIDDarwin :: "install_env \<Rightarrow> host \<Rightarrow> host \<times> (string, int) result" where
  "findFreeSystemUIDDarwin env h =
     (case listUsedIDsDarwin env ''/Users'' ''UniqueID'' h of
        (h1, Inl e) \<Rightarrow> (h1, Inl e)
      | (h1, Inr used) \<Rightarrow> (h1, findFreeIDDarwin (\<lambda>i. i \<in> set used)))"

definition findFreeSystemGIDDarwin :: "install_env \<Rightarrow> host \<Rightarrow> host \<times> (string, int) result" where
  "findFreeSystemGIDDarwin env h =
     (case listUsedIDsDarwin env ''/Groups'' ''PrimaryGroupID'' h of
        (h1, Inl e) \<Rightarrow> (h1, Inl e)
      | (h1, Inr used) \<Rightarrow> (h1, findFreeIDDarwin (\<lambda>i. i \<in> set used)))"

definition dscl_create :: "string \<Rightarrow> string list list \<Rightarrow> string list list" where
  "dscl_create record_path attrs = map (\<lambda>a. [''dscl'', ''.'', ''-create'', record_path] @ a) ([] # attrs)"

definition darwin_account_cmds :: "string \<Rightarrow> int \<Rightarrow> int \<Rightarrow> string list list" where
  "darwin_account_cmds username uid gid =
     dscl_create (''/Groups/'' @ username)
       [[''PrimaryGroupID'', dec_int gid], [''RealName'', ''Uncluster Agent'']]
     @ dscl_create (''/Users/'' @ username)
       [[''UserShell'', ''/usr/bin/false''], [''RealName'', ''Uncluster Agent''], [''UniqueID'', dec_int uid],
        [''PrimaryGroupID'', dec_int gid], [''NFSHomeDirectory'', ''/var/empty'']]"

definition ensureServiceAccountDarwin :: "install_env \<Rightarrow> string \<Rightarrow> inst" where
  "ensureServiceAccountDarwin env username h =
     (case run_cmd env [''id'', ''-u'', username] h of
        (h1, Inr _) \<Rightarrow> (h1, Inr ())
      | (h1, Inl _) \<Rightarrow>
          (case findFreeSystemUIDDarwin env h1 of
             (h2, Inl e) \<Rightarrow> (h2, Inl (''find free uid: '' @ e))
           | (h2, Inr uid) \<Rightarrow>
               (case findFreeSystemGIDDarwin env h2 of
                  (h3, Inl e) \<Rightarrow> (h3, Inl (''find free gid: '' @ e))
                | (h3, Inr gid) \<Rightarrow>
                    run_steps (map (\<lambda>c. run_combined env (''dscl ['' @ join_with '' '' c @ '']'') c)
                      (darwin_account_cmds username uid gid)) h3)))"

definition ensureServiceAccount :: "install_env \<Rightarrow> inst" where
  "ensureServiceAccount env =
     (let username = serviceAccountName (ie_goos env) in
      if ie_goos env = ''darwin'' then ensureServiceAccountDarwin env username else ensureServiceAccountLinux env username)"

definition acl_grant :: "string \<Rightarrow> string" where
  "acl_grant username = username @ '' allow write,readattr,readextattr,list,add_file,add_subdirectory,delete_child,delete''"

definition grantPrincipalsAccess :: "install_env \<Rightarrow> string \<Rightarrow> inst" where
  "grantPrincipalsAccess env dir =
     (let username = serviceAccountName (ie_goos env) in
      if ie_goos env = ''darwin'' then run_cmd env [''chmod'', ''+a'', acl_grant username, dir]
      else run_steps [run_cmd env [''chown'', ''root:'' @ username, dir], run_cmd env [''chmod'', ''0775'', dir]])"

definition grantConfigDirAccess :: "install_env \<Rightarrow> string \<Rightarrow> inst" where
  "grantConfigDirAccess env dir =
     (let username = serviceAccountName (ie_goos env) in
      if ie_goos env = ''darwin'' then run_cmd env [''chmod'', ''+a'', acl_grant username, dir]
      else run_steps
        [wrapped (''chown root:'' @ username @ '' '' @ dir) (run_cmd env [''chown'', ''root:'' @ username, dir]),
         wrapped (''chmod 0775 '' @ dir) (run_cmd env [''chmod'', ''0775'', dir])])"

section \<open>The payload store and the configuration\<close>

definition Init :: "install_env \<Rightarrow> string \<Rightarrow> inst" where
  "Init env root = run_steps (map (\<lambda>d. wrapped (''payloadstore: mkdir '' @ d) (MkdirAll env 493 d))
     [path_join root ''versions'', path_join root ''quarantine''])"

definition chownTreeToServiceAccount :: "install_env \<Rightarrow> string \<Rightarrow> inst" where
  "chownTreeToServiceAccount env dir =
     (let user = serviceAccountName (ie_goos env) in
      run_combined env (''chown -R '' @ user @ '' '' @ dir) [''chown'', ''-R'', user, dir])"

definition seed_store :: "install_env \<Rightarrow> string \<Rightarrow> inst" where
  "seed_store env installExe h =
     (case Current (ie_store_fault env) (h_store h) of
        Inr _ \<Rightarrow> (h, Inr ())
      | Inl PsNoCurrent \<Rightarrow>
          (case (h_files h installExe, ie_fault env ''open'' installExe) of
             (None, _) \<Rightarrow> (h, Inl (''open install binary '' @ installExe @ '': '' @ path_error ''open'' installExe enoent))
           | (Some _, Some t) \<Rightarrow> (h, Inl (''open install binary '' @ installExe @ '': '' @ path_error ''open'' installExe t))
           | (Some i, None) \<Rightarrow>
               (case in_data i of
                  None \<Rightarrow> (h, Inl (''seed payload version '' @ ie_version env @ '': payloadstore: write payload''))
                | Some bytes \<Rightarrow>
                    (case Stage (ie_store_fault env) (ie_store_sync env) (ie_version env) bytes (h_store h) of
                       (st1, Inl e) \<Rightarrow> (h\<lparr>h_store := st1\<rparr>, Inl (''seed payload version '' @ ie_version env @ '': '' @ ie_store_text env e))
                     | (st1, Inr _) \<Rightarrow>
                         (case Activate (ie_store_fault env) (ie_store_sync env) (ie_version env) st1 of
                            (st2, Inl e) \<Rightarrow>
                              (h\<lparr>h_store := st2\<rparr>, Inl (''activate seed payload '' @ ie_version env @ '': '' @ ie_store_text env e))
                          | (st2, Inr _) \<Rightarrow> (h\<lparr>h_store := st2\<rparr>, Inr ())))))
      | Inl e \<Rightarrow> (h, Inl (''resolve current payload: '' @ ie_store_text env e)))"

definition setupPayloadStore :: "install_env \<Rightarrow> string \<Rightarrow> inst" where
  "setupPayloadStore env installExe =
     (let dir = ManagedPayloadDir (ie_goos env) in
      run_steps
       [wrapped (''mkdir payload dir '' @ dir) (MkdirAll env 493 dir),
        wrapped (''chmod payload dir '' @ dir) (Chmod env dir 493),
        Init env dir,
        seed_store env installExe,
        wrapped ''chown payload tree to service account'' (chownTreeToServiceAccount env dir)])"

text \<open>\<^verbatim>\<open>lookupServiceGroup\<close> probes \<^verbatim>\<open>uncluster\<close> before \<^verbatim>\<open>_uncluster\<close>, each with \<^verbatim>\<open>getent\<close> and then \<^verbatim>\<open>dscl\<close>.\<close>

fun lookup_group :: "install_env \<Rightarrow> string list \<Rightarrow> host \<Rightarrow> host \<times> string" where
  "lookup_group env [] h = (h, [])"
| "lookup_group env (name # names) h =
     (case run_cmd env [''getent'', ''group'', name] h of
        (h1, Inr _) \<Rightarrow> (h1, name)
      | (h1, Inl _) \<Rightarrow>
          (case run_cmd env [''dscl'', ''.'', ''-read'', ''/Groups/'' @ name] h1 of
             (h2, Inr _) \<Rightarrow> (h2, name)
           | (h2, Inl _) \<Rightarrow> lookup_group env names h2))"

definition lookupServiceGroup :: "install_env \<Rightarrow> host \<Rightarrow> host \<times> string" where
  "lookupServiceGroup env = lookup_group env [''uncluster'', ''_uncluster'']"

definition restrictSystemConfigACL :: "install_env \<Rightarrow> string \<Rightarrow> inst" where
  "restrictSystemConfigACL env path h =
     (case lookupServiceGroup env h of
        (h1, grp) \<Rightarrow>
          if grp = [] then (h1, Inr ())
          else run_steps
            [wrapped (''chown root:'' @ grp @ '' '' @ path) (run_cmd env [''chown'', ''root:'' @ grp, path]),
             wrapped (''chmod 0640 '' @ path) (Chmod env path 416)] h1)"

definition SaveConfigSystem :: "install_env \<Rightarrow> string \<Rightarrow> agent_config \<Rightarrow> inst" where
  "SaveConfigSystem env path cfg =
     run_steps [MkdirAll env 493 (filepath_dir path), WriteFile env path (ie_toml env cfg) 416, restrictSystemConfigACL env path]"

section \<open>The service\<close>

definition buildService :: "install_env \<Rightarrow> string \<Rightarrow> service_config" where
  "buildService env serviceExe =
     \<lparr>sc_Name = agentServiceName, sc_DisplayName = ''Uncluster Agent'',
      sc_Description = ''Uncluster node agent (SSH certificate gatekeeper)'', sc_Executable = serviceExe,
      sc_Arguments = [''agent'', ''launch''], sc_UserName = serviceAccountName (ie_goos env),
      sc_UserService = (if ie_goos env = ''darwin'' then Some False else None)\<rparr>"

definition serviceUnitPath :: "string \<Rightarrow> string" where
  "serviceUnitPath goos =
     (if goos = ''darwin'' then ''/Library/LaunchDaemons/com.uncluster.agent.plist''
      else if goos = ''linux'' then ''/etc/systemd/system/com.uncluster.agent.service'' else [])"

definition checkServiceUnitDrift :: "install_env \<Rightarrow> string \<Rightarrow> string \<Rightarrow> host \<Rightarrow> (string, string) result" where
  "checkServiceUnitDrift env intendedExe intendedUser h =
     (let path = serviceUnitPath (ie_goos env) in
      if path = [] then Inl (''unknown service unit path for GOOS='' @ ie_goos env)
      else case ReadFile env path h of
        Inl e \<Rightarrow> Inl e
      | Inr s \<Rightarrow> Inr (detectServiceUnitDrift (ie_quote env) s intendedExe intendedUser [''agent'', ''launch'']))"

definition isAlreadyInstalledErr :: "string \<Rightarrow> bool" where
  "isAlreadyInstalledErr s \<longleftrightarrow> contains s ''already'' \<or> contains s ''exists''"

definition launchdAgentDomainTarget :: string where
  "launchdAgentDomainTarget = ''system/'' @ agentServiceName"

definition launchdAgentPlist :: string where
  "launchdAgentPlist = ''/Library/LaunchDaemons/'' @ agentServiceName @ ''.plist''"

definition darwinLaunchctlBootstrap :: "install_env \<Rightarrow> string \<Rightarrow> inst" where
  "darwinLaunchctlBootstrap env plist = run_cmd env [''launchctl'', ''bootstrap'', ''system'', plist]"

definition darwinLaunchctlKickstart :: "install_env \<Rightarrow> inst" where
  "darwinLaunchctlKickstart env = run_cmd env [''launchctl'', ''kickstart'', ''-k'', launchdAgentDomainTarget]"

definition darwinLaunchctlBootout :: "install_env \<Rightarrow> inst" where
  "darwinLaunchctlBootout env = run_cmd env [''launchctl'', ''bootout'', launchdAgentDomainTarget]"

definition isAlreadyBootstrappedErr :: "string \<Rightarrow> bool" where
  "isAlreadyBootstrappedErr s \<longleftrightarrow> contains s ''17'' \<or> contains s ''already loaded'' \<or> contains s ''already bootstrapped''"

definition bootstrapServiceDarwin :: "install_env \<Rightarrow> inst" where
  "bootstrapServiceDarwin env h =
     (case darwinLaunchctlBootstrap env launchdAgentPlist h of
        (h1, Inr _) \<Rightarrow> (h1, Inr ())
      | (h1, Inl e) \<Rightarrow> if isAlreadyBootstrappedErr e then (h1, Inr ()) else (h1, Inl e))"

definition stopServiceForReinstall :: "install_env \<Rightarrow> inst" where
  "stopServiceForReinstall env h =
     (if ie_goos env = ''darwin'' then (fst (darwinLaunchctlBootout env h), Inr ())
      else run_cmd env [''systemctl'', ''stop'', ''com.uncluster.agent''] h)"

definition installService :: "install_env \<Rightarrow> string \<Rightarrow> inst" where
  "installService env serviceExe h =
     (case ie_svc_new env of
        Some e \<Rightarrow> (h, Inl e)
      | None \<Rightarrow>
          let svc = buildService env serviceExe in
          (case ie_svc_install env svc h of
             (h1, Inr _) \<Rightarrow> (h1, Inr ())
           | (h1, Inl e) \<Rightarrow>
               if \<not> isAlreadyInstalledErr e then (h1, Inl e)
               else
                 (case checkServiceUnitDrift env serviceExe (serviceAccountName (ie_goos env)) h1 of
                    Inl _ \<Rightarrow> (h1, Inr ())
                  | Inr drift \<Rightarrow>
                      if drift = [] then (h1, Inr ())
                      else run_steps
                        [wrapped (''uninstall drifted service ('' @ drift @ '')'') (ie_svc_uninstall env svc),
                         wrapped (''reinstall service after drift ('' @ drift @ '')'') (ie_svc_install env svc)]
                        (fst (stopServiceForReinstall env h1)))))"

definition restartOverrideConf :: string where
  "restartOverrideConf = ''[Service]'' @ [newline] @ ''Restart=on-failure'' @ [newline] @ ''RestartSec=5'' @ [newline]"

definition writeSystemdRestartOverride :: "install_env \<Rightarrow> inst" where
  "writeSystemdRestartOverride env h =
     (if ie_goos env \<noteq> ''linux'' then (h, Inr ())
      else
        let unitPath = serviceUnitPath (ie_goos env) in
        if unitPath = [] then (h, Inl (''unknown systemd unit path for GOOS='' @ ie_goos env))
        else
          let dropInDir = unitPath @ ''.d''; override = path_join dropInDir ''restart.conf'' in
          run_steps
            [wrapped (''mkdir drop-in dir '' @ dropInDir) (MkdirAll env 493 dropInDir),
             wrapped (''write '' @ override) (WriteFile env override restartOverrideConf 420),
             run_combined env ''systemctl daemon-reload'' [''systemctl'', ''daemon-reload'']] h)"

definition startService :: "install_env \<Rightarrow> inst" where
  "startService env =
     (if ie_goos env = ''darwin'' then run_steps [bootstrapServiceDarwin env, darwinLaunchctlKickstart env]
      else run_cmd env [''systemctl'', ''restart'', ''com.uncluster.agent''])"

section \<open>The installation\<close>

text \<open>\<open>prepare_steps\<close> is everything \<^verbatim>\<open>Install\<close> does before it starts the service and reloads sshd.\<close>

definition prepare_steps :: "install_env \<Rightarrow> agent_config \<Rightarrow> string \<Rightarrow> inst list" where
  "prepare_steps env cfg installExe =
     (let paths = cf_ExpectedPaths cfg; launcherPath = LauncherPath; sysPath = SystemConfigPath in
       [checkSSHD env,
         wrapped ''install launcher binary'' (installLauncherBinary env installExe launcherPath),
         wrapped ''write ca pubkey'' (writeCAPubkey env paths (cf_CAPubkey cfg)),
         wrapped ''write sshd drop-in'' (writeSSHDropIn env paths launcherPath (serviceAccountName (ie_goos env)))]
        @ (if ie_goos env = ''darwin'' then [wrapped ''macos sshd_config include'' (ensureMacOSInclude env)] else [])
        @ [wrapped ''create principals dir'' (ensurePrincipalsDir env paths),
           wrapped ''create service account'' (ensureServiceAccount env),
           wrapped ''grant principals dir access'' (grantPrincipalsAccess env (xp_PrincipalsDir paths)),
           wrapped ''set up managed payload store'' (setupPayloadStore env installExe),
           wrapped (''save system config to '' @ sysPath) (SaveConfigSystem env sysPath cfg),
           wrapped ''grant config dir access'' (grantConfigDirAccess env (filepath_dir sysPath)),
           wrapped ''install service'' (installService env launcherPath),
           wrapped ''configure launcher restart timing'' (writeSystemdRestartOverride env)])"

definition Install :: "install_env \<Rightarrow> agent_config \<Rightarrow> string \<Rightarrow> inst" where
  "Install env cfg installExe =
     run_steps (prepare_steps env cfg installExe
       @ [wrapped ''start service'' (startService env), wrapped ''reload sshd'' (reloadSSHD env)])"

end
