(* ===== verification/Installer_Steps.thy ===== *)
theory Installer_Steps
  imports Installer
begin

text \<open>
  What the installer's steps change and what they leave alone: which inodes each touches and which
  commands it runs (\<open>framed\<close>), the documented behaviour of the commands (\<open>documented_commands\<close>), and the
  exact effect of tightening the directories above the launcher.
\<close>

unbundle bit_operations_syntax

section \<open>What a step leaves alone\<close>

text \<open>\<open>framed W C f\<close>: the step changes only inodes of \<open>W\<close> among those that exist, creates at will, and runs
  only commands of \<open>C\<close>.\<close>

definition kept :: "string set \<Rightarrow> host \<Rightarrow> host \<Rightarrow> bool" where
  "kept W h h' \<longleftrightarrow> (\<forall>p i. h_files h p = Some i \<longrightarrow> p \<notin> W \<longrightarrow> h_files h' p = Some i)"

definition runs :: "string list set \<Rightarrow> host \<Rightarrow> host \<Rightarrow> bool" where
  "runs C h h' \<longleftrightarrow> (\<exists>cs. h_log h' = cs @ h_log h \<and> set cs \<subseteq> C)"

definition framed :: "string set \<Rightarrow> string list set \<Rightarrow> inst \<Rightarrow> bool" where
  "framed W C f \<longleftrightarrow> (\<forall>h. kept W h (fst (f h)) \<and> runs C h (fst (f h)))"

text \<open>\<open>named cmd\<close>: the paths whose ownership or mode the command is documented to change;
  \<open>documented_commands\<close>: among the files of \<open>U\<close> a command or the service library changes no others and the
  contents of none, and the two ownership commands do what they say.\<close>

definition named :: "string list \<Rightarrow> string set" where
  "named cmd = (if cmd \<noteq> [] \<and> hd cmd \<in> {''chown'', ''chmod''}
     then (if length cmd = 4 then {p. has_prefix (last cmd) p} else {last cmd}) else {})"

definition documented_commands :: "install_env \<Rightarrow> string set \<Rightarrow> (string \<Rightarrow> 32 word) \<Rightarrow> bool" where
  "documented_commands env U gid \<longleftrightarrow>
     (\<forall>cmd h p. p \<in> U - named cmd \<longrightarrow> h_files (fst (ie_run env cmd h)) p = h_files h p)
     \<and> (\<forall>cmd h p. p \<in> U \<longrightarrow> map_option in_data (h_files (fst (ie_run env cmd h)) p) = map_option in_data (h_files h p))
     \<and> (\<forall>svc h p. p \<in> U \<longrightarrow> h_files (fst (ie_svc_install env svc h)) p = h_files h p)
     \<and> (\<forall>svc h p. p \<in> U \<longrightarrow> h_files (fst (ie_svc_uninstall env svc h)) p = h_files h p)
     \<and> (\<forall>svc h. h_log (fst (ie_svc_install env svc h)) = h_log h \<and> h_log (fst (ie_svc_uninstall env svc h)) = h_log h)
     \<and> (\<forall>g p h h' out i. ie_run env [''chown'', ''root:'' @ g, p] h = (h', Inr out) \<longrightarrow> h_files h p = Some i \<longrightarrow>
          h_files h' p = Some (i\<lparr>in_uid := 0, in_gid := gid g\<rparr>))
     \<and> (\<forall>p h h' out i. ie_run env [''chmod'', ''0775'', p] h = (h', Inr out) \<longrightarrow> h_files h p = Some i \<longrightarrow>
          h_files h' p = Some (i\<lparr>in_perm := 509\<rparr>))"

named_theorems framed_rules

lemma kept_refl [simp]: "kept W h h" by (simp add: kept_def)

lemma kept_trans: "kept W h h' \<Longrightarrow> kept W h' h'' \<Longrightarrow> kept W h h''" by (simp add: kept_def)

lemma kept_mono: "kept W h h' \<Longrightarrow> W \<subseteq> W' \<Longrightarrow> kept W' h h'" by (auto simp: kept_def)

lemma keptD: "kept W h h' \<Longrightarrow> h_files h p = Some i \<Longrightarrow> p \<notin> W \<Longrightarrow> h_files h' p = Some i" by (simp add: kept_def)

lemma kept_put: "h_files h p = None \<or> p \<in> W \<Longrightarrow> kept W h (put_inode p i h)"
  by (auto simp: kept_def put_inode_def)

lemma runs_refl [simp]: "h_log h' = h_log h \<Longrightarrow> runs C h h'" by (auto simp: runs_def intro: exI [of _ "[]"])

lemma runs_trans: "runs C h h' \<Longrightarrow> runs C h' h'' \<Longrightarrow> runs C h h''"
  unfolding runs_def by (metis append.assoc le_sup_iff set_append)

lemma log_put [simp]: "h_log (put_inode p i h) = h_log h" by (simp add: put_inode_def)

lemma framedD: "framed W C f \<Longrightarrow> f h = (h', r) \<Longrightarrow> kept W h h' \<and> runs C h h'"
  unfolding framed_def by (metis fst_conv)

lemma framed_run_steps [framed_rules]: "list_all (framed W C) fs \<Longrightarrow> framed W C (run_steps fs)"
proof (induction fs)
  case (Cons f fs)
  show ?case unfolding framed_def
  proof
    fix h
    obtain h1 r where f: "f h = (h1, r)" by (cases "f h")
    then have 1: "kept W h h1 \<and> runs C h h1" using Cons.prems framedD by fastforce
    have "kept W h1 (fst (run_steps fs h1)) \<and> runs C h1 (fst (run_steps fs h1))"
      using Cons by (simp add: framed_def)
    then show "kept W h (fst (run_steps (f # fs) h)) \<and> runs C h (fst (run_steps (f # fs) h))"
      using 1 f kept_trans runs_trans by (cases r) auto
  qed
qed (simp add: framed_def)

lemma framed_wrapped [framed_rules]: "framed W C f \<Longrightarrow> framed W C (wrapped ctx f)"
  by (auto simp: framed_def wrapped_def split: prod.splits sum.splits) (metis fst_conv)+

lemma run_steps_ok:
  "run_steps (f # fs) h = (h', Inr ()) \<longleftrightarrow> (\<exists>h1. f h = (h1, Inr ()) \<and> run_steps fs h1 = (h', Inr ()))"
  by (auto split: prod.splits sum.splits)

lemma wrapped_ok [simp]: "wrapped ctx f h = (h', Inr ()) \<longleftrightarrow> f h = (h', Inr ())"
  by (auto simp: wrapped_def split: prod.splits sum.splits)

text \<open>\<^verbatim>\<open>MkdirAll\<close> only adds directories of its own, and on success the path is one.\<close>

lemma MkdirAll_changes:
  assumes "MkdirAll env perm p h = (h', r)"
  shows "h_log h' = h_log h \<and> h_store h' = h_store h
    \<and> (\<forall>q. h_files h' q = h_files h q \<or> path_measure q \<le> path_measure p \<and> h_files h q = None
           \<and> h_files h' q = Some (new_inode env None perm q))
    \<and> (r = Inr () \<longrightarrow> is_dir h' p)"
  using assms
proof (induction env perm p h arbitrary: h' r rule: MkdirAll.induct)
  case (1 env perm p h)
  show ?case
  proof (cases "p \<noteq> [] \<and> h_files h p = None \<and> CHR ''/'' \<in> set p \<and> filepath_dir p \<noteq> p")
    case True
    obtain h1 r1 where m: "MkdirAll env perm (filepath_dir p) h = (h1, r1)" by (cases "MkdirAll env perm (filepath_dir p) h")
    have ih: "h_log h1 = h_log h \<and> h_store h1 = h_store h
      \<and> (\<forall>q. h_files h1 q = h_files h q \<or> path_measure q \<le> path_measure (filepath_dir p) \<and> h_files h q = None
           \<and> h_files h1 q = Some (new_inode env None perm q))"
      using 1(1) [OF _ _ _ m] True by auto
    have less: "path_measure (filepath_dir p) < path_measure p" using True filepath_dir_shrinks by blast
    have p1: "h_files h1 p = None" using ih True less by (metis leD)
    have step: "MkdirAll env perm p h = (case r1 of Inl e \<Rightarrow> (h1, Inl e) | Inr _ \<Rightarrow> mkdir1 env perm p h1)"
      using True m by (subst MkdirAll.simps) (auto split: sum.splits)
    show ?thesis
    proof (cases r1)
      case (Inl e)
      then show ?thesis using step 1(2) ih less by (auto intro: order.trans [OF _ less_imp_le])
    next
      case (Inr u)
      then have "mkdir1 env perm p h1 = (h', r)" using step 1(2) by simp
      then consider "h' = h1" "r \<noteq> Inr ()" | "h' = put_inode p (new_inode env None perm p) h1" "r = Inr ()"
        by (auto simp: mkdir1_def split: option.splits)
      then show ?thesis
      proof cases
        case 1
        then show ?thesis using ih less by (auto intro: order.trans [OF _ less_imp_le])
      next
        case 2
        have "h_files h' q = h_files h q \<or> path_measure q \<le> path_measure p \<and> h_files h q = None
           \<and> h_files h' q = Some (new_inode env None perm q)" for q
        proof (cases "q = p")
          case True
          then show ?thesis using 2 \<open>p \<noteq> [] \<and> h_files h p = None \<and> _\<close> by (simp add: put_inode_def)
        next
          case False
          then have "h_files h' q = h_files h1 q" using 2 by (simp add: put_inode_def)
          then show ?thesis using ih less by (metis less_imp_le order.trans)
        qed
        then show ?thesis using 2 ih by (simp add: put_inode_def is_dir_def new_inode_def)
      qed
    qed
  next
    case False
    then show ?thesis using 1(2)
      by (subst (asm) MkdirAll.simps)
        (auto simp: mkdir1_def put_inode_def is_dir_def new_inode_def split: option.splits if_splits)
  qed
qed

lemma framed_MkdirAll [framed_rules]: "framed W C (MkdirAll env perm p)"
  unfolding framed_def
proof
  fix h
  obtain h' r where m: "MkdirAll env perm p h = (h', r)" by (cases "MkdirAll env perm p h")
  have "h_files h' q = Some i" if "h_files h q = Some i" for q i
    using MkdirAll_changes [OF m] that by (metis option.distinct(1))
  then show "kept W h (fst (MkdirAll env perm p h)) \<and> runs C h (fst (MkdirAll env perm p h))"
    using MkdirAll_changes [OF m] m by (simp add: kept_def)
qed

lemma framed_set_inode [framed_rules]: "p \<in> W \<Longrightarrow> framed W C (set_inode env op f p)"
  by (auto simp: framed_def set_inode_def kept_put split: option.splits)

lemma framed_Chmod [framed_rules]: "p \<in> W \<Longrightarrow> framed W C (Chmod env p m)"
  unfolding Chmod_def by (rule framed_set_inode)

lemma framed_Chown [framed_rules]: "p \<in> W \<Longrightarrow> framed W C (Chown env p u g)"
  unfolding Chown_def by (rule framed_set_inode)

lemma framed_WriteFile [framed_rules]: "p \<in> W \<Longrightarrow> framed W C (WriteFile env p s perm)"
  by (auto simp: framed_def WriteFile_def kept_put split: option.splits if_splits)

lemma framed_seed [framed_rules]: "framed W C (seed_store env exe)"
  by (auto simp: framed_def seed_store_def kept_def
      split: prod.splits sum.splits option.splits ps_error.splits)

lemma framed_lambda: "(\<And>h. \<exists>f. framed W C f \<and> g h = f h) \<Longrightarrow> framed W C g"
  unfolding framed_def by metis

lemma framed_Inr [framed_rules]: "framed W C (\<lambda>h. (h, r))"
  by (simp add: framed_def)

text \<open>Two steps in a row, where the second depends on how the first ended.\<close>

lemma framed_then:
  assumes "framed W C f" "\<And>r. framed W C (g r)" "\<And>h. k h = (case f h of (h1, r) \<Rightarrow> g r h1)"
  shows "framed W C k"
  unfolding framed_def
proof
  fix h
  obtain h1 r where f: "f h = (h1, r)" by (cases "f h")
  have "kept W h h1 \<and> runs C h h1" by (rule framedD [OF assms(1) f])
  moreover have "kept W h1 (fst (g r h1)) \<and> runs C h1 (fst (g r h1))" using assms(2) by (simp add: framed_def)
  ultimately show "kept W h (fst (k h)) \<and> runs C h (fst (k h))"
    unfolding assms(3) f prod.case by (blast intro: kept_trans runs_trans)
qed

lemma commands_keep:
  assumes "documented_commands env U gid"
  shows "kept (named cmd \<union> - U) h (fst (ie_run env cmd h))" "kept (- U) h (fst (ie_svc_install env svc h))"
    "kept (- U) h (fst (ie_svc_uninstall env svc h))" "h_log (fst (ie_svc_install env svc h)) = h_log h"
    "h_log (fst (ie_svc_uninstall env svc h)) = h_log h"
  using assms unfolding documented_commands_def kept_def by simp_all

lemma exec_frame:
  assumes doc: "documented_commands env U gid" and run: "exec env cmd h = (h', r)" "cmd \<in> C" "named cmd \<union> - U \<subseteq> W"
  shows "kept W h h' \<and> runs C h h'"
proof -
  obtain h1 where r: "ie_run env cmd h = (h1, r)" "h' = h1\<lparr>h_log := cmd # h_log h\<rparr>"
    using run(1) by (auto simp: exec_def split: prod.splits)
  have "kept (named cmd \<union> - U) h h1" using commands_keep(1) [OF doc] r(1) by (metis fst_conv)
  then have "kept W h h1" using kept_mono run(3) by blast
  moreover have "runs C h h'" using r(2) run(2) by (auto simp: runs_def intro!: exI [of _ "[cmd]"])
  ultimately show ?thesis using r(2) by (simp add: kept_def)
qed

lemma framed_run_cmd: "documented_commands env U gid \<Longrightarrow> cmd \<in> C \<Longrightarrow> named cmd \<union> - U \<subseteq> W \<Longrightarrow> framed W C (run_cmd env cmd)"
  unfolding framed_def run_cmd_def using exec_frame by (auto split: prod.splits sum.splits)

lemma framed_run_combined: "documented_commands env U gid \<Longrightarrow> cmd \<in> C \<Longrightarrow> named cmd \<union> - U \<subseteq> W \<Longrightarrow> framed W C (run_combined env ctx cmd)"
  unfolding framed_def run_combined_def using exec_frame by (auto split: prod.splits sum.splits)

section \<open>The steps on Linux\<close>

lemma linux_account: "serviceAccountName ''linux'' = ''uncluster''"
  by (simp add: serviceAccountName_def)

lemma linux_payload_dir: "ManagedPayloadDir ''linux'' = ''/var/lib/uncluster''"
  by (simp add: ManagedPayloadDir_def)

lemma linux_steps:
  assumes "ie_goos env = ''linux''"
  shows
  "ensureServiceAccount env = ensureServiceAccountLinux env ''uncluster''"
  "grantPrincipalsAccess env dir = run_steps [run_cmd env [''chown'', ''root:uncluster'', dir], run_cmd env [''chmod'', ''0775'', dir]]"
  "grantConfigDirAccess env dir = run_steps
     [wrapped (''chown root:uncluster '' @ dir) (run_cmd env [''chown'', ''root:uncluster'', dir]),
      wrapped (''chmod 0775 '' @ dir) (run_cmd env [''chmod'', ''0775'', dir])]"
  "startService env = run_cmd env [''systemctl'', ''restart'', ''com.uncluster.agent'']"
  "stopServiceForReinstall env = run_cmd env [''systemctl'', ''stop'', ''com.uncluster.agent'']"
  using assms
  by (simp_all add: ensureServiceAccount_def grantPrincipalsAccess_def grantConfigDirAccess_def startService_def
      stopServiceForReinstall_def linux_account fun_eq_iff)

text \<open>The commands that restart the agent or reload sshd.\<close>

definition late_commands :: "string list set" where
  "late_commands = {[''systemctl'', ''restart'', ''com.uncluster.agent''], [''systemctl'', ''reload'', ''ssh''],
     [''systemctl'', ''reload'', ''sshd'']}"

lemma not_late: "hd cmd \<noteq> ''systemctl'' \<Longrightarrow> cmd \<notin> late_commands"
  by (cases cmd) (simp_all add: late_commands_def)

lemma named_other: "hd cmd \<noteq> ''chown'' \<Longrightarrow> hd cmd \<noteq> ''chmod'' \<Longrightarrow> named cmd = {}"
  by (simp add: named_def)

lemma named_owner: "named [''chown'', ow, p] = {p}" "named [''chmod'', m, p] = {p}"
  "named [''chown'', ''-R'', ow, p] = {q. has_prefix p q}"
  by (simp_all add: named_def)

lemma framed_or_else [framed_rules]:
  assumes "framed W C f" "framed W C g"
  shows "framed W C (\<lambda>h. case f h of (h1, Inl e) \<Rightarrow> g h1 | (h1, Inr u) \<Rightarrow> (h1, Inr ()))"
proof (rule framed_then [OF assms(1), where g = "\<lambda>r h. case r of Inl _ \<Rightarrow> g h | Inr _ \<Rightarrow> (h, Inr ())"])
  show "framed W C (\<lambda>h. case r of Inl _ \<Rightarrow> g h | Inr _ \<Rightarrow> (h, Inr ()))" for r :: "(string, unit) result"
    using assms(2) by (cases r) (simp_all add: framed_Inr)
qed (auto split: prod.splits sum.splits)

lemma framed_plain:
  assumes doc: "documented_commands env U gid" and "hd cmd \<noteq> ''chown''" "hd cmd \<noteq> ''chmod''" "- U \<subseteq> W"
    "- late_commands \<subseteq> C" "cmd \<notin> late_commands"
  shows "framed W C (run_cmd env cmd)" "framed W C (run_combined env ctx cmd)"
proof -
  have "cmd \<in> C" "named cmd \<union> - U \<subseteq> W" using assms by (auto simp: named_other)
  then show "framed W C (run_cmd env cmd)" "framed W C (run_combined env ctx cmd)"
    using framed_run_cmd [OF doc] framed_run_combined [OF doc] by blast+
qed

lemma framed_owner:
  assumes doc: "documented_commands env U gid" and "hd cmd = ''chown'' \<or> hd cmd = ''chmod''"
    "named cmd \<union> - U \<subseteq> W" "- late_commands \<subseteq> C"
  shows "framed W C (run_cmd env cmd)" "framed W C (run_combined env ctx cmd)"
proof -
  have "hd cmd \<noteq> ''systemctl''" using assms(2) by auto
  then have "cmd \<in> C" using assms(4) not_late by blast
  then show "framed W C (run_cmd env cmd)" "framed W C (run_combined env ctx cmd)"
    using framed_run_cmd [OF doc] framed_run_combined [OF doc] assms(3) by blast+
qed

lemma framed_checkSSHD:
  assumes doc: "documented_commands env U gid" and "ie_goos env = ''linux''" "- U \<subseteq> W" "- late_commands \<subseteq> C"
  shows "framed W C (checkSSHD env)"
proof -
  have c: "framed W C (run_cmd env [''systemctl'', ''is-active'', ''--quiet'', s])" for s
    by (rule framed_plain(1) [OF doc _ _ assms(3,4)]) (simp_all add: late_commands_def)
  define stopped :: "(string, unit) result" where
    "stopped = Inl (''sshd is not running. Start it with:'' @ [newline] @ sshdStartHint (ie_goos env))"
  define probes where "probes = (\<lambda>h. case run_cmd env [''systemctl'', ''is-active'', ''--quiet'', ''ssh''] h of
      (h1, Inl _) \<Rightarrow> (case run_cmd env [''systemctl'', ''is-active'', ''--quiet'', ''sshd''] h1 of
           (h2, Inl _) \<Rightarrow> (h2, stopped) | (h2, Inr _) \<Rightarrow> (h2, Inr ()))
    | (h1, Inr _) \<Rightarrow> (h1, Inr ()))"
  have p: "framed W C probes" unfolding probes_def by (intro framed_or_else c framed_Inr)
  have "checkSSHD env h = probes h" if "ie_lookpath env ''sshd''" for h
    using that by (simp add: checkSSHD_def probes_def assms(2) stopped_def Let_def split: prod.splits sum.splits)
  then have "checkSSHD env = probes \<or> (\<exists>r. checkSSHD env = (\<lambda>h. (h, r)))"
    by (cases "ie_lookpath env ''sshd''") (auto simp: checkSSHD_def fun_eq_iff)
  then show ?thesis using p framed_Inr by fastforce
qed

text \<open>The check of sshd does not touch the tracked files at all.\<close>

lemma checkSSHD_files:
  assumes doc: "documented_commands env U gid" and "p \<in> U"
  shows "h_files (fst (checkSSHD env h)) p = h_files h p"
proof -
  have k: "h_files (fst (ie_run env cmd h)) p = h_files h p" if "named cmd = {}" for cmd h
    using doc assms(2) that unfolding documented_commands_def by (metis DiffI empty_iff)
  have r: "h_files h1 p = h_files h p" if "run_cmd env cmd h = (h1, r)" "named cmd = {}" for cmd h h1 r
  proof -
    obtain h2 r2 where e: "ie_run env cmd h = (h2, r2)" by (cases "ie_run env cmd h")
    have "h_files h1 = h_files h2" using that(1) e by (cases r2) (auto simp: run_cmd_def exec_def)
    then show ?thesis using k [OF that(2), of h] e by simp
  qed
  have n: "named [''systemctl'', ''is-active'', ''--quiet'', s] = {}" "named [''launchctl'', ''list'', s] = {}" for s
    by (simp_all add: named_other)
  show ?thesis
    by (auto simp: checkSSHD_def Let_def split: prod.splits sum.splits) (metis r n)+
qed

lemma framed_account:
  assumes doc: "documented_commands env U gid" and "- U \<subseteq> W" "- late_commands \<subseteq> C"
  shows "framed W C (ensureServiceAccountLinux env u)"
proof -
  have "hd (useradd_cmd u) = ''useradd''" by (simp add: useradd_cmd_def)
  then have c: "framed W C (run_cmd env [''id'', ''-u'', u])" "framed W C (run_cmd env (useradd_cmd u))"
    by (intro framed_plain(1) [OF doc _ _ assms(2,3)] not_late; simp)+
  have e: "ensureServiceAccountLinux env u = (\<lambda>h. case run_cmd env [''id'', ''-u'', u] h of
      (h1, Inl _) \<Rightarrow> run_cmd env (useradd_cmd u) h1 | (h1, Inr _) \<Rightarrow> (h1, Inr ()))"
    by (rule ext) (auto simp: ensureServiceAccountLinux_def split: prod.splits sum.splits)
  show ?thesis unfolding e by (rule framed_or_else [OF c])
qed

lemma framed_grants:
  assumes doc: "documented_commands env U gid" and "ie_goos env = ''linux''" "insert dir (- U) \<subseteq> W" "- late_commands \<subseteq> C"
  shows "framed W C (grantPrincipalsAccess env dir)" "framed W C (grantConfigDirAccess env dir)"
proof -
  have c: "framed W C (run_cmd env [''chown'', ow, dir])" "framed W C (run_cmd env [''chmod'', ow, dir])" for ow
    by (rule framed_owner(1) [OF doc _ _ assms(4)]; use assms(3) in \<open>simp add: named_owner\<close>)+
  show "framed W C (grantPrincipalsAccess env dir)" "framed W C (grantConfigDirAccess env dir)"
    unfolding linux_steps [OF assms(2)] by (auto intro!: framed_rules c)
qed

lemma framed_store:
  assumes doc: "documented_commands env U gid" and "ie_goos env = ''linux''"
    "{q. has_prefix ''/var/lib/uncluster'' q} \<union> - U \<subseteq> W" "- late_commands \<subseteq> C"
  shows "framed W C (setupPayloadStore env exe)"
proof -
  have c: "framed W C (run_combined env ctx [''chown'', ''-R'', ow, ''/var/lib/uncluster''])" for ow ctx
    by (rule framed_owner(2) [OF doc _ _ assms(4)]; use assms(3) in \<open>simp add: named_owner\<close>)
  have "''/var/lib/uncluster'' \<in> W" using assms(3) by (auto simp: has_prefix_def)
  then show ?thesis
    by (auto simp: setupPayloadStore_def assms(2) linux_payload_dir linux_account Init_def chownTreeToServiceAccount_def Let_def
        intro!: framed_rules c)
qed

lemma lookup_group_frame:
  assumes doc: "documented_commands env U gid" and "- U \<subseteq> W" "- late_commands \<subseteq> C"
  shows "kept W h (fst (lookup_group env names h)) \<and> runs C h (fst (lookup_group env names h))"
proof (induction names arbitrary: h)
  case (Cons name names)
  let ?a = "run_cmd env [''getent'', ''group'', name]"
  let ?b = "run_cmd env [''dscl'', ''.'', ''-read'', ''/Groups/'' @ name]"
  obtain h1 ra h2 rb where r: "?a h = (h1, ra)" "?b h1 = (h2, rb)" by (metis surj_pair)
  have c: "framed W C ?a" "framed W C ?b"
    by (intro framed_plain(1) [OF doc _ _ assms(2,3)] not_late; simp)+
  have 1: "kept W h h1 \<and> runs C h h1" by (rule framedD [OF c(1) r(1)])
  have 2: "kept W h1 h2 \<and> runs C h1 h2" by (rule framedD [OF c(2) r(2)])
  have e: "fst (lookup_group env (name # names) h) = (case ra of Inr _ \<Rightarrow> h1 | Inl _ \<Rightarrow>
      (case rb of Inr _ \<Rightarrow> h2 | Inl _ \<Rightarrow> fst (lookup_group env names h2)))"
    using r by (simp split: sum.splits)
  show ?case unfolding e using 1 2 Cons [of h2]
    by (auto split: sum.splits intro: kept_trans runs_trans)
qed simp

lemma framed_restrict:
  assumes doc: "documented_commands env U gid" and "insert p (- U) \<subseteq> W" "- late_commands \<subseteq> C"
  shows "framed W C (restrictSystemConfigACL env p)"
  unfolding framed_def
proof
  fix h
  obtain h1 grp where l: "lookupServiceGroup env h = (h1, grp)" by (cases "lookupServiceGroup env h")
  have u: "- U \<subseteq> W" "p \<in> W" using assms(2) by auto
  have "kept W h h1 \<and> runs C h h1"
    using lookup_group_frame [OF doc u(1) assms(3)] l unfolding lookupServiceGroup_def by (metis fst_conv)
  moreover define grant where "grant = run_steps
            [wrapped (''chown root:'' @ grp @ '' '' @ p) (run_cmd env [''chown'', ''root:'' @ grp, p]),
             wrapped (''chmod 0640 '' @ p) (Chmod env p 416)]"
  have "framed W C (run_cmd env [''chown'', ''root:'' @ grp, p])"
    by (rule framed_owner(1) [OF doc _ _ assms(3)]) (use u in \<open>simp_all add: named_owner\<close>)
  then have "framed W C grant" unfolding grant_def by (simp add: framed_run_steps framed_wrapped framed_Chmod u)
  then have "kept W h1 (fst (grant h1)) \<and> runs C h1 (fst (grant h1))" by (simp add: framed_def)
  moreover have "fst (restrictSystemConfigACL env p h) = (if grp = [] then h1 else fst (grant h1))"
    by (simp add: restrictSystemConfigACL_def l grant_def)
  ultimately show "kept W h (fst (restrictSystemConfigACL env p h)) \<and> runs C h (fst (restrictSystemConfigACL env p h))"
    by (auto intro: kept_trans runs_trans)
qed

lemma framed_save:
  assumes doc: "documented_commands env U gid" and "insert p (- U) \<subseteq> W" "- late_commands \<subseteq> C"
  shows "framed W C (SaveConfigSystem env p cfg)"
  unfolding SaveConfigSystem_def using assms(2)
  by (intro framed_run_steps) (simp add: framed_MkdirAll framed_WriteFile framed_restrict [OF assms])

lemma framed_service:
  assumes doc: "documented_commands env U gid" and l: "ie_goos env = ''linux''" and "- U \<subseteq> W" "- late_commands \<subseteq> C"
  shows "framed W C (installService env exe)"
proof -
  have i: "framed W C (ie_svc_install env svc)" "framed W C (ie_svc_uninstall env svc)" for svc
    unfolding framed_def using commands_keep [OF doc] kept_mono [OF _ assms(3)] by simp_all
  have s: "framed W C (run_cmd env [''systemctl'', ''stop'', ''com.uncluster.agent''])"
    by (rule framed_plain(1) [OF doc _ _ assms(3,4)]) (simp_all add: late_commands_def)
  define rebuild where "rebuild = (\<lambda>drift h. run_steps
      [wrapped (''uninstall drifted service ('' @ drift @ '')'') (ie_svc_uninstall env (buildService env exe)),
       wrapped (''reinstall service after drift ('' @ drift @ '')'') (ie_svc_install env (buildService env exe))]
      (fst (stopServiceForReinstall env h)))"
  have r: "framed W C (rebuild drift)" for drift
    unfolding rebuild_def linux_steps(5) [OF l]
    by (rule framed_then [OF s, where g = "\<lambda>_. run_steps
      [wrapped (''uninstall drifted service ('' @ drift @ '')'') (ie_svc_uninstall env (buildService env exe)),
       wrapped (''reinstall service after drift ('' @ drift @ '')'') (ie_svc_install env (buildService env exe))]"])
      (auto intro!: framed_rules i split: prod.splits)
  define after where "after = (\<lambda>(r :: (string, unit) result) h1. case r of Inr _ \<Rightarrow> (h1, Inr ())
    | Inl e \<Rightarrow> if \<not> isAlreadyInstalledErr e then (h1, Inl e)
        else (case checkServiceUnitDrift env exe (serviceAccountName (ie_goos env)) h1 of
            Inl _ \<Rightarrow> (h1, Inr ())
          | Inr drift \<Rightarrow> if drift = [] then (h1, Inr ()) else rebuild drift h1))"
  have a: "framed W C (after res)" for res
    using r framed_Inr unfolding framed_def after_def by (auto split: sum.splits)
  have "framed W C (\<lambda>h. case ie_svc_install env (buildService env exe) h of (h1, res) \<Rightarrow> after res h1)"
    by (rule framed_then [OF i(1) a]) simp
  moreover have "installService env exe h = (case ie_svc_new env of Some e \<Rightarrow> (h, Inl e)
      | None \<Rightarrow> (case ie_svc_install env (buildService env exe) h of (h1, res) \<Rightarrow> after res h1))" for h
    by (simp add: installService_def after_def rebuild_def Let_def split: option.splits prod.splits sum.splits)
  ultimately show ?thesis by (auto simp: framed_def split: option.splits)
qed

definition restart_conf_path :: string where
  "restart_conf_path = ''/etc/systemd/system/com.uncluster.agent.service.d/restart.conf''"

definition restart_conf_dir :: string where
  "restart_conf_dir = ''/etc/systemd/system/com.uncluster.agent.service.d''"

lemma override_linux:
  assumes "ie_goos env = ''linux''"
  shows "writeSystemdRestartOverride env = run_steps
            [wrapped (''mkdir drop-in dir '' @ restart_conf_dir) (MkdirAll env 493 restart_conf_dir),
             wrapped (''write '' @ restart_conf_path) (WriteFile env restart_conf_path restartOverrideConf 420),
             run_combined env ''systemctl daemon-reload'' [''systemctl'', ''daemon-reload'']]"
proof (rule ext)
  have p: "path_join restart_conf_dir ''restart.conf'' = restart_conf_path" "serviceUnitPath ''linux'' \<noteq> []"
    "serviceUnitPath ''linux'' @ ''.d'' = restart_conf_dir"
    by (simp_all add: serviceUnitPath_def path_join_def restart_conf_path_def restart_conf_dir_def)
  show "writeSystemdRestartOverride env h = run_steps
            [wrapped (''mkdir drop-in dir '' @ restart_conf_dir) (MkdirAll env 493 restart_conf_dir),
             wrapped (''write '' @ restart_conf_path) (WriteFile env restart_conf_path restartOverrideConf 420),
             run_combined env ''systemctl daemon-reload'' [''systemctl'', ''daemon-reload'']] h" for h
    by (simp only: writeSystemdRestartOverride_def assms p Let_def simp_thms if_True if_False append_assoc)
qed

lemma framed_override:
  assumes doc: "documented_commands env U gid" and l: "ie_goos env = ''linux''" and "insert restart_conf_path (- U) \<subseteq> W"
    "- late_commands \<subseteq> C"
  shows "framed W C (writeSystemdRestartOverride env)"
proof -
  have u: "- U \<subseteq> W" "restart_conf_path \<in> W" using assms(3) by auto
  have s: "framed W C (run_combined env ctx [''systemctl'', ''daemon-reload''])" for ctx
    by (rule framed_plain(2) [OF doc _ _ u(1) assms(4)]) (simp_all add: late_commands_def)
  show ?thesis unfolding override_linux [OF l] by (intro framed_run_steps) (simp add: framed_wrapped framed_MkdirAll framed_WriteFile u s)
qed

lemma framed_reload: 
  assumes doc: "documented_commands env U gid" and l: "ie_goos env = ''linux''" and "- U \<subseteq> W"
  shows "framed W UNIV (reloadSSHD env)" "framed W UNIV (startService env)"
proof -
  have c: "framed W UNIV (run_cmd env (''systemctl'' # cs))" for cs
    by (rule framed_run_cmd [OF doc]) (use assms(3) in \<open>simp_all add: named_other\<close>)
  have e: "reloadSSHD env = (\<lambda>h. case run_cmd env [''systemctl'', ''reload'', ''ssh''] h of
        (h1, Inl _) \<Rightarrow> run_cmd env [''systemctl'', ''reload'', ''sshd''] h1 | (h1, Inr _) \<Rightarrow> (h1, Inr ()))"
    by (rule ext) (simp add: reloadSSHD_def l split: prod.splits sum.splits)
  show "framed W UNIV (reloadSSHD env)" unfolding e by (rule framed_or_else [OF c c])
  show "framed W UNIV (startService env)" unfolding linux_steps(4) [OF l] by (rule c)
qed

section \<open>The launcher's path\<close>

definition tightened :: "inode \<Rightarrow> inode" where
  "tightened i = (if in_uid i = 0 then i\<lparr>in_perm := in_perm i AND NOT 18\<rparr> else i)"

lemma and_not_self: "(w :: 32 word) AND m = 0 \<Longrightarrow> w AND NOT m = w"
  by (auto simp: bit_eq_iff bit_simps)

lemma tightened_same: "in_perm i AND 18 = 0 \<Longrightarrow> tightened i = i"
  unfolding tightened_def by (cases i) (simp only: and_not_self inode.select_convs inode.update_convs if_cancel)

lemma tighten_step:
  assumes "h_files h p = Some i" "(if in_uid i = 0 \<and> in_perm i AND 18 \<noteq> 0
     then wrapped ctx (Chmod env p (in_perm i AND NOT 18)) h else (h, Inr ())) = (h1, Inr ())"
  shows "h_files h1 = (h_files h)(p \<mapsto> tightened i)"
proof (cases "in_uid i = 0 \<and> in_perm i AND 18 \<noteq> 0")
  case True
  then show ?thesis using assms
    by (auto simp: Chmod_def set_inode_def put_inode_def tightened_def split: option.splits)
next
  case False
  then have "in_uid i \<noteq> 0 \<or> in_perm i AND 18 = 0" by blast
  then have "tightened i = i" by (rule disjE) (simp add: tightened_def, rule tightened_same)
  then show ?thesis using False assms by auto
qed

lemma chain_parent:
  assumes "has_prefix ''/'' p" "p \<noteq> ''/''"
  shows "filepath_dir p \<noteq> p" "p \<notin> command_chain (filepath_dir p)"
proof -
  show n: "filepath_dir p \<noteq> p" using command_chain_end assms by blast
  have "length (filepath_dir p) < length p \<or> filepath_dir p = ''/'' "
    using length_path_dir [of p] assms by (cases p) (auto simp: filepath_dir_def has_prefix_def Let_def)
  moreover have "2 \<le> length p" using assms by (cases p; cases "tl p") (auto simp: has_prefix_def)
  ultimately have l: "length (filepath_dir p) < length p" by auto
  then show "p \<notin> command_chain (filepath_dir p)"
    using assms(2) by (auto simp: command_chain_def)
qed

lemma tightenChain_effect:
  assumes "tightenChain env p h = (h', Inr ())" "has_prefix ''/'' p" "p \<noteq> ''/''"
  shows "(\<forall>q \<in> command_chain p - {''/''}. h_files h q \<noteq> None)
    \<and> h_files h' = (\<lambda>q. if q \<in> command_chain p - {''/''} then map_option tightened (h_files h q) else h_files h q)"
  using assms
proof (induction env p h rule: tightenChain.induct)
  case (1 env p h)
  note chain = command_chain_step [OF 1(3) chain_parent(1) [OF 1(3,4)]]
  obtain i where i: "h_files h p = Some i"
    using 1(2) by (subst (asm) tightenChain.simps) (auto split: option.splits)
  obtain h1 where s: "(if in_uid i = 0 \<and> in_perm i AND 18 \<noteq> 0
       then wrapped (''tighten '' @ p @ '' (mode '' @ oct4 (in_perm i) @ '')'') (Chmod env p (in_perm i AND NOT 18)) h
       else (h, Inr ())) = (h1, Inr ())"
    and k: "(if filepath_dir p = p \<or> filepath_dir p = ''/'' then (h1, Inr ()) else tightenChain env (filepath_dir p) h1) = (h', Inr ())"
    using 1(2) i by (subst (asm) tightenChain.simps) (simp add: Let_def split: prod.splits sum.splits)
  note f = tighten_step [OF i s]
  show ?case
  proof (cases "filepath_dir p = ''/''")
    case True
    then have "command_chain p - {''/''} = {p}" using chain command_chain_root 1(4) by auto
    then show ?thesis using i f k True by (auto simp: fun_eq_iff)
  next
    case False
    then have k': "tightenChain env (filepath_dir p) h1 = (h', Inr ())" using k chain_parent(1) [OF 1(3,4)] by simp
    have ih: "(\<forall>q \<in> command_chain (filepath_dir p) - {''/''}. h_files h1 q \<noteq> None)
      \<and> h_files h' = (\<lambda>q. if q \<in> command_chain (filepath_dir p) - {''/''} then map_option tightened (h_files h1 q) else h_files h1 q)"
      using 1(1) [OF i s [symmetric] refl refl _ k'] chain_parent(1) [OF 1(3,4)] False chain by auto
    let ?B = "command_chain (filepath_dir p) - {''/''}"
    have split: "command_chain p - {''/''} = insert p ?B" "p \<notin> ?B"
      using chain chain_parent(2) [OF 1(3,4)] 1(4) by auto
    have same: "h_files h1 q = h_files h q" if "q \<noteq> p" for q using that f by simp
    have "h_files h q \<noteq> None" if "q \<in> insert p ?B" for q
    proof (cases "q = p")
      case False
      then have "q \<in> ?B" using that by blast
      then have "h_files h1 q \<noteq> None" using ih by blast
      then show ?thesis using same [OF False] by simp
    qed (simp add: i)
    moreover have "h_files h' q = (if q \<in> insert p ?B then map_option tightened (h_files h q) else h_files h q)" for q
    proof (cases "q = p")
      case True
      have "h_files h' p = h_files h1 p" using ih split(2) by auto
      then show ?thesis using True f i by simp
    next
      case False
      then show ?thesis using ih same by simp
    qed
    ultimately show ?thesis unfolding split(1) by blast
  qed
qed

text \<open>when the installer has tightened the directories above the launcher, every one of them but the root
  directory exists, those owned by root have lost exactly the group and world write bits, and nothing else
  on the machine has changed: no bit is added, no directory of another owner is touched.\<close>

theorem tightenChain_exact:
  assumes "tightenChain env p h = (h', Inr ())" "has_prefix ''/'' p" "p \<noteq> ''/''"
  shows "(\<forall>q \<in> command_chain p - {''/''}. h_files h q \<noteq> None)
    \<and> h_files h' = (\<lambda>q. if q \<in> command_chain p - {''/''} then map_option tightened (h_files h q) else h_files h q)"
  by (rule tightenChain_effect [OF assms])

end
