(* ===== verification/Install_Doctor.thy ===== *)
theory Install_Doctor
  imports Installer_Steps
begin

text \<open>
  The installer and the doctor together: what a completed installation on Linux leaves on the machine, and
  that the doctor, reading that machine, finds it sound.
\<close>

unbundle bit_operations_syntax

section \<open>The launcher after its installation\<close>

definition sound_component :: "host \<Rightarrow> string \<Rightarrow> bool" where
  "sound_component h q \<longleftrightarrow> (\<exists>i. h_files h q = Some i \<and> in_uid i = 0 \<and> in_perm i AND 18 = 0
     \<and> (q = LauncherPath \<longrightarrow> in_data i \<noteq> None))"

lemma launcher_chain:
  "filepath_dir LauncherPath = ''/opt/uncluster''" "command_chain ''/opt/uncluster'' = {''/opt/uncluster'', ''/opt'', ''/''}"
  "command_chain LauncherPath = {LauncherPath, ''/opt/uncluster'', ''/opt'', ''/''}"
proof -
  have e: "LauncherPath = ''/opt/uncluster/uncluster''" by (simp add: LauncherPath_def launcherDir_def path_join_def)
  have d: "filepath_dir ''/opt/uncluster/uncluster'' = ''/opt/uncluster''" "filepath_dir ''/opt/uncluster'' = ''/opt''"
    "filepath_dir ''/opt'' = ''/''" by (simp_all add: filepath_dir_def path_dir_def)
  have p: "has_prefix ''/'' ''/opt/uncluster/uncluster''" "has_prefix ''/'' ''/opt/uncluster''" "has_prefix ''/'' ''/opt''"
    by (simp_all add: has_prefix_def)
  have c: "command_chain ''/opt'' = insert ''/opt'' (command_chain ''/'')"
    "command_chain ''/opt/uncluster'' = insert ''/opt/uncluster'' (command_chain ''/opt'')"
    "command_chain ''/opt/uncluster/uncluster'' = insert ''/opt/uncluster/uncluster'' (command_chain ''/opt/uncluster'')"
    using command_chain_step [OF p(1)] command_chain_step [OF p(2)] command_chain_step [OF p(3)] unfolding d by simp_all
  show "filepath_dir LauncherPath = ''/opt/uncluster''" unfolding e by (rule d(1))
  show "command_chain ''/opt/uncluster'' = {''/opt/uncluster'', ''/opt'', ''/''}"
    unfolding c command_chain_root ..
  show "command_chain LauncherPath = {LauncherPath, ''/opt/uncluster'', ''/opt'', ''/''}"
    unfolding e c command_chain_root ..
qed

lemma copyFileAtomic_ok:
  assumes "copyFileAtomic env src dst mode h = (h', Inr ())"
  shows "kept {dst} h h' \<and> (\<exists>i. h_files h' dst = Some i \<and> in_data i \<noteq> None)"
proof -
  obtain si n where s: "h_files h src = Some si" "ie_temp env = Some n"
    using assms by (auto simp: copyFileAtomic_def Let_def split: option.splits)
  define tmp where "tmp = path_join (filepath_dir dst) n"
  have "h_files h tmp = None \<and> (\<exists>s. h_files h' = (h_files h)(tmp := None,
      dst \<mapsto> (new_inode env (Some []) 384 tmp)\<lparr>in_data := Some s, in_perm := mode\<rparr>))"
    using assms s
    by (auto simp: copyFileAtomic_def Let_def put_inode_def tmp_def split: option.splits if_splits)
  then show ?thesis by (auto simp: kept_def split: if_splits)
qed

lemma new_dir_strict: "in_perm (new_inode env d 493 p) AND 18 = 0" "in_uid (new_inode env d 493 p) = 0"
proof -
  have "(493 AND 18 :: 32 word) = 0" by simp
  then have "(493 AND w) AND 18 = (0 :: 32 word)" for w by (metis and.assoc and.commute and_zero_eq)
  then show "in_perm (new_inode env d 493 p) AND 18 = 0" "in_uid (new_inode env d 493 p) = 0"
    by (simp_all add: new_inode_def)
qed

lemma set_inode_ok:
  "set_inode env op f p h = (h', Inr ()) \<longleftrightarrow> (\<exists>i. h_files h p = Some i \<and> ie_fault env op p = None \<and> h' = put_inode p (f i) h)"
  by (auto simp: set_inode_def split: option.splits)

lemma tightened_strict: "in_uid i = 0 \<Longrightarrow> in_uid (tightened i) = 0 \<and> in_perm (tightened i) AND 18 = 0"
proof -
  have "(w AND NOT m) AND m = 0" for w m :: "32 word" by (simp add: bit_eq_iff bit_simps)
  then show "in_uid i = 0 \<Longrightarrow> ?thesis" by (cases i) (simp only: tightened_def if_True inode.select_convs inode.update_convs simp_thms)
qed

lemma installLauncher_ok:
  assumes "installLauncherBinary env exe LauncherPath h = (h', Inr ())"
    and root: "sound_component h ''/''" and opt: "\<forall>i. h_files h ''/opt'' = Some i \<longrightarrow> in_uid i = 0"
    and nodir: "\<not> is_dir h LauncherPath"
  shows "\<forall>q \<in> command_chain LauncherPath. sound_component h' q"
proof -
  let ?D = "''/opt/uncluster''" and ?L = LauncherPath
  have ne: "?L \<noteq> ?D" "?L \<noteq> ''/opt''" "?L \<noteq> ''/''" "path_measure ?D < path_measure ?L"
    by (simp_all add: LauncherPath_def launcherDir_def path_join_def path_measure_def)
  obtain m c d t x y where
    m: "MkdirAll env 493 ?D h = (m, Inr ())" and c: "Chown env ?D 0 0 m = (c, Inr ())" and d: "Chmod env ?D 493 c = (d, Inr ())"
    and t: "tightenChain env ?D d = (t, Inr ())"
    and x: "(if sameFile env exe ?L t then (t, Inr ()) else copyFileAtomic env exe ?L 493 t) = (x, Inr ())"
    and y: "Chown env ?L 0 0 x = (y, Inr ())" and z: "Chmod env ?L 493 y = (h', Inr ())"
    using assms(1) unfolding installLauncherBinary_def launcher_chain(1) Let_def run_steps_ok wrapped_ok by auto
  note mk = MkdirAll_changes [OF m]
  obtain i where dd: "h_files d = (h_files m)(?D \<mapsto> i)" "in_uid i = 0" "in_perm i = 493"
    using c d by (auto simp: Chown_def Chmod_def set_inode_ok put_inode_def split: if_splits)
  have p: "has_prefix ''/'' ?D" "?D \<noteq> ''/''" by (simp_all add: has_prefix_def)
  note te = tightenChain_effect [OF t p, unfolded launcher_chain(2)]
  have m_opt: "\<forall>i. h_files m ''/opt'' = Some i \<longrightarrow> in_uid i = 0"
    using mk opt new_dir_strict by (metis option.inject)
  have m_root: "h_files m ''/'' = h_files h ''/''" and m_l: "h_files m ?L = h_files h ?L"
    using mk root ne(4) by (auto simp: sound_component_def)
  have t_opt: "\<exists>j. h_files t ''/opt'' = Some j \<and> in_uid j = 0 \<and> in_perm j AND 18 = 0"
  proof -
    obtain k where k: "h_files d ''/opt'' = Some k" using te by auto
    then have "in_uid k = 0" using m_opt dd(1) by simp
    then show ?thesis using te k tightened_strict [of k] by simp
  qed
  have t_d: "\<exists>j. h_files t ?D = Some j \<and> in_uid j = 0 \<and> in_perm j AND 18 = 0"
    using te dd tightened_strict [of i] by simp
  have t_root: "h_files t ''/'' = h_files h ''/''" using te dd m_root by simp
  have t_l: "h_files t ?L = h_files h ?L" using te dd m_l ne by simp
  have x_keeps: "kept {?L} t x" and x_l: "\<exists>i. h_files x ?L = Some i \<and> in_data i \<noteq> None"
  proof -
    have "kept {?L} t x \<and> (\<exists>i. h_files x ?L = Some i \<and> in_data i \<noteq> None)"
    proof (cases "sameFile env exe ?L t")
      case True
      then show ?thesis using x t_l nodir by (auto simp: sameFile_def is_dir_def)
    next
      case False
      then show ?thesis using x copyFileAtomic_ok by simp
    qed
    then show "kept {?L} t x" "\<exists>i. h_files x ?L = Some i \<and> in_data i \<noteq> None" by blast+
  qed
  obtain j where hz: "h_files h' = (h_files x)(?L \<mapsto> j)" "in_uid j = 0" "in_perm j = 493" "in_data j \<noteq> None"
    using y z x_l by (auto simp: Chown_def Chmod_def set_inode_ok put_inode_def split: if_splits)
  have "sound_component h' q" if "q \<in> {?D, ''/opt'', ''/''}" for q
  proof -
    have "\<exists>j. h_files t q = Some j \<and> in_uid j = 0 \<and> in_perm j AND 18 = 0"
      using that t_d t_opt t_root root by (auto simp: sound_component_def)
    moreover have "q \<noteq> ?L" using that ne by auto
    ultimately show ?thesis using x_keeps hz(1) by (auto simp: sound_component_def kept_def)
  qed
  moreover have "sound_component h' ?L" using hz by (simp add: sound_component_def)
  ultimately show ?thesis unfolding launcher_chain(3) by blast
qed

section \<open>Effects of the later steps\<close>

lemma WriteFile_ok:
  "WriteFile env p s perm h = (h', Inr ()) \<Longrightarrow> \<exists>i. h_files h' p = Some (i\<lparr>in_data := Some s\<rparr>)"
  by (auto simp: WriteFile_def put_inode_def split: option.splits if_splits)

lemma run_cmd_ok:
  "run_cmd env cmd h = (h', Inr ()) \<longleftrightarrow> (\<exists>h1 out. ie_run env cmd h = (h1, Inr out) \<and> h' = h1\<lparr>h_log := cmd # h_log h\<rparr>)"
  by (auto simp: run_cmd_def exec_def split: prod.splits sum.splits)

lemma chown_ok:
  assumes "documented_commands env U gid" "run_cmd env [''chown'', ''root:'' @ g, p] h = (h', Inr ())" "h_files h p = Some i"
  shows "h_files h' p = Some (i\<lparr>in_uid := 0, in_gid := gid g\<rparr>)"
proof -
  obtain h1 out where r: "ie_run env [''chown'', ''root:'' @ g, p] h = (h1, Inr out)" "h_files h' = h_files h1"
    using assms(2) by (auto simp: run_cmd_ok)
  have "\<forall>g p h h' out i. ie_run env [''chown'', ''root:'' @ g, p] h = (h', Inr out) \<longrightarrow> h_files h p = Some i \<longrightarrow>
          h_files h' p = Some (i\<lparr>in_uid := 0, in_gid := gid g\<rparr>)"
    using assms(1) unfolding documented_commands_def by (elim conjE)
  then show ?thesis using r assms(3) by (simp only:)
qed

lemma chmod_ok:
  assumes "documented_commands env U gid" "run_cmd env [''chmod'', ''0775'', p] h = (h', Inr ())" "h_files h p = Some i"
  shows "h_files h' p = Some (i\<lparr>in_perm := 509\<rparr>)"
proof -
  obtain h1 out where r: "ie_run env [''chmod'', ''0775'', p] h = (h1, Inr out)" "h_files h' = h_files h1"
    using assms(2) by (auto simp: run_cmd_ok)
  have "\<forall>p h h' out i. ie_run env [''chmod'', ''0775'', p] h = (h', Inr out) \<longrightarrow> h_files h p = Some i \<longrightarrow>
          h_files h' p = Some (i\<lparr>in_perm := 509\<rparr>)"
    using assms(1) unfolding documented_commands_def by (elim conjE)
  then show ?thesis using r assms(3) by (simp only:)
qed

lemma grant_ok:
  assumes "documented_commands env U gid" "ie_goos env = ''linux''" "grantPrincipalsAccess env p h = (h', Inr ())"
    "h_files h p = Some i"
  shows "h_files h' p = Some (i\<lparr>in_uid := 0, in_gid := gid ''uncluster'', in_perm := 509\<rparr>)"
proof -
  have e: "''root:uncluster'' = ''root:'' @ ''uncluster''" by simp
  obtain h1 where "run_cmd env [''chown'', ''root:'' @ ''uncluster'', p] h = (h1, Inr ())"
    "run_cmd env [''chmod'', ''0775'', p] h1 = (h', Inr ())"
    using assms(3) unfolding linux_steps(2) [OF assms(2)] run_steps_ok e by auto
  from chmod_ok [OF assms(1) this(2) chown_ok [OF assms(1) this(1) assms(4)]] show ?thesis by simp
qed

definition group_exists :: "install_env \<Rightarrow> bool" where
  "group_exists env \<longleftrightarrow> (\<forall>h. \<exists>h1 out. ie_run env [''getent'', ''group'', ''uncluster''] h = (h1, Inr out))"

lemma save_ok:
  assumes doc: "documented_commands env U gid" and g: "group_exists env" and p: "p \<in> U"
    and s: "SaveConfigSystem env p cfg h = (h', Inr ())"
  shows "h_files h' p = Some \<lparr>in_data = Some (ie_toml env cfg), in_uid = 0, in_gid = gid ''uncluster'', in_perm = 416\<rparr>"
proof -
  obtain h1 h2 where w: "WriteFile env p (ie_toml env cfg) 416 h1 = (h2, Inr ())" and r: "restrictSystemConfigACL env p h2 = (h', Inr ())"
    using s unfolding SaveConfigSystem_def run_steps_ok by auto
  obtain i where i: "h_files h2 p = Some (i\<lparr>in_data := Some (ie_toml env cfg)\<rparr>)" using WriteFile_ok [OF w] by blast
  obtain h3 out where "ie_run env [''getent'', ''group'', ''uncluster''] h2 = (h3, Inr out)"
    using g unfolding group_exists_def by blast
  then obtain h4 where g4: "run_cmd env [''getent'', ''group'', ''uncluster''] h2 = (h4, Inr ())"
    by (simp add: run_cmd_def exec_def)
  then have l: "lookupServiceGroup env h2 = (h4, ''uncluster'')" by (simp add: lookupServiceGroup_def)
  have "kept (- U) h2 h4"
    using lookup_group_frame [OF doc order_refl, of UNIV h2 "[''uncluster'', ''_uncluster'']"] l
    unfolding lookupServiceGroup_def by simp
  then have i4: "h_files h4 p = Some (i\<lparr>in_data := Some (ie_toml env cfg)\<rparr>)" using i p by (simp add: kept_def)
  have nonempty: "''uncluster'' \<noteq> []" by simp
  obtain h5 where c: "run_cmd env [''chown'', ''root:'' @ ''uncluster'', p] h4 = (h5, Inr ())" and m: "Chmod env p 416 h5 = (h', Inr ())"
    using r unfolding restrictSystemConfigACL_def l prod.case if_not_P [OF nonempty] run_steps_ok wrapped_ok by auto
  show ?thesis using chown_ok [OF doc c i4] m by (auto simp: Chmod_def set_inode_ok put_inode_def)
qed

section \<open>What a completed installation leaves\<close>

definition installed_files :: "expected_paths \<Rightarrow> string set" where
  "installed_files paths = {xp_CAPubkey paths, xp_SSHDropIn paths, xp_PrincipalsDir paths, SystemConfigPath}
     \<union> command_chain LauncherPath"

text \<open>The three paths the control plane expects are files of their own.\<close>

definition good_layout :: "expected_paths \<Rightarrow> bool" where
  "good_layout paths \<longleftrightarrow> distinct [xp_CAPubkey paths, xp_SSHDropIn paths, xp_PrincipalsDir paths]
     \<and> (\<forall>p \<in> {xp_CAPubkey paths, xp_SSHDropIn paths, xp_PrincipalsDir paths}.
          p \<notin> {LauncherPath, ''/opt/uncluster'', ''/opt'', ''/'', SystemConfigPath, ''/etc/uncluster'', restart_conf_path}
          \<and> \<not> has_prefix ''/var/lib/uncluster'' p)"

definition installed :: "install_env \<Rightarrow> (string \<Rightarrow> 32 word) \<Rightarrow> agent_config \<Rightarrow> host \<Rightarrow> bool" where
  "installed env gid cfg h \<longleftrightarrow>
     (let paths = cf_ExpectedPaths cfg in
      (\<forall>q \<in> command_chain LauncherPath. sound_component h q)
      \<and> (\<exists>i. h_files h (xp_CAPubkey paths) = Some (i\<lparr>in_data := Some (trim_space (cf_CAPubkey cfg) @ [newline])\<rparr>))
      \<and> (\<exists>i. h_files h (xp_SSHDropIn paths) =
            Some (i\<lparr>in_data := Some (sshdDropInContentUnix (xp_CAPubkey paths) LauncherPath ''uncluster'')\<rparr>))
      \<and> h_files h (xp_PrincipalsDir paths) = Some \<lparr>in_data = None, in_uid = 0, in_gid = gid ''uncluster'', in_perm = 509\<rparr>
      \<and> h_files h SystemConfigPath =
            Some \<lparr>in_data = Some (ie_toml env cfg), in_uid = 0, in_gid = gid ''uncluster'', in_perm = 416\<rparr>)"

lemma outside_layout:
  assumes "good_layout paths"
  shows "''/etc/uncluster'' \<in> - installed_files paths" "restart_conf_path \<in> - installed_files paths"
    "{q. has_prefix ''/var/lib/uncluster'' q} \<subseteq> - installed_files paths"
    "filepath_dir SystemConfigPath = ''/etc/uncluster''"
proof -
  have l: "''/etc/uncluster'' \<notin> {LauncherPath, ''/opt/uncluster'', ''/opt'', ''/'', SystemConfigPath}"
    "restart_conf_path \<notin> {LauncherPath, ''/opt/uncluster'', ''/opt'', ''/'', SystemConfigPath}"
    "p \<in> {LauncherPath, ''/opt/uncluster'', ''/opt'', ''/'', SystemConfigPath} \<Longrightarrow> \<not> has_prefix ''/var/lib/uncluster'' p" for p
    by (auto simp: LauncherPath_def launcherDir_def path_join_def SystemConfigPath_def restart_conf_path_def has_prefix_def)
  show "''/etc/uncluster'' \<in> - installed_files paths" "restart_conf_path \<in> - installed_files paths"
    using l(1,2) assms unfolding installed_files_def good_layout_def launcher_chain(3) by auto
  show "{q. has_prefix ''/var/lib/uncluster'' q} \<subseteq> - installed_files paths"
    using l(3) assms unfolding installed_files_def good_layout_def launcher_chain(3) by blast
  show "filepath_dir SystemConfigPath = ''/etc/uncluster''" by (simp add: filepath_dir_def path_dir_def SystemConfigPath_def)
qed

lemma own_paths:
  assumes "good_layout paths"
  shows "xp_CAPubkey paths \<notin> command_chain LauncherPath" "xp_SSHDropIn paths \<notin> command_chain LauncherPath"
    "xp_PrincipalsDir paths \<notin> command_chain LauncherPath" "SystemConfigPath \<notin> command_chain LauncherPath"
    "SystemConfigPath \<noteq> xp_CAPubkey paths" "SystemConfigPath \<noteq> xp_SSHDropIn paths" "SystemConfigPath \<noteq> xp_PrincipalsDir paths"
    "xp_CAPubkey paths \<noteq> xp_SSHDropIn paths" "xp_CAPubkey paths \<noteq> xp_PrincipalsDir paths" "xp_SSHDropIn paths \<noteq> xp_PrincipalsDir paths"
proof -
  show "SystemConfigPath \<notin> command_chain LauncherPath"
    unfolding launcher_chain(3) by (simp add: LauncherPath_def launcherDir_def path_join_def SystemConfigPath_def)
qed (use assms in \<open>auto simp: good_layout_def launcher_chain(3)\<close>)

lemma save_frames:
  assumes doc: "documented_commands env U gid" and l: "ie_goos env = ''linux''"
  shows "framed (insert (xp_CAPubkey paths) (- U)) UNIV (writeCAPubkey env paths k)"
    "framed (insert (xp_SSHDropIn paths) (- U)) UNIV (writeSSHDropIn env paths b u)"
    "framed (- U) UNIV (ensurePrincipalsDir env paths)"
  unfolding writeCAPubkey_def writeSSHDropIn_def ensurePrincipalsDir_def
  by (simp_all add: framed_run_steps framed_wrapped framed_MkdirAll framed_WriteFile)

lemma prepare_leaves:
  assumes doc: "documented_commands env (installed_files paths) gid" and l: "ie_goos env = ''linux''"
    and g: "group_exists env" and lay: "good_layout paths" and cfg: "cf_ExpectedPaths cfg = paths"
    and root: "sound_component h ''/''" and opt: "\<forall>i. h_files h ''/opt'' = Some i \<longrightarrow> in_uid i = 0"
    and nodir: "\<not> is_dir h LauncherPath"
    and ok: "run_steps (prepare_steps env cfg exe) h = (h', Inr ())"
  shows "installed env gid cfg h'"
proof -
  let ?U = "installed_files paths" and ?CA = "xp_CAPubkey paths" and ?D = "xp_SSHDropIn paths"
    and ?P = "xp_PrincipalsDir paths" and ?S = SystemConfigPath
  have nd: "''linux'' \<noteq> ''darwin''" by simp
  have mem: "?CA \<in> ?U" "?D \<in> ?U" "?P \<in> ?U" "?S \<in> ?U" "command_chain LauncherPath \<subseteq> ?U"
    by (auto simp: installed_files_def)
  obtain h1 h2 h3 h4 h5 h6 h7 h8 h9 h10 h11 where
    s1: "checkSSHD env h = (h1, Inr ())" and s2: "installLauncherBinary env exe LauncherPath h1 = (h2, Inr ())"
    and s3: "writeCAPubkey env paths (cf_CAPubkey cfg) h2 = (h3, Inr ())"
    and s4: "writeSSHDropIn env paths LauncherPath (serviceAccountName (ie_goos env)) h3 = (h4, Inr ())"
    and s5: "ensurePrincipalsDir env paths h4 = (h5, Inr ())" and s6: "ensureServiceAccount env h5 = (h6, Inr ())"
    and s7: "grantPrincipalsAccess env ?P h6 = (h7, Inr ())" and s8: "setupPayloadStore env exe h7 = (h8, Inr ())"
    and s9: "SaveConfigSystem env ?S cfg h8 = (h9, Inr ())"
    and s10: "grantConfigDirAccess env (filepath_dir ?S) h9 = (h10, Inr ())"
    and s11: "installService env LauncherPath h10 = (h11, Inr ())" and s12: "writeSystemdRestartOverride env h11 = (h', Inr ())"
    using ok unfolding prepare_steps_def Let_def cfg l if_not_P [OF nd] append_Cons append_Nil run_steps_ok wrapped_ok by auto
  note out = outside_layout [OF lay]
  have k1: "kept (- ?U) h h1" using framedD [OF framed_checkSSHD [OF doc l order_refl] s1, of UNIV] by simp
  have k3: "kept (insert ?CA (- ?U)) h2 h3" using framedD [OF save_frames(1) [OF doc l] s3] by simp
  have k4: "kept (insert ?D (- ?U)) h3 h4" using framedD [OF save_frames(2) [OF doc l] s4] by simp
  have k5: "kept (- ?U) h4 h5" using framedD [OF save_frames(3) [OF doc l] s5] by simp
  have k6: "kept (- ?U) h5 h6"
    using framedD [OF framed_account [OF doc order_refl] s6 [unfolded linux_steps(1) [OF l]], of UNIV] by simp
  have k7: "kept (insert ?P (- ?U)) h6 h7" using framedD [OF framed_grants(1) [OF doc l order_refl] s7, of UNIV] by simp
  have k8: "kept (- ?U) h7 h8" using framedD [OF framed_store [OF doc l] s8, of "- ?U" UNIV] out(3) by auto
  have k9: "kept (insert ?S (- ?U)) h8 h9" using framedD [OF framed_save [OF doc order_refl] s9, of UNIV] by simp
  have k10: "kept (- ?U) h9 h10"
    using framedD [OF framed_grants(2) [OF doc l] s10 [unfolded out(4)], of "- ?U" UNIV] out(1) by auto
  have k11: "kept (- ?U) h10 h11" using framedD [OF framed_service [OF doc l order_refl] s11, of UNIV] by simp
  have k12: "kept (- ?U) h11 h'" using framedD [OF framed_override [OF doc l] s12, of "- ?U" UNIV] out(2) by auto
  note after = kept_trans [OF kept_mono kept_mono]
  have kE: "kept (- ?U) h9 h'"
    by (rule kept_trans [OF k10], rule kept_trans [OF k11 k12])
  have k89: "kept (insert ?S (- ?U)) h7 h9" by (rule after [OF k8 _ k9]) auto
  have kD: "kept (insert ?S (- ?U)) h7 h'" by (rule after [OF k89 _ kE]) auto
  have k47: "kept (insert ?P (- ?U)) h4 h7" by (rule after [OF k5 _ kept_trans [OF kept_mono [OF k6] k7]]) auto
  have kC: "kept (insert ?P (insert ?S (- ?U))) h4 h'" by (rule after [OF k47 _ kD]) auto
  have kB: "kept (insert ?D (insert ?P (insert ?S (- ?U)))) h3 h'" by (rule after [OF k4 _ kC]) auto
  have kA: "kept (insert ?CA (insert ?D (insert ?P (insert ?S (- ?U))))) h2 h'" by (rule after [OF k3 _ kB]) auto
  note own = own_paths [OF lay]
  have chain: "sound_component h' q" if q: "q \<in> command_chain LauncherPath" for q
  proof -
    have r1: "sound_component h1 ''/''" "\<forall>i. h_files h1 ''/opt'' = Some i \<longrightarrow> in_uid i = 0" "\<not> is_dir h1 LauncherPath"
      using checkSSHD_files [OF doc, of _ h] s1 mem(5) launcher_chain(3) root opt nodir by (simp_all add: sound_component_def is_dir_def)
    have "sound_component h2 q" using installLauncher_ok [OF s2 r1] q by blast
    moreover have "q \<notin> insert ?CA (insert ?D (insert ?P (insert ?S (- ?U))))" using own q mem(5) by auto
    ultimately show ?thesis using keptD [OF kA] unfolding sound_component_def by blast
  qed
  have ca: "\<exists>i. h_files h' ?CA = Some (i\<lparr>in_data := Some (trim_space (cf_CAPubkey cfg) @ [newline])\<rparr>)"
  proof -
    obtain x where "WriteFile env ?CA (trim_space (cf_CAPubkey cfg) @ [newline]) 420 x = (h3, Inr ())"
      using s3 unfolding writeCAPubkey_def run_steps_ok by auto
    from WriteFile_ok [OF this] show ?thesis using keptD [OF kB, of ?CA] own mem by auto
  qed
  have di: "\<exists>i. h_files h' ?D = Some (i\<lparr>in_data := Some (sshdDropInContentUnix ?CA LauncherPath ''uncluster'')\<rparr>)"
  proof -
    obtain x where "WriteFile env ?D (sshdDropInContentUnix ?CA LauncherPath ''uncluster'') 420 x = (h4, Inr ())"
      using s4 unfolding writeSSHDropIn_def run_steps_ok l linux_account by auto
    from WriteFile_ok [OF this] show ?thesis using keptD [OF kC, of ?D] own mem by auto
  qed
  have pr: "h_files h' ?P = Some \<lparr>in_data = None, in_uid = 0, in_gid = gid ''uncluster'', in_perm = 509\<rparr>"
  proof -
    have "is_dir h5 ?P" using MkdirAll_changes [OF s5 [unfolded ensurePrincipalsDir_def]] by simp
    then obtain i where i: "h_files h5 ?P = Some i" "in_data i = None" by (auto simp: is_dir_def split: option.splits)
    then have "h_files h6 ?P = Some i" using keptD [OF k6] mem by auto
    from grant_ok [OF doc l s7 this] show ?thesis using keptD [OF kD, of ?P] own mem i(2) by auto
  qed
  have co: "h_files h' ?S = Some \<lparr>in_data = Some (ie_toml env cfg), in_uid = 0, in_gid = gid ''uncluster'', in_perm = 416\<rparr>"
    using keptD [OF kE save_ok [OF doc g mem(4) s9]] mem(4) by simp
  show ?thesis unfolding installed_def Let_def cfg using chain ca di pr co by blast
qed

section \<open>The doctor on the installed machine\<close>

definition file_info_of :: "inode \<Rightarrow> file_info" where
  "file_info_of i = \<lparr>fi_dir = in_data i = None, fi_regular = in_data i \<noteq> None, fi_symlink = False, fi_perm = in_perm i,
     fi_sys = Some (in_uid i, in_gid i)\<rparr>"

definition host_read :: "host \<Rightarrow> string \<Rightarrow> (string, string) result" where
  "host_read h p = (case h_files h p of
     None \<Rightarrow> Inl (path_error ''open'' p enoent)
   | Some i \<Rightarrow> (case in_data i of None \<Rightarrow> Inl (path_error ''read'' p ''is a directory'') | Some s \<Rightarrow> Inr s))"

definition host_stat :: "host \<Rightarrow> string \<Rightarrow> (stat_error, file_info) result" where
  "host_stat h p = (case h_files h p of
     None \<Rightarrow> Inl (SeNotExist (path_error ''stat'' p enoent))
   | Some i \<Rightarrow> Inr (file_info_of i))"

text \<open>The machine as the doctor sees it; the rest of the probe (commands, the user database) is \<open>pb\<close>.\<close>

definition host_probe :: "probe \<Rightarrow> host \<Rightarrow> probe" where
  "host_probe pb h = pb\<lparr>pb_read := host_read h, pb_stat := host_stat h, pb_lstat := host_stat h,
     pb_realpath := (\<lambda>p. if h_files h p = None then Inl enoent else Inr p)\<rparr>"

definition ascii :: "string \<Rightarrow> bool" where
  "ascii s \<longleftrightarrow> (\<forall>c \<in> set s. of_char c < (128 :: nat))"

definition strip :: "string \<Rightarrow> string" where
  "strip s = rev (dropWhile (\<lambda>c. is_space (of_char c)) (rev (dropWhile (\<lambda>c. is_space (of_char c)) s)))"

lemma trim_space_ascii:
  assumes "ascii s"
  shows "trim_space s = strip s"
proof -
  have d: "dropWhile (\<lambda>p. is_space (fst p)) (map (\<lambda>c. (of_char c :: nat, [c])) t)
      = map (\<lambda>c. (of_char c, [c])) (dropWhile (\<lambda>c. is_space (of_char c)) t)" for t
    by (induction t) auto
  have c: "concat (map (\<lambda>c. [c]) t) = t" for t :: string by (induction t) auto
  have r: "runes s = map (\<lambda>c. (of_char c, [c])) s" using assms by (simp add: runes_ascii_all ascii_def)
  show ?thesis unfolding trim_space_def Let_def r d rev_map map_map by (simp add: comp_def c strip_def)
qed

lemma strip_ends: "strip s \<noteq> [] \<Longrightarrow> \<not> is_space (of_char (hd (strip s))) \<and> \<not> is_space (of_char (last (strip s)))"
proof -
  let ?sp = "\<lambda>c :: char. is_space (of_char c)"
  assume n: "strip s \<noteq> []"
  define x where "x = dropWhile ?sp s"
  have s: "strip s = rev (dropWhile ?sp (rev x))" by (simp add: strip_def x_def)
  have "x \<noteq> []" using n s by auto
  then have h: "\<not> ?sp (hd x)" unfolding x_def using hd_dropWhile [of ?sp s] by blast
  obtain a where a: "rev x = takeWhile ?sp (rev x) @ dropWhile ?sp (rev x)" by simp
  then have "x = strip s @ rev (takeWhile ?sp (rev x))" unfolding s by (metis rev_append rev_rev_ident)
  then have "hd (strip s) = hd x" using n by (metis hd_append2)
  moreover have "last (strip s) = hd (dropWhile ?sp (rev x))" using n s by (simp add: last_rev)
  ultimately show ?thesis using h n s hd_dropWhile [of ?sp "rev x"] by simp
qed

lemma dropWhile_nothing: "t = [] \<or> \<not> P (hd t) \<Longrightarrow> dropWhile P t = t"
  by (cases t) auto

lemma trim_again:
  assumes "ascii s"
  shows "trim_space (trim_space s @ [newline]) = trim_space s"
proof -
  have a: "ascii (strip s @ [newline])"
  proof -
    have "set (strip s) \<subseteq> set s" unfolding strip_def using set_dropWhileD by (metis set_rev subset_iff)
    then show ?thesis using assms by (auto simp: ascii_def)
  qed
  have n: "is_space (of_char newline)" by (simp add: is_space_def)
  have "strip (strip s @ [newline]) = strip s"
  proof (cases "strip s")
    case Nil
    show ?thesis unfolding Nil using n by (simp add: strip_def)
  next
    case (Cons c cs)
    then have e: "\<not> is_space (of_char (hd (strip s)))" "\<not> is_space (of_char (last (strip s)))" "strip s \<noteq> []"
      using strip_ends [of s] by auto
    have "dropWhile (\<lambda>c. is_space (of_char c)) (strip s @ [newline]) = strip s @ [newline]"
      by (rule dropWhile_nothing) (use e in simp)
    moreover have "dropWhile (\<lambda>c. is_space (of_char c)) (rev (strip s)) = rev (strip s)"
      by (rule dropWhile_nothing) (use e in \<open>simp add: hd_rev\<close>)
    ultimately show ?thesis unfolding strip_def [of "strip s @ [newline]"] using n by simp
  qed
  then show ?thesis using trim_space_ascii [OF assms] trim_space_ascii [OF a] by simp
qed

lemma contains_mid: "contains (a @ b @ c) b"
  by (induction a) (simp_all add: contains_def)

lemma strict_perm: "perm AND 18 = 0 \<Longrightarrow> \<not> bit perm 1 \<and> \<not> bit perm 4" for perm :: "32 word"
  using write_bits by blast

lemma probe_reads:
  "pb_read (host_probe pb h) = host_read h" "pb_stat (host_probe pb h) = host_stat h"
  "pb_realpath (host_probe pb h) = (\<lambda>p. if h_files h p = None then Inl enoent else Inr p)"
  "pb_goos (host_probe pb h) = pb_goos pb" "pb_run (host_probe pb h) = pb_run pb" "pb_quote (host_probe pb h) = pb_quote pb"
  "pb_username (host_probe pb h) = pb_username pb" "pb_groupname (host_probe pb h) = pb_groupname pb"
  by (simp_all add: host_probe_def)

lemma ca_check_ok:
  assumes "installed env gid cfg h" "ascii (cf_CAPubkey cfg)"
  shows "dc_Status (checkCAPubkey (host_probe pb h) (cf_ExpectedPaths cfg) (cf_CAPubkey cfg)) = CheckOK"
proof -
  obtain i where "h_files h (xp_CAPubkey (cf_ExpectedPaths cfg)) = Some (i\<lparr>in_data := Some (trim_space (cf_CAPubkey cfg) @ [newline])\<rparr>)"
    using assms(1) by (auto simp: installed_def Let_def)
  then show ?thesis using trim_again [OF assms(2)] by (simp add: checkCAPubkey_def probe_reads host_read_def result_of_def)
qed

lemma launcher_text: "list_all graphic LauncherPath" "LauncherPath \<noteq> []" "has_prefix ''/'' LauncherPath"
  by (simp_all add: LauncherPath_def launcherDir_def path_join_def graphic_def has_prefix_def)

lemma drop_in_read:
  assumes "installed env gid cfg h"
  shows "host_read h (xp_SSHDropIn (cf_ExpectedPaths cfg))
     = Inr (sshdDropInContentUnix (xp_CAPubkey (cf_ExpectedPaths cfg)) LauncherPath ''uncluster'')"
  using assms by (auto simp: installed_def Let_def host_read_def)

lemma drop_in_check_ok:
  assumes "installed env gid cfg h" "newline \<notin> set (xp_CAPubkey (cf_ExpectedPaths cfg))" "pb_goos pb = ''linux''"
  shows "dc_Status (checkSSHDropIn (host_probe pb h) (cf_ExpectedPaths cfg)) = CheckOK"
proof -
  let ?ca = "xp_CAPubkey (cf_ExpectedPaths cfg)"
  let ?t = "sshdDropInContentUnix ?ca LauncherPath ''uncluster''"
  let ?l1 = "''TrustedUserCAKeys '' @ ?ca" and ?l2 = "''AuthorizedPrincipalsCommand '' @ LauncherPath @ '' ''"
    and ?cmd = "''agent principals %u''" and ?l3 = "''AuthorizedPrincipalsCommandUser '' @ ''uncluster''"
  have t: "?t = [] @ ?l1 @ (newline # ?l2 @ ?cmd @ newline # ?l3 @ [newline])"
    "?t = (?l1 @ newline # ?l2) @ ?cmd @ (newline # ?l3 @ [newline])"
    "?t = (?l1 @ newline # ?l2 @ ?cmd @ [newline]) @ ?l3 @ [newline]"
    by (simp_all add: sshdDropInContentUnix_def)
  have "contains ?t ?l1" unfolding t(1) by (rule contains_mid)
  moreover have "contains ?t ?cmd" unfolding t(2) by (rule contains_mid)
  moreover have "contains ?t ?l3" unfolding t(3) by (rule contains_mid)
  moreover have "parseAuthorizedPrincipalsCommandBin ?t \<noteq> []"
    using drop_in_command [OF launcher_text(1,2) assms(2)] launcher_text(2) by simp
  ultimately show ?thesis
    unfolding checkSSHDropIn_def probe_reads drop_in_read [OF assms(1)] assms(3) linux_account Let_def sum.case
    by (simp only: simp_thms if_False append_Nil) (simp add: result_of_def)
qed

lemma command_check_ok:
  assumes "installed env gid cfg h" "newline \<notin> set (xp_CAPubkey (cf_ExpectedPaths cfg))"
  shows "dc_Status (checkPrincipalsCommandBinary (host_probe pb h) (cf_ExpectedPaths cfg)) = CheckOK"
proof -
  have s: "\<forall>q \<in> command_chain LauncherPath. sound_component h q" using assms(1) by (simp add: installed_def Let_def)
  have t: "sshd_trusts (statPathOwnership (host_probe pb h)) q" if "sound_component h q" for q
    using that strict_perm
    by (auto simp: sound_component_def sshd_trusts_iff statPathOwnership_def probe_reads host_stat_def file_info_of_def)
  have l: "LauncherPath \<in> command_chain LauncherPath" by (simp add: command_chain_def)
  then obtain i where i: "h_files h LauncherPath = Some i" "in_data i \<noteq> None" using s by (auto simp: sound_component_def)
  have r: "\<exists>own. statPathOwnership (host_probe pb h) LauncherPath = Inr own \<and> po_isRegular own"
    using i by (simp add: statPathOwnership_def probe_reads host_stat_def file_info_of_def)
  show ?thesis
    unfolding checkPrincipalsCommandBinary_def probe_reads drop_in_read [OF assms(1)] Let_def sum.case
      drop_in_command [OF launcher_text(1,2) assms(2)] walkCommandPathChain_def
    using launcher_text(2,3) i(1) walk_from_ok [OF launcher_text(3)] r s t by auto
qed

lemma principals_check_ok:
  assumes "installed env gid cfg h" "pb_username pb ''0'' = Some ''root''"
    "pb_groupname pb (dec_nat (unat (gid ''uncluster''))) = Some ''uncluster''"
  shows "dc_Status (checkPrincipalsDirPerms (host_probe pb h) (xp_PrincipalsDir (cf_ExpectedPaths cfg)) ''uncluster'') = CheckOK"
    "dc_Status (checkConfigOwnership (host_probe pb h) SystemConfigPath ''uncluster'') = CheckOK"
proof -
  have "dec_nat 0 = ''0''" by code_simp
  then show "dc_Status (checkPrincipalsDirPerms (host_probe pb h) (xp_PrincipalsDir (cf_ExpectedPaths cfg)) ''uncluster'') = CheckOK"
    "dc_Status (checkConfigOwnership (host_probe pb h) SystemConfigPath ''uncluster'') = CheckOK"
    using assms
  by (simp_all add: installed_def Let_def checkPrincipalsDirPerms_def checkConfigOwnership_def probe_reads host_stat_def
      file_info_of_def lookupUserName_def lookupGroupName_def principalsDirResult_def configOwnershipResult_def result_of_def)
qed

lemma check_names:
  "dc_Name (checkSSHDBinary pb) = ''sshd-binary''" "dc_Name (checkSSHDRunning pb) = ''sshd-running''"
  "dc_Name (checkServiceAccount pb) = ''service-account''" "dc_Name (checkServiceGroup pb) = ''service-group''"
  "dc_Name (checkPayloadDir pb) = ''payload-dir''" "dc_Name (checkServiceRunning pb) = ''service-running''"
  "dc_Name (checkSSHDEffectiveConfig pb paths) = ''sshd-effective-config''"
proof -
  have r: "dc_Name (result_of n st msg) = n" for n st msg by (simp add: result_of_def)
  have p: "dc_Name (payloadDirResult pb d f) = ''payload-dir''" for d f
    by (auto simp: payloadDirResult_def Let_def r split: option.splits stat_error.splits)
  show "dc_Name (checkPayloadDir pb) = ''payload-dir''" by (simp add: checkPayloadDir_def Let_def p split: sum.splits)
  show "dc_Name (checkSSHDEffectiveConfig pb paths) = ''sshd-effective-config''"
    by (simp add: checkSSHDEffectiveConfig_def Let_def r split: sum.splits)
qed (simp_all add: checkSSHDBinary_def checkSSHDRunning_def checkServiceAccount_def checkServiceGroup_def
    serviceGroupResult_def checkServiceRunning_def result_of_def Let_def)

text \<open>The checks of the doctor that only read files.\<close>

definition file_checks :: "string set" where
  "file_checks = {''ca-pubkey'', ''sshd-drop-in'', ''sshd-principals-command-binary'', ''principals-dir'', ''config-ownership''}"

lemma doctor_file_checks:
  assumes i: "installed env gid cfg h" and ca: "ascii (cf_CAPubkey cfg)" "newline \<notin> set (xp_CAPubkey (cf_ExpectedPaths cfg))"
    and pb: "pb_goos pb = ''linux''" "pb_run pb [''getent'', ''group'', ''uncluster'']" "pb_username pb ''0'' = Some ''root''"
      "pb_groupname pb (dec_nat (unat (gid ''uncluster''))) = Some ''uncluster''"
    and c: "c \<in> set (Doctor (host_probe pb h) (cf_ExpectedPaths cfg) (cf_CAPubkey cfg))" "dc_Name c \<in> file_checks"
  shows "dc_Status c = CheckOK"
proof -
  have w: "lookupServiceGroupName (pb_run (host_probe pb h)) = ''uncluster''"
    using pb(2) by (simp add: lookupServiceGroupName_def probe_reads)
  have nd: "pb_goos (host_probe pb h) \<noteq> ''darwin''" using pb(1) by (simp add: probe_reads)
  have n: "''sshd-binary'' \<notin> file_checks" "''sshd-running'' \<notin> file_checks" "''service-account'' \<notin> file_checks"
    "''service-group'' \<notin> file_checks" "''payload-dir'' \<notin> file_checks" "''service-running'' \<notin> file_checks"
    "''sshd-effective-config'' \<notin> file_checks" by (simp_all add: file_checks_def)
  note ok = ca_check_ok [OF i ca(1)] drop_in_check_ok [OF i ca(2) pb(1)] command_check_ok [OF i ca(2)]
    principals_check_ok [OF i pb(3,4)]
  from c(1) consider "c = checkCAPubkey (host_probe pb h) (cf_ExpectedPaths cfg) (cf_CAPubkey cfg)"
    | "c = checkSSHDropIn (host_probe pb h) (cf_ExpectedPaths cfg)"
    | "c = checkPrincipalsCommandBinary (host_probe pb h) (cf_ExpectedPaths cfg)"
    | "c = checkPrincipalsDirPerms (host_probe pb h) (xp_PrincipalsDir (cf_ExpectedPaths cfg)) ''uncluster''"
    | "c = checkConfigOwnership (host_probe pb h) SystemConfigPath ''uncluster''"
    | "dc_Name c \<notin> file_checks"
    unfolding Doctor_def Let_def w if_not_P [OF nd] using check_names n by auto
  then show ?thesis using ok c(2) by cases simp_all
qed

lemma run_steps_append:
  "run_steps (fs @ gs) h = (case run_steps fs h of (h1, Inl e) \<Rightarrow> (h1, Inl e) | (h1, Inr _) \<Rightarrow> run_steps gs h1)"
  by (induction fs arbitrary: h) (auto split: prod.splits sum.splits)

lemma installed_kept:
  assumes "installed env gid cfg h" "kept (- installed_files (cf_ExpectedPaths cfg)) h h'"
  shows "installed env gid cfg h'"
proof -
  have k: "h_files h' p = Some i" if "h_files h p = Some i" "p \<in> installed_files (cf_ExpectedPaths cfg)" for p i
    using keptD [OF assms(2) that(1)] that(2) by simp
  have m: "p \<in> installed_files (cf_ExpectedPaths cfg)" if "p \<in> command_chain LauncherPath
     \<union> {xp_CAPubkey (cf_ExpectedPaths cfg), xp_SSHDropIn (cf_ExpectedPaths cfg), xp_PrincipalsDir (cf_ExpectedPaths cfg), SystemConfigPath}" for p
    using that by (auto simp: installed_files_def)
  have "sound_component h' q" if "q \<in> command_chain LauncherPath" "sound_component h q" for q
    using that k m unfolding sound_component_def by blast
  then show ?thesis using assms(1) k m unfolding installed_def Let_def by blast
qed

lemma finish_keeps:
  assumes doc: "documented_commands env U gid" and l: "ie_goos env = ''linux''"
  shows "framed (- U) UNIV (run_steps [wrapped ''start service'' (startService env), wrapped ''reload sshd'' (reloadSSHD env)])"
  by (rule framed_run_steps) (simp add: framed_wrapped framed_reload [OF doc l order_refl])

text \<open>C34: after an installation on Linux that reports success, on a machine whose root directory is
  root-owned and not open to others and whose \<open>/opt\<close>, if there is one, belongs to root, each check of the
  doctor that reads files passes: the certificate authority's key is the enrolled one, the sshd drop-in
  names the launcher and the service account, the launcher and every directory above it satisfy sshd's
  ownership rule, the principals directory can be written by the service account and the configuration
  holds its token out of sight of other users. The commands and the service library are assumed to do what
  they are documented to do and to leave the installed files alone otherwise.\<close>

theorem install_satisfies_doctor:
  assumes "documented_commands env (installed_files (cf_ExpectedPaths cfg)) gid" "ie_goos env = ''linux''" "group_exists env"
    and "good_layout (cf_ExpectedPaths cfg)" "newline \<notin> set (xp_CAPubkey (cf_ExpectedPaths cfg))" "ascii (cf_CAPubkey cfg)"
    and "sound_component h ''/''" "\<forall>i. h_files h ''/opt'' = Some i \<longrightarrow> in_uid i = 0" "\<not> is_dir h LauncherPath"
    and "Install env cfg exe h = (h', Inr ())"
    and "pb_goos pb = ''linux''" "pb_run pb [''getent'', ''group'', ''uncluster'']" "pb_username pb ''0'' = Some ''root''"
      "pb_groupname pb (dec_nat (unat (gid ''uncluster''))) = Some ''uncluster''"
    and "c \<in> set (Doctor (host_probe pb h') (cf_ExpectedPaths cfg) (cf_CAPubkey cfg))"
      "dc_Name c \<in> {''ca-pubkey'', ''sshd-drop-in'', ''sshd-principals-command-binary'', ''principals-dir'', ''config-ownership''}"
  shows "dc_Status c = CheckOK"
proof -
  obtain h1 where p: "run_steps (prepare_steps env cfg exe) h = (h1, Inr ())"
    and f: "run_steps [wrapped ''start service'' (startService env), wrapped ''reload sshd'' (reloadSSHD env)] h1 = (h', Inr ())"
    using assms(10) unfolding Install_def run_steps_append by (auto split: prod.splits sum.splits)
  have "installed env gid cfg h1" by (rule prepare_leaves [OF assms(1-4) refl assms(7-9) p])
  moreover have "kept (- installed_files (cf_ExpectedPaths cfg)) h1 h'"
    using framedD [OF finish_keeps [OF assms(1,2)] f] by simp
  ultimately have "installed env gid cfg h'" by (rule installed_kept)
  from doctor_file_checks [OF this assms(6,5,11-15)] assms(16) show ?thesis by (simp add: file_checks_def)
qed

section \<open>The order of the steps\<close>

lemma tighten_log: "h_log (fst (tightenChain env p h)) = h_log h \<and> h_store (fst (tightenChain env p h)) = h_store h"
proof (induction env p h rule: tightenChain.induct)
  case (1 env p h)
  show ?case
  proof (cases "h_files h p")
    case None
    then show ?thesis by (simp add: tightenChain.simps [of env p h])
  next
    case (Some i)
    obtain h1 r1 where s: "(if in_uid i = 0 \<and> in_perm i AND 18 \<noteq> 0
       then wrapped (''tighten '' @ p @ '' (mode '' @ oct4 (in_perm i) @ '')'') (Chmod env p (in_perm i AND NOT 18)) h
       else (h, Inr ())) = (h1, r1)" by (metis surj_pair)
    then have l: "h_log h1 = h_log h \<and> h_store h1 = h_store h"
      by (auto simp: wrapped_def Chmod_def put_inode_def set_inode_def split: if_splits prod.splits sum.splits option.splits)
    have e: "tightenChain env p h = (case r1 of Inl e \<Rightarrow> (h1, Inl e) | Inr _ \<Rightarrow>
        if filepath_dir p = p \<or> filepath_dir p = ''/'' then (h1, Inr ()) else tightenChain env (filepath_dir p) h1)"
      unfolding tightenChain.simps [of env p h] Some option.case s prod.case Let_def by (cases r1) simp_all
    show ?thesis unfolding e using l 1 [OF Some s [symmetric] _ refl] by (auto split: sum.splits)
  qed
qed

lemma copy_log: "h_log (fst (copyFileAtomic env src dst mode h)) = h_log h"
  by (simp add: copyFileAtomic_def drop_temp_def Let_def split: option.splits)

lemma launcher_runs_nothing: "framed UNIV C (installLauncherBinary env exe p)"
proof -
  have all: "framed UNIV C f" if "\<And>h. h_log (fst (f h)) = h_log h" for f
    using that by (simp add: framed_def kept_def)
  have "framed UNIV C (tightenChain env d)" for d by (rule all) (simp add: tighten_log)
  moreover have "framed UNIV C (\<lambda>h. if sameFile env exe p h then (h, Inr ()) else copyFileAtomic env exe p 493 h)"
    by (rule all) (simp add: copy_log)
  ultimately show ?thesis unfolding installLauncherBinary_def Let_def
    by (intro framed_run_steps) (simp add: framed_wrapped framed_MkdirAll framed_Chmod framed_Chown)
qed

lemma prepare_runs:
  assumes doc: "documented_commands env U gid" and l: "ie_goos env = ''linux''"
  shows "framed UNIV (- late_commands) (run_steps (prepare_steps env cfg exe))"
proof -
  have nd: "''linux'' \<noteq> ''darwin''" by simp
  have u: "A \<subseteq> UNIV" for A :: "string set" by simp
  have 1: "framed UNIV (- late_commands) (writeCAPubkey env paths k)" "framed UNIV (- late_commands) (writeSSHDropIn env paths b u)"
    "framed UNIV (- late_commands) (ensurePrincipalsDir env paths)" for paths k b u
    unfolding writeCAPubkey_def writeSSHDropIn_def ensurePrincipalsDir_def
    by (simp_all add: framed_run_steps framed_wrapped framed_MkdirAll framed_WriteFile)
  note 2 = framed_checkSSHD [OF doc l u order_refl] framed_account [OF doc u order_refl]
    framed_grants [OF doc l u order_refl] framed_store [OF doc l u order_refl] framed_save [OF doc u order_refl]
    framed_service [OF doc l u order_refl] framed_override [OF doc l u order_refl]
  show ?thesis
    unfolding prepare_steps_def Let_def l if_not_P [OF nd] append_Nil append_Cons linux_steps(1) [OF l]
    by (rule framed_run_steps) (simp only: list.pred_inject simp_thms framed_wrapped 1 2 launcher_runs_nothing)
qed

text \<open>the installer restarts the agent or reloads sshd only when everything they need is in place, however the
  installation ends: if one of those commands was run at all, even if it then failed, the launcher's path
  satisfies sshd's rule, the key and the drop-in are written, the principals directory is the service
  account's to write and the configuration is readable by the service account's group and nobody else.\<close>

theorem nothing_starts_unprepared:
  assumes "documented_commands env (installed_files (cf_ExpectedPaths cfg)) gid" "ie_goos env = ''linux''" "group_exists env"
    and "good_layout (cf_ExpectedPaths cfg)"
    and "sound_component h ''/''" "\<forall>i. h_files h ''/opt'' = Some i \<longrightarrow> in_uid i = 0" "\<not> is_dir h LauncherPath"
    and "Install env cfg exe h = (h', r)" "h_log h' = cmds @ h_log h"
    and "cmd \<in> set cmds" "cmd \<in> {[''systemctl'', ''restart'', ''com.uncluster.agent''], [''systemctl'', ''reload'', ''ssh''],
           [''systemctl'', ''reload'', ''sshd'']}"
  shows "installed env gid cfg h'"
proof -
  obtain h1 r1 where p: "run_steps (prepare_steps env cfg exe) h = (h1, r1)"
    by (cases "run_steps (prepare_steps env cfg exe) h")
  obtain cs where cs: "h_log h1 = cs @ h_log h" "set cs \<subseteq> - late_commands"
    using framedD [OF prepare_runs [OF assms(1,2)] p] by (auto simp: runs_def)
  let ?fin = "run_steps [wrapped ''start service'' (startService env), wrapped ''reload sshd'' (reloadSSHD env)]"
  have i: "Install env cfg exe h = (case r1 of Inl e \<Rightarrow> (h1, Inl e) | Inr _ \<Rightarrow> ?fin h1)"
    unfolding Install_def run_steps_append p prod.case ..
  show ?thesis
  proof (cases r1)
    case (Inl e)
    then have "h_log h' = cs @ h_log h" using i assms(8) cs(1) by simp
    then have "set cmds \<subseteq> - late_commands" using assms(9) cs(2) by simp
    then show ?thesis using assms(10,11) unfolding late_commands_def by blast
  next
    case (Inr u)
    then have f: "?fin h1 = (h', r)" using i assms(8) by simp
    have "installed env gid cfg h1" using prepare_leaves [OF assms(1-4) refl assms(5-7)] p Inr by simp
    moreover have "kept (- installed_files (cf_ExpectedPaths cfg)) h1 h'"
      using framedD [OF finish_keeps [OF assms(1,2)] f] by simp
    ultimately show ?thesis by (rule installed_kept)
  qed
qed

end
