(* ===== verification/Install_Progress.thy ===== *)
theory Install_Progress
  imports Install_Doctor
begin

text \<open>
  The installation completes when nothing fails, and the witnesses of the installer's properties on a
  concrete machine.
\<close>

unbundle bit_operations_syntax

section \<open>Nothing fails\<close>

definition nothing_fails :: "install_env \<Rightarrow> bool" where
  "nothing_fails env \<longleftrightarrow> ie_lookpath env ''sshd'' \<and> ie_svc_new env = None \<and> ie_temp env \<noteq> None
     \<and> (\<forall>opn p. ie_fault env opn p = None) \<and> (\<forall>p. ie_short env p = None)
     \<and> (\<forall>opn p. \<not> ie_store_fault env opn p) \<and> ie_store_sync env = None
     \<and> (\<forall>cmd h. \<exists>h1 out. ie_run env cmd h = (h1, Inr out) \<and> h_store h1 = h_store h)
     \<and> (\<forall>svc h. \<exists>h1. ie_svc_install env svc h = (h1, Inr ()) \<and> h_store h1 = h_store h)"

text \<open>\<open>clear S h\<close>: no regular file is in the way of a directory of \<open>S\<close>; no file of \<open>F\<close> is a directory. \<open>seedable\<close>: the payload store is seeded or
  can be. \<open>completes S F exe env f\<close>: on a machine that is ready the step succeeds, and leaves it ready.\<close>

definition clear :: "string set \<Rightarrow> host \<Rightarrow> bool" where
  "clear S h \<longleftrightarrow> (\<forall>q \<in> S. \<forall>i. h_files h q = Some i \<longrightarrow> in_data i = None)"

definition readable :: "string \<Rightarrow> host \<Rightarrow> bool" where
  "readable exe h \<longleftrightarrow> (\<exists>i. h_files h exe = Some i \<and> in_data i \<noteq> None)"

definition seedable :: "install_env \<Rightarrow> host \<Rightarrow> bool" where
  "seedable env h \<longleftrightarrow> st_links (h_store h) ''current'' \<noteq> None
     \<or> valid_version (ie_version env) \<and> ie_version env \<notin> set (st_quarantine (h_store h))"

definition ready :: "string set \<Rightarrow> string set \<Rightarrow> string \<Rightarrow> install_env \<Rightarrow> host \<Rightarrow> bool" where
  "ready S F exe env h \<longleftrightarrow> clear S h \<and> (\<forall>p \<in> F. \<not> is_dir h p) \<and> readable exe h \<and> seedable env h"

definition completes :: "string set \<Rightarrow> string set \<Rightarrow> string \<Rightarrow> install_env \<Rightarrow> inst \<Rightarrow> bool" where
  "completes S F exe env f \<longleftrightarrow> (\<forall>h. ready S F exe env h \<longrightarrow> (\<exists>h'. f h = (h', Inr ()) \<and> ready S F exe env h'))"

lemma completes_run_steps: "list_all (completes S F exe env) fs \<Longrightarrow> completes S F exe env (run_steps fs)"
proof (induction fs)
  case (Cons f fs)
  show ?case unfolding completes_def
  proof (intro allI impI)
    fix h assume h: "ready S F exe env h"
    obtain h1 where 1: "f h = (h1, Inr ())" "ready S F exe env h1" using Cons.prems h unfolding completes_def by auto
    obtain h2 where "run_steps fs h1 = (h2, Inr ())" "ready S F exe env h2" using Cons 1 unfolding completes_def by auto
    then show "\<exists>h'. run_steps (f # fs) h = (h', Inr ()) \<and> ready S F exe env h'" using 1 by auto
  qed
qed (simp add: completes_def)

lemma completes_append:
  assumes "completes S F exe env (run_steps fs)" "completes S F exe env (run_steps gs)"
  shows "completes S F exe env (run_steps (fs @ gs))"
  unfolding completes_def run_steps_append
proof (intro allI impI)
  fix h assume "ready S F exe env h"
  then obtain h1 where 1: "run_steps fs h = (h1, Inr ())" "ready S F exe env h1" using assms(1) unfolding completes_def by blast
  then obtain h2 where "run_steps gs h1 = (h2, Inr ())" "ready S F exe env h2" using assms(2) unfolding completes_def by blast
  then show "\<exists>h'. (case run_steps fs h of (h1, Inl e) \<Rightarrow> (h1, Inl e) | (h1, Inr _) \<Rightarrow> run_steps gs h1) = (h', Inr ())
      \<and> ready S F exe env h'" using 1(1) by auto
qed

lemma completes_wrapped: "completes S F exe env f \<Longrightarrow> completes S F exe env (wrapped ctx f)"
  unfolding completes_def by (metis wrapped_ok)

text \<open>\<^verbatim>\<open>MkdirAll\<close> creates only the path and directories above it.\<close>

lemma is_dir_iff: "is_dir h p \<longleftrightarrow> (\<exists>i. h_files h p = Some i \<and> in_data i = None)"
  by (simp add: is_dir_def split: option.splits)

lemma MkdirAll_within:
  assumes "MkdirAll env perm p h = (h', r)" "has_prefix ''/'' p" "q \<notin> command_chain p"
  shows "h_files h' q = h_files h q"
  using assms
proof (induction env perm p h arbitrary: h' r rule: MkdirAll.induct)
  case (1 env perm p h)
  have qp: "q \<noteq> p" using 1(4) by (auto simp: command_chain_def)
  have one: "h_files h2 q = h_files h1 q" if "mkdir1 env perm p h1 = (h2, r2)" for h1 h2 r2
    using that qp by (auto simp: mkdir1_def put_inode_def split: option.splits)
  show ?case
  proof (cases "p \<noteq> [] \<and> h_files h p = None \<and> CHR ''/'' \<in> set p \<and> filepath_dir p \<noteq> p")
    case True
    obtain h1 r1 where m: "MkdirAll env perm (filepath_dir p) h = (h1, r1)" by (cases "MkdirAll env perm (filepath_dir p) h")
    have c: "command_chain p = insert p (command_chain (filepath_dir p)) \<and> has_prefix ''/'' (filepath_dir p)"
      using command_chain_step 1(3) True by blast
    have "h_files h1 q = h_files h q" using 1(1) [OF _ _ _ m] True c 1(4) by auto
    moreover have "MkdirAll env perm p h = (case r1 of Inl e \<Rightarrow> (h1, Inl e) | Inr _ \<Rightarrow> mkdir1 env perm p h1)"
      using True m by (subst MkdirAll.simps) (auto split: sum.splits)
    ultimately show ?thesis using 1(2) one [of h1 h' r] by (cases r1) auto
  next
    case False
    then show ?thesis using 1(2) one by (subst (asm) MkdirAll.simps) (auto split: option.splits if_splits)
  qed
qed

lemma MkdirAll_completes:
  assumes "nothing_fails env" "has_prefix ''/'' p" "command_chain p \<subseteq> S" "S \<inter> F = {}"
  shows "completes S F exe env (MkdirAll env perm p)"
proof -
  have run: "\<exists>h'. MkdirAll env perm p h = (h', Inr ())" if "clear (command_chain p) h" "has_prefix ''/'' p" "nothing_fails env" for h
    using that
  proof (induction env perm p h rule: MkdirAll.induct)
    case (1 env perm p h)
    have self: "p \<in> command_chain p" by (simp add: command_chain_def)
    have sl: "CHR ''/'' \<in> set p" "p \<noteq> []" using 1(3) by (cases p; auto simp: has_prefix_def)+
    have m: "\<exists>h'. mkdir1 env perm p h1 = (h', Inr ())" for h1 using 1(4) by (simp add: mkdir1_def nothing_fails_def)
    show ?case
    proof (cases "h_files h p = None \<and> filepath_dir p \<noteq> p")
      case True
      have c: "command_chain p = insert p (command_chain (filepath_dir p)) \<and> has_prefix ''/'' (filepath_dir p)"
        using command_chain_step 1(3) True by blast
      then have "clear (command_chain (filepath_dir p)) h" using 1(2) by (auto simp: clear_def)
      then obtain h1 where "MkdirAll env perm (filepath_dir p) h = (h1, Inr ())"
        using 1(1) True sl c 1(4) by auto
      then show ?thesis using True sl m by (subst MkdirAll.simps) auto
    next
      case False
      then show ?thesis using 1(2) self sl m by (subst MkdirAll.simps) (auto simp: clear_def split: option.splits)
    qed
  qed
  show ?thesis unfolding completes_def
  proof (intro allI impI)
    fix h assume "ready S F exe env h"
    then have h: "clear S h" "readable exe h" "seedable env h" "\<forall>p \<in> F. \<not> is_dir h p" by (simp_all add: ready_def)
    then have "clear (command_chain p) h" using assms(3) by (auto simp: clear_def)
    then obtain h' where m: "MkdirAll env perm p h = (h', Inr ())" using run assms by blast
    have q: "h_files h' q = h_files h q \<or> h_files h q = None \<and> h_files h' q = Some (new_inode env None perm q)" for q
      using MkdirAll_changes [OF m] by blast
    have "clear S h'" unfolding clear_def
    proof (intro ballI allI impI)
      fix r i assume "r \<in> S" "h_files h' r = Some i"
      then show "in_data i = None" using q [of r] h(1) by (auto simp: clear_def new_inode_def)
    qed
    moreover have "readable exe h'" using q [of exe] h(2) by (auto simp: readable_def)
    moreover have "\<forall>r \<in> F. \<not> is_dir h' r"
    proof
      fix r assume "r \<in> F"
      then have "h_files h' r = h_files h r" using MkdirAll_within [OF m assms(2)] assms(3,4) by blast
      then show "\<not> is_dir h' r" using h(4) \<open>r \<in> F\<close> by (simp add: is_dir_iff)
    qed
    moreover have "seedable env h'" using MkdirAll_changes [OF m] h(3) by (simp add: seedable_def)
    ultimately show "\<exists>h'. MkdirAll env perm p h = (h', Inr ()) \<and> ready S F exe env h'"
      using m by (auto simp: ready_def)
  qed
qed

text \<open>Calls that need their path to exist, and calls that write a file outside \<open>S\<close>.\<close>

lemma set_inode_ready:
  assumes "nothing_fails env" "ready S F exe env h" "h_files h p \<noteq> None" "\<And>i. in_data (f i) = in_data i"
  shows "\<exists>h'. set_inode env opn f p h = (h', Inr ()) \<and> ready S F exe env h'"
  using assms
  by (auto simp: set_inode_def nothing_fails_def ready_def clear_def readable_def seedable_def put_inode_def is_dir_iff)

lemma WriteFile_ready:
  assumes "nothing_fails env" "ready S F exe env h" "is_dir h (filepath_dir p)" "p \<in> F" "p \<notin> S"
  shows "\<exists>h'. WriteFile env p s perm h = (h', Inr ()) \<and> ready S F exe env h' \<and> h_files h' p \<noteq> None"
proof (cases "h_files h p")
  case None
  then show ?thesis using assms
    by (auto simp: WriteFile_def nothing_fails_def ready_def clear_def readable_def seedable_def put_inode_def is_dir_iff new_inode_def)
next
  case (Some i)
  then show ?thesis using assms
    by (auto simp: WriteFile_def nothing_fails_def ready_def clear_def readable_def seedable_def put_inode_def is_dir_iff)
qed

lemma run_ready:
  assumes "nothing_fails env" "documented_commands env U gid" "insert exe (S \<union> F) \<subseteq> U" "ready S F exe env h"
  shows "\<exists>h'. run_cmd env cmd h = (h', Inr ()) \<and> ready S F exe env h'
    \<and> (\<forall>p \<in> U. map_option in_data (h_files h' p) = map_option in_data (h_files h p))"
    "\<exists>h'. run_combined env ctx cmd h = (h', Inr ()) \<and> ready S F exe env h'"
proof -
  obtain h1 out where r: "ie_run env cmd h = (h1, Inr out)" "h_store h1 = h_store h"
    using assms(1) unfolding nothing_fails_def by blast
  have d: "map_option in_data (h_files h1 p) = map_option in_data (h_files h p)" if "p \<in> U" for p
    using assms(2) that r(1) unfolding documented_commands_def by (metis fst_conv)
  let ?h = "h1\<lparr>h_log := cmd # h_log h\<rparr>"
  have "clear S ?h" unfolding clear_def
  proof (intro ballI allI impI)
    fix q i assume q: "q \<in> S" "h_files ?h q = Some i"
    then obtain j where "h_files h q = Some j" "in_data j = in_data i" using d [of q] assms(3) by (cases "h_files h q") auto
    then show "in_data i = None" using assms(4) q(1) by (auto simp: ready_def clear_def)
  qed
  moreover have "\<not> is_dir ?h p" if "p \<in> F" for p
  proof -
    have "map_option in_data (h_files h1 p) = map_option in_data (h_files h p)" "\<not> is_dir h p"
      using d assms(3,4) that by (auto simp: ready_def)
    then show ?thesis by (cases "h_files h p") (auto simp: is_dir_iff)
  qed
  moreover have "readable exe ?h" using d [of exe] assms(3,4) by (auto simp: ready_def readable_def)
  moreover have "seedable env ?h" using assms(4) r(2) by (simp add: ready_def seedable_def)
  ultimately have "ready S F exe env ?h" by (simp add: ready_def)
  then show "\<exists>h'. run_cmd env cmd h = (h', Inr ()) \<and> ready S F exe env h'
    \<and> (\<forall>p \<in> U. map_option in_data (h_files h' p) = map_option in_data (h_files h p))"
    "\<exists>h'. run_combined env ctx cmd h = (h', Inr ()) \<and> ready S F exe env h'"
    using r d by (simp_all add: run_cmd_def run_combined_def exec_def)
qed

lemma Stage_succeeds:
  assumes "\<forall>opn p. \<not> flt opn p" "valid_version v"
  shows "Stage flt None v bytes st = (st\<lparr>st_bins := AList.update v bytes (st_bins st)\<rparr>, Inr (bin_path (st_root st) v))"
  using assms by (simp add: Stage_def versionBinaryPath_cases fsyncDir_def)

lemma Activate_succeeds:
  assumes "\<forall>opn p. \<not> flt opn p" "valid_version v" "v \<notin> set (st_quarantine st)" "map_of (st_bins st) v \<noteq> None"
    "st_links st ''current'' = None"
  shows "\<exists>st'. Activate flt None v st = (st', Inr ()) \<and> st_links st' ''current'' \<noteq> None"
proof -
  have q: "\<not> IsQuarantined flt v st" using assms by (simp add: IsQuarantined_def versionPathComponent_cases)
  have sw: "\<exists>st1. swapSymlink flt ''current'' (bin_path (st_root st) v) st = (st1, Inr ()) \<and> st_links st1 ''current'' \<noteq> None"
    using assms(1) by (simp add: swapSymlink_def Let_def)
  then obtain st1 where "swapSymlink flt ''current'' (bin_path (st_root st) v) st = (st1, Inr ())" "st_links st1 ''current'' \<noteq> None"
    by blast
  then show ?thesis using assms q by (simp add: Activate_def versionBinaryPath_cases fsyncDir_def)
qed

lemma seed_completes:
  assumes n: "nothing_fails env"
  shows "completes S F exe env (seed_store env exe)"
  unfolding completes_def
proof (intro allI impI)
  fix h assume r: "ready S F exe env h"
  have f: "\<forall>opn p. \<not> ie_store_fault env opn p" "ie_store_sync env = None" "ie_fault env ''open'' exe = None"
    using n by (simp_all add: nothing_fails_def)
  show "\<exists>h'. seed_store env exe h = (h', Inr ()) \<and> ready S F exe env h'"
  proof (cases "st_links (h_store h) ''current''")
    case (Some t)
    then show ?thesis using r f by (simp add: seed_store_def Current_def resolve_def Let_def)
  next
    case None
    then have v: "valid_version (ie_version env)" "ie_version env \<notin> set (st_quarantine (h_store h))"
      using r by (simp_all add: ready_def seedable_def)
    obtain i bytes where i: "h_files h exe = Some i" "in_data i = Some bytes" using r by (auto simp: ready_def readable_def)
    define st1 where "st1 = h_store h\<lparr>st_bins := AList.update (ie_version env) bytes (st_bins (h_store h))\<rparr>"
    have "map_of (st_bins st1) (ie_version env) \<noteq> None" "st_links st1 ''current'' = None"
      "ie_version env \<notin> set (st_quarantine st1)"
      using None v by (simp_all add: st1_def update_conv')
    then obtain st2 where st2: "Activate (ie_store_fault env) None (ie_version env) st1 = (st2, Inr ())" "st_links st2 ''current'' \<noteq> None"
      using Activate_succeeds [OF f(1) v(1)] by blast
    have "seed_store env exe h = (h\<lparr>h_store := st2\<rparr>, Inr ())"
      using None by (simp add: seed_store_def Current_def resolve_def i f(2,3) Stage_succeeds [OF f(1) v(1)] st2(1) [unfolded st1_def])
    then show ?thesis using r st2(2) by (simp add: ready_def clear_def readable_def seedable_def is_dir_iff)
  qed
qed

section \<open>The steps complete\<close>

lemma completes_run:
  assumes "nothing_fails env" "documented_commands env U gid" "insert exe (S \<union> F) \<subseteq> U"
  shows "completes S F exe env (run_cmd env cmd)" "completes S F exe env (run_combined env ctx cmd)"
  using run_ready [OF assms] unfolding completes_def by blast+

lemma write_completes:
  assumes n: "nothing_fails env" and d: "has_prefix ''/'' (filepath_dir p)" "command_chain (filepath_dir p) \<subseteq> S" "S \<inter> F = {}" "p \<in> F"
  shows "completes S F exe env (run_steps [wrapped ctx (MkdirAll env perm (filepath_dir p)), WriteFile env p s mode])"
    "completes S F exe env (run_steps [wrapped ctx (MkdirAll env perm (filepath_dir p)), wrapped ctx2 (WriteFile env p s mode)])"
    "completes S F exe env (run_steps [MkdirAll env perm (filepath_dir p), WriteFile env p s mode])"
proof -
  have r: "\<exists>h1 h2. MkdirAll env perm (filepath_dir p) h = (h1, Inr ()) \<and> WriteFile env p s mode h1 = (h2, Inr ()) \<and> ready S F exe env h2"
    if h: "ready S F exe env h" for h
  proof -
    obtain h1 where 1: "MkdirAll env perm (filepath_dir p) h = (h1, Inr ())" "ready S F exe env h1"
      using MkdirAll_completes [OF n d(1-3)] h unfolding completes_def by blast
    have "is_dir h1 (filepath_dir p)" using MkdirAll_changes [OF 1(1)] by simp
    then show ?thesis using WriteFile_ready [OF n 1(2) _ d(4)] d(3,4) 1(1) by blast
  qed
  show "completes S F exe env (run_steps [wrapped ctx (MkdirAll env perm (filepath_dir p)), WriteFile env p s mode])"
    "completes S F exe env (run_steps [wrapped ctx (MkdirAll env perm (filepath_dir p)), wrapped ctx2 (WriteFile env p s mode)])"
    "completes S F exe env (run_steps [MkdirAll env perm (filepath_dir p), WriteFile env p s mode])"
    unfolding completes_def run_steps_ok wrapped_ok using r by (metis run_steps.simps(1))+
qed

lemma service_completes:
  assumes n: "nothing_fails env" and doc: "documented_commands env U gid" "insert exe (S \<union> F) \<subseteq> U"
  shows "completes S F exe env (installService env p)"
  unfolding completes_def
proof (intro allI impI)
  fix h assume h: "ready S F exe env h"
  obtain h1 where i: "ie_svc_install env (buildService env p) h = (h1, Inr ())" "h_store h1 = h_store h"
    using n unfolding nothing_fails_def by blast
  have "h_files h1 q = h_files h q" if "q \<in> U" for q
    using doc(1) that i(1) unfolding documented_commands_def by (metis fst_conv)
  then have "ready S F exe env h1"
    using h doc(2) i(2) by (auto simp: ready_def clear_def readable_def seedable_def is_dir_iff)
  then show "\<exists>h'. installService env p h = (h', Inr ()) \<and> ready S F exe env h'"
    using n i(1) by (simp add: installService_def nothing_fails_def)
qed

lemma sshd_completes:
  assumes n: "nothing_fails env" and l: "ie_goos env = ''linux''" and doc: "documented_commands env U gid" "insert exe (S \<union> F) \<subseteq> U"
    and h: "ready S F exe env h"
  shows "\<exists>h'. checkSSHD env h = (h', Inr ()) \<and> ready S F exe env h' \<and> (\<forall>p \<in> U. h_files h' p = h_files h p)"
    "completes S F exe env (reloadSSHD env)"
proof -
  obtain h1 where "run_cmd env [''systemctl'', ''is-active'', ''--quiet'', ''ssh''] h = (h1, Inr ())" "ready S F exe env h1"
    using completes_run(1) [OF n doc] h unfolding completes_def by blast
  then have c: "checkSSHD env h = (h1, Inr ())" "ready S F exe env h1" using n l by (simp_all add: checkSSHD_def nothing_fails_def Let_def)
  then show "\<exists>h'. checkSSHD env h = (h', Inr ()) \<and> ready S F exe env h' \<and> (\<forall>p \<in> U. h_files h' p = h_files h p)"
    using checkSSHD_files [OF doc(1), of _ h] by auto
  have e: "reloadSSHD env h = (case run_cmd env [''systemctl'', ''reload'', ''ssh''] h of
        (h1, Inl _) \<Rightarrow> run_cmd env [''systemctl'', ''reload'', ''sshd''] h1 | (h1, Inr _) \<Rightarrow> (h1, Inr ()))" for h
    by (simp add: reloadSSHD_def l split: prod.splits sum.splits)
  show "completes S F exe env (reloadSSHD env)"
    using completes_run(1) [OF n doc, of "[''systemctl'', ''reload'', ''ssh'']"] unfolding completes_def e by fastforce
qed

lemma account_completes:
  assumes n: "nothing_fails env" and doc: "documented_commands env U gid" "insert exe (S \<union> F) \<subseteq> U"
  shows "completes S F exe env (ensureServiceAccountLinux env u)"
  using completes_run(1) [OF n doc, of "[''id'', ''-u'', u]"]
  unfolding completes_def ensureServiceAccountLinux_def by fastforce

lemma save_completes:
  assumes n: "nothing_fails env" and doc: "documented_commands env U gid" "insert exe (S \<union> F) \<subseteq> U"
    and d: "has_prefix ''/'' (filepath_dir p)" "command_chain (filepath_dir p) \<subseteq> S" "S \<inter> F = {}" "p \<in> F"
  shows "completes S F exe env (SaveConfigSystem env p cfg)"
  unfolding completes_def
proof (intro allI impI)
  fix h assume h: "ready S F exe env h"
  have pu: "p \<in> U" using d(4) doc(2) by blast
  have kept_file: "h_files h2 p \<noteq> None" if "\<forall>p \<in> U. map_option in_data (h_files h2 p) = map_option in_data (h_files h1 p)"
    "h_files h1 p \<noteq> None" for h1 h2
    using that pu by (metis option.map_disc_iff)
  obtain h1 where 1: "MkdirAll env 493 (filepath_dir p) h = (h1, Inr ())" "ready S F exe env h1"
    using MkdirAll_completes [OF n d(1-3)] h unfolding completes_def by blast
  have "is_dir h1 (filepath_dir p)" using MkdirAll_changes [OF 1(1)] by simp
  then obtain h2 where 2: "WriteFile env p (ie_toml env cfg) 416 h1 = (h2, Inr ())" "ready S F exe env h2" "h_files h2 p \<noteq> None"
    using WriteFile_ready [OF n 1(2) _ d(4)] d(3,4) by blast
  obtain h3 where 3: "run_cmd env [''getent'', ''group'', ''uncluster''] h2 = (h3, Inr ())" "ready S F exe env h3"
    "h_files h3 p \<noteq> None"
    using run_ready(1) [OF n doc 2(2)] kept_file 2(3) by blast
  obtain h4 where 4: "run_cmd env [''chown'', ''root:'' @ ''uncluster'', p] h3 = (h4, Inr ())" "ready S F exe env h4" "h_files h4 p \<noteq> None"
    using run_ready(1) [OF n doc 3(2)] kept_file 3(3) by blast
  obtain h5 where 5: "Chmod env p 416 h4 = (h5, Inr ())" "ready S F exe env h5"
    using set_inode_ready [OF n 4(2,3), of "\<lambda>i. i\<lparr>in_perm := 416\<rparr>" "''chmod''"] by (auto simp: Chmod_def)
  have l: "lookupServiceGroup env h2 = (h3, ''uncluster'')" using 3(1) by (simp add: lookupServiceGroup_def)
  have nonempty: "''uncluster'' \<noteq> []" by simp
  have "restrictSystemConfigACL env p h2 = (h5, Inr ())"
    unfolding restrictSystemConfigACL_def l prod.case if_not_P [OF nonempty] run_steps_ok wrapped_ok using 4(1) 5(1) by auto
  then show "\<exists>h'. SaveConfigSystem env p cfg h = (h', Inr ()) \<and> ready S F exe env h'"
    unfolding SaveConfigSystem_def run_steps_ok using 1(1) 2(1) 5(2) by auto
qed

lemma store_completes:
  assumes n: "nothing_fails env" and l: "ie_goos env = ''linux''" and doc: "documented_commands env U gid" "insert exe (S \<union> F) \<subseteq> U"
    and d: "command_chain ''/var/lib/uncluster'' \<subseteq> S" "command_chain ''/var/lib/uncluster/versions'' \<subseteq> S"
      "command_chain ''/var/lib/uncluster/quarantine'' \<subseteq> S" "S \<inter> F = {}"
  shows "completes S F exe env (setupPayloadStore env exe)"
proof -
  have p: "has_prefix ''/'' ''/var/lib/uncluster''" "has_prefix ''/'' ''/var/lib/uncluster/versions''"
    "has_prefix ''/'' ''/var/lib/uncluster/quarantine''" by (simp_all add: has_prefix_def)
  have j: "path_join ''/var/lib/uncluster'' ''versions'' = ''/var/lib/uncluster/versions''"
    "path_join ''/var/lib/uncluster'' ''quarantine'' = ''/var/lib/uncluster/quarantine''" by (simp_all add: path_join_def)
  have init: "completes S F exe env (Init env ''/var/lib/uncluster'')"
    unfolding Init_def j
    by (rule completes_run_steps) (simp add: completes_wrapped MkdirAll_completes [OF n p(2) d(2,4)] MkdirAll_completes [OF n p(3) d(3,4)])
  have ch: "completes S F exe env (chownTreeToServiceAccount env ''/var/lib/uncluster'')"
    unfolding chownTreeToServiceAccount_def Let_def by (rule completes_run(2) [OF n doc])
  define rest where "rest = [Init env ''/var/lib/uncluster'', seed_store env exe,
      wrapped ''chown payload tree to service account'' (chownTreeToServiceAccount env ''/var/lib/uncluster'')]"
  have r: "completes S F exe env (run_steps rest)"
    unfolding rest_def by (rule completes_run_steps) (simp add: init seed_completes [OF n] completes_wrapped ch)
  show ?thesis unfolding completes_def
  proof (intro allI impI)
    fix h assume h: "ready S F exe env h"
    obtain h1 where 1: "MkdirAll env 493 ''/var/lib/uncluster'' h = (h1, Inr ())" "ready S F exe env h1"
      using MkdirAll_completes [OF n p(1) d(1,4)] h unfolding completes_def by blast
    have "h_files h1 ''/var/lib/uncluster'' \<noteq> None" using MkdirAll_changes [OF 1(1)] by (auto simp: is_dir_iff)
    then obtain h2 where 2: "Chmod env ''/var/lib/uncluster'' 493 h1 = (h2, Inr ())" "ready S F exe env h2"
      using set_inode_ready [OF n 1(2), of "''/var/lib/uncluster''" "\<lambda>i. i\<lparr>in_perm := 493\<rparr>" "''chmod''"] by (auto simp: Chmod_def)
    obtain h3 where 3: "run_steps rest h2 = (h3, Inr ())" "ready S F exe env h3" using r 2(2) unfolding completes_def by blast
    have "setupPayloadStore env exe h = (h3, Inr ())"
      unfolding setupPayloadStore_def Let_def l linux_payload_dir rest_def [symmetric] run_steps_ok wrapped_ok using 1(1) 2(1) 3(1) by blast
    then show "\<exists>h'. setupPayloadStore env exe h = (h', Inr ()) \<and> ready S F exe env h'" using 3(2) by blast
  qed
qed

lemma tightenChain_completes:
  assumes "\<forall>opn p. ie_fault env opn p = None" "has_prefix ''/'' p" "p \<noteq> ''/''" "\<forall>q \<in> command_chain p - {''/''}. h_files h q \<noteq> None"
  shows "\<exists>h'. tightenChain env p h = (h', Inr ())"
  using assms
proof (induction env p h rule: tightenChain.induct)
  case (1 env p h)
  note chain = command_chain_step [OF 1(3) chain_parent(1) [OF 1(3,4)]]
  obtain i where i: "h_files h p = Some i" using 1(4,5) chain by auto
  obtain h1 where s: "(if in_uid i = 0 \<and> in_perm i AND 18 \<noteq> 0
       then wrapped (''tighten '' @ p @ '' (mode '' @ oct4 (in_perm i) @ '')'') (Chmod env p (in_perm i AND NOT 18)) h
       else (h, Inr ())) = (h1, Inr ())"
    using 1(2) i by (cases "in_uid i = 0 \<and> in_perm i AND 18 \<noteq> 0") (auto simp: Chmod_def set_inode_def)
  have f: "h_files h1 = (h_files h)(p \<mapsto> tightened i)" by (rule tighten_step [OF i s])
  have e: "tightenChain env p h = (if filepath_dir p = p \<or> filepath_dir p = ''/'' then (h1, Inr ()) else tightenChain env (filepath_dir p) h1)"
    unfolding tightenChain.simps [of env p h] i option.case s prod.case sum.case Let_def ..
  show ?case
  proof (cases "filepath_dir p = p \<or> filepath_dir p = ''/''")
    case False
    have "\<forall>q \<in> command_chain (filepath_dir p) - {''/''}. h_files h1 q \<noteq> None" using 1(5) chain f by auto
    then show ?thesis using 1(1) [OF i s [symmetric] _ refl False 1(2)] chain False e by auto
  qed (simp add: e)
qed

lemma ready_same_data:
  assumes "ready S F exe env h" "\<And>q. map_option in_data (h_files h' q) = map_option in_data (h_files h q)" "h_store h' = h_store h"
  shows "ready S F exe env h'"
proof -
  have d: "(\<exists>i. h_files h' q = Some i \<and> P (in_data i)) \<longleftrightarrow> (\<exists>i. h_files h q = Some i \<and> P (in_data i))" for q P
    using assms(2) [of q] by (cases "h_files h' q"; cases "h_files h q") auto
  have "clear S h'" unfolding clear_def
  proof (intro ballI allI impI)
    fix q i assume q: "q \<in> S" "h_files h' q = Some i"
    have "\<not> (\<exists>i. h_files h q = Some i \<and> in_data i \<noteq> None)" using assms(1) q(1) by (auto simp: ready_def clear_def)
    then have "\<not> (\<exists>i. h_files h' q = Some i \<and> in_data i \<noteq> None)" using d [of q "\<lambda>x. x \<noteq> None"] by simp
    then show "in_data i = None" using q(2) by auto
  qed
  then show ?thesis using assms(1,3) d [of _ "\<lambda>x. x = None"] d [of exe "\<lambda>x. x \<noteq> None"]
    unfolding ready_def is_dir_iff readable_def seedable_def by simp
qed

lemma copy_completes:
  assumes n: "nothing_fails env" and h: "ready S F exe env h" and t: "ie_temp env = Some t"
    and d: "is_dir h (filepath_dir dst)" "h_files h (path_join (filepath_dir dst) t) = None" "dst \<in> F" "S \<inter> F = {}"
  shows "\<exists>h'. copyFileAtomic env exe dst mode h = (h', Inr ()) \<and> ready S F exe env h' \<and> h_files h' dst \<noteq> None"
proof -
  let ?tmp = "path_join (filepath_dir dst) t"
  obtain i s where i: "h_files h exe = Some i" "in_data i = Some s" using h by (auto simp: ready_def readable_def)
  have f: "ie_fault env opn p = None" for opn p using n by (simp add: nothing_fails_def)
  have nd: "\<not> is_dir h dst" using h d(3) by (simp add: ready_def)
  define j where "j = (new_inode env (Some []) 384 ?tmp)\<lparr>in_data := Some s, in_perm := mode\<rparr>"
  define h' where "h' = h\<lparr>h_files := (h_files h)(?tmp := None, dst \<mapsto> j)\<rparr>"
  have "copyFileAtomic env exe dst mode h = (h', Inr ())"
    using i nd d(1,2) by (simp add: copyFileAtomic_def t f Let_def h'_def j_def put_inode_def)
  moreover have jd: "in_data j = Some s" by (simp add: j_def)
  have "ready S F exe env h'"
    using h i d(2-4) jd unfolding ready_def clear_def readable_def seedable_def is_dir_iff h'_def by auto
  ultimately show ?thesis by (auto simp: h'_def)
qed

lemma launcher_completes:
  assumes n: "nothing_fails env" and h: "ready S F exe env h" and t: "ie_temp env = Some t"
    and d: "command_chain ''/opt/uncluster'' \<subseteq> S" "S \<inter> F = {}" "LauncherPath \<in> F"
    and tmp: "path_join ''/opt/uncluster'' t \<notin> S" "h_files h (path_join ''/opt/uncluster'' t) = None"
    and tree: "h_files h ''/opt/uncluster'' \<noteq> None \<longrightarrow> h_files h ''/opt'' \<noteq> None"
  shows "\<exists>h'. installLauncherBinary env exe LauncherPath h = (h', Inr ()) \<and> ready S F exe env h'"
proof -
  let ?D = "''/opt/uncluster''" and ?L = LauncherPath
  let ?tmp = "path_join ?D t"
  have p: "has_prefix ''/'' ?D" "?D \<noteq> ''/''" "CHR ''/'' \<in> set ?D" "?D \<noteq> []" by (simp_all add: has_prefix_def)
  have fd: "filepath_dir ?D = ''/opt''" by (simp add: filepath_dir_def path_dir_def)
  have f: "\<forall>opn p. ie_fault env opn p = None" using n by (simp add: nothing_fails_def)
  have LD: "?L \<notin> S" "?D \<in> S" "?tmp \<noteq> ?D" using d tmp(1) by (auto simp: launcher_chain)
  obtain h1 where 1: "MkdirAll env 493 ?D h = (h1, Inr ())" "ready S F exe env h1"
    using MkdirAll_completes [OF n p(1) d(1,2)] h unfolding completes_def by blast
  have D1: "is_dir h1 ?D" using MkdirAll_changes [OF 1(1)] by simp
  have "?tmp \<notin> command_chain ?D" using d(1) tmp(1) by blast
  then have tmp1: "h_files h1 ?tmp = None" using MkdirAll_within [OF 1(1) p(1)] tmp(2) by simp
  have opt1: "h_files h1 ''/opt'' \<noteq> None"
  proof (cases "h_files h ?D")
    case None
    obtain g where g: "MkdirAll env 493 ''/opt'' h = (g, Inr ())" and m: "mkdir1 env 493 ?D g = (h1, Inr ())"
      using 1(1) None p(3,4) fd by (subst (asm) MkdirAll.simps) (auto split: prod.splits sum.splits)
    have "is_dir g ''/opt''" using MkdirAll_changes [OF g] by simp
    then show ?thesis using m by (auto simp: mkdir1_def put_inode_def is_dir_iff split: option.splits)
  next
    case (Some i)
    then have "h_files h ''/opt'' \<noteq> None" using tree by simp
    then show ?thesis using MkdirAll_changes [OF 1(1)] by (metis option.distinct(1))
  qed
  obtain h2 where 2: "Chown env ?D 0 0 h1 = (h2, Inr ())" "ready S F exe env h2"
    using set_inode_ready [OF n 1(2), of ?D "\<lambda>i. i\<lparr>in_uid := 0, in_gid := 0\<rparr>" "''chown''"] D1 by (auto simp: Chown_def is_dir_iff)
  have D2: "is_dir h2 ?D \<and> h_files h2 ?tmp = None \<and> h_files h2 ''/opt'' \<noteq> None"
    using 2(1) D1 tmp1 opt1 LD(3) by (auto simp: Chown_def set_inode_ok put_inode_def is_dir_iff)
  obtain h3 where 3: "Chmod env ?D 493 h2 = (h3, Inr ())" "ready S F exe env h3"
    using set_inode_ready [OF n 2(2), of ?D "\<lambda>i. i\<lparr>in_perm := 493\<rparr>" "''chmod''"] D2 by (auto simp: Chmod_def is_dir_iff)
  have D3: "is_dir h3 ?D \<and> h_files h3 ?tmp = None \<and> h_files h3 ''/opt'' \<noteq> None"
    using 3(1) D2 LD(3) by (auto simp: Chmod_def set_inode_ok put_inode_def is_dir_iff)
  obtain h4 where 4: "tightenChain env ?D h3 = (h4, Inr ())"
    using tightenChain_completes [OF f p(1,2), of h3] D3 by (auto simp: launcher_chain(2) is_dir_iff)
  note te = tightenChain_effect [OF 4 p(1,2)]
  have td: "in_data (tightened i) = in_data i" for i by (simp add: tightened_def)
  have same: "map_option in_data (h_files h4 q) = map_option in_data (h_files h3 q)" for q
    using te td by (simp add: option.map_comp comp_def)
  have r4: "ready S F exe env h4" by (rule ready_same_data [OF 3(2) same]) (use tighten_log [of env ?D h3] 4 in simp)
  have D4: "is_dir h4 ?D" "h_files h4 ?tmp = None"
    using D3 same [of ?D] same [of ?tmp] by (auto simp: is_dir_iff)
  obtain h5 where 5: "(if sameFile env exe ?L h4 then (h4, Inr ()) else copyFileAtomic env exe ?L 493 h4) = (h5, Inr ())"
    "ready S F exe env h5" "h_files h5 ?L \<noteq> None"
    using copy_completes [OF n r4 t _ _ d(3,2), of 493] D4 r4 unfolding launcher_chain(1) by (cases "sameFile env exe ?L h4") (auto simp: sameFile_def)
  obtain h6 where 6: "Chown env ?L 0 0 h5 = (h6, Inr ())" "ready S F exe env h6"
    using set_inode_ready [OF n 5(2,3), of "\<lambda>i. i\<lparr>in_uid := 0, in_gid := 0\<rparr>" "''chown''"] by (auto simp: Chown_def)
  have "h_files h6 ?L \<noteq> None" using 6(1) by (auto simp: Chown_def set_inode_ok put_inode_def)
  then obtain h7 where 7: "Chmod env ?L 493 h6 = (h7, Inr ())" "ready S F exe env h7"
    using set_inode_ready [OF n 6(2), of ?L "\<lambda>i. i\<lparr>in_perm := 493\<rparr>" "''chmod''"] by (auto simp: Chmod_def)
  show ?thesis
    unfolding installLauncherBinary_def launcher_chain(1) Let_def run_steps_ok wrapped_ok
    using 1(1) 2(1) 3(1) 4 5(1) 6(1) 7 by auto
qed

section \<open>The installation completes\<close>

definition needed_dirs :: "expected_paths \<Rightarrow> string set" where
  "needed_dirs paths = (\<Union>p \<in> {filepath_dir (xp_CAPubkey paths), filepath_dir (xp_SSHDropIn paths), xp_PrincipalsDir paths,
     ''/opt/uncluster'', ''/var/lib/uncluster/versions'', ''/var/lib/uncluster/quarantine'', ''/etc/uncluster'', restart_conf_dir}.
     command_chain p)"

definition written_files :: "expected_paths \<Rightarrow> string set" where
  "written_files paths = {xp_CAPubkey paths, xp_SSHDropIn paths, SystemConfigPath, restart_conf_path, LauncherPath}"

text \<open>\<open>install_host\<close>: no file stands where a directory is needed or the other way round, the binary to install can be
  read, and the payload store is seeded or can be.\<close>

definition install_host :: "install_env \<Rightarrow> expected_paths \<Rightarrow> string \<Rightarrow> host \<Rightarrow> bool" where
  "install_host env paths exe h \<longleftrightarrow> ready (needed_dirs paths) (written_files paths) exe env h
     \<and> needed_dirs paths \<inter> written_files paths = {}
     \<and> (h_files h ''/opt/uncluster'' \<noteq> None \<longrightarrow> h_files h ''/opt'' \<noteq> None)
     \<and> (\<forall>t. ie_temp env = Some t \<longrightarrow> path_join ''/opt/uncluster'' t \<notin> needed_dirs paths
          \<and> h_files h (path_join ''/opt/uncluster'' t) = None)
     \<and> (\<forall>p \<in> {xp_CAPubkey paths, xp_SSHDropIn paths}. dirOf p = filepath_dir p \<and> has_prefix ''/'' (filepath_dir p))
     \<and> has_prefix ''/'' (xp_PrincipalsDir paths)"

lemma prepare_completes:
  assumes l: "ie_goos env = ''linux''" and n: "nothing_fails env" and doc: "documented_commands env UNIV gid"
    and h: "install_host env (cf_ExpectedPaths cfg) exe h"
  shows "\<exists>h'. run_steps (prepare_steps env cfg exe) h = (h', Inr ())
     \<and> ready (needed_dirs (cf_ExpectedPaths cfg)) (written_files (cf_ExpectedPaths cfg)) exe env h'"
proof -
  let ?p = "cf_ExpectedPaths cfg"
  let ?S = "needed_dirs ?p" and ?F = "written_files ?p"
  have nd: "''linux'' \<noteq> ''darwin''" by simp
  have u: "insert exe (?S \<union> ?F) \<subseteq> UNIV" by simp
  have dis: "?S \<inter> ?F = {}" using h by (simp add: install_host_def)
  have sub: "command_chain p \<subseteq> ?S" if "p \<in> {filepath_dir (xp_CAPubkey ?p), filepath_dir (xp_SSHDropIn ?p), xp_PrincipalsDir ?p,
     ''/opt/uncluster'', ''/var/lib/uncluster/versions'', ''/var/lib/uncluster/quarantine'', ''/etc/uncluster'', restart_conf_dir}" for p
    using that unfolding needed_dirs_def by blast
  have fd: "filepath_dir SystemConfigPath = ''/etc/uncluster''" "filepath_dir restart_conf_path = restart_conf_dir"
    "filepath_dir ''/var/lib/uncluster/versions'' = ''/var/lib/uncluster''"
    by (simp_all add: SystemConfigPath_def restart_conf_path_def restart_conf_dir_def filepath_dir_def path_dir_def)
  have pre: "has_prefix ''/'' ''/etc/uncluster''" "has_prefix ''/'' restart_conf_dir" "has_prefix ''/'' ''/var/lib/uncluster/versions''"
    by (simp_all add: restart_conf_dir_def has_prefix_def)
  have var: "command_chain ''/var/lib/uncluster'' \<subseteq> ?S"
    using command_chain_step [OF pre(3)] sub [of "''/var/lib/uncluster/versions''"] unfolding fd(3) by auto
  have F: "xp_CAPubkey ?p \<in> ?F" "xp_SSHDropIn ?p \<in> ?F" "SystemConfigPath \<in> ?F" "restart_conf_path \<in> ?F" "LauncherPath \<in> ?F"
    by (simp_all add: written_files_def)
  obtain t where t: "ie_temp env = Some t" using n by (auto simp: nothing_fails_def)
  have hh: "ready ?S ?F exe env h" "dirOf (xp_CAPubkey ?p) = filepath_dir (xp_CAPubkey ?p)" "has_prefix ''/'' (filepath_dir (xp_CAPubkey ?p))"
    "dirOf (xp_SSHDropIn ?p) = filepath_dir (xp_SSHDropIn ?p)" "has_prefix ''/'' (filepath_dir (xp_SSHDropIn ?p))"
    "has_prefix ''/'' (xp_PrincipalsDir ?p)"
    using h by (simp_all add: install_host_def)
  note run = completes_run [OF n doc u]
  have c3: "completes ?S ?F exe env (writeCAPubkey env ?p k)" for k
    unfolding writeCAPubkey_def hh(2) by (rule write_completes(1) [OF n hh(3) _ dis F(1)]) (rule sub, simp)
  have c4: "completes ?S ?F exe env (writeSSHDropIn env ?p b w)" for b w
    unfolding writeSSHDropIn_def hh(4) by (rule write_completes(1) [OF n hh(5) _ dis F(2)]) (rule sub, simp)
  have c5: "completes ?S ?F exe env (ensurePrincipalsDir env ?p)"
    unfolding ensurePrincipalsDir_def by (rule MkdirAll_completes [OF n hh(6) _ dis]) (rule sub, simp)
  have c7: "completes ?S ?F exe env (grantPrincipalsAccess env d)" "completes ?S ?F exe env (grantConfigDirAccess env d)" for d
    unfolding linux_steps(2,3) [OF l] by (rule completes_run_steps; simp add: completes_wrapped run)+
  have c8: "completes ?S ?F exe env (setupPayloadStore env exe)"
    by (rule store_completes [OF n l doc u var _ _ dis]) (rule sub, simp)+
  have c9: "completes ?S ?F exe env (SaveConfigSystem env SystemConfigPath cfg)"
    by (rule save_completes [OF n doc u _ _ dis F(3)]) (simp_all only: fd pre, rule sub, simp)
  have c12: "completes ?S ?F exe env (writeSystemdRestartOverride env)"
  proof -
    have a: "completes ?S ?F exe env (run_steps [wrapped c1 (MkdirAll env 493 restart_conf_dir), wrapped c2 (WriteFile env restart_conf_path restartOverrideConf 420)])" for c1 c2
      using write_completes(2) [OF n _ _ dis F(4), unfolded fd(2), OF pre(2) sub, of exe] by simp
    have b: "completes ?S ?F exe env (run_steps [run_combined env c [''systemctl'', ''daemon-reload'']])" for c
      by (rule completes_run_steps) (simp add: run)
    have split: "[x, y, z] = [x, y] @ [z]" for x y z :: inst by simp
    show ?thesis unfolding override_linux [OF l] split by (rule completes_append [OF a b])
  qed
  obtain h1 where 1: "checkSSHD env h = (h1, Inr ())" "ready ?S ?F exe env h1" "h_files h1 = h_files h"
    using sshd_completes(1) [OF n l doc u hh(1)] by blast
  obtain h2 where 2: "installLauncherBinary env exe LauncherPath h1 = (h2, Inr ())" "ready ?S ?F exe env h2"
    using launcher_completes [OF n 1(2) t _ dis F(5)] sub [of "''/opt/uncluster''"] h t unfolding 1(3) install_host_def by auto
  define rest where "rest = drop 2 (prepare_steps env cfg exe)"
  have ps: "prepare_steps env cfg exe = checkSSHD env # wrapped ''install launcher binary'' (installLauncherBinary env exe LauncherPath) # rest"
    by (simp add: rest_def prepare_steps_def Let_def)
  have "list_all (completes ?S ?F exe env) rest"
    unfolding rest_def prepare_steps_def Let_def l if_not_P [OF nd] append_Nil append_Cons linux_steps(1) [OF l]
    by (simp add: completes_wrapped c3 c4 c5 c7 c8 c9 c12 account_completes [OF n doc u] service_completes [OF n doc u] drop_Cons')
  then obtain h3 where "run_steps rest h2 = (h3, Inr ())" "ready ?S ?F exe env h3"
    using completes_run_steps 2(2) unfolding completes_def by blast
  then show ?thesis unfolding ps run_steps_ok wrapped_ok using 1(1) 2(1) by blast
qed

lemma install_completes:
  assumes l: "ie_goos env = ''linux''" and n: "nothing_fails env" and doc: "documented_commands env UNIV gid"
    and h: "install_host env (cf_ExpectedPaths cfg) exe h"
  shows "\<exists>h'. Install env cfg exe h = (h', Inr ())"
proof -
  let ?S = "needed_dirs (cf_ExpectedPaths cfg)" and ?F = "written_files (cf_ExpectedPaths cfg)"
  have u: "insert exe (?S \<union> ?F) \<subseteq> UNIV" by simp
  obtain h1 where 1: "run_steps (prepare_steps env cfg exe) h = (h1, Inr ())" "ready ?S ?F exe env h1"
    using prepare_completes [OF l n doc h] by blast
  have "completes ?S ?F exe env (run_steps [wrapped ''start service'' (startService env), wrapped ''reload sshd'' (reloadSSHD env)])"
    unfolding linux_steps(4) [OF l]
    by (rule completes_run_steps) (simp add: completes_wrapped completes_run [OF n doc u] sshd_completes(2) [OF n l doc u 1(2)])
  then obtain h2 where "run_steps [wrapped ''start service'' (startService env), wrapped ''reload sshd'' (reloadSSHD env)] h1 = (h2, Inr ())"
    using 1(2) unfolding completes_def by blast
  then show ?thesis unfolding Install_def run_steps_append 1(1) by simp
qed

text \<open>C35: an installation on Linux reaches its end and reports success when no call or command fails and the machine
  has no file where a directory is needed (or the other way round): none of its fourteen steps can refuse,
  loop or depend on something an earlier step has not provided.\<close>

theorem installation_completes:
  assumes "ie_goos env = ''linux''" "nothing_fails env" "documented_commands env UNIV gid"
    "install_host env (cf_ExpectedPaths cfg) exe h"
  shows "\<exists>h'. Install env cfg exe h = (h', Inr ())"
  by (rule install_completes [OF assms])

section \<open>Witnesses\<close>

definition demo_run :: "string list \<Rightarrow> host \<Rightarrow> host \<times> (string \<times> string, string) result" where
  "demo_run cmd h = (case cmd of
     [a, b, p] \<Rightarrow>
       (case h_files h p of
          Some i \<Rightarrow>
            if a = ''chown'' then (put_inode p (i\<lparr>in_uid := 0, in_gid := 42\<rparr>) h, Inr [])
            else if a = ''chmod'' \<and> b = ''0775'' then (put_inode p (i\<lparr>in_perm := 509\<rparr>) h, Inr [])
            else (h, Inr [])
        | None \<Rightarrow> (h, Inr []))
   | _ \<Rightarrow> (h, Inr []))"

definition demo_install_env :: install_env where
  "demo_install_env = \<lparr>ie_goos = ''linux'', ie_lookpath = (\<lambda>_. True), ie_run = demo_run, ie_svc_new = None,
     ie_svc_install = (\<lambda>_ h. (h, Inr ())), ie_svc_uninstall = (\<lambda>_ h. (h, Inr ())), ie_toml = cf_AgentToken,
     ie_fault = (\<lambda>_ _. None), ie_short = (\<lambda>_. None), ie_umask = 18, ie_newgid = (\<lambda>_. 0), ie_temp = Some ''.install-1'',
     ie_same = (\<lambda>_ _. False), ie_store_fault = (\<lambda>_ _. False), ie_store_sync = None, ie_store_text = (\<lambda>_. []),
     ie_version = ''v1'', ie_quote = id\<rparr>"

definition demo_paths :: expected_paths where
  "demo_paths = \<lparr>xp_CAPubkey = ''/etc/ssh/ca.pub'', xp_SSHDropIn = ''/etc/ssh/sshd_config.d/50-uncluster.conf'',
     xp_PrincipalsDir = ''/etc/ssh/principals''\<rparr>"

definition demo_agent_config :: agent_config where
  "demo_agent_config = \<lparr>cf_Server = ''https://cp'', cf_AgentID = ''a1'', cf_AgentName = ''n'', cf_AgentToken = ''tok'',
     cf_CAPubkey = ''ssh-ed25519 AAAA'', cf_ServerHTTPSPin = [], cf_ExpectedPaths = demo_paths, cf_PinnedVersion = [],
     cf_UpdateHostAllowlist = None\<rparr>"

definition demo_host :: host where
  "demo_host = \<lparr>h_files = [''/'' \<mapsto> \<lparr>in_data = None, in_uid = 0, in_gid = 0, in_perm = 493\<rparr>,
       ''/opt'' \<mapsto> \<lparr>in_data = None, in_uid = 0, in_gid = 0, in_perm = 511\<rparr>,
       ''/uncluster'' \<mapsto> \<lparr>in_data = Some ''bin'', in_uid = 0, in_gid = 0, in_perm = 493\<rparr>],
     h_store = \<lparr>st_root = ''/var/lib/uncluster'', st_links = Map.empty, st_bins = [], st_quarantine = []\<rparr>, h_log = []\<rparr>"

lemma demo_documented: "documented_commands demo_install_env U (\<lambda>_. 42)"
proof -
  have f: "ie_run demo_install_env = demo_run" "ie_svc_install demo_install_env = (\<lambda>_ h. (h, Inr ()))"
    "ie_svc_uninstall demo_install_env = (\<lambda>_ h. (h, Inr ()))" by (simp_all add: demo_install_env_def)
  have k: "h_files (fst (demo_run cmd h)) p = h_files h p" if "p \<notin> named cmd" for cmd h p
    using that by (auto simp: demo_run_def named_def put_inode_def split: list.splits option.splits if_splits)
  have d: "map_option in_data (h_files (fst (demo_run cmd h)) p) = map_option in_data (h_files h p)" for cmd h p
    by (auto simp: demo_run_def put_inode_def split: list.splits option.splits)
  show ?thesis
    unfolding documented_commands_def f using k d by (auto simp: demo_run_def put_inode_def)
qed

lemma demo_group: "group_exists demo_install_env"
  by (auto simp: group_exists_def demo_install_env_def demo_run_def split: option.splits)

lemma demo_nothing_fails: "nothing_fails demo_install_env"
  by (auto simp: nothing_fails_def demo_install_env_def demo_run_def put_inode_def split: option.splits list.splits)

definition chain_list :: "string \<Rightarrow> string list" where
  "chain_list p = p # ''/'' # map (\<lambda>i. take i p) (filter (\<lambda>i. p ! i = CHR ''/'') [1..<length p])"

lemma chain_list: "command_chain p = set (chain_list p)"
proof -
  have "q \<noteq> [] \<and> (\<exists>r. p = q @ CHR ''/'' # r) \<longleftrightarrow> (\<exists>i. 1 \<le> i \<and> i < length p \<and> p ! i = CHR ''/'' \<and> q = take i p)" for q
  proof
    assume "q \<noteq> [] \<and> (\<exists>r. p = q @ CHR ''/'' # r)"
    then show "\<exists>i. 1 \<le> i \<and> i < length p \<and> p ! i = CHR ''/'' \<and> q = take i p"
      by (intro exI [of _ "length q"]) (auto simp: Suc_le_eq)
  next
    assume "\<exists>i. 1 \<le> i \<and> i < length p \<and> p ! i = CHR ''/'' \<and> q = take i p"
    then show "q \<noteq> [] \<and> (\<exists>r. p = q @ CHR ''/'' # r)" using id_take_nth_drop by fastforce
  qed
  then show ?thesis by (auto simp: command_chain_def chain_list_def)
qed

lemma demo_dirs: "needed_dirs demo_paths \<inter> {''/etc/ssh/ca.pub'', ''/etc/ssh/sshd_config.d/50-uncluster.conf'', SystemConfigPath,
    restart_conf_path, LauncherPath, path_join ''/opt/uncluster'' ''.install-1'', ''/uncluster''} = {}"
proof -
  have d: "filepath_dir (xp_CAPubkey demo_paths) = ''/etc/ssh''" "filepath_dir (xp_SSHDropIn demo_paths) = ''/etc/ssh/sshd_config.d''"
    "xp_PrincipalsDir demo_paths = ''/etc/ssh/principals''"
    by (simp_all add: demo_paths_def filepath_dir_def path_dir_def)
  define ds where "ds = concat (map chain_list [''/etc/ssh'', ''/etc/ssh/sshd_config.d'', ''/etc/ssh/principals'',
     ''/opt/uncluster'', ''/var/lib/uncluster/versions'', ''/var/lib/uncluster/quarantine'', ''/etc/uncluster'', restart_conf_dir])"
  have e: "needed_dirs demo_paths = set ds" unfolding needed_dirs_def d chain_list ds_def by simp
  have "list_all (\<lambda>f. f \<notin> set ds) [''/etc/ssh/ca.pub'', ''/etc/ssh/sshd_config.d/50-uncluster.conf'', SystemConfigPath,
    restart_conf_path, LauncherPath, path_join ''/opt/uncluster'' ''.install-1'', ''/uncluster'']"
    unfolding ds_def by code_simp
  then show ?thesis unfolding e by auto
qed

lemma demo_install_host: "install_host demo_install_env demo_paths ''/uncluster'' demo_host"
proof -
  have c: "clear (needed_dirs demo_paths) demo_host" using demo_dirs by (auto simp: clear_def demo_host_def split: if_splits)
  have v: "valid_version ''v1''" by (simp add: valid_version_def versionPathComponent_def runes_ascii version_rune_ok_def)
  have f: "written_files demo_paths = {''/etc/ssh/ca.pub'', ''/etc/ssh/sshd_config.d/50-uncluster.conf'', SystemConfigPath,
    restart_conf_path, LauncherPath}" by (simp add: written_files_def demo_paths_def)
  have n: "p \<notin> {''/'', ''/opt''}" if "p \<in> written_files demo_paths" for p
    using that unfolding f by (auto simp: SystemConfigPath_def restart_conf_path_def LauncherPath_def launcherDir_def path_join_def)
  have r: "ready (needed_dirs demo_paths) (written_files demo_paths) ''/uncluster'' demo_install_env demo_host"
    using c v n by (auto simp: ready_def readable_def seedable_def is_dir_iff demo_host_def demo_install_env_def split: if_splits)
  have i: "needed_dirs demo_paths \<inter> written_files demo_paths = {}" using demo_dirs unfolding f by blast
  have t: "path_join ''/opt/uncluster'' ''.install-1'' \<notin> needed_dirs demo_paths" using demo_dirs by blast
  show ?thesis unfolding install_host_def using r i t
    by (simp add: demo_install_env_def demo_host_def path_join_def demo_paths_def dirOf_def filepath_dir_def path_dir_def has_prefix_def)
qed

section \<open>Witnesses\<close>

lemma demo_cfg: "cf_ExpectedPaths demo_agent_config = demo_paths"
  by (simp add: demo_agent_config_def)

lemma demo_env_linux: "ie_goos demo_install_env = ''linux''"
  by (simp add: demo_install_env_def)

lemma demo_installs: "\<exists>h'. Install demo_install_env demo_agent_config ''/uncluster'' demo_host = (h', Inr ())"
  by (rule install_completes [OF demo_env_linux demo_nothing_fails demo_documented]) (simp only: demo_cfg demo_install_host)

theorem installation_completes_witness:
  "\<exists>h'. Install demo_install_env demo_agent_config ''/uncluster'' demo_host = (h', Inr ())"
  by (rule installation_completes [OF demo_env_linux demo_nothing_fails demo_documented]) (simp only: demo_cfg demo_install_host)

definition demo_probe :: probe where
  "demo_probe = \<lparr>pb_goos = ''linux'', pb_lookpath = (\<lambda>_. True), pb_run = (\<lambda>_. True), pb_output = (\<lambda>_. Inr []),
     pb_read = (\<lambda>_. Inl []), pb_stat = (\<lambda>_. Inl (SeOther [])), pb_lstat = (\<lambda>_. Inl (SeOther [])), pb_realpath = (\<lambda>_. Inl []),
     pb_username = (\<lambda>_. Some ''root''), pb_groupname = (\<lambda>_. Some ''uncluster''), pb_userid = (\<lambda>_. None), pb_noexec = (\<lambda>_. None),
     pb_quote = id\<rparr>"

lemma demo_layout: "good_layout (cf_ExpectedPaths demo_agent_config)"
  by (simp add: demo_cfg demo_paths_def good_layout_def LauncherPath_def launcherDir_def path_join_def SystemConfigPath_def
      restart_conf_path_def has_prefix_def)

lemma demo_start: "sound_component demo_host ''/''" "\<forall>i. h_files demo_host ''/opt'' = Some i \<longrightarrow> in_uid i = 0"
  "\<not> is_dir demo_host LauncherPath"
  by (simp_all add: sound_component_def demo_host_def is_dir_def LauncherPath_def launcherDir_def path_join_def)

theorem install_satisfies_doctor_witness:
  "\<exists>h'. Install demo_install_env demo_agent_config ''/uncluster'' demo_host = (h', Inr ())
     \<and> dc_Status (checkCAPubkey (host_probe demo_probe h') demo_paths ''ssh-ed25519 AAAA'') = CheckOK
     \<and> dc_Status (checkSSHDropIn (host_probe demo_probe h') demo_paths) = CheckOK"
proof -
  obtain h' where i: "Install demo_install_env demo_agent_config ''/uncluster'' demo_host = (h', Inr ())" using demo_installs by blast
  have k: "cf_CAPubkey demo_agent_config = ''ssh-ed25519 AAAA''" by (simp add: demo_agent_config_def)
  have p: "newline \<notin> set (xp_CAPubkey (cf_ExpectedPaths demo_agent_config))" "ascii (cf_CAPubkey demo_agent_config)"
    by (simp_all add: demo_cfg demo_paths_def k ascii_def)
  have b: "pb_goos demo_probe = ''linux''" "pb_run demo_probe [''getent'', ''group'', ''uncluster'']" "pb_username demo_probe ''0'' = Some ''root''"
    "pb_groupname demo_probe (dec_nat (unat ((\<lambda>_. 42) ''uncluster'' :: 32 word))) = Some ''uncluster''"
    by (simp_all add: demo_probe_def)
  note ok = install_satisfies_doctor [OF demo_documented demo_env_linux demo_group demo_layout p demo_start i b, unfolded demo_cfg k]
  have n: "dc_Name (checkCAPubkey pb paths ca) = ''ca-pubkey''" "dc_Name (checkSSHDropIn pb paths) = ''sshd-drop-in''" for pb paths ca
    by (simp_all add: checkCAPubkey_def checkSSHDropIn_def result_of_def Let_def split: sum.splits)
  have m: "checkCAPubkey pb paths ca \<in> set (Doctor pb paths ca)" "checkSSHDropIn pb paths \<in> set (Doctor pb paths ca)" for pb paths ca
    by (simp_all add: Doctor_def Let_def)
  show ?thesis using i ok [OF m(1)] ok [OF m(2)] n by simp
qed

lemma start_is_logged:
  assumes "documented_commands env U gid" "ie_goos env = ''linux''" "Install env cfg exe h = (h', Inr ())"
  shows "[''systemctl'', ''restart'', ''com.uncluster.agent''] \<in> set (h_log h')"
proof -
  obtain h1 h2 where s: "startService env h1 = (h2, Inr ())" and r: "reloadSSHD env h2 = (h', Inr ())"
    using assms(3) unfolding Install_def run_steps_append
    by (auto simp: run_steps_ok simp del: run_steps.simps(2) split: prod.splits sum.splits)
  have "[''systemctl'', ''restart'', ''com.uncluster.agent''] \<in> set (h_log h2)"
    using s unfolding linux_steps(4) [OF assms(2)] run_cmd_ok by auto
  then show ?thesis using framedD [OF framed_reload(1) [OF assms(1,2) order_refl] r] by (auto simp: runs_def)
qed

theorem nothing_starts_unprepared_witness:
  "\<exists>h'. Install demo_install_env demo_agent_config ''/uncluster'' demo_host = (h', Inr ())
     \<and> installed demo_install_env (\<lambda>_. 42) demo_agent_config h'"
proof -
  obtain h' where i: "Install demo_install_env demo_agent_config ''/uncluster'' demo_host = (h', Inr ())" using demo_installs by blast
  have l: "h_log h' = h_log h' @ h_log demo_host" by (simp add: demo_host_def)
  have "installed demo_install_env (\<lambda>_. 42) demo_agent_config h'"
    by (rule nothing_starts_unprepared [OF demo_documented demo_env_linux demo_group demo_layout demo_start i l
        start_is_logged [OF demo_documented demo_env_linux i]]) simp
  then show ?thesis using i by blast
qed

theorem tightenChain_exact_witness:
  "\<exists>h' i. tightenChain demo_install_env ''/opt'' demo_host = (h', Inr ()) \<and> h_files h' ''/opt'' = Some i \<and> in_perm i = 493"
proof -
  have f: "\<forall>opn p. ie_fault demo_install_env opn p = None" by (simp add: demo_install_env_def)
  have p: "has_prefix ''/'' ''/opt''" "''/opt'' \<noteq> ''/''" by (simp_all add: has_prefix_def)
  have c: "command_chain ''/opt'' - {''/''} = {''/opt''}" by (auto simp: chain_list chain_list_def)
  have "\<forall>q \<in> command_chain ''/opt'' - {''/''}. h_files demo_host q \<noteq> None" unfolding c by (simp add: demo_host_def)
  then obtain h' where h: "tightenChain demo_install_env ''/opt'' demo_host = (h', Inr ())"
    using tightenChain_completes [OF f p] by blast
  have "h_files h' ''/opt'' = map_option tightened (h_files demo_host ''/opt'')"
    using tightenChain_exact [OF h p] unfolding c by simp
  then have "h_files h' ''/opt'' = Some (tightened \<lparr>in_data = None, in_uid = 0, in_gid = 0, in_perm = 511\<rparr>)"
    by (simp add: demo_host_def)
  then show ?thesis using h by (simp add: tightened_def)
qed

end
