(* ===== verification/Install_Darwin.thy ===== *)
theory Install_Darwin
  imports Install_Doctor
begin

text \<open>
  What is particular to macOS: the scan for free account ids, the account's two records, and the principals
  directory, whose access the installer grants by an access control list that the doctor does not look at.
\<close>

unbundle bit_operations_syntax

section \<open>Free ids\<close>

lemma find_free_from_exact:
  "(find_free_from inUse k = Inr i \<longleftrightarrow> 200 \<le> i \<and> i \<le> k \<and> \<not> inUse i \<and> (\<forall>j. i < j \<and> j \<le> k \<longrightarrow> inUse j))
   \<and> ((\<exists>e. find_free_from inUse k = Inl e) \<longleftrightarrow> (\<forall>j. 200 \<le> j \<and> j \<le> k \<longrightarrow> inUse j))"
proof (induction inUse k rule: find_free_from.induct)
  case (1 inUse k)
  have split: "j \<le> k \<longleftrightarrow> j = k \<or> j \<le> k - 1" for j by auto
  consider "k < 200" | "200 \<le> k" "\<not> inUse k" | "200 \<le> k" "inUse k" by linarith
  then show ?case
  proof cases
    case 3
    then have e: "find_free_from inUse k = find_free_from inUse (k - 1)"
      by (simp add: find_free_from.simps [of inUse k] darwinSystemIDMin_def)
    show ?thesis unfolding e using 1 3 split by (auto simp: darwinSystemIDMin_def)
  next
    case 2
    have "i = k" if "i \<le> k" "\<forall>j. i < j \<and> j \<le> k \<longrightarrow> inUse j" using that 2 by (metis order_le_less order_refl)
    then show ?thesis using 2 by (auto simp: find_free_from.simps [of inUse k] darwinSystemIDMin_def)
  qed (auto simp: find_free_from.simps [of inUse k] darwinSystemIDMin_def)
qed

text \<open>the scan for a system account id on macOS stays in the operator's window: it returns an id from 200 to
  499 that the directory does not list, the highest such id, and fails exactly when all three hundred are in
  use; it never lands in Apple's range below 200 nor among the interactive accounts from 500.\<close>

theorem findFreeIDDarwin_exact:
  "(findFreeIDDarwin inUse = Inr i \<longleftrightarrow>
      200 \<le> i \<and> i \<le> 499 \<and> \<not> inUse i \<and> (\<forall>j. i < j \<and> j \<le> 499 \<longrightarrow> inUse j))
   \<and> ((\<exists>e. findFreeIDDarwin inUse = Inl e) \<longleftrightarrow> (\<forall>j. 200 \<le> j \<and> j \<le> 499 \<longrightarrow> inUse j))"
  unfolding findFreeIDDarwin_def darwinSystemIDMax_def by (rule find_free_from_exact)

theorem findFreeIDDarwin_exact_witness:
  "findFreeIDDarwin (\<lambda>j. 498 < j) = Inr 498 \<and> (\<exists>e. findFreeIDDarwin (\<lambda>_. True) = Inl e)"
  using findFreeIDDarwin_exact [of "\<lambda>j. 498 < j" 498] findFreeIDDarwin_exact [of "\<lambda>_. True"] by simp

section \<open>The principals directory\<close>

text \<open>On macOS the installer creates the principals directory with mode 0755 and then grants the service account access
  by an access control list, which changes neither owner, group nor mode. The doctor's check asks for the
  service account's group and group write permission on every Unix: it fails right after the installer's
  own two steps.\<close>

lemma macos_doctor_rejects_install:
  assumes "ie_goos env = ''darwin''" "h_files h p = None"
    and acl: "\<And>h. h_files (fst (ie_run env [''chmod'', ''+a'', acl_grant ''_uncluster'', p] h)) p = h_files h p"
    and "run_steps [MkdirAll env 493 p, grantPrincipalsAccess env p] h = (h', Inr ())"
  shows "dc_Status (checkPrincipalsDirPerms (host_probe pb h') p wantGroup) = CheckFail"
proof -
  have s: "serviceAccountName ''darwin'' = ''_uncluster''" by (simp add: serviceAccountName_def)
  obtain h1 where m: "MkdirAll env 493 p h = (h1, Inr ())" and g: "run_cmd env [''chmod'', ''+a'', acl_grant ''_uncluster'', p] h1 = (h', Inr ())"
    using assms(4) unfolding run_steps_ok by (auto simp: grantPrincipalsAccess_def assms(1) s)
  have f: "h_files h1 p = Some (new_inode env None 493 p)"
  proof -
    have "h_files h1 p = None \<or> h_files h1 p = Some (new_inode env None 493 p)" "is_dir h1 p"
      using MkdirAll_changes [OF m] assms(2) by metis+
    then show ?thesis by (auto simp: is_dir_def)
  qed
  have "h_files h' p = h_files h1 p" using g acl [of h1] by (auto simp: run_cmd_ok)
  then have i: "h_files h' p = Some (new_inode env None 493 p)" using f by simp
  have "(493 AND 16 :: 32 word) = 0" by simp
  then have "(493 AND w) AND 16 = (0 :: 32 word)" for w by (metis and.assoc and.commute and_zero_eq)
  then have "in_perm (new_inode env None 493 p) AND 16 = 0" by (simp add: new_inode_def)
  then show ?thesis
    using i by (simp add: checkPrincipalsDirPerms_def probe_reads host_stat_def file_info_of_def principalsDirResult_def result_of_def
        new_inode_def Let_def)
qed

end
