(* ===== verification/Cli_Client.thy ===== *)
theory Cli_Client
  imports Server_Issuance Self_Update
begin

text \<open>
  The operator's side of the control plane: \<^verbatim>\<open>cli/httpclient.go\<close>, the typed client of
  \<^verbatim>\<open>cli/controlplane_client.go\<close> and the commands over it (\<^verbatim>\<open>acl_cmd.go\<close>, \<^verbatim>\<open>agents_cmd.go\<close>,
  \<^verbatim>\<open>audit_cmd.go\<close>, \<^verbatim>\<open>update_cmd.go\<close>, the endpoint choice of \<^verbatim>\<open>ssh_cmd.go\<close>).

  A command is a function of a world \<open>'w\<close> that the network reaches; it returns the changed world and
  an error text or its answer. The network is the argument \<open>cli_http\<close>: it takes the method, the URL, the
  authorization header and the value of the body, and answers with an error or with a status, the
  text of the body and the value the text decodes to. \<open>server_exchange\<close> is the network that
  leads to the modelled control plane.
\<close>

section \<open>Query strings\<close>

text \<open>\<^verbatim>\<open>url.QueryEscape\<close>, \<^verbatim>\<open>url.QueryUnescape\<close>, \<^verbatim>\<open>url.Values.Encode\<close> for keys with one value each, and
  \<^verbatim>\<open>url.ParseQuery\<close> with \<^verbatim>\<open>Values.Get\<close>.\<close>

definition unreserved :: "char \<Rightarrow> bool" where
  "unreserved c \<longleftrightarrow> is_letter c \<or> is_digit c \<or> c \<in> set ''-_.~''"

definition upper_hex :: "nat \<Rightarrow> char" where
  "upper_hex n = ''0123456789ABCDEF'' ! n"

definition escape_char :: "char \<Rightarrow> string" where
  "escape_char c =
     (if unreserved c then [c] else if c = CHR '' '' then ''+''
      else (let n = of_char c :: nat in [CHR ''%'', upper_hex (n div 16), upper_hex (n mod 16)]))"

definition QueryEscape :: "string \<Rightarrow> string" where
  "QueryEscape s = concat (map escape_char s)"

fun QueryUnescape :: "string \<Rightarrow> string option" where
  "QueryUnescape [] = Some []"
| "QueryUnescape (c # cs) =
     (if c = CHR ''%'' then
        (case cs of
           a # b # rest \<Rightarrow>
             (case (unhex a, unhex b) of
                (Some x, Some y) \<Rightarrow> map_option (Cons (char_of (16 * x + y))) (QueryUnescape rest)
              | _ \<Rightarrow> None)
         | _ \<Rightarrow> None)
      else map_option (Cons (if c = CHR ''+'' then CHR '' '' else c)) (QueryUnescape cs))"

definition values_encode :: "(string \<times> string) list \<Rightarrow> string" where
  "values_encode q =
     join_with ''&'' (map (\<lambda>(k, v). QueryEscape k @ ''='' @ QueryEscape v) (sort_key fst q))"

definition parse_pair :: "string \<Rightarrow> (string \<times> string) list" where
  "parse_pair p =
     (if p = [] \<or> CHR '';'' \<in> set p then []
      else case (QueryUnescape (fst (cut_at (CHR ''='') p)), QueryUnescape (snd (cut_at (CHR ''='') p))) of
        (Some k, Some v) \<Rightarrow> [(k, v)]
      | _ \<Rightarrow> [])"

definition ParseQuery :: "string \<Rightarrow> (string \<times> string) list" where
  "ParseQuery s = concat (map parse_pair (split_char (CHR ''&'') s))"

definition values_get :: "string \<Rightarrow> (string \<times> string) list \<Rightarrow> string" where
  "values_get k q = (case map_of q k of None \<Rightarrow> [] | Some v \<Rightarrow> v)"

lemma unhex_upper_hex: "n < 16 \<Longrightarrow> unhex (upper_hex n) = Some n"
proof -
  have "\<forall>n \<in> set [0..<16]. unhex (upper_hex n) = Some n" by (simp add: upper_hex_def unhex_def upt_rec)
  then show "n < 16 \<Longrightarrow> ?thesis" by auto
qed

lemma QueryUnescape_escape_char: "QueryUnescape (escape_char c @ s) = map_option (Cons c) (QueryUnescape s)"
proof -
  have n: "(of_char c :: nat) < 256" by (rule nat_of_char_less_256)
  have h: "(of_char c :: nat) div 16 < 16" using n by (simp add: less_mult_imp_div_less)
  have e: "16 * ((of_char c :: nat) div 16) + of_char c mod 16 = of_char c" by simp
  have p: "unreserved c \<Longrightarrow> c \<noteq> CHR ''%'' \<and> c \<noteq> CHR ''+''"
    by (auto simp: unreserved_def is_letter_def is_digit_def)
  show ?thesis
    using p h by (auto simp: escape_char_def Let_def unhex_upper_hex e)
qed

lemma QueryUnescape_QueryEscape [simp]: "QueryUnescape (QueryEscape s) = Some s"
proof (induction s)
  case (Cons c s)
  then show ?case using QueryUnescape_escape_char [of c "QueryEscape s"] by (simp add: QueryEscape_def)
qed (simp add: QueryEscape_def)

section \<open>The HTTP client\<close>

datatype payload =
    PCreateAcl create_acl_request
  | PFailClosed "int option"
  | PCert cert_request
  | PCreateToken create_token_request
  | PUpdatePolicy set_update_policy_request

type_synonym 'w exchange =
  "string \<Rightarrow> string \<Rightarrow> string \<Rightarrow> payload option \<Rightarrow> 'w \<Rightarrow> 'w \<times> (string, nat \<times> string \<times> body) result"

type_synonym ('w, 'a) call = "'w \<Rightarrow> 'w \<times> (string, 'a) result"

record client =
  cl_BaseURL :: string
  cl_Token :: string

text \<open>The network and the formatting functions of the standard library that the commands use:
  \<^verbatim>\<open>%q\<close>, \<^verbatim>\<open>time.RFC3339\<close> in the local zone, \<^verbatim>\<open>json.MarshalIndent\<close>, and \<^verbatim>\<open>time.ParseDuration\<close> with the
  result in whole seconds.\<close>

record 'w cli =
  cli_http :: "'w exchange"
  cli_quote :: "string \<Rightarrow> string"
  cli_rfc3339 :: "gotime \<Rightarrow> string"
  cli_json :: "body \<Rightarrow> string"
  cli_duration :: "string \<Rightarrow> (string, int) result"

definition Do :: "'w cli \<Rightarrow> client \<Rightarrow> string \<Rightarrow> string \<Rightarrow> payload option \<Rightarrow> ('w, body) call" where
  "Do L c httpMethod path body w =
     (case cli_http L httpMethod (cl_BaseURL c @ path)
             (if cl_Token c = [] then [] else ''Bearer '' @ cl_Token c) body w of
        (w', Inl e) \<Rightarrow> (w', Inl e)
      | (w', Inr (st, txt, b)) \<Rightarrow>
          (w', if st \<ge> 400 then Inl (httpMethod @ '' '' @ path @ '': '' @ dec_nat st @ '': '' @ txt) else Inr b))"

text \<open>\<^verbatim>\<open>json.NewDecoder(resp.Body).Decode(out)\<close>: a body without a value of the wanted type is an error.\<close>

definition answer :: "(body \<Rightarrow> 'a option) \<Rightarrow> ('w, body) call \<Rightarrow> ('w, 'a) call" where
  "answer f m w =
     (case m w of
        (w', Inl e) \<Rightarrow> (w', Inl e)
      | (w', Inr b) \<Rightarrow> (w', case f b of None \<Rightarrow> Inl ''EOF'' | Some x \<Rightarrow> Inr x))"

definition no_answer :: "('w, body) call \<Rightarrow> ('w, unit) call" where
  "no_answer m w = (case m w of (w', Inl e) \<Rightarrow> (w', Inl e) | (w', Inr _) \<Rightarrow> (w', Inr ()))"

text \<open>A call, and what is done with its answer.\<close>

definition after_call :: "('w, 'a) call \<Rightarrow> ('a \<Rightarrow> ('w, 'b) call) \<Rightarrow> ('w, 'b) call" where
  "after_call m f w = (case m w of (w', Inl e) \<Rightarrow> (w', Inl e) | (w', Inr x) \<Rightarrow> f x w')"

definition print :: "string \<Rightarrow> ('w, string) call" where
  "print s w = (w, Inr s)"

fun as_acl :: "body \<Rightarrow> acl_entry_summary option" where
  "as_acl (BAcl e) = Some e" | "as_acl _ = None"

fun as_acls :: "body \<Rightarrow> acl_entry_summary list option" where
  "as_acls (BAcls es) = Some es" | "as_acls _ = None"

fun as_agent :: "body \<Rightarrow> agent_detail option" where
  "as_agent (BAgent ad) = Some ad" | "as_agent _ = None"

fun as_agents :: "body \<Rightarrow> agent_detail list option" where
  "as_agents (BAgents ads) = Some ads" | "as_agents _ = None"

fun as_cert :: "body \<Rightarrow> cert_response option" where
  "as_cert (BCert c) = Some c" | "as_cert _ = None"

fun as_events :: "body \<Rightarrow> cert_event_summary list option" where
  "as_events (BEvents es) = Some es" | "as_events _ = None"

fun as_token :: "body \<Rightarrow> create_token_response option" where
  "as_token (BTokenCreated t) = Some t" | "as_token _ = None"

fun as_tokens :: "body \<Rightarrow> token_summary list option" where
  "as_tokens (BTokens ts) = Some ts" | "as_tokens _ = None"

section \<open>The typed client\<close>

definition selectACLEntry :: "acl_entry_summary list \<Rightarrow> string \<Rightarrow> string \<Rightarrow> (string, acl_entry_summary) result" where
  "selectACLEntry entries agentID username =
     (case find (\<lambda>e. aes_AgentID e = agentID \<and> aes_Username e = username) entries of
        Some e \<Rightarrow> Inr e
      | None \<Rightarrow> Inl (''no ACL entry found for agent='' @ agentID @ '' username='' @ username))"

definition GrantACL :: "'w cli \<Rightarrow> client \<Rightarrow> string \<Rightarrow> string \<Rightarrow> string \<Rightarrow> ('w, acl_entry_summary) call" where
  "GrantACL L c caller agent username =
     answer as_acl (Do L c ''POST'' ''/v1/acl''
       (Some (PCreateAcl \<lparr>car_Caller = caller, car_Agent = agent, car_Username = username\<rparr>)))"

definition RevokeACL :: "'w cli \<Rightarrow> client \<Rightarrow> string \<Rightarrow> string \<Rightarrow> string \<Rightarrow> ('w, acl_entry_summary) call" where
  "RevokeACL L c caller agent username w =
     (case answer as_agent (Do L c ''GET'' (''/v1/agents/'' @ agent) None) w of
        (w1, Inl e) \<Rightarrow> (w1, Inl (''resolve agent '' @ cli_quote L agent @ '': '' @ e))
      | (w1, Inr ad) \<Rightarrow>
     (case answer as_acls (Do L c ''GET'' (''/v1/acl?'' @ values_encode [(''caller'', caller)]) None) w1 of
        (w2, Inl e) \<Rightarrow> (w2, Inl e)
      | (w2, Inr entries) \<Rightarrow>
     (case selectACLEntry entries (ad_ID ad) username of
        Inl e \<Rightarrow> (w2, Inl (e @ '' (caller='' @ caller @ '' agent='' @ agent @ '')''))
      | Inr en \<Rightarrow>
     (case no_answer (Do L c ''DELETE'' (''/v1/acl/'' @ aes_ID en) None) w2 of
        (w3, Inl e) \<Rightarrow> (w3, Inl e)
      | (w3, Inr _) \<Rightarrow> (w3, Inr en)))))"

definition acl_target :: "string \<Rightarrow> string \<Rightarrow> string" where
  "acl_target callerFilter agentFilter =
     (let q = (if callerFilter = [] then [] else [(''caller'', callerFilter)])
            @ (if agentFilter = [] then [] else [(''agent'', agentFilter)])
      in ''/v1/acl'' @ (if q = [] then [] else ''?'' @ values_encode q))"

definition ListACL_cli :: "'w cli \<Rightarrow> client \<Rightarrow> string \<Rightarrow> string \<Rightarrow> ('w, acl_entry_summary list) call" where
  "ListACL_cli L c callerFilter agentFilter =
     answer as_acls (Do L c ''GET'' (acl_target callerFilter agentFilter) None)"

definition ListAgents_cli :: "'w cli \<Rightarrow> client \<Rightarrow> ('w, agent_detail list) call" where
  "ListAgents_cli L c = answer as_agents (Do L c ''GET'' ''/v1/agents'' None)"

definition GetAgent_cli :: "'w cli \<Rightarrow> client \<Rightarrow> string \<Rightarrow> ('w, agent_detail) call" where
  "GetAgent_cli L c idOrName = answer as_agent (Do L c ''GET'' (''/v1/agents/'' @ idOrName) None)"

definition RemoveAgent :: "'w cli \<Rightarrow> client \<Rightarrow> string \<Rightarrow> ('w, unit) call" where
  "RemoveAgent L c idOrName = no_answer (Do L c ''DELETE'' (''/v1/agents/'' @ idOrName) None)"

definition SetAgentFailClosedAfter_cli :: "'w cli \<Rightarrow> client \<Rightarrow> string \<Rightarrow> int option \<Rightarrow> ('w, unit) call" where
  "SetAgentFailClosedAfter_cli L c idOrName seconds =
     no_answer (Do L c ''PATCH'' (''/v1/agents/'' @ idOrName) (Some (PFailClosed seconds)))"

definition RequestCert :: "'w cli \<Rightarrow> client \<Rightarrow> cert_request \<Rightarrow> ('w, cert_response) call" where
  "RequestCert L c req = answer as_cert (Do L c ''POST'' ''/v1/certs'' (Some (PCert req)))"

record cert_audit_query =
  caq_Caller :: string
  caq_Agent :: string
  caq_User :: string
  caq_Outcome :: string
  caq_Since :: int
  caq_Limit :: int

definition audit_target :: "cert_audit_query \<Rightarrow> string" where
  "audit_target q =
     (let vals = (if caq_Caller q = [] then [] else [(''caller'', caq_Caller q)])
            @ (if caq_Agent q = [] then [] else [(''agent'', caq_Agent q)])
            @ (if caq_User q = [] then [] else [(''user'', caq_User q)])
            @ (if caq_Outcome q = [] then [] else [(''outcome'', caq_Outcome q)])
            @ (if caq_Since q > 0 then [(''since'', dec_int (caq_Since q))] else [])
            @ (if caq_Limit q > 0 then [(''limit'', dec_int (caq_Limit q))] else [])
      in ''/v1/audit/certs'' @ (if vals = [] then [] else ''?'' @ values_encode vals))"

definition ListCertEvents_cli :: "'w cli \<Rightarrow> client \<Rightarrow> cert_audit_query \<Rightarrow> ('w, cert_event_summary list) call" where
  "ListCertEvents_cli L c q = answer as_events (Do L c ''GET'' (audit_target q) None)"

definition CreateToken_cli :: "'w cli \<Rightarrow> client \<Rightarrow> string \<Rightarrow> string \<Rightarrow> ('w, create_token_response) call" where
  "CreateToken_cli L c kind label =
     answer as_token (Do L c ''POST'' ''/v1/tokens''
       (Some (PCreateToken \<lparr>ctr_Kind = kind, ctr_Label = label, ctr_ExpiresAt = None\<rparr>)))"

definition ListTokens_cli :: "'w cli \<Rightarrow> client \<Rightarrow> ('w, token_summary list) call" where
  "ListTokens_cli L c = answer as_tokens (Do L c ''GET'' ''/v1/tokens'' None)"

definition RevokeToken_cli :: "'w cli \<Rightarrow> client \<Rightarrow> string \<Rightarrow> ('w, unit) call" where
  "RevokeToken_cli L c i = no_answer (Do L c ''DELETE'' (''/v1/tokens/'' @ i) None)"

definition SetUpdatePolicy_cli :: "'w cli \<Rightarrow> client \<Rightarrow> set_update_policy_request \<Rightarrow> ('w, unit) call" where
  "SetUpdatePolicy_cli L c req = no_answer (Do L c ''POST'' ''/v1/server/update'' (Some (PUpdatePolicy req)))"

section \<open>The commands\<close>

text \<open>\<^verbatim>\<open>%-28s\<close> and its kin: padding on the right, counted in runes.\<close>

definition pad :: "nat \<Rightarrow> string \<Rightarrow> string" where
  "pad n s = s @ replicate (n - length (runes s)) (CHR '' '')"

definition newline_char :: string where "newline_char = [CHR 0x0A]"

definition runACLGrant :: "'w cli \<Rightarrow> client \<Rightarrow> string \<Rightarrow> string \<Rightarrow> string \<Rightarrow> ('w, string) call" where
  "runACLGrant L c caller agent username =
     after_call (GrantACL L c caller agent username) (\<lambda>en.
       print (''granted: id='' @ aes_ID en @ '' caller='' @ aes_CallerTokenID en @ '' agent='' @ aes_AgentID en
         @ '' username='' @ aes_Username en @ newline_char))"

definition runACLRevoke :: "'w cli \<Rightarrow> client \<Rightarrow> string \<Rightarrow> string \<Rightarrow> string \<Rightarrow> ('w, string) call" where
  "runACLRevoke L c caller agent username =
     after_call (RevokeACL L c caller agent username) (\<lambda>en.
       print (''revoked: id='' @ aes_ID en @ newline_char))"

definition acl_line :: "string \<Rightarrow> string \<Rightarrow> string \<Rightarrow> string \<Rightarrow> string \<Rightarrow> string" where
  "acl_line i caller agent username created =
     pad 28 i @ '' '' @ pad 28 caller @ '' '' @ pad 20 agent @ '' '' @ pad 12 username @ '' '' @ created @ newline_char"

definition runACLList :: "'w cli \<Rightarrow> client \<Rightarrow> string \<Rightarrow> string \<Rightarrow> bool \<Rightarrow> ('w, string) call" where
  "runACLList L c callerFilter agentFilter asJSON =
     after_call (ListACL_cli L c callerFilter agentFilter) (\<lambda>entries.
       print (if asJSON then cli_json L (BAcls entries) @ newline_char
         else acl_line ''ID'' ''CALLER'' ''AGENT'' ''USERNAME'' ''CREATED''
           @ concat (map (\<lambda>e. acl_line (aes_ID e) (aes_CallerTokenID e) (aes_AgentID e) (aes_Username e)
               (cli_rfc3339 L (time_unix (aes_CreatedAt e)))) entries)))"

text \<open>\<^verbatim>\<open>now.Sub(t)\<close> saturates at the bounds of a 64-bit duration.\<close>

definition time_sub :: "gotime \<Rightarrow> gotime \<Rightarrow> int" where
  "time_sub t u = max (- (2 ^ 63)) (min (2 ^ 63 - 1) (t - u))"

definition agent_seen :: "gotime \<Rightarrow> agent_detail \<Rightarrow> int" where
  "agent_seen now ag = (case ad_LastSeenAt ag of None \<Rightarrow> 0 | Some t \<Rightarrow> time_sub now (time_unix t))"

definition computedStatus :: "gotime \<Rightarrow> agent_detail \<Rightarrow> string" where
  "computedStatus now ag =
     (if ad_LastSeenAt ag = None then ''offline''
      else if agent_seen now ag < 30 * 1000000000 then ''online''
      else if agent_seen now ag < 3600 * 1000000000 then ''stale''
      else ''offline'')"

definition bestEP :: "string list \<Rightarrow> wire_endpoint list \<Rightarrow> string" where
  "bestEP callerSubnets eps =
     (case eps of
        [] \<Rightarrow> []
      | e # _ \<Rightarrow>
          (case find (\<lambda>e. we_Subnet e \<in> set callerSubnets) eps of
             Some e' \<Rightarrow> we_Address e'
           | None \<Rightarrow> we_Address e))"

text \<open>The row is kept: the two filters.\<close>

definition listed :: "gotime \<Rightarrow> string \<Rightarrow> string \<Rightarrow> agent_detail \<Rightarrow> bool" where
  "listed now subnetFilter statusFilter ag \<longleftrightarrow>
     (statusFilter = [] \<or> computedStatus now ag = statusFilter)
     \<and> (subnetFilter = [] \<or> subnetFilter \<in> set (map we_Subnet (ad_Endpoints ag)))"

text \<open>\<open>later\<close> is the reading of the clock when the row is printed.\<close>

definition relTime :: "'w cli \<Rightarrow> gotime \<Rightarrow> int \<Rightarrow> string" where
  "relTime L later ago =
     (if ago < 30 * 1000000000 then ''just now''
      else if ago < 60 * 1000000000 then dec_int (ago div 1000000000) @ ''s ago''
      else if ago < 3600 * 1000000000 then dec_int (ago div (60 * 1000000000)) @ ''m ago''
      else cli_rfc3339 L (later - ago))"

definition agent_line :: "string \<Rightarrow> string \<Rightarrow> string \<Rightarrow> string \<Rightarrow> string \<Rightarrow> string \<Rightarrow> string" where
  "agent_line name i st ep seen ver =
     pad 20 name @ '' '' @ pad 20 i @ '' '' @ pad 8 st @ '' '' @ pad 20 ep @ '' '' @ pad 12 seen @ '' '' @ ver @ newline_char"

definition runAgentsList :: "'w cli \<Rightarrow> client \<Rightarrow> string list \<Rightarrow> gotime \<Rightarrow> gotime \<Rightarrow> bool \<Rightarrow> string \<Rightarrow> string \<Rightarrow>
    ('w, string) call" where
  "runAgentsList L c callerSubnets now later jsonOut subnetFilter statusFilter =
     after_call (ListAgents_cli L c) (\<lambda>agents.
       let rows = filter (listed now subnetFilter statusFilter) agents in
       print (if jsonOut then cli_json L (BAgents agents) @ newline_char
         else agent_line ''NAME'' ''ID'' ''STATUS'' ''ENDPOINT'' ''SEEN'' ''VERSION''
           @ concat (map (\<lambda>ag. agent_line (ad_Name ag) (ad_ID ag) (computedStatus now ag)
               (bestEP callerSubnets (ad_Endpoints ag))
               (if ad_LastSeenAt ag = None then ''never'' else relTime L later (agent_seen now ag))
               (ad_AgentVersion ag)) rows)))"

definition runAgentsRemove :: "'w cli \<Rightarrow> client \<Rightarrow> string \<Rightarrow> ('w, string) call" where
  "runAgentsRemove L c idOrName =
     after_call (RemoveAgent L c idOrName) (\<lambda>_. print (''agent '' @ idOrName @ '' revoked'' @ newline_char))"

definition parseDurationToSeconds :: "'w cli \<Rightarrow> string \<Rightarrow> (string, int) result" where
  "parseDurationToSeconds L s =
     (case ParseInt64 s of
        Some n \<Rightarrow> Inr n
      | None \<Rightarrow>
          (case (if has_suffix ''s'' s then ParseInt64 (take (length s - 1) s) else None) of
             Some n \<Rightarrow> Inr n
           | None \<Rightarrow> cli_duration L s))"

definition runAgentsSet :: "'w cli \<Rightarrow> client \<Rightarrow> string \<Rightarrow> bool \<Rightarrow> string \<Rightarrow> ('w, unit) call" where
  "runAgentsSet L c idOrName failClosedChanged failClosedAfter w =
     (if \<not> failClosedChanged then (w, Inl ''no fields to update; use --fail-closed-after=<duration>'')
      else if failClosedAfter \<noteq> [] \<and> failClosedAfter \<noteq> ''0'' then
        (case parseDurationToSeconds L failClosedAfter of
           Inl e \<Rightarrow> (w, Inl (''invalid --fail-closed-after: '' @ e))
         | Inr secs \<Rightarrow> SetAgentFailClosedAfter_cli L c idOrName (Some secs) w)
      else SetAgentFailClosedAfter_cli L c idOrName None w)"

definition runServerUpdateSet :: "'w cli \<Rightarrow> client \<Rightarrow> set_update_policy_request \<Rightarrow> ('w, string) call" where
  "runServerUpdateSet L c req =
     after_call (SetUpdatePolicy_cli L c req) (\<lambda>_.
       print (''update policy set: expected_version='' @ suq_ExpectedVersion req @ newline_char))"

definition runTokenCreate :: "'w cli \<Rightarrow> client \<Rightarrow> string \<Rightarrow> string \<Rightarrow> ('w, string) call" where
  "runTokenCreate L c kind label =
     after_call (CreateToken_cli L c kind label) (\<lambda>resp.
       print (''token: '' @ ctp_Token resp @ newline_char @ ''id:    '' @ ctp_ID resp @ newline_char))"

definition token_line :: "string \<Rightarrow> string \<Rightarrow> string \<Rightarrow> string \<Rightarrow> string" where
  "token_line i kind label st =
     pad 18 i @ '' '' @ pad 7 kind @ '' '' @ pad 20 label @ '' '' @ pad 10 st @ newline_char"

definition token_state :: "token_summary \<Rightarrow> string" where
  "token_state t =
     (if ts_RevokedAt t \<noteq> None then ''revoked'' else if ts_UsedAt t \<noteq> None then ''used'' else ''active'')"

definition runTokenList :: "'w cli \<Rightarrow> client \<Rightarrow> ('w, string) call" where
  "runTokenList L c =
     after_call (ListTokens_cli L c) (\<lambda>tokens.
       print (token_line ''ID'' ''KIND'' ''LABEL'' ''STATE''
         @ concat (map (\<lambda>t. token_line (ts_ID t) (ts_Kind t) (ts_Label t) (token_state t)) tokens)))"

definition runTokenRevoke :: "'w cli \<Rightarrow> client \<Rightarrow> string \<Rightarrow> ('w, unit) call" where
  "runTokenRevoke L c i = RevokeToken_cli L c i"

section \<open>The audit log\<close>

definition trunc :: "string \<Rightarrow> nat \<Rightarrow> string" where
  "trunc s n = (if length s \<le> n then s else take (n - 1) s @ [CHR 0xE2, CHR 0x80, CHR 0xA6])"

definition event_line :: "'w cli \<Rightarrow> cert_event_summary \<Rightarrow> string" where
  "event_line L e =
     (let detail = (if ces_DenialReason e \<noteq> [] then '' ['' @ ces_DenialReason e @ '']''
                    else if ces_KeyID e \<noteq> [] then '' key='' @ take 16 (ces_KeyID e) else [])
      in cli_rfc3339 L (time_unix (ces_TS e)) @ ''  '' @ pad 8 (ces_Outcome e) @ ''  caller=''
         @ pad 20 (trunc (ces_CallerTokenID e) 20) @ ''  agent='' @ pad 22 (trunc (ces_TargetAgentID e) 22)
         @ ''  user='' @ ces_Username e @ detail @ newline_char)"

definition printEvents :: "'w cli \<Rightarrow> bool \<Rightarrow> cert_event_summary list \<Rightarrow> string" where
  "printEvents L jsonOut events =
     (if jsonOut then cli_json L (BEvents events) @ newline_char else concat (map (event_line L) events))"

definition parseSinceDuration :: "'w cli \<Rightarrow> gotime \<Rightarrow> string \<Rightarrow> (string, int) result" where
  "parseSinceDuration L now s =
     (case ParseInt64 s of
        Some ts \<Rightarrow> Inr ts
      | None \<Rightarrow>
          (case parseDurationToSeconds L s of
             Inl e \<Rightarrow> Inl e
           | Inr secs \<Rightarrow> Inr (wrap64 (unix_of now - secs))))"

text \<open>The loop of tail mode; the context is cancelled after \<open>n\<close> more polls. What is printed stays
  printed when a later poll fails.\<close>

fun tail_loop :: "'w cli \<Rightarrow> client \<Rightarrow> bool \<Rightarrow> nat \<Rightarrow> int \<Rightarrow> cert_audit_query \<Rightarrow> 'w \<Rightarrow>
    'w \<times> string \<times> (string, unit) result" where
  "tail_loop L c jsonOut n lastSeen q w =
     (case ListCertEvents_cli L c q w of
        (w', Inl e) \<Rightarrow> (w', [], Inl e)
      | (w', Inr events) \<Rightarrow>
          let out = concat (map (\<lambda>e. printEvents L jsonOut [e]) (rev events));
              lastSeen' = foldl max lastSeen (map ces_TS (rev events));
              q' = (if lastSeen' > 0 then q\<lparr>caq_Since := wrap64 (lastSeen' + 1)\<rparr> else q)
          in (case n of
                0 \<Rightarrow> (w', out, Inr ())
              | Suc m \<Rightarrow> (case tail_loop L c jsonOut m lastSeen' q' w' of (w2, further, r) \<Rightarrow> (w2, out @ further, r))))"

declare tail_loop.simps [simp del]

definition runAuditCerts :: "'w cli \<Rightarrow> client \<Rightarrow> gotime \<Rightarrow> nat \<Rightarrow> cert_audit_query \<Rightarrow> string \<Rightarrow> bool \<Rightarrow> bool \<Rightarrow> 'w \<Rightarrow>
    'w \<times> string \<times> (string, unit) result" where
  "runAuditCerts L c now polls q sinceStr tail jsonOut w =
     (let q' = (if sinceStr = [] then q
                else case parseSinceDuration L now sinceStr of Inl _ \<Rightarrow> q | Inr ts \<Rightarrow> q\<lparr>caq_Since := ts\<rparr>)
      in if tail then tail_loop L c jsonOut polls 0 q' w
         else case ListCertEvents_cli L c q' w of
           (w', Inl e) \<Rightarrow> (w', [], Inl e)
         | (w', Inr events) \<Rightarrow> (w', printEvents L jsonOut events, Inr ()))"

section \<open>The endpoint of an agent\<close>

definition endpointNames :: "wire_endpoint list \<Rightarrow> string list" where
  "endpointNames endpoints = map we_Subnet endpoints"

definition pickEndpoint :: "(string \<Rightarrow> string) \<Rightarrow> wire_endpoint list \<Rightarrow> string \<Rightarrow> string list \<Rightarrow> (string, string) result" where
  "pickEndpoint quote endpoints explicit callerSubnets =
     (case endpoints of
        [] \<Rightarrow> Inl ''agent has no endpoints registered; check that the agent is running and has reported its address''
      | first # _ \<Rightarrow>
          if explicit \<noteq> [] then
            (case find (\<lambda>e. we_Subnet e = explicit) endpoints of
               Some e \<Rightarrow> Inr (we_Address e)
             | None \<Rightarrow> Inl (''no endpoint for subnet '' @ quote explicit @ ''; available: ''
                 @ join_with '', '' (endpointNames endpoints)))
          else
            (case find (\<lambda>e. we_Subnet e \<in> set callerSubnets) endpoints of
               Some e \<Rightarrow> Inr (we_Address e)
             | None \<Rightarrow> Inr (we_Address first)))"

definition splitSSHArgs :: "string list \<Rightarrow> string \<times> string list" where
  "splitSSHArgs args =
     (let rest = tl args
      in (hd args, if ''--'' \<in> set rest then tl (dropWhile (\<lambda>a. a \<noteq> ''--'') rest) else rest))"

section \<open>The control plane as the network\<close>

text \<open>The operator's routes of \<^verbatim>\<open>server/router.go\<close>. A path of unreserved characters reaches the handler as
  it was written; where the path has other characters (which \<^verbatim>\<open>net/http\<close> and the router may decode or
  refuse), the outcome is the argument \<open>other\<close>.\<close>

definition plain :: "string \<Rightarrow> bool" where
  "plain s \<longleftrightarrow> s \<noteq> [] \<and> list_all unreserved s"

definition audit_query_of :: "(string \<times> string) list \<Rightarrow> audit_query" where
  "audit_query_of q =
     \<lparr>aq_caller = values_get ''caller'' q, aq_agent = values_get ''agent'' q, aq_user = values_get ''user'' q,
      aq_outcome = values_get ''outcome'' q, aq_since = values_get ''since'' q, aq_limit = values_get ''limit'' q\<rparr>"

fun body_acl :: "payload option \<Rightarrow> create_acl_request option" where
  "body_acl (Some (PCreateAcl r)) = Some r" | "body_acl _ = None"

fun body_fca :: "payload option \<Rightarrow> int option option" where
  "body_fca (Some (PFailClosed r)) = Some r" | "body_fca _ = None"

fun body_cert :: "payload option \<Rightarrow> cert_request option" where
  "body_cert (Some (PCert r)) = Some r" | "body_cert _ = None"

fun body_token :: "payload option \<Rightarrow> create_token_request option" where
  "body_token (Some (PCreateToken r)) = Some r" | "body_token _ = None"

fun body_update :: "payload option \<Rightarrow> set_update_policy_request option" where
  "body_update (Some (PUpdatePolicy r)) = Some r" | "body_update _ = None"

definition route_of :: "(string \<Rightarrow> string \<Rightarrow> payload option \<Rightarrow> route option) \<Rightarrow> string \<Rightarrow> string \<Rightarrow> payload option \<Rightarrow>
    route option" where
  "route_of other m target p =
     (let path = fst (cut_at (CHR ''?'') target);
          q = ParseQuery (snd (cut_at (CHR ''?'') target));
          segs = tl (split_char (CHR ''/'') path)
      in if \<not> has_prefix ''/'' path \<or> \<not> list_all plain segs then other m target p
         else if segs = [''v1'', ''tokens''] then
           (if m = ''POST'' then Some (PostTokens (body_token p)) else if m = ''GET'' then Some GetTokens else None)
         else if segs = [''v1'', ''server'', ''update''] then
           (if m = ''POST'' then Some (PostServerUpdate (body_update p)) else None)
         else if segs = [''v1'', ''acl''] then
           (if m = ''POST'' then Some (PostAcl (body_acl p))
            else if m = ''GET'' then Some (GetAcl (values_get ''caller'' q) (values_get ''agent'' q)) else None)
         else if segs = [''v1'', ''agents''] then (if m = ''GET'' then Some GetAgents else None)
         else if segs = [''v1'', ''audit'', ''certs''] then (if m = ''GET'' then Some (GetAuditCerts (audit_query_of q)) else None)
         else if segs = [''v1'', ''certs''] then (if m = ''POST'' then Some (PostCerts (body_cert p)) else None)
         else (case segs of
             [v, k, i] \<Rightarrow>
               if v \<noteq> ''v1'' then other m target p
               else if k = ''tokens'' \<and> m = ''DELETE'' then Some (DeleteToken i)
               else if k = ''acl'' \<and> m = ''DELETE'' then Some (DeleteAcl i)
               else if k = ''agents'' \<and> m = ''GET'' then Some (GetAgentById i)
               else if k = ''agents'' \<and> m = ''DELETE'' then Some (DeleteAgentById i)
               else if k = ''agents'' \<and> m = ''PATCH'' then Some (PatchAgent i (body_fca p))
               else other m target p
           | _ \<Rightarrow> other m target p))"

text \<open>The world is the server with the number of requests it has answered; request \<open>n\<close> meets the
  environment \<open>envs n\<close>.\<close>

definition server_exchange :: "string \<Rightarrow> libs \<Rightarrow> server_config \<Rightarrow> (nat \<Rightarrow> req_env) \<Rightarrow>
    (string \<Rightarrow> string \<Rightarrow> payload option \<Rightarrow> route option) \<Rightarrow> (body \<Rightarrow> string) \<Rightarrow> (server \<times> nat) exchange" where
  "server_exchange base lb cfg envs other render m url hdr p w =
     (if \<not> has_prefix base url then (w, Inl ''no such host'')
      else case route_of other m (drop (length base) url) p of
        None \<Rightarrow> (w, Inr (404, ''404 page not found'', BEmpty))
      | Some r \<Rightarrow>
          (case serve lb cfg (envs (snd w)) hdr r (fst w) of
             (s', resp) \<Rightarrow> ((s', Suc (snd w)), Inr (status resp, render (resp_body resp), resp_body resp))))"

definition control_plane :: "libs \<Rightarrow> server_config \<Rightarrow> (nat \<Rightarrow> req_env) \<Rightarrow>
    (string \<Rightarrow> string \<Rightarrow> payload option \<Rightarrow> route option) \<Rightarrow> (server \<times> nat) cli \<Rightarrow> client \<Rightarrow> (server \<times> nat) cli" where
  "control_plane lb cfg envs other L c =
     L\<lparr>cli_http := server_exchange (cl_BaseURL c) lb cfg envs other (cli_json L)\<rparr>"

section \<open>Requests reach the handlers\<close>

lemma plain_chars: "plain s \<Longrightarrow> c \<in> set s \<Longrightarrow> c \<noteq> CHR ''/'' \<and> c \<noteq> CHR ''?'' \<and> c \<noteq> CHR ''%''"
  by (auto simp: plain_def list_all_iff unreserved_def is_letter_def is_digit_def)

lemma cut_at_fresh: "c \<notin> set s \<Longrightarrow> cut_at c s = (s, [])"
  by (induction s) (auto simp: cut_at_def)

lemma cut_at_append: "c \<notin> set s \<Longrightarrow> cut_at c (s @ c # t) = (s, t)"
  by (induction s) (auto simp: cut_at_def)

lemma escape_char_fresh: "c \<in> set (escape_char d) \<Longrightarrow> unreserved c \<or> c = CHR ''+'' \<or> c = CHR ''%''"
proof -
  have "\<forall>n \<in> set [0..<16]. unreserved (upper_hex n)"
    by (simp add: upper_hex_def unreserved_def is_letter_def is_digit_def upt_rec)
  then have u: "n < 16 \<Longrightarrow> unreserved (upper_hex n)" for n by auto
  have "(of_char d :: nat) div 16 < 16" by (simp add: less_mult_imp_div_less)
  then show "c \<in> set (escape_char d) \<Longrightarrow> ?thesis"
    using u by (auto simp: escape_char_def Let_def split: if_splits)
qed

lemma QueryEscape_fresh: "c \<in> set (QueryEscape s) \<Longrightarrow> c \<noteq> CHR ''&'' \<and> c \<noteq> CHR ''='' \<and> c \<noteq> CHR '';''"
  by (auto simp: QueryEscape_def dest!: escape_char_fresh)
    (auto simp: unreserved_def is_letter_def is_digit_def)

lemma parse_pair_encoded: "parse_pair (QueryEscape k @ CHR ''='' # QueryEscape v) = [(k, v)]"
proof -
  have "cut_at (CHR ''='') (QueryEscape k @ CHR ''='' # QueryEscape v) = (QueryEscape k, QueryEscape v)"
    using QueryEscape_fresh by (intro cut_at_append) blast
  moreover have "CHR '';'' \<notin> set (QueryEscape k @ CHR ''='' # QueryEscape v)" using QueryEscape_fresh by auto
  ultimately show ?thesis by (simp add: parse_pair_def)
qed

text \<open>What the server reads from a query string is what the client put in, whatever bytes the values hold.\<close>

lemma ParseQuery_values_encode: "q \<noteq> [] \<Longrightarrow> ParseQuery (values_encode q) = sort_key fst q"
proof -
  let ?f = "\<lambda>(k, v). QueryEscape k @ ''='' @ QueryEscape v"
  assume "q \<noteq> []"
  then have ne: "map ?f (sort_key fst q) \<noteq> []" by (metis length_0_conv length_map length_sort)
  have "list_all (\<lambda>f. CHR ''&'' \<notin> set f) (map ?f (sort_key fst q))"
    unfolding list_all_iff using QueryEscape_fresh by auto
  from split_char_join_with [OF this ne]
  have "split_char (CHR ''&'') (values_encode q) = map ?f (sort_key fst q)" by (simp only: values_encode_def)
  moreover have "concat (map parse_pair (map ?f l)) = l" for l :: "(string \<times> string) list"
    by (induction l) (auto simp: parse_pair_encoded)
  ultimately show ?thesis by (simp add: ParseQuery_def)
qed

definition bearer :: "client \<Rightarrow> string" where
  "bearer c = (if cl_Token c = [] then [] else ''Bearer '' @ cl_Token c)"

lemma Do_control_plane:
  "Do (control_plane lb cfg envs other L c) c m path p w =
     (case route_of other m path p of
        None \<Rightarrow> (w, Inl (m @ '' '' @ path @ '': '' @ dec_nat 404 @ '': '' @ ''404 page not found''))
      | Some r \<Rightarrow>
          (case serve lb cfg (envs (snd w)) (bearer c) r (fst w) of
             (s', resp) \<Rightarrow> ((s', Suc (snd w)),
               if status resp \<ge> 400
               then Inl (m @ '' '' @ path @ '': '' @ dec_nat (status resp) @ '': '' @ cli_json L (resp_body resp))
               else Inr (resp_body resp))))"
  by (simp add: Do_def control_plane_def server_exchange_def bearer_def has_prefix_def
      split: option.splits prod.splits)

lemma Do_route:
  "route_of other m path p = Some r \<Longrightarrow>
   Do (control_plane lb cfg envs other L c) c m path p w =
     (case serve lb cfg (envs (snd w)) (bearer c) r (fst w) of
        (s', resp) \<Rightarrow> ((s', Suc (snd w)),
          if status resp \<ge> 400
          then Inl (m @ '' '' @ path @ '': '' @ dec_nat (status resp) @ '': '' @ cli_json L (resp_body resp))
          else Inr (resp_body resp)))"
  by (simp add: Do_control_plane)

lemma route_agent: "plain n \<Longrightarrow> route_of other ''GET'' (''/v1/agents/'' @ n) None = Some (GetAgentById n)"
proof -
  assume n: "plain n"
  then have "CHR ''?'' \<notin> set (''/v1/agents/'' @ n)" using plain_chars by auto
  moreover have "split_char (CHR ''/'') n = [n]" using plain_chars [OF n] by (intro split_char_no_sep) blast
  moreover have "plain ''v1''" "plain ''agents''" by (simp_all add: plain_def unreserved_def is_letter_def is_digit_def)
  ultimately show ?thesis using n by (simp add: route_of_def cut_at_fresh has_prefix_def)
qed

lemma route_delete_acl: "plain i \<Longrightarrow> route_of other ''DELETE'' (''/v1/acl/'' @ i) None = Some (DeleteAcl i)"
proof -
  assume n: "plain i"
  then have "CHR ''?'' \<notin> set (''/v1/acl/'' @ i)" using plain_chars by auto
  moreover have "split_char (CHR ''/'') i = [i]" using plain_chars [OF n] by (intro split_char_no_sep) blast
  moreover have "plain ''v1''" "plain ''acl''" by (simp_all add: plain_def unreserved_def is_letter_def is_digit_def)
  ultimately show ?thesis using n by (simp add: route_of_def cut_at_fresh has_prefix_def)
qed

lemma route_list_acl:
  "route_of other ''GET'' (''/v1/acl?'' @ values_encode [(''caller'', caller)]) None = Some (GetAcl caller [])"
proof -
  have "cut_at (CHR ''?'') (''/v1/acl?'' @ s) = (''/v1/acl'', s)" for s
    using cut_at_append [of "CHR ''?''" "''/v1/acl''" s] by simp
  moreover have "plain ''v1''" "plain ''acl''" by (simp_all add: plain_def unreserved_def is_letter_def is_digit_def)
  moreover have "ParseQuery (values_encode [(''caller'', caller)]) = [(''caller'', caller)]"
    by (simp add: ParseQuery_values_encode)
  ultimately show ?thesis by (simp add: route_of_def has_prefix_def values_get_def)
qed

section \<open>Revoking a grant\<close>

text \<open>A request of the caller's group: refused, or handled for an authenticated caller.\<close>

lemma serve_caller:
  assumes "route_kind r = Some TokenCaller"
  shows "(\<exists>resp. serve lb cfg env hdr r s = (s, resp) \<and> 400 \<le> status resp)
     \<or> (\<exists>ctx. serve lb cfg env hdr r s = handle lb cfg env (Some ctx) r s)"
proof (cases "requireAuth lb env TokenCaller hdr (srv_db s)")
  case (Inl resp)
  then show ?thesis using assms requireAuth_InlD [OF Inl] by (auto simp: serve_def)
qed (use assms in \<open>auto simp: serve_def\<close>)

lemma resolveAgent_row:
  "resolveAgent f g x d = Inr ag \<Longrightarrow> \<exists>r \<in> set (db_agents d). ag = scanAgent r \<and> (ar_id r = x \<or> ar_name r = x)"
  by (auto simp: resolveAgent_def GetAgent_def GetAgentByName_def queryAgent_def
      split: if_splits option.splits sum.splits dest!: row_get_SomeD)

lemma get_agent_call:
  assumes "answer as_agent (Do (control_plane lb cfg envs other L c) c ''GET'' (''/v1/agents/'' @ agent) None) w = (w', r)"
    "plain agent"
  shows "fst w' = fst w \<and> (\<forall>ad. r = Inr ad \<longrightarrow>
     (\<exists>row \<in> set (db_agents (srv_db (fst w))). ad_ID ad = ar_id row \<and> (ar_id row = agent \<or> ar_name row = agent)))"
proof -
  have k: "route_kind (GetAgentById agent) = Some TokenCaller" by (simp add: route_kind_def)
  from serve_caller [OF k, of lb cfg "envs (snd w)" "bearer c" "fst w"] show ?thesis
    using assms(1) [unfolded answer_def Do_route [OF route_agent [OF assms(2)]]]
    by (auto simp: handleGetAgent_def agentDetail_def scanAgent_def
        split: if_splits option.splits sum.splits dest!: resolveAgent_row)
qed

lemma list_acl_call:
  assumes "answer as_acls (Do (control_plane lb cfg envs other L c) c ''GET''
      (''/v1/acl?'' @ values_encode [(''caller'', caller)]) None) w = (w', r)"
  shows "fst w' = fst w \<and> (\<forall>es. r = Inr es \<longrightarrow> (\<forall>e \<in> set es. \<exists>row \<in> set (db_acl (srv_db (fst w))).
     e = aclSummary (scanACL row) \<and> (caller \<noteq> [] \<longrightarrow> acl_caller row = caller)))"
proof -
  have k: "route_kind (GetAcl caller []) = Some TokenCaller" by (simp add: route_kind_def)
  from serve_caller [OF k, of lb cfg "envs (snd w)" "bearer c" "fst w"] show ?thesis
    using assms [unfolded answer_def Do_route [OF route_list_acl]]
    by (auto simp: handleListACL_def ListACL_def
        split: if_splits option.splits sum.splits)
qed

lemma delete_acl_call:
  assumes "no_answer (Do (control_plane lb cfg envs other L c) c ''DELETE'' (''/v1/acl/'' @ i) None) w = (w', r)" "plain i"
  shows "(\<forall>e. r = Inl e \<longrightarrow> fst w' = fst w)
     \<and> (r = Inr () \<longrightarrow> (\<exists>row. row_get acl_id i (db_acl (srv_db (fst w))) = Some row
           \<and> srv_db (fst w') = with_acl (lb_sum256 lb) (acl_agent row)
               (row_delete (\<lambda>x. acl_id x = i) (db_acl (srv_db (fst w)))) (srv_db (fst w))))"
proof -
  have k: "route_kind (DeleteAcl i) = Some TokenCaller" by (simp add: route_kind_def)
  from serve_caller [OF k, of lb cfg "envs (snd w)" "bearer c" "fst w"] show ?thesis
    using assms(1) [unfolded no_answer_def Do_route [OF route_delete_acl [OF assms(2)]]]
    by (auto simp: handleDeleteACL_def on_db_def
        split: if_splits option.splits sum.splits prod.splits dest!: DeleteACL_InlD DeleteACL_InrD)
qed

text \<open>The row of one identifier is the row of one grant.\<close>

lemma delete_row_triple:
  assumes "keys_ok d" "row \<in> set (db_acl d)"
  shows "row_delete (\<lambda>x. acl_id x = acl_id row) (db_acl d) = filter (\<lambda>x. acl_triple x \<noteq> acl_triple row) (db_acl d)"
proof -
  have "inj_on acl_id (set (db_acl d))" "inj_on acl_triple (set (db_acl d))"
    using assms(1) by (auto simp: keys_ok_def distinct_map)
  then have "x \<in> set (db_acl d) \<Longrightarrow> acl_id x = acl_id row \<longleftrightarrow> acl_triple x = acl_triple row" for x
    using assms(2) by (auto dest: inj_onD)
  then show ?thesis by (auto simp: row_delete_def intro!: filter_cong)
qed

lemma RevokeACL_cases:
  assumes "RevokeACL L c caller agent username w = (w', res)"
    "answer as_agent (Do L c ''GET'' (''/v1/agents/'' @ agent) None) w = (w1, r1)"
    "answer as_acls (Do L c ''GET'' (''/v1/acl?'' @ values_encode [(''caller'', caller)]) None) w1 = (w2, r2)"
  shows "(\<exists>x. res = Inl x) \<and> (w' = w1 \<or> w' = w2)
     \<or> (\<exists>ad es e r3. r1 = Inr ad \<and> r2 = Inr es \<and> e \<in> set es \<and> aes_AgentID e = ad_ID ad \<and> aes_Username e = username
          \<and> no_answer (Do L c ''DELETE'' (''/v1/acl/'' @ aes_ID e) None) w2 = (w', r3)
          \<and> res = map_sum id (\<lambda>_. e) r3)"
proof (cases r1)
  case (Inr ad)
  then show ?thesis
  proof (cases r2)
    case es: (Inr es)
    show ?thesis
    proof (cases "find (\<lambda>e. aes_AgentID e = ad_ID ad \<and> aes_Username e = username) es")
      case (Some e)
      have "e \<in> set es \<and> aes_AgentID e = ad_ID ad \<and> aes_Username e = username" using Some by (auto simp: find_Some_iff)
      then show ?thesis
        using assms es Inr Some
        by (cases "no_answer (Do L c ''DELETE'' (''/v1/acl/'' @ aes_ID e) None) w2")
          (auto simp: RevokeACL_def selectACLEntry_def split: sum.splits)
    qed (use assms Inr es in \<open>auto simp: RevokeACL_def selectACLEntry_def\<close>)
  qed (use assms Inr in \<open>auto simp: RevokeACL_def\<close>)
qed (use assms in \<open>auto simp: RevokeACL_def\<close>)

lemma revoke_found:
  assumes "RevokeACL (control_plane lb cfg envs other L c) c caller agent username w = (w', res)" "plain agent" "caller \<noteq> []"
  shows "(\<exists>x. res = Inl x) \<and> fst w' = fst w
     \<or> (\<exists>w2 ag row e r3. fst w2 = fst w \<and> ag \<in> set (db_agents (srv_db (fst w)))
          \<and> (ar_id ag = agent \<or> ar_name ag = agent) \<and> row \<in> set (db_acl (srv_db (fst w)))
          \<and> acl_triple row = (caller, ar_id ag, username) \<and> aes_ID e = acl_id row
          \<and> no_answer (Do (control_plane lb cfg envs other L c) c ''DELETE'' (''/v1/acl/'' @ aes_ID e) None) w2 = (w', r3)
          \<and> res = map_sum id (\<lambda>_. e) r3)"
proof -
  let ?L = "control_plane lb cfg envs other L c"
  obtain w1 r1 where c1: "answer as_agent (Do ?L c ''GET'' (''/v1/agents/'' @ agent) None) w = (w1, r1)" by fastforce
  obtain w2 r2 where c2: "answer as_acls (Do ?L c ''GET'' (''/v1/acl?'' @ values_encode [(''caller'', caller)]) None) w1
      = (w2, r2)" by fastforce
  note a = get_agent_call [OF c1 assms(2)] and b = list_acl_call [OF c2]
  from RevokeACL_cases [OF assms(1) c1 c2] show ?thesis
  proof (elim disjE exE conjE)
    fix ad es e r3
    assume r: "r1 = Inr ad" "r2 = Inr es" and e: "e \<in> set es" "aes_AgentID e = ad_ID ad" "aes_Username e = username"
      and c3: "no_answer (Do ?L c ''DELETE'' (''/v1/acl/'' @ aes_ID e) None) w2 = (w', r3)"
        "res = map_sum id (\<lambda>_. e) r3"
    from a r(1) obtain ag where ag: "ag \<in> set (db_agents (srv_db (fst w)))" "ad_ID ad = ar_id ag"
      "ar_id ag = agent \<or> ar_name ag = agent" by auto
    from b r(2) e(1) assms(3) a obtain row where row: "row \<in> set (db_acl (srv_db (fst w)))"
      "e = aclSummary (scanACL row)" "acl_caller row = caller" by auto
    have "aes_ID e = acl_id row" "acl_triple row = (caller, ar_id ag, username)"
      using e row(2,3) ag(2) by (auto simp: aclSummary_def scanACL_def acl_triple_def)
    with ag row c3 a b show ?thesis by (intro disjI2) metis
  qed (use a b in auto)
qed


definition demo_client :: client where
  "demo_client = \<lparr>cl_BaseURL = ''http://cp'', cl_Token = demo_raw\<rparr>"

definition demo_formats :: "(server \<times> nat) cli" where
  "demo_formats = \<lparr>cli_http = (\<lambda>_ _ _ _ w. (w, Inl [])), cli_quote = (\<lambda>s. s), cli_rfc3339 = (\<lambda>_. []),
     cli_json = (\<lambda>_. []), cli_duration = (\<lambda>_. Inl [])\<rparr>"

definition demo_cli :: "(server \<times> nat) cli" where
  "demo_cli = control_plane demo_libs demo_cfg (\<lambda>_. demo_env) (\<lambda>_ _ _. None) demo_formats demo_client"

lemma demo_bearer_client: "bearer demo_client = demo_hdr"
  by (simp only: bearer_def demo_client_def client.simps demo_bearer if_False demo_hdr_def)

lemma demo_Do:
  assumes "route_of (\<lambda>_ _ _. None) m path p = Some r" "route_kind r = Some TokenCaller"
  shows "Do demo_cli demo_client m path p (demo_server, k) =
     (case handle demo_libs demo_cfg demo_env (Some (demo_caller, None)) r demo_server of
        (s', resp) \<Rightarrow> ((s', Suc k), if status resp \<ge> 400
          then Inl (m @ '' '' @ path @ '': '' @ dec_nat (status resp) @ '': '' @ cli_json demo_formats (resp_body resp))
          else Inr (resp_body resp)))"
proof -
  have "serve demo_libs demo_cfg demo_env (bearer demo_client) r demo_server
     = handle demo_libs demo_cfg demo_env (Some (demo_caller, None)) r demo_server"
    using demo_auth assms(2) by (simp only: serve_def demo_bearer_client option.case sum.case)
  then show ?thesis unfolding demo_cli_def Do_route [OF assms(1)] by (simp only: fst_conv snd_conv)
qed

lemma demo_acl_revoke:
  assumes "caller = demo_tid \<or> caller = []"
  shows "\<exists>s' e. RevokeACL demo_cli demo_client caller ''web'' ''root'' (demo_server, 0) = ((s', 3), Inr e)
     \<and> db_acl (srv_db s') = [] \<and> aes_CallerTokenID e = demo_tid"
proof -
  let ?i = "''acl_111111112222333344445555''"
  let ?o = "\<lambda>_ _ _. None"
  have p: "plain ''web''" "plain ?i" by (simp_all add: plain_def unreserved_def is_letter_def is_digit_def)
  have k: "route_kind (GetAgentById n) = Some TokenCaller" "route_kind (GetAcl x y) = Some TokenCaller"
    "route_kind (DeleteAcl n) = Some TokenCaller" for n x y by (simp_all add: route_kind_def)
  note r = demo_Do [OF route_agent [OF p(1)] k(1)] demo_Do [OF route_list_acl k(2)] demo_Do [OF route_delete_acl [OF p(2)] k(3)]
  obtain ad where a: "answer as_agent (Do demo_cli demo_client ''GET'' (''/v1/agents/'' @ ''web'') None) (demo_server, 0)
      = ((demo_server, 1), Inr ad)" "ad_ID ad = demo_agent"
    unfolding answer_def r(1)
    by (simp add: handleGetAgent_def resolveAgent_def has_prefix_def GetAgentByName_def queryAgent_def demo_env_def
        no_fault_def demo_server_db demo_base_eval empty_db_def scanAgent_def agentDetail_def)
  obtain e where b: "answer as_acls (Do demo_cli demo_client ''GET'' (''/v1/acl?'' @ values_encode [(''caller'', caller)]) None)
      (demo_server, 1) = ((demo_server, 2), Inr [e])" "aes_ID e = ?i" "aes_AgentID e = demo_agent"
      "aes_Username e = ''root''" "aes_CallerTokenID e = demo_tid"
    unfolding answer_def r(2)
    using assms by (auto simp: handleListACL_def ListACL_def demo_env_def no_fault_def demo_server_db demo_base_eval
        empty_db_def aclSummary_def scanACL_def)
  obtain s' where c: "no_answer (Do demo_cli demo_client ''DELETE'' (''/v1/acl/'' @ ?i) None) (demo_server, 2)
      = ((s', 3), Inr ())" "db_acl (srv_db s') = []"
    unfolding no_answer_def r(3)
    by (simp add: handleDeleteACL_def DeleteACL_def in_tx_def on_db_def demo_env_def no_fault_def demo_server_db demo_base_eval
        empty_db_def row_delete_def rows_affected_def bumpPolicyVersionTx_def agent_ref_ok_def computePolicyHash_def
        agent_ids_def Let_def)
  show ?thesis
    using a b c by (simp add: RevokeACL_def selectACLEntry_def)
qed


text \<open>With an empty caller argument, as an unset shell variable gives it, the list is not filtered by
  caller: the command deletes another caller's grant and reports success.\<close>

theorem empty_caller_revokes_another:
  "\<exists>s' e. RevokeACL demo_cli demo_client [] ''web'' ''root'' (demo_server, 0) = ((s', 3), Inr e)
     \<and> aes_CallerTokenID e = demo_tid \<and> db_acl (srv_db demo_server) \<noteq> [] \<and> db_acl (srv_db s') = []"
  using demo_acl_revoke [of "[]"] by (auto simp: demo_server_db)

section \<open>What the commands show\<close>

text \<open>The endpoint that \<open>agents ls\<close> prints is the one that \<open>ssh\<close> dials without a subnet of its own.\<close>

theorem listed_endpoint_is_dialled:
  assumes "eps \<noteq> []"
  shows "pickEndpoint quote eps [] callerSubnets = Inr (bestEP callerSubnets eps)
     \<and> bestEP callerSubnets eps \<in> we_Address ` set eps"
proof -
  have m: "we_Address e \<in> we_Address ` set eps" if "find P eps = Some e" for P e
    using that by (auto simp: find_Some_iff)
  have "bestEP callerSubnets eps \<in> we_Address ` set eps"
    using m [of "\<lambda>e. we_Subnet e \<in> set callerSubnets"] assms
    by (cases eps; cases "find (\<lambda>e. we_Subnet e \<in> set callerSubnets) eps") (simp_all add: bestEP_def)
  moreover have "pickEndpoint quote eps [] callerSubnets = Inr (bestEP callerSubnets eps)"
    using assms by (simp add: pickEndpoint_def bestEP_def split: list.splits option.splits)
  ultimately show ?thesis by simp
qed

text \<open>With \<open>--json\<close> the two filters of \<open>agents ls\<close> have no effect.\<close>

theorem json_listing_ignores_filters:
  "runAgentsList L c cs now later True subnetFilter statusFilter = runAgentsList L c cs now later True [] []"
  by (simp add: runAgentsList_def)

end
