(* ===== verification/Cli_Agent.thy ===== *)
theory Cli_Agent
  imports Cli_Client Install_Doctor Agent_Policy Tokens
begin

text \<open>
  The commands that run on the agent's machine and on the operator's: \<^verbatim>\<open>cli/agent_cmd.go\<close>,
  \<^verbatim>\<open>config_cmd.go\<close>, \<^verbatim>\<open>ssh_cmd.go\<close>, \<^verbatim>\<open>tokenio.go\<close>, the pin of \<^verbatim>\<open>update_cmd.go\<close> and the per-user
  configuration of \<^verbatim>\<open>agent/config.go\<close>, on Unix. The files are those of the installer's \<open>host\<close>; the
  process around a command (environment variables, home directory, standard input) is the record
  \<open>process\<close>.
\<close>

section \<open>The process and its files\<close>

text \<open>\<open>pr_getenv\<close> is \<^verbatim>\<open>os.LookupEnv\<close>, \<open>pr_stdin\<close> the text up to the first newline of standard input or the
  error of reading it; \<open>pr_agent_toml\<close> and \<open>pr_cli_toml\<close> decode the two configuration files, with what
  was decoded before an error.\<close>

record cli_config =
  cc_Server :: string
  cc_Token :: string
  cc_SSHKeyPath :: string
  cc_SSHPrincipal :: string
  cc_Subnets :: "string list"

record process =
  pr_env :: install_env
  pr_getenv :: "string \<Rightarrow> string option"
  pr_home :: "(string, string) result"
  pr_stdin :: "(string, string) result"
  pr_tempdir :: string
  pr_agent_toml :: "string \<Rightarrow> (string, agent_config) result"
  pr_cli_toml :: "string \<Rightarrow> cli_config \<times> string option"
  pr_cli_text :: "cli_config \<Rightarrow> string"

definition Getenv :: "process \<Rightarrow> string \<Rightarrow> string" where
  "Getenv P k = (case pr_getenv P k of None \<Rightarrow> [] | Some v \<Rightarrow> v)"

definition empty_cli_config :: cli_config where
  "empty_cli_config = \<lparr>cc_Server = [], cc_Token = [], cc_SSHKeyPath = [], cc_SSHPrincipal = [], cc_Subnets = []\<rparr>"

text \<open>\<^verbatim>\<open>os.Remove\<close> of a file.\<close>

definition Remove_file :: "install_env \<Rightarrow> string \<Rightarrow> host \<Rightarrow> host" where
  "Remove_file env p h = (if ie_fault env ''remove'' p = None then h\<lparr>h_files := (h_files h)(p := None)\<rparr> else h)"

definition stat_ok :: "install_env \<Rightarrow> string \<Rightarrow> host \<Rightarrow> bool" where
  "stat_ok env p h \<longleftrightarrow> h_files h p \<noteq> None \<and> ie_fault env ''stat'' p = None"

section \<open>The agent's configuration file\<close>

definition user_config_path :: "process \<Rightarrow> string \<Rightarrow> (string, string) result" where
  "user_config_path P file =
     (if Getenv P ''XDG_CONFIG_HOME'' \<noteq> [] then Inr (path_join (path_join (Getenv P ''XDG_CONFIG_HOME'') ''uncluster'') file)
      else case pr_home P of
        Inl e \<Rightarrow> Inl e
      | Inr home \<Rightarrow> Inr (path_join (path_join (path_join home ''.config'') ''uncluster'') file))"

definition DefaultConfigPath :: "process \<Rightarrow> (string, string) result" where
  "DefaultConfigPath P = user_config_path P ''agent.toml''"

definition ResolveConfigPath :: "process \<Rightarrow> host \<Rightarrow> (string, string) result" where
  "ResolveConfigPath P h = (if stat_ok (pr_env P) SystemConfigPath h then Inr SystemConfigPath else DefaultConfigPath P)"

definition LoadConfig :: "process \<Rightarrow> string \<Rightarrow> host \<Rightarrow> (string, agent_config) result" where
  "LoadConfig P path h = (case ReadFile (pr_env P) path h of Inl e \<Rightarrow> Inl e | Inr b \<Rightarrow> pr_agent_toml P b)"

definition SaveConfig :: "process \<Rightarrow> string \<Rightarrow> agent_config \<Rightarrow> inst" where
  "SaveConfig P path cfg =
     run_steps [MkdirAll (pr_env P) 448 (filepath_dir path), WriteFile (pr_env P) path (ie_toml (pr_env P) cfg) 384]"

section \<open>Running the agent\<close>

datatype agent_run_error = RunErrDeprovisioned | RunErrUnauthorized | RunErrOther string

definition deprovisionedMarkerPath :: "process \<Rightarrow> string \<Rightarrow> string" where
  "deprovisionedMarkerPath P configPath =
     (if configPath \<noteq> [] then path_join (filepath_dir configPath) ''.deprovisioned''
      else case DefaultConfigPath P of
        Inr p \<Rightarrow> path_join (filepath_dir p) ''.deprovisioned''
      | Inl _ \<Rightarrow> ''.deprovisioned'')"

text \<open>\<open>run\<close> is \<^verbatim>\<open>a.Run\<close> of the agent that was built: its configuration, the path it was loaded from and
  the launcher's health marker, when the environment names one. The third result is what was
  written to standard error.\<close>

definition RunAgent :: "process \<Rightarrow> (agent_config \<Rightarrow> string \<Rightarrow> string option \<Rightarrow> host \<Rightarrow> host \<times> agent_run_error option) \<Rightarrow> host \<Rightarrow>
    host \<times> (string, unit) result \<times> string" where
  "RunAgent P run h =
     (case ResolveConfigPath P h of
        Inl e \<Rightarrow> (h, Inl e, [])
      | Inr p \<Rightarrow>
     (case LoadConfig P p h of
        Inl e \<Rightarrow> (h, Inl (''load agent config: '' @ e), [])
      | Inr cfg \<Rightarrow>
          if cf_Server cfg = [] \<or> cf_AgentToken cfg = []
          then (h, Inl ''agent not joined; run `uncluster agent join` first'', [])
          else
            let marker = (if Getenv P ''UNCLUSTER_HEALTH_MARKER'' = [] then None else Some (Getenv P ''UNCLUSTER_HEALTH_MARKER''))
            in if stat_ok (pr_env P) (deprovisionedMarkerPath P p) h
               then (h, Inr (), ''agent: previously deprovisioned by control plane; uninstall the service unit manually (see `uncluster agent install --help`).'' @ newline_char)
               else (case run cfg p marker h of
                   (h', None) \<Rightarrow> (h', Inr (), [])
                 | (h', Some RunErrDeprovisioned) \<Rightarrow> (h', Inr (),
                     ''agent: deprovisioned by control plane; principals wiped, supervisor should not restart'' @ newline_char)
                 | (h', Some RunErrUnauthorized) \<Rightarrow> (h', Inr (),
                     ''agent: unauthorized; agent token revoked or rotated; operator intervention required'' @ newline_char)
                 | (h', Some (RunErrOther e)) \<Rightarrow> (h', Inl e, []))))"

section \<open>The principals command\<close>

text \<open>The directory of the principals files, as far as the name \<open>n\<close>.\<close>

definition dir_of_host :: "string \<Rightarrow> string \<Rightarrow> host \<Rightarrow> pdir" where
  "dir_of_host dir n h =
     \<lparr>pd_exists = (h_files h dir \<noteq> None),
      pd_entries = (case Option.bind (h_files h (path_join dir n)) in_data of None \<Rightarrow> [] | Some b \<Rightarrow> [(n, DFile b)]),
      pd_trace = []\<rparr>"

definition agent_principals :: "process \<Rightarrow> string \<Rightarrow> host \<Rightarrow> string" where
  "agent_principals P username h =
     (case ResolveConfigPath P h of
        Inl _ \<Rightarrow> []
      | Inr cfgPath \<Rightarrow>
     (case LoadConfig P cfgPath h of
        Inl _ \<Rightarrow> []
      | Inr cfg \<Rightarrow>
          let dir = xp_PrincipalsDir (cf_ExpectedPaths cfg) in
          (case principalsFileContent (ie_fault (pr_env P) ''read'' (path_join dir (path_base username)) = None)
                  dir username (dir_of_host dir (path_base username) h) of
             None \<Rightarrow> [] | Some out \<Rightarrow> out)))"

section \<open>Installing, checking and joining\<close>

text \<open>\<open>executable\<close> is \<^verbatim>\<open>os.Executable()\<close>.\<close>

definition agent_install :: "process \<Rightarrow> (string, string) result \<Rightarrow> host \<Rightarrow> host \<times> (string, string) result" where
  "agent_install P executable h =
     (case DefaultConfigPath P of
        Inl e \<Rightarrow> (h, Inl e)
      | Inr cfgPath \<Rightarrow>
     (case LoadConfig P cfgPath h of
        Inl e \<Rightarrow> (h, Inl (''load agent config: '' @ e @ '' (run `uncluster agent join` first)''))
      | Inr cfg \<Rightarrow>
          if cf_AgentToken cfg = [] then (h, Inl ''agent not enrolled; run `uncluster agent join` first'')
          else if cf_CAPubkey cfg = [] then (h, Inl ''CA pubkey missing from agent config; re-enroll'')
          else (case executable of
             Inl e \<Rightarrow> (h, Inl (''resolve executable: '' @ e))
           | Inr exe \<Rightarrow>
               (case Install (pr_env P) cfg exe h of
                  (h', Inl e) \<Rightarrow> (h', Inl (''install: '' @ e))
                | (h', Inr _) \<Rightarrow>
                    (h', Inr (''install complete '' @ dash @ '' run `uncluster agent doctor` to verify'' @ newline_char))))))"

record doctor_summary =
  ds_OK :: nat
  ds_Warn :: nat
  ds_Fail :: nat

record doctor_json =
  dj_Checks :: "health_check list"
  dj_ExitCode :: nat
  dj_Summary :: doctor_summary

definition count_status :: "check_status \<Rightarrow> doctor_check list \<Rightarrow> nat" where
  "count_status st results = length (filter (\<lambda>r. dc_Status r = st) results)"

definition writeDoctorJSON :: "doctor_check list \<Rightarrow> nat \<Rightarrow> doctor_json" where
  "writeDoctorJSON results exitCode =
     \<lparr>dj_Checks = HealthChecks results, dj_ExitCode = exitCode,
      dj_Summary = \<lparr>ds_OK = count_status CheckOK results, ds_Warn = count_status CheckWarn results,
        ds_Fail = count_status CheckFail results\<rparr>\<rparr>"

definition status_label :: "check_status \<Rightarrow> string" where
  "status_label st = (case st of CheckOK \<Rightarrow> ''ok  '' | CheckWarn \<Rightarrow> ''warn'' | CheckFail \<Rightarrow> ''FAIL'')"

text \<open>The outcome: an error, or what is printed (the value for \<^verbatim>\<open>--json\<close>, else the lines) with the exit
  code.\<close>

definition agent_doctor :: "process \<Rightarrow> probe \<Rightarrow> bool \<Rightarrow> host \<Rightarrow> (string, (doctor_json + string) \<times> nat) result" where
  "agent_doctor P pb jsonOut h =
     (case ResolveConfigPath P h of
        Inl e \<Rightarrow> Inl e
      | Inr cfgPath \<Rightarrow>
     (case LoadConfig P cfgPath h of
        Inl e \<Rightarrow> Inl (''load agent config: '' @ e)
      | Inr cfg \<Rightarrow>
          let results = FullDoctor pb (cf_ExpectedPaths cfg) (cf_CAPubkey cfg) (cf_UpdateHostAllowlist cfg) cfgPath;
              code = ExitCode results
          in Inr (if jsonOut then Inl (writeDoctorJSON results code)
                  else Inr (concat (map (\<lambda>r. ''['' @ status_label (dc_Status r) @ ''] '' @ pad 30 (dc_Name r) @ '' ''
                     @ dc_Message r @ newline_char) results)), code)))"

definition ReadSecretToken :: "process \<Rightarrow> bool \<Rightarrow> (string, string) result" where
  "ReadSecretToken P tokenStdin =
     (if tokenStdin then
        (case pr_stdin P of
           Inl e \<Rightarrow> Inl (''read stdin: '' @ e)
         | Inr line \<Rightarrow> if trim_space line = [] then Inl ''empty token on stdin'' else Inr (trim_space line))
      else if Getenv P ''UNCLUSTER_TOKEN'' \<noteq> [] then Inr (Getenv P ''UNCLUSTER_TOKEN'')
      else Inl ''no token provided; use --token-stdin or set UNCLUSTER_TOKEN (never --token=<value>)'')"

definition joined_config :: "string \<Rightarrow> string \<Rightarrow> agent_register_response \<Rightarrow> agent_config" where
  "joined_config cp name resp =
     \<lparr>cf_Server = cp, cf_AgentID = arp_AgentID resp, cf_AgentName = name,
                cf_AgentToken = arp_AgentToken resp, cf_CAPubkey = arp_CAPubkey resp,
                cf_ServerHTTPSPin = arp_ServerHTTPSPin resp, cf_ExpectedPaths = arp_ExpectedPaths resp,
                cf_PinnedVersion = [], cf_UpdateHostAllowlist = None\<rparr>"

text \<open>\<open>register\<close> is the agent's client for \<^verbatim>\<open>POST /v1/agent/register\<close> at the given server, \<open>metrics\<close> what
  \<^verbatim>\<open>CollectMetrics\<close> found.\<close>

definition agent_join :: "process \<Rightarrow> (string \<Rightarrow> agent_register_request \<Rightarrow> ('w, agent_register_response) call) \<Rightarrow> metadata \<Rightarrow>
    string \<Rightarrow> string \<Rightarrow> bool \<Rightarrow> 'w \<times> host \<Rightarrow> ('w \<times> host) \<times> (string, string) result" where
  "agent_join P register metrics cp name tokenStdin wh =
     (let (w, h) = wh in
      if cp = [] then (wh, Inl ''--server is required'')
      else if name = [] then (wh, Inl ''--name is required'')
      else case DefaultConfigPath P of
        Inl e \<Rightarrow> (wh, Inl (''config path: '' @ e))
      | Inr cfgPath \<Rightarrow>
     (case (case LoadConfig P cfgPath h of Inr ex \<Rightarrow> if cf_AgentToken ex \<noteq> [] then Some ex else None | Inl _ \<Rightarrow> None) of
        Some ex \<Rightarrow> (wh, Inl (''already enrolled (agent_id='' @ cf_AgentID ex @ ''); remove '' @ cfgPath @ '' to re-enroll''))
      | None \<Rightarrow>
     (case ReadSecretToken P tokenStdin of
        Inl e \<Rightarrow> (wh, Inl e)
      | Inr tok \<Rightarrow>
     (case register cp \<lparr>arr_JoinToken = tok, arr_Name = name, arr_Metadata = metrics\<rparr> w of
        (w', Inl e) \<Rightarrow> ((w', h), Inl (''register: '' @ e))
      | (w', Inr resp) \<Rightarrow>
          let cfg = joined_config cp name resp
          in (case SaveConfig P cfgPath cfg h of
                (h', Inl e) \<Rightarrow> ((w', h'), Inl (''save config: '' @ e))
              | (h', Inr _) \<Rightarrow> ((w', h'), Inr (''registered: agent_id='' @ arp_AgentID resp @ ''  config='' @ cfgPath @ newline_char)))))))"

text \<open>\<^verbatim>\<open>agent update --pin\<close> and \<^verbatim>\<open>--unpin\<close>.\<close>

definition agent_update :: "process \<Rightarrow> string \<Rightarrow> bool \<Rightarrow> host \<Rightarrow> host \<times> (string, string) result" where
  "agent_update P pin unpin h =
     (if pin \<noteq> [] \<and> unpin then (h, Inl ''--pin and --unpin are mutually exclusive'')
      else case ResolveConfigPath P h of
        Inl e \<Rightarrow> (h, Inl e)
      | Inr cfgPath \<Rightarrow>
     (case LoadConfig P cfgPath h of
        Inl e \<Rightarrow> (h, Inl (''load agent config: '' @ e))
      | Inr cfg \<Rightarrow>
          let save = (if cfgPath = SystemConfigPath then SaveConfigSystem (pr_env P) cfgPath else SaveConfig P cfgPath)
          in if unpin then
               (case save (cfg\<lparr>cf_PinnedVersion := []\<rparr>) h of
                  (h', Inl e) \<Rightarrow> (h', Inl e)
                | (h', Inr _) \<Rightarrow> (h', Inr (''version pin cleared '' @ dash @ '' agent will follow server's expected_version'' @ newline_char)))
             else if pin \<noteq> [] then
               (case save (cfg\<lparr>cf_PinnedVersion := pin\<rparr>) h of
                  (h', Inl e) \<Rightarrow> (h', Inl e)
                | (h', Inr _) \<Rightarrow> (h', Inr (''version pinned to '' @ pin @ '' '' @ dash @ '' agent will not update until unpinned'' @ newline_char)))
             else (h, Inr (if cf_PinnedVersion cfg = [] then ''no version pin set (following server's expected_version)'' @ newline_char
                           else ''pinned to '' @ cf_PinnedVersion cfg @ newline_char))))"

section \<open>The operator's configuration\<close>

definition cliConfigPath :: "process \<Rightarrow> (string, string) result" where
  "cliConfigPath P = user_config_path P ''cli.toml''"

text \<open>The configuration, with the error that came with it; \<^verbatim>\<open>os.IsNotExist\<close> tells a missing file.\<close>

definition LoadCLIConfig :: "process \<Rightarrow> host \<Rightarrow> cli_config \<times> string option" where
  "LoadCLIConfig P h =
     (case cliConfigPath P of
        Inl e \<Rightarrow> (empty_cli_config, Some e)
      | Inr p \<Rightarrow>
          if h_files h p = None then (empty_cli_config, None)
          else case ReadFile (pr_env P) p h of
            Inl e \<Rightarrow> (empty_cli_config, Some e)
          | Inr b \<Rightarrow> pr_cli_toml P b)"

definition SaveCLIConfig :: "process \<Rightarrow> cli_config \<Rightarrow> inst" where
  "SaveCLIConfig P cfg h =
     (case cliConfigPath P of
        Inl e \<Rightarrow> (h, Inl e)
      | Inr p \<Rightarrow> run_steps [MkdirAll (pr_env P) 448 (filepath_dir p), WriteFile (pr_env P) p (pr_cli_text P cfg) 384] h)"

definition loadConfiguredCLI :: "process \<Rightarrow> host \<Rightarrow> (string, cli_config \<times> client) result" where
  "loadConfiguredCLI P h =
     (case LoadCLIConfig P h of
        (cfg, Some e) \<Rightarrow> Inl e
      | (cfg, None) \<Rightarrow>
          if cc_Server cfg = [] \<or> cc_Token cfg = []
          then Inl ''CLI not configured; run `uncluster config set server=URL` and `uncluster config set token --stdin`''
          else Inr (cfg, \<lparr>cl_BaseURL = cc_Server cfg, cl_Token = cc_Token cfg\<rparr>))"

text \<open>One argument of \<^verbatim>\<open>config set\<close>, and all of them.\<close>

definition set_argument :: "(string \<Rightarrow> string) \<Rightarrow> string \<Rightarrow> cli_config \<Rightarrow> (string, cli_config) result" where
  "set_argument quote kv cfg =
     (case split_n 1 (CHR ''='') kv of
        [k, v] \<Rightarrow>
          if k = ''server'' then Inr (cfg\<lparr>cc_Server := v\<rparr>)
          else if k = ''token'' then Inl ''refusing to read 'token' from argv; use `config set token --stdin`''
          else if k = ''ssh_key_path'' then Inr (cfg\<lparr>cc_SSHKeyPath := v\<rparr>)
          else if k = ''ssh_principal_default'' then Inr (cfg\<lparr>cc_SSHPrincipal := v\<rparr>)
          else if k = ''subnets'' then Inr (cfg\<lparr>cc_Subnets := (if v = [] then [] else split_char (CHR '','') v)\<rparr>)
          else Inl (''unknown key '' @ quote k)
      | _ \<Rightarrow> Inl (''bad argument '' @ quote kv @ ''; want key=value''))"

fun set_arguments :: "(string \<Rightarrow> string) \<Rightarrow> string list \<Rightarrow> cli_config \<Rightarrow> (string, cli_config) result" where
  "set_arguments quote [] cfg = Inr cfg"
| "set_arguments quote (kv # kvs) cfg =
     (case set_argument quote kv cfg of Inl e \<Rightarrow> Inl e | Inr cfg' \<Rightarrow> set_arguments quote kvs cfg')"

definition config_set :: "process \<Rightarrow> bool \<Rightarrow> string list \<Rightarrow> inst" where
  "config_set P setStdin args h =
     (let cfg = fst (LoadCLIConfig P h) in
      case (if setStdin then map_sum id (\<lambda>line. cfg\<lparr>cc_Token := trim_space line\<rparr>) (pr_stdin P) else Inr cfg) of
        Inl e \<Rightarrow> (h, Inl e)
      | Inr cfg1 \<Rightarrow>
     (case set_arguments (ie_quote (pr_env P)) args cfg1 of
        Inl e \<Rightarrow> (h, Inl e)
      | Inr cfg2 \<Rightarrow> SaveCLIConfig P cfg2 h))"

definition truncID :: "string \<Rightarrow> string" where
  "truncID full =
     (let parts = split_char (CHR ''_'') full in
      if length parts \<ge> 3 \<and> length (parts ! 2) \<ge> 4 then drop (length (parts ! 2) - 4) (parts ! 2) else ''****'')"

text \<open>\<^verbatim>\<open>config show\<close>; \<open>show_list\<close> is \<^verbatim>\<open>%v\<close> of a slice of strings.\<close>

definition show_list :: "string list \<Rightarrow> string" where
  "show_list xs = ''['' @ join_with '' '' xs @ '']''"

definition config_show :: "process \<Rightarrow> host \<Rightarrow> (string, string) result" where
  "config_show P h =
     (case LoadCLIConfig P h of
        (cfg, Some e) \<Rightarrow> Inl e
      | (cfg, None) \<Rightarrow>
          let q = ie_quote (pr_env P) in
          Inr (''server            = '' @ q (cc_Server cfg) @ newline_char
            @ (if cc_Token cfg \<noteq> [] then ''token             = '' @ q (''uct_***_'' @ truncID (cc_Token cfg)) @ newline_char
               else ''token             = (unset)'' @ newline_char)
            @ (if cc_SSHKeyPath cfg \<noteq> [] then ''ssh_key_path      = '' @ q (cc_SSHKeyPath cfg) @ newline_char else [])
            @ (if cc_SSHPrincipal cfg \<noteq> [] then ''ssh_principal     = '' @ q (cc_SSHPrincipal cfg) @ newline_char else [])
            @ (if cc_Subnets cfg \<noteq> [] then ''subnets           = '' @ show_list (cc_Subnets cfg) @ newline_char else [])))"

section \<open>ssh\<close>

definition home_or_empty :: "process \<Rightarrow> string" where
  "home_or_empty P = (case pr_home P of Inl _ \<Rightarrow> [] | Inr home \<Rightarrow> home)"

definition expandHome :: "process \<Rightarrow> string \<Rightarrow> string" where
  "expandHome P path = (if has_prefix ''~/'' path then path_join (home_or_empty P) (drop 2 path) else path)"

definition certTempDir :: "process \<Rightarrow> string" where
  "certTempDir P =
     (if Getenv P ''XDG_RUNTIME_DIR'' \<noteq> [] then path_join (Getenv P ''XDG_RUNTIME_DIR'') ''uncluster''
      else path_join (pr_tempdir P) ''uncluster-certs'')"

text \<open>The command returns, or the process exits with a status.\<close>

datatype ssh_end = Returned "string option" | Exited int

text \<open>How ssh ended: with status zero, with another status, or not at all.\<close>

datatype ssh_status = SshOk | SshExit int | SshFailed string

definition ssh_args :: "string \<Rightarrow> string \<Rightarrow> string \<Rightarrow> string \<Rightarrow> string list \<Rightarrow> string list" where
  "ssh_args sshKeyPath certPath login address extra =
     [''-i'', sshKeyPath, ''-o'', ''CertificateFile='' @ certPath, ''-o'', ''IdentitiesOnly=yes'',
      login @ ''@'' @ address] @ extra"

definition chosen_principal :: "process \<Rightarrow> string \<Rightarrow> cli_config \<Rightarrow> string" where
  "chosen_principal P asUser cfg =
     (let login = (if asUser \<noteq> [] then asUser else cc_SSHPrincipal cfg)
      in if login \<noteq> [] then login else Getenv P ''USER'')"

text \<open>From the certificate on: the file, the run of ssh (\<open>ssh\<close>, with the arguments and the files it meets)
  and the deferred removal, which \<^verbatim>\<open>os.Exit\<close> does not run. \<open>rnd\<close> are the random bytes of the file's name.\<close>

definition run_ssh :: "process \<Rightarrow> (string list \<Rightarrow> host \<Rightarrow> ssh_status) \<Rightarrow> string \<Rightarrow> string \<Rightarrow> string \<Rightarrow> string \<Rightarrow> string \<Rightarrow> string list \<Rightarrow>
    host \<Rightarrow> host \<times> ssh_end" where
  "run_ssh P ssh rnd certificate sshKeyPath login address extra h =
     (case MkdirAll (pr_env P) 448 (certTempDir P) h of
        (h1, Inl e) \<Rightarrow> (h1, Returned (Some (''cert dir: '' @ e)))
      | (h1, Inr _) \<Rightarrow>
          let certPath = path_join (certTempDir P) (''cert-'' @ hex_encode rnd @ ''-cert.pub'') in
     (case WriteFile (pr_env P) certPath certificate 384 h1 of
        (h2, Inl e) \<Rightarrow> (h2, Returned (Some (''write cert: '' @ e)))
      | (h2, Inr _) \<Rightarrow>
          let cleaned = Remove_file (pr_env P) certPath h2 in
          if \<not> ie_lookpath (pr_env P) ''ssh'' then (cleaned, Returned (Some (''ssh not found in PATH: exec: '' @ [CHR 34] @ ''ssh'' @ [CHR 34] @ '': executable file not found in $PATH'')))
          else (case ssh (ssh_args sshKeyPath certPath login address extra) h2 of
              SshOk \<Rightarrow> (cleaned, Returned None)
            | SshFailed e \<Rightarrow> (cleaned, Returned (Some e))
            | SshExit n \<Rightarrow> (h2, Exited n))))"

definition ssh_cmd :: "process \<Rightarrow> 'w cli \<Rightarrow> (string list \<Rightarrow> host \<Rightarrow> ssh_status) \<Rightarrow> string \<Rightarrow> string \<Rightarrow> string \<Rightarrow> string list \<Rightarrow>
    'w \<times> host \<Rightarrow> ('w \<times> host) \<times> ssh_end" where
  "ssh_cmd P L ssh rnd asUser subnet args wh =
     (let (w, h) = wh; (agentArg, extra) = splitSSHArgs args in
      case loadConfiguredCLI P h of
        Inl e \<Rightarrow> (wh, Returned (Some e))
      | Inr (cfg, c) \<Rightarrow>
          let sshKeyPath = expandHome P (if cc_SSHKeyPath cfg = [] then path_join (path_join (home_or_empty P) ''.ssh'') ''id_ed25519''
                                          else cc_SSHKeyPath cfg);
              login = chosen_principal P asUser cfg
          in if login = [] then (wh, Returned (Some ''no username; set --as <user> or ssh_principal_default in config''))
             else (case GetAgent_cli L c agentArg w of
               (w1, Inl e) \<Rightarrow> ((w1, h), Returned (Some (''resolve agent: '' @ e)))
             | (w1, Inr ag) \<Rightarrow>
             (case pickEndpoint (cli_quote L) (ad_Endpoints ag) subnet (cc_Subnets cfg) of
               Inl e \<Rightarrow> ((w1, h), Returned (Some e))
             | Inr address \<Rightarrow>
             (case ReadFile (pr_env P) (sshKeyPath @ ''.pub'') h of
               Inl e \<Rightarrow> ((w1, h), Returned (Some (''read public key '' @ sshKeyPath @ ''.pub: '' @ e)))
             | Inr pubkey \<Rightarrow>
             (case RequestCert L c \<lparr>crq_Agent = ad_ID ag, crq_Username = login, crq_Pubkey = trim_space pubkey,
                  crq_TTLSeconds = 0\<rparr> w1 of
               (w2, Inl e) \<Rightarrow> ((w2, h), Returned (Some (''cert request: '' @ e)))
             | (w2, Inr resp) \<Rightarrow>
                 (case run_ssh P ssh rnd (crp_Certificate resp) sshKeyPath login address extra h of
                    (h', r) \<Rightarrow> ((w2, h'), r)))))))"

section \<open>Joining\<close>

lemma SaveConfig_saved:
  assumes "SaveConfig P path cfg h = (h', Inr ())"
  shows "\<exists>i. h_files h' path = Some i \<and> in_data i = Some (ie_toml (pr_env P) cfg)
     \<and> (h_files h path = None \<longrightarrow> in_perm i AND 63 = 0)
     \<and> (\<forall>j. h_files h path = Some j \<longrightarrow> in_perm i = in_perm j)"
proof -
  obtain h1 where m: "MkdirAll (pr_env P) 448 (filepath_dir path) h = (h1, Inr ())"
    and w: "WriteFile (pr_env P) path (ie_toml (pr_env P) cfg) 384 h1 = (h', Inr ())"
    using assms by (auto simp: SaveConfig_def split: prod.splits sum.splits)
  note ch = MkdirAll_changes [OF m]
  have mask: "(384 AND x) AND 63 = (0 :: 32 word)" for x
  proof -
    have "(384 AND x) AND 63 = x AND (384 AND (63 :: 32 word))" by (simp only: ac_simps)
    then show ?thesis by simp
  qed
  have c: "h_files h1 path = h_files h path
      \<or> h_files h path = None \<and> h_files h1 path = Some (new_inode (pr_env P) None 448 path)" using ch by metis
  have none: "in_data (new_inode (pr_env P) None 448 path) = None" by (simp add: new_inode_def)
  show ?thesis
  proof (cases "h_files h1 path")
    case None
    then have "h_files h path = None" using c by auto
    moreover have "h_files h' path = Some ((new_inode (pr_env P) (Some []) 384 path)\<lparr>in_data := Some (ie_toml (pr_env P) cfg)\<rparr>)"
      using w None by (auto simp: WriteFile_def put_inode_def split: option.splits if_splits)
    ultimately show ?thesis by (simp add: new_inode_def mask)
  next
    case (Some i)
    then have "h_files h' path = Some (i\<lparr>in_data := Some (ie_toml (pr_env P) cfg)\<rparr>)" "in_data i \<noteq> None"
      using w by (auto simp: WriteFile_def put_inode_def split: option.splits if_splits)
    moreover from this(2) have "h_files h path = Some i" using c Some none by auto
    ultimately show ?thesis by simp
  qed
qed


definition demo_cli_env :: install_env where
  "demo_cli_env = \<lparr>ie_goos = ''linux'', ie_lookpath = (\<lambda>_. False), ie_run = (\<lambda>_ h. (h, Inl ([], ''not found''))), ie_svc_new = None,
     ie_svc_install = (\<lambda>_ h. (h, Inr ())), ie_svc_uninstall = (\<lambda>_ h. (h, Inr ())), ie_toml = cf_AgentToken,
     ie_fault = (\<lambda>_ _. None), ie_short = (\<lambda>_. None), ie_umask = 18, ie_newgid = (\<lambda>_. 0), ie_temp = None,
     ie_same = (\<lambda>_ _. False), ie_store_fault = (\<lambda>_ _. False), ie_store_sync = None, ie_store_text = (\<lambda>_. []),
     ie_version = ''v1'', ie_quote = id\<rparr>"

definition demo_cli_paths :: expected_paths where
  "demo_cli_paths = \<lparr>xp_CAPubkey = ''/etc/ssh/ca.pub'', xp_SSHDropIn = ''/etc/ssh/drop-in'', xp_PrincipalsDir = ''/etc/ssh/principals''\<rparr>"

definition demo_cli_host :: host where
  "demo_cli_host = \<lparr>h_files = [''/'' \<mapsto> \<lparr>in_data = None, in_uid = 0, in_gid = 0, in_perm = 493\<rparr>,
       ''/opt'' \<mapsto> \<lparr>in_data = None, in_uid = 0, in_gid = 0, in_perm = 511\<rparr>],
     h_store = \<lparr>st_root = ''/var/lib/uncluster'', st_links = Map.empty, st_bins = [], st_quarantine = []\<rparr>, h_log = []\<rparr>"

definition demo_process :: process where
  "demo_process = \<lparr>pr_env = demo_cli_env, pr_getenv = [''XDG_CONFIG_HOME'' \<mapsto> ''/opt'', ''UNCLUSTER_TOKEN'' \<mapsto> ''uct_join''],
     pr_home = Inl ''no home'', pr_stdin = Inl ''closed'', pr_tempdir = ''/tmp'',
     pr_agent_toml = (\<lambda>t. Inr \<lparr>cf_Server = ''https://cp'', cf_AgentID = ''a1'', cf_AgentName = ''n'', cf_AgentToken = t,
        cf_CAPubkey = ''ssh-ed25519 AAAA'', cf_ServerHTTPSPin = [], cf_ExpectedPaths = demo_cli_paths, cf_PinnedVersion = [],
        cf_UpdateHostAllowlist = None\<rparr>),
     pr_cli_toml = (\<lambda>_. (empty_cli_config, None)), pr_cli_text = cc_Token\<rparr>"

text \<open>A control plane that counts its registrations.\<close>

definition demo_enrol_call :: "string \<Rightarrow> agent_register_request \<Rightarrow> (nat, agent_register_response) call" where
  "demo_enrol_call cp req n =
     (Suc n, Inr \<lparr>arp_AgentID = ''a1'', arp_AgentToken = arr_JoinToken req @ ''-agent'', arp_CAPubkey = ''ssh-ed25519 AAAA'',
        arp_ServerHTTPSPin = [], arp_ExpectedPaths = demo_cli_paths\<rparr>)"

lemma demo_join: "map_prod (\<lambda>(n, h). (n, is_dir h ''/opt/uncluster'')) id
    (agent_join demo_process demo_enrol_call None ''https://cp'' ''n'' False (0, demo_cli_host))
  = ((1, True), Inr (''registered: agent_id=a1  config=/opt/uncluster/agent.toml'' @ newline_char))"
  by code_simp


text \<open>A file that was there keeps its mode, however many may read it.\<close>

theorem SaveConfig_keeps_loose_mode:
  assumes "SaveConfig P path cfg h = (h', Inr ())" "h_files h path = Some j"
  shows "\<exists>i. h_files h' path = Some i \<and> in_data i = Some (ie_toml (pr_env P) cfg) \<and> in_perm i = in_perm j"
  using SaveConfig_saved [OF assms(1)] assms(2) by auto

section \<open>Starting and stopping\<close>

text \<open>An agent that was deprovisioned, and left its marker, ends as a success, so that the supervisor does
  not restart it; and any later start ends as a success without running the agent.\<close>

theorem deprovisioned_agent_stays_down:
  assumes "ResolveConfigPath P h = Inr p" "LoadConfig P p h = Inr cfg" "cf_Server cfg \<noteq> []" "cf_AgentToken cfg \<noteq> []"
    "run cfg p m h = (h1, Some RunErrDeprovisioned)" "m = (if Getenv P ''UNCLUSTER_HEALTH_MARKER'' = [] then None
        else Some (Getenv P ''UNCLUSTER_HEALTH_MARKER''))"
    "\<And>q. ie_fault (pr_env P) ''stat'' q = None" "\<And>q. q \<in> {p, SystemConfigPath} \<Longrightarrow> h_files h1 q = h_files h q"
    "h_files h1 (deprovisionedMarkerPath P p) \<noteq> None"
  shows "fst (snd (RunAgent P run h)) = Inr ()
     \<and> RunAgent P run2 h1 = (h1, Inr (), snd (snd (RunAgent P run2 h1)))"
proof -
  have s: "stat_ok (pr_env P) q x \<longleftrightarrow> h_files x q \<noteq> None" for q x using assms(7) by (simp add: stat_ok_def)
  have "ResolveConfigPath P h1 = Inr p" using assms(1,8) by (auto simp: ResolveConfigPath_def s split: if_splits)
  moreover have "LoadConfig P p h1 = Inr cfg" using assms(2,8) by (simp add: LoadConfig_def ReadFile_def)
  ultimately show ?thesis using assms by (auto simp: RunAgent_def s Let_def)
qed

section \<open>The login command\<close>

text \<open>The command prints nothing but the content of one file that lies in the principals directory of the
  loaded configuration and has exactly the given name; so no name leads out of the directory.\<close>

theorem principals_fail_closed:
  assumes "agent_principals P username h \<noteq> []"
  shows "\<exists>path cfg i. ResolveConfigPath P h = Inr path \<and> LoadConfig P path h = Inr cfg
     \<and> CHR ''/'' \<notin> set username \<and> username \<notin> {[], ''.'', ''..''} \<and> xp_PrincipalsDir (cf_ExpectedPaths cfg) \<noteq> []
     \<and> h_files h (path_join (xp_PrincipalsDir (cf_ExpectedPaths cfg)) username) = Some i
     \<and> in_data i = Some (agent_principals P username h)"
proof -
  from assms obtain path cfg where c: "ResolveConfigPath P h = Inr path" "LoadConfig P path h = Inr cfg"
    by (auto simp: agent_principals_def split: sum.splits)
  let ?d = "xp_PrincipalsDir (cf_ExpectedPaths cfg)"
  from assms c obtain out where o: "principalsFileContent (ie_fault (pr_env P) ''read'' (path_join ?d (path_base username)) = None)
      ?d username (dir_of_host ?d (path_base username) h) = Some out" "agent_principals P username h = out"
    by (auto simp: agent_principals_def Let_def split: option.splits)
  then have b: "path_base username = username" "username \<noteq> ''/''" "username \<notin> {''.'', ''..''}" "?d \<noteq> []"
    "file_of (dir_of_host ?d username h) username = Some out"
    by (auto simp: principalsFileContent_def Let_def split: if_splits)
  have sl: "CHR ''/'' \<notin> set username"
  proof -
    have "CHR ''/'' \<notin> set (path_base u) \<or> path_base u = ''/''" for u
      by (auto simp: path_base_def Let_def dest: set_takeWhileD)
    then show ?thesis using b(1,2) by metis
  qed
  moreover have "username \<noteq> []" using b(1) by (auto simp: path_base_def)
  moreover from b(5) obtain i where "h_files h (path_join ?d username) = Some i" "in_data i = Some out"
    by (auto simp: dir_of_host_def file_of_def file_in_def bind_eq_Some_conv split: option.splits)
  ultimately show ?thesis using c b o(2) by blast
qed

section \<open>The doctor's report\<close>

text \<open>The three parts of the JSON report agree: the exit code is two exactly when a failure is counted, one
  exactly when none is but a warning, and every check is counted once.\<close>

theorem doctor_json_consistent:
  assumes "agent_doctor P pb True h = Inr (Inl j, code)"
  shows "dj_ExitCode j = code
     \<and> code = (if ds_Fail (dj_Summary j) > 0 then 2 else if ds_Warn (dj_Summary j) > 0 then 1 else 0)
     \<and> ds_OK (dj_Summary j) + ds_Warn (dj_Summary j) + ds_Fail (dj_Summary j) = length (dj_Checks j)"
proof -
  obtain results where r: "j = writeDoctorJSON results (ExitCode results)" "code = ExitCode results"
    using assms by (auto simp: agent_doctor_def Let_def split: sum.splits)
  have "count_status CheckOK rs + count_status CheckWarn rs + count_status CheckFail rs = length rs" for rs
  proof (induction rs)
    case (Cons x rs)
    then show ?case by (cases "dc_Status x") (auto simp: count_status_def)
  qed (simp add: count_status_def)
  moreover have "0 < count_status st rs \<longleftrightarrow> (\<exists>x \<in> set rs. dc_Status x = st)" for st rs
    by (auto simp: count_status_def filter_empty_conv)
  moreover have "length (HealthChecks results) = length results" by (simp add: HealthChecks_def)
  ultimately show ?thesis
    unfolding r by (auto simp: writeDoctorJSON_def ExitCode_def exit_code_from_cases)
qed

section \<open>The operator's commands\<close>

text \<open>\<open>config set\<close> changes all it was told or nothing: after an error (before the file is opened) the
  machine is as it was, and on success the file holds the old configuration with the arguments
  applied in order, and with the token of standard input where that was asked for.\<close>

theorem config_set_all_or_nothing:
  assumes "config_set P setStdin args h = (h', r)"
  shows "(\<exists>cfg1 cfg2. (setStdin \<longrightarrow> (\<exists>line. pr_stdin P = Inr line \<and> cfg1 = fst (LoadCLIConfig P h)\<lparr>cc_Token := trim_space line\<rparr>))
        \<and> (\<not> setStdin \<longrightarrow> cfg1 = fst (LoadCLIConfig P h))
        \<and> set_arguments (ie_quote (pr_env P)) args cfg1 = Inr cfg2 \<and> cc_Token cfg2 = cc_Token cfg1
        \<and> SaveCLIConfig P cfg2 h = (h', r))
     \<or> h' = h \<and> (\<exists>e. r = Inl e)"
proof -
  have one: "set_argument q kv c = Inr c' \<Longrightarrow> cc_Token c' = cc_Token c" for q kv c c'
    by (auto simp: set_argument_def split: list.splits if_splits)
  have t: "set_arguments q kvs c = Inr c' \<Longrightarrow> cc_Token c' = cc_Token c" for q kvs c c'
    by (induction kvs arbitrary: c) (auto split: sum.splits dest!: one)
  have step: "(\<exists>cfg2. set_arguments (ie_quote (pr_env P)) args c = Inr cfg2 \<and> cc_Token cfg2 = cc_Token c
        \<and> SaveCLIConfig P cfg2 h = (h', r)) \<or> h' = h \<and> (\<exists>e. r = Inl e)"
    if "(case set_arguments (ie_quote (pr_env P)) args c of Inl e \<Rightarrow> (h, Inl e) | Inr cfg2 \<Rightarrow> SaveCLIConfig P cfg2 h) = (h', r)" for c
    using that t by (cases "set_arguments (ie_quote (pr_env P)) args c") auto
  show ?thesis
  proof (cases setStdin)
    case False
    then show ?thesis using step assms by (simp add: config_set_def)
  next
    case True
    show ?thesis
    proof (cases "pr_stdin P")
      case (Inl e)
      then show ?thesis using assms True by (auto simp: config_set_def)
    next
      case (Inr line)
      then show ?thesis using step [of "fst (LoadCLIConfig P h)\<lparr>cc_Token := trim_space line\<rparr>"] assms True
        by (simp add: config_set_def)
    qed
  qed
qed

text \<open>The error of loading the configuration is dropped: when the file is there but cannot be read, the
  command replaces it by one that holds only what this command sets, and reports success.\<close>

theorem config_set_forgets_unreadable:
  assumes "cliConfigPath P = Inr p" "h_files h p = Some i" "ie_fault (pr_env P) ''read'' p = Some t"
    "set_arguments (ie_quote (pr_env P)) args empty_cli_config = Inr cfg" "config_set P False args h = (h', Inr ())"
  shows "\<exists>j. h_files h' p = Some j \<and> in_data j = Some (pr_cli_text P cfg) \<and> cc_Token cfg = []"
proof -
  have "fst (LoadCLIConfig P h) = empty_cli_config" using assms(1-3) by (simp add: LoadCLIConfig_def ReadFile_def)
  with config_set_all_or_nothing [OF assms(5)] assms(4)
  have s: "SaveCLIConfig P cfg h = (h', Inr ())" and t: "cc_Token cfg = cc_Token empty_cli_config" by auto
  from s assms(1) obtain h1 where "WriteFile (pr_env P) p (pr_cli_text P cfg) 384 h1 = (h', Inr ())"
    by (auto simp: SaveCLIConfig_def split: prod.splits sum.splits)
  from WriteFile_ok [OF this] t show ?thesis by (auto simp: empty_cli_config_def)
qed

text \<open>What \<open>config show\<close> prints of a token does not depend on its secret.\<close>

theorem shown_token_hides_secret:
  assumes "CHR ''_'' \<notin> set (t_kind t)" "CHR ''_'' \<notin> set (t_id t)"
  shows "truncID (token_string t) = (if length (t_id t) \<ge> 4 then drop (length (t_id t) - 4) (t_id t) else ''****'')"
proof -
  have "split_char (CHR ''_'') (token_string t)
      = ''uct'' # t_kind t # t_id t # split_char (CHR ''_'') (t_secret t)"
    using assms by (simp add: token_string_def split_char_field)
  then show ?thesis by (cases "split_char (CHR ''_'') (t_secret t)") (simp_all add: truncID_def)
qed

text \<open>The certificate's file: it is gone when the command returns, but when ssh ends with a status of its
  own, the exit skips the removal and the certificate stays.\<close>

theorem ssh_certificate_file:
  assumes "run_ssh P ssh rnd certificate key user address extra h = (h', r)" "certPath = path_join (certTempDir P) (''cert-'' @ hex_encode rnd @ ''-cert.pub'')"
    "ie_fault (pr_env P) ''remove'' certPath = None"
  shows "(\<forall>n. r = Exited n \<longrightarrow> (\<exists>i. h_files h' certPath = Some i \<and> in_data i = Some certificate))
     \<and> (r = Returned None \<longrightarrow> h_files h' certPath = None)"
proof -
  have w: "WriteFile (pr_env P) certPath certificate 384 x = (y, Inr ()) \<Longrightarrow>
      \<exists>i. h_files y certPath = Some i \<and> in_data i = Some certificate" for x y
    by (auto dest!: WriteFile_ok)
  show ?thesis
    using assms(1,3) unfolding assms(2) [symmetric] run_ssh_def Let_def
    by (auto simp: Remove_file_def split: prod.splits sum.splits if_splits ssh_status.splits dest!: w)
qed

end
