(* ===== verification/Config_Wizard.thy ===== *)
theory Config_Wizard
  imports Cli_Agent
begin

text \<open>
  The interactive set-up of the operator's configuration, \<^verbatim>\<open>promptLine\<close> and \<^verbatim>\<open>config init\<close> of
  \<^verbatim>\<open>cli/config_cmd.go\<close>, on Unix.
\<close>

section \<open>Standard input\<close>

text \<open>Standard input is the list of what the next calls of \<^verbatim>\<open>read\<close> return, an error among them; at its end
  every call reports the end of the file. \<open>read_line\<close> is \<^verbatim>\<open>bufio.NewReader(os.Stdin).ReadString\<close> up to a
  newline: the reader is new, and what it has read beyond the newline is lost with it.\<close>

type_synonym stdin = "(string, string) result list"

fun read_line :: "stdin \<Rightarrow> stdin \<times> (string, string) result" where
  "read_line [] = ([], Inr [])"
| "read_line (Inl e # more_input) = (more_input, Inl e)"
| "read_line (Inr c # more_input) =
     (if CHR 0x0A \<in> set c then (more_input, Inr (takeWhile (\<lambda>x. x \<noteq> CHR 0x0A) c @ newline_char))
      else case read_line more_input of
        (rest, Inl e) \<Rightarrow> (rest, Inl e)
      | (rest, Inr s) \<Rightarrow> (rest, Inr (c @ s)))"

definition promptLine :: "string \<Rightarrow> string \<Rightarrow> stdin \<Rightarrow> stdin \<times> (string, string \<times> string) result" where
  "promptLine prompt defaultVal inp =
     (let shown = (if defaultVal \<noteq> [] then prompt @ '' ['' @ defaultVal @ '']: '' else prompt @ '': '') in
      case read_line inp of
        (rest, Inl e) \<Rightarrow> (rest, Inl e)
      | (rest, Inr line) \<Rightarrow> (rest, Inr (shown, if trim_space line = [] then defaultVal else trim_space line)))"

section \<open>The wizard\<close>

definition init_defaults :: "process \<Rightarrow> cli_config \<Rightarrow> string \<times> string \<times> string" where
  "init_defaults P cfg =
     (if cc_SSHKeyPath cfg \<noteq> [] then cc_SSHKeyPath cfg else path_join (path_join (home_or_empty P) ''.ssh'') ''id_ed25519'',
      if cc_SSHPrincipal cfg \<noteq> [] then cc_SSHPrincipal cfg else Getenv P ''USER'',
      join_with '','' (cc_Subnets cfg))"

text \<open>The warning about a key that does not exist; another error of \<^verbatim>\<open>os.Stat\<close> prints nothing.\<close>

definition key_warning :: "process \<Rightarrow> string \<Rightarrow> host \<Rightarrow> string" where
  "key_warning P keyPath h =
     (let expanded = expandHome P keyPath; q = ie_quote (pr_env P) in
      if h_files h expanded = None
      then ''Warning: key '' @ q expanded @ '' does not exist. Create it with: ssh-keygen -t ed25519 -f '' @ q expanded @ newline_char
      else [])"

definition config_init :: "process \<Rightarrow> stdin \<Rightarrow> host \<Rightarrow> host \<times> (string, string) result" where
  "config_init P inp h =
     (let cfg = fst (LoadCLIConfig P h); (defaultKey, defaultPrincipal, defaultSubnets) = init_defaults P cfg in
      case promptLine ''Control plane URL (e.g. https://uncluster.example.com:7777)'' (cc_Server cfg) inp of
        (inp1, Inl e) \<Rightarrow> (h, Inl e)
      | (inp1, Inr (o1, serverURL)) \<Rightarrow>
     if serverURL = [] then (h, Inl ''server URL is required'')
     else (case read_line inp1 of
        (inp2, Inl e) \<Rightarrow> (h, Inl e)
      | (inp2, Inr line) \<Rightarrow>
     if trim_space line = [] then (h, Inl ''token is required'')
     else (case promptLine ''SSH private key path'' defaultKey inp2 of
        (inp3, Inl e) \<Rightarrow> (h, Inl e)
      | (inp3, Inr (o3, keyPath)) \<Rightarrow>
     (case promptLine ''Default SSH username (principal)'' defaultPrincipal inp3 of
        (inp4, Inl e) \<Rightarrow> (h, Inl e)
      | (inp4, Inr (o4, user)) \<Rightarrow>
     (case promptLine ''Advertised subnets (comma-separated, or leave empty)'' defaultSubnets inp4 of
        (inp5, Inl e) \<Rightarrow> (h, Inl e)
      | (inp5, Inr (o5, subnets)) \<Rightarrow>
     let cfg' = cfg\<lparr>cc_Server := serverURL, cc_Token := trim_space line, cc_SSHKeyPath := keyPath, cc_SSHPrincipal := user,
           cc_Subnets := (if subnets = [] then [] else map trim_space (split_char (CHR '','') subnets))\<rparr> in
     (case SaveCLIConfig P cfg' h of
        (h1, Inl e) \<Rightarrow> (h1, Inl (''save config: '' @ e))
      | (h1, Inr _) \<Rightarrow>
          (h1, Inr (''Uncluster CLI setup '' @ [CHR 0xE2, CHR 0x80, CHR 0x94] @ '' press Enter to keep the default.'' @ newline_char @ newline_char
             @ o1 @ ''Caller token (paste, then Enter): '' @ o3 @ key_warning P keyPath h @ o4 @ o5
             @ newline_char @ ''Config saved to '' @ (case cliConfigPath P of Inl _ \<Rightarrow> [] | Inr p \<Rightarrow> p) @ newline_char
             @ ''Run `uncluster agents ls` to see registered agents.'' @ newline_char))))))))"

section \<open>A terminal and a pipe\<close>

text \<open>On a terminal every read returns one line, and each prompt gets its own.\<close>

lemma read_line_tty [simp]:
  "CHR 0x0A \<notin> set s \<Longrightarrow> read_line (Inr (s @ newline_char) # inp) = (inp, Inr (s @ newline_char))"
  by (simp add: newline_char_def takeWhile_append)

lemma read_line_end: "\<lbrakk>CHR 0x0A \<notin> set s\<rbrakk> \<Longrightarrow> read_line [Inr s] = ([], Inr s)"
  by simp

lemma promptLine_tty:
  assumes "trim_space (s @ newline_char) = s" "s \<noteq> []" "CHR 0x0A \<notin> set s"
  shows "\<exists>shown. promptLine prompt d (Inr (s @ newline_char) # inp) = (inp, Inr (shown, s))"
  unfolding promptLine_def Let_def read_line_tty [OF assms(3)] using assms(1,2) by simp

text \<open>Typed at a terminal, the five answers are the configuration that is stored.\<close>

theorem typed_answers_are_stored:
  assumes "\<forall>s \<in> {url, tok, key, user, nets}. trim_space (s @ newline_char) = s \<and> s \<noteq> [] \<and> CHR 0x0A \<notin> set s"
    "config_init P (map (\<lambda>s. Inr (s @ newline_char)) [url, tok, key, user, nets]) h = (h', Inr out)"
  shows "SaveCLIConfig P \<lparr>cc_Server = url, cc_Token = tok, cc_SSHKeyPath = key, cc_SSHPrincipal = user,
      cc_Subnets = map trim_space (split_char (CHR '','') nets)\<rparr> h = (h', Inr ())"
proof -
  let ?cfg = "fst (LoadCLIConfig P h)\<lparr>cc_Server := url, cc_Token := tok, cc_SSHKeyPath := key, cc_SSHPrincipal := user,
      cc_Subnets := map trim_space (split_char (CHR '','') nets)\<rparr>"
  have ok: "\<exists>shown. promptLine prompt d (Inr (s @ newline_char) # inp) = (inp, Inr (shown, s))"
    if "s \<in> {url, tok, key, user, nets}" for prompt d s inp
    by (rule promptLine_tty) (use assms(1) that in blast)+
  obtain d1 d2 d3 where d: "init_defaults P (fst (LoadCLIConfig P h)) = (d1, d2, d3)" by (cases "init_defaults P (fst (LoadCLIConfig P h))")
  let ?in = "\<lambda>s. Inr (s @ newline_char) :: (string, string) result"
  obtain o1 where p1: "promptLine ''Control plane URL (e.g. https://uncluster.example.com:7777)'' (cc_Server (fst (LoadCLIConfig P h)))
       [?in url, ?in tok, ?in key, ?in user, ?in nets] = ([?in tok, ?in key, ?in user, ?in nets], Inr (o1, url))"
    using ok [of url] by blast
  obtain o3 where p3: "promptLine ''SSH private key path'' d1 [?in key, ?in user, ?in nets] = ([?in user, ?in nets], Inr (o3, key))"
    using ok [of key] by blast
  obtain o4 where p4: "promptLine ''Default SSH username (principal)'' d2 [?in user, ?in nets] = ([?in nets], Inr (o4, user))"
    using ok [of user] by blast
  obtain o5 where p5: "promptLine ''Advertised subnets (comma-separated, or leave empty)'' d3 [?in nets] = ([], Inr (o5, nets))"
    using ok [of nets] by blast
  have t: "read_line [?in tok, ?in key, ?in user, ?in nets] = ([?in key, ?in user, ?in nets], ?in tok)"
    using assms(1) by (intro read_line_tty) simp
  have ne: "(url = []) = False" "trim_space (tok @ newline_char) = tok" "(tok = []) = False" "(nets = []) = False"
    using assms(1) by simp_all
  have "SaveCLIConfig P ?cfg h = (h', Inr ())"
    using assms(2)
    by (cases "SaveCLIConfig P ?cfg h"; cases "snd (SaveCLIConfig P ?cfg h)")
      (simp_all only: config_init_def Let_def d prod.case list.map p1 p3 p4 p5 t sum.case ne if_False snd_conv, simp_all)
  moreover have "?cfg = \<lparr>cc_Server = url, cc_Token = tok, cc_SSHKeyPath = key, cc_SSHPrincipal = user,
      cc_Subnets = map trim_space (split_char (CHR '','') nets)\<rparr>" by (rule cli_config.equality) simp_all
  ultimately show ?thesis by (simp only:)
qed

text \<open>Through a pipe the first prompt's reader takes all the answers in one read and drops those after its
  own line, so the token is missing whatever was sent, and the command fails.\<close>

theorem piped_answers_are_lost:
  assumes "trim_space (url @ newline_char) \<noteq> []" "CHR 0x0A \<notin> set url"
  shows "config_init P [Inr (url @ newline_char @ answers)] h = (h, Inl ''token is required'')"
proof -
  have r: "read_line [Inr (url @ newline_char @ answers)] = ([], Inr (url @ newline_char))"
    using assms(2) by (simp add: newline_char_def takeWhile_append)
  have e: "read_line [] = ([], Inr [])" "trim_space [] = []" by (simp_all add: trim_space_def)
  obtain o1 where "promptLine ''Control plane URL (e.g. https://uncluster.example.com:7777)'' (cc_Server (fst (LoadCLIConfig P h)))
      [Inr (url @ newline_char @ answers)] = ([], Inr (o1, trim_space (url @ newline_char)))"
    unfolding promptLine_def Let_def r using assms(1) by simp
  note p = this
  obtain d1 d2 d3 where d: "init_defaults P (fst (LoadCLIConfig P h)) = (d1, d2, d3)" by (cases "init_defaults P (fst (LoadCLIConfig P h))")
  show ?thesis
    by (simp only: config_init_def Let_def d prod.case p sum.case assms(1) e simp_thms if_True if_False)
qed

end
