(* ===== verification/Windows_Acl.thy ===== *)
theory Windows_Acl
  imports Installer
begin

text \<open>
  The access control lists of Windows: how the program sets them (\<^verbatim>\<open>agent/config_acl_windows.go\<close>,
  \<^verbatim>\<open>policy_acl_windows.go\<close>, \<^verbatim>\<open>ca/fileacl_windows.go\<close>, \<^verbatim>\<open>cmd/uncluster/agent_run_acl_windows.go\<close>, the directories of
  \<^verbatim>\<open>gatekeeper/install_principalswriter_windows.go\<close>) and how the doctor judges them
  (\<^verbatim>\<open>gatekeeper/doctor_acl.go\<close>, \<^verbatim>\<open>doctor_acl_windows.go\<close>).

  A file's owner and list are a \<open>security\<close> descriptor. The access rights are the 32-bit masks Windows
  documents, and \<open>granted\<close> is its documented evaluation of a list for a process, which holds a set of
  identifiers. What the program leaves to the system is in \<open>wenv\<close>: the well-known identifiers, the
  lookup of the service account, the conversion of entries to a list and the effect of storing it.
  Paths of the file system are written with forward slashes, which Windows takes for backslashes.
\<close>

section \<open>Access rights\<close>

type_synonym sid = string
type_synonym mask = "32 word"

named_theorems rights \<open>the documented values of the access rights\<close>

definition FILE_WRITE_DATA :: mask where [rights]: "FILE_WRITE_DATA = 0x2"
definition FILE_APPEND_DATA :: mask where [rights]: "FILE_APPEND_DATA = 0x4"
definition FILE_WRITE_EA :: mask where [rights]: "FILE_WRITE_EA = 0x10"
definition FILE_WRITE_ATTRIBUTES :: mask where [rights]: "FILE_WRITE_ATTRIBUTES = 0x100"
definition DELETE_RIGHT :: mask where [rights]: "DELETE_RIGHT = 0x10000"
definition WRITE_DAC :: mask where [rights]: "WRITE_DAC = 0x40000"
definition WRITE_OWNER :: mask where [rights]: "WRITE_OWNER = 0x80000"
definition READ_CONTROL :: mask where [rights]: "READ_CONTROL = 0x20000"
definition GENERIC_READ :: mask where [rights]: "GENERIC_READ = 0x80000000"
definition GENERIC_WRITE :: mask where [rights]: "GENERIC_WRITE = 0x40000000"
definition GENERIC_EXECUTE :: mask where [rights]: "GENERIC_EXECUTE = 0x20000000"
definition GENERIC_ALL :: mask where [rights]: "GENERIC_ALL = 0x10000000"
definition FILE_GENERIC_READ :: mask where [rights]: "FILE_GENERIC_READ = 0x120089"
definition FILE_GENERIC_WRITE :: mask where [rights]: "FILE_GENERIC_WRITE = 0x120116"
definition FILE_GENERIC_EXECUTE :: mask where [rights]: "FILE_GENERIC_EXECUTE = 0x1200A0"
definition FILE_ALL_ACCESS :: mask where [rights]: "FILE_ALL_ACCESS = 0x1F01FF"

definition has_bits :: "mask \<Rightarrow> mask \<Rightarrow> bool" where
  "has_bits m want \<longleftrightarrow> m AND want = want"

text \<open>The documented mapping of the generic rights to those of a file.\<close>

definition map_generic :: "mask \<Rightarrow> mask" where
  "map_generic m =
     (m AND NOT 0xF0000000)
       OR (if has_bits m GENERIC_READ then FILE_GENERIC_READ else 0)
       OR (if has_bits m GENERIC_WRITE then FILE_GENERIC_WRITE else 0)
       OR (if has_bits m GENERIC_EXECUTE then FILE_GENERIC_EXECUTE else 0)
       OR (if has_bits m GENERIC_ALL then FILE_ALL_ACCESS else 0)"

lemma mask_bit: "bit m n \<Longrightarrow> n < 32" for m :: mask
  using bit_imp_le_length [of m n] by simp

lemma has_bits_iff: "has_bits m want \<longleftrightarrow> (\<forall>n. bit want n \<longrightarrow> bit m n)"
proof
  assume "has_bits m want"
  then show "\<forall>n. bit want n \<longrightarrow> bit m n" by (metis has_bits_def bit_and_iff)
qed (auto simp: has_bits_def bit_eq_iff bit_and_iff)

lemma no_bits_iff: "m AND want = 0 \<longleftrightarrow> (\<forall>n. bit want n \<longrightarrow> \<not> bit m n)" for m :: mask
proof
  assume "m AND want = 0"
  then show "\<forall>n. bit want n \<longrightarrow> \<not> bit m n" by (metis bit_0_eq bit_and_iff bot_apply bot_bool_def)
qed (auto simp: bit_eq_iff bit_and_iff)

section \<open>Lists and descriptors\<close>

datatype ace_type = AccessAllowed | AccessDenied | OtherAce

record ace =
  ace_kind :: ace_type
  ace_mask :: mask
  ace_sid :: sid
  ace_flags :: "8 word"

text \<open>\<open>inherit_only\<close>: the entry is there for the children and says nothing of the object itself.\<close>

definition inherit_only :: "ace \<Rightarrow> bool" where
  "inherit_only a \<longleftrightarrow> bit (ace_flags a) 3"

datatype acl_state = NoDacl | NullDacl | DaclOf "ace list"

record security =
  sd_owner :: "sid option"
  sd_dacl :: acl_state
  sd_protected :: bool

text \<open>\<^verbatim>\<open>(*SECURITY_DESCRIPTOR).DACL\<close>: an absent list is an error, a NULL list a nil pointer.\<close>

definition read_dacl :: "security \<Rightarrow> (unit, ace list option) result" where
  "read_dacl s = (case sd_dacl s of NoDacl \<Rightarrow> Inl () | NullDacl \<Rightarrow> Inr None | DaclOf aces \<Rightarrow> Inr (Some aces))"

text \<open>The documented access check: entries in order, each deciding the rights that none before it
  has decided; a missing or NULL list grants everything, and the owner may always read and change
  the list.\<close>

fun access_walk :: "sid set \<Rightarrow> ace list \<Rightarrow> mask \<Rightarrow> mask \<Rightarrow> mask" where
  "access_walk tok [] granted denied = granted"
| "access_walk tok (a # aces) granted denied =
     (if ace_sid a \<notin> tok \<or> inherit_only a then access_walk tok aces granted denied
      else case ace_kind a of
        AccessAllowed \<Rightarrow> access_walk tok aces (granted OR (ace_mask a AND NOT denied)) denied
      | AccessDenied \<Rightarrow> access_walk tok aces granted (denied OR (ace_mask a AND NOT granted))
      | OtherAce \<Rightarrow> access_walk tok aces granted denied)"

definition list_grants :: "sid set \<Rightarrow> security \<Rightarrow> mask" where
  "list_grants tok s = (case sd_dacl s of DaclOf aces \<Rightarrow> access_walk tok aces 0 0 | _ \<Rightarrow> -1)"

definition owns_object :: "sid set \<Rightarrow> security \<Rightarrow> bool" where
  "owns_object tok s \<longleftrightarrow> (case sd_owner s of Some sid \<Rightarrow> sid \<in> tok | None \<Rightarrow> False)"

definition granted :: "sid set \<Rightarrow> security \<Rightarrow> mask" where
  "granted tok s = list_grants tok s OR (if owns_object tok s then READ_CONTROL OR WRITE_DAC else 0)"

section \<open>The machine\<close>

text \<open>\<open>wh_sd\<close> is the descriptor of each path that \<open>wh_host\<close> has; \<open>wh_privileges\<close> is the list last set for
  the writer's service.\<close>

record whost =
  wh_host :: host
  wh_sd :: "string \<Rightarrow> security"
  wh_privileges :: "16 word list option"

type_synonym winst = "whost \<Rightarrow> whost \<times> (string, unit) result"

datatype access_mode = SetAccess | GrantAccess | DenyAccess | RevokeAccess
datatype trustee_type = TrusteeIsUser | TrusteeIsWellKnownGroup

record explicit_access =
  ea_AccessPermissions :: mask
  ea_AccessMode :: access_mode
  ea_Inheritance :: "32 word"
  ea_TrusteeType :: trustee_type
  ea_Trustee :: sid

text \<open>\<open>we_system\<close> and \<open>we_admins\<close> are \<^verbatim>\<open>CreateWellKnownSid\<close>, \<open>we_agent\<close> is \<^verbatim>\<open>LookupSID\<close> of the agent's
  service account, \<open>we_entries\<close> is \<^verbatim>\<open>ACLFromEntries\<close> with no list to merge with, \<open>we_store\<close> what
  \<^verbatim>\<open>SetNamedSecurityInfo\<close> does to the descriptors when it protects and replaces one list;
  \<open>we_denied\<close> says which call of the security interface fails on a path; \<open>we_created\<close> is the
  descriptor a new file gets, \<open>we_readdir\<close> \<^verbatim>\<open>os.ReadDir\<close> (names, and which are directories),
  \<open>we_programdata\<close> the environment variable \<^verbatim>\<open>PROGRAMDATA\<close>.\<close>

record wenv =
  we_inst :: install_env
  we_system :: "(string, sid) result"
  we_admins :: "(string, sid) result"
  we_world :: "sid option"
  we_authusers :: "sid option"
  we_agent :: "host \<Rightarrow> sid option"
  we_entries :: "explicit_access list \<Rightarrow> (string, ace list) result"
  we_store :: "string \<Rightarrow> ace list \<Rightarrow> (string \<Rightarrow> security) \<Rightarrow> string \<Rightarrow> security"
  we_denied :: "string \<Rightarrow> string \<Rightarrow> string option"
  we_created :: "string \<Rightarrow> whost \<Rightarrow> security"
  we_readdir :: "string \<Rightarrow> host \<Rightarrow> (string \<times> bool) list option"
  we_programdata :: string

text \<open>A step of the file system; a file that appears gets the descriptor of a new file.\<close>

definition on_host :: "wenv \<Rightarrow> inst \<Rightarrow> winst" where
  "on_host env f w =
     (case f (wh_host w) of
        (h, r) \<Rightarrow> (w\<lparr>wh_host := h, wh_sd := (\<lambda>p. if h_files (wh_host w) p = None \<and> h_files h p \<noteq> None
                       then we_created env p w else wh_sd w p)\<rparr>, r))"

fun run_wsteps :: "winst list \<Rightarrow> winst" where
  "run_wsteps [] w = (w, Inr ())"
| "run_wsteps (f # fs) w = (case f w of (w', Inl e) \<Rightarrow> (w', Inl e) | (w', Inr _) \<Rightarrow> run_wsteps fs w')"

definition wwrapped :: "string \<Rightarrow> winst \<Rightarrow> winst" where
  "wwrapped ctx f w = (case f w of (w', Inl e) \<Rightarrow> (w', Inl (ctx @ '': '' @ e)) | (w', Inr u) \<Rightarrow> (w', Inr u))"

definition SetNamedSecurityInfo :: "wenv \<Rightarrow> string \<Rightarrow> ace list \<Rightarrow> winst" where
  "SetNamedSecurityInfo env path acl w =
     (case we_denied env ''set'' path of
        Some e \<Rightarrow> (w, Inl e)
      | None \<Rightarrow>
          if h_files (wh_host w) path = None then (w, Inl ''The system cannot find the file specified.'')
          else (w\<lparr>wh_sd := we_store env path acl (wh_sd w)\<rparr>, Inr ()))"

definition GetNamedSecurityInfo :: "wenv \<Rightarrow> string \<Rightarrow> whost \<Rightarrow> (string, security) result" where
  "GetNamedSecurityInfo env path w =
     (case we_denied env ''get'' path of
        Some e \<Rightarrow> Inl e
      | None \<Rightarrow>
          if h_files (wh_host w) path = None then Inl ''The system cannot find the file specified.''
          else Inr (wh_sd w path))"

section \<open>Setting access lists\<close>

definition NO_INHERITANCE :: "32 word" where "NO_INHERITANCE = 0"
definition SUB_CONTAINERS_AND_OBJECTS_INHERIT :: "32 word" where "SUB_CONTAINERS_AND_OBJECTS_INHERIT = 3"

definition fullControlACE :: "sid \<Rightarrow> bool \<Rightarrow> explicit_access" where
  "fullControlACE sid inheritable =
     \<lparr>ea_AccessPermissions = GENERIC_ALL, ea_AccessMode = SetAccess,
      ea_Inheritance = (if inheritable then SUB_CONTAINERS_AND_OBJECTS_INHERIT else NO_INHERITANCE),
      ea_TrusteeType = TrusteeIsWellKnownGroup, ea_Trustee = sid\<rparr>"

definition agentSpoolAccessMask :: mask where
  "agentSpoolAccessMask = GENERIC_READ OR GENERIC_WRITE OR DELETE_RIGHT"

definition agentSpoolACE :: "sid \<Rightarrow> explicit_access" where
  "agentSpoolACE agentSID =
     \<lparr>ea_AccessPermissions = agentSpoolAccessMask, ea_AccessMode = SetAccess,
      ea_Inheritance = SUB_CONTAINERS_AND_OBJECTS_INHERIT, ea_TrusteeType = TrusteeIsUser, ea_Trustee = agentSID\<rparr>"

text \<open>What the setters share: the two well-known identifiers, the list of the entries, and storing it with
  inheritance cut off.\<close>

definition set_protected :: "wenv \<Rightarrow> string \<Rightarrow> string \<Rightarrow> string \<Rightarrow> (sid \<Rightarrow> sid \<Rightarrow> explicit_access list) \<Rightarrow> string \<Rightarrow> winst" where
  "set_protected env pre inList inSet ea path w =
     (case we_system env of
        Inl e \<Rightarrow> (w, Inl (pre @ ''CreateWellKnownSid SYSTEM: '' @ e))
      | Inr systemSID \<Rightarrow>
     (case we_admins env of
        Inl e \<Rightarrow> (w, Inl (pre @ ''CreateWellKnownSid Administrators: '' @ e))
      | Inr adminSID \<Rightarrow>
     (case we_entries env (ea systemSID adminSID) of
        Inl e \<Rightarrow> (w, Inl (pre @ ''ACLFromEntries'' @ inList @ '': '' @ e))
      | Inr acl \<Rightarrow> wwrapped (pre @ ''SetNamedSecurityInfo '' @ inSet @ path) (SetNamedSecurityInfo env path acl) w)))"

definition setProtectedSystemAdminsACL :: "wenv \<Rightarrow> string \<Rightarrow> bool \<Rightarrow> winst" where
  "setProtectedSystemAdminsACL env path inheritable =
     set_protected env [] [] [] (\<lambda>system admin. [fullControlACE system inheritable, fullControlACE admin inheritable]) path"

definition restrictPrincipalsDirACLWindows :: "wenv \<Rightarrow> string \<Rightarrow> winst" where
  "restrictPrincipalsDirACLWindows env dir = setProtectedSystemAdminsACL env dir True"

definition restrictPrincipalsFileACL_windows :: "wenv \<Rightarrow> string \<Rightarrow> winst" where
  "restrictPrincipalsFileACL_windows env path =
     set_protected env ''agent: '' '' (principals file)'' ''(principals file) ''
       (\<lambda>system admin. [fullControlACE system False, fullControlACE admin False]) path"

definition restrictConfigACL :: "wenv \<Rightarrow> string \<Rightarrow> winst" where
  "restrictConfigACL env path =
     set_protected env ''agent: '' [] [] (\<lambda>system admin. [fullControlACE system False, fullControlACE admin False]) path"

text \<open>\<^verbatim>\<open>ca.restrictFileACL\<close>, for the private key of the certificate authority.\<close>

definition restrictFileACL :: "wenv \<Rightarrow> string \<Rightarrow> winst" where
  "restrictFileACL env path =
     set_protected env ''ca: '' [] [] (\<lambda>system admin. [fullControlACE system False, fullControlACE admin False]) path"

definition lookupServiceSID :: "wenv \<Rightarrow> whost \<Rightarrow> sid option" where
  "lookupServiceSID env w = we_agent env (wh_host w)"

definition agentReadACE :: "sid \<Rightarrow> explicit_access" where
  "agentReadACE svcSID =
     \<lparr>ea_AccessPermissions = GENERIC_READ, ea_AccessMode = SetAccess, ea_Inheritance = NO_INHERITANCE,
      ea_TrusteeType = TrusteeIsUser, ea_Trustee = svcSID\<rparr>"

definition restrictSystemConfigACL_windows :: "wenv \<Rightarrow> string \<Rightarrow> winst" where
  "restrictSystemConfigACL_windows env path w =
     set_protected env ''agent: '' '' (system)'' ''(system) ''
       (\<lambda>system admin. [fullControlACE system False, fullControlACE admin False]
          @ (case lookupServiceSID env w of None \<Rightarrow> [] | Some svcSID \<Rightarrow> [agentReadACE svcSID])) path w"

definition createSpoolDirWithACL :: "wenv \<Rightarrow> string \<Rightarrow> winst" where
  "createSpoolDirWithACL env dir =
     run_wsteps
       [wwrapped (''create spool dir '' @ dir) (on_host env (MkdirAll (we_inst env) 493 dir)),
        \<lambda>w. set_protected env [] '' (spool)'' ''(spool) ''
          (\<lambda>system admin. [fullControlACE system True, fullControlACE admin True]
             @ (case we_agent env (wh_host w) of None \<Rightarrow> [] | Some agentSID \<Rightarrow> [agentSpoolACE agentSID])) dir w]"

text \<open>The log the agent's service handler writes its diagnostics to (\<^verbatim>\<open>cmd/uncluster/agent_run_acl_windows.go\<close>).\<close>

definition errorLogAgentAccess :: mask where
  "errorLogAgentAccess = GENERIC_READ OR GENERIC_WRITE"

definition errorLogACE :: "sid \<Rightarrow> explicit_access" where
  "errorLogACE agentSID =
     \<lparr>ea_AccessPermissions = errorLogAgentAccess, ea_AccessMode = SetAccess, ea_Inheritance = NO_INHERITANCE,
      ea_TrusteeType = TrusteeIsUser, ea_Trustee = agentSID\<rparr>"

definition restrictErrorLogACL :: "wenv \<Rightarrow> string \<Rightarrow> winst" where
  "restrictErrorLogACL env path w =
     set_protected env [] '' (error log)'' ''(error log) ''
       (\<lambda>system admin. [fullControlACE system False, fullControlACE admin False]
          @ (case we_agent env (wh_host w) of None \<Rightarrow> [] | Some agentSID \<Rightarrow> [errorLogACE agentSID])) path w"

section \<open>The doctor's reading of a list\<close>

definition principalsWriteMask :: mask where
  "principalsWriteMask = FILE_WRITE_DATA OR FILE_APPEND_DATA OR FILE_WRITE_EA OR FILE_WRITE_ATTRIBUTES
     OR WRITE_DAC OR WRITE_OWNER OR DELETE_RIGHT OR GENERIC_WRITE OR GENERIC_ALL"

definition spoolApplyMask :: mask where
  "spoolApplyMask = FILE_GENERIC_READ OR FILE_GENERIC_WRITE OR DELETE_RIGHT"

text \<open>The loop that collects the allowed and the denied bits of one identifier. \<^verbatim>\<open>GetAce\<close> does not fail on an
  index below the count.\<close>

fun ace_bits :: "sid \<Rightarrow> ace list \<Rightarrow> mask \<Rightarrow> mask \<Rightarrow> mask \<times> mask" where
  "ace_bits sid [] allowBits denyBits = (allowBits, denyBits)"
| "ace_bits sid (a # aces) allowBits denyBits =
     (if ace_sid a \<noteq> sid then ace_bits sid aces allowBits denyBits
      else case ace_kind a of
        AccessAllowed \<Rightarrow> ace_bits sid aces (allowBits OR ace_mask a) denyBits
      | AccessDenied \<Rightarrow> ace_bits sid aces allowBits (denyBits OR ace_mask a)
      | OtherAce \<Rightarrow> ace_bits sid aces allowBits denyBits)"

definition effective_bits :: "sid \<Rightarrow> ace list \<Rightarrow> mask" where
  "effective_bits sid aces = (let (allowBits, denyBits) = ace_bits sid aces 0 0 in allowBits AND NOT denyBits)"

definition sidHasAccess :: "wenv \<Rightarrow> string \<Rightarrow> sid \<Rightarrow> mask \<Rightarrow> whost \<Rightarrow> bool" where
  "sidHasAccess env path sid wantMask w =
     (case GetNamedSecurityInfo env path w of
        Inl _ \<Rightarrow> False
      | Inr sd \<Rightarrow>
          (case read_dacl sd of
             Inr (Some aces) \<Rightarrow> effective_bits sid aces AND wantMask = wantMask
           | _ \<Rightarrow> False))"

text \<open>The results are whether the account resolves, and the answer.\<close>

definition serviceAccountHasAccess :: "wenv \<Rightarrow> string \<Rightarrow> mask \<Rightarrow> whost \<Rightarrow> bool \<times> bool" where
  "serviceAccountHasAccess env path wantMask w =
     (case we_agent env (wh_host w) of
        None \<Rightarrow> (False, False)
      | Some sid \<Rightarrow> (True, sidHasAccess env path sid wantMask w))"

definition serviceAccountHasAnyWriteBit :: "wenv \<Rightarrow> string \<Rightarrow> whost \<Rightarrow> bool \<times> bool" where
  "serviceAccountHasAnyWriteBit env path w =
     (case we_agent env (wh_host w) of
        None \<Rightarrow> (False, False)
      | Some sid \<Rightarrow>
          (case GetNamedSecurityInfo env path w of
             Inl _ \<Rightarrow> (True, False)
           | Inr sd \<Rightarrow>
               (case read_dacl sd of
                  Inr (Some aces) \<Rightarrow> (True, effective_bits sid aces AND principalsWriteMask \<noteq> 0)
                | _ \<Rightarrow> (True, False))))"

definition principalsFileIsUnsafe :: "wenv \<Rightarrow> string \<Rightarrow> (sid \<Rightarrow> bool) \<Rightarrow> whost \<Rightarrow> bool" where
  "principalsFileIsUnsafe env path isAllowed w =
     (case GetNamedSecurityInfo env path w of
        Inl _ \<Rightarrow> True
      | Inr sd \<Rightarrow>
          (case sd_owner sd of
             None \<Rightarrow> True
           | Some owner \<Rightarrow>
               \<not> isAllowed owner
               \<or> (case read_dacl sd of
                    Inr (Some aces) \<Rightarrow>
                      list_ex (\<lambda>a. ace_kind a = AccessAllowed \<and> ace_mask a AND principalsWriteMask \<noteq> 0
                        \<and> \<not> isAllowed (ace_sid a)) aces
                  | _ \<Rightarrow> True)))"

definition isAllowedTrustee :: "wenv \<Rightarrow> sid \<Rightarrow> bool" where
  "isAllowedTrustee env sid \<longleftrightarrow> we_system env = Inr sid \<or> we_admins env = Inr sid"

definition scanUnsafePrincipalsFiles :: "wenv \<Rightarrow> string \<Rightarrow> whost \<Rightarrow> string list" where
  "scanUnsafePrincipalsFiles env dir w =
     (case we_readdir env dir (wh_host w) of
        None \<Rightarrow> []
      | Some es \<Rightarrow>
          map fst (filter (\<lambda>(name, isDir). \<not> isDir \<and> \<not> has_suffix ''.tmp'' name
            \<and> principalsFileIsUnsafe env (path_join dir name) (isAllowedTrustee env) w) es))"

text \<open>\<^verbatim>\<open>ca.checkFileACL\<close> refuses every entry of the list, whatever its kind, that is not of the two.\<close>

datatype file_acl_error = LoosePerm | AclUnreadable string

definition checkFileACL_windows :: "wenv \<Rightarrow> string \<Rightarrow> whost \<Rightarrow> (file_acl_error, unit) result" where
  "checkFileACL_windows env path w =
     (case GetNamedSecurityInfo env path w of
        Inl e \<Rightarrow> Inl (AclUnreadable (''ca: GetNamedSecurityInfo '' @ path @ '': '' @ e))
      | Inr sd \<Rightarrow>
          (case read_dacl sd of
             Inl _ \<Rightarrow> Inl (AclUnreadable ''ca: get DACL: The system cannot find the requested object'')
           | Inr None \<Rightarrow> Inl LoosePerm
           | Inr (Some aces) \<Rightarrow>
               if list_ex (\<lambda>a. we_world env = Some (ace_sid a) \<or> we_authusers env = Some (ace_sid a)
                    \<or> \<not> isAllowedTrustee env (ace_sid a)) aces
               then Inl LoosePerm else Inr ()))"

section \<open>The doctor's verdicts\<close>

definition perUserPrincipalsACLResult :: "string \<Rightarrow> string list \<Rightarrow> doctor_check" where
  "perUserPrincipalsACLResult dir unsafe =
     (if unsafe = [] then result_of ''principals-file-acl'' CheckOK
        (''per-user principals files under '' @ dir @ '' are owned and writable only by SYSTEM/Administrators'')
      else result_of ''principals-file-acl'' CheckFail
        (''per-user principals file(s) ['' @ join_with '', '' unsafe
         @ ''] have an unsafe owner or a writable ACE for a non-admin/non-SYSTEM principal '' @ dash
         @ '' Win32-OpenSSH will silently ignore them (login denied). Re-apply policy to normalize. (#127)''))"

record principalsDirACLProbe =
  pd_dirOK :: bool
  pd_agentSIDResolved :: bool
  pd_agentHasWrite :: bool

definition backslash :: string where "backslash = [CHR 0x5C]"

definition principalsDirACLResult :: "string \<Rightarrow> principalsDirACLProbe \<Rightarrow> doctor_check" where
  "principalsDirACLResult dir p =
     (if \<not> pd_dirOK p then result_of ''principals-dir'' CheckFail
        (dir @ '' not found or not a directory. Run: uncluster agent install'')
      else if pd_agentSIDResolved p \<and> pd_agentHasWrite p then result_of ''principals-dir'' CheckFail
        (dir @ '': NT SERVICE'' @ backslash @ ''UnclusterAgent holds a WRITE grant on the principals dir '' @ dash
         @ '' Win32-OpenSSH would silently ignore the per-user files (login denied). The LocalSystem UnclusterPrincipalsWriter must be the only writer. Run `uncluster agent install` to remove the agent grant. (#127)'')
      else result_of ''principals-dir'' CheckOK
        (''principals dir ok at '' @ dir @ '' (no NT SERVICE'' @ backslash
         @ ''UnclusterAgent write grant; only SYSTEM/Administrators/the LocalSystem writer can write)''))"

definition writerServiceResult :: "bool \<Rightarrow> bool \<Rightarrow> doctor_check" where
  "writerServiceResult installed running =
     (if \<not> installed then result_of ''writer-service'' CheckFail
        (''UnclusterPrincipalsWriter service not installed '' @ dash
         @ '' principals cannot be written (run `uncluster agent install`). (#127)'')
      else if \<not> running then result_of ''writer-service'' CheckFail
        (''UnclusterPrincipalsWriter service not RUNNING '' @ dash
         @ '' policy apply will fail (start: net start UnclusterPrincipalsWriter). (#127)'')
      else result_of ''writer-service'' CheckOK ''UnclusterPrincipalsWriter (LocalSystem) installed and running'')"

text \<open>The arrow in the text is \<^verbatim>\<open>U+2192\<close>, the double one \<^verbatim>\<open>U+2194\<close>, in UTF-8.\<close>

definition arrow_right :: string where "arrow_right = [CHR 0xE2, CHR 0x86, CHR 0x92]"
definition arrow_both :: string where "arrow_both = [CHR 0xE2, CHR 0x86, CHR 0x94]"

definition spoolACLResult :: "string \<Rightarrow> bool \<Rightarrow> bool \<Rightarrow> doctor_check" where
  "spoolACLResult dir spoolExists agentCanWrite =
     (if \<not> spoolExists then result_of ''spool-dir'' CheckFail
        (dir @ '' not found '' @ dash @ '' the agent'' @ arrow_both @ ''writer spool is missing (run `uncluster agent install`). (#127)'')
      else if \<not> agentCanWrite then result_of ''spool-dir'' CheckFail
        (dir @ '': NT SERVICE'' @ backslash @ ''UnclusterAgent cannot write+rename the spool (needs DELETE for the atomic tmp''
         @ arrow_right @ ''rename) '' @ dash
         @ '' it cannot submit desired-state to the writer, so no Policy applies (run `uncluster agent install`). (#175)'')
      else result_of ''spool-dir'' CheckOK
        (''spool dir ok at '' @ dir @ '' (agent can write+rename to submit desired-state; SYSTEM owns it)''))"

record configACLProbe =
  cp_exists :: bool
  cp_sidResolved :: bool
  cp_grantsRead :: bool

definition configACLResult :: "string \<Rightarrow> configACLProbe \<Rightarrow> doctor_check" where
  "configACLResult path p =
     (if \<not> cp_exists p then result_of ''config-ownership'' CheckWarn
        (path @ '' absent (run `uncluster agent install` to populate the system path)'')
      else if \<not> cp_sidResolved p then result_of ''config-ownership'' CheckFail
        (path @ '': cannot resolve NT SERVICE'' @ backslash @ ''UnclusterAgent (service not registered) '' @ dash
         @ '' run `uncluster agent install`'')
      else if \<not> cp_grantsRead p then result_of ''config-ownership'' CheckFail
        (path @ '': NT SERVICE'' @ backslash @ ''UnclusterAgent lacks read access (service cannot read config) '' @ dash
         @ '' run `uncluster agent install`'')
      else result_of ''config-ownership'' CheckOK
        (''config ownership ok at '' @ path @ '' (NT SERVICE'' @ backslash @ ''UnclusterAgent has read)''))"

definition dir_there :: "wenv \<Rightarrow> string \<Rightarrow> whost \<Rightarrow> bool" where
  "dir_there env dir w \<longleftrightarrow> ie_fault (we_inst env) ''stat'' dir = None \<and> is_dir (wh_host w) dir"

definition checkPrincipalsACLWindows :: "wenv \<Rightarrow> string \<Rightarrow> whost \<Rightarrow> doctor_check" where
  "checkPrincipalsACLWindows env dir w =
     (if \<not> dir_there env dir w
      then principalsDirACLResult dir \<lparr>pd_dirOK = False, pd_agentSIDResolved = False, pd_agentHasWrite = False\<rparr>
      else let (sidResolved, hasWrite) = serviceAccountHasAnyWriteBit env dir w
           in principalsDirACLResult dir \<lparr>pd_dirOK = True, pd_agentSIDResolved = sidResolved, pd_agentHasWrite = hasWrite\<rparr>)"

definition checkPerUserPrincipalsFilesWindows :: "wenv \<Rightarrow> string \<Rightarrow> whost \<Rightarrow> doctor_check" where
  "checkPerUserPrincipalsFilesWindows env dir w = perUserPrincipalsACLResult dir (scanUnsafePrincipalsFiles env dir w)"

definition checkSpoolACLWindows :: "wenv \<Rightarrow> string \<Rightarrow> whost \<Rightarrow> doctor_check" where
  "checkSpoolACLWindows env dir w =
     (if \<not> dir_there env dir w then spoolACLResult dir False False
      else let (sidResolved, grants) = serviceAccountHasAccess env dir spoolApplyMask w
           in spoolACLResult dir True (sidResolved \<and> grants))"

definition checkConfigACLWindows :: "wenv \<Rightarrow> string \<Rightarrow> whost \<Rightarrow> doctor_check" where
  "checkConfigACLWindows env path w =
     (if h_files (wh_host w) path = None then configACLResult path \<lparr>cp_exists = False, cp_sidResolved = False, cp_grantsRead = False\<rparr>
      else case ie_fault (we_inst env) ''stat'' path of
        Some t \<Rightarrow> result_of ''config-ownership'' CheckFail (''stat '' @ path @ '': '' @ path_error ''CreateFile'' path t)
      | None \<Rightarrow>
          let (sidResolved, grants) = serviceAccountHasAccess env path FILE_GENERIC_READ w
          in configACLResult path \<lparr>cp_exists = True, cp_sidResolved = sidResolved, cp_grantsRead = grants\<rparr>)"

end
