(* ===== verification/Installer_Windows.thy ===== *)
theory Installer_Windows
  imports Windows_Acl
begin

text \<open>
  The Windows installer and doctor (\<^verbatim>\<open>gatekeeper/install_windows.go\<close>,
  \<^verbatim>\<open>install_principalswriter_windows.go\<close>, \<^verbatim>\<open>doctor_windows.go\<close>, \<^verbatim>\<open>service_windows.go\<close>,
  \<^verbatim>\<open>cli/deprovision_cleanup_windows.go\<close> and the saving of the configuration in \<^verbatim>\<open>agent/config.go\<close>): two
  services are registered, the directives are written into the base configuration of sshd, and the
  access lists of \<open>Windows_Acl\<close> are set. Commands and the service library are parameters, as on Unix;
  \<open>we_denied\<close> also gives the failures of the service manager.
\<close>

section \<open>Names and paths\<close>

definition WindowsServiceName :: string where
  "WindowsServiceName = ''UnclusterAgent''"

definition WindowsPrincipalsWriterServiceName :: string where
  "WindowsPrincipalsWriterServiceName = ''UnclusterPrincipalsWriter''"

definition windowsServiceAccountName :: string where
  "windowsServiceAccountName = ''NT SERVICE'' @ backslash @ WindowsServiceName"

definition windowsPrincipalsWriterAccount :: string where
  "windowsPrincipalsWriterAccount = ''LocalSystem''"

definition windowsBaseSSHDConfig :: string where
  "windowsBaseSSHDConfig = ''C:/ProgramData/ssh/sshd_config''"

definition windowsPaths :: expected_paths where
  "windowsPaths = ExpectedPathsFor ''windows''"

definition SystemConfigPath_windows :: "wenv \<Rightarrow> string" where
  "SystemConfigPath_windows env =
     path_join (path_join (if we_programdata env = [] then ''C:/ProgramData'' else we_programdata env) ''uncluster'') ''agent.toml''"

definition SpoolDir :: "wenv \<Rightarrow> string" where
  "SpoolDir env = path_join (filepath_dir (SystemConfigPath_windows env)) ''spool''"

section \<open>Commands\<close>

text \<open>\<^verbatim>\<open>CombinedOutput\<close>: the error of the command, if any, and what it printed.\<close>

definition combined_output :: "wenv \<Rightarrow> string list \<Rightarrow> whost \<Rightarrow> whost \<times> string option \<times> string" where
  "combined_output env cmd w =
     (case exec (we_inst env) cmd (wh_host w) of
        (h, r) \<Rightarrow>
          (fst (on_host env (\<lambda>_. (h, Inr ())) w),
           case r of Inl (e, out) \<Rightarrow> (Some e, out) | Inr out \<Rightarrow> (None, out)))"

definition containsState :: "string \<Rightarrow> string \<Rightarrow> bool" where
  "containsState output st \<longleftrightarrow> list_ex (\<lambda>line. contains (to_lower line) (to_lower st)) (split_char newline output)"

text \<open>A command whose failure is ignored, and one whose failure is reported with its output.\<close>

definition ignored :: "wenv \<Rightarrow> string list \<Rightarrow> winst" where
  "ignored env cmd w = (fst (combined_output env cmd w), Inr ())"

definition reported :: "wenv \<Rightarrow> string \<Rightarrow> string list \<Rightarrow> winst" where
  "reported env what cmd w =
     (case combined_output env cmd w of
        (w', Some e, out) \<Rightarrow> (w', Inl (what @ '': '' @ e @ newline # ''output: '' @ out))
      | (w', None, _) \<Rightarrow> (w', Inr ()))"

section \<open>The steps\<close>

definition checkSSHDWindows :: "wenv \<Rightarrow> winst" where
  "checkSSHDWindows env w =
     (case combined_output env [''sc.exe'', ''query'', ''sshd''] w of
        (w', Some e, out) \<Rightarrow> (w', Inl (''OpenSSH Server service (sshd) not found.'' @ [newline]
          @ ''Install it with (run in an elevated PowerShell):'' @ [newline, newline]
          @ ''  Add-WindowsCapability -Online -Name OpenSSH.Server~~~~0.0.1.0'' @ [newline]
          @ ''  Start-Service sshd'' @ [newline] @ ''  Set-Service sshd -StartupType Automatic'' @ [newline, newline]
          @ ''error: '' @ e @ [newline] @ ''output: '' @ out))
      | (w', None, out) \<Rightarrow>
          if \<not> containsState out ''RUNNING'' then (w', Inl (''OpenSSH Server (sshd) is installed but not running.'' @ [newline]
            @ ''Start it with:'' @ [newline, newline] @ ''  Start-Service sshd'' @ [newline]
            @ ''  Set-Service sshd -StartupType Automatic'' @ [newline]))
          else (w', Inr ()))"

text \<open>Reading a file that may be missing.\<close>

definition read_existing :: "wenv \<Rightarrow> string \<Rightarrow> whost \<Rightarrow> (string, string option) result" where
  "read_existing env p w =
     (if h_files (wh_host w) p = None then Inr None
      else case ReadFile (we_inst env) p (wh_host w) of Inl e \<Rightarrow> Inl e | Inr b \<Rightarrow> Inr (Some b))"

definition remove_quietly :: "wenv \<Rightarrow> string \<Rightarrow> winst" where
  "remove_quietly env p = on_host env (\<lambda>h. (drop_temp (we_inst env) p h, Inr ()))"

definition ensureWindowsBaseConfigDirectives :: "wenv \<Rightarrow> expected_paths \<Rightarrow> winst" where
  "ensureWindowsBaseConfigDirectives env paths w =
     (let block = managedDirectiveBlock (xp_CAPubkey paths) (xp_PrincipalsDir paths @ ''/%u'') in
      case read_existing env windowsBaseSSHDConfig w of
        Inl e \<Rightarrow> (w, Inl (''read '' @ windowsBaseSSHDConfig @ '': '' @ e))
      | Inr None \<Rightarrow> (w, Inr ())
      | Inr (Some b) \<Rightarrow>
          run_wsteps
            [if upsertManagedBlock b block \<noteq> b
             then wwrapped (''write directives into '' @ windowsBaseSSHDConfig)
               (on_host env (WriteFile (we_inst env) windowsBaseSSHDConfig (upsertManagedBlock b block) 420))
             else (\<lambda>w. (w, Inr ())),
             if xp_SSHDropIn paths \<noteq> [] then remove_quietly env (to_slash (xp_SSHDropIn paths)) else (\<lambda>w. (w, Inr ()))] w)"

definition RemoveWindowsManagedDirectives :: "wenv \<Rightarrow> winst" where
  "RemoveWindowsManagedDirectives env w =
     (case read_existing env windowsBaseSSHDConfig w of
        Inl e \<Rightarrow> (w, Inl (''read '' @ windowsBaseSSHDConfig @ '': '' @ e))
      | Inr None \<Rightarrow> (w, Inr ())
      | Inr (Some b) \<Rightarrow>
          let updated = removeManagedBlock b in
          if updated = b then (w, Inr ())
          else wwrapped (''remove directives from '' @ windowsBaseSSHDConfig)
            (on_host env (WriteFile (we_inst env) windowsBaseSSHDConfig updated 420)) w)"

section \<open>The services\<close>

definition buildService_windows :: "string \<Rightarrow> service_config" where
  "buildService_windows serviceExe =
     \<lparr>sc_Name = WindowsServiceName, sc_DisplayName = ''Uncluster Agent'',
      sc_Description = ''Uncluster node agent (SSH certificate gatekeeper)'', sc_Executable = serviceExe,
      sc_Arguments = [''agent'', ''run''], sc_UserName = windowsServiceAccountName, sc_UserService = None\<rparr>"

definition buildPrincipalsWriterService :: "string \<Rightarrow> service_config" where
  "buildPrincipalsWriterService serviceExe =
     \<lparr>sc_Name = WindowsPrincipalsWriterServiceName, sc_DisplayName = ''Uncluster Principals Writer'',
      sc_Description = ''Uncluster LocalSystem writer for AuthorizedPrincipalsFile (privilege-stripped, network-less)'',
      sc_Executable = serviceExe, sc_Arguments = [''principals-writer'', ''run''],
      sc_UserName = windowsPrincipalsWriterAccount, sc_UserService = None\<rparr>"

definition isAlreadyInstalledErr_windows :: "string \<Rightarrow> bool" where
  "isAlreadyInstalledErr_windows e \<longleftrightarrow>
     (let s = to_lower e in contains s ''already'' \<or> contains s ''exists'' \<or> contains s ''1073'')"

text \<open>What both registrations share: registering, and on a service that is there already, comparing what
  \<^verbatim>\<open>sc qc\<close> prints with what is wanted, and rebuilding it when it differs. \<open>fresh\<close> runs after a service has
  been registered anew.\<close>

definition register_service :: "wenv \<Rightarrow> service_config \<Rightarrow> string \<Rightarrow> winst \<Rightarrow> winst" where
  "register_service env svc what fresh w =
     (let ie = we_inst env in
      case ie_svc_new ie of
        Some e \<Rightarrow> (w, Inl e)
      | None \<Rightarrow>
     (case on_host env (ie_svc_install ie svc) w of
        (w1, Inr _) \<Rightarrow> fresh w1
      | (w1, Inl err) \<Rightarrow>
          if \<not> isAlreadyInstalledErr_windows err then (w1, Inl err)
          else (case combined_output env [''sc'', ''qc'', sc_Name svc] w1 of
            (w2, Some _, _) \<Rightarrow> (w2, Inr ())
          | (w2, None, out) \<Rightarrow>
              let drift = detectServiceUnitDrift (ie_quote ie) out (sc_Executable svc) (sc_UserName svc) (sc_Arguments svc) in
              if drift = [] then (w2, Inr ())
              else run_wsteps
                [ignored env [''net'', ''stop'', sc_Name svc],
                 wwrapped (''uninstall drifted '' @ what @ '' ('' @ drift @ '')'') (on_host env (ie_svc_uninstall ie svc)),
                 wwrapped (''reinstall '' @ what @ '' after drift ('' @ drift @ '')'') (on_host env (ie_svc_install ie svc)),
                 fresh] w2)))"

definition installService_windows :: "wenv \<Rightarrow> string \<Rightarrow> winst" where
  "installService_windows env serviceExe =
     register_service env (buildService_windows serviceExe) ''service'' (\<lambda>w. (w, Inr ()))"

text \<open>\<^verbatim>\<open>ClearSpoolDesiredState\<close>, with its error dropped.\<close>

definition clear_spool :: "wenv \<Rightarrow> winst" where
  "clear_spool env = remove_quietly env (path_join (SpoolDir env) ''policy.json'')"

definition installPrincipalsWriterService :: "wenv \<Rightarrow> string \<Rightarrow> winst" where
  "installPrincipalsWriterService env serviceExe =
     register_service env (buildPrincipalsWriterService serviceExe) ''writer service'' (clear_spool env)"

definition restart_service :: "wenv \<Rightarrow> string \<Rightarrow> winst" where
  "restart_service env name =
     run_wsteps [ignored env [''net'', ''stop'', name], reported env (''net start '' @ name) [''net'', ''start'', name]]"

definition startServiceWindows :: "wenv \<Rightarrow> winst" where
  "startServiceWindows env = restart_service env WindowsServiceName"

definition startPrincipalsWriterServiceWindows :: "wenv \<Rightarrow> winst" where
  "startPrincipalsWriterServiceWindows env = restart_service env WindowsPrincipalsWriterServiceName"

definition reloadSSHDWindows :: "wenv \<Rightarrow> winst" where
  "reloadSSHDWindows env = restart_service env ''sshd''"

definition UninstallPrincipalsWriterService :: "wenv \<Rightarrow> string \<Rightarrow> winst" where
  "UninstallPrincipalsWriterService env serviceExe =
     run_wsteps
       [ignored env [''net'', ''stop'', WindowsPrincipalsWriterServiceName],
        \<lambda>w. (case ie_svc_new (we_inst env) of
               Some e \<Rightarrow> (w, Inl e)
             | None \<Rightarrow> wwrapped ''uninstall writer service''
                 (on_host env (ie_svc_uninstall (we_inst env) (buildPrincipalsWriterService serviceExe))) w)]"

text \<open>\<^verbatim>\<open>errors.Join\<close> puts one error on a line.\<close>

definition deprovisionCleanupHook :: "wenv \<Rightarrow> (string, string) result \<Rightarrow> winst" where
  "deprovisionCleanupHook env executable w =
     (case RemoveWindowsManagedDirectives env w of
        (w1, r1) \<Rightarrow>
          let errs1 = (case r1 of Inl e \<Rightarrow> [''remove sshd directives: '' @ e] | Inr _ \<Rightarrow> []) in
          (case executable of
             Inl e \<Rightarrow> (w1, Inl (join_with [newline] (errs1 @ [''resolve executable for writer uninstall: '' @ e])))
           | Inr exe \<Rightarrow>
               (case UninstallPrincipalsWriterService env exe w1 of
                  (w2, r2) \<Rightarrow>
                    let errs = errs1 @ (case r2 of Inl e \<Rightarrow> [e] | Inr _ \<Rightarrow> []) in
                    (w2, if errs = [] then Inr () else Inl (join_with [newline] errs)))))"

section \<open>The writer's privileges\<close>

text \<open>UTF-16 of a code point.\<close>

definition utf16_rune :: "nat \<Rightarrow> 16 word list" where
  "utf16_rune r =
     (if r < 0x10000 then [of_nat r]
      else [of_nat (0xD800 + (r - 0x10000) div 0x400), of_nat (0xDC00 + (r - 0x10000) mod 0x400)])"

definition UTF16FromString :: "string \<Rightarrow> (string, 16 word list) result" where
  "UTF16FromString s =
     (if CHR 0x00 \<in> set s then Inl ''invalid argument''
      else Inr (concat (map (\<lambda>p. utf16_rune (fst p)) (runes s)) @ [0]))"

fun encode_privileges :: "(string \<Rightarrow> string) \<Rightarrow> string list \<Rightarrow> 16 word list \<Rightarrow> (string, 16 word list) result" where
  "encode_privileges quote [] out = Inr out"
| "encode_privileges quote (p # ps) out =
     (case UTF16FromString p of
        Inl e \<Rightarrow> Inl (''utf16 '' @ quote p @ '': '' @ e)
      | Inr u \<Rightarrow> encode_privileges quote ps (out @ u))"

definition privilegesToMultiSZ :: "(string \<Rightarrow> string) \<Rightarrow> string list \<Rightarrow> (string, 16 word list) result" where
  "privilegesToMultiSZ quote privs =
     (case encode_privileges quote privs [] of
        Inl e \<Rightarrow> Inl e
      | Inr out \<Rightarrow> Inr (if length (out @ [0]) = 1 then out @ [0, 0] else out @ [0]))"

definition writerRequiredPrivileges :: "string list" where
  "writerRequiredPrivileges = [''SeChangeNotifyPrivilege'']"

definition setWriterRequiredPrivileges :: "wenv \<Rightarrow> winst" where
  "setWriterRequiredPrivileges env w =
     (case we_denied env ''connect'' [] of
        Some e \<Rightarrow> (w, Inl (''connect SCM: '' @ e))
      | None \<Rightarrow>
     (case we_denied env ''open'' WindowsPrincipalsWriterServiceName of
        Some e \<Rightarrow> (w, Inl (''open service '' @ WindowsPrincipalsWriterServiceName @ '': '' @ e))
      | None \<Rightarrow>
     (case privilegesToMultiSZ (ie_quote (we_inst env)) writerRequiredPrivileges of
        Inl e \<Rightarrow> (w, Inl (''encode required privileges: '' @ e))
      | Inr multiSZ \<Rightarrow>
     (case we_denied env ''privileges'' WindowsPrincipalsWriterServiceName of
        Some e \<Rightarrow> (w, Inl (''ChangeServiceConfig2 required-privileges: '' @ e))
      | None \<Rightarrow> (w\<lparr>wh_privileges := Some multiSZ\<rparr>, Inr ())))))"

section \<open>The configuration\<close>

definition SaveConfigSystem_windows :: "wenv \<Rightarrow> string \<Rightarrow> agent_config \<Rightarrow> winst" where
  "SaveConfigSystem_windows env path cfg =
     run_wsteps
       [on_host env (MkdirAll (we_inst env) 493 (filepath_dir path)),
        on_host env (WriteFile (we_inst env) path (ie_toml (we_inst env) cfg) 416),
        restrictSystemConfigACL_windows env path]"

definition SaveConfig_windows :: "wenv \<Rightarrow> string \<Rightarrow> agent_config \<Rightarrow> winst" where
  "SaveConfig_windows env path cfg =
     run_wsteps
       [on_host env (MkdirAll (we_inst env) 448 (filepath_dir path)),
        on_host env (WriteFile (we_inst env) path (ie_toml (we_inst env) cfg) 384),
        restrictConfigACL env path]"

section \<open>The installation\<close>

text \<open>The paths of the configuration as the file system takes them.\<close>

definition slashed :: "expected_paths \<Rightarrow> expected_paths" where
  "slashed paths = \<lparr>xp_CAPubkey = to_slash (xp_CAPubkey paths), xp_SSHDropIn = to_slash (xp_SSHDropIn paths),
     xp_PrincipalsDir = to_slash (xp_PrincipalsDir paths)\<rparr>"

definition Install_windows :: "wenv \<Rightarrow> agent_config \<Rightarrow> string \<Rightarrow> winst" where
  "Install_windows env cfg serviceExe =
     (let paths = cf_ExpectedPaths cfg; sysPath = SystemConfigPath_windows env in
      run_wsteps
       [checkSSHDWindows env,
        wwrapped ''write ca pubkey'' (on_host env (writeCAPubkey (we_inst env) (slashed paths) (cf_CAPubkey cfg))),
        wwrapped ''windows sshd base-config directives'' (ensureWindowsBaseConfigDirectives env paths),
        wwrapped ''create principals dir'' (on_host env (ensurePrincipalsDir (we_inst env) (slashed paths))),
        wwrapped ''install agent service'' (installService_windows env serviceExe),
        wwrapped ''install principals-writer service'' (installPrincipalsWriterService env serviceExe),
        wwrapped ''set writer required-privileges'' (setWriterRequiredPrivileges env),
        wwrapped ''lock principals dir acl'' (restrictPrincipalsDirACLWindows env (to_slash (xp_PrincipalsDir paths))),
        wwrapped ''create spool dir'' (createSpoolDirWithACL env (SpoolDir env)),
        wwrapped (''save system config to '' @ sysPath) (SaveConfigSystem_windows env sysPath cfg),
        wwrapped ''start agent service'' (startServiceWindows env),
        wwrapped ''start principals-writer service'' (startPrincipalsWriterServiceWindows env),
        wwrapped ''restart sshd'' (reloadSSHDWindows env)])"

section \<open>The doctor\<close>

text \<open>The doctor asks the service manager and reads.\<close>

definition scQuery :: "wenv \<Rightarrow> string \<Rightarrow> whost \<Rightarrow> string option \<times> string" where
  "scQuery env name w = snd (combined_output env [''sc.exe'', ''query'', name] w)"

definition checkWriterServiceWindows :: "wenv \<Rightarrow> whost \<Rightarrow> doctor_check" where
  "checkWriterServiceWindows env w =
     (case scQuery env WindowsPrincipalsWriterServiceName w of
        (Some _, _) \<Rightarrow> writerServiceResult False False
      | (None, out) \<Rightarrow> writerServiceResult True (containsState out ''RUNNING''))"

definition checkBaseConfigDirectivesWindows :: "wenv \<Rightarrow> string \<Rightarrow> whost \<Rightarrow> doctor_check" where
  "checkBaseConfigDirectivesWindows env p w =
     (case ReadFile (we_inst env) p (wh_host w) of
        Inl e \<Rightarrow> result_of ''sshd-drop-in'' CheckFail (p @ '' unreadable ('' @ e @ '') '' @ dash @ '' run: uncluster agent install'')
      | Inr content \<Rightarrow>
          if \<not> hasManagedBlockBeforeMatch content then result_of ''sshd-drop-in'' CheckFail
            (p @ '' lacks the uncluster directive block before its first Match block '' @ dash
             @ '' CA trust + principals are not effective, so cert login fails. Run: uncluster agent install (#179)'')
          else if \<not> contains content ''TrustedUserCAKeys'' \<or> \<not> contains content ''AuthorizedPrincipalsFile''
          then result_of ''sshd-drop-in'' CheckWarn
            (p @ '' has the uncluster block but is missing TrustedUserCAKeys/AuthorizedPrincipalsFile (run install to repair)'')
          else result_of ''sshd-drop-in'' CheckOK
            (''sshd directives effective in '' @ p
             @ '' (global, before first Match; TrustedUserCAKeys + AuthorizedPrincipalsFile present)''))"

text \<open>A service: whether it is installed, and if so whether it runs.\<close>

definition service_checks :: "string option \<times> string \<Rightarrow> string \<Rightarrow> string \<Rightarrow> string \<Rightarrow> string \<Rightarrow> doctor_check list" where
  "service_checks query installed running missing stopped =
     (case query of
        (Some _, _) \<Rightarrow> [result_of installed CheckFail missing]
      | (None, out) \<Rightarrow>
          [result_of installed CheckOK [],
           if containsState out ''RUNNING'' then result_of running CheckOK [] else result_of running CheckFail stopped])"

definition Doctor_windows :: "wenv \<Rightarrow> expected_paths \<Rightarrow> whost \<Rightarrow> doctor_check list" where
  "Doctor_windows env paths w =
     (let caPath = (if xp_CAPubkey paths = [] then xp_CAPubkey windowsPaths else xp_CAPubkey paths);
          pDir = to_slash (if xp_PrincipalsDir paths = [] then xp_PrincipalsDir windowsPaths else xp_PrincipalsDir paths) in
      service_checks (scQuery env ''sshd'' w) ''sshd-installed'' ''sshd-running''
        ''OpenSSH Server (sshd) not found. Install: Add-WindowsCapability -Online -Name OpenSSH.Server~~~~0.0.1.0''
        ''sshd service not RUNNING. Start: Start-Service sshd''
      @ [if h_files (wh_host w) (to_slash caPath) \<noteq> None \<and> ie_fault (we_inst env) ''stat'' (to_slash caPath) = None
         then result_of ''ca-pubkey'' CheckOK []
         else result_of ''ca-pubkey'' CheckFail (caPath @ '' not found. Run: uncluster agent install''),
         checkBaseConfigDirectivesWindows env windowsBaseSSHDConfig w,
         checkPrincipalsACLWindows env pDir w,
         checkPerUserPrincipalsFilesWindows env pDir w,
         checkSpoolACLWindows env (SpoolDir env) w]
      @ service_checks (scQuery env WindowsServiceName w) ''service-installed'' ''service-running''
        ''UnclusterAgent service not installed. Run: uncluster agent install''
        ''UnclusterAgent service not RUNNING. Start: net start UnclusterAgent''
      @ [checkWriterServiceWindows env w, checkConfigACLWindows env (SystemConfigPath_windows env) w])"

end
