(* ===== verification/Windows_Acl_Theorems.thy ===== *)
theory Windows_Acl_Theorems
  imports Windows_Acl Installer_Steps
begin

text \<open>
  What the access lists of \<open>Windows_Acl\<close> achieve: the lists the program sets give the processes of the
  machine exactly the rights meant for them, the doctor accepts them, and a principals file the doctor
  accepts is one that sshd's rule honours.
\<close>

section \<open>Bits of a list\<close>

lemma ace_bits_iff:
  "bit (fst (ace_bits sid aces al de)) n \<longleftrightarrow>
     bit al n \<or> (\<exists>a \<in> set aces. ace_sid a = sid \<and> ace_kind a = AccessAllowed \<and> bit (ace_mask a) n)"
  "bit (snd (ace_bits sid aces al de)) n \<longleftrightarrow>
     bit de n \<or> (\<exists>a \<in> set aces. ace_sid a = sid \<and> ace_kind a = AccessDenied \<and> bit (ace_mask a) n)"
  by (induction sid aces al de rule: ace_bits.induct) (auto simp: bit_or_iff split: ace_type.splits)

lemma effective_bits_iff:
  "bit (effective_bits sid aces) n \<longleftrightarrow>
     (\<exists>a \<in> set aces. ace_sid a = sid \<and> ace_kind a = AccessAllowed \<and> bit (ace_mask a) n)
     \<and> \<not> (\<exists>a \<in> set aces. ace_sid a = sid \<and> ace_kind a = AccessDenied \<and> bit (ace_mask a) n)"
proof -
  have "bit (effective_bits sid aces) n \<longleftrightarrow> bit (fst (ace_bits sid aces 0 0)) n \<and> \<not> bit (snd (ace_bits sid aces 0 0)) n"
    by (cases "ace_bits sid aces 0 0") (auto simp: effective_bits_def bit_and_iff bit_not_iff dest: mask_bit)
  then show ?thesis by (simp add: ace_bits_iff)
qed

text \<open>\<open>speaks tok a\<close>: the entry is about a process with the identifiers \<open>tok\<close>.\<close>

definition speaks :: "sid set \<Rightarrow> ace \<Rightarrow> bool" where
  "speaks tok a \<longleftrightarrow> ace_sid a \<in> tok \<and> \<not> inherit_only a"

lemma access_walk_upper:
  "bit (access_walk tok aces g d) n \<Longrightarrow>
     bit g n \<or> (\<exists>a \<in> set aces. speaks tok a \<and> ace_kind a = AccessAllowed \<and> bit (ace_mask a) n)"
  by (induction tok aces g d rule: access_walk.induct)
    (auto simp: speaks_def bit_or_iff bit_and_iff split: ace_type.splits if_splits)

lemma access_walk_mono: "bit g n \<Longrightarrow> bit (access_walk tok aces g d) n"
  by (induction tok aces g d rule: access_walk.induct) (auto simp: bit_or_iff split: ace_type.splits)

lemma access_walk_lower:
  assumes "a \<in> set aces" "speaks tok a" "ace_kind a = AccessAllowed" "bit (ace_mask a) n" "\<not> bit d n"
    "\<forall>b \<in> set aces. speaks tok b \<and> ace_kind b = AccessDenied \<longrightarrow> \<not> bit (ace_mask b) n"
  shows "bit (access_walk tok aces g d) n"
  using assms
proof (induction tok aces g d rule: access_walk.induct)
  case (2 tok b aces g d)
  have n: "n < 32" using "2.prems"(4) by (auto dest: mask_bit)
  show ?case
  proof (cases "speaks tok b")
    case False
    then have "a \<in> set aces" using "2.prems"(1,2) by auto
    with False 2 show ?thesis by (auto simp: speaks_def)
  next
    case b: True
    show ?thesis
    proof (cases "ace_kind b")
      case AccessAllowed
      show ?thesis
      proof (cases "bit (ace_mask b) n")
        case True
        then show ?thesis using b AccessAllowed "2.prems"(5) n
          by (simp add: speaks_def access_walk_mono bit_or_iff bit_and_iff bit_not_iff)
      next
        case False
        then have "a \<in> set aces" using "2.prems"(1,4) by auto
        with b AccessAllowed "2.prems" show ?thesis by (auto simp: speaks_def intro!: "2.IH"(2))
      qed
    next
      case AccessDenied
      then have "a \<in> set aces" using "2.prems"(1,3) by auto
      with b AccessDenied "2.prems" show ?thesis
        by (auto simp: speaks_def bit_or_iff bit_and_iff intro!: "2.IH"(3))
    next
      case OtherAce
      then have "a \<in> set aces" using "2.prems"(1,3) by auto
      with b OtherAce "2.prems" show ?thesis by (auto simp: speaks_def intro!: "2.IH"(4))
    qed
  qed
qed simp

section \<open>What the system documents\<close>

text \<open>The rights an entry can give: its generic rights mapped to those of a file, and (in the copy that is
  kept for the children) unmapped.\<close>

definition entry_rights :: "explicit_access \<Rightarrow> mask" where
  "entry_rights e = map_generic (ea_AccessPermissions e) OR ea_AccessPermissions e"

text \<open>A list says exactly what the entries say: it only allows, nobody more than an entry does, and every
  entry is in force on the object itself.\<close>

definition grants_exactly :: "explicit_access list \<Rightarrow> ace list \<Rightarrow> bool" where
  "grants_exactly ea aces \<longleftrightarrow>
     (\<forall>a \<in> set aces. ace_kind a = AccessAllowed \<and> (\<exists>e \<in> set ea. ace_sid a = ea_Trustee e \<and> has_bits (entry_rights e) (ace_mask a)))
     \<and> (\<forall>e \<in> set ea. \<exists>a \<in> set aces. ace_sid a = ea_Trustee e \<and> \<not> inherit_only a
            \<and> has_bits (ace_mask a) (map_generic (ea_AccessPermissions e)))"

text \<open>Storing the list of some entries, one for each identifier, replaces the list of the path by one that
  says what they say, keeps its owner, and changes no descriptor outside the directory.\<close>

definition documented_acls :: "wenv \<Rightarrow> bool" where
  "documented_acls env \<longleftrightarrow>
     (\<forall>path ea acl sds. we_entries env ea = Inr acl \<and> list_all (\<lambda>e. ea_AccessMode e = SetAccess) ea \<and> distinct (map ea_Trustee ea)
        \<longrightarrow> (\<exists>aces. sd_dacl (we_store env path acl sds path) = DaclOf aces \<and> grants_exactly ea aces)
          \<and> sd_owner (we_store env path acl sds path) = sd_owner (sds path)
          \<and> (\<forall>q. q \<noteq> path \<and> \<not> has_prefix (path @ ''/'') q \<longrightarrow> we_store env path acl sds q = sds q))"

text \<open>The three accounts, which are different; \<open>outsider\<close>: a process that is neither SYSTEM nor an
  administrator, and does not own the file.\<close>

definition accounts :: "wenv \<Rightarrow> host \<Rightarrow> sid \<Rightarrow> sid \<Rightarrow> sid \<Rightarrow> bool" where
  "accounts env h sy ad ag \<longleftrightarrow>
     we_system env = Inr sy \<and> we_admins env = Inr ad \<and> we_agent env h = Some ag \<and> distinct [sy, ad, ag]"

definition outsider :: "wenv \<Rightarrow> security \<Rightarrow> sid set \<Rightarrow> bool" where
  "outsider env sd tok \<longleftrightarrow> (\<forall>sid \<in> tok. \<not> isAllowedTrustee env sid) \<and> \<not> owns_object tok sd"

lemma grants_upper:
  assumes "grants_exactly ea aces" "bit (access_walk tok aces 0 0) n"
  shows "\<exists>e \<in> set ea. ea_Trustee e \<in> tok \<and> bit (entry_rights e) n"
proof -
  obtain a where a: "a \<in> set aces" "ace_sid a \<in> tok" "bit (ace_mask a) n"
    using access_walk_upper [OF assms(2)] by (auto simp: speaks_def)
  then obtain e where "e \<in> set ea" "ace_sid a = ea_Trustee e" "has_bits (entry_rights e) (ace_mask a)"
    using assms(1) by (auto simp: grants_exactly_def)
  with a show ?thesis by (auto simp: has_bits_iff)
qed

lemma grants_lower:
  assumes "grants_exactly ea aces" "e \<in> set ea" "ea_Trustee e \<in> tok"
  shows "has_bits (access_walk tok aces 0 0) (map_generic (ea_AccessPermissions e))"
proof -
  obtain a where a: "a \<in> set aces" "ace_sid a = ea_Trustee e" "\<not> inherit_only a"
      "has_bits (ace_mask a) (map_generic (ea_AccessPermissions e))"
    using assms(1,2) by (auto simp: grants_exactly_def)
  have k: "\<And>b. b \<in> set aces \<Longrightarrow> ace_kind b = AccessAllowed" using assms(1) by (auto simp: grants_exactly_def)
  show ?thesis unfolding has_bits_iff
  proof (intro allI impI)
    fix n assume "bit (map_generic (ea_AccessPermissions e)) n"
    then have "bit (ace_mask a) n" using a(4) by (simp add: has_bits_iff)
    then show "bit (access_walk tok aces 0 0) n"
      using a k assms(3) by (intro access_walk_lower [of a]) (auto simp: speaks_def)
  qed
qed

lemma grants_effective:
  assumes "grants_exactly ea aces"
  shows "bit (effective_bits sid aces) n \<Longrightarrow> \<exists>e \<in> set ea. ea_Trustee e = sid \<and> bit (entry_rights e) n"
    and "e \<in> set ea \<Longrightarrow> has_bits (effective_bits (ea_Trustee e) aces) (map_generic (ea_AccessPermissions e))"
proof -
  show "\<exists>e \<in> set ea. ea_Trustee e = sid \<and> bit (entry_rights e) n" if "bit (effective_bits sid aces) n"
    using that assms by (fastforce simp: effective_bits_iff grants_exactly_def has_bits_iff)
  show "has_bits (effective_bits (ea_Trustee e) aces) (map_generic (ea_AccessPermissions e))" if "e \<in> set ea"
    using that assms by (fastforce simp: effective_bits_iff grants_exactly_def has_bits_iff)
qed

text \<open>Every setter stores a list that says what its entries say.\<close>

lemma set_protected_ok:
  assumes "set_protected env pre inList inSet ea path w = (w', Inr ())"
  obtains sy ad acl where "we_system env = Inr sy" "we_admins env = Inr ad" "we_entries env (ea sy ad) = Inr acl"
    "w' = w\<lparr>wh_sd := we_store env path acl (wh_sd w)\<rparr>" "h_files (wh_host w) path \<noteq> None"
  using assms by (auto simp: set_protected_def wwrapped_def SetNamedSecurityInfo_def split: sum.splits option.splits prod.splits if_splits)

lemma set_protected_grants:
  assumes "set_protected env pre inList inSet ea path w = (w', Inr ())" "documented_acls env"
    "we_system env = Inr sy" "we_admins env = Inr ad"
    "list_all (\<lambda>e. ea_AccessMode e = SetAccess) (ea sy ad)" "distinct (map ea_Trustee (ea sy ad))"
  shows "wh_host w' = wh_host w" "h_files (wh_host w) path \<noteq> None"
    "\<exists>aces. sd_dacl (wh_sd w' path) = DaclOf aces \<and> grants_exactly (ea sy ad) aces"
    "sd_owner (wh_sd w' path) = sd_owner (wh_sd w path)"
    "q \<noteq> path \<Longrightarrow> \<not> has_prefix (path @ ''/'') q \<Longrightarrow> wh_sd w' q = wh_sd w q"
proof -
  obtain acl where a: "we_entries env (ea sy ad) = Inr acl" "w' = w\<lparr>wh_sd := we_store env path acl (wh_sd w)\<rparr>"
    and f: "h_files (wh_host w) path \<noteq> None"
    using set_protected_ok [OF assms(1)] assms(3,4) by (metis sum.inject(2))
  have d: "(\<exists>aces. sd_dacl (we_store env path acl (wh_sd w) path) = DaclOf aces \<and> grants_exactly (ea sy ad) aces)
     \<and> sd_owner (we_store env path acl (wh_sd w) path) = sd_owner (wh_sd w path)
     \<and> (\<forall>q. q \<noteq> path \<and> \<not> has_prefix (path @ ''/'') q \<longrightarrow> we_store env path acl (wh_sd w) q = wh_sd w q)"
    using assms(2,5,6) a(1) unfolding documented_acls_def by blast
  show "h_files (wh_host w) path \<noteq> None" by (fact f)
  show "wh_host w' = wh_host w" using a(2) by simp
  show "\<exists>aces. sd_dacl (wh_sd w' path) = DaclOf aces \<and> grants_exactly (ea sy ad) aces"
    "sd_owner (wh_sd w' path) = sd_owner (wh_sd w path)"
    using d a(2) by simp_all
  show "wh_sd w' q = wh_sd w q" if "q \<noteq> path" "\<not> has_prefix (path @ ''/'') q" using d a(2) that by simp
qed

section \<open>The lists the program sets\<close>

lemma mapped_rights:
  "map_generic GENERIC_ALL = FILE_ALL_ACCESS" "map_generic agentSpoolAccessMask = spoolApplyMask"
  "map_generic GENERIC_READ = FILE_GENERIC_READ"
  by code_simp+

lemma spool_entry_limits: "entry_rights (agentSpoolACE ag) AND (WRITE_DAC OR WRITE_OWNER) = 0"
  unfolding entry_rights_def agentSpoolACE_def by simp code_simp

lemma read_entry_limits: "entry_rights (agentReadACE ag) AND principalsWriteMask = 0"
  unfolding entry_rights_def agentReadACE_def by simp code_simp

text \<open>A list with no entry for a process but those of SYSTEM and the administrators gives it nothing; with
  one more entry it gives the rights of that entry.\<close>

lemma outsider_gets:
  assumes "grants_exactly ea aces" "\<And>e. e \<in> set ea \<Longrightarrow> ea_Trustee e \<in> {sy, ad} \<or> e = x" "sy \<notin> tok" "ad \<notin> tok"
  shows "bit (access_walk tok aces 0 0) n \<Longrightarrow> ea_Trustee x \<in> tok \<and> bit (entry_rights x) n"
  using grants_upper [OF assms(1)] assms(2-4) by blast

definition trusted_entries :: "bool \<Rightarrow> sid \<Rightarrow> sid \<Rightarrow> explicit_access list" where
  "trusted_entries inh sy ad = [fullControlACE sy inh, fullControlACE ad inh]"

lemma trusted_entries_simps [simp]:
  "list_all (\<lambda>e. ea_AccessMode e = SetAccess) (trusted_entries inh sy ad)"
  "map ea_Trustee (trusted_entries inh sy ad) = [sy, ad]"
  by (simp_all add: trusted_entries_def fullControlACE_def)

lemma trusted_entries_sid: "e \<in> set (trusted_entries inh sy ad) \<Longrightarrow> ea_Trustee e \<in> {sy, ad}"
  by (auto simp: trusted_entries_def fullControlACE_def)

lemma agent_entry_simps [simp]:
  "ea_AccessMode (agentSpoolACE ag) = SetAccess" "ea_Trustee (agentSpoolACE ag) = ag"
  "ea_AccessPermissions (agentSpoolACE ag) = agentSpoolAccessMask"
  "ea_AccessMode (agentReadACE ag) = SetAccess" "ea_Trustee (agentReadACE ag) = ag"
  "ea_AccessPermissions (agentReadACE ag) = GENERIC_READ"
  by (simp_all add: agentSpoolACE_def agentReadACE_def)

lemma word_zeroI: "(\<And>n. \<not> bit m n) \<Longrightarrow> m = 0" for m :: mask
  by (simp add: bit_eq_iff)

text \<open>Nobody but SYSTEM and the administrators gets anything from a list of the two.\<close>

lemma locked_list:
  assumes "grants_exactly (trusted_entries inh sy ad) aces" "sy \<notin> tok" "ad \<notin> tok"
  shows "access_walk tok aces 0 0 = 0"
  using grants_upper [OF assms(1)] trusted_entries_sid assms(2,3) by (intro word_zeroI) blast

lemma locked_bits:
  assumes "grants_exactly (trusted_entries inh sy ad) aces" "sid \<noteq> sy" "sid \<noteq> ad"
  shows "effective_bits sid aces = 0"
  using grants_effective(1) [OF assms(1)] trusted_entries_sid assms(2,3) by (intro word_zeroI) blast

lemma outsider_accounts:
  "accounts env h sy ad ag \<Longrightarrow> outsider env sd tok \<longleftrightarrow> sy \<notin> tok \<and> ad \<notin> tok \<and> \<not> owns_object tok sd"
  by (auto simp: accounts_def outsider_def isAllowedTrustee_def)

text \<open>A list of the trusted entries and one more: the account of that entry gets its rights and no others, every
  other outsider gets nothing.\<close>

lemma account_alone:
  assumes "grants_exactly (trusted_entries inh sy ad @ [x]) aces" "sd_dacl sd = DaclOf aces" "accounts env h sy ad ag"
    "ea_Trustee x = ag" "map_generic (ea_AccessPermissions x) = want" "entry_rights x AND never = 0" "outsider env sd tok"
  shows "if ag \<in> tok then has_bits (granted tok sd) want \<and> granted tok sd AND never = 0 else granted tok sd = 0"
proof -
  have t: "e \<in> set (trusted_entries inh sy ad @ [x]) \<Longrightarrow> ea_Trustee e \<in> {sy, ad} \<or> e = x" for e
    using trusted_entries_sid by auto
  have n: "sy \<notin> tok" "ad \<notin> tok" "granted tok sd = access_walk tok aces 0 0"
    using assms(7,2) by (simp_all add: outsider_accounts [OF assms(3)] granted_def list_grants_def)
  have u: "bit (access_walk tok aces 0 0) n \<Longrightarrow> ag \<in> tok \<and> bit (entry_rights x) n" for n
    using outsider_gets [OF assms(1) t n(1,2)] assms(4) by simp
  show ?thesis
  proof (cases "ag \<in> tok")
    case True
    then show ?thesis
      using grants_lower [OF assms(1), of x tok] u assms(4-6) by (auto simp: n(3) no_bits_iff)
  next
    case False
    then show ?thesis using u n(3) by (auto intro: word_zeroI)
  qed
qed

lemma set_protected_with_account:
  assumes "set_protected env pre inList inSet (\<lambda>system admin. trusted_entries inh system admin
       @ (case we_agent env (wh_host w) of None \<Rightarrow> [] | Some sid \<Rightarrow> [mk sid])) path w = (w', Inr ())"
    "documented_acls env" "accounts env (wh_host w) sy ad ag" "ea_AccessMode (mk ag) = SetAccess" "ea_Trustee (mk ag) = ag"
  obtains aces where "sd_dacl (wh_sd w' path) = DaclOf aces" "grants_exactly (trusted_entries inh sy ad @ [mk ag]) aces"
    "wh_host w' = wh_host w" "h_files (wh_host w') path \<noteq> None"
proof -
  have a: "we_system env = Inr sy" "we_admins env = Inr ad" "distinct [sy, ad, ag]" "we_agent env (wh_host w) = Some ag"
    using assms(3) by (auto simp: accounts_def)
  let ?ea = "\<lambda>system admin. trusted_entries inh system admin @ [mk ag]"
  have s: "set_protected env pre inList inSet ?ea path w = (w', Inr ())" using assms(1) unfolding a(4) by simp
  have k: "list_all (\<lambda>e. ea_AccessMode e = SetAccess) (?ea sy ad)" "distinct (map ea_Trustee (?ea sy ad))"
    using a(3) assms(4,5) by auto
  note g = set_protected_grants [where ea = ?ea, OF s assms(2) a(1,2) k]
  from that g(1-3) show thesis by auto
qed

text \<open>The doctor reads the descriptors; \<open>readable env p\<close>: nothing keeps it from reading that of \<open>p\<close>.\<close>

definition readable_sd :: "wenv \<Rightarrow> string \<Rightarrow> bool" where
  "readable_sd env p \<longleftrightarrow> we_denied env ''get'' p = None \<and> ie_fault (we_inst env) ''stat'' p = None"

lemma run_wsteps_ok:
  "run_wsteps (f # fs) w = (w', Inr ()) \<longleftrightarrow> (\<exists>w1. f w = (w1, Inr ()) \<and> run_wsteps fs w1 = (w', Inr ()))"
  by (auto split: prod.splits sum.splits)

lemma wwrapped_ok [simp]: "wwrapped ctx f w = (w', Inr ()) \<longleftrightarrow> f w = (w', Inr ())"
  by (auto simp: wwrapped_def split: prod.splits sum.splits)

lemma createSpool_grants:
  assumes "createSpoolDirWithACL env dir w = (w', Inr ())" "documented_acls env" "accounts env (wh_host w') sy ad ag"
  obtains aces where "sd_dacl (wh_sd w' dir) = DaclOf aces"
    "grants_exactly (trusted_entries True sy ad @ [agentSpoolACE ag]) aces" "is_dir (wh_host w') dir"
proof -
  define ea where "ea = (\<lambda>(w :: whost) system admin. trusted_entries True system admin
     @ (case we_agent env (wh_host w) of None \<Rightarrow> [] | Some agentSID \<Rightarrow> [agentSpoolACE agentSID]))"
  obtain w1 where m: "on_host env (MkdirAll (we_inst env) 493 dir) w = (w1, Inr ())"
    and s: "set_protected env [] '' (spool)'' ''(spool) '' (ea w1) dir w1 = (w', Inr ())"
    using assms(1) unfolding ea_def trusted_entries_def createSpoolDirWithACL_def run_wsteps_ok wwrapped_ok
    by (elim exE conjE) (simp only: run_wsteps.simps prod.inject)
  have d: "is_dir (wh_host w1) dir"
    using m MkdirAll_changes [of "we_inst env" 493 dir "wh_host w"]
    by (auto simp: on_host_def split: prod.splits)
  have h: "wh_host w' = wh_host w1" by (rule set_protected_ok [OF s]) simp
  have a: "we_system env = Inr sy" "we_admins env = Inr ad" "distinct [sy, ad, ag]" "we_agent env (wh_host w1) = Some ag"
    using assms(3) h by (auto simp: accounts_def)
  then have e: "ea w1 sy ad = trusted_entries True sy ad @ [agentSpoolACE ag]" by (simp add: ea_def)
  have "\<exists>aces. sd_dacl (wh_sd w' dir) = DaclOf aces \<and> grants_exactly (ea w1 sy ad) aces"
    by (rule set_protected_grants(3) [OF s assms(2) a(1,2)]) (use a(3) in \<open>auto simp: e\<close>)
  with that d h e show thesis by auto
qed

lemma spool_check:
  assumes "createSpoolDirWithACL env dir w = (w', Inr ())" "documented_acls env"
    "accounts env (wh_host w') sy ad ag" "readable_sd env dir"
  shows "dc_Status (checkSpoolACLWindows env dir w') = CheckOK"
proof -
  obtain aces where l: "sd_dacl (wh_sd w' dir) = DaclOf aces"
    and g: "grants_exactly (trusted_entries True sy ad @ [agentSpoolACE ag]) aces" and d: "is_dir (wh_host w') dir"
    using createSpool_grants [OF assms(1-3)] .
  have b: "has_bits (effective_bits ag aces) spoolApplyMask"
    using grants_effective(2) [OF g, of "agentSpoolACE ag"] by (simp add: mapped_rights)
  show ?thesis
    using assms(3,4) l d b
    by (auto simp: checkSpoolACLWindows_def dir_there_def readable_sd_def serviceAccountHasAccess_def accounts_def
      sidHasAccess_def GetNamedSecurityInfo_def read_dacl_def spoolACLResult_def result_of_def has_bits_def is_dir_def
      split: option.splits)
qed


lemma lock_grants:
  assumes "restrictPrincipalsDirACLWindows env dir w = (w', Inr ())" "documented_acls env" "accounts env (wh_host w) sy ad ag"
  obtains aces where "sd_dacl (wh_sd w' dir) = DaclOf aces" "grants_exactly (trusted_entries True sy ad) aces" "wh_host w' = wh_host w"
proof -
  have a: "we_system env = Inr sy" "we_admins env = Inr ad" "distinct [sy, ad, ag]"
    using assms(3) by (auto simp: accounts_def)
  have s: "set_protected env [] [] [] (trusted_entries True) dir w = (w', Inr ())"
    using assms(1) by (simp add: restrictPrincipalsDirACLWindows_def setProtectedSystemAdminsACL_def trusted_entries_def [abs_def])
  note g = set_protected_grants [OF s assms(2) a(1,2)]
  have "wh_host w' = wh_host w" by (rule g(1)) (use a(3) in simp_all)
  with that g(3) a(3) show thesis by auto
qed

lemma lock_check:
  assumes "restrictPrincipalsDirACLWindows env dir w = (w', Inr ())" "documented_acls env"
    "accounts env (wh_host w) sy ad ag" "ie_fault (we_inst env) ''stat'' dir = None" "is_dir (wh_host w) dir"
  shows "dc_Status (checkPrincipalsACLWindows env dir w') = CheckOK"
proof -
  obtain aces where l: "sd_dacl (wh_sd w' dir) = DaclOf aces" "grants_exactly (trusted_entries True sy ad) aces"
    and h: "wh_host w' = wh_host w" using lock_grants [OF assms(1-3)] .
  have "effective_bits ag aces = 0" using assms(3) by (intro locked_bits [OF l(2)]) (auto simp: accounts_def)
  then have "serviceAccountHasAnyWriteBit env dir w' = (True, False)"
    using assms(3) h l(1)
    by (auto simp: serviceAccountHasAnyWriteBit_def GetNamedSecurityInfo_def read_dacl_def accounts_def split: option.splits)
  then show ?thesis
    using assms(4,5) h by (simp add: checkPrincipalsACLWindows_def dir_there_def principalsDirACLResult_def result_of_def)
qed

text \<open>Nobody else writes the principals directory. After the installer has locked it, the doctor's check
  passes, and every process that is neither SYSTEM nor an administrator, the agent's included, holds
  no right on it, whatever list was there before.\<close>

theorem locked_directory:
  assumes "restrictPrincipalsDirACLWindows env dir w = (w', Inr ())" "documented_acls env"
    "accounts env (wh_host w) sy ad ag" "ie_fault (we_inst env) ''stat'' dir = None" "is_dir (wh_host w) dir"
  shows "dc_Status (checkPrincipalsACLWindows env dir w') = CheckOK
     \<and> (\<forall>tok. outsider env (wh_sd w' dir) tok \<longrightarrow> granted tok (wh_sd w' dir) = 0)"
proof -
  obtain aces where l: "sd_dacl (wh_sd w' dir) = DaclOf aces" "grants_exactly (trusted_entries True sy ad) aces"
    using lock_grants [OF assms(1-3)] .
  have "granted tok (wh_sd w' dir) = 0" if "outsider env (wh_sd w' dir) tok" for tok
    using that locked_list [OF l(2), of tok] l(1)
    by (simp add: outsider_accounts [OF assms(3)] granted_def list_grants_def)
  then show ?thesis using lock_check [OF assms] by blast
qed

text \<open>The doctor's reading of a list and the system's: for a list in the usual order (what is denied
  first) without entries that are only for children, the rights the doctor computes for the account
  are those the list gives to a process that has this identifier only.\<close>

fun denies_first :: "ace list \<Rightarrow> bool" where
  "denies_first [] \<longleftrightarrow> True"
| "denies_first (a # aces) \<longleftrightarrow>
     (ace_kind a = AccessAllowed \<longrightarrow> list_all (\<lambda>b. ace_kind b \<noteq> AccessDenied) aces) \<and> denies_first aces"

lemma walk_denied:
  assumes "bit d n" "\<not> bit g n"
  shows "\<not> bit (access_walk tok aces g d) n"
  using assms
  by (induction tok aces g d rule: access_walk.induct) (auto simp: bit_or_iff bit_and_iff bit_not_iff split: ace_type.splits)

lemma walk_ordered:
  assumes "denies_first aces" "\<not> bit g n" "b \<in> set aces" "speaks tok b" "ace_kind b = AccessDenied" "bit (ace_mask b) n"
  shows "\<not> bit (access_walk tok aces g d) n"
  using assms
proof (induction tok aces g d rule: access_walk.induct)
  case (2 tok a aces g d)
  show ?case
  proof (cases "a = b")
    case True
    then show ?thesis using "2.prems" by (simp add: speaks_def walk_denied bit_or_iff bit_and_iff bit_not_iff mask_bit)
  next
    case False
    then have b: "b \<in> set aces" using "2.prems"(3) by simp
    then have "ace_kind a \<noteq> AccessAllowed" using "2.prems"(1,5) by (auto simp: list_all_iff)
    with b "2.prems" "2.IH" show ?thesis by (cases "ace_kind a") auto
  qed
qed simp

text \<open>On a list in the usual order the doctor's loop is Windows's own access check.\<close>

theorem sidHasAccess_is_access_check:
  assumes "we_denied env ''get'' path = None" "h_files (wh_host w) path \<noteq> None"
    "sd_dacl (wh_sd w path) = DaclOf aces" "denies_first aces" "\<forall>a \<in> set aces. ace_sid a = sid \<longrightarrow> \<not> inherit_only a"
  shows "sidHasAccess env path sid want w \<longleftrightarrow> has_bits (list_grants {sid} (wh_sd w path)) want"
proof -
  have "bit (effective_bits sid aces) n \<longleftrightarrow> bit (access_walk {sid} aces 0 0) n" for n
  proof
    assume e: "bit (effective_bits sid aces) n"
    then obtain a where "a \<in> set aces" "speaks {sid} a" "ace_kind a = AccessAllowed" "bit (ace_mask a) n"
      using assms(5) by (auto simp: effective_bits_iff speaks_def)
    then show "bit (access_walk {sid} aces 0 0) n"
      using e by (intro access_walk_lower [of a]) (auto simp: effective_bits_iff speaks_def)
  next
    assume w: "bit (access_walk {sid} aces 0 0) n"
    then show "bit (effective_bits sid aces) n"
      using access_walk_upper [OF w] walk_ordered [OF assms(4), of 0 n _ "{sid}" 0] assms(5)
      unfolding effective_bits_iff by (fastforce simp: speaks_def)
  qed
  then have "effective_bits sid aces = access_walk {sid} aces 0 0" by (simp add: bit_eq_iff)
  then show ?thesis using assms(1-3)
    by (auto simp: sidHasAccess_def GetNamedSecurityInfo_def read_dacl_def list_grants_def has_bits_def)
qed

section \<open>What sshd honours\<close>

text \<open>The rule of Win32-OpenSSH that \<^verbatim>\<open>policy_acl_windows.go\<close> states: the owner is trusted, and no entry
  gives an account that is not trusted a right to change the file.\<close>

definition sshd_write_class :: mask where
  "sshd_write_class = FILE_WRITE_DATA OR FILE_WRITE_ATTRIBUTES OR FILE_WRITE_EA OR FILE_APPEND_DATA
     OR WRITE_DAC OR WRITE_OWNER OR DELETE_RIGHT"

definition sshd_honours :: "sid set \<Rightarrow> security \<Rightarrow> bool" where
  "sshd_honours trusted s \<longleftrightarrow>
     (\<exists>owner \<in> trusted. sd_owner s = Some owner)
     \<and> (\<exists>aces. sd_dacl s = DaclOf aces \<and>
          (\<forall>a \<in> set aces. ace_kind a = AccessAllowed \<and> ace_mask a AND sshd_write_class \<noteq> 0 \<longrightarrow> ace_sid a \<in> trusted))"

lemma write_class_doctor: "bit sshd_write_class n \<Longrightarrow> bit principalsWriteMask n"
  by (auto simp: sshd_write_class_def principalsWriteMask_def bit_or_iff)

lemma safe_file:
  assumes "\<not> principalsFileIsUnsafe env p isAllowed w"
  obtains aces owner where "sd_dacl (wh_sd w p) = DaclOf aces" "sd_owner (wh_sd w p) = Some owner" "isAllowed owner"
    "\<And>a n. a \<in> set aces \<Longrightarrow> ace_kind a = AccessAllowed \<Longrightarrow> \<not> isAllowed (ace_sid a) \<Longrightarrow> bit principalsWriteMask n \<Longrightarrow> \<not> bit (ace_mask a) n"
  using assms
  by (fastforce simp: principalsFileIsUnsafe_def GetNamedSecurityInfo_def read_dacl_def list_ex_iff no_bits_iff
      split: option.splits acl_state.splits if_splits)


text \<open>A file the writer has stamped passes when SYSTEM or the administrators own it.\<close>

lemma set_protected_locked:
  assumes "set_protected env pre inList inSet (trusted_entries inh) path w = (w', Inr ())" "documented_acls env"
    "we_system env = Inr sy" "we_admins env = Inr ad" "sy \<noteq> ad"
  obtains aces where "sd_dacl (wh_sd w' path) = DaclOf aces" "grants_exactly (trusted_entries inh sy ad) aces"
    "sd_owner (wh_sd w' path) = sd_owner (wh_sd w path)" "h_files (wh_host w') path \<noteq> None"
proof -
  note g = set_protected_grants [OF assms(1-4)]
  have "list_all (\<lambda>e. ea_AccessMode e = SetAccess) (trusted_entries inh sy ad)" "distinct (map ea_Trustee (trusted_entries inh sy ad))"
    using assms(5) by simp_all
  with g that show thesis by metis
qed

lemma trusted_sids:
  assumes "grants_exactly (trusted_entries inh sy ad) aces" "a \<in> set aces"
  shows "ace_kind a = AccessAllowed \<and> ace_sid a \<in> {sy, ad}"
  using assms trusted_entries_sid [of _ inh sy ad] unfolding grants_exactly_def by metis

theorem stamped_file_is_safe:
  assumes "restrictPrincipalsFileACL_windows env path w = (w', Inr ())" "documented_acls env"
    "we_system env = Inr sy" "we_admins env = Inr ad" "sy \<noteq> ad" "we_denied env ''get'' path = None"
    "sd_owner (wh_sd w path) = Some owner" "isAllowedTrustee env owner"
  shows "\<not> principalsFileIsUnsafe env path (isAllowedTrustee env) w'"
proof -
  have s: "set_protected env ''agent: '' '' (principals file)'' ''(principals file) '' (trusted_entries False) path w = (w', Inr ())"
    using assms(1) unfolding restrictPrincipalsFileACL_windows_def trusted_entries_def .
  obtain aces where l: "sd_dacl (wh_sd w' path) = DaclOf aces" "grants_exactly (trusted_entries False sy ad) aces"
    "sd_owner (wh_sd w' path) = sd_owner (wh_sd w path)" "h_files (wh_host w') path \<noteq> None"
    by (rule set_protected_locked [OF s assms(2-5)])
  have "a \<in> set aces \<Longrightarrow> isAllowedTrustee env (ace_sid a)" for a
    using trusted_sids [OF l(2)] assms(3,4) by (auto simp: isAllowedTrustee_def)
  then show ?thesis using l assms(6-8)
    by (auto simp: principalsFileIsUnsafe_def GetNamedSecurityInfo_def read_dacl_def list_ex_iff)
qed

lemma config_grants:
  assumes "restrictSystemConfigACL_windows env path w = (w', Inr ())" "documented_acls env" "accounts env (wh_host w) sy ad ag"
  obtains aces where "sd_dacl (wh_sd w' path) = DaclOf aces" "grants_exactly (trusted_entries False sy ad @ [agentReadACE ag]) aces"
    "wh_host w' = wh_host w" "h_files (wh_host w') path \<noteq> None"
proof -
  have s: "set_protected env ''agent: '' '' (system)'' ''(system) '' (\<lambda>system admin. trusted_entries False system admin
       @ (case we_agent env (wh_host w) of None \<Rightarrow> [] | Some sid \<Rightarrow> [agentReadACE sid])) path w = (w', Inr ())"
    using assms(1) unfolding restrictSystemConfigACL_windows_def trusted_entries_def lookupServiceSID_def .
  show thesis by (rule set_protected_with_account [where mk = agentReadACE, OF s assms(2,3)], simp, simp) (rule that)
qed

lemma config_check:
  assumes "restrictSystemConfigACL_windows env path w = (w', Inr ())" "documented_acls env"
    "accounts env (wh_host w) sy ad ag" "readable_sd env path"
  shows "dc_Status (checkConfigACLWindows env path w') = CheckOK"
proof -
  obtain aces where l: "sd_dacl (wh_sd w' path) = DaclOf aces"
    and gr: "grants_exactly (trusted_entries False sy ad @ [agentReadACE ag]) aces"
    and h: "wh_host w' = wh_host w" "h_files (wh_host w') path \<noteq> None" using config_grants [OF assms(1-3)] .
  have b: "has_bits (effective_bits ag aces) FILE_GENERIC_READ"
    using grants_effective(2) [OF gr, of "agentReadACE ag"] by (simp add: mapped_rights)
  show ?thesis
    using assms(3,4) h l b
    by (auto simp: checkConfigACLWindows_def readable_sd_def serviceAccountHasAccess_def accounts_def
      sidHasAccess_def GetNamedSecurityInfo_def read_dacl_def configACLResult_def result_of_def has_bits_def)
qed

text \<open>The agent reads its configuration and cannot change it. After the installer has set the list of
  the system configuration, the doctor's check passes, a process of the agent can read the file and
  holds no right to change it, its list or its owner, and other processes, apart from SYSTEM and
  the administrators, cannot even read it.\<close>

theorem config_readable_by_agent_only:
  assumes "restrictSystemConfigACL_windows env path w = (w', Inr ())" "documented_acls env"
    "accounts env (wh_host w) sy ad ag" "readable_sd env path"
  shows "dc_Status (checkConfigACLWindows env path w') = CheckOK
     \<and> (\<forall>tok. outsider env (wh_sd w' path) tok \<longrightarrow>
          (if ag \<in> tok then has_bits (granted tok (wh_sd w' path)) FILE_GENERIC_READ
             \<and> granted tok (wh_sd w' path) AND principalsWriteMask = 0
           else granted tok (wh_sd w' path) = 0))"
proof -
  obtain aces where l: "sd_dacl (wh_sd w' path) = DaclOf aces"
    and gr: "grants_exactly (trusted_entries False sy ad @ [agentReadACE ag]) aces" using config_grants [OF assms(1-3)] .
  have "dc_Status (checkConfigACLWindows env path w') = CheckOK" by (rule config_check [OF assms])
  then show ?thesis
    using account_alone [OF gr l assms(3) _ _ read_entry_limits] by (simp add: mapped_rights)
qed

text \<open>The log of the service handler: the agent may read and append, nobody else outside SYSTEM and the
  administrators may do anything; the agent's rights by the list do not include changing it.\<close>

lemma error_log_rights: "map_generic errorLogAgentAccess = FILE_GENERIC_READ OR FILE_GENERIC_WRITE"
  "entry_rights (errorLogACE ag) AND (WRITE_DAC OR WRITE_OWNER OR DELETE_RIGHT) = 0"
  unfolding entry_rights_def errorLogACE_def by simp_all code_simp+

theorem error_log_for_agent_only:
  assumes "restrictErrorLogACL env path w = (w', Inr ())" "documented_acls env" "accounts env (wh_host w) sy ad ag"
    "outsider env (wh_sd w' path) tok"
  shows "if ag \<in> tok then has_bits (granted tok (wh_sd w' path)) (FILE_GENERIC_READ OR FILE_GENERIC_WRITE)
      \<and> granted tok (wh_sd w' path) AND (WRITE_DAC OR WRITE_OWNER OR DELETE_RIGHT) = 0
    else granted tok (wh_sd w' path) = 0"
proof -
  have e: "ea_AccessMode (errorLogACE ag) = SetAccess" "ea_Trustee (errorLogACE ag) = ag"
    "ea_AccessPermissions (errorLogACE ag) = errorLogAgentAccess" by (simp_all add: errorLogACE_def)
  have s: "set_protected env [] '' (error log)'' ''(error log) '' (\<lambda>system admin. trusted_entries False system admin
       @ (case we_agent env (wh_host w) of None \<Rightarrow> [] | Some sid \<Rightarrow> [errorLogACE sid])) path w = (w', Inr ())"
    using assms(1) unfolding restrictErrorLogACL_def trusted_entries_def .
  obtain aces where l: "sd_dacl (wh_sd w' path) = DaclOf aces"
    and g: "grants_exactly (trusted_entries False sy ad @ [errorLogACE ag]) aces"
    by (rule set_protected_with_account [where mk = errorLogACE, OF s assms(2,3) e(1,2)])
  show ?thesis
    by (rule account_alone [OF g l assms(3) e(2) _ error_log_rights(2) assms(4)]) (simp add: e error_log_rights)
qed

text \<open>The certificate authority's key on Windows. A key file that the check passes is out of the reach of
  every process that is neither SYSTEM nor an administrator (and does not own it), and a file whose
  list \<^verbatim>\<open>restrictFileACL\<close> has set passes.\<close>

theorem key_file_check_sound:
  assumes "documented_acls env" "we_system env = Inr sy" "we_admins env = Inr ad" "sy \<noteq> ad"
    "we_world env \<notin> {Some sy, Some ad}" "we_authusers env \<notin> {Some sy, Some ad}" "we_denied env ''get'' path = None"
    "restrictFileACL env path w = (w', Inr ())"
  shows "checkFileACL_windows env path w' = Inr ()
     \<and> (\<forall>w tok. checkFileACL_windows env path w = Inr () \<and> outsider env (wh_sd w path) tok \<longrightarrow> granted tok (wh_sd w path) = 0)"
proof -
  have s: "set_protected env ''ca: '' [] [] (trusted_entries False) path w = (w', Inr ())"
    using assms(8) unfolding restrictFileACL_def trusted_entries_def .
  obtain aces where l: "sd_dacl (wh_sd w' path) = DaclOf aces" "grants_exactly (trusted_entries False sy ad) aces"
    "sd_owner (wh_sd w' path) = sd_owner (wh_sd w path)" "h_files (wh_host w') path \<noteq> None"
    by (rule set_protected_locked [OF s assms(1-4)])
  have "a \<in> set aces \<Longrightarrow> ace_sid a \<in> {sy, ad}" for a using trusted_sids [OF l(2)] by blast
  then have "a \<in> set aces \<Longrightarrow> isAllowedTrustee env (ace_sid a) \<and> we_world env \<noteq> Some (ace_sid a) \<and> we_authusers env \<noteq> Some (ace_sid a)" for a
    using assms(2,3,5,6) by (auto simp: isAllowedTrustee_def)
  then have "checkFileACL_windows env path w' = Inr ()" using l assms(7)
    by (auto simp: checkFileACL_windows_def GetNamedSecurityInfo_def read_dacl_def list_ex_iff)
  moreover have "granted tok (wh_sd v path) = 0" if c: "checkFileACL_windows env path v = Inr ()" and o: "outsider env (wh_sd v path) tok" for v tok
  proof -
    obtain as where a: "sd_dacl (wh_sd v path) = DaclOf as" "\<forall>a \<in> set as. isAllowedTrustee env (ace_sid a)"
      using c by (auto simp: checkFileACL_windows_def GetNamedSecurityInfo_def read_dacl_def list_ex_iff
        split: sum.splits option.splits acl_state.splits if_splits)
    have "access_walk tok as 0 0 = 0"
      using access_walk_upper [of tok as 0 0] a(2) o by (intro word_zeroI) (auto simp: outsider_def speaks_def)
    then show ?thesis using a(1) o by (simp add: granted_def list_grants_def outsider_def)
  qed
  ultimately show ?thesis by blast
qed

section \<open>What the doctor does not see\<close>

text \<open>A directory with a NULL list is open to everybody; the doctor reports it as locked. The check of the
  files treats the same list as unsafe.\<close>

theorem open_directory_reported_locked:
  assumes "sd_dacl (wh_sd w dir) = NullDacl" "dir_there env dir w"
  shows "dc_Status (checkPrincipalsACLWindows env dir w) = CheckOK \<and> list_grants tok (wh_sd w dir) = -1"
  using assms
  by (auto simp: checkPrincipalsACLWindows_def serviceAccountHasAnyWriteBit_def GetNamedSecurityInfo_def read_dacl_def
      principalsDirACLResult_def result_of_def list_grants_def split: option.splits)

text \<open>The same for a list the doctor may not read, and for files in a directory it may not list, although
  a file whose descriptor cannot be read counts as unsafe.\<close>

theorem unreadable_reported_fine:
  assumes "we_denied env ''get'' dir = Some e" "we_readdir env dir (wh_host w) = None" "dir_there env dir w"
  shows "dc_Status (checkPrincipalsACLWindows env dir w) = CheckOK
     \<and> dc_Status (checkPerUserPrincipalsFilesWindows env dir w) = CheckOK
     \<and> principalsFileIsUnsafe env dir (isAllowedTrustee env) w"
  using assms
  by (auto simp: checkPrincipalsACLWindows_def serviceAccountHasAnyWriteBit_def GetNamedSecurityInfo_def
      principalsDirACLResult_def result_of_def checkPerUserPrincipalsFilesWindows_def scanUnsafePrincipalsFiles_def
      perUserPrincipalsACLResult_def principalsFileIsUnsafe_def split: option.splits)

text \<open>An entry for a group the agent's process is in is not seen either: with write access for everybody
  the doctor still reports that only SYSTEM, the administrators and the writer can write.\<close>

theorem group_grant_not_seen:
  assumes "sd_dacl (wh_sd w dir) = DaclOf [\<lparr>ace_kind = AccessAllowed, ace_mask = FILE_ALL_ACCESS, ace_sid = everyone, ace_flags = 0\<rparr>]"
    "we_agent env (wh_host w) = Some ag" "ag \<noteq> everyone" "dir_there env dir w"
  shows "dc_Status (checkPrincipalsACLWindows env dir w) = CheckOK
     \<and> has_bits (list_grants {ag, everyone} (wh_sd w dir)) FILE_ALL_ACCESS"
  using assms
  by (auto simp: checkPrincipalsACLWindows_def serviceAccountHasAnyWriteBit_def GetNamedSecurityInfo_def read_dacl_def
      principalsDirACLResult_def result_of_def list_grants_def effective_bits_def inherit_only_def has_bits_def split: option.splits)

section \<open>Witnesses\<close>

definition demo_entries :: "explicit_access list \<Rightarrow> (string, ace list) result" where
  "demo_entries ea = Inr (map (\<lambda>e. \<lparr>ace_kind = AccessAllowed, ace_mask = ea_AccessPermissions e, ace_sid = ea_Trustee e,
     ace_flags = ucast (ea_Inheritance e)\<rparr>) ea)"

definition demo_stored :: "ace \<Rightarrow> ace list" where
  "demo_stored a = a\<lparr>ace_mask := map_generic (ace_mask a), ace_flags := 0\<rparr>
     # (if ace_flags a = 0 then [] else [a\<lparr>ace_flags := 11\<rparr>])"

definition demo_security :: "string \<Rightarrow> ace list \<Rightarrow> (string \<Rightarrow> security) \<Rightarrow> string \<Rightarrow> security" where
  "demo_security path acl sds = sds(path := (sds path)\<lparr>sd_dacl := DaclOf (concat (map demo_stored acl)), sd_protected := True\<rparr>)"

definition demo_wenv :: "install_env \<Rightarrow> wenv" where
  "demo_wenv ie = \<lparr>we_inst = ie, we_system = Inr ''S-1-5-18'', we_admins = Inr ''S-1-5-32-544'', we_world = Some ''S-1-1-0'',
     we_authusers = Some ''S-1-5-11'', we_agent = (\<lambda>_. Some ''S-1-5-80-7''), we_entries = demo_entries, we_store = demo_security,
     we_denied = (\<lambda>_ _. None), we_created = (\<lambda>_ _. \<lparr>sd_owner = Some ''S-1-5-32-544'', sd_dacl = DaclOf [], sd_protected = False\<rparr>),
     we_readdir = (\<lambda>_ _. Some [(''alice'', False)]), we_programdata = []\<rparr>"

lemma demo_documented_acls: "documented_acls (demo_wenv ie)"
proof -
  have "grants_exactly ea (concat (map demo_stored acl))" if "demo_entries ea = Inr acl" for ea acl
    using that
    by (auto simp: grants_exactly_def demo_entries_def demo_stored_def entry_rights_def has_bits_iff bit_or_iff inherit_only_def) blast+
  then show ?thesis by (auto simp: documented_acls_def demo_wenv_def demo_security_def)
qed

definition demo_ie :: install_env where
  "demo_ie = \<lparr>ie_goos = ''windows'', ie_lookpath = (\<lambda>_. False), ie_run = (\<lambda>_ h. (h, Inr [])), ie_svc_new = None,
     ie_svc_install = (\<lambda>_ h. (h, Inr ())), ie_svc_uninstall = (\<lambda>_ h. (h, Inr ())), ie_toml = cf_AgentToken,
     ie_fault = (\<lambda>_ _. None), ie_short = (\<lambda>_. None), ie_umask = 0, ie_newgid = (\<lambda>_. 0), ie_temp = None,
     ie_same = (\<lambda>_ _. False), ie_store_fault = (\<lambda>_ _. False), ie_store_sync = None, ie_store_text = (\<lambda>_. []),
     ie_version = ''v1'', ie_quote = id\<rparr>"

definition demo_whost :: whost where
  "demo_whost = \<lparr>wh_host = \<lparr>h_files = [''C:'' \<mapsto> \<lparr>in_data = None, in_uid = 0, in_gid = 0, in_perm = 511\<rparr>,
         ''C:/ssh'' \<mapsto> \<lparr>in_data = None, in_uid = 0, in_gid = 0, in_perm = 511\<rparr>,
         ''C:/ssh/alice'' \<mapsto> \<lparr>in_data = Some ''alice'', in_uid = 0, in_gid = 0, in_perm = 438\<rparr>],
       h_store = \<lparr>st_root = ''/x'', st_links = Map.empty, st_bins = [], st_quarantine = []\<rparr>, h_log = []\<rparr>,
     wh_sd = (\<lambda>_. \<lparr>sd_owner = Some ''S-1-5-18'', sd_dacl = NullDacl, sd_protected = False\<rparr>), wh_privileges = None\<rparr>"

abbreviation demo_w :: wenv where
  "demo_w \<equiv> demo_wenv demo_ie"

lemma demo_accounts: "accounts demo_w h ''S-1-5-18'' ''S-1-5-32-544'' ''S-1-5-80-7''"
  by (simp add: accounts_def demo_wenv_def)

lemma demo_readable: "readable_sd demo_w p" "we_denied demo_w ''get'' p = None" "ie_fault (we_inst demo_w) x p = None"
  by (simp_all add: readable_sd_def demo_wenv_def demo_ie_def)

lemma demo_done:
  "snd (createSpoolDirWithACL demo_w ''C:/spool'' demo_whost) = Inr ()"
  "snd (restrictPrincipalsDirACLWindows demo_w ''C:/ssh'' demo_whost) = Inr ()"
  "snd (restrictSystemConfigACL_windows demo_w ''C:/ssh/alice'' demo_whost) = Inr ()"
  "snd (restrictFileACL demo_w ''C:/ssh/alice'' demo_whost) = Inr ()"
  by code_simp+

lemma done_pair: "snd p = Inr () \<Longrightarrow> p = (fst p, Inr ())"
  by (cases p) simp


theorem locked_directory_witness:
  "let w' = fst (restrictPrincipalsDirACLWindows demo_w ''C:/ssh'' demo_whost) in
     dc_Status (checkPrincipalsACLWindows demo_w ''C:/ssh'' w') = CheckOK
     \<and> granted {''S-1-5-80-7''} (wh_sd w' ''C:/ssh'') = 0"
proof -
  have o: "outsider demo_w (wh_sd (fst (restrictPrincipalsDirACLWindows demo_w ''C:/ssh'' demo_whost)) ''C:/ssh'') {''S-1-5-80-7''}"
    by code_simp
  have d: "is_dir (wh_host demo_whost) ''C:/ssh''" by code_simp
  show ?thesis
    using locked_directory [OF done_pair [OF demo_done(2)] demo_documented_acls demo_accounts demo_readable(3) d] o
    by (simp add: Let_def)
qed

theorem config_readable_by_agent_only_witness:
  "let w' = fst (restrictSystemConfigACL_windows demo_w ''C:/ssh/alice'' demo_whost) in
     dc_Status (checkConfigACLWindows demo_w ''C:/ssh/alice'' w') = CheckOK
     \<and> has_bits (granted {''S-1-5-80-7''} (wh_sd w' ''C:/ssh/alice'')) FILE_GENERIC_READ
     \<and> granted {''S-1-5-11''} (wh_sd w' ''C:/ssh/alice'') = 0"
proof -
  have o: "outsider demo_w (wh_sd (fst (restrictSystemConfigACL_windows demo_w ''C:/ssh/alice'' demo_whost)) ''C:/ssh/alice'') {''S-1-5-80-7''}"
    "outsider demo_w (wh_sd (fst (restrictSystemConfigACL_windows demo_w ''C:/ssh/alice'' demo_whost)) ''C:/ssh/alice'') {''S-1-5-11''}"
    by code_simp+
  show ?thesis
    using config_readable_by_agent_only [OF done_pair [OF demo_done(3)] demo_documented_acls demo_accounts demo_readable(1)] o
    by (auto simp: Let_def)
qed

theorem key_file_check_sound_witness:
  "checkFileACL_windows demo_w ''C:/ssh/alice'' (fst (restrictFileACL demo_w ''C:/ssh/alice'' demo_whost)) = Inr ()"
proof -
  have s: "we_system demo_w = Inr ''S-1-5-18''" "we_admins demo_w = Inr ''S-1-5-32-544''"
    "we_world demo_w \<notin> {Some ''S-1-5-18'', Some ''S-1-5-32-544''}" "we_authusers demo_w \<notin> {Some ''S-1-5-18'', Some ''S-1-5-32-544''}"
    by (simp_all add: demo_wenv_def)
  show ?thesis
    using key_file_check_sound [OF demo_documented_acls s(1,2) _ s(3,4) demo_readable(2) done_pair [OF demo_done(4)]] by simp
qed

definition demo_aces :: "ace list" where
  "demo_aces = [\<lparr>ace_kind = AccessDenied, ace_mask = 2, ace_sid = ''S-1-5-80-7'', ace_flags = 0\<rparr>,
     \<lparr>ace_kind = AccessAllowed, ace_mask = 7, ace_sid = ''S-1-5-80-7'', ace_flags = 0\<rparr>]"

theorem sidHasAccess_is_access_check_witness:
  "\<exists>w. wh_sd w ''C:/ssh'' = \<lparr>sd_owner = None, sd_dacl = DaclOf demo_aces, sd_protected = True\<rparr>
     \<and> sidHasAccess demo_w ''C:/ssh'' ''S-1-5-80-7'' 5 w \<and> \<not> sidHasAccess demo_w ''C:/ssh'' ''S-1-5-80-7'' 2 w"
proof -
  define w where "w = demo_whost\<lparr>wh_sd := (\<lambda>_. \<lparr>sd_owner = None, sd_dacl = DaclOf demo_aces, sd_protected = True\<rparr>)\<rparr>"
  have f: "h_files (wh_host w) ''C:/ssh'' \<noteq> None" by (simp add: w_def demo_whost_def)
  have d: "sd_dacl (wh_sd w ''C:/ssh'') = DaclOf demo_aces" by (simp add: w_def)
  have a: "denies_first demo_aces" "\<forall>a \<in> set demo_aces. ace_sid a = ''S-1-5-80-7'' \<longrightarrow> \<not> inherit_only a"
    by (simp_all add: demo_aces_def inherit_only_def)
  note s = sidHasAccess_is_access_check [OF demo_readable(2) f d a]
  have "has_bits (access_walk {''S-1-5-80-7''} demo_aces 0 0) 5" "\<not> has_bits (access_walk {''S-1-5-80-7''} demo_aces 0 0) 2"
    by code_simp+
  moreover have e: "wh_sd w ''C:/ssh'' = \<lparr>sd_owner = None, sd_dacl = DaclOf demo_aces, sd_protected = True\<rparr>"
    by (simp add: w_def)
  ultimately show ?thesis by (intro exI [of _ w]) (simp add: s list_grants_def)
qed


end
