(* ===== verification/Installer_Windows_Theorems.thy ===== *)
theory Installer_Windows_Theorems
  imports Installer_Windows Windows_Acl_Theorems
begin

text \<open>
  What the Windows installer achieves: after a successful installation the doctor's checks of
  everything the installer sets up pass. The installer is composed of steps that keep the files
  outside a set and the descriptors outside another (\<open>wframed\<close>).
\<close>

section \<open>Steps and what they keep\<close>

text \<open>\<open>wframed W S f\<close>: files outside \<open>W\<close> stay as they are, and the descriptors of files outside \<open>W\<close> and \<open>S\<close>
  and the writer's privileges too.\<close>

definition wkept :: "string set \<Rightarrow> string set \<Rightarrow> whost \<Rightarrow> whost \<Rightarrow> bool" where
  "wkept W S w w' \<longleftrightarrow> kept W (wh_host w) (wh_host w') \<and> wh_privileges w' = wh_privileges w
     \<and> (\<forall>p. h_files (wh_host w) p \<noteq> None \<longrightarrow> p \<notin> W \<union> S \<longrightarrow> wh_sd w' p = wh_sd w p)"

definition wframed :: "string set \<Rightarrow> string set \<Rightarrow> winst \<Rightarrow> bool" where
  "wframed W S f \<longleftrightarrow> (\<forall>w. wkept W S w (fst (f w)))"

named_theorems wframed_rules

lemma wkept_refl [simp]: "wkept W S w w" by (simp add: wkept_def)

lemma wkept_trans:
  assumes "wkept W S w w'" "wkept W S w' w''"
  shows "wkept W S w w''"
proof -
  have "h_files (wh_host w') p \<noteq> None" if "h_files (wh_host w) p \<noteq> None" "p \<notin> W" for p
    using that assms(1) by (auto simp: wkept_def dest: keptD)
  moreover have "kept W (wh_host w) (wh_host w'')" using assms kept_trans by (auto simp: wkept_def)
  ultimately show ?thesis using assms by (auto simp: wkept_def)
qed

lemma wkept_mono: "wkept W S w w' \<Longrightarrow> W \<subseteq> W' \<Longrightarrow> S \<subseteq> S' \<Longrightarrow> wkept W' S' w w'"
  unfolding wkept_def using kept_mono by blast

lemma wframedD: "wframed W S f \<Longrightarrow> f w = (w', r) \<Longrightarrow> wkept W S w w'"
  by (metis wframed_def fst_conv)

lemma wframed_skip [wframed_rules]: "wframed W S (\<lambda>w. (w, r))" by (simp add: wframed_def)

lemma wframed_steps [wframed_rules]: "list_all (wframed W S) fs \<Longrightarrow> wframed W S (run_wsteps fs)"
proof (induction fs)
  case (Cons f fs)
  have "wkept W S w (fst (run_wsteps (f # fs) w))" for w
  proof -
    obtain w1 r where f: "f w = (w1, r)" by (cases "f w")
    have "wkept W S w w1" using wframedD Cons.prems f by auto
    moreover have "wkept W S w1 (fst (run_wsteps fs w1))" using Cons by (simp add: wframed_def)
    ultimately show ?thesis using f wkept_trans by (cases r) auto
  qed
  then show ?case by (simp add: wframed_def)
qed (simp add: wframed_def)

lemma wframed_wrapped [wframed_rules]: "wframed W S f \<Longrightarrow> wframed W S (wwrapped ctx f)"
  by (auto simp: wframed_def wwrapped_def split: prod.splits sum.splits) (metis fst_conv)+

lemma wframed_on_host [wframed_rules]:
  assumes "\<And>h. kept W h (fst (f h))"
  shows "wframed W S (on_host env f)"
proof -
  have "wkept W S w (fst (on_host env f w))" for w
    using assms [of "wh_host w"] by (cases "f (wh_host w)") (auto simp: wkept_def on_host_def)
  then show ?thesis by (simp add: wframed_def)
qed

lemma kept_drop: "p \<in> W \<Longrightarrow> kept W h (drop_temp ie p h)"
  by (auto simp: kept_def drop_temp_def)

lemma kept_framed: "framed W UNIV f \<Longrightarrow> kept W h (fst (f h))"
  by (simp add: framed_def)

text \<open>The commands and the service library leave the files of the installer alone.\<close>

definition quiet_commands :: "install_env \<Rightarrow> bool" where
  "quiet_commands ie \<longleftrightarrow>
     (\<forall>cmd h. h_files (fst (ie_run ie cmd h)) = h_files h)
     \<and> (\<forall>svc h. h_files (fst (ie_svc_install ie svc h)) = h_files h)
     \<and> (\<forall>svc h. h_files (fst (ie_svc_uninstall ie svc h)) = h_files h)"

lemma wkept_output:
  assumes "quiet_commands (we_inst env)" "combined_output env cmd w = (w', r)"
  shows "wkept W S w w'"
proof -
  obtain h1 r1 where h: "ie_run (we_inst env) cmd (wh_host w) = (h1, r1)" by (cases "ie_run (we_inst env) cmd (wh_host w)")
  have "h_files h1 = h_files (wh_host w)" using assms(1) h by (metis quiet_commands_def fst_conv)
  then show ?thesis using assms(2) h by (auto simp: combined_output_def exec_def on_host_def wkept_def kept_def)
qed

lemma wframed_output [wframed_rules]:
  assumes "quiet_commands (we_inst env)" "\<And>w1 e out. g w1 e out = (w1, h e out)" "\<And>w. f w = (case combined_output env cmd w of (w1, e, out) \<Rightarrow> g w1 e out)"
  shows "wframed W S f"
proof -
  have "wkept W S w (fst (f w))" for w
    using wkept_output [OF assms(1)] assms(2,3) by (cases "combined_output env cmd w") auto
  then show ?thesis by (simp add: wframed_def)
qed

lemma wframed_ignored [wframed_rules]: "quiet_commands (we_inst env) \<Longrightarrow> wframed W S (ignored env cmd)"
  unfolding wframed_def ignored_def using wkept_output [of env cmd] by (metis fst_conv prod.collapse)

lemma wframed_reported [wframed_rules]: "quiet_commands (we_inst env) \<Longrightarrow> wframed W S (reported env what cmd)"
proof -
  assume q: "quiet_commands (we_inst env)"
  have "wkept W S w (fst (reported env what cmd w))" for w
    using wkept_output [OF q, of cmd w] by (cases "combined_output env cmd w") (auto simp: reported_def split: option.splits)
  then show ?thesis by (simp add: wframed_def)
qed

lemma wframed_restart [wframed_rules]: "quiet_commands (we_inst env) \<Longrightarrow> wframed W S (restart_service env name)"
  unfolding restart_service_def by (intro wframed_steps) (simp add: wframed_ignored wframed_reported)

lemma wframed_save [wframed_rules]: "p \<in> W \<Longrightarrow> wframed W S (on_host env (WriteFile ie p s perm))"
  using framed_WriteFile [of p W UNIV] kept_framed by (intro wframed_on_host) blast

lemma wframed_mkdir [wframed_rules]: "wframed W S (on_host env (MkdirAll ie perm p))"
  using framed_MkdirAll [of W UNIV] kept_framed by (intro wframed_on_host) blast

lemma wframed_remove [wframed_rules]: "p \<in> W \<Longrightarrow> wframed W S (remove_quietly env p)"
  unfolding remove_quietly_def using kept_drop by (intro wframed_on_host) simp

lemma wframed_ca [wframed_rules]: "xp_CAPubkey paths \<in> W \<Longrightarrow> wframed W S (on_host env (writeCAPubkey ie paths key))"
proof (rule wframed_on_host)
  fix h
  assume "xp_CAPubkey paths \<in> W"
  then have "framed W UNIV (writeCAPubkey ie paths key)"
    unfolding writeCAPubkey_def by (intro framed_rules) (simp add: framed_rules)
  then show "kept W h (fst (writeCAPubkey ie paths key h))" by (rule kept_framed)
qed

lemma wframed_svc [wframed_rules]:
  assumes "quiet_commands (we_inst env)"
  shows "wframed W S (on_host env (ie_svc_install (we_inst env) svc))" "wframed W S (on_host env (ie_svc_uninstall (we_inst env) svc))"
  using assms by (auto intro!: wframed_on_host simp: quiet_commands_def kept_def)

lemma wframed_sshd [wframed_rules]:
  assumes "quiet_commands (we_inst env)"
  shows "wframed W S (checkSSHDWindows env)"
proof -
  have "wkept W S w (fst (checkSSHDWindows env w))" for w
    using wkept_output [OF assms, of "[''sc.exe'', ''query'', ''sshd'']" w]
    unfolding checkSSHDWindows_def by (cases "combined_output env [''sc.exe'', ''query'', ''sshd''] w") (auto split: option.splits)
  then show ?thesis by (simp add: wframed_def)
qed

lemma wframed_register [wframed_rules]:
  assumes q: "quiet_commands (we_inst env)" and f: "wframed W S fresh"
  shows "wframed W S (register_service env svc what fresh)"
proof -
  have "wkept W S w (fst (register_service env svc what fresh w))" for w
  proof (cases "ie_svc_new (we_inst env)")
    case None
    obtain w1 r where i: "on_host env (ie_svc_install (we_inst env) svc) w = (w1, r)"
      by (cases "on_host env (ie_svc_install (we_inst env) svc) w")
    have k1: "wkept W S w w1" by (rule wframedD [OF wframed_svc(1) [OF q] i])
    obtain w2 e out where c: "combined_output env [''sc'', ''qc'', sc_Name svc] w1 = (w2, e, out)"
      by (cases "combined_output env [''sc'', ''qc'', sc_Name svc] w1")
    have k2: "wkept W S w w2" using wkept_trans [OF k1 wkept_output [OF q c]] .
    define fs where "fs = (\<lambda>drift. [ignored env [''net'', ''stop'', sc_Name svc],
                 wwrapped (''uninstall drifted '' @ what @ '' ('' @ drift @ '')'') (on_host env (ie_svc_uninstall (we_inst env) svc)),
                 wwrapped (''reinstall '' @ what @ '' after drift ('' @ drift @ '')'') (on_host env (ie_svc_install (we_inst env) svc)),
                 fresh])"
    have "wframed W S (run_wsteps (fs drift))" for drift
      unfolding fs_def by (intro wframed_steps) (simp add: wframed_rules q f)
    then have k3: "wkept W S w (fst (run_wsteps (fs drift) w2))" for drift
      using k2 wkept_trans by (simp add: wframed_def)
    have k4: "wkept W S w (fst (fresh w1))" using k1 f wkept_trans by (simp add: wframed_def)
    show ?thesis
      using k1 k2 k3 k4 unfolding register_service_def Let_def None option.case i prod.case c fs_def
      by (auto split: sum.splits option.splits if_splits)
  qed (simp add: register_service_def)
  then show ?thesis by (simp add: wframed_def)
qed

text \<open>Setting a list keeps everything but the descriptors in and below the path.\<close>

definition below :: "string \<Rightarrow> string set" where
  "below p = {q. q = p \<or> has_prefix (p @ ''/'') q}"

lemma wkept_protected:
  assumes "set_protected env pre inList inSet ea path w = (w', Inr ())" "documented_acls env"
    "we_system env = Inr sy" "we_admins env = Inr ad"
    "list_all (\<lambda>e. ea_AccessMode e = SetAccess) (ea sy ad)" "distinct (map ea_Trustee (ea sy ad))" "below path \<subseteq> S"
  shows "wkept W S w w'"
proof -
  note g = set_protected_grants [OF assms(1-6)]
  obtain sy' ad' acl where "w' = w\<lparr>wh_sd := we_store env path acl (wh_sd w)\<rparr>" using set_protected_ok [OF assms(1)] .
  then have "wh_privileges w' = wh_privileges w" by simp
  then show ?thesis using g(1,5) assms(7) by (auto simp: wkept_def below_def)
qed

lemma wkept_spool:
  assumes "createSpoolDirWithACL env dir w = (w', Inr ())" "documented_acls env" "\<And>h. accounts env h sy ad ag" "below dir \<subseteq> S"
  shows "wkept W S w w'"
proof -
  define ea where "ea = (\<lambda>(w :: whost) system admin. trusted_entries True system admin
     @ (case we_agent env (wh_host w) of None \<Rightarrow> [] | Some agentSID \<Rightarrow> [agentSpoolACE agentSID]))"
  obtain w1 where m: "on_host env (MkdirAll (we_inst env) 493 dir) w = (w1, Inr ())"
    and s: "set_protected env [] '' (spool)'' ''(spool) '' (ea w1) dir w1 = (w', Inr ())"
    using assms(1) unfolding ea_def trusted_entries_def createSpoolDirWithACL_def run_wsteps_ok wwrapped_ok
    by (elim exE conjE) (simp only: run_wsteps.simps prod.inject)
  have "wkept W S w w1" by (rule wframedD [OF wframed_mkdir m])
  moreover have "wkept W S w1 w'"
    by (rule wkept_protected [OF s assms(2) _ _ _ _ assms(4)])
      (use assms(3) [of "wh_host w1"] in \<open>auto simp: accounts_def ea_def\<close>)
  ultimately show ?thesis by (rule wkept_trans)
qed

lemma wkept_lock:
  assumes "restrictPrincipalsDirACLWindows env dir w = (w', Inr ())" "documented_acls env" "\<And>h. accounts env h sy ad ag" "below dir \<subseteq> S"
  shows "wkept W S w w'"
proof -
  have s: "set_protected env [] [] [] (trusted_entries True) dir w = (w', Inr ())"
    using assms(1) by (simp add: restrictPrincipalsDirACLWindows_def setProtectedSystemAdminsACL_def trusted_entries_def [abs_def])
  show ?thesis
    by (rule wkept_protected [OF s assms(2) _ _ _ _ assms(4)]) (use assms(3) [of "wh_host w"] in \<open>auto simp: accounts_def\<close>)
qed

lemma wkept_config:
  assumes "restrictSystemConfigACL_windows env path w = (w', Inr ())" "documented_acls env" "\<And>h. accounts env h sy ad ag" "below path \<subseteq> S"
  shows "wkept W S w w'"
proof -
  define ea where "ea = (\<lambda>(w :: whost) system admin. trusted_entries False system admin
     @ (case lookupServiceSID env w of None \<Rightarrow> [] | Some svcSID \<Rightarrow> [agentReadACE svcSID]))"
  have s: "set_protected env ''agent: '' '' (system)'' ''(system) '' (ea w) path w = (w', Inr ())"
    using assms(1) unfolding restrictSystemConfigACL_windows_def ea_def trusted_entries_def .
  show ?thesis
    by (rule wkept_protected [OF s assms(2) _ _ _ _ assms(4)])
      (use assms(3) [of "wh_host w"] in \<open>auto simp: accounts_def ea_def lookupServiceSID_def\<close>)
qed

section \<open>The directives\<close>

lemma kept_data: "kept W h h' \<Longrightarrow> h_files h p = Some i \<Longrightarrow> p \<notin> W \<Longrightarrow> h_files h' p = Some i"
  by (rule keptD)

lemma write_base:
  assumes "on_host env (WriteFile ie p s perm) w = (w', Inr ())"
  shows "\<exists>j. h_files (wh_host w') p = Some j \<and> in_data j = Some s"
  using assms
  by (auto simp: on_host_def WriteFile_def put_inode_def split: prod.splits option.splits if_splits)

lemma wframed_ensure [wframed_rules]:
  assumes "windowsBaseSSHDConfig \<in> W" "to_slash (xp_SSHDropIn paths) \<in> W"
  shows "wframed W S (ensureWindowsBaseConfigDirectives env paths)"
proof -
  define fs where "fs = (\<lambda>b block. [if upsertManagedBlock b block \<noteq> b
             then wwrapped (''write directives into '' @ windowsBaseSSHDConfig)
               (on_host env (WriteFile (we_inst env) windowsBaseSSHDConfig (upsertManagedBlock b block) 420))
             else (\<lambda>w. (w, Inr ())),
             if xp_SSHDropIn paths \<noteq> [] then remove_quietly env (to_slash (xp_SSHDropIn paths)) else (\<lambda>w. (w, Inr ()))])"
  have "wframed W S (run_wsteps (fs b block))" for b block
    unfolding fs_def by (intro wframed_steps) (simp add: wframed_rules assms)
  then have k: "wkept W S w (fst (run_wsteps (fs b block) w))" for b block w by (simp add: wframed_def)
  have "wkept W S w (fst (ensureWindowsBaseConfigDirectives env paths w))" for w
  proof (cases "read_existing env windowsBaseSSHDConfig w")
    case (Inr x)
    show ?thesis
    proof (cases x)
      case (Some b)
      show ?thesis using k unfolding ensureWindowsBaseConfigDirectives_def Let_def Inr Some sum.case option.case fs_def .
    qed (simp add: ensureWindowsBaseConfigDirectives_def Inr)
  qed (simp add: ensureWindowsBaseConfigDirectives_def)
  then show ?thesis by (simp add: wframed_def)
qed

lemma ensure_upserts:
  assumes "ensureWindowsBaseConfigDirectives env paths w = (w', Inr ())"
    "h_files (wh_host w) windowsBaseSSHDConfig = Some i" "in_data i = Some b" "to_slash (xp_SSHDropIn paths) \<noteq> windowsBaseSSHDConfig"
  shows "\<exists>j. h_files (wh_host w') windowsBaseSSHDConfig = Some j
     \<and> in_data j = Some (upsertManagedBlock b (managedDirectiveBlock (xp_CAPubkey paths) (xp_PrincipalsDir paths @ ''/%u'')))"
proof -
  define r where "r = upsertManagedBlock b (managedDirectiveBlock (xp_CAPubkey paths) (xp_PrincipalsDir paths @ ''/%u''))"
  have e: "read_existing env windowsBaseSSHDConfig w = Inr (Some b)"
    using assms(1-3) by (auto simp: ensureWindowsBaseConfigDirectives_def read_existing_def ReadFile_def split: option.splits)
  obtain w1 where f: "(if r \<noteq> b then on_host env (WriteFile (we_inst env) windowsBaseSSHDConfig r 420) w = (w1, Inr ()) else w1 = w)"
    and g: "(if xp_SSHDropIn paths \<noteq> [] then remove_quietly env (to_slash (xp_SSHDropIn paths)) w1 = (w', Inr ()) else w' = w1)"
    using assms(1) unfolding ensureWindowsBaseConfigDirectives_def Let_def e sum.case option.case run_wsteps_ok r_def [symmetric]
    by (auto split: if_splits)
  have "\<exists>j. h_files (wh_host w1) windowsBaseSSHDConfig = Some j \<and> in_data j = Some r"
    using f assms(2,3) write_base by (auto split: if_splits)
  moreover have "h_files (wh_host w') windowsBaseSSHDConfig = h_files (wh_host w1) windowsBaseSSHDConfig"
    using g assms(4) by (auto simp: remove_quietly_def on_host_def drop_temp_def split: if_splits)
  ultimately show ?thesis by (simp add: r_def)
qed

text \<open>The block's lines are in the text, so the doctor finds both directives.\<close>

lemma contains_embedded: "contains (u @ s @ v) s"
  using index_of_suffix [of s "s @ v" u] by (simp add: contains_def)

lemma effective_check:
  assumes "plain_path ca" "plain_path pat" "index_of managedBlockBegin (stripLegacyIncludeLines (removeManagedBlock b)) = None"
    "r = upsertManagedBlock b (managedDirectiveBlock ca pat)"
  shows "hasManagedBlockBeforeMatch r" "contains r ''TrustedUserCAKeys''" "contains r ''AuthorizedPrincipalsFile''"
proof -
  have i: "r = insertBeforeFirstMatch (stripLegacyIncludeLines (removeManagedBlock b)) (managedDirectiveBlock ca pat)"
    using assms(4) by (simp add: upsertManagedBlock_def)
  note n = inserted_block [OF assms(1-3) i]
  show "hasManagedBlockBeforeMatch r" by (rule n(1))
  have c: "contains r k" if "k @ v @ [newline] \<in> set (block_lines ca pat)" for k v
  proof -
    have "k @ v @ [newline] \<in> set (split_after newline r)"
      using that n(2) by (auto simp: global_lines_def dest: set_takeWhileD)
    then obtain us vs where "split_after newline r = us @ (k @ v @ [newline]) # vs" by (meson split_list)
    then have "r = concat us @ k @ (v @ newline # concat vs)"
      using concat_split_after [of newline r] by simp
    then show ?thesis using contains_embedded by metis
  qed
  show "contains r ''TrustedUserCAKeys''" by (rule c [of _ "'' '' @ ca"]) (simp add: block_lines_def)
  show "contains r ''AuthorizedPrincipalsFile''" by (rule c [of _ "'' '' @ pat"]) (simp add: block_lines_def)
qed

section \<open>The installation\<close>

text \<open>The paths an installation touches are different files, and the locked directory is not in the agent's
  own tree.\<close>

definition spool_policy :: "wenv \<Rightarrow> string" where
  "spool_policy env = path_join (SpoolDir env) ''policy.json''"

definition windows_layout :: "wenv \<Rightarrow> expected_paths \<Rightarrow> bool" where
  "windows_layout env paths \<longleftrightarrow>
     (let ca = to_slash (xp_CAPubkey paths); di = to_slash (xp_SSHDropIn paths); pd = to_slash (xp_PrincipalsDir paths);
          sys = SystemConfigPath_windows env; spool = SpoolDir env in
      xp_CAPubkey paths \<noteq> [] \<and> xp_PrincipalsDir paths \<noteq> []
      \<and> windowsBaseSSHDConfig \<notin> {ca, di, sys, spool_policy env} \<and> ca \<notin> {di, sys, spool_policy env}
      \<and> pd \<notin> {sys, spool_policy env} \<union> below spool \<union> below sys \<and> spool \<notin> below sys)"

text \<open>What the doctor says of a path depends on its file, its descriptor and the account.\<close>

lemma checks_cong:
  assumes "h_files (wh_host w') p = h_files (wh_host w) p" "wh_sd w' p = wh_sd w p"
    "we_agent env (wh_host w') = we_agent env (wh_host w)"
  shows "checkPrincipalsACLWindows env p w' = checkPrincipalsACLWindows env p w"
    "checkSpoolACLWindows env p w' = checkSpoolACLWindows env p w"
    "checkConfigACLWindows env p w' = checkConfigACLWindows env p w"
proof -
  have g: "GetNamedSecurityInfo env p w' = GetNamedSecurityInfo env p w"
    unfolding GetNamedSecurityInfo_def assms(1,2) by (rule refl)
  then have "sidHasAccess env p sid m w' = sidHasAccess env p sid m w" for sid m by (simp add: sidHasAccess_def)
  then have a: "serviceAccountHasAccess env p m w' = serviceAccountHasAccess env p m w" for m
    using assms(3) by (cases "we_agent env (wh_host w)") (simp_all add: serviceAccountHasAccess_def)
  have b: "serviceAccountHasAnyWriteBit env p w' = serviceAccountHasAnyWriteBit env p w"
    using g assms(3) by (cases "we_agent env (wh_host w)") (simp_all add: serviceAccountHasAnyWriteBit_def)
  have d: "dir_there env p w' = dir_there env p w" using assms(1) by (simp add: dir_there_def is_dir_def)
  show "checkPrincipalsACLWindows env p w' = checkPrincipalsACLWindows env p w"
    "checkSpoolACLWindows env p w' = checkSpoolACLWindows env p w"
    "checkConfigACLWindows env p w' = checkConfigACLWindows env p w"
    unfolding checkPrincipalsACLWindows_def checkSpoolACLWindows_def checkConfigACLWindows_def a b d assms(1) by (rule refl)+
qed

lemma wkept_file: "wkept W S w w' \<Longrightarrow> h_files (wh_host w) p = Some i \<Longrightarrow> p \<notin> W \<Longrightarrow> h_files (wh_host w') p = Some i"
  by (auto simp: wkept_def dest: keptD)

lemma wkept_sd: "wkept W S w w' \<Longrightarrow> h_files (wh_host w) p = Some i \<Longrightarrow> p \<notin> W \<Longrightarrow> p \<notin> S \<Longrightarrow> wh_sd w' p = wh_sd w p"
  by (auto simp: wkept_def)

lemma mkdir_dir: "on_host env (MkdirAll ie perm p) w = (w', Inr ()) \<Longrightarrow> is_dir (wh_host w') p"
  using MkdirAll_changes [of ie perm p "wh_host w"] by (auto simp: on_host_def split: prod.splits)

lemma privileges_set:
  assumes "setWriterRequiredPrivileges env w = (w', Inr ())"
  shows "wh_host w' = wh_host w \<and> wh_sd w' = wh_sd w
     \<and> wh_privileges w' = Some (map of_char ''SeChangeNotifyPrivilege'' @ [0, 0])"
proof -
  have "privilegesToMultiSZ (ie_quote (we_inst env)) writerRequiredPrivileges
      = Inr (map of_char ''SeChangeNotifyPrivilege'' @ [0, 0])"
    by (simp add: privilegesToMultiSZ_def writerRequiredPrivileges_def UTF16FromString_def runes_ascii utf16_rune_def)
  then show ?thesis using assms by (auto simp: setWriterRequiredPrivileges_def split: option.splits)
qed

text \<open>The installation taken apart: the states between the steps and what each part keeps.\<close>

lemma install_parts:
  assumes "Install_windows env cfg exe w = (w', Inr ())" "documented_acls env" "\<And>h. accounts env h sy ad ag"
    "quiet_commands (we_inst env)"
  defines "paths \<equiv> cf_ExpectedPaths cfg"
  obtains w2 w3 w4 w6 w7 w8 w9 w10 w11 where
    "wkept {to_slash (xp_CAPubkey paths)} {} w w2" "h_files (wh_host w2) (to_slash (xp_CAPubkey paths)) \<noteq> None"
    "ensureWindowsBaseConfigDirectives env paths w2 = (w3, Inr ())"
    "on_host env (MkdirAll (we_inst env) 493 (to_slash (xp_PrincipalsDir paths))) w3 = (w4, Inr ())"
    "wkept {spool_policy env} {} w4 w6" "setWriterRequiredPrivileges env w6 = (w7, Inr ())"
    "restrictPrincipalsDirACLWindows env (to_slash (xp_PrincipalsDir paths)) w7 = (w8, Inr ())"
    "createSpoolDirWithACL env (SpoolDir env) w8 = (w9, Inr ())"
    "restrictSystemConfigACL_windows env (SystemConfigPath_windows env) w10 = (w11, Inr ())"
    "wkept {SystemConfigPath_windows env} {} w9 w10" "wkept {} {} w11 w'"
proof -
  note q = assms(4)
  from assms(1) obtain w1 w2 w3 w4 w5 w6 w7 w8 w9 w11 w12 w13 where
    s: "checkSSHDWindows env w = (w1, Inr ())"
      "on_host env (writeCAPubkey (we_inst env) (slashed paths) (cf_CAPubkey cfg)) w1 = (w2, Inr ())"
      "ensureWindowsBaseConfigDirectives env paths w2 = (w3, Inr ())"
      "on_host env (ensurePrincipalsDir (we_inst env) (slashed paths)) w3 = (w4, Inr ())"
      "installService_windows env exe w4 = (w5, Inr ())" "installPrincipalsWriterService env exe w5 = (w6, Inr ())"
      "setWriterRequiredPrivileges env w6 = (w7, Inr ())"
      "restrictPrincipalsDirACLWindows env (to_slash (xp_PrincipalsDir paths)) w7 = (w8, Inr ())"
      "createSpoolDirWithACL env (SpoolDir env) w8 = (w9, Inr ())"
      "SaveConfigSystem_windows env (SystemConfigPath_windows env) cfg w9 = (w11, Inr ())"
      "startServiceWindows env w11 = (w12, Inr ())" "startPrincipalsWriterServiceWindows env w12 = (w13, Inr ())"
      "reloadSSHDWindows env w13 = (w', Inr ())"
    unfolding Install_windows_def Let_def run_wsteps_ok wwrapped_ok paths_def
    by (elim exE conjE) (simp only: run_wsteps.simps prod.inject)
  from s(10) obtain wa w10 where
    t: "on_host env (MkdirAll (we_inst env) 493 (filepath_dir (SystemConfigPath_windows env))) w9 = (wa, Inr ())"
      "on_host env (WriteFile (we_inst env) (SystemConfigPath_windows env) (ie_toml (we_inst env) cfg) 416) wa = (w10, Inr ())"
      "restrictSystemConfigACL_windows env (SystemConfigPath_windows env) w10 = (w11, Inr ())"
    unfolding SaveConfigSystem_windows_def run_wsteps_ok by (elim exE conjE) (simp only: run_wsteps.simps prod.inject)
  show thesis
  proof (rule that)
    have "wkept {to_slash (xp_CAPubkey paths)} {} w1 w2"
      by (rule wframedD [OF wframed_ca s(2)]) (simp add: slashed_def)
    then show "wkept {to_slash (xp_CAPubkey paths)} {} w w2"
      using wframedD [OF wframed_sshd [OF q] s(1)] wkept_trans by blast
    show "h_files (wh_host w2) (to_slash (xp_CAPubkey paths)) \<noteq> None"
      using s(2) unfolding writeCAPubkey_def on_host_def slashed_def
      by (auto simp: WriteFile_def put_inode_def split: prod.splits sum.splits option.splits if_splits)
    show "ensureWindowsBaseConfigDirectives env paths w2 = (w3, Inr ())" by (rule s(3))
    show "on_host env (MkdirAll (we_inst env) 493 (to_slash (xp_PrincipalsDir paths))) w3 = (w4, Inr ())"
      using s(4) by (simp add: ensurePrincipalsDir_def slashed_def)
    have "wframed {spool_policy env} {} (installService_windows env exe)"
      "wframed {spool_policy env} {} (installPrincipalsWriterService env exe)"
      unfolding installService_windows_def installPrincipalsWriterService_def clear_spool_def spool_policy_def
      by (intro wframed_register q wframed_skip wframed_remove insertI1)+
    then have "wkept {spool_policy env} {} w4 w5" "wkept {spool_policy env} {} w5 w6"
      using wframedD s(5,6) by blast+
    then show "wkept {spool_policy env} {} w4 w6" by (rule wkept_trans)
    show "setWriterRequiredPrivileges env w6 = (w7, Inr ())" "createSpoolDirWithACL env (SpoolDir env) w8 = (w9, Inr ())"
      "restrictPrincipalsDirACLWindows env (to_slash (xp_PrincipalsDir paths)) w7 = (w8, Inr ())"
      "restrictSystemConfigACL_windows env (SystemConfigPath_windows env) w10 = (w11, Inr ())"
      by (fact s(7) s(8) s(9) t(3))+
    have "wkept {SystemConfigPath_windows env} {} w9 wa" by (rule wframedD [OF wframed_mkdir t(1)])
    moreover have "wkept {SystemConfigPath_windows env} {} wa w10" by (rule wframedD [OF wframed_save t(2)]) simp
    ultimately show "wkept {SystemConfigPath_windows env} {} w9 w10" by (rule wkept_trans)
    have "wkept {} {} w11 w12" "wkept {} {} w12 w13" "wkept {} {} w13 w'"
      using wframedD [OF wframed_restart [OF q]] s(11-13)
      unfolding startServiceWindows_def startPrincipalsWriterServiceWindows_def reloadSSHDWindows_def by blast+
    then show "wkept {} {} w11 w'" using wkept_trans by blast
  qed
qed

text \<open>The same with the frames put together.\<close>

lemma install_frames:
  assumes "Install_windows env cfg exe w = (w', Inr ())" "documented_acls env" "\<And>h. accounts env h sy ad ag"
    "quiet_commands (we_inst env)"
  defines "paths \<equiv> cf_ExpectedPaths cfg" and "sys \<equiv> SystemConfigPath_windows env"
  obtains w2 w3 w4 w7 w8 w9 w10 w11 where
    "wkept {to_slash (xp_CAPubkey paths)} {} w w2" "h_files (wh_host w2) (to_slash (xp_CAPubkey paths)) \<noteq> None"
    "ensureWindowsBaseConfigDirectives env paths w2 = (w3, Inr ())"
    "wkept {windowsBaseSSHDConfig, to_slash (xp_SSHDropIn paths)} {} w2 w3"
    "is_dir (wh_host w4) (to_slash (xp_PrincipalsDir paths))" "wkept {} {} w3 w4" "kept {spool_policy env} (wh_host w4) (wh_host w7)"
    "restrictPrincipalsDirACLWindows env (to_slash (xp_PrincipalsDir paths)) w7 = (w8, Inr ())"
    "createSpoolDirWithACL env (SpoolDir env) w8 = (w9, Inr ())"
    "restrictSystemConfigACL_windows env sys w10 = (w11, Inr ())"
    "kept {spool_policy env, sys} (wh_host w4) (wh_host w')"
    "wkept {sys} (below (SpoolDir env) \<union> below sys) w8 w'" "wkept {sys} (below sys) w9 w'" "wkept {} {} w11 w'"
    "wh_privileges w' = Some (map of_char ''SeChangeNotifyPrivilege'' @ [0, 0])"
proof -
  obtain w2 w3 w4 w6 w7 w8 w9 w10 w11 where
    k2: "wkept {to_slash (xp_CAPubkey paths)} {} w w2" "h_files (wh_host w2) (to_slash (xp_CAPubkey paths)) \<noteq> None"
    and e: "ensureWindowsBaseConfigDirectives env paths w2 = (w3, Inr ())"
    and m: "on_host env (MkdirAll (we_inst env) 493 (to_slash (xp_PrincipalsDir paths))) w3 = (w4, Inr ())"
    and k6: "wkept {spool_policy env} {} w4 w6" and p: "setWriterRequiredPrivileges env w6 = (w7, Inr ())"
    and l: "restrictPrincipalsDirACLWindows env (to_slash (xp_PrincipalsDir paths)) w7 = (w8, Inr ())"
    and s: "createSpoolDirWithACL env (SpoolDir env) w8 = (w9, Inr ())"
    and c: "restrictSystemConfigACL_windows env sys w10 = (w11, Inr ())"
    and k10: "wkept {sys} {} w9 w10" and k11: "wkept {} {} w11 w'"
    using install_parts [OF assms(1-4)] unfolding paths_def sys_def by metis
  note priv = privileges_set [OF p]
  have k3: "wkept {windowsBaseSSHDConfig, to_slash (xp_SSHDropIn paths)} {} w2 w3"
    by (rule wframedD [OF wframed_ensure e]) simp_all
  have k4: "wkept {} {} w3 w4" by (rule wframedD [OF wframed_mkdir m])
  have k8: "wkept {sys} UNIV w7 w8" by (rule wkept_lock [OF l assms(2,3)]) simp
  have k9: "wkept {sys} (below (SpoolDir env) \<union> below sys) w8 w9" by (rule wkept_spool [OF s assms(2,3)]) simp
  have kc: "wkept {sys} (below sys) w10 w11" by (rule wkept_config [OF c assms(2,3)]) simp
  have f9: "wkept {sys} (below sys) w9 w'"
    using wkept_mono [OF k10] wkept_mono [OF k11] kc wkept_trans by (metis empty_subsetI order_refl)
  have f8: "wkept {sys} (below (SpoolDir env) \<union> below sys) w8 w'"
    by (rule wkept_trans [OF k9 wkept_mono [OF f9]]) auto
  have f7: "wkept {sys} UNIV w7 w'" by (rule wkept_trans [OF k8 wkept_mono [OF f8]]) auto
  have h4: "kept {spool_policy env} (wh_host w4) (wh_host w7)" using k6 priv by (simp add: wkept_def)
  have "kept {spool_policy env, sys} (wh_host w4) (wh_host w')"
    by (rule kept_trans [OF kept_mono [OF h4] kept_mono]) (use f7 in \<open>auto simp: wkept_def\<close>)
  moreover have "wh_privileges w' = Some (map of_char ''SeChangeNotifyPrivilege'' @ [0, 0])"
    using f7 priv by (simp add: wkept_def)
  ultimately show thesis using that k2 e k3 mkdir_dir [OF m] k4 h4 l s c f8 f9 k11 by metis
qed

text \<open>A check of a path is the same later when the steps in between keep the path.\<close>

lemma checks_kept:
  assumes "wkept W S w w'" "h_files (wh_host w) p = Some j" "p \<notin> W \<union> S" "\<And>h. accounts env h sy ad ag"
  shows "checkPrincipalsACLWindows env p w' = checkPrincipalsACLWindows env p w"
    "checkSpoolACLWindows env p w' = checkSpoolACLWindows env p w"
    "checkConfigACLWindows env p w' = checkConfigACLWindows env p w"
proof -
  have "h_files (wh_host w') p = h_files (wh_host w) p" "wh_sd w' p = wh_sd w p"
    "we_agent env (wh_host w') = we_agent env (wh_host w)"
    using assms wkept_file [OF assms(1,2)] wkept_sd [OF assms(1,2)] by (auto simp: accounts_def)
  from checks_cong [OF this] show "checkPrincipalsACLWindows env p w' = checkPrincipalsACLWindows env p w"
    "checkSpoolACLWindows env p w' = checkSpoolACLWindows env p w" "checkConfigACLWindows env p w' = checkConfigACLWindows env p w" .
qed

lemma directives_installed:
  assumes "ensureWindowsBaseConfigDirectives env paths w = (w1, Inr ())" "kept W (wh_host w1) (wh_host w')"
    "h_files (wh_host w) windowsBaseSSHDConfig = Some i" "in_data i = Some b" "to_slash (xp_SSHDropIn paths) \<noteq> windowsBaseSSHDConfig"
    "windowsBaseSSHDConfig \<notin> W" "index_of managedBlockBegin (stripLegacyIncludeLines (removeManagedBlock b)) = None"
    "plain_path (xp_CAPubkey paths)" "plain_path (xp_PrincipalsDir paths)" "\<And>p. ie_fault (we_inst env) ''read'' p = None"
  shows "dc_Status (checkBaseConfigDirectivesWindows env windowsBaseSSHDConfig w') = CheckOK"
proof -
  obtain j where j: "h_files (wh_host w1) windowsBaseSSHDConfig = Some j"
    "in_data j = Some (upsertManagedBlock b (managedDirectiveBlock (xp_CAPubkey paths) (xp_PrincipalsDir paths @ ''/%u'')))"
    using ensure_upserts [OF assms(1,3-5)] by blast
  have pat: "plain_path (xp_PrincipalsDir paths @ ''/%u'')" using assms(9) by (auto simp: plain_path_def)
  show ?thesis
    using effective_check [OF assms(8) pat assms(7) refl] keptD [OF assms(2) j(1) assms(6)] j(2) assms(10)
    by (simp add: checkBaseConfigDirectivesWindows_def ReadFile_def result_of_def)
qed

lemma service_check_names:
  "r \<in> set (service_checks q a b m t) \<Longrightarrow> dc_Name r \<in> {a, b}"
  by (auto simp: service_checks_def result_of_def split: option.splits prod.splits if_splits)

lemma writer_check_name: "dc_Name (checkWriterServiceWindows env w) = ''writer-service''"
  by (auto simp: checkWriterServiceWindows_def writerServiceResult_def result_of_def split: prod.splits option.splits)

lemma files_check_name: "dc_Name (checkPerUserPrincipalsFilesWindows env d w) = ''principals-file-acl''"
  by (simp add: checkPerUserPrincipalsFilesWindows_def perUserPrincipalsACLResult_def result_of_def)

lemma doctor_shape:
  assumes "xp_CAPubkey paths \<noteq> []" "xp_PrincipalsDir paths \<noteq> []"
    "h_files (wh_host w) (to_slash (xp_CAPubkey paths)) \<noteq> None" "ie_fault (we_inst env) ''stat'' (to_slash (xp_CAPubkey paths)) = None"
  shows "\<exists>m t m' t'. Doctor_windows env paths w =
      service_checks (scQuery env ''sshd'' w) ''sshd-installed'' ''sshd-running'' m t
      @ [result_of ''ca-pubkey'' CheckOK [], checkBaseConfigDirectivesWindows env windowsBaseSSHDConfig w,
         checkPrincipalsACLWindows env (to_slash (xp_PrincipalsDir paths)) w,
         checkPerUserPrincipalsFilesWindows env (to_slash (xp_PrincipalsDir paths)) w,
         checkSpoolACLWindows env (SpoolDir env) w]
      @ service_checks (scQuery env WindowsServiceName w) ''service-installed'' ''service-running'' m' t'
      @ [checkWriterServiceWindows env w, checkConfigACLWindows env (SystemConfigPath_windows env) w]"
  unfolding Doctor_windows_def Let_def
  by (simp only: assms simp_thms if_True if_False) (intro exI, rule refl)

lemma doctor_members:
  assumes "r \<in> set (Doctor_windows env paths w)" "xp_CAPubkey paths \<noteq> []" "xp_PrincipalsDir paths \<noteq> []"
    "h_files (wh_host w) (to_slash (xp_CAPubkey paths)) \<noteq> None" "ie_fault (we_inst env) ''stat'' (to_slash (xp_CAPubkey paths)) = None"
  shows "dc_Name r \<in> {''sshd-installed'', ''sshd-running''} \<or> dc_Name r \<in> {''service-installed'', ''service-running''}
    \<or> r \<in> set [result_of ''ca-pubkey'' CheckOK [], checkBaseConfigDirectivesWindows env windowsBaseSSHDConfig w,
         checkPrincipalsACLWindows env (to_slash (xp_PrincipalsDir paths)) w,
         checkPerUserPrincipalsFilesWindows env (to_slash (xp_PrincipalsDir paths)) w,
         checkSpoolACLWindows env (SpoolDir env) w]
    \<or> r \<in> set [checkWriterServiceWindows env w, checkConfigACLWindows env (SystemConfigPath_windows env) w]"
proof -
  obtain m t m' t' where d: "Doctor_windows env paths w =
      service_checks (scQuery env ''sshd'' w) ''sshd-installed'' ''sshd-running'' m t
      @ [result_of ''ca-pubkey'' CheckOK [], checkBaseConfigDirectivesWindows env windowsBaseSSHDConfig w,
         checkPrincipalsACLWindows env (to_slash (xp_PrincipalsDir paths)) w,
         checkPerUserPrincipalsFilesWindows env (to_slash (xp_PrincipalsDir paths)) w,
         checkSpoolACLWindows env (SpoolDir env) w]
      @ service_checks (scQuery env WindowsServiceName w) ''service-installed'' ''service-running'' m' t'
      @ [checkWriterServiceWindows env w, checkConfigACLWindows env (SystemConfigPath_windows env) w]"
    using doctor_shape [OF assms(2-5)] by (elim exE) (rule that)
  show ?thesis
    using assms(1) service_check_names unfolding d set_append Un_iff by blast
qed

lemma doctor_verdicts:
  assumes "xp_CAPubkey paths \<noteq> []" "xp_PrincipalsDir paths \<noteq> []"
    "h_files (wh_host w) (to_slash (xp_CAPubkey paths)) \<noteq> None" "\<And>p. readable_sd env p"
    "dc_Status (checkBaseConfigDirectivesWindows env windowsBaseSSHDConfig w) = CheckOK"
    "dc_Status (checkPrincipalsACLWindows env (to_slash (xp_PrincipalsDir paths)) w) = CheckOK"
    "dc_Status (checkSpoolACLWindows env (SpoolDir env) w) = CheckOK"
    "dc_Status (checkConfigACLWindows env (SystemConfigPath_windows env) w) = CheckOK"
    "r \<in> set (Doctor_windows env paths w)"
    "dc_Name r \<in> {''ca-pubkey'', ''sshd-drop-in'', ''principals-dir'', ''spool-dir'', ''config-ownership''}"
  shows "dc_Status r = CheckOK"
proof -
  have f: "ie_fault (we_inst env) ''stat'' (to_slash (xp_CAPubkey paths)) = None" using assms(4) by (simp add: readable_sd_def)
  consider "dc_Name r \<in> {''sshd-installed'', ''sshd-running''}" | "dc_Name r \<in> {''service-installed'', ''service-running''}"
    | "r = result_of ''ca-pubkey'' CheckOK []" | "r = checkBaseConfigDirectivesWindows env windowsBaseSSHDConfig w"
    | "r = checkPrincipalsACLWindows env (to_slash (xp_PrincipalsDir paths)) w"
    | "r = checkPerUserPrincipalsFilesWindows env (to_slash (xp_PrincipalsDir paths)) w"
    | "r = checkSpoolACLWindows env (SpoolDir env) w" | "r = checkWriterServiceWindows env w"
    | "r = checkConfigACLWindows env (SystemConfigPath_windows env) w"
    using doctor_members [OF assms(9,1-3) f] unfolding list.set(2) list.set(1) insert_iff empty_iff by blast
  then show ?thesis
  proof cases
    case 1
    then show ?thesis using assms(10) by auto
  next
    case 2
    then show ?thesis using assms(10) by auto
  next
    case 6
    then show ?thesis using assms(10) files_check_name by simp
  next
    case 8
    then show ?thesis using assms(10) writer_check_name by simp
  qed (use assms(5-8) in \<open>simp_all add: result_of_def\<close>)
qed

lemma below_self: "p \<in> below p"
  by (simp add: below_def)


section \<open>A concrete machine\<close>

definition demo_win_ie :: install_env where
  "demo_win_ie = demo_ie\<lparr>ie_run := (\<lambda>cmd h. (h, Inr (if cmd ! 1 = ''query'' then ''STATE: 4 RUNNING'' else [])))\<rparr>"

definition demo_win_paths :: expected_paths where
  "demo_win_paths = \<lparr>xp_CAPubkey = ''C:/ssh/ca.pub'', xp_SSHDropIn = [], xp_PrincipalsDir = ''C:/ssh/p''\<rparr>"

definition demo_win_config :: agent_config where
  "demo_win_config = \<lparr>cf_Server = ''https://cp'', cf_AgentID = ''a1'', cf_AgentName = ''n'', cf_AgentToken = ''tok'',
     cf_CAPubkey = ''ssh-ed25519 AAAA'', cf_ServerHTTPSPin = [], cf_ExpectedPaths = demo_win_paths, cf_PinnedVersion = [],
     cf_UpdateHostAllowlist = None\<rparr>"

definition demo_dir :: inode where
  "demo_dir = \<lparr>in_data = None, in_uid = 0, in_gid = 0, in_perm = 511\<rparr>"

definition demo_host0 :: host where
  "demo_host0 = \<lparr>h_files = [''C:/ssh'' \<mapsto> demo_dir, ''C:/ssh/p'' \<mapsto> demo_dir, ''C:/ProgramData/uncluster'' \<mapsto> demo_dir,
         ''C:/ProgramData/uncluster/spool'' \<mapsto> demo_dir,
         ''C:/ProgramData/ssh/sshd_config'' \<mapsto> \<lparr>in_data = Some [], in_uid = 0, in_gid = 0, in_perm = 438\<rparr>],
       h_store = \<lparr>st_root = ''/x'', st_links = Map.empty, st_bins = [], st_quarantine = []\<rparr>, h_log = []\<rparr>"

definition demo_win_host :: whost where
  "demo_win_host = demo_whost\<lparr>wh_host := demo_host0\<rparr>"

text \<open>Whether a step succeeds depends on the files only: \<open>succeeds f h h'\<close> follows a run through them.\<close>

definition succeeds :: "winst \<Rightarrow> host \<Rightarrow> host \<Rightarrow> bool" where
  "succeeds f h h' \<longleftrightarrow> (\<forall>w. wh_host w = h \<longrightarrow> (\<exists>w'. f w = (w', Inr ()) \<and> wh_host w' = h'))"

lemma succeeds_on_host: "f h = (h', Inr ()) \<Longrightarrow> succeeds (on_host env f) h h'"
  by (simp add: succeeds_def on_host_def)

lemma succeeds_Nil: "succeeds (run_wsteps []) h h"
  by (simp add: succeeds_def)

lemma succeeds_Cons: "succeeds f h h' \<Longrightarrow> succeeds (run_wsteps fs) h' h'' \<Longrightarrow> succeeds (run_wsteps (f # fs)) h h''"
  unfolding succeeds_def run_wsteps_ok by blast

lemma succeeds_wrapped: "succeeds f h h' \<Longrightarrow> succeeds (wwrapped ctx f) h h'"
  by (simp add: succeeds_def)

lemma succeeds_output:
  assumes "exec (we_inst env) cmd h = (h', r)" "f = (\<lambda>w. case combined_output env cmd w of (w1, e, out) \<Rightarrow> (w1, g e out))"
    "g (case r of Inl (e, _) \<Rightarrow> Some e | Inr _ \<Rightarrow> None) (case r of Inl (_, out) \<Rightarrow> out | Inr out \<Rightarrow> out) = Inr ()"
  shows "succeeds f h h'"
  using assms by (auto simp: succeeds_def combined_output_def on_host_def split: sum.splits)

lemma succeeds_protected:
  assumes "h_files h path \<noteq> None"
  shows "succeeds (set_protected (demo_wenv ie) pre inList inSet ea path) h h"
  using assms by (auto simp: succeeds_def set_protected_def demo_wenv_def demo_entries_def wwrapped_def SetNamedSecurityInfo_def)

lemma succeeds_mkdir:
  assumes "h_files h p = Some i" "in_data i = None" "p \<noteq> []"
  shows "MkdirAll ie perm p h = (h, Inr ())"
  using assms by (simp add: MkdirAll.simps)

abbreviation demo_we :: wenv where
  "demo_we \<equiv> demo_wenv demo_win_ie"

definition logged :: "string list list \<Rightarrow> host \<Rightarrow> host" where
  "logged cs h = h\<lparr>h_log := cs @ h_log h\<rparr>"

lemma logged_simps [simp]: "h_files (logged cs h) = h_files h" "logged cs (logged ds h) = logged (cs @ ds) h"
  by (simp_all add: logged_def)

lemma demo_exec: "exec (we_inst demo_we) cmd h = (logged [cmd] h, Inr (if cmd ! 1 = ''query'' then ''STATE: 4 RUNNING'' else []))"
  by (simp add: exec_def demo_wenv_def demo_win_ie_def logged_def)

lemma demo_running: "containsState ''STATE: 4 RUNNING'' ''RUNNING''"
  by code_simp

lemma demo_ignored: "succeeds (ignored demo_we cmd) h (logged [cmd] h)"
  by (rule succeeds_output [OF demo_exec, where g = "\<lambda>_ _. Inr ()"]) (auto simp: ignored_def split: prod.splits)

lemma demo_reported:
  assumes "cmd ! 1 \<noteq> ''query''"
  shows "succeeds (reported demo_we what cmd) h (logged [cmd] h)"
  by (rule succeeds_output [OF demo_exec, where g = "\<lambda>e out. case e of Some t \<Rightarrow> Inl (what @ '': '' @ t @ newline # ''output: '' @ out) | None \<Rightarrow> Inr ()"])
    (auto simp: reported_def split: prod.splits option.splits)

lemma demo_restart: "succeeds (restart_service demo_we name) h (logged [[''net'', ''start'', name], [''net'', ''stop'', name]] h)"
proof -
  have "succeeds (reported demo_we (''net start '' @ name) [''net'', ''start'', name]) (logged [[''net'', ''stop'', name]] h)
      (logged [[''net'', ''start'', name]] (logged [[''net'', ''stop'', name]] h))" by (rule demo_reported) simp
  then show ?thesis unfolding restart_service_def
    using succeeds_Cons [OF demo_ignored succeeds_Cons [OF _ succeeds_Nil]] by fastforce
qed

lemma demo_check_sshd: "\<exists>cs. succeeds (checkSSHDWindows demo_we) h (logged cs h)"
proof -
  have "exec (we_inst demo_we) [''sc.exe'', ''query'', ''sshd''] h = (logged [[''sc.exe'', ''query'', ''sshd'']] h, Inr ''STATE: 4 RUNNING'')"
    by (simp add: demo_exec)
  then have "checkSSHDWindows demo_we w = (fst (combined_output demo_we [''sc.exe'', ''query'', ''sshd''] w), Inr ())
      \<and> wh_host (fst (combined_output demo_we [''sc.exe'', ''query'', ''sshd''] w)) = logged [[''sc.exe'', ''query'', ''sshd'']] h"
    if "wh_host w = h" for w
    using that demo_running unfolding checkSSHDWindows_def combined_output_def on_host_def by simp
  then show ?thesis unfolding succeeds_def by blast
qed

lemma demo_service_register:
  assumes "succeeds fresh h h'"
  shows "succeeds (register_service demo_we svc what fresh) h h'"
  using assms by (simp add: succeeds_def register_service_def demo_wenv_def demo_win_ie_def demo_ie_def on_host_def)

definition demo_dirs :: "host \<Rightarrow> bool" where
  "demo_dirs h \<longleftrightarrow> (\<forall>p \<in> {''C:/ssh'', ''C:/ssh/p'', ''C:/ProgramData/uncluster'', ''C:/ProgramData/uncluster/spool''}. h_files h p = Some demo_dir)"

lemma demo_dirs_logged [simp]: "demo_dirs (logged cs h) = demo_dirs h"
  by (simp add: demo_dirs_def)

lemma demo_paths_win:
  "SystemConfigPath_windows demo_we = ''C:/ProgramData/uncluster/agent.toml''" "SpoolDir demo_we = ''C:/ProgramData/uncluster/spool''"
  "filepath_dir ''C:/ProgramData/uncluster/agent.toml'' = ''C:/ProgramData/uncluster''" "dirOf ''C:/ssh/ca.pub'' = ''C:/ssh''"
  "filepath_dir ''C:/ssh/ca.pub'' = ''C:/ssh''" "slashed demo_win_paths = demo_win_paths" "to_slash ''C:/ssh/p'' = ''C:/ssh/p''"
  by code_simp+

lemma demo_mkdir:
  assumes "demo_dirs h" "p \<in> {''C:/ssh'', ''C:/ssh/p'', ''C:/ProgramData/uncluster'', ''C:/ProgramData/uncluster/spool''}"
  shows "MkdirAll ie perm p h = (h, Inr ())"
  using assms by (intro succeeds_mkdir [of h p demo_dir]) (auto simp: demo_dirs_def demo_dir_def)

lemma demo_dirs_put:
  assumes "demo_dirs h" "p \<in> {''C:/ssh/ca.pub'', windowsBaseSSHDConfig, ''C:/ProgramData/uncluster/agent.toml''}"
  shows "demo_dirs (put_inode p i h)"
  using assms by (auto simp: demo_dirs_def put_inode_def windowsBaseSSHDConfig_def)

lemma demo_config_write:
  assumes "h_files h p = Some i \<and> in_data i \<noteq> None \<or> h_files h p = None \<and> is_dir h (filepath_dir p)"
  shows "\<exists>j. WriteFile (we_inst demo_we) p t perm h = (put_inode p j h, Inr ())"
  using assms by (auto simp: WriteFile_def demo_wenv_def demo_win_ie_def demo_ie_def)

lemma demo_remove: "succeeds (remove_quietly demo_we p) h (h\<lparr>h_files := (h_files h)(p := None)\<rparr>)"
  by (simp add: succeeds_def remove_quietly_def on_host_def drop_temp_def demo_wenv_def demo_win_ie_def demo_ie_def)

lemma demo_is_dir: "demo_dirs h \<Longrightarrow> is_dir h ''C:/ssh'' \<and> is_dir h ''C:/ProgramData/uncluster''"
  by (simp add: demo_dirs_def is_dir_def demo_dir_def)

lemma demo_ca:
  assumes "demo_dirs h" "h_files h ''C:/ssh/ca.pub'' = None"
  shows "\<exists>j. succeeds (on_host demo_we (writeCAPubkey (we_inst demo_we) (slashed demo_win_paths) key)) h (put_inode ''C:/ssh/ca.pub'' j h)"
proof -
  obtain j where "WriteFile (we_inst demo_we) ''C:/ssh/ca.pub'' (trim_space key @ [newline]) 420 h = (put_inode ''C:/ssh/ca.pub'' j h, Inr ())"
    using demo_config_write [of h "''C:/ssh/ca.pub''" _ "trim_space key @ [newline]" 420] assms demo_is_dir [of h] demo_paths_win(5) by auto
  moreover have "xp_CAPubkey demo_win_paths = ''C:/ssh/ca.pub''" by (simp add: demo_win_paths_def)
  ultimately have "writeCAPubkey (we_inst demo_we) (slashed demo_win_paths) key h = (put_inode ''C:/ssh/ca.pub'' j h, Inr ())"
    using demo_mkdir [OF assms(1), of "''C:/ssh''"] by (simp add: writeCAPubkey_def demo_paths_win wrapped_def)
  then show ?thesis by (intro exI succeeds_on_host)
qed

lemma demo_ensure:
  assumes "demo_dirs h" "h_files h windowsBaseSSHDConfig = Some i" "in_data i = Some b"
  shows "\<exists>h'. succeeds (ensureWindowsBaseConfigDirectives demo_we demo_win_paths) h h' \<and> demo_dirs h'
     \<and> h_files h' ''C:/ProgramData/uncluster/agent.toml'' = h_files h ''C:/ProgramData/uncluster/agent.toml''"
proof -
  define block where "block = managedDirectiveBlock (xp_CAPubkey demo_win_paths) (xp_PrincipalsDir demo_win_paths @ ''/%u'')"
  have r: "read_existing demo_we windowsBaseSSHDConfig w = Inr (Some b)" if "wh_host w = h" for w
    using that assms(2,3) by (simp add: read_existing_def ReadFile_def demo_wenv_def demo_win_ie_def demo_ie_def)
  obtain j where j: "WriteFile (we_inst demo_we) windowsBaseSSHDConfig (upsertManagedBlock b block) 420 h = (put_inode windowsBaseSSHDConfig j h, Inr ())"
    using demo_config_write [of h windowsBaseSSHDConfig i "upsertManagedBlock b block" 420] assms(2,3) by auto
  have d: "xp_SSHDropIn demo_win_paths = []" by (simp add: demo_win_paths_def)
  have s: "succeeds (on_host demo_we (WriteFile (we_inst demo_we) windowsBaseSSHDConfig (upsertManagedBlock b block) 420)) h
      (put_inode windowsBaseSSHDConfig j h)" using j by (rule succeeds_on_host)
  define h' where "h' = (if upsertManagedBlock b block \<noteq> b then put_inode windowsBaseSSHDConfig j h else h)"
  have "succeeds (run_wsteps [if upsertManagedBlock b block \<noteq> b
             then wwrapped (''write directives into '' @ windowsBaseSSHDConfig)
               (on_host demo_we (WriteFile (we_inst demo_we) windowsBaseSSHDConfig (upsertManagedBlock b block) 420))
             else (\<lambda>w. (w, Inr ())),
             if xp_SSHDropIn demo_win_paths \<noteq> [] then remove_quietly demo_we (to_slash (xp_SSHDropIn demo_win_paths)) else (\<lambda>w. (w, Inr ()))]) h h'"
    by (rule succeeds_Cons [where h' = h', OF _ succeeds_Cons [where h' = h', OF _ succeeds_Nil]])
      (use succeeds_wrapped [OF s] in \<open>simp_all add: h'_def d succeeds_def\<close>)
  then have "succeeds (ensureWindowsBaseConfigDirectives demo_we demo_win_paths) h h'"
    using r unfolding succeeds_def ensureWindowsBaseConfigDirectives_def Let_def block_def [symmetric] by simp
  moreover have "demo_dirs h'" using demo_dirs_put [OF assms(1)] assms(1) by (simp add: h'_def)
  ultimately show ?thesis by (intro exI [of _ h']) (simp add: h'_def put_inode_def windowsBaseSSHDConfig_def)
qed

lemma demo_save:
  assumes "demo_dirs h" "h_files h ''C:/ProgramData/uncluster/agent.toml'' = None"
  shows "\<exists>h'. succeeds (SaveConfigSystem_windows demo_we ''C:/ProgramData/uncluster/agent.toml'' cfg) h h'"
proof -
  let ?p = "''C:/ProgramData/uncluster/agent.toml''"
  obtain j where j: "WriteFile (we_inst demo_we) ?p (ie_toml (we_inst demo_we) cfg) 416 h = (put_inode ?p j h, Inr ())"
    using demo_config_write [of h ?p _ "ie_toml (we_inst demo_we) cfg" 416] assms demo_is_dir [of h] demo_paths_win(3) by auto
  have m: "MkdirAll (we_inst demo_we) 493 (filepath_dir ?p) h = (h, Inr ())"
    unfolding demo_paths_win(3) by (rule demo_mkdir [OF assms(1)]) simp
  have "succeeds (restrictSystemConfigACL_windows demo_we ?p) (put_inode ?p j h) (put_inode ?p j h)"
    using succeeds_protected [of "put_inode ?p j h" ?p] unfolding succeeds_def restrictSystemConfigACL_windows_def
    by (simp add: put_inode_def)
  moreover have "succeeds (on_host demo_we (MkdirAll (we_inst demo_we) 493 (filepath_dir ?p))) h h"
    using m by (rule succeeds_on_host)
  moreover have "succeeds (on_host demo_we (WriteFile (we_inst demo_we) ?p (ie_toml (we_inst demo_we) cfg) 416)) h (put_inode ?p j h)"
    using j by (rule succeeds_on_host)
  ultimately have "succeeds (SaveConfigSystem_windows demo_we ?p cfg) h (put_inode ?p j h)"
    unfolding SaveConfigSystem_windows_def by (meson succeeds_Cons succeeds_Nil)
  then show ?thesis by blast
qed

lemma demo_install: "\<exists>w'. Install_windows demo_we demo_win_config ''C:/u.exe'' demo_win_host = (w', Inr ())"
proof -
  let ?sys = "''C:/ProgramData/uncluster/agent.toml''"
  obtain cs where s1: "succeeds (checkSSHDWindows demo_we) demo_host0 (logged cs demo_host0)" using demo_check_sshd by blast
  have d1: "demo_dirs (logged cs demo_host0)" "h_files (logged cs demo_host0) ''C:/ssh/ca.pub'' = None"
    by (simp_all add: demo_dirs_def demo_host0_def logged_def)
  obtain j where s2: "succeeds (on_host demo_we (writeCAPubkey (we_inst demo_we) (slashed demo_win_paths) (cf_CAPubkey demo_win_config)))
      (logged cs demo_host0) (put_inode ''C:/ssh/ca.pub'' j (logged cs demo_host0))" using demo_ca [OF d1] by blast
  define h2 where "h2 = put_inode ''C:/ssh/ca.pub'' j (logged cs demo_host0)"
  have d2: "demo_dirs h2" "h_files h2 ?sys = None" using demo_dirs_put [OF d1(1)]
    by (simp_all add: h2_def put_inode_def demo_host0_def)
  obtain i where b2: "h_files h2 windowsBaseSSHDConfig = Some i" "in_data i = Some []"
    by (simp add: h2_def put_inode_def demo_host0_def windowsBaseSSHDConfig_def)
  obtain h3 where s3: "succeeds (ensureWindowsBaseConfigDirectives demo_we demo_win_paths) h2 h3"
    and d3: "demo_dirs h3" "h_files h3 ?sys = None"
    using demo_ensure [OF d2(1) b2] d2(2) by auto
  have s4: "succeeds (on_host demo_we (ensurePrincipalsDir (we_inst demo_we) (slashed demo_win_paths))) h3 h3"
    by (rule succeeds_on_host)
      (simp add: ensurePrincipalsDir_def demo_paths_win(6) demo_mkdir [OF d3(1)], simp add: demo_win_paths_def demo_mkdir [OF d3(1)])
  have s5: "succeeds (installService_windows demo_we ''C:/u.exe'') h3 h3"
    unfolding installService_windows_def by (rule demo_service_register) (simp add: succeeds_def)
  define h6 where "h6 = h3\<lparr>h_files := (h_files h3)(path_join (SpoolDir demo_we) ''policy.json'' := None)\<rparr>"
  have s6: "succeeds (installPrincipalsWriterService demo_we ''C:/u.exe'') h3 h6"
    unfolding installPrincipalsWriterService_def clear_spool_def h6_def by (intro demo_service_register demo_remove)
  have p6: "path_join (SpoolDir demo_we) ''policy.json'' = ''C:/ProgramData/uncluster/spool/policy.json''" by code_simp
  have d6: "demo_dirs h6" "h_files h6 ?sys = None" using d3 by (simp_all add: h6_def p6 demo_dirs_def)
  have s7: "succeeds (setWriterRequiredPrivileges demo_we) h6 h6"
    by (simp add: succeeds_def setWriterRequiredPrivileges_def demo_wenv_def privilegesToMultiSZ_def writerRequiredPrivileges_def UTF16FromString_def)
  have s8: "succeeds (restrictPrincipalsDirACLWindows demo_we (to_slash (xp_PrincipalsDir demo_win_paths))) h6 h6"
    unfolding restrictPrincipalsDirACLWindows_def setProtectedSystemAdminsACL_def
    by (rule succeeds_protected) (use d6 in \<open>simp add: demo_dirs_def demo_win_paths_def demo_paths_win\<close>)
  have s9: "succeeds (createSpoolDirWithACL demo_we (SpoolDir demo_we)) h6 h6"
  proof -
    have "succeeds (on_host demo_we (MkdirAll (we_inst demo_we) 493 (SpoolDir demo_we))) h6 h6"
      by (rule succeeds_on_host) (simp add: demo_paths_win demo_mkdir [OF d6(1)])
    moreover have "h_files h6 (SpoolDir demo_we) \<noteq> None" using d6 by (simp add: demo_paths_win demo_dirs_def)
    ultimately show ?thesis unfolding createSpoolDirWithACL_def
      by (intro succeeds_Cons [OF succeeds_wrapped succeeds_Cons [OF _ succeeds_Nil]])
        (use succeeds_protected in \<open>auto simp: succeeds_def\<close>)
  qed
  obtain h10 where s10: "succeeds (SaveConfigSystem_windows demo_we (SystemConfigPath_windows demo_we) demo_win_config) h6 h10"
    using demo_save [OF d6] demo_paths_win(1) by auto
  have c: "cf_ExpectedPaths demo_win_config = demo_win_paths" by (simp add: demo_win_config_def)
  have "\<exists>h'. succeeds (Install_windows demo_we demo_win_config ''C:/u.exe'') demo_host0 h'"
    unfolding Install_windows_def Let_def c startServiceWindows_def startPrincipalsWriterServiceWindows_def reloadSSHDWindows_def
    by (rule exI, (rule succeeds_Cons succeeds_Nil s1 s2 [folded h2_def] s3 s4 s5 s6 s7 s8 s9 s10 demo_restart succeeds_wrapped)+)
  moreover have "wh_host demo_win_host = demo_host0" by (simp add: demo_win_host_def)
  ultimately show ?thesis unfolding succeeds_def by blast
qed


section \<open>The list of privileges\<close>

text \<open>How the service manager reads the list: strings up to a zero, and an empty one ends it.\<close>

function multi_sz :: "16 word list \<Rightarrow> 16 word list list" where
  "multi_sz us = (let s = takeWhile (\<lambda>u. u \<noteq> 0) us in if s = [] then [] else s # multi_sz (drop (length s + 1) us))"
  by pat_completeness auto
termination
proof (relation "measure length")
  fix us s :: "16 word list"
  assume "s = takeWhile (\<lambda>u. u \<noteq> 0) us" "s \<noteq> []"
  then show "(drop (length s + 1) us, us) \<in> measure length" by (cases us) auto
qed simp

declare multi_sz.simps [simp del]

definition utf16 :: "string \<Rightarrow> 16 word list" where
  "utf16 s = concat (map (\<lambda>p. utf16_rune (fst p)) (runes s))"

lemma multi_sz_field:
  assumes "u \<noteq> []" "0 \<notin> set u"
  shows "multi_sz (u @ 0 # us) = u # multi_sz us"
proof -
  have "takeWhile (\<lambda>u. u \<noteq> 0) (u @ 0 # us) = u" using assms(2) by (induction u) auto
  then show ?thesis using assms(1) by (subst multi_sz.simps) simp
qed

lemma multi_sz_end: "multi_sz (0 # us) = []"
  by (subst multi_sz.simps) simp

lemma encode_privileges_fields:
  "encode_privileges quote ps out = Inr us \<Longrightarrow>
     us = out @ concat (map (\<lambda>p. utf16 p @ [0]) ps) \<and> (\<forall>p \<in> set ps. CHR 0x00 \<notin> set p)"
proof (induction ps arbitrary: out)
  case (Cons p ps)
  then show ?case using Cons.IH [of "out @ utf16 p @ [0]"] by (auto simp: UTF16FromString_def utf16_def split: if_splits)
qed simp

text \<open>A code point that is decoded from bytes other than zero is not zero and in Unicode's range, and none
  of its UTF-16 units is zero.\<close>

lemma decode_rune_range:
  assumes "bs \<noteq> []" "0 \<notin> set bs"
  shows "0 < fst (decode_rune bs) \<and> fst (decode_rune bs) < 0x110000"
proof -
  have two: "0 < (b - 192) * 64 + (c - 128) \<and> (b - 192) * 64 + (c - 128) < (0x110000 :: nat)"
    if "194 \<le> b" "b \<le> 223" "cont_byte c" for b c
    using that by (auto simp: cont_byte_def)
  have three: "0 < (b - 224) * 4096 + (c - 128) * 64 + (d - 128) \<and> (b - 224) * 4096 + (c - 128) * 64 + (d - 128) < (0x110000 :: nat)"
    if "224 \<le> b" "b \<le> 239" "cont_byte c" "cont_byte d" "b = 224 \<longrightarrow> 160 \<le> c" for b c d
  proof -
    have "b = 224 \<or> 4096 \<le> (b - 224) * 4096" using that by auto
    then show ?thesis using that by (auto simp: cont_byte_def)
  qed
  have four: "0 < (b - 240) * 262144 + (c - 128) * 4096 + (d - 128) * 64 + (e - 128)
      \<and> (b - 240) * 262144 + (c - 128) * 4096 + (d - 128) * 64 + (e - 128) < (0x110000 :: nat)"
    if "240 \<le> b" "b \<le> 244" "cont_byte c" "cont_byte d" "cont_byte e" "b = 240 \<longrightarrow> 144 \<le> c" "b = 244 \<longrightarrow> c \<le> 143" for b c d e
  proof -
    have "b \<in> {240, 241, 242, 243, 244}" using that(1,2) by auto
    then show ?thesis using that by (auto simp: cont_byte_def)
  qed
  show ?thesis
  proof (cases bs)
    case (Cons b xs)
    then show ?thesis using assms two three four by (auto split: list.splits)
  qed (use assms in simp)
qed

lemma utf16_rune_units:
  assumes "0 < r" "r < 0x110000"
  shows "utf16_rune r \<noteq> [] \<and> 0 \<notin> set (utf16_rune r)"
proof -
  have z: "(of_nat n :: 16 word) \<noteq> 0" if "0 < n" "n < 65536" for n :: nat
    using that unsigned_of_nat [where ?'a = 16, of n] by (auto simp: take_bit_eq_mod word_of_nat_eq_0_iff dest: nat_dvd_not_less)
  show ?thesis
  proof (cases "r < 65536")
    case True
    then show ?thesis using z [of r] assms(1) by (auto simp: utf16_rune_def)
  next
    case False
    have "(r - 65536) div 1024 < 1024" using assms(2) by (simp add: div_less_iff_less_mult)
    then have "(of_nat (55296 + (r - 65536) div 1024) :: 16 word) \<noteq> 0" by (intro z) auto
    moreover have "(of_nat (56320 + (r - 65536) mod 1024) :: 16 word) \<noteq> 0"
      using mod_less_divisor [of 1024 "r - 65536"] by (intro z) auto
    ultimately show ?thesis using False by (auto simp: utf16_rune_def)
  qed
qed

lemma utf16_units:
  assumes "s \<noteq> []" "CHR 0x00 \<notin> set s"
  shows "utf16 s \<noteq> [] \<and> 0 \<notin> set (utf16 s)"
  using assms
proof (induction s rule: runes.induct)
  case (1 s)
  obtain r w where d: "decode_rune (map of_char (take 4 s)) = (r, w)" by fastforce
  have ne: "map of_char (take 4 s) \<noteq> ([] :: nat list)" using "1.prems" by (cases s) auto
  have nz: "0 \<notin> set (map of_char (take 4 s) :: nat list)"
  proof
    assume "0 \<in> set (map of_char (take 4 s) :: nat list)"
    then obtain c where c: "c \<in> set (take 4 s)" "of_char c = (0 :: nat)" by auto
    then have "of_char c = (of_char (CHR 0x00) :: nat)" by simp
    then have "c = CHR 0x00" by (simp only: of_char_eq_iff)
    then show False using c "1.prems" by (auto dest: in_set_takeD)
  qed
  have rs: "runes s = (r, take w s) # runes (drop w s)" using d "1.prems" by (subst runes.simps) simp
  have u: "utf16 s = utf16_rune r @ utf16 (drop w s)" by (simp add: utf16_def rs)
  have h: "utf16_rune r \<noteq> [] \<and> 0 \<notin> set (utf16_rune r)"
    using decode_rune_range [OF ne nz] d by (intro utf16_rune_units) simp_all
  show ?case
  proof (cases "drop w s = []")
    case True
    then show ?thesis using u h by (simp add: utf16_def)
  next
    case False
    have "CHR 0x00 \<notin> set (drop w s)" using "1.prems" by (auto dest: in_set_dropD)
    then show ?thesis using "1.IH" [OF "1.prems"(1) d [symmetric] refl False] u h by simp
  qed
qed

text \<open>The list of privileges reaches the service manager as it is meant: when a list of names, none of them
  empty, is encoded, reading the encoded list gives the names back, in order and with none lost or
  split.\<close>

theorem privileges_round_trip:
  assumes "privilegesToMultiSZ quote ps = Inr us" "[] \<notin> set ps"
  shows "multi_sz us = map utf16 ps"
proof -
  obtain out where o: "encode_privileges quote ps [] = Inr out" "us = (if length (out @ [0]) = 1 then out @ [0, 0] else out @ [0])"
    using assms(1) by (auto simp: privilegesToMultiSZ_def split: sum.splits)
  note f = encode_privileges_fields [OF o(1)]
  have "\<exists>vs. us = concat (map (\<lambda>p. utf16 p @ [0]) ps) @ 0 # vs" using o(2) f by auto
  then obtain vs where us: "us = concat (map (\<lambda>p. utf16 p @ [0]) ps) @ 0 # vs" by blast
  have "\<forall>p \<in> set ps. utf16 p \<noteq> [] \<and> 0 \<notin> set (utf16 p)" using f assms(2) utf16_units by metis
  then have "multi_sz (concat (map (\<lambda>p. utf16 p @ [0]) ps) @ 0 # vs) = map utf16 ps"
    by (induction ps) (simp_all add: multi_sz_field multi_sz_end)
  then show ?thesis using us by simp
qed

theorem privileges_round_trip_witness:
  "\<exists>us. privilegesToMultiSZ id writerRequiredPrivileges = Inr us \<and> multi_sz us = [map of_char ''SeChangeNotifyPrivilege'']"
proof -
  have u: "utf16 ''SeChangeNotifyPrivilege'' = map of_char ''SeChangeNotifyPrivilege''"
    by (simp add: utf16_def runes_ascii utf16_rune_def)
  have e: "privilegesToMultiSZ id writerRequiredPrivileges = Inr (utf16 ''SeChangeNotifyPrivilege'' @ [0, 0])"
    by (simp add: privilegesToMultiSZ_def writerRequiredPrivileges_def UTF16FromString_def utf16_def)
  have n: "[] \<notin> set writerRequiredPrivileges" by (simp add: writerRequiredPrivileges_def)
  from privileges_round_trip [OF e n] e u show ?thesis by (simp add: writerRequiredPrivileges_def)
qed

end
