(* ===== verification/Bootstrap.thy ===== *)
theory Bootstrap
  imports Server_Enrolment Files
begin

text \<open>
  Starting a control plane: the migrations of its database (\<^verbatim>\<open>store/migrations.go\<close> and \<open>migrate\<close> of
  \<^verbatim>\<open>store/sqlite.go\<close>), \<^verbatim>\<open>uncluster server bootstrap\<close> and \<^verbatim>\<open>uncluster server start\<close>
  (\<^verbatim>\<open>cli/server_cmd.go\<close>, \<^verbatim>\<open>ca.WritePublicToDisk\<close>); and the endpoints an agent reports
  (\<^verbatim>\<open>agent/endpoints.go\<close>).
\<close>

definition end_of_line :: char where
  "end_of_line = CHR 0x0A"

section \<open>Migrations\<close>

text \<open>A migration is known by its index; \<open>md_applied\<close> are those whose statement took effect, oldest first,
  and \<open>md_rows\<close> the rows of \<^verbatim>\<open>schema_version\<close> (\<^const>\<open>None\<close>: there is no such table). \<open>mig_faults\<close> gives the
  error of a statement of a migration.\<close>

record schema_db =
  md_rows :: "nat list option"
  md_applied :: "nat list"

type_synonym mig_faults = "string \<Rightarrow> nat \<Rightarrow> string option"

definition migration_count :: nat where
  "migration_count = 33"

text \<open>\<^verbatim>\<open>UPDATE schema_version SET version = ?\<close> sets every row; the column is the primary key.\<close>

definition bump_rows :: "nat \<Rightarrow> nat list \<Rightarrow> (string, nat list) result" where
  "bump_rows v rows =
     (if length rows > 1 then Inl ''UNIQUE constraint failed: schema_version.version'' else Inr (map (\<lambda>_. v) rows))"

definition migrate_one :: "mig_faults \<Rightarrow> nat \<Rightarrow> schema_db \<Rightarrow> schema_db \<times> (string, unit) result" where
  "migrate_one flt i d =
     (case flt ''begin'' i of
        Some e \<Rightarrow> (d, Inl (''begin migration '' @ dec_nat i @ '': '' @ e))
      | None \<Rightarrow>
     (case flt ''apply'' i of
        Some e \<Rightarrow> (d, Inl (''apply migration '' @ dec_nat i @ '': '' @ e))
      | None \<Rightarrow>
     (case (case flt ''bump'' i of Some e \<Rightarrow> Inl e
            | None \<Rightarrow> bump_rows i (case md_rows d of None \<Rightarrow> [] | Some rows \<Rightarrow> rows)) of
        Inl e \<Rightarrow> (d, Inl (''bump schema_version to '' @ dec_nat i @ '': '' @ e))
      | Inr rows \<Rightarrow>
     (case flt ''commit'' i of
        Some e \<Rightarrow> (d, Inl (''commit migration '' @ dec_nat i @ '': '' @ e))
      | None \<Rightarrow> (d\<lparr>md_rows := Some rows, md_applied := md_applied d @ [i]\<rparr>, Inr ())))))"

fun migrate_loop :: "mig_faults \<Rightarrow> nat list \<Rightarrow> schema_db \<Rightarrow> schema_db \<times> (string, unit) result" where
  "migrate_loop flt [] d = (d, Inr ())"
| "migrate_loop flt (i # is) d =
     (if i \<le> 1 then migrate_loop flt is d
      else case migrate_one flt i d of (d', Inl e) \<Rightarrow> (d', Inl e) | (d', Inr _) \<Rightarrow> migrate_loop flt is d')"

definition current_version :: "nat list \<Rightarrow> nat" where
  "current_version rows = fold max rows 0"

definition migrate :: "mig_faults \<Rightarrow> schema_db \<Rightarrow> schema_db \<times> (string, unit) result" where
  "migrate flt d =
     (case flt ''create'' 1 of
        Some e \<Rightarrow> (d, Inl (''create schema_version: '' @ e))
      | None \<Rightarrow>
          let d1 = d\<lparr>md_rows := Some (case md_rows d of None \<Rightarrow> [] | Some rows \<Rightarrow> rows)\<rparr> in
          (case flt ''seed'' 0 of
             Some e \<Rightarrow> (d1, Inl (''seed schema_version: '' @ e))
           | None \<Rightarrow>
               let rows = the (md_rows d1); rows = (if rows = [] then [0] else rows); d2 = d1\<lparr>md_rows := Some rows\<rparr> in
               (case flt ''read'' 0 of
                  Some e \<Rightarrow> (d2, Inl (''read schema_version: '' @ e))
                | None \<Rightarrow> migrate_loop flt [current_version rows + 1 ..< migration_count] d2)))"

definition fresh_schema :: schema_db where
  "fresh_schema = \<lparr>md_rows = None, md_applied = []\<rparr>"

section \<open>Endpoints\<close>

text \<open>The detected endpoints as a map from subnet to address; the order of the reported list is that of a Go
  map. \<open>ParseIP4\<close> is \<^verbatim>\<open>net.ParseIP\<close> for an IPv4 address, with its canonical text.\<close>

definition apply_override :: "string \<Rightarrow> (string \<rightharpoonup> string) \<Rightarrow> (string \<rightharpoonup> string)" where
  "apply_override ov m =
     (case split_n 1 (CHR ''@'') ov of
        [subnet, addr] \<Rightarrow> if addr = [] then m(subnet := None) else m(subnet \<mapsto> addr)
      | _ \<Rightarrow> m)"

definition DetectEndpoints :: "string \<Rightarrow> string \<Rightarrow> string list \<Rightarrow> (string \<rightharpoonup> string)" where
  "DetectEndpoints tailscale lan overrides =
     fold apply_override overrides
       ((if tailscale \<noteq> [] then [''home-tailnet'' \<mapsto> tailscale] else Map.empty)
        ++ (if lan \<noteq> [] then [''home-lan'' \<mapsto> lan] else Map.empty))"

definition tailscaleIP :: "(string \<Rightarrow> string option) \<Rightarrow> string option \<Rightarrow> string" where
  "tailscaleIP ParseIP4 output =
     (case output of
        None \<Rightarrow> []
      | Some out \<Rightarrow>
          (case find (\<lambda>l. ParseIP4 (trim_space l) \<noteq> None) (split_char end_of_line out) of
             None \<Rightarrow> []
           | Some l \<Rightarrow> the (ParseIP4 (trim_space l))))"

text \<open>An interface: its flags, and its addresses with what the library says of each.\<close>

record net_addr =
  na_loopback :: bool
  na_linklocal :: bool
  na_ip4 :: "string option"

record net_interface =
  ni_up :: bool
  ni_loopback :: bool
  ni_addrs :: "net_addr option list"

fun first_address :: "net_addr option list \<Rightarrow> string option" where
  "first_address [] = None"
| "first_address (a # as) =
     (case a of
        None \<Rightarrow> first_address as
      | Some ip \<Rightarrow>
          if na_loopback ip \<or> na_linklocal ip then first_address as
          else case na_ip4 ip of Some s \<Rightarrow> Some s | None \<Rightarrow> first_address as)"

fun lan_from :: "net_interface list \<Rightarrow> string" where
  "lan_from [] = []"
| "lan_from (iface # is) =
     (if \<not> ni_up iface \<or> ni_loopback iface then lan_from is
      else case first_address (ni_addrs iface) of Some s \<Rightarrow> s | None \<Rightarrow> lan_from is)"

definition defaultLANIP :: "net_interface list option \<Rightarrow> string" where
  "defaultLANIP ifaces = (case ifaces of None \<Rightarrow> [] | Some is \<Rightarrow> lan_from is)"

section \<open>Files of the control plane\<close>

text \<open>\<^verbatim>\<open>os.WriteFile\<close> follows symbolic links and creates the file at the end of them.\<close>

fun final_name :: "nat \<Rightarrow> filesys \<Rightarrow> string \<Rightarrow> string" where
  "final_name 0 fs p = p"
| "final_name (Suc n) fs p = (case fs_entry fs p of Some (Symlink t) \<Rightarrow> final_name n fs t | _ \<Rightarrow> p)"

definition os_write_file :: "(string \<Rightarrow> bool) \<Rightarrow> nat \<Rightarrow> nat \<Rightarrow> string \<Rightarrow> string \<Rightarrow> nat \<Rightarrow> filesys \<Rightarrow> filesys \<times> bool" where
  "os_write_file flt euid ino path data mode fs =
     (let p = final_name 40 fs path; put = (\<lambda>i nd. fs\<lparr>fs_entry := (fs_entry fs)(p \<mapsto> Inode i), fs_inode := (fs_inode fs)(i \<mapsto> nd)\<rparr>) in
      if flt ''open'' then (fs, False)
      else case (case fs_entry fs p of
                   None \<Rightarrow> Some (ino, \<lparr>in_dir = False, in_mode = mode, in_uid = euid, in_data = []\<rparr>)
                 | Some (Inode i) \<Rightarrow> map_option (Pair i) (fs_inode fs i)
                 | Some (Symlink _) \<Rightarrow> None) of
        None \<Rightarrow> (fs, False)
      | Some (i, nd) \<Rightarrow>
          if in_dir nd then (fs, False)
          else if flt ''write'' then (put i (nd\<lparr>in_data := []\<rparr>), False)
          else (put i (nd\<lparr>in_data := data\<rparr>), True))"

definition os_read_file :: "(inode \<Rightarrow> bool) \<Rightarrow> filesys \<Rightarrow> string \<Rightarrow> string option" where
  "os_read_file readable fs path =
     (case os_stat fs path of
        None \<Rightarrow> None
      | Some nd \<Rightarrow> if in_dir nd \<or> \<not> readable nd then None else Some (in_data nd))"

text \<open>\<^verbatim>\<open>MkdirAll(dir, 0o755)\<close> gives a directory it makes that mode.\<close>

definition WritePublicToDisk :: "(string \<Rightarrow> bool) \<Rightarrow> nat \<Rightarrow> nat \<Rightarrow> nat \<Rightarrow> string \<Rightarrow> string \<Rightarrow> filesys \<Rightarrow>
    filesys \<times> (string, unit) result" where
  "WritePublicToDisk flt euid ino ino' path marshaled fs =
     (case mkdir_all euid ino (parentDir path) fs of
        Inl _ \<Rightarrow> (fs, Inl (''ca: mkdir '' @ parentDir path))
      | Inr fs1 \<Rightarrow>
          let made = (fs_entry fs (parentDir path) = None);
              fs2 = (if made then fs1\<lparr>fs_inode := (fs_inode fs1)(ino \<mapsto> \<lparr>in_dir = True, in_mode = 493, in_uid = euid, in_data = []\<rparr>)\<rparr> else fs1)
          in (case os_write_file flt euid ino' path marshaled 420 fs2 of
                (fs3, True) \<Rightarrow> (fs3, Inr ())
              | (fs3, False) \<Rightarrow> (fs3, Inl (''ca: write '' @ path))))"

section \<open>Bootstrap and start\<close>

text \<open>\<open>be_pair\<close> is a fresh key pair in its two encodings (\<^verbatim>\<open>Generate\<close>, \<^verbatim>\<open>MarshalPrivate\<close>, \<^verbatim>\<open>MarshalPublic\<close>);
  \<open>be_xdg\<close> and \<open>be_home\<close> are \<^verbatim>\<open>XDG_DATA_HOME\<close> and the home directory, empty when there is none; \<open>be_ino\<close> the
  inode numbers the kernel hands out. No other process changes the files meanwhile.\<close>

record boot_env =
  be_xdg :: string
  be_home :: string
  be_euid :: nat
  be_ino :: "nat \<Rightarrow> nat"
  be_fault :: "string \<Rightarrow> string \<Rightarrow> bool"
  be_pair :: "string \<times> string"
  be_pair_error :: "string option"
  be_parse :: "string \<Rightarrow> string option"
  be_readable :: "inode \<Rightarrow> bool"
  be_mig :: mig_faults
  be_flt :: faults
  be_now :: gotime
  be_idkey :: idkey
  be_idbytes :: "string option"
  be_secbytes :: "string option"
  be_salt :: "string option"

record site =
  si_fs :: filesys
  si_schema :: schema_db
  si_db :: db

definition data_dir :: "boot_env \<Rightarrow> string" where
  "data_dir env = (if be_xdg env \<noteq> [] then be_xdg env else path_join (path_join (be_home env) ''.local'') ''share'')"

text \<open>\<^verbatim>\<open>resolveDBPath\<close> makes the directory and drops the error.\<close>

definition resolveDBPath :: "boot_env \<Rightarrow> string \<Rightarrow> filesys \<Rightarrow> filesys \<times> string" where
  "resolveDBPath env path fs =
     (if path \<noteq> [] then (fs, path)
      else let dir = path_join (data_dir env) ''uncluster'' in
        (case mkdir_all (be_euid env) (be_ino env 0) dir fs of Inl _ \<Rightarrow> fs | Inr fs1 \<Rightarrow> fs1, path_join dir ''uncluster.db''))"

definition resolveCAPath :: "boot_env \<Rightarrow> string \<Rightarrow> string" where
  "resolveCAPath env path = (if path \<noteq> [] then path else path_join (path_join (data_dir env) ''uncluster'') ''ca'')"

definition key_error_text :: "key_error \<Rightarrow> string" where
  "key_error_text e =
     (case e of KStat \<Rightarrow> ''stat'' | KNotDir \<Rightarrow> ''not a directory'' | KLooseDir \<Rightarrow> ''loose parent'' | KForeignDir \<Rightarrow> ''foreign parent''
      | KOpen \<Rightarrow> ''open'' | KFstat \<Rightarrow> ''fstat'' | KLoose \<Rightarrow> ''loose mode'' | KRead \<Rightarrow> ''read'' | KParse \<Rightarrow> ''parse private''
      | KMkdir \<Rightarrow> ''mkdir'' | KExists \<Rightarrow> ''already exists; refusing to overwrite'' | KWrite \<Rightarrow> ''write'' | KClose \<Rightarrow> ''close'')"

definition load_ca :: "boot_env \<Rightarrow> filesys \<Rightarrow> string \<Rightarrow> (key_error, string) result" where
  "load_ca env fs path = LoadPrivateFromDisk (be_parse env) (be_readable env) (be_euid env) (\<lambda>_. fs) path"

definition ensure_ca :: "boot_env \<Rightarrow> string \<Rightarrow> filesys \<Rightarrow> filesys \<times> (string, string) result" where
  "ensure_ca env path fs =
     (if be_fault env ''stat'' path then (fs, Inl ''ca stat'')
      else if os_stat fs path \<noteq> None then
        (case load_ca env fs path of
           Inl e \<Rightarrow> (fs, Inl (''existing ca: '' @ key_error_text e))
         | Inr _ \<Rightarrow> (fs, Inr ''kept existing''))
      else case be_pair_error env of
        Some e \<Rightarrow> (fs, Inl e)
      | None \<Rightarrow>
          (case WritePrivateToDisk (\<lambda>s. be_fault env s path) (be_euid env) (be_ino env 1) (be_ino env 2) path (fst (be_pair env)) fs of
             (fs1, Inl e) \<Rightarrow> (fs1, Inl (key_error_text e))
           | (fs1, Inr _) \<Rightarrow>
               (case WritePublicToDisk (\<lambda>s. be_fault env s (path @ ''.pub'')) (be_euid env) (be_ino env 3) (be_ino env 4) (path @ ''.pub'')
                       (snd (be_pair env)) fs1 of
                  (fs2, Inl e) \<Rightarrow> (fs2, Inl e)
                | (fs2, Inr _) \<Rightarrow> (fs2, Inr ''generated''))))"

definition boot_report :: "string \<Rightarrow> string \<Rightarrow> token \<Rightarrow> string \<Rightarrow> string" where
  "boot_report caStatus pub t i =
     ''[1/3] CA keypair                                 '' @ caStatus @ [end_of_line]
     @ ''[2/3] DB schema (migrations applied)            ok'' @ [end_of_line]
     @ ''[3/3] Minted caller token                        ok'' @ [end_of_line] @ [end_of_line]
     @ ''ca pubkey:'' @ [end_of_line] @ ''  '' @ pub @ [end_of_line]
     @ ''caller token (shown ONCE '' @ [CHR 0xE2, CHR 0x80, CHR 0x94] @ '' copy it now):'' @ [end_of_line]
     @ ''  '' @ token_string t @ [end_of_line] @ ''id: '' @ i @ [end_of_line]"

definition server_bootstrap :: "boot_env \<Rightarrow> string \<Rightarrow> string \<Rightarrow> string \<Rightarrow> site \<Rightarrow> site \<times> (string, string) result" where
  "server_bootstrap env dbFlag caFlag label s =
     (let fs0 = fst (resolveDBPath env dbFlag (si_fs s)); path = resolveCAPath env caFlag in
      case ensure_ca env path fs0 of
        (fs1, Inl e) \<Rightarrow> (s\<lparr>si_fs := fs1\<rparr>, Inl e)
      | (fs1, Inr caStatus) \<Rightarrow>
     (case migrate (be_mig env) (si_schema s) of
        (m, Inl e) \<Rightarrow> (s\<lparr>si_fs := fs1, si_schema := m\<rparr>, Inl e)
      | (m, Inr _) \<Rightarrow>
          let s1 = s\<lparr>si_fs := fs1, si_schema := m\<rparr> in
     (case Generate (be_idbytes env) (be_secbytes env) KindCaller of
        Inl _ \<Rightarrow> (s1, Inl ''generate token'')
      | Inr tkn \<Rightarrow>
     (case HashSecret (be_idkey env) (be_salt env) (t_secret tkn) of
        Inl _ \<Rightarrow> (s1, Inl ''hash secret'')
      | Inr hash \<Rightarrow>
     (case CreateToken (be_flt env) (be_now env) [] \<lparr>ntp_ID = t_id tkn, ntp_Kind = TokenCaller, ntp_AgentID = None,
             ntp_SecretHash = hash, ntp_Label = label, ntp_ExpiresAt = None\<rparr> (si_db s) of
        (d, Inl _) \<Rightarrow> (s1\<lparr>si_db := d\<rparr>, Inl ''create token'')
      | (d, Inr row) \<Rightarrow>
          (s1\<lparr>si_db := d\<rparr>,
           Inr (boot_report caStatus (case os_read_file (be_readable env) fs1 (path @ ''.pub'') of None \<Rightarrow> [] | Some b \<Rightarrow> b)
                  tkn (st_ID row))))))))"

text \<open>\<^verbatim>\<open>server start\<close> up to \<^verbatim>\<open>srv.Start\<close>: the warning, and the configuration the server runs with.\<close>

definition server_start :: "boot_env \<Rightarrow> string \<Rightarrow> string \<Rightarrow> site \<Rightarrow> site \<times> (string, string \<times> server_config) result" where
  "server_start env dbFlag caFlag s =
     (let fs0 = fst (resolveDBPath env dbFlag (si_fs s)); path = resolveCAPath env caFlag; s0 = s\<lparr>si_fs := fs0\<rparr>;
          serve = (\<lambda>warning cfg. case migrate (be_mig env) (si_schema s) of
             (m, Inl e) \<Rightarrow> (s0\<lparr>si_schema := m\<rparr>, Inl (''open db: '' @ e))
           | (m, Inr _) \<Rightarrow> (s0\<lparr>si_schema := m\<rparr>, Inr (warning, cfg))) in
      if be_fault env ''stat'' path then (s0, Inl ''ca stat'')
      else if os_stat fs0 path \<noteq> None then
        (case load_ca env fs0 path of
           Inl e \<Rightarrow> (s0, Inl (''ca check: '' @ key_error_text e))
         | Inr signer \<Rightarrow>
             serve [] \<lparr>cfg_CAPubkey = (case os_read_file (be_readable env) fs0 (path @ ''.pub'') of None \<Rightarrow> [] | Some b \<Rightarrow> trim_space b),
                cfg_CASigner = Some signer\<rparr>)
      else serve (''warning: no CA key at '' @ path @ '' '' @ [CHR 0xE2, CHR 0x80, CHR 0x94]
             @ '' run `uncluster server bootstrap` before issuing certs'' @ [end_of_line])
             \<lparr>cfg_CAPubkey = [], cfg_CASigner = None\<rparr>)"

section \<open>Migrations are applied once and in order\<close>

text \<open>\<open>schema_at v d\<close>: the database has seen the migrations up to \<open>v\<close>, each once, and says so.\<close>

definition schema_at :: "nat \<Rightarrow> schema_db \<Rightarrow> bool" where
  "schema_at v d \<longleftrightarrow> md_applied d = [2 ..< v + 1] \<and> v < migration_count
     \<and> (md_rows d = Some [v] \<or> v = 0 \<and> md_rows d \<in> {None, Some []}) \<and> (v = 0 \<or> 2 \<le> v)"

lemma migrate_one_at:
  assumes "md_applied d = [2 ..< i]" "md_rows d = Some [r]" "2 \<le> i" "i < migration_count" "migrate_one flt i d = (d', x)"
  shows "d' = d \<or> x = Inr () \<and> schema_at i d'" "x = Inr () \<longrightarrow> schema_at i d'"
  using assms by (auto simp: migrate_one_def bump_rows_def schema_at_def split: option.splits)

lemma migrate_loop_at:
  assumes "schema_at v d" "md_rows d = Some [v]" "i = (if v = 0 then 2 else v + 1)" "i \<le> migration_count"
    "migrate_loop flt [i ..< migration_count] d = (d', x)"
  shows "\<exists>v' \<ge> v. schema_at v' d' \<and> (x = Inr () \<longrightarrow> (v' = migration_count - 1 \<or> migration_count \<le> i \<and> v' = v))"
  using assms
proof (induction "migration_count - i" arbitrary: i v d)
  case 0
  then show ?case by (intro exI [of _ v]) auto
next
  case (Suc n)
  then have lt: "i < migration_count" and i2: "2 \<le> i" by (auto simp: schema_at_def split: if_splits)
  then have up: "[i ..< migration_count] = i # [i + 1 ..< migration_count]" by (simp add: upt_conv_Cons)
  have ap: "md_applied d = [2 ..< i]" using Suc.prems(1,3) by (auto simp: schema_at_def)
  obtain d1 y where one: "migrate_one flt i d = (d1, y)" by (cases "migrate_one flt i d")
  note at = migrate_one_at [OF ap Suc.prems(2) i2 lt one]
  show ?case
  proof (cases y)
    case (Inl e)
    then have "d' = d" "x = Inl e" using Suc.prems(5) up one i2 at(1) by auto
    then show ?thesis using Suc.prems(1) by blast
  next
    case (Inr u)
    then have s: "schema_at i d1" using at(2) by simp
    then have r: "md_rows d1 = Some [i]" using i2 by (auto simp: schema_at_def)
    have l: "migrate_loop flt [i + 1 ..< migration_count] d1 = (d', x)" using Suc.prems(5) up one i2 Inr by simp
    have n: "n = migration_count - (i + 1)" "i + 1 = (if i = 0 then 2 else i + 1)" "i + 1 \<le> migration_count"
      using Suc.hyps(2) i2 lt by simp_all
    obtain v' where "v' \<ge> i" "schema_at v' d'" "x = Inr () \<longrightarrow> (v' = migration_count - 1 \<or> migration_count \<le> i + 1 \<and> v' = i)"
      using Suc.hyps(1) [OF n(1) s r n(2,3) l] by blast
    moreover have "v \<le> i" using Suc.prems(3) by (auto split: if_splits)
    ultimately show ?thesis using lt by (intro exI [of _ v']) auto
  qed
qed

lemma migrate_eq:
  assumes "rows = (case md_rows d of None \<Rightarrow> [] | Some rows \<Rightarrow> rows)"
  shows "migrate flt d =
     (case flt ''create'' 1 of
        Some e \<Rightarrow> (d, Inl (''create schema_version: '' @ e))
      | None \<Rightarrow>
     (case flt ''seed'' 0 of
        Some e \<Rightarrow> (d\<lparr>md_rows := Some rows\<rparr>, Inl (''seed schema_version: '' @ e))
      | None \<Rightarrow>
     (case flt ''read'' 0 of
        Some e \<Rightarrow> (d\<lparr>md_rows := Some (if rows = [] then [0] else rows)\<rparr>, Inl (''read schema_version: '' @ e))
      | None \<Rightarrow> migrate_loop flt [current_version (if rows = [] then [0] else rows) + 1 ..< migration_count]
                 (d\<lparr>md_rows := Some (if rows = [] then [0] else rows)\<rparr>))))"
  unfolding migrate_def Let_def assms
  by (cases "flt ''create'' 1"; cases "flt ''seed'' 0"; cases "flt ''read'' 0") simp_all

lemma migrate_outcomes:
  assumes "migrate flt d = (d', x)" "rows = (case md_rows d of None \<Rightarrow> [] | Some rows \<Rightarrow> rows)"
    "(if rows = [] then [0] else rows) = [v]"
  shows "(d' = d \<or> d' = d\<lparr>md_rows := Some rows\<rparr> \<or> d' = d\<lparr>md_rows := Some [v]\<rparr>) \<and> x \<noteq> Inr ()
    \<or> migrate_loop flt [v + 1 ..< migration_count] (d\<lparr>md_rows := Some [v]\<rparr>) = (d', x)"
  using assms(1) unfolding migrate_eq [OF assms(2)] assms(3)
  by (cases "flt ''create'' 1"; cases "flt ''seed'' 0"; cases "flt ''read'' 0") (auto simp: current_version_def)

lemma migrate_at:
  assumes s: "schema_at v d" and m: "migrate flt d = (d', x)"
  shows "\<exists>v' \<ge> v. schema_at v' d' \<and> (x = Inr () \<longrightarrow> v' = migration_count - 1)"
proof -
  let ?rows = "case md_rows d of None \<Rightarrow> [] | Some rows \<Rightarrow> rows"
  have c: "migration_count = 33" by (simp add: migration_count_def)
  have r: "?rows = [v] \<or> v = 0 \<and> ?rows = []" using s by (auto simp: schema_at_def)
  have s1: "schema_at v (d\<lparr>md_rows := Some ?rows\<rparr>)" "schema_at v (d\<lparr>md_rows := Some [v]\<rparr>)"
    using s r by (auto simp: schema_at_def)
  have rr: "(if ?rows = [] then [0] else ?rows) = [v]" using r by auto
  have "migrate_loop flt [v + 1 ..< migration_count] d = migrate_loop flt [(if v = 0 then 2 else v + 1) ..< migration_count] d" for d
  proof (cases "v = 0")
    case True
    have "1 < migration_count" by (simp add: c)
    then have "[1 ..< migration_count] = 1 # [2 ..< migration_count]" by (metis upt_conv_Cons Suc_1)
    with True show ?thesis by simp
  qed simp
  then consider "d' = d \<and> x \<noteq> Inr ()" | "d' = d\<lparr>md_rows := Some ?rows\<rparr> \<and> x \<noteq> Inr ()"
    | "d' = d\<lparr>md_rows := Some [v]\<rparr> \<and> x \<noteq> Inr ()"
    | "migrate_loop flt [(if v = 0 then 2 else v + 1) ..< migration_count] (d\<lparr>md_rows := Some [v]\<rparr>) = (d', x)"
    using migrate_outcomes [OF m refl rr] by metis
  then show ?thesis
  proof cases
    case 4
    have le: "(if v = 0 then 2 else v + 1) \<le> migration_count" using s c by (auto simp: schema_at_def)
    obtain v' where v': "v' \<ge> v" "schema_at v' d'"
      "x = Inr () \<longrightarrow> (v' = migration_count - 1 \<or> migration_count \<le> (if v = 0 then 2 else v + 1) \<and> v' = v)"
      using migrate_loop_at [OF s1(2) _ refl le 4] by auto
    have "v' = migration_count - 1" if "x = Inr ()"
      using v'(3) that le c by (auto split: if_splits)
    with v' show ?thesis by blast
  next
    case 1
    then show ?thesis using s by auto
  next
    case 2
    then show ?thesis using s1(1) by auto
  next
    case 3
    then show ?thesis using s1(2) by auto
  qed
qed

text \<open>A start of the control plane, whichever statements fail.\<close>

inductive start_step :: "schema_db \<Rightarrow> schema_db \<Rightarrow> bool" where
  "start_step d (fst (migrate flt d))"

lemma schema_at_grows:
  assumes "schema_at v d" "schema_at v' d'" "v \<le> v'"
  shows "\<exists>later. md_applied d' = md_applied d @ later"
proof (cases "v = 0")
  case True
  with assms(1) show ?thesis by (simp add: schema_at_def)
next
  case False
  with assms have "[2 ..< v' + 1] = [2 ..< v + 1] @ [v + 1 ..< v' + 1]"
    using upt_add_eq_append [of 2 "v + 1" "v' - v"] by (auto simp: schema_at_def)
  with assms(1,2) show ?thesis by (simp add: schema_at_def)
qed

lemma start_step_at:
  assumes "schema_at v d" "start_step d d'"
  shows "(\<exists>v'. schema_at v' d') \<and> (\<exists>later. md_applied d' = md_applied d @ later)"
proof -
  obtain flt x where m: "migrate flt d = (d', x)" using assms(2) by (auto elim!: start_step.cases) (metis prod.collapse)
  obtain v' where "v' \<ge> v" "schema_at v' d'" using migrate_at [OF assms(1) m] by blast
  then show ?thesis using schema_at_grows [OF assms(1)] by blast
qed

interpretation starts: monotone_system "\<lambda>d. d = fresh_schema" start_step "\<lambda>d. \<exists>v. schema_at v d"
    "\<lambda>d d'. \<exists>later. md_applied d' = md_applied d @ later"
proof unfold_locales
  show "\<exists>v. schema_at v d" if "d = fresh_schema" for d
    using that by (intro exI [of _ 0]) (simp add: schema_at_def fresh_schema_def migration_count_def)
qed (use start_step_at in \<open>auto\<close>)

text \<open>C21: However often the control plane is started and whichever statements fail, the database has always
  seen a beginning of the list of migrations, each of them exactly once and in order, and its version
  says which; later starts only add to it; and a start that succeeds has seen them all.\<close>

theorem migrations_in_order:
  assumes "start_step\<^sup>*\<^sup>* fresh_schema d" "start_step\<^sup>*\<^sup>* d e"
  shows "(\<exists>v. schema_at v d) \<and> (\<exists>later. md_applied e = md_applied d @ later)
     \<and> (\<forall>flt e'. migrate flt e = (e', Inr ()) \<longrightarrow> md_applied e' = [2 ..< migration_count])"
proof -
  have e: "\<exists>v. schema_at v e" using starts.inv_reachable [OF refl] assms by (meson rtranclp_trans)
  have "md_applied e' = [2 ..< migration_count]" if "migrate flt e = (e', Inr ())" for flt e'
  proof -
    have "schema_at (migration_count - 1) e'" using migrate_at [OF _ that] e by blast
    then have "md_applied e' = [2 ..< migration_count - 1 + 1]" unfolding schema_at_def by (elim conjE)
    moreover have "migration_count - 1 + 1 = migration_count" by (simp add: migration_count_def)
    ultimately show ?thesis by (simp only:)
  qed
  then show ?thesis
    using starts.inv_reachable [OF refl assms(1)] starts.rel_reachable [OF refl assms] by blast
qed

theorem migrations_in_order_witness:
  "\<exists>v. schema_at v (fst (migrate (\<lambda>s i. if s = ''apply'' \<and> i = 20 then Some ''disk full'' else None) fresh_schema))"
proof -
  have "start_step\<^sup>*\<^sup>* fresh_schema (fst (migrate (\<lambda>s i. if s = ''apply'' \<and> i = 20 then Some ''disk full'' else None) fresh_schema))"
    by (intro r_into_rtranclp start_step.intros)
  from migrations_in_order [OF this rtranclp.rtrancl_refl] show ?thesis by blast
qed

text \<open>The state a comment of \<open>migrate\<close> means to heal, a version table with several rows, is not healed: the
  update gives two rows the same key, so the next migration fails at every start.\<close>

theorem several_rows_not_healed:
  assumes "md_rows d = Some rows" "length rows > 1" "1 \<le> current_version rows" "current_version rows + 1 < migration_count"
    "\<And>s i. flt s i = None"
  shows "\<exists>e. migrate flt d = (d, Inl e)"
proof -
  have "[current_version rows + 1 ..< migration_count] = (current_version rows + 1) # [current_version rows + 2 ..< migration_count]"
    using assms(4) by (simp add: upt_conv_Cons)
  moreover have "rows \<noteq> []" using assms(2) by auto
  moreover have "d\<lparr>md_rows := Some rows\<rparr> = d" using assms(1) by simp
  ultimately show ?thesis
    using assms by (simp add: migrate_def Let_def migrate_one_def bump_rows_def)
qed

section \<open>Endpoints\<close>

text \<open>The last override of a subnet decides; without one, detection does.\<close>

theorem last_override_decides:
  assumes "CHR ''@'' \<notin> set subnet" "\<forall>ov \<in> set later. \<not> has_prefix (subnet @ ''@'') ov"
  shows "DetectEndpoints ts lan (earlier @ (subnet @ ''@'' @ addr) # later) subnet = (if addr = [] then None else Some addr)"
proof -
  have k: "apply_override ov m subnet = m subnet" if "\<not> has_prefix (subnet @ ''@'') ov" for ov m
  proof -
    have "ov = s @ CHR ''@'' # a" if "split_n 1 (CHR ''@'') ov = [s, a]" for s a
      using split_n_join [of "CHR ''@''" 1 ov] that by simp
    then show ?thesis using that by (auto simp: apply_override_def has_prefix_def split: list.splits)
  qed
  have "fold apply_override later m subnet = m subnet" for m
    using assms(2) k by (induction later arbitrary: m) auto
  moreover have "split_n 1 (CHR ''@'') (subnet @ CHR ''@'' # addr) = [subnet, addr]"
    using split_n_field [OF assms(1), of 0 addr] by simp
  ultimately show ?thesis by (simp add: DetectEndpoints_def apply_override_def)
qed

section \<open>What bootstrapping a site promises\<close>

lemma bootstrap_okD:
  assumes "server_bootstrap env dbFlag caFlag label s = (s', Inr out)"
  shows "\<exists>caStatus pub t hash row. Generate (be_idbytes env) (be_secbytes env) KindCaller = Inr t
     \<and> HashSecret (be_idkey env) (be_salt env) (t_secret t) = Inr hash
     \<and> CreateToken (be_flt env) (be_now env) [] \<lparr>ntp_ID = t_id t, ntp_Kind = TokenCaller, ntp_AgentID = None,
             ntp_SecretHash = hash, ntp_Label = label, ntp_ExpiresAt = None\<rparr> (si_db s) = (si_db s', Inr row)
     \<and> out = boot_report caStatus pub t (st_ID row)"
  using assms unfolding server_bootstrap_def Let_def
  by (auto split: prod.splits sum.splits)

lemma CreateToken_InrD:
  assumes "CreateToken flt now u p d = (d', Inr row)" "ntp_ID p \<noteq> []" "ntp_ExpiresAt p = None"
  shows "\<exists>r. row_get tr_id (ntp_ID p) (db_tokens d') = Some r \<and> tr_kind r = ntp_Kind p \<and> tr_agent_id r = ntp_AgentID p
     \<and> tr_secret_hash r = ntp_SecretHash p \<and> tr_expires_at r = None \<and> tr_used_at r = None \<and> tr_revoked_at r = None"
  using assms by (auto simp: CreateToken_def insert_token_def Let_def row_get_append split: if_splits prod.splits sum.splits)

lemma encoded_printable: "\<forall>c \<in> set (b32_encode x). (32::nat) < of_char c \<and> (of_char c :: nat) < 127"
proof -
  have "\<forall>c \<in> set b32_alphabet. (32::nat) < of_char c \<and> (of_char c :: nat) < 127"
    by (simp add: b32_alphabet_def)
  then show ?thesis using b32_encode_alphabet [of x] by blast
qed

lemma requireAuth_caller:
  assumes "bearerFrom hdr = raw" "raw \<noteq> []" "Parse raw = Inr t" "\<And>k q. \<not> re_flt renv k q"
    "row_get tr_id (t_id t) (db_tokens d) = Some r" "tr_kind r = TokenCaller" "t_kind t = TokenCaller"
    "tr_expires_at r = None" "tr_revoked_at r = None" "VerifySecret (lb_idkey lb) (t_secret t) (tr_secret_hash r) = Inr True"
  shows "requireAuth lb renv TokenCaller hdr d = Inr (scanToken r, None)"
  using assms by (simp add: requireAuth_def Let_def GetTokenByID_def scanToken_def token_kind_defs)

text \<open>C20: The caller token a bootstrap prints is one the server accepts from then on: a request that carries it
  is authenticated as that token's, whichever bytes the random source gave.\<close>

theorem bootstrap_token_authenticates:
  assumes "server_bootstrap env dbFlag caFlag label s = (s', Inr out)"
    "be_idbytes env = Some ib" "length ib = 10" "be_secbytes env = Some sb" "length sb = 32"
    "\<forall>secret salt key. be_idkey env secret salt 3 65536 2 32 = Some key \<longrightarrow> length key = 32"
    "lb_idkey lb = be_idkey env" "\<And>k q. \<not> re_flt renv k q"
  shows "\<exists>raw row. (\<exists>before behind. out = before @ raw @ behind) \<and> Parse raw = Inr \<lparr>t_kind = KindCaller, t_id = b32_encode ib, t_secret = b32_encode sb\<rparr>
     \<and> requireAuth lb renv TokenCaller (''Bearer '' @ raw) (si_db s') = Inr (row, None) \<and> st_ID row = b32_encode ib"
proof -
  obtain caStatus pub t hash row where b: "Generate (Some ib) (Some sb) KindCaller = Inr t"
    "HashSecret (be_idkey env) (be_salt env) (t_secret t) = Inr hash"
    "CreateToken (be_flt env) (be_now env) [] \<lparr>ntp_ID = t_id t, ntp_Kind = TokenCaller, ntp_AgentID = None,
             ntp_SecretHash = hash, ntp_Label = label, ntp_ExpiresAt = None\<rparr> (si_db s) = (si_db s', Inr row)"
    "out = boot_report caStatus pub t (st_ID row)"
    using bootstrap_okD [OF assms(1)] unfolding assms(2,4) by auto
  have t: "t = \<lparr>t_kind = KindCaller, t_id = b32_encode ib, t_secret = b32_encode sb\<rparr>" "validKind KindCaller"
    using Generate_InrD [OF b(1)] by auto
  obtain sl key where k: "be_salt env = Some sl" "be_idkey env (b32_encode sb) sl 3 65536 2 32 = Some key"
    using b(2) t(1) by (auto simp: HashSecret_def split: option.splits)
  have v: "VerifySecret (be_idkey env) (b32_encode sb) hash = Inr True"
    using VerifySecret_HashSecret [where idkey = "be_idkey env" and secret = "b32_encode sb" and salt = sl and key = key
        and h = hash and secret' = "b32_encode sb"] assms(6) k(2) b(2) t(1) k by simp
  let ?raw = "token_string t"
  have raw: "?raw = ''uct_'' @ KindCaller @ ''_'' @ b32_encode ib @ ''_'' @ b32_encode sb"
    by (simp add: token_string_def t(1))
  have p: "Parse ?raw = Inr t" by (simp only: raw) (simp only: t(1) Parse_encoded [OF t(2) assms(3,5)])
  have "\<forall>c \<in> set ?raw. (32::nat) < of_char c \<and> (of_char c :: nat) < 127"
    unfolding raw set_append ball_Un by (intro conjI encoded_printable) (simp_all add: kind_defs)
  then have h: "bearerFrom (''Bearer '' @ ?raw) = ?raw" by (rule bearerFrom_printable)
  have ne: "t_id t \<noteq> []" using length_b32_encode [of ib] assms(3) t(1) by auto
  obtain r where r: "row_get tr_id (t_id t) (db_tokens (si_db s')) = Some r" "tr_kind r = TokenCaller" "tr_agent_id r = None"
     "tr_secret_hash r = hash" "tr_expires_at r = None" "tr_used_at r = None" "tr_revoked_at r = None"
    using CreateToken_InrD [OF b(3)] ne by auto
  have "requireAuth lb renv TokenCaller (''Bearer '' @ ?raw) (si_db s') = Inr (scanToken r, None)"
    by (rule requireAuth_caller [OF h _ p assms(8) r(1,2) _ r(5,7)])
      (simp_all add: token_string_def t(1) assms(7) r(4) v token_kind_defs kind_defs)
  moreover have "st_ID (scanToken r) = b32_encode ib" using row_get_SomeD [OF r(1)] t(1) by (simp add: scanToken_def)
  moreover have "\<exists>before behind. out = before @ ?raw @ behind"
    unfolding b(4) boot_report_def by (metis append_assoc)
  ultimately show ?thesis using p t(1) by blast
qed

text \<open>No bootstrap touches a certificate authority's key that is there: whatever is at its path keeps its
  entry and every byte, however the rest of the bootstrap goes.\<close>

theorem bootstrap_keeps_key:
  assumes "dbFlag \<noteq> []" "os_stat (si_fs s) (resolveCAPath env caFlag) = Some nd"
    "server_bootstrap env dbFlag caFlag label s = (s', x)"
  shows "si_fs s' = si_fs s \<and> (\<not> isl x \<longrightarrow> (\<exists>k. load_ca env (si_fs s) (resolveCAPath env caFlag) = Inr k))"
proof -
  have "fst (ensure_ca env (resolveCAPath env caFlag) (si_fs s)) = si_fs s
     \<and> (\<not> isl (snd (ensure_ca env (resolveCAPath env caFlag) (si_fs s))) \<longrightarrow> (\<exists>k. load_ca env (si_fs s) (resolveCAPath env caFlag) = Inr k))"
    using assms(2) by (auto simp: ensure_ca_def split: sum.splits)
  then show ?thesis
    using assms(1,3) unfolding server_bootstrap_def Let_def resolveDBPath_def
    by (auto split: prod.splits sum.splits)
qed

lemma no_file: "os_stat fs p = None \<Longrightarrow> os_read_file readable fs p = None"
  by (simp add: os_read_file_def)

lemma server_start_key:
  assumes "dbFlag \<noteq> []" "os_stat (si_fs s) (resolveCAPath env caFlag) \<noteq> None" "server_start env dbFlag caFlag s = (s', Inr (w, cfg))"
  shows "w = [] \<and> (\<exists>k. cfg = \<lparr>cfg_CAPubkey = (case os_read_file (be_readable env) (si_fs s) (resolveCAPath env caFlag @ ''.pub'') of
     None \<Rightarrow> [] | Some b \<Rightarrow> trim_space b), cfg_CASigner = Some k\<rparr>)"
  using assms
  by (cases "be_fault env ''stat'' (resolveCAPath env caFlag)"; cases "load_ca env (si_fs s) (resolveCAPath env caFlag)";
      cases "snd (migrate (be_mig env) (si_schema s))"; cases "migrate (be_mig env) (si_schema s)")
    (auto simp: server_start_def Let_def resolveDBPath_def)

text \<open>A public key that is gone stays gone: a bootstrap keeps the private key without writing the other half
  again, and the server then signs certificates while it hands every enrolling agent an empty authority.\<close>

theorem lost_public_key:
  assumes "dbFlag \<noteq> []" "resolveCAPath env caFlag = path" "os_stat (si_fs s) path = Some nd" "os_stat (si_fs s) (path @ ''.pub'') = None"
    "server_bootstrap env dbFlag caFlag label s = (s', Inr out)" "server_start env dbFlag caFlag s' = (s'', Inr (w, cfg))"
  shows "os_stat (si_fs s') (path @ ''.pub'') = None \<and> w = [] \<and> cfg_CAPubkey cfg = [] \<and> cfg_CASigner cfg \<noteq> None"
proof -
  have "si_fs s' = si_fs s"
    using assms(1-5) unfolding server_bootstrap_def Let_def resolveDBPath_def ensure_ca_def
    by (auto split: prod.splits sum.splits if_splits)
  then have "w = [] \<and> (\<exists>k. cfg = \<lparr>cfg_CAPubkey = [], cfg_CASigner = Some k\<rparr>)"
    using server_start_key [OF assms(1) _ assms(6)] assms(2,3) no_file [OF assms(4)] by auto
  with \<open>si_fs s' = si_fs s\<close> show ?thesis using assms(4) by auto
qed

section \<open>A bootstrap of a site that has a key\<close>

definition demo_boot :: boot_env where
  "demo_boot = \<lparr>be_xdg = ''/k'', be_home = ''/h'', be_euid = 0, be_ino = (\<lambda>n. 20 + n), be_fault = (\<lambda>_ _. False), be_pair = (''PEM'', ''PUB''),
     be_pair_error = None, be_parse = Some, be_readable = (\<lambda>_. True), be_mig = (\<lambda>_ _. None), be_flt = no_fault, be_now = 0,
     be_idkey = (\<lambda>pw sl t m p n. Some (take 32 (pw @ replicate 32 (CHR ''x'')))), be_idbytes = Some ''0123456789'',
     be_secbytes = Some ''0123456789abcdef0123456789abcdef'', be_salt = Some ''salt''\<rparr>"

definition demo_site :: site where
  "demo_site = \<lparr>si_fs = demo_fs', si_schema = \<lparr>md_rows = Some [32], md_applied = [2 ..< 33]\<rparr>, si_db = empty_db\<rparr>"

lemma demo_load: "ensure_ca demo_boot ''/k/ca'' demo_fs' = (demo_fs', Inr ''kept existing'')"
  by (simp add: ensure_ca_def load_ca_def demo_boot_def LoadPrivateFromDisk_def demo_fs'_def demo_write checkParentDirSafe_def parentDir_k
        os_stat_def follow_mono_entry openReadOnlyNoFollow_def checkFileModeFromFD_def checkFileACL_def)

lemma demo_bootstrap: "\<exists>s' out. server_bootstrap demo_boot ''/d'' ''/k/ca'' ''l'' demo_site = (s', Inr out)"
proof -
  have m: "migrate (be_mig demo_boot) (si_schema demo_site) = (si_schema demo_site, Inr ())"
    by (simp add: migrate_def demo_boot_def demo_site_def current_version_def migration_count_def Let_def)
  obtain t where t: "Generate (be_idbytes demo_boot) (be_secbytes demo_boot) KindCaller = Inr t"
    by (simp add: Generate_def demo_boot_def randBase32_def validKind_def kind_defs del: b32_encode.simps)
  obtain hash where h: "HashSecret (be_idkey demo_boot) (be_salt demo_boot) (t_secret t) = Inr hash"
    by (simp add: HashSecret_def demo_boot_def del: b32_encode.simps)
  have ne: "t_id t \<noteq> []"
    using Generate_InrD [OF t] length_b32_encode [of "''0123456789''"] by (auto simp: demo_boot_def simp del: b32_encode.simps)
  have c: "\<exists>d row. CreateToken (be_flt demo_boot) (be_now demo_boot) [] \<lparr>ntp_ID = t_id t, ntp_Kind = TokenCaller, ntp_AgentID = None,
       ntp_SecretHash = hash, ntp_Label = ''l'', ntp_ExpiresAt = None\<rparr> (si_db demo_site) = (d, Inr row)"
    by (simp add: CreateToken_def insert_token_def Let_def demo_boot_def demo_site_def empty_db_def no_fault_def ne agent_ref_ok_def
        GetTokenByID_def)
  have r: "resolveCAPath demo_boot ''/k/ca'' = ''/k/ca''" "resolveDBPath demo_boot ''/d'' (si_fs demo_site) = (demo_fs', ''/d'')"
    by (simp_all add: resolveCAPath_def resolveDBPath_def demo_site_def)
  show ?thesis
    using c unfolding server_bootstrap_def Let_def r fst_conv demo_load m t h
    by (elim exE) (simp add: h del: One_nat_def)
qed

theorem bootstrap_token_authenticates_witness:
  "\<exists>s' raw row. requireAuth demo_libs demo_env TokenCaller (''Bearer '' @ raw) (si_db s') = Inr (row, None)
     \<and> st_ID row = b32_encode ''0123456789'' \<and> s' = fst (server_bootstrap demo_boot ''/d'' ''/k/ca'' ''l'' demo_site)"
proof -
  obtain s' out where b: "server_bootstrap demo_boot ''/d'' ''/k/ca'' ''l'' demo_site = (s', Inr out)"
    using demo_bootstrap by blast
  have k: "\<forall>secret salt key. be_idkey demo_boot secret salt 3 65536 2 32 = Some key \<longrightarrow> length key = 32"
    by (auto simp: demo_boot_def)
  have i: "lb_idkey demo_libs = be_idkey demo_boot" by (simp add: demo_libs_def demo_idkey_def demo_boot_def)
  have f: "\<not> re_flt demo_env j q" for j q by (simp add: demo_env_def no_fault_def)
  have d: "be_idbytes demo_boot = Some ''0123456789''" "be_secbytes demo_boot = Some ''0123456789abcdef0123456789abcdef''"
    by (simp_all add: demo_boot_def)
  have l: "length ''0123456789'' = 10" "length ''0123456789abcdef0123456789abcdef'' = 32" by simp_all
  obtain raw row where "requireAuth demo_libs demo_env TokenCaller (''Bearer '' @ raw) (si_db s') = Inr (row, None)"
    "st_ID row = b32_encode ''0123456789''"
    using bootstrap_token_authenticates [OF b d(1) l(1) d(2) l(2) k i f] by (elim exE conjE)
  moreover have "s' = fst (server_bootstrap demo_boot ''/d'' ''/k/ca'' ''l'' demo_site)" using b by simp
  ultimately show ?thesis by blast
qed

end
