(* ===== verification/Spec2Isabelle.thy ===== *)
theory Spec2Isabelle
  imports Convergence Self_Update Cert_Authority Writer_Loop Validate_Run Install_Progress Install_Darwin Config_Wizard
    Installer_Windows_Theorems Bootstrap
begin

text \<open>
  Uncluster grants SSH access without keys on the hosts. A control plane keeps agents, callers and
  grants in a database and signs short-lived certificates. An agent on every host enrols with a join
  token, sends heartbeats, receives the policy of its host and writes one principals file per login
  name, which sshd reads to decide who may log in. The agent's binary updates itself under a
  launcher, and a validation command checks an installation.

  \<^bold>\<open>Theories and sources\<close> (paths below \<^verbatim>\<open>src/internal\<close>). Definitions carry the names of the Go
  functions; a Go struct is a record, its fields with a short prefix.

  \<^item> \<open>Prelude\<close>: the used part of Go's standard library (strings, decimal numbers, 64-bit wrap-around,
    UTF-8), tables as lists of rows, and the locales \<open>key_preserving\<close> (an update of rows that keeps
    their key), \<open>invariant_system\<close> (an invariant every step keeps) and \<open>monotone_system\<close> (a relation
    between any state and a later one).
  \<^item> \<open>Tokens\<close>: \<^verbatim>\<open>token/\<close>. \<open>Policy_Hash\<close>: \<^verbatim>\<open>policyhash/\<close>. \<open>Api_Types\<close>: \<^verbatim>\<open>api/\<close>.
  \<^item> \<open>Store\<close>, \<open>Store_Policy\<close>, \<open>Store_Theorems\<close>: \<^verbatim>\<open>store/\<close>. A database is a record of tables, a method
    a function of it with an oracle that says which statement fails; \<open>store_step\<close> is one call.
    \<open>db_change\<close> is the abstract system the calls refine, with the invariant \<open>db_wf\<close> (unique keys,
    references, and each stored policy hash is the hash of the grants).
  \<^item> \<open>Cert_Authority\<close>: \<^verbatim>\<open>ca/\<close>, the certificate that is built and the checks around the key file on Unix.
  \<^item> \<open>Server\<close>, \<open>Server_Theorems\<close>, \<open>Server_Issuance\<close>, \<open>Server_Enrolment\<close>: \<^verbatim>\<open>server/\<close>. \<open>serve\<close> is one
    request; its environment gives clock readings, random bytes and failing statements.
    \<open>server_step\<close> is a request with any environment, so the theorems on histories hold under every
    sequence of requests and failures.
  \<^item> \<open>Files\<close>: one directory with its system calls, each of which may fail, and the history of the
    directory's contents that a concurrent reader may see.
  \<^item> \<open>Agent_Policy\<close>, \<open>Agent_Policy_Theorems\<close>: \<^verbatim>\<open>agent/policy*.go\<close> and the reader
    \<^verbatim>\<open>principalsFileContent\<close> in \<^verbatim>\<open>cli/agent_cmd.go\<close> that sshd runs.
  \<^item> \<open>Agent_Loop\<close>: \<^verbatim>\<open>agent/agent.go\<close>, \<^verbatim>\<open>http.go\<close>. \<open>agent_step\<close> interleaves the heartbeat goroutine and
    the apply worker over the one-place channel between them.
  \<^item> \<open>Convergence\<close>: control plane and agent together, from a row of the ACL to what sshd is told.
  \<^item> \<open>Principals_Writer\<close>, \<open>Writer_Loop\<close>: the Windows variant (\<^verbatim>\<open>agent/principalswriter*.go\<close>,
    \<^verbatim>\<open>policy_apply_windows.go\<close>), where the agent hands the policy to a privileged writer through a
    spool directory and polls for its answer. \<open>run_step\<close> interleaves the writer's loop with an agent that
    may write anything.
  \<^item> \<open>Payload_Store\<close>, \<open>Launcher\<close>, \<open>Self_Update\<close>: \<^verbatim>\<open>agent/payloadstore.go\<close>, \<^verbatim>\<open>launcher.go\<close>,
    \<^verbatim>\<open>healthmarker.go\<close>, \<^verbatim>\<open>selfupdate*.go\<close>, \<^verbatim>\<open>updatehost.go\<close>. \<open>launch_step\<close> interleaves the launcher's loop
    with the updates of the payload it supervises.
  \<^item> \<open>Redact\<close>, \<open>Validate_Lock\<close>, \<open>Validate_Checks\<close>, \<open>Validate_Run\<close>: \<^verbatim>\<open>validate/\<close> and
    \<^verbatim>\<open>cli/validate_cmd.go\<close>. \<open>lock_step\<close> interleaves the system calls of any number of processes on
    the lock file, with crashes.
  \<^item> \<open>Sshd_Config\<close>: \<^verbatim>\<open>gatekeeper/sshdconfig.go\<close> and the drop-in texts of \<^verbatim>\<open>gatekeeper.go\<close>: the managed
    block in the sshd configuration, from its insertion to its removal.
  \<^item> \<open>Doctor\<close>: \<^verbatim>\<open>gatekeeper/doctor_unix.go\<close>, \<^verbatim>\<open>doctor_perms_unix.go\<close>, \<^verbatim>\<open>health.go\<close>, \<^verbatim>\<open>fulldoctor.go\<close>,
    \<^verbatim>\<open>install_drift.go\<close>. What the host answers to a check is a record (\<open>probe\<close>); a check is a function
    of it.
  \<^item> \<open>Installer\<close>: \<^verbatim>\<open>gatekeeper/install_unix.go\<close>, \<^verbatim>\<open>install_launchd_darwin.go\<close>, \<^verbatim>\<open>service_unix.go\<close> and the
    system configuration of \<^verbatim>\<open>agent/config.go\<close>. A \<open>host\<close> holds inodes by path and the log of the
    commands that ran; a step (\<open>inst\<close>) returns the changed host and an error or success.
    \<open>Installer_Steps\<close> says for every step which paths it may change and which commands it may run
    (\<open>framed\<close>), \<open>Install_Doctor\<close> what a successful installation leaves and that the doctor accepts
    it, \<open>Install_Progress\<close> that an installation in which nothing fails reaches its end, and
    \<open>Install_Darwin\<close> the choice of account identifiers on macOS.
  \<^item> \<open>Windows_Acl\<close>, \<open>Windows_Acl_Theorems\<close>: the access lists of Windows (\<^verbatim>\<open>gatekeeper/doctor_acl*.go\<close>, the
    lists of \<^verbatim>\<open>install_principalswriter_windows.go\<close>, \<^verbatim>\<open>agent/*_acl_windows.go\<close>, \<^verbatim>\<open>ca/fileacl_windows.go\<close>,
    \<^verbatim>\<open>cmd/uncluster/agent_run_acl_windows.go\<close>): rights are 32-bit masks, \<open>granted\<close> is the documented
    evaluation of a list for a process. \<open>documented_acls\<close> and \<open>accounts\<close> state what is assumed of the
    system's calls.
  \<^item> \<open>Installer_Windows\<close>, \<open>Installer_Windows_Theorems\<close>: \<^verbatim>\<open>gatekeeper/install_windows.go\<close>,
    \<^verbatim>\<open>install_principalswriter_windows.go\<close>, \<^verbatim>\<open>service_windows.go\<close>, \<^verbatim>\<open>doctor_windows.go\<close> and
    \<^verbatim>\<open>cli/deprovision_cleanup_windows.go\<close> over the host of \<open>Installer\<close> with a descriptor for each path.
  \<^item> \<open>Cli_Client\<close>: \<^verbatim>\<open>cli/controlplane_client.go\<close>, \<^verbatim>\<open>httpclient.go\<close> and the operator's commands. A call is a
    function of a world; \<open>control_plane\<close> takes the server of \<open>serve\<close> as that world, so a command is
    followed from its arguments to the database. \<open>Cli_Agent\<close>: the commands on the agent's machine, the
    configuration files and \<^verbatim>\<open>ssh\<close> (\<^verbatim>\<open>cli/agent_cmd.go\<close>, \<^verbatim>\<open>config_cmd.go\<close>, \<^verbatim>\<open>ssh_cmd.go\<close>, \<^verbatim>\<open>tokenio.go\<close>,
    \<^verbatim>\<open>agent/config.go\<close>) over the host of \<open>Installer\<close>; \<open>Config_Wizard\<close>: the interactive set-up, with
    standard input as the list of what the reads return.
  \<^item> \<open>Bootstrap\<close>: the migrations of the database (\<^verbatim>\<open>store/migrations.go\<close>, \<open>migrate\<close> in \<^verbatim>\<open>store/sqlite.go\<close>; a
    migration is its index, \<open>start_step\<close> one start), \<^verbatim>\<open>server bootstrap\<close> and \<^verbatim>\<open>server start\<close> of
    \<^verbatim>\<open>cli/server_cmd.go\<close> over the file model of \<open>Cert_Authority\<close>, and \<^verbatim>\<open>agent/endpoints.go\<close>.

  \<^bold>\<open>What the lemmas show.\<close> The store's lemmas give the invariant of every reachable database and
  what each method does on every branch; the server's lemmas reduce a request to store calls, so
  the invariants carry over, and follow a token or an agent through any history. The lemmas of the
  policy theories describe every outcome of an apply and every intermediate directory; the loop's
  invariant shows that the newest policy is not lost. \<open>Convergence\<close> joins both sides. The payload
  and launcher lemmas show that the current pointer always leads to a staged binary. The validation
  lemmas show what a run leaves behind. The installer's lemmas carry what one step established over
  the later ones, so that the end of the installation is described by the host's files, and the
  doctor's checks are evaluated on that host; on Windows the same is done with the descriptors, and the
  lemmas on lists compare what the doctor reads in one with what the system grants by it. The lemmas on
  the client show that a request reaches its handler with the arguments it was given. Some theorems state a behaviour the code does not intend;
  each shows the input on which it happens.

  \<^bold>\<open>Parameters.\<close> Code outside the sources is an argument: argon2 (\<open>idkey\<close>), BLAKE3 and SHA-256
  (\<open>sum256\<close>), the SSH library (\<open>ssh_lib\<close>), JSON texts (an optional record, or a pair of encoder and
  decoder), the network (\<open>fetch\<close>), the process table (\<open>kill\<close>), the commands an installation runs
  (\<open>ie_run\<close>, with \<open>documented_commands\<close> as what \<^verbatim>\<open>chown\<close>, \<^verbatim>\<open>chmod\<close> and the others are documented to
  change), the service library, and clocks and random bytes.

  \<^bold>\<open>Bounds.\<close> Times are nanoseconds (\<open>gotime\<close>) as integers; arithmetic on durations and on the
  sequence numbers wraps at 64 bits where the code may reach it. The wait of the Windows agent is
  a \<^verbatim>\<open>partial_function (option)\<close> and proved to return; every other loop is a total recursion.

  \<^bold>\<open>Atomicity.\<close> A store method is one transaction. \<open>agent_step\<close> and \<open>launch_step\<close> interleave at the
  channel operations and at whole applies or updates; \<open>lock_step\<close> at single system calls.

  \<^bold>\<open>Simplifications.\<close> \<open>strings.ToLower\<close> maps ASCII letters only, \<open>strings.EqualFold\<close> compares runes
  and folds the ASCII letters with their Unicode variants. \<open>Files\<close> has no
  symbolic links, modes or owners; \<open>Cert_Authority\<close> and \<open>Installer\<close> have file models with modes and
  owners. The installer's paths are clean, and the only symbolic links it meets are inside the
  payload store, which its model takes as one value. URLs with
  IPv6 zones are outside \<open>url_parse_host\<close>'s theorem. Logging and metrics are left out.

  \<^bold>\<open>Not modelled.\<close> The command tree and its flags; \<^verbatim>\<open>agent launch\<close> and \<^verbatim>\<open>agent rollback\<close>, which call what
  \<open>Launcher\<close> and \<open>Self_Update\<close> model; the SQL text of the migrations, of which the final schema is what
  \<open>Store\<close> is built on; the control loop of the Windows services (\<^verbatim>\<open>cmd/uncluster\<close>); process start and
  restart (\<^verbatim>\<open>launcher_exec_unix.go\<close>, \<^verbatim>\<open>runlauncher_*.go\<close>, \<^verbatim>\<open>restart_*.go\<close>); metrics and request logging;
  the end-to-end tests.
\<close>

end
